(* ===== verification/Prelude.thy ===== *)
theory Prelude
  imports Main "HOL-Library.Word" "HOL-Library.Multiset" "HOL-Library.AList" "HOL-Library.Sublist"
begin

text \<open>
  Shared vocabulary of the development: the machine types of the Go sources, the error values the
  code returns or panics with, Go maps with their update and iteration, and the generic lemmas on
  lists, maps and results that the component theories use.

  A Go \<^verbatim>\<open>string\<close> or \<^verbatim>\<open>[]byte\<close> is a list of bytes, here a \<^typ>\<open>string\<close> (an Isabelle \<^typ>\<open>char\<close>
  is one byte); unsigned machine integers are words.  A Go map is an association list with distinct
  keys, whose order stands for the unspecified iteration order of Go: theorems about code that
  ranges over a map quantify over every such list.
\<close>

section \<open>Types\<close>

type_synonym bytes = string
type_synonym u32 = "32 word"
type_synonym u64 = "64 word"
type_synonym ('k, 'v) gomap = "('k \<times> 'v) list"

text \<open>
  The values an operation can fail with: the sentinel errors of
  \<^verbatim>\<open>process/dataindexer/errors.go\<close>, of the accounts, transactions, block and converters packages,
  an error returned by code outside the repository (with its message), an error wrapped by \<^verbatim>\<open>fmt.Errorf\<close>
  with \<^verbatim>\<open>%w\<close>, and the two kinds of run-time panic that the sources can reach.  \<open>LoopFuelExhausted\<close> is no error of
  the code: it marks a loop of the client that has not ended within the iterations it was given.
\<close>

datatype go_error =
    PanicIndexOutOfRange
  | PanicNilDereference
  | ExternalError string
  | ErrNilMarshalizer
  | ErrNilPubkeyConverter
  | ErrNegativeDenominationValue
  | ErrNilElasticProcessor
  | ErrEmptyEnabledIndexes
  | ErrCouldNotCreatePolicy
  | ErrNoElasticUrlProvided
  | ErrBackOff
  | ErrNilHasher
  | ErrNilUrl
  | ErrNilHeaderHandler
  | ErrNilBlockBody
  | ErrHeaderTypeAssertion
  | ErrNilElasticBlock
  | ErrNilElasticProcessorArguments
  | ErrNilEnabledIndexesMap
  | ErrNilDatabaseClient
  | ErrNilStatisticHandler
  | ErrNilBlockHandler
  | ErrNilAccountsHandler
  | ErrNilMiniblocksHandler
  | ErrNilValidatorsHandler
  | ErrNilTransactionsHandler
  | ErrNilTransactionsProcessorArguments
  | ErrNilPool
  | ErrNilLogsAndEventsHandler
  | ErrNilBalanceConverter
  | ErrNilOperationsHandler
  | ErrNilBlockContainerHandler
  | ErrNilIndexTokensHandler
  | ErrNilTxHashExtractor
  | ErrNilRewardTxDataHandler
  | ErrTokenNotFound
  | ErrValueTooBig
  | ErrCastStringToBigInt
  | ErrNilBlockData
  | ErrNilHeaderGasConsumed
  | ErrMarshalUnsupportedValue
  | ErrNilDataIndexer
  | ErrNilMetricsHandler
  | ErrNilRequest
  | ErrNilRunTypeComponents
  | ErrUnmarshal
  | ErrResponse string
  | ErrWrapped string go_error
  | LoopFuelExhausted

type_synonym 'a result = "go_error + 'a"

fun bindr :: "'a result \<Rightarrow> ('a \<Rightarrow> 'b result) \<Rightarrow> 'b result" where
  "bindr (Inl e) f = Inl e"
| "bindr (Inr x) f = f x"

text \<open>\<^verbatim>\<open>xs[i]\<close> on a slice: a run-time panic out of range.\<close>

definition index_r :: "'a list \<Rightarrow> nat \<Rightarrow> 'a result" where
  "index_r xs i = (if i < length xs then Inr (xs ! i) else Inl PanicIndexOutOfRange)"

text \<open>A loop that leaves at the first error.\<close>

fun fold_r :: "('a \<Rightarrow> 's \<Rightarrow> 's result) \<Rightarrow> 'a list \<Rightarrow> 's \<Rightarrow> 's result" where
  "fold_r f [] s = Inr s"
| "fold_r f (x # xs) s = bindr (f x s) (fold_r f xs)"

section \<open>Go maps\<close>

definition gm_set :: "'k \<Rightarrow> 'v \<Rightarrow> ('k, 'v) gomap \<Rightarrow> ('k, 'v) gomap" where
  "gm_set k v m = AList.update k v m"

definition gm_delete :: "'k \<Rightarrow> ('k, 'v) gomap \<Rightarrow> ('k, 'v) gomap" where
  "gm_delete k m = AList.delete k m"

definition gm_values :: "('k, 'v) gomap \<Rightarrow> 'v list" where
  "gm_values m = map snd m"

definition gm_keys :: "('k, 'v) gomap \<Rightarrow> 'k list" where
  "gm_keys m = map fst m"

definition gm_wf :: "('k, 'v) gomap \<Rightarrow> bool" where
  "gm_wf m \<longleftrightarrow> distinct (map fst m)"

text \<open>Reading a slice-valued map: a missing key gives the nil slice.\<close>

definition the_default_list :: "'a list option \<Rightarrow> 'a list" where
  "the_default_list r = (case r of None \<Rightarrow> [] | Some xs \<Rightarrow> xs)"

section \<open>Collections and shared lemmas\<close>

named_theorems gomap_simps \<open>reading a Go map after an update\<close>
named_theorems frame_simps \<open>components of a state an operation leaves alone\<close>
named_theorems consts_simps \<open>unfolding of the constants of the sources\<close>

lemma the_default_list_simps [simp]: "the_default_list None = []" "the_default_list (Some xs) = xs"
  by (simp_all add: the_default_list_def)

lemma bindr_Inr_iff: "bindr r f = Inr y \<longleftrightarrow> (\<exists>x. r = Inr x \<and> f x = Inr y)"
  by (cases r) auto

lemma bindr_Inl_iff: "bindr r f = Inl e \<longleftrightarrow> r = Inl e \<or> (\<exists>x. r = Inr x \<and> f x = Inl e)"
  by (cases r) auto

lemma bindr_assoc: "bindr (bindr r f) g = bindr r (\<lambda>x. bindr (f x) g)"
  by (cases r) auto

lemma bindr_cong [fundef_cong]:
  "r = r' \<Longrightarrow> (\<And>x. r' = Inr x \<Longrightarrow> f x = g x) \<Longrightarrow> bindr r f = bindr r' g"
  by (cases r') auto

lemma index_r_in_range [simp]: "i < length xs \<Longrightarrow> index_r xs i = Inr (xs ! i)"
  by (simp add: index_r_def)

lemma index_r_panic_iff: "index_r xs i = Inl e \<longleftrightarrow> length xs \<le> i \<and> e = PanicIndexOutOfRange"
  by (auto simp: index_r_def)

lemma index_r_Inr_iff: "index_r xs i = Inr x \<longleftrightarrow> i < length xs \<and> x = xs ! i"
  by (auto simp: index_r_def)

lemma fold_r_append: "fold_r f (xs @ ys) s = bindr (fold_r f xs s) (fold_r f ys)"
proof (induction xs arbitrary: s)
  case (Cons x xs)
  then have "fold_r f (xs @ ys) = (\<lambda>t. bindr (fold_r f xs t) (fold_r f ys))" by auto
  then show ?case by (simp add: bindr_assoc)
qed simp

lemma fold_r_invariant:
  assumes "fold_r f xs s = Inr t" and "P s"
    and "\<And>x u v. x \<in> set xs \<Longrightarrow> f x u = Inr v \<Longrightarrow> P u \<Longrightarrow> P v"
  shows "P t"
  using assms
  by (induction xs arbitrary: s) (auto simp: bindr_Inr_iff)

lemma fold_r_total:
  assumes "\<And>x u. x \<in> set xs \<Longrightarrow> \<exists>v. f x u = Inr v"
  shows "\<exists>t. fold_r f xs s = Inr t"
  using assms by (induction xs arbitrary: s) (fastforce simp: bindr_Inr_iff)+

lemma fold_r_Inr_fold: "(\<And>x u. f x u = Inr (g x u)) \<Longrightarrow> fold_r f xs s = Inr (fold g xs s)"
  by (induction xs arbitrary: s) auto

lemma map_of_gm_set [gomap_simps, simp]: "map_of (gm_set k v m) = (map_of m)(k \<mapsto> v)"
  by (simp add: gm_set_def update_conv')

lemma map_of_gm_delete [gomap_simps, simp]: "map_of (gm_delete k m) = (map_of m)(k := None)"
  by (simp add: gm_delete_def delete_conv')

lemma gm_wf_Nil [simp]: "gm_wf []"
  by (simp add: gm_wf_def)

lemma gm_wf_set [simp, intro]: "gm_wf m \<Longrightarrow> gm_wf (gm_set k v m)"
  by (simp add: gm_wf_def gm_set_def distinct_update)

lemma gm_wf_delete [simp, intro]: "gm_wf m \<Longrightarrow> gm_wf (gm_delete k m)"
  by (simp add: gm_wf_def gm_delete_def distinct_delete)

lemma set_keys_gm_set [simp]: "fst ` set (gm_set k v m) = insert k (fst ` set m)"
  using dom_update [of k v m] by (simp add: gm_set_def)

lemma gm_wf_map_of_iff: "gm_wf m \<Longrightarrow> (k, v) \<in> set m \<longleftrightarrow> map_of m k = Some v"
  by (simp add: gm_wf_def)

lemma gm_wf_distinct_pairs: "gm_wf m \<Longrightarrow> distinct m"
  by (auto simp: gm_wf_def distinct_map)

lemma gm_wf_values_iff: "gm_wf m \<Longrightarrow> v \<in> set (gm_values m) \<longleftrightarrow> (\<exists>k. map_of m k = Some v)"
  by (force simp: gm_values_def gm_wf_map_of_iff [symmetric])

lemma length_gm_set:
  "length (gm_set k v m) = (if k \<in> fst ` set m then length m else Suc (length m))"
  by (induction m) (auto simp: gm_set_def)

end
