(* ===== verification/Go_Lib.thy ===== *)
theory Go_Lib
  imports Prelude
begin

text \<open>
  The functions of the Go standard library that the sources call: decimal and hexadecimal text
  (\<^verbatim>\<open>fmt\<close>, \<^verbatim>\<open>strconv\<close>, \<^verbatim>\<open>encoding/hex\<close>), big-endian integers (\<^verbatim>\<open>math/big\<close>), and splitting,
  joining and lower-casing of strings (\<^verbatim>\<open>strings\<close>).  The lemmas are the round trips and
  injectivity facts on which document identifiers rest.
\<close>

section \<open>Decimal text\<close>

definition digit_char :: "nat \<Rightarrow> char" where
  "digit_char n = char_of (48 + n)"

definition is_digit_char :: "char \<Rightarrow> bool" where
  "is_digit_char c \<longleftrightarrow> 48 \<le> (of_char c :: nat) \<and> (of_char c :: nat) \<le> 57"

text \<open>\<^verbatim>\<open>%d\<close> of an unsigned value, and of a signed one.\<close>

fun dec_nat :: "nat \<Rightarrow> string" where
  "dec_nat n = (if n < 10 then [digit_char n] else dec_nat (n div 10) @ [digit_char (n mod 10)])"

declare dec_nat.simps [simp del]

definition dec_int :: "int \<Rightarrow> string" where
  "dec_int i = (if i < 0 then CHR ''-'' # dec_nat (nat (- i)) else dec_nat (nat i))"

text \<open>The value of a string of digits, \<open>None\<close> when it is empty or has another character.\<close>

definition digits_value :: "string \<Rightarrow> nat" where
  "digits_value s = foldl (\<lambda>a c. 10 * a + (of_char c - 48)) 0 s"

definition parse_digits :: "string \<Rightarrow> nat option" where
  "parse_digits s = (if s \<noteq> [] \<and> list_all is_digit_char s then Some (digits_value s) else None)"

text \<open>\<^verbatim>\<open>strconv.ParseUint(s, 10, bits)\<close> and \<^verbatim>\<open>(*big.Int).SetString(s, 10)\<close>.\<close>

definition parse_uint :: "nat \<Rightarrow> string \<Rightarrow> nat option" where
  "parse_uint bits s =
     (case parse_digits s of None \<Rightarrow> None | Some n \<Rightarrow> if n < 2 ^ bits then Some n else None)"

fun set_string10 :: "string \<Rightarrow> int option" where
  "set_string10 [] = None"
| "set_string10 (c # s) =
     (if c = CHR ''-'' then map_option (\<lambda>n. - int n) (parse_digits s)
      else if c = CHR ''+'' then map_option int (parse_digits s)
      else map_option int (parse_digits (c # s)))"

text \<open>\<^verbatim>\<open>strconv.ParseBool\<close>: \<open>None\<close> is the syntax error.\<close>

definition parse_bool :: "string \<Rightarrow> bool option" where
  "parse_bool s =
     (if s \<in> {''1'', ''t'', ''T'', ''TRUE'', ''true'', ''True''} then Some True
      else if s \<in> {''0'', ''f'', ''F'', ''FALSE'', ''false'', ''False''} then Some False
      else None)"

section \<open>Hexadecimal text and big-endian integers\<close>

definition hex_digit :: "nat \<Rightarrow> char" where
  "hex_digit n = (if n < 10 then char_of (48 + n) else char_of (87 + n))"

definition hex_encode :: "bytes \<Rightarrow> string" where
  "hex_encode s = concat (map (\<lambda>c. [hex_digit (of_char c div 16), hex_digit (of_char c mod 16)]) s)"

definition hex_value :: "char \<Rightarrow> nat option" where
  "hex_value c =
     (let n = of_char c in
      if 48 \<le> n \<and> n \<le> 57 then Some (n - 48)
      else if 97 \<le> n \<and> n \<le> 102 then Some (n - 87)
      else if 65 \<le> n \<and> n \<le> 70 then Some (n - 55)
      else None)"

text \<open>\<^verbatim>\<open>hex.DecodeString\<close>: \<open>None\<close> for an odd length or a character that is not a digit.\<close>

fun hex_decode :: "string \<Rightarrow> bytes option" where
  "hex_decode [] = Some []"
| "hex_decode [c] = None"
| "hex_decode (c # d # s) =
     (case (hex_value c, hex_value d) of
        (Some a, Some b) \<Rightarrow> map_option (\<lambda>r. char_of (16 * a + b) # r) (hex_decode s)
      | _ \<Rightarrow> None)"

text \<open>\<^verbatim>\<open>big.NewInt(0).SetBytes(b)\<close> and \<^verbatim>\<open>x.Bytes()\<close>.\<close>

definition be_nat :: "bytes \<Rightarrow> nat" where
  "be_nat s = foldl (\<lambda>a c. 256 * a + of_char c) 0 s"

fun be_bytes :: "nat \<Rightarrow> bytes" where
  "be_bytes n = (if n = 0 then [] else be_bytes (n div 256) @ [char_of (n mod 256)])"

declare be_bytes.simps [simp del]

text \<open>\<^verbatim>\<open>x.Uint64()\<close> keeps the low 64 bits.\<close>

definition be_u64 :: "bytes \<Rightarrow> u64" where
  "be_u64 s = of_nat (be_nat s)"

section \<open>Strings\<close>

text \<open>\<^verbatim>\<open>strings.Split\<close> and \<^verbatim>\<open>strings.Join\<close> with a separator of one byte.\<close>

fun split_char :: "char \<Rightarrow> string \<Rightarrow> string list" where
  "split_char sep [] = [[]]"
| "split_char sep (c # s) =
     (if c = sep then [] # split_char sep s
      else (case split_char sep s of [] \<Rightarrow> [[c]] | w # ws \<Rightarrow> (c # w) # ws))"

fun join_char :: "char \<Rightarrow> string list \<Rightarrow> string" where
  "join_char sep [] = []"
| "join_char sep [w] = w"
| "join_char sep (w # v # ws) = w @ sep # join_char sep (v # ws)"

definition is_ascii :: "string \<Rightarrow> bool" where
  "is_ascii s \<longleftrightarrow> list_all (\<lambda>c. (of_char c :: nat) < 128) s"

definition ascii_lower :: "char \<Rightarrow> char" where
  "ascii_lower c = (let n = of_char c in if 65 \<le> n \<and> n \<le> (90::nat) then char_of (n + 32) else c)"

definition ascii_letter :: "char \<Rightarrow> bool" where
  "ascii_letter c \<longleftrightarrow> (let n = of_char c in (65 \<le> n \<and> n \<le> (90::nat)) \<or> (97 \<le> n \<and> n \<le> 122))"

section \<open>Lemmas\<close>

lemma of_char_digit_char [simp]: "n < 10 \<Longrightarrow> of_char (digit_char n) = 48 + n"
  by (simp add: digit_char_def)

lemma is_digit_digit_char [simp]: "n < 10 \<Longrightarrow> is_digit_char (digit_char n)"
  by (simp add: is_digit_char_def)

lemma digits_value_snoc: "digits_value (s @ [c]) = 10 * digits_value s + (of_char c - 48)"
  by (simp add: digits_value_def)

lemma dec_nat_digits: "list_all is_digit_char (dec_nat n)"
proof (induction n rule: dec_nat.induct)
  case (1 n)
  then show ?case by (subst dec_nat.simps) auto
qed

lemma dec_nat_nonempty [simp]: "dec_nat n \<noteq> []"
  by (subst dec_nat.simps) simp

lemma digits_value_dec_nat [simp]: "digits_value (dec_nat n) = n"
proof (induction n rule: dec_nat.induct)
  case (1 n)
  show ?case
  proof (cases "n < 10")
    case True
    then show ?thesis by (subst dec_nat.simps) (simp add: digits_value_def)
  next
    case False
    with 1 have "digits_value (dec_nat (n div 10)) = n div 10" by simp
    with False show ?thesis
      by (subst dec_nat.simps) (simp add: digits_value_snoc)
  qed
qed

lemma parse_digits_dec_nat [simp]: "parse_digits (dec_nat n) = Some n"
  by (simp add: parse_digits_def dec_nat_digits)

lemma dec_nat_inject [simp]: "dec_nat m = dec_nat n \<longleftrightarrow> m = n"
  by (metis digits_value_dec_nat)

lemma parse_uint_dec_nat: "n < 2 ^ bits \<Longrightarrow> parse_uint bits (dec_nat n) = Some n"
  by (simp add: parse_uint_def)

lemma dec_nat_no_char: "\<not> is_digit_char c \<Longrightarrow> c \<notin> set (dec_nat n)"
  using dec_nat_digits [of n] by (auto simp: list_all_iff)

lemma set_string10_dec_nat: "set_string10 (dec_nat n) = Some (int n)"
proof -
  obtain c s where cs: "dec_nat n = c # s"
    by (cases "dec_nat n") auto
  then have "is_digit_char c"
    using dec_nat_digits [of n] by simp
  then have "c \<noteq> CHR ''-''" "c \<noteq> CHR ''+''"
    by (auto simp: is_digit_char_def)
  then show ?thesis
    using parse_digits_dec_nat [of n] by (simp add: cs)
qed

lemma set_string10_dec_int: "set_string10 (dec_int i) = Some i"
  by (auto simp: dec_int_def set_string10_dec_nat)

lemma hex_value_hex_digit: "n < 16 \<Longrightarrow> hex_value (hex_digit n) = Some n"
  by (auto simp: hex_digit_def hex_value_def)

lemma hex_encode_Nil [simp]: "hex_encode [] = []"
  by (simp add: hex_encode_def)

lemma hex_encode_Cons [simp]:
  "hex_encode (c # s) = hex_digit (of_char c div 16) # hex_digit (of_char c mod 16) # hex_encode s"
  by (simp add: hex_encode_def)

lemma length_hex_encode: "length (hex_encode s) = 2 * length s"
  by (induction s) auto

lemma of_char_nibbles: "(of_char c :: nat) div 16 < 16" "(of_char c :: nat) mod 16 < 16"
  using nat_of_char_less_256 [of c] by (simp_all add: less_mult_imp_div_less)

lemma hex_decode_encode [simp]: "hex_decode (hex_encode s) = Some s"
  by (induction s) (simp_all add: hex_value_hex_digit of_char_nibbles)

lemma hex_encode_inject [simp]: "hex_encode s = hex_encode t \<longleftrightarrow> s = t"
  by (metis hex_decode_encode option.inject)

lemma be_nat_snoc: "be_nat (s @ [c]) = 256 * be_nat s + of_char c"
  by (simp add: be_nat_def)

lemma be_nat_be_bytes [simp]: "be_nat (be_bytes n) = n"
proof (induction n rule: be_bytes.induct)
  case (1 n)
  then show ?case
    by (cases "n = 0"; subst be_bytes.simps) (simp_all add: be_nat_snoc, simp add: be_nat_def)
qed

lemma be_bytes_inject [simp]: "be_bytes m = be_bytes n \<longleftrightarrow> m = n"
  by (metis be_nat_be_bytes)

lemma be_bytes_zero [simp]: "be_bytes 0 = []"
  by (simp add: be_bytes.simps)

lemma be_bytes_nonempty: "n \<noteq> 0 \<Longrightarrow> be_bytes n \<noteq> []"
  by (subst be_bytes.simps) simp

lemma be_nat_bound: "be_nat s < 256 ^ length s"
proof (induction s rule: rev_induct)
  case (snoc c s)
  have "be_nat (s @ [c]) < 256 * (be_nat s + 1)" by (simp add: be_nat_snoc)
  also have "\<dots> \<le> 256 * 256 ^ length s" using snoc by (intro mult_le_mono2) simp
  finally show ?case by simp
qed (simp add: be_nat_def)

lemma length_be_bytes_le_iff: "length (be_bytes n) \<le> k \<longleftrightarrow> n < 256 ^ k"
proof
  assume "length (be_bytes n) \<le> k"
  then have "(256::nat) ^ length (be_bytes n) \<le> 256 ^ k" by (intro power_increasing) auto
  with be_nat_bound [of "be_bytes n"] show "n < 256 ^ k"
    unfolding be_nat_be_bytes by (rule order_less_le_trans)
next
  show "n < 256 ^ k \<Longrightarrow> length (be_bytes n) \<le> k"
  proof (induction n arbitrary: k rule: be_bytes.induct)
    case (1 n)
    show ?case
    proof (cases "n = 0")
      case False
      with 1 obtain j where "k = Suc j" by (cases k) auto
      with 1 False show ?thesis by (subst be_bytes.simps) (auto simp: less_mult_imp_div_less)
    qed simp
  qed
qed

lemma hd_be_bytes: "n \<noteq> 0 \<Longrightarrow> hd (be_bytes n) \<noteq> char_of (0::nat)"
proof (induction n rule: be_bytes.induct)
  case (1 n)
  show ?case
  proof (cases "n div 256 = 0")
    case True
    with 1 show ?thesis by (subst be_bytes.simps) auto
  next
    case False
    with 1 show ?thesis by (subst be_bytes.simps) (auto simp: be_bytes_nonempty)
  qed
qed

lemma split_char_nonempty [simp]: "split_char sep s \<noteq> []"
  by (induction s) (auto split: list.splits)

lemma join_split_char [simp]: "join_char sep (split_char sep s) = s"
proof (induction s)
  case (Cons c s)
  obtain w ws where "split_char sep s = w # ws"
    by (cases "split_char sep s") auto
  with Cons show ?case by (cases ws) auto
qed simp

lemma split_char_no_sep: "w \<in> set (split_char sep s) \<Longrightarrow> sep \<notin> set w"
  by (induction s arbitrary: w) (auto split: list.splits if_splits)

lemma split_char_word: "sep \<notin> set w \<Longrightarrow> split_char sep w = [w]"
  by (induction w) auto

lemma split_char_append: "sep \<notin> set w \<Longrightarrow> split_char sep (w @ sep # s) = w # split_char sep s"
  by (induction w) auto

lemma split_join_char:
  "ws \<noteq> [] \<Longrightarrow> \<forall>w \<in> set ws. sep \<notin> set w \<Longrightarrow> split_char sep (join_char sep ws) = ws"
  by (induction sep ws rule: join_char.induct) (auto simp: split_char_word split_char_append)

text \<open>The pieces around a separator that one of them does not contain are determined.\<close>

lemma append_sep_inject:
  "a @ c # b = a' @ c # b' \<Longrightarrow> c \<notin> set b \<Longrightarrow> c \<notin> set b' \<Longrightarrow> a = a' \<and> b = b'"
proof (induction a arbitrary: a')
  case Nil
  then show ?case by (cases a') auto
next
  case (Cons x a)
  then show ?case by (cases a') auto
qed

lemma hex_encode_no_dash: "CHR ''-'' \<notin> set (hex_encode s)"
proof -
  have "hex_digit n \<noteq> CHR ''-''" if "n < 16" for n
    using that hex_value_hex_digit [of n] by (auto simp: hex_value_def)
  then show ?thesis
    by (induction s) (auto simp: of_char_nibbles dest: sym)
qed

end
