(* ===== verification/Float64.thy ===== *)
theory Float64
  imports Complex_Main Prelude
begin

text \<open>
  IEEE 754 binary64 values (Go's \<^verbatim>\<open>float64\<close>) as exact rationals with the two infinities and NaN, and
  the operations the balance converter uses, each the exact rational result followed by one rounding
  to nearest, ties to even.  The sign of a zero is not kept: the converter clamps its result with a
  maximum against zero and no other operation of the sources reads it.
\<close>

datatype f64 = Fin rat | PosInf | NegInf | NaN

text \<open>The exponent \<open>e\<close> with \<open>2 ^ e \<le> x < 2 ^ (e + 1)\<close>, for a positive \<open>x\<close>.\<close>

fun bitlen_nat :: "nat \<Rightarrow> nat" where
  "bitlen_nat n = (if n = 0 then 0 else Suc (bitlen_nat (n div 2)))"

declare bitlen_nat.simps [simp del]

definition ilog2 :: "rat \<Rightarrow> int" where
  "ilog2 x =
     (let (p, q) = quotient_of x;
          d = int (bitlen_nat (nat p)) - int (bitlen_nat (nat q))
      in if x < 2 powi d then d - 1 else d)"

definition round_half_even :: "rat \<Rightarrow> int" where
  "round_half_even x =
     (let n = \<lfloor>x\<rfloor>; r = x - of_int n in
      if r < 1 / 2 then n else if r > 1 / 2 then n + 1 else if even n then n else n + 1)"

definition rnd_pos :: "rat \<Rightarrow> f64" where
  "rnd_pos x =
     (let u = 2 powi (max (ilog2 x) (- 1022) - 52);
          v = of_int (round_half_even (x / u)) * u
      in if v \<ge> 2 ^ 1024 then PosInf else Fin v)"

definition rnd :: "rat \<Rightarrow> f64" where
  "rnd x =
     (if x = 0 then Fin 0
      else if x > 0 then rnd_pos x
      else (case rnd_pos (- x) of Fin v \<Rightarrow> Fin (- v) | PosInf \<Rightarrow> NegInf | y \<Rightarrow> y))"

fun f64_neg :: "f64 \<Rightarrow> f64" where
  "f64_neg (Fin x) = Fin (- x)"
| "f64_neg PosInf = NegInf"
| "f64_neg NegInf = PosInf"
| "f64_neg NaN = NaN"

text \<open>Multiplication and division by a finite positive number, or by \<open>+Inf\<close>.\<close>

fun f64_mul_pos :: "f64 \<Rightarrow> rat \<Rightarrow> f64" where
  "f64_mul_pos (Fin x) y = rnd (x * y)"
| "f64_mul_pos a y = a"

fun f64_div_pos :: "f64 \<Rightarrow> f64 \<Rightarrow> f64" where
  "f64_div_pos (Fin x) (Fin y) = rnd (x / y)"
| "f64_div_pos (Fin x) PosInf = Fin 0"
| "f64_div_pos PosInf (Fin y) = PosInf"
| "f64_div_pos NegInf (Fin y) = NegInf"
| "f64_div_pos _ _ = NaN"

text \<open>\<^verbatim>\<open>math.Round\<close>: to the nearest integer, half away from zero; exact.\<close>

fun f64_round :: "f64 \<Rightarrow> f64" where
  "f64_round (Fin x) = Fin (of_int (if x < 0 then - \<lfloor>1 / 2 - x\<rfloor> else \<lfloor>x + 1 / 2\<rfloor>))"
| "f64_round a = a"

fun f64_is_inf :: "f64 \<Rightarrow> bool" where
  "f64_is_inf PosInf = True"
| "f64_is_inf NegInf = True"
| "f64_is_inf _ = False"

fun f64_finite :: "f64 \<Rightarrow> bool" where
  "f64_finite (Fin _) = True"
| "f64_finite _ = False"

section \<open>Lemmas: rounding is finite below the overflow threshold\<close>

lemma bitlen_bounds: "n > 0 \<Longrightarrow> 2 ^ (bitlen_nat n - 1) \<le> n \<and> n < 2 ^ bitlen_nat n \<and> bitlen_nat n > 0"
proof (induction n rule: bitlen_nat.induct)
  case (1 n)
  show ?case
  proof (cases "n div 2 = 0")
    case True
    with 1 have n: "n = Suc 0" by simp
    have "bitlen_nat (Suc 0) = 1"
      by (simp add: bitlen_nat.simps [of "Suc 0"] bitlen_nat.simps [of 0])
    with n show ?thesis by simp
  next
    case False
    define k where "k = bitlen_nat (n div 2)"
    have b: "2 ^ (k - 1) \<le> n div 2" "n div 2 < 2 ^ k" "k > 0"
      using 1 False by (simp_all add: k_def)
    have "bitlen_nat n = Suc k" using 1 by (simp add: bitlen_nat.simps [of n] k_def)
    moreover have "2 ^ k \<le> n" using b by (cases k) auto
    moreover have "n < 2 * 2 ^ k" using b by linarith
    ultimately show ?thesis by simp
  qed
qed

lemma round_half_even_bounds: "of_int (round_half_even x) \<le> x + 1 / 2" "x - 1 / 2 \<le> of_int (round_half_even x)"
proof -
  define r where "r = x - of_int \<lfloor>x\<rfloor>"
  have x: "x = of_int \<lfloor>x\<rfloor> + r" by (simp add: r_def)
  show "of_int (round_half_even x) \<le> x + 1 / 2" "x - 1 / 2 \<le> of_int (round_half_even x)"
    using x by (auto simp: round_half_even_def Let_def r_def [symmetric], linarith+)
qed

lemma ilog2_le:
  assumes "x > 0"
  shows "2 powi ilog2 x \<le> x"
proof -
  obtain p q where pq: "quotient_of x = (p, q)" by (cases "quotient_of x")
  then have q: "q > 0" and x: "x = of_int p / of_int q"
    by (auto simp: quotient_of_denom_pos quotient_of_div)
  with assms have p: "p > 0" by (simp add: zero_less_divide_iff)
  define a b where "a = bitlen_nat (nat p)" and "b = bitlen_nat (nat q)"
  have a: "2 ^ (a - 1) \<le> nat p" "a > 0" and b: "nat q < 2 ^ b"
    using p q bitlen_bounds [of "nat p"] bitlen_bounds [of "nat q"] by (auto simp: a_def b_def)
  have "(2::int) ^ (a - 1) \<le> p" using a(1) p by (simp add: le_nat_iff)
  then have p': "(2::rat) ^ (a - 1) \<le> of_int p" by (metis of_int_le_iff of_int_numeral of_int_power)
  have "q < (2::int) ^ b" using b q by (simp add: nat_less_iff)
  then have q': "of_int q < (2::rat) ^ b" by (metis of_int_less_iff of_int_numeral of_int_power)
  have "int a - int b - 1 = int (a - 1) - int b" using a(2) by simp
  then have "(2::rat) powi (int a - int b - 1) = 2 powi (int (a - 1) - int b)" by (rule arg_cong)
  also have "\<dots> = 2 ^ (a - 1) / 2 ^ b" by (subst power_int_diff) auto
  also have "\<dots> \<le> of_int p / of_int q"
    using p p' q' q by (intro frac_le) auto
  finally have "(2::rat) powi (int a - int b - 1) \<le> x" by (simp add: x)
  then show ?thesis
    by (auto simp: ilog2_def pq Let_def a_def [symmetric] b_def [symmetric])
qed

lemma round_half_even_nonneg: "0 \<le> x \<Longrightarrow> 0 \<le> round_half_even x"
  by (auto simp: round_half_even_def Let_def)

lemma two_powi_le_one: "(n::int) \<le> 0 \<Longrightarrow> (2::rat) powi n \<le> 1"
  using power_int_increasing [of n 0 "2::rat"] by simp

lemma rnd_pos_bound:
  assumes "0 < x" and "x < 2 ^ 1000"
  shows "\<exists>v. rnd_pos x = Fin v \<and> 0 \<le> v \<and> v \<le> 2 * max x 1"
proof -
  define u where "u = (2::rat) powi (max (ilog2 x) (- 1022) - 52)"
  define v where "v = of_int (round_half_even (x / u)) * u"
  have u: "u > 0" by (simp add: u_def)
  have u_le: "u \<le> max x 1"
  proof (cases "ilog2 x \<le> - 1022")
    case True
    then have "u \<le> 1" unfolding u_def by (intro two_powi_le_one) simp
    then show ?thesis by simp
  next
    case False
    then have "u \<le> 2 powi ilog2 x" unfolding u_def by (intro power_int_increasing) auto
    with ilog2_le [OF assms(1)] show ?thesis by simp
  qed
  have "v \<le> (x / u + 1 / 2) * u"
    unfolding v_def using u round_half_even_bounds(1) [of "x / u"] by (intro mult_right_mono) auto
  also have "\<dots> = x + u / 2" using u by (simp add: field_simps)
  also have "\<dots> \<le> 2 * max x 1" using u_le u by linarith
  finally have v: "v \<le> 2 * max x 1" .
  have "0 \<le> v" unfolding v_def using u assms(1)
    by (intro mult_nonneg_nonneg) (auto intro: round_half_even_nonneg)
  moreover have "v < 2 ^ 1024"
  proof -
    have "max x 1 < 2 ^ 1000" using assms(2) by simp
    then have "v < 2 * 2 ^ 1000" using v by linarith
    also have "\<dots> < (2::rat) ^ 1024" by simp
    finally show ?thesis .
  qed
  ultimately show ?thesis
    using v by (auto simp: rnd_pos_def u_def v_def Let_def)
qed

lemma rnd_bound:
  assumes "0 \<le> x" and "x < 2 ^ 1000"
  shows "\<exists>v. rnd x = Fin v \<and> 0 \<le> v \<and> v \<le> 2 * max x 1"
  using rnd_pos_bound [of x] assms by (cases "x = 0") (auto simp: rnd_def)

lemma rnd_neg:
  assumes "x < 0" and "- x < 2 ^ 1000"
  shows "\<exists>v. rnd x = Fin v \<and> v \<le> 0 \<and> - v \<le> 2 * max (- x) 1"
  using rnd_pos_bound [of "- x"] assms by (auto simp: rnd_def)

lemma rnd_abs:
  assumes "\<bar>x\<bar> < 2 ^ 1000"
  shows "\<exists>v. rnd x = Fin v \<and> \<bar>v\<bar> \<le> 2 * max \<bar>x\<bar> 1"
proof (cases "x < 0")
  case True
  with rnd_neg [of x] assms show ?thesis by auto
next
  case False
  with rnd_bound [of x] assms show ?thesis by auto
qed

lemma f64_round_abs: "\<exists>w. f64_round (Fin x) = Fin w \<and> \<bar>w\<bar> \<le> \<bar>x\<bar> + 1"
proof (cases "x < 0")
  case True
  have "of_int \<lfloor>1 / 2 - x\<rfloor> \<le> 1 - x" using of_int_floor_le [of "1 / 2 - x"] by linarith
  moreover have "0 \<le> \<lfloor>1 / 2 - x\<rfloor>" using True by auto
  ultimately show ?thesis using True by simp
next
  case False
  have "of_int \<lfloor>x + 1 / 2\<rfloor> \<le> x + 1" using of_int_floor_le [of "x + 1 / 2"] by linarith
  moreover have "0 \<le> \<lfloor>x + 1 / 2\<rfloor>" using False by auto
  ultimately show ?thesis using False by simp
qed

lemma abs_divide_le: "1 \<le> (d::rat) \<Longrightarrow> \<bar>x / d\<bar> \<le> \<bar>x\<bar>"
  by (simp add: abs_divide divide_le_eq mult_le_cancel_left1)

end
