(* ===== verification/Data_Model.thy ===== *)
theory Data_Model
  imports Float64 Go_Lib
begin

text \<open>
  The documents and intermediate structures of the package \<^verbatim>\<open>data\<close>, one record per Go struct with
  the source's field names behind a short prefix.  A nilable pointer or slice whose nil-ness the code
  reads is an option; \<^verbatim>\<open>time.Duration\<close> fields hold the 64 bits of the value they are converted from.
\<close>

section \<open>Token metadata and accounts (data/account.go)\<close>

record TokenMetaData =
  md_Name :: string
  md_Creator :: string
  md_Royalties :: u32
  md_Hash :: bytes
  md_URIs :: "bytes list"
  md_Tags :: "string list"
  md_Attributes :: bytes
  md_MetaData :: string
  md_NonEmptyURIs :: bool
  md_WhiteListedStorage :: bool

record AccountInfo =
  ai_Address :: string
  ai_Nonce :: u64
  ai_Balance :: string
  ai_BalanceNum :: f64
  ai_TokenName :: string
  ai_TokenIdentifier :: string
  ai_TokenNonce :: u64
  ai_Properties :: string
  ai_Frozen :: bool
  ai_Owner :: string
  ai_UserName :: string
  ai_DeveloperRewards :: string
  ai_DeveloperRewardsNum :: f64
  ai_Data :: "TokenMetaData option"
  ai_Timestamp :: u64
  ai_Type :: string
  ai_CurrentOwner :: string
  ai_ShardID :: u32
  ai_RootHash :: bytes
  ai_CodeHash :: bytes
  ai_CodeMetadata :: bytes
  ai_IsSender :: bool
  ai_IsSmartContract :: bool
  ai_IsNFTCreate :: bool

record AccountBalanceHistory =
  abh_Address :: string
  abh_Timestamp :: u64
  abh_Balance :: string
  abh_Token :: string
  abh_Identifier :: string
  abh_TokenNonce :: u64
  abh_IsSender :: bool
  abh_IsSmartContract :: bool
  abh_ShardID :: u32

section \<open>Tokens (data/tokens.go)\<close>

text \<open>\<^verbatim>\<open>core.OptionalUint32\<close> (its value and whether it is present) is an option.\<close>

record NFTDataUpdate =
  nu_Identifier :: string
  nu_Address :: string
  nu_NewCreator :: string
  nu_URIsToAdd :: "bytes list"
  nu_NewAttributes :: bytes
  nu_Freeze :: bool
  nu_UnFreeze :: bool
  nu_Pause :: bool
  nu_UnPause :: bool
  nu_SetURIs :: bool
  nu_NewRoyalties :: "u32 option"
  nu_NewMetaData :: "TokenMetaData option"

record SourceToken =
  st_Type :: string
  st_CurrentOwner :: string

record ResponseTokenDB =
  rt_Found :: bool
  rt_ID :: string
  rt_Source :: SourceToken

type_synonym ResponseTokens = "ResponseTokenDB list"

record TokenProperties =
  tp_Mintable :: bool
  tp_Burnable :: bool
  tp_Upgradable :: bool
  tp_CanTransferNFTCreateRole :: bool
  tp_CanAddSpecialRoles :: bool
  tp_CanPause :: bool
  tp_CanFreeze :: bool
  tp_CanWipe :: bool
  tp_CanChangeOwner :: bool
  tp_CanCreateMultiShard :: bool

record OwnerData =
  od_TxHash :: string
  od_Address :: string
  od_Timestamp :: u64

record TokenInfo =
  ti_Name :: string
  ti_Ticker :: string
  ti_Identifier :: string
  ti_Token :: string
  ti_Issuer :: string
  ti_CurrentOwner :: string
  ti_NumDecimals :: u64
  ti_Type :: string
  ti_Nonce :: u64
  ti_Timestamp :: u64
  ti_Data :: "TokenMetaData option"
  ti_OwnersHistory :: "OwnerData list"
  ti_TransferOwnership :: bool
  ti_ChangeToDynamic :: bool
  ti_Properties :: "TokenProperties option"

record ResponseTokenInfoDB =
  rti_Found :: bool
  rti_ID :: string
  rti_Source :: TokenInfo

section \<open>Smart contract results and transactions (data/scresult.go, data/transaction.go)\<close>

record ScResult =
  scr_UUID :: string
  scr_Hash :: string
  scr_MBHash :: string
  scr_Nonce :: u64
  scr_GasLimit :: u64
  scr_GasPrice :: u64
  scr_Value :: string
  scr_ValueNum :: f64
  scr_Sender :: string
  scr_Receiver :: string
  scr_SenderShard :: u32
  scr_ReceiverShard :: u32
  scr_RelayerAddr :: string
  scr_RelayedValue :: string
  scr_Code :: string
  scr_Data :: bytes
  scr_PrevTxHash :: string
  scr_OriginalTxHash :: string
  scr_CallType :: string
  scr_CodeMetadata :: bytes
  scr_ReturnMessage :: string
  scr_Timestamp :: u64
  scr_HasOperations :: bool
  scr_Type :: string
  scr_Status :: string
  scr_Tokens :: "string list"
  scr_ESDTValues :: "string list"
  scr_ESDTValuesNum :: "f64 list"
  scr_Receivers :: "string list"
  scr_ReceiversShardIDs :: "u32 list"
  scr_Operation :: string
  scr_Function :: string
  scr_IsRelayed :: bool
  scr_CanBeIgnored :: bool
  scr_OriginalSender :: string
  scr_HasLogs :: bool
  scr_Epoch :: u32
  scr_ExecutionOrder :: int
  scr_SenderAddressBytes :: bytes
  scr_InitialTxGasUsed :: u64
  scr_InitialTxFee :: string
  scr_GasRefunded :: u64

record Transaction =
  tx_UUID :: string
  tx_MBHash :: string
  tx_Nonce :: u64
  tx_Round :: u64
  tx_Value :: string
  tx_ValueNum :: f64
  tx_Receiver :: string
  tx_Sender :: string
  tx_ReceiverShard :: u32
  tx_SenderShard :: u32
  tx_GasPrice :: u64
  tx_GasLimit :: u64
  tx_GasUsed :: u64
  tx_Fee :: string
  tx_FeeNum :: f64
  tx_InitialPaidFee :: string
  tx_Data :: bytes
  tx_Signature :: string
  tx_Timestamp :: u64
  tx_Status :: string
  tx_SearchOrder :: u32
  tx_SenderUserName :: bytes
  tx_ReceiverUserName :: bytes
  tx_HasSCR :: bool
  tx_IsScCall :: bool
  tx_HasOperations :: bool
  tx_HasLogs :: bool
  tx_Tokens :: "string list"
  tx_ESDTValues :: "string list"
  tx_ESDTValuesNum :: "f64 list"
  tx_Receivers :: "string list"
  tx_ReceiversShardIDs :: "u32 list"
  tx_Type :: string
  tx_Operation :: string
  tx_Function :: string
  tx_IsRelayed :: bool
  tx_Version :: u32
  tx_GuardianAddress :: string
  tx_GuardianSignature :: string
  tx_ErrorEvent :: bool
  tx_CompletedEvent :: bool
  tx_RelayedAddr :: string
  tx_RelayedSignature :: string
  tx_HadRefund :: bool
  tx_Epoch :: u32
  tx_ExecutionOrder :: int
  tx_SmartContractResults :: "ScResult list"
  tx_Hash :: string
  tx_BlockHash :: string

record Receipt =
  rec_Hash :: string
  rec_Value :: string
  rec_Sender :: string
  rec_Data :: string
  rec_TxHash :: string
  rec_Timestamp :: u64

record FeeData =
  fd_FeeNum :: f64
  fd_Fee :: string
  fd_GasUsed :: u64
  fd_Receiver :: string
  fd_GasRefunded :: u64

record PreparedResults =
  pr_Transactions :: "Transaction list"
  pr_ScResults :: "ScResult list"
  pr_Receipts :: "Receipt list"
  pr_TxHashFee :: "(string, FeeData) gomap"

section \<open>Deployed contracts, delegators, logs and events\<close>

text \<open>\<^verbatim>\<open>data/scDeploy.go\<close>, \<^verbatim>\<open>data/delegators.go\<close>, \<^verbatim>\<open>data/event.go\<close> and \<^verbatim>\<open>data/logs.go\<close>.\<close>

record Upgrade =
  up_TxHash :: string
  up_Upgrader :: string
  up_Timestamp :: u64
  up_CodeHash :: bytes

record ScDeployInfo =
  sd_TxHash :: string
  sd_Creator :: string
  sd_CurrentOwner :: string
  sd_CodeHash :: bytes
  sd_Timestamp :: u64
  sd_Upgrades :: "Upgrade list"
  sd_OwnersHistory :: "OwnerData list"

record UnDelegate =
  ud_Timestamp :: u64
  ud_ID :: string
  ud_Value :: string
  ud_ValueNum :: f64

record Delegator =
  dg_Address :: string
  dg_Contract :: string
  dg_Timestamp :: u64
  dg_ActiveStake :: string
  dg_ActiveStakeNum :: f64
  dg_ShouldDelete :: bool
  dg_UnDelegateInfo :: "UnDelegate option"
  dg_WithdrawFundIDs :: "string list option"

record LogEvent =
  le_UUID :: string
  le_ID :: string
  le_TxHash :: string
  le_OriginalTxHash :: string
  le_LogAddress :: string
  le_Address :: string
  le_Identifier :: string
  le_Data :: string
  le_AdditionalData :: "string list"
  le_Topics :: "string list"
  le_Order :: int
  le_TxOrder :: int
  le_ShardID :: u32
  le_Timestamp :: u64

record Event =
  ev_Address :: string
  ev_Identifier :: string
  ev_Topics :: "bytes list"
  ev_Data :: bytes
  ev_AdditionalData :: "bytes list"
  ev_Order :: int

record Logs =
  lg_UUID :: string
  lg_ID :: string
  lg_OriginalTxHash :: string
  lg_Address :: string
  lg_Events :: "Event list"
  lg_Timestamp :: u64

section \<open>Blocks and miniblocks (data/block.go)\<close>

record MiniBlocksDetails =
  mbd_IndexFirstProcessedTx :: int
  mbd_IndexLastProcessedTx :: int
  mbd_SenderShardID :: u32
  mbd_ReceiverShardID :: u32
  mbd_MBIndex :: nat
  mbd_Type :: string
  mbd_ProcessingType :: string
  mbd_TxsHashes :: "string list"
  mbd_ExecutionOrderTxsIndices :: "int list"

record Miniblock =
  mb_Hash :: string
  mb_SenderShardID :: u32
  mb_ReceiverShardID :: u32
  mb_SenderBlockHash :: string
  mb_ReceiverBlockHash :: string
  mb_Type :: string
  mb_ProcessingTypeOnSource :: string
  mb_ProcessingTypeOnDestination :: string
  mb_Timestamp :: u64
  mb_Reserved :: bytes

section \<open>Zero values\<close>

text \<open>The zero values that composite literals of the sources start from.\<close>

definition zeroTokenProperties :: TokenProperties where
  "zeroTokenProperties =
     \<lparr>tp_Mintable = False, tp_Burnable = False, tp_Upgradable = False,
      tp_CanTransferNFTCreateRole = False, tp_CanAddSpecialRoles = False, tp_CanPause = False,
      tp_CanFreeze = False, tp_CanWipe = False, tp_CanChangeOwner = False,
      tp_CanCreateMultiShard = False\<rparr>"

definition zeroTokenInfo :: TokenInfo where
  "zeroTokenInfo =
     \<lparr>ti_Name = [], ti_Ticker = [], ti_Identifier = [], ti_Token = [], ti_Issuer = [],
      ti_CurrentOwner = [], ti_NumDecimals = 0, ti_Type = [], ti_Nonce = 0, ti_Timestamp = 0,
      ti_Data = None, ti_OwnersHistory = [], ti_TransferOwnership = False,
      ti_ChangeToDynamic = False, ti_Properties = None\<rparr>"

definition zeroNFTDataUpdate :: NFTDataUpdate where
  "zeroNFTDataUpdate =
     \<lparr>nu_Identifier = [], nu_Address = [], nu_NewCreator = [], nu_URIsToAdd = [],
      nu_NewAttributes = [], nu_Freeze = False, nu_UnFreeze = False, nu_Pause = False,
      nu_UnPause = False, nu_SetURIs = False, nu_NewRoyalties = None, nu_NewMetaData = None\<rparr>"

definition zeroDelegator :: Delegator where
  "zeroDelegator =
     \<lparr>dg_Address = [], dg_Contract = [], dg_Timestamp = 0, dg_ActiveStake = [],
      dg_ActiveStakeNum = Fin 0, dg_ShouldDelete = False, dg_UnDelegateInfo = None,
      dg_WithdrawFundIDs = None\<rparr>"

definition zeroAccountInfo :: AccountInfo where
  "zeroAccountInfo =
     \<lparr>ai_Address = [], ai_Nonce = 0, ai_Balance = [], ai_BalanceNum = Fin 0, ai_TokenName = [],
      ai_TokenIdentifier = [], ai_TokenNonce = 0, ai_Properties = [], ai_Frozen = False,
      ai_Owner = [], ai_UserName = [], ai_DeveloperRewards = [], ai_DeveloperRewardsNum = Fin 0,
      ai_Data = None, ai_Timestamp = 0, ai_Type = [], ai_CurrentOwner = [], ai_ShardID = 0,
      ai_RootHash = [], ai_CodeHash = [], ai_CodeMetadata = [], ai_IsSender = False,
      ai_IsSmartContract = False, ai_IsNFTCreate = False\<rparr>"

definition zeroScResult :: ScResult where
  "zeroScResult =
     \<lparr>scr_UUID = [], scr_Hash = [], scr_MBHash = [], scr_Nonce = 0, scr_GasLimit = 0,
      scr_GasPrice = 0, scr_Value = [], scr_ValueNum = Fin 0, scr_Sender = [], scr_Receiver = [],
      scr_SenderShard = 0, scr_ReceiverShard = 0, scr_RelayerAddr = [], scr_RelayedValue = [],
      scr_Code = [], scr_Data = [], scr_PrevTxHash = [], scr_OriginalTxHash = [],
      scr_CallType = [], scr_CodeMetadata = [], scr_ReturnMessage = [], scr_Timestamp = 0,
      scr_HasOperations = False, scr_Type = [], scr_Status = [], scr_Tokens = [],
      scr_ESDTValues = [], scr_ESDTValuesNum = [], scr_Receivers = [], scr_ReceiversShardIDs = [],
      scr_Operation = [], scr_Function = [], scr_IsRelayed = False, scr_CanBeIgnored = False,
      scr_OriginalSender = [], scr_HasLogs = False, scr_Epoch = 0, scr_ExecutionOrder = 0,
      scr_SenderAddressBytes = [], scr_InitialTxGasUsed = 0, scr_InitialTxFee = [],
      scr_GasRefunded = 0\<rparr>"

definition zeroTransaction :: Transaction where
  "zeroTransaction =
     \<lparr>tx_UUID = [], tx_MBHash = [], tx_Nonce = 0, tx_Round = 0, tx_Value = [], tx_ValueNum = Fin 0,
      tx_Receiver = [], tx_Sender = [], tx_ReceiverShard = 0, tx_SenderShard = 0, tx_GasPrice = 0,
      tx_GasLimit = 0, tx_GasUsed = 0, tx_Fee = [], tx_FeeNum = Fin 0, tx_InitialPaidFee = [],
      tx_Data = [], tx_Signature = [], tx_Timestamp = 0, tx_Status = [], tx_SearchOrder = 0,
      tx_SenderUserName = [], tx_ReceiverUserName = [], tx_HasSCR = False, tx_IsScCall = False,
      tx_HasOperations = False, tx_HasLogs = False, tx_Tokens = [], tx_ESDTValues = [],
      tx_ESDTValuesNum = [], tx_Receivers = [], tx_ReceiversShardIDs = [], tx_Type = [],
      tx_Operation = [], tx_Function = [], tx_IsRelayed = False, tx_Version = 0,
      tx_GuardianAddress = [], tx_GuardianSignature = [], tx_ErrorEvent = False,
      tx_CompletedEvent = False, tx_RelayedAddr = [], tx_RelayedSignature = [],
      tx_HadRefund = False, tx_Epoch = 0, tx_ExecutionOrder = 0, tx_SmartContractResults = [],
      tx_Hash = [], tx_BlockHash = []\<rparr>"

end
