(* ===== verification/Core_Lib.thy ===== *)
theory Core_Lib
  imports Data_Model
begin

text \<open>
  The interface to code outside the repository (\<^verbatim>\<open>mx-chain-core-go\<close>, \<^verbatim>\<open>mx-chain-vm-common-go\<close>,
  \<^verbatim>\<open>google/uuid\<close>): the data types it hands to the indexer, with the fields the sources read, and its
  functions and constants as the fields of the records \<open>core_lib\<close> and \<open>core_consts\<close>, which are
  arguments of every definition that uses them.  The concrete \<open>demo_lib\<close> and \<open>demo_consts\<close> only serve
  to evaluate the definitions on examples.
\<close>

section \<open>Types of the outport interface\<close>

record esdt_MetaData =
  em_Nonce :: u64
  em_Name :: bytes
  em_Creator :: bytes
  em_Royalties :: u32
  em_Hash :: bytes
  em_URIs :: "bytes list"
  em_Attributes :: bytes

record altered_TokenMetaData =
  am_Nonce :: u64
  am_Name :: string
  am_Creator :: string
  am_Royalties :: u32
  am_Hash :: bytes
  am_URIs :: "bytes list"
  am_Attributes :: bytes

record AccountTokenData =
  atd_Nonce :: u64
  atd_Identifier :: string
  atd_Balance :: string
  atd_Properties :: string
  atd_MetaData :: "altered_TokenMetaData option"
  atd_IsNFTCreate :: "bool option"

record AdditionalAccountData =
  aad_IsSender :: bool
  aad_BalanceChanged :: bool
  aad_CurrentOwner :: string
  aad_UserName :: string
  aad_DeveloperRewards :: string
  aad_CodeHash :: bytes
  aad_RootHash :: bytes
  aad_CodeMetadata :: bytes

record AlteredAccount =
  aa_Address :: string
  aa_Nonce :: u64
  aa_Balance :: string
  aa_Tokens :: "AccountTokenData list"
  aa_AdditionalData :: "AdditionalAccountData option"

record StatusInfo =
  si_Status :: string
  si_ErrorEvent :: bool
  si_CompletedEvent :: bool

record event =
  e_Address :: bytes
  e_Identifier :: bytes
  e_Topics :: "bytes list"
  e_Data :: bytes
  e_AdditionalData :: "bytes list"

record log =
  l_Address :: bytes
  l_Events :: "event option list"

record LogData =
  ld_TxHash :: string
  ld_Log :: "log option"

datatype block_type =
    TxBlock | PeerBlock | SmartContractResultBlock | InvalidBlock | ReceiptBlock | RewardsBlock
  | OtherBlock nat

datatype processing_type = Normal | Scheduled | Processed | OtherProcessing int

datatype construction_state = Final | Proposed | OtherState int

record MiniBlock =
  m_TxHashes :: "bytes list"
  m_ReceiverShardID :: u32
  m_SenderShardID :: u32
  m_Type :: block_type
  m_Reserved :: bytes

record MiniBlockHeader =
  mh_Type :: block_type
  mh_SenderShardID :: u32
  mh_ReceiverShardID :: u32
  mh_TxCount :: u32
  mh_ProcessingType :: processing_type
  mh_ConstructionState :: construction_state
  mh_IndexOfFirstTxProcessed :: int
  mh_IndexOfLastTxProcessed :: int

record Header =
  h_ShardID :: u32
  h_Nonce :: u64
  h_Round :: u64
  h_Epoch :: u32
  h_TimeStamp :: u64
  h_TxCount :: u32
  h_MiniBlockHeaders :: "MiniBlockHeader list"
  h_MiniBlockHeadersHashes :: "bytes list"
  h_IsMetaBlock :: bool

record FeeInfo =
  fi_GasUsed :: u64
  fi_Fee :: int
  fi_InitialPaidFee :: int
  fi_GasRefunded :: u64
  fi_HadRefund :: bool

record core_Transaction =
  ct_Nonce :: u64
  ct_Value :: int
  ct_RcvAddr :: bytes
  ct_RcvUserName :: bytes
  ct_SndAddr :: bytes
  ct_SndUserName :: bytes
  ct_GasPrice :: u64
  ct_GasLimit :: u64
  ct_Data :: bytes
  ct_Version :: u32
  ct_Signature :: bytes
  ct_GuardianAddr :: bytes
  ct_GuardianSignature :: bytes
  ct_RelayerAddr :: bytes
  ct_RelayerSignature :: bytes

record TxInfo =
  txi_Transaction :: core_Transaction
  txi_FeeInfo :: "FeeInfo option"
  txi_ExecutionOrder :: u32

record core_SmartContractResult =
  cs_Nonce :: u64
  cs_Value :: int
  cs_RcvAddr :: bytes
  cs_SndAddr :: bytes
  cs_RelayerAddr :: bytes
  cs_RelayedValue :: "int option"
  cs_Code :: bytes
  cs_Data :: bytes
  cs_PrevTxHash :: bytes
  cs_OriginalTxHash :: bytes
  cs_GasLimit :: u64
  cs_GasPrice :: u64
  cs_CallType :: nat
  cs_CodeMetadata :: bytes
  cs_ReturnMessage :: bytes
  cs_OriginalSender :: "bytes option"

record SCRInfo =
  sci_SmartContractResult :: core_SmartContractResult
  sci_FeeInfo :: "FeeInfo option"
  sci_ExecutionOrder :: u32

record RewardTx =
  rw_Round :: u64
  rw_Value :: int
  rw_RcvAddr :: bytes

record RewardInfo =
  rwi_Reward :: RewardTx
  rwi_ExecutionOrder :: u32

record core_Receipt =
  cr_Value :: int
  cr_SndAddr :: bytes
  cr_Data :: bytes
  cr_TxHash :: bytes

record TransactionPool =
  tp_Transactions :: "(string, TxInfo) gomap"
  tp_SmartContractResults :: "(string, SCRInfo) gomap"
  tp_Rewards :: "(string, RewardInfo) gomap"
  tp_InvalidTxs :: "(string, TxInfo) gomap"
  tp_Receipts :: "(string, core_Receipt) gomap"
  tp_Logs :: "LogData option list"

text \<open>The answer of the data field parser (\<^verbatim>\<open>datafield.ResponseParseData\<close>).\<close>

record ResponseParseData =
  rp_Operation :: string
  rp_Function :: string
  rp_ESDTValues :: "string list"
  rp_Tokens :: "string list"
  rp_Receivers :: "bytes list"
  rp_ReceiversShardID :: "u32 list"
  rp_IsRelayed :: bool

section \<open>Functions and constants\<close>

record core_lib =
  SilentEncode :: "bytes \<Rightarrow> string"
  Encode :: "bytes \<Rightarrow> string option"
  EncodeSlice :: "bytes list \<Rightarrow> string list"
  Decode :: "string \<Rightarrow> bytes option"
  ComputeShardID :: "bytes \<Rightarrow> u32 \<Rightarrow> u32"
  IsSmartContractAddress :: "bytes \<Rightarrow> bool"
  UnmarshalESDT :: "bytes \<Rightarrow> esdt_MetaData option option"
  ParseDataField :: "bytes \<Rightarrow> bytes \<Rightarrow> bytes \<Rightarrow> u32 \<Rightarrow> ResponseParseData"
  CalculateMBHash :: "MiniBlock \<Rightarrow> bytes option"
  CalculateHeaderHash :: "Header \<Rightarrow> bytes option"
  GenerateUUID :: "string \<Rightarrow> string"
  UnicodeToLower :: "string \<Rightarrow> string"
  UnicodeAllLetters :: "string \<Rightarrow> bool"
  MaxFloat64 :: "f64 \<Rightarrow> f64 \<Rightarrow> f64"
  Pow10 :: "int \<Rightarrow> f64"

record core_consts =
  k_SetESDTRole :: string
  k_UnSetESDTRole :: string
  k_ESDTNFTCreateRoleTransfer :: string
  k_ESDTUnSetBurnRoleForAll :: string
  k_ESDTSetBurnRoleForAll :: string
  k_ESDTRoleBurnForAll :: string
  k_ESDTRoleNFTCreate :: string
  k_WriteLog :: string
  k_SignalError :: string
  k_CompletedTxEvent :: string
  k_InternalVMErrors :: string
  k_ESDTNFTBurn :: string
  k_ESDTNFTCreate :: string
  k_ESDTWipe :: string
  k_ESDTTransfer :: string
  k_ESDTNFTTransfer :: string
  k_MultiESDTNFTTransfer :: string
  k_ESDTNFTAddURI :: string
  k_ESDTNFTUpdateAttributes :: string
  k_ESDTFreeze :: string
  k_ESDTUnFreeze :: string
  k_ESDTPause :: string
  k_ESDTUnPause :: string
  k_ESDTMetaDataRecreate :: string
  k_ESDTMetaDataUpdate :: string
  k_ESDTSetNewURIs :: string
  k_ESDTModifyCreator :: string
  k_ESDTModifyRoyalties :: string
  k_SCDeploy :: string
  k_SCUpgrade :: string
  k_ChangeOwnerAddress :: string
  k_FungibleESDT :: string
  k_NonFungibleESDT :: string
  k_NonFungibleESDTv2 :: string
  k_DynamicNFTESDT :: string
  k_TxStatusSuccess :: string
  k_TxStatusPending :: string
  k_TxStatusInvalid :: string
  k_TxStatusFail :: string
  k_TxTypeNormal :: string
  k_TxTypeUnsigned :: string
  k_OkCode :: string
  k_MetachainShardId :: u32
  k_SovereignChainShardId :: u32
  k_AllShardId :: u32
  k_MainChainShardId :: u32

section \<open>A concrete instance for examples\<close>

definition demo_lib :: core_lib where
  "demo_lib =
     \<lparr>SilentEncode = hex_encode, Encode = (\<lambda>b. Some (hex_encode b)), EncodeSlice = map hex_encode,
      Decode = hex_decode, ComputeShardID = (\<lambda>_ _. 0), IsSmartContractAddress = (\<lambda>b. b = []),
      UnmarshalESDT = (\<lambda>_. None),
      ParseDataField = (\<lambda>_ _ _ _. \<lparr>rp_Operation = [], rp_Function = [], rp_ESDTValues = [],
        rp_Tokens = [], rp_Receivers = [], rp_ReceiversShardID = [], rp_IsRelayed = False\<rparr>),
      CalculateMBHash = (\<lambda>m. Some ''mb''), CalculateHeaderHash = (\<lambda>h. Some ''hdr''),
      GenerateUUID = (\<lambda>s. s), UnicodeToLower = (\<lambda>s. s), UnicodeAllLetters = (\<lambda>_. False),
      MaxFloat64 = (\<lambda>a b. case (a, b) of (Fin x, Fin y) \<Rightarrow> Fin (max x y) | _ \<Rightarrow> a),
      Pow10 = (\<lambda>d. Fin (10 ^ nat d))\<rparr>"

definition demo_consts :: core_consts where
  "demo_consts =
     \<lparr>k_SetESDTRole = ''ESDTSetRole'', k_UnSetESDTRole = ''ESDTUnSetRole'',
      k_ESDTNFTCreateRoleTransfer = ''ESDTNFTCreateRoleTransfer'',
      k_ESDTUnSetBurnRoleForAll = ''ESDTUnSetBurnRoleForAll'',
      k_ESDTSetBurnRoleForAll = ''ESDTSetBurnRoleForAll'',
      k_ESDTRoleBurnForAll = ''ESDTRoleBurnForAll'', k_ESDTRoleNFTCreate = ''ESDTRoleNFTCreate'',
      k_WriteLog = ''writeLog'', k_SignalError = ''signalError'',
      k_CompletedTxEvent = ''completedTxEvent'', k_InternalVMErrors = ''internalVMErrors'',
      k_ESDTNFTBurn = ''ESDTNFTBurn'', k_ESDTNFTCreate = ''ESDTNFTCreate'', k_ESDTWipe = ''ESDTWipe'',
      k_ESDTTransfer = ''ESDTTransfer'', k_ESDTNFTTransfer = ''ESDTNFTTransfer'',
      k_MultiESDTNFTTransfer = ''MultiESDTNFTTransfer'', k_ESDTNFTAddURI = ''ESDTNFTAddURI'',
      k_ESDTNFTUpdateAttributes = ''ESDTNFTUpdateAttributes'', k_ESDTFreeze = ''ESDTFreeze'',
      k_ESDTUnFreeze = ''ESDTUnFreeze'', k_ESDTPause = ''ESDTPause'', k_ESDTUnPause = ''ESDTUnPause'',
      k_ESDTMetaDataRecreate = ''ESDTMetaDataRecreate'', k_ESDTMetaDataUpdate = ''ESDTMetaDataUpdate'',
      k_ESDTSetNewURIs = ''ESDTSetNewURIs'', k_ESDTModifyCreator = ''ESDTModifyCreator'',
      k_ESDTModifyRoyalties = ''ESDTModifyRoyalties'', k_SCDeploy = ''SCDeploy'',
      k_SCUpgrade = ''SCUpgrade'', k_ChangeOwnerAddress = ''ChangeOwnerAddress'',
      k_FungibleESDT = ''FungibleESDT'', k_NonFungibleESDT = ''NonFungibleESDT'',
      k_NonFungibleESDTv2 = ''NonFungibleESDTv2'', k_DynamicNFTESDT = ''DynamicNonFungibleESDT'',
      k_TxStatusSuccess = ''success'', k_TxStatusPending = ''pending'',
      k_TxStatusInvalid = ''invalid'', k_TxStatusFail = ''fail'', k_TxTypeNormal = ''normal'',
      k_TxTypeUnsigned = ''unsigned'', k_OkCode = ''ok'', k_MetachainShardId = 4294967295,
      k_SovereignChainShardId = 0, k_AllShardId = 4294967280, k_MainChainShardId = 4294967293\<rparr>"

end
