(* ===== verification/Buffer.thy ===== *)
theory Buffer
  imports Go_Lib
begin

text \<open>
  The bulk-request buffers of \<^verbatim>\<open>data/buffer.go\<close>: a slice of byte buffers, each sent to Elasticsearch
  as one bulk request, filled by \<^verbatim>\<open>PutData\<close>.  The interface that the serializers rely on is the locale
  \<open>bulk_sink\<close>, interpreted at the end on the buffers themselves.
\<close>

section \<open>Model\<close>

definition DefaultMaxBulkSize :: int where
  "DefaultMaxBulkSize = 4194304"

record BufferSlice =
  buffSlice :: "bytes list"
  bulkSizeThreshold :: int
  idx :: nat

definition NewBufferSlice :: "int \<Rightarrow> BufferSlice" where
  "NewBufferSlice threshold =
     \<lparr>buffSlice = [],
      bulkSizeThreshold = (if threshold = 0 then DefaultMaxBulkSize else threshold),
      idx = 0\<rparr>"

definition aNewElementIsNeeded :: "bytes \<Rightarrow> bytes \<Rightarrow> BufferSlice \<Rightarrow> bool result" where
  "aNewElementIsNeeded meta serializedData bs =
     bindr (index_r (buffSlice bs) (idx bs)) (\<lambda>currentBuff.
       let buffLenWithCurrentAcc = int (length currentBuff + length meta + length serializedData)
       in Inr (buffLenWithCurrentAcc > bulkSizeThreshold bs \<and> length currentBuff \<noteq> 0))"

text \<open>
  The pointer \<^verbatim>\<open>currentBuff\<close> is a position of the slice: the indexed one, or the one just appended.
  Writing to a \<^verbatim>\<open>bytes.Buffer\<close> does not fail.
\<close>

definition PutData :: "bytes \<Rightarrow> bytes \<Rightarrow> BufferSlice \<Rightarrow> BufferSlice result" where
  "PutData meta serializedData bs =
     (let bs0 = (if buffSlice bs = [] then bs\<lparr>buffSlice := [[]]\<rparr> else bs) in
      bindr (index_r (buffSlice bs0) (idx bs0)) (\<lambda>_.
      bindr (aNewElementIsNeeded meta serializedData bs0) (\<lambda>needed.
        let currentBuff = (if needed then length (buffSlice bs0) else idx bs0);
            bs1 = (if needed then bs0\<lparr>buffSlice := buffSlice bs0 @ [[]], idx := Suc (idx bs0)\<rparr> else bs0);
            serializedData' = (if length serializedData > 0 then serializedData @ ''\<newline>''
                               else serializedData)
        in Inr (bs1\<lparr>buffSlice := (buffSlice bs1)
              [currentBuff := buffSlice bs1 ! currentBuff @ meta @ serializedData']\<rparr>))))"

definition Buffers :: "BufferSlice \<Rightarrow> bytes list" where
  "Buffers bs = buffSlice bs"

text \<open>A run of the serializers: the entries are put one after the other.\<close>

definition put_all :: "(bytes \<times> bytes) list \<Rightarrow> BufferSlice \<Rightarrow> BufferSlice result" where
  "put_all = fold_r (\<lambda>(meta, serializedData). PutData meta serializedData)"

section \<open>Invariant\<close>

definition entry_text :: "bytes \<times> bytes \<Rightarrow> bytes" where
  "entry_text e = fst e @ (if snd e = [] then [] else snd e @ ''\<newline>'')"

definition buff_inv :: "BufferSlice \<Rightarrow> bool" where
  "buff_inv bs \<longleftrightarrow> (if buffSlice bs = [] then idx bs = 0 else Suc (idx bs) = length (buffSlice bs))"

text \<open>
  The abstract state is the entries grouped by buffer: no entry is split between two buffers and
  every buffer but a fresh one holds at least one entry.
\<close>

definition groups_of :: "(bytes \<times> bytes) list list \<Rightarrow> BufferSlice \<Rightarrow> bool" where
  "groups_of gs bs \<longleftrightarrow> buffSlice bs = map (\<lambda>g. concat (map entry_text g)) gs"

text \<open>A buffer stays within the threshold plus one newline, unless its text is that of a single entry.\<close>

definition group_bounded :: "int \<Rightarrow> (bytes \<times> bytes) list \<Rightarrow> bool" where
  "group_bounded t g \<longleftrightarrow> int (length (concat (map entry_text g))) \<le> t + 1 \<or>
     list_ex (\<lambda>e. length (concat (map entry_text g)) = length (entry_text e)) g"

section \<open>Lemmas\<close>

lemma buff_inv_New [simp]: "buff_inv (NewBufferSlice t)"
  by (simp add: buff_inv_def NewBufferSlice_def)

lemma length_entry_text: "length (entry_text (m, d)) \<le> length m + length d + 1"
  by (simp add: entry_text_def)

text \<open>The step of \<^const>\<open>PutData\<close> on a slice that satisfies the invariant.\<close>

lemma PutData_step [consumes 1, case_names fresh append new]:
  assumes "buff_inv bs"
  obtains
    (fresh) "buffSlice bs = []" and
      "PutData m d bs = Inr (bs\<lparr>buffSlice := [entry_text (m, d)]\<rparr>)"
  | (append) pre b where "buffSlice bs = pre @ [b]" and
      "b = [] \<or> int (length b + length m + length d) \<le> bulkSizeThreshold bs" and
      "PutData m d bs = Inr (bs\<lparr>buffSlice := pre @ [b @ entry_text (m, d)]\<rparr>)"
  | (new) pre b where "buffSlice bs = pre @ [b]" and
      "PutData m d bs =
         Inr (bs\<lparr>buffSlice := pre @ [b, entry_text (m, d)], idx := Suc (idx bs)\<rparr>)"
proof (cases "buffSlice bs" rule: rev_cases)
  case Nil
  with assms have "PutData m d bs = Inr (bs\<lparr>buffSlice := [entry_text (m, d)]\<rparr>)"
    by (simp add: PutData_def aNewElementIsNeeded_def buff_inv_def Let_def entry_text_def index_r_def)
  with Nil fresh show thesis by blast
next
  case (snoc pre b)
  with assms have i: "idx bs = length pre" by (simp add: buff_inv_def)
  show thesis
  proof (cases "int (length b + length m + length d) > bulkSizeThreshold bs \<and> b \<noteq> []")
    case True
    with snoc i have "PutData m d bs =
        Inr (bs\<lparr>buffSlice := pre @ [b, entry_text (m, d)], idx := Suc (idx bs)\<rparr>)"
      by (simp add: PutData_def aNewElementIsNeeded_def Let_def entry_text_def nth_append
          list_update_append)
    with snoc new show thesis by blast
  next
    case False
    with snoc i have "PutData m d bs = Inr (bs\<lparr>buffSlice := pre @ [b @ entry_text (m, d)]\<rparr>)"
      by (auto simp: PutData_def aNewElementIsNeeded_def Let_def entry_text_def nth_append
          list_update_append)
    moreover have "b = [] \<or> int (length b + length m + length d) \<le> bulkSizeThreshold bs"
      using False by auto
    ultimately show thesis using snoc append by blast
  qed
qed

lemma PutData_inv:
  assumes "buff_inv bs"
  shows "\<exists>bs'. PutData m d bs = Inr bs' \<and> buff_inv bs' \<and>
    bulkSizeThreshold bs' = bulkSizeThreshold bs \<and>
    concat (buffSlice bs') = concat (buffSlice bs) @ entry_text (m, d)"
  using assms
proof (cases rule: PutData_step [where m = m and d = d])
  case fresh
  with assms show ?thesis by (auto simp: buff_inv_def)
next
  case (append pre b)
  with assms show ?thesis by (auto simp: buff_inv_def)
next
  case (new pre b)
  with assms show ?thesis by (auto simp: buff_inv_def)
qed

text \<open>Grouping: the entry joins the last group or opens a new one, and groups stay bounded.\<close>

lemma PutData_groups:
  assumes "buff_inv bs" and "groups_of gs bs" and "list_all (group_bounded (bulkSizeThreshold bs)) gs"
    and "PutData m d bs = Inr bs'"
  shows "\<exists>gs'. groups_of gs' bs' \<and> concat gs' = concat gs @ [(m, d)] \<and>
    list_all (group_bounded (bulkSizeThreshold bs)) gs'"
  using assms(1)
proof (cases rule: PutData_step [where m = m and d = d])
  case fresh
  with assms show ?thesis
    by (intro exI [of _ "[[(m, d)]]"]) (auto simp: groups_of_def group_bounded_def)
next
  case (append pre b)
  with assms(2) obtain gp g where gs: "gs = gp @ [g]"
    and pre: "pre = map (\<lambda>g. concat (map entry_text g)) gp" and b: "b = concat (map entry_text g)"
    by (cases gs rule: rev_cases) (auto simp: groups_of_def)
  have "group_bounded (bulkSizeThreshold bs) (g @ [(m, d)])"
    using append(2) length_entry_text [of m d]
    by (auto simp: group_bounded_def b simp del: length_concat)
  with append assms(3,4) gs pre b show ?thesis
    by (intro exI [of _ "gp @ [g @ [(m, d)]]"]) (auto simp: groups_of_def)
next
  case (new pre b)
  with assms show ?thesis
    by (intro exI [of _ "gs @ [[(m, d)]]"]) (auto simp: groups_of_def group_bounded_def)
qed

lemma put_all_groups_gen:
  "buff_inv bs \<Longrightarrow> groups_of gs bs \<Longrightarrow> list_all (group_bounded (bulkSizeThreshold bs)) gs \<Longrightarrow>
   put_all es bs = Inr bs' \<Longrightarrow>
   \<exists>gs'. groups_of gs' bs' \<and> concat gs' = concat gs @ es \<and>
     list_all (group_bounded (bulkSizeThreshold bs)) gs'"
proof (induction es arbitrary: bs gs)
  case (Cons e es)
  obtain m d where e: "e = (m, d)" by (cases e)
  from Cons.prems(4) obtain b1 where b1: "PutData m d bs = Inr b1" "put_all es b1 = Inr bs'"
    by (auto simp: put_all_def e bindr_Inr_iff)
  from PutData_inv [OF Cons.prems(1), of m d] b1
  have inv: "buff_inv b1" "bulkSizeThreshold b1 = bulkSizeThreshold bs" by auto
  from PutData_groups [OF Cons.prems(1-3) b1(1)] obtain g1
    where g1: "groups_of g1 b1" "concat g1 = concat gs @ [(m, d)]"
      "list_all (group_bounded (bulkSizeThreshold b1)) g1" using inv(2) by auto
  from Cons.IH [OF inv(1) g1(1,3) b1(2)] g1(2) inv(2) show ?case by (simp add: e)
qed (auto simp: put_all_def)

section \<open>The sink interface\<close>

text \<open>
  What a serializer relies on: an entry can always be put, and the text already there is followed
  by the entry's text.
\<close>

locale bulk_sink =
  fixes put :: "bytes \<Rightarrow> bytes \<Rightarrow> 's \<Rightarrow> 's result"
    and content :: "'s \<Rightarrow> bytes"
    and inv :: "'s \<Rightarrow> bool"
    and text_of :: "bytes \<times> bytes \<Rightarrow> bytes"
  assumes put_total: "inv s \<Longrightarrow> \<exists>s'. put m d s = Inr s' \<and> inv s'"
    and put_content: "inv s \<Longrightarrow> put m d s = Inr s' \<Longrightarrow> content s' = content s @ text_of (m, d)"
begin

lemma sink_run:
  "inv s \<Longrightarrow> \<exists>s'. fold_r (\<lambda>(m, d). put m d) es s = Inr s' \<and> inv s' \<and>
     content s' = content s @ concat (map text_of es)"
proof (induction es arbitrary: s)
  case (Cons e es)
  obtain m d where e: "e = (m, d)" by (cases e)
  from put_total [OF Cons.prems, of m d] obtain s1 where s1: "put m d s = Inr s1" "inv s1" by blast
  from Cons.IH [OF s1(2)] put_content [OF Cons.prems s1(1)] show ?case
    by (auto simp: e s1)
qed simp

end

interpretation bs: bulk_sink PutData "\<lambda>s. concat (buffSlice s)" buff_inv entry_text
proof unfold_locales
  fix s :: BufferSlice and m d
  assume "buff_inv s"
  then show "\<exists>s'. PutData m d s = Inr s' \<and> buff_inv s'" using PutData_inv by blast
next
  fix s s' :: BufferSlice and m d
  assume "buff_inv s" and "PutData m d s = Inr s'"
  then show "concat (buffSlice s') = concat (buffSlice s) @ entry_text (m, d)"
    using PutData_inv [of s m d] by auto
qed

section \<open>Properties\<close>

text \<open>
  C1. Putting any list of entries into a fresh buffer slice never fails, and the buffers sent to
  Elasticsearch are, in order and without loss, the text of the entries (each metadata line followed
  by its body and a newline when there is a body).
\<close>

theorem put_all_content:
  "\<exists>bs. put_all es (NewBufferSlice t) = Inr bs \<and> concat (Buffers bs) = concat (map entry_text es)"
proof -
  have "buff_inv (NewBufferSlice t)" by simp
  from bs.sink_run [OF this, of es] show ?thesis
    by (auto simp: put_all_def Buffers_def NewBufferSlice_def)
qed

text \<open>
  C2. The buffers are a grouping of the entries: no entry is split between two bulk requests, and
  the size of each request is at most the threshold plus the one newline the size check leaves out,
  or the size of a single entry that alone exceeds it.
\<close>

theorem put_all_groups:
  assumes "put_all es (NewBufferSlice t) = Inr bs"
  shows "\<exists>gs. Buffers bs = map (\<lambda>g. concat (map entry_text g)) gs \<and> concat gs = es \<and>
    list_all (group_bounded (bulkSizeThreshold (NewBufferSlice t))) gs"
proof -
  have "groups_of [] (NewBufferSlice t)" by (simp add: groups_of_def NewBufferSlice_def)
  from put_all_groups_gen [OF buff_inv_New this _ assms] show ?thesis
    by (simp add: groups_of_def Buffers_def)
qed

theorem put_all_groups_witness:
  "\<exists>bs gs. put_all [(''m1'', ''d1''), (''m2'', [])] (NewBufferSlice 4) = Inr bs \<and>
     Buffers bs = [''m1d1\<newline>'', ''m2''] \<and>
     Buffers bs = map (\<lambda>g. concat (map entry_text g)) gs \<and>
     concat gs = [(''m1'', ''d1''), (''m2'', [])]"
proof -
  have run: "put_all [(''m1'', ''d1''), (''m2'', [])] (NewBufferSlice 4) =
      Inr \<lparr>buffSlice = [''m1d1\<newline>'', ''m2''], bulkSizeThreshold = 4, idx = 1\<rparr>"
    by (simp add: put_all_def PutData_def aNewElementIsNeeded_def NewBufferSlice_def index_r_def)
  from put_all_groups [OF run] obtain gs where
    "Buffers \<lparr>buffSlice = [''m1d1\<newline>'', ''m2''], bulkSizeThreshold = 4, idx = 1\<rparr> =
       map (\<lambda>g. concat (map entry_text g)) gs"
    "concat gs = [(''m1'', ''d1''), (''m2'', [])]" by blast
  with run show ?thesis by (simp only: Buffers_def) auto
qed

end
