(* ===== verification/Converters.thy ===== *)
theory Converters
  imports Core_Lib
begin

text \<open>
  The package \<^verbatim>\<open>process/elasticproc/converters\<close>: truncation of fields, extraction of tags and metadata
  from NFT attributes, token identifiers, balances as floating-point numbers, token metadata, and
  the maps from hashes to transactions and smart contract results.
\<close>

section \<open>Fields (converters/field.go, data/consts.go)\<close>

definition MaxESDTValueLength :: nat where "MaxESDTValueLength = 100"
definition MaxFieldLength :: nat where "MaxFieldLength = 30000"
definition MaxKeywordFieldLengthBeforeBase64Encoding :: nat where
  "MaxKeywordFieldLengthBeforeBase64Encoding = 22500"

definition TruncateFieldIfExceedsMaxLength :: "string \<Rightarrow> string" where
  "TruncateFieldIfExceedsMaxLength field =
     (if length field > MaxFieldLength then take MaxFieldLength field else field)"

definition TruncateFieldIfExceedsMaxLengthBase64 :: "string \<Rightarrow> string" where
  "TruncateFieldIfExceedsMaxLengthBase64 field =
     (if length field > MaxKeywordFieldLengthBeforeBase64Encoding
      then take MaxKeywordFieldLengthBeforeBase64Encoding field else field)"

definition TruncateSliceElementsIfExceedsMaxLength :: "string list \<Rightarrow> string list" where
  "TruncateSliceElementsIfExceedsMaxLength flds = map TruncateFieldIfExceedsMaxLength flds"

section \<open>Painless sources (converters/code.go)\<close>

definition FormatPainlessSource :: "string \<Rightarrow> string" where
  "FormatPainlessSource code =
     filter (\<lambda>c. c \<noteq> CHR 0x09) (filter (\<lambda>c. c \<noteq> CHR ''\<newline>'') code)"

section \<open>Tags and metadata of attributes (converters/tags.go)\<close>

definition attributesSeparator :: char where "attributesSeparator = CHR '';''"
definition keyValuesSeparator :: char where "keyValuesSeparator = CHR '':''"
definition valuesSeparator :: char where "valuesSeparator = CHR '',''"
definition tagsKey :: string where "tagsKey = ''tags''"
definition metadataKey :: string where "metadataKey = ''metadata''"

text \<open>\<^verbatim>\<open>strings.ToLower\<close>: byte-wise on ASCII text, the Unicode mapping of the library otherwise.\<close>

definition ToLower :: "core_lib \<Rightarrow> string \<Rightarrow> string" where
  "ToLower L s = (if is_ascii s then map ascii_lower s else UnicodeToLower L s)"

text \<open>A nil slice and an empty one are the same list: the callers only read the elements.\<close>

definition extractNonEmpty :: "core_lib \<Rightarrow> string list \<Rightarrow> string \<Rightarrow> string list" where
  "extractNonEmpty L tags key =
     map (\<lambda>tag. if key = tagsKey then ToLower L tag else tag) (filter (\<lambda>tag. tag \<noteq> []) tags)"

fun extract_pairs :: "core_lib \<Rightarrow> string list \<Rightarrow> string \<Rightarrow> string list" where
  "extract_pairs L [] key = []"
| "extract_pairs L (keValuesPair # rest) key =
     (let sKeyValuesPair = split_char keyValuesSeparator keValuesPair in
      if length sKeyValuesPair < 2 then extract_pairs L rest key
      else if sKeyValuesPair ! 0 \<noteq> key then extract_pairs L rest key
      else extractNonEmpty L (split_char valuesSeparator (sKeyValuesPair ! 1)) key)"

definition extractFromAttributes :: "core_lib \<Rightarrow> bytes \<Rightarrow> string \<Rightarrow> string list" where
  "extractFromAttributes L attributes key =
     (if length attributes = 0 then []
      else extract_pairs L (split_char attributesSeparator attributes) key)"

definition ExtractTagsFromAttributes :: "core_lib \<Rightarrow> bytes \<Rightarrow> string list" where
  "ExtractTagsFromAttributes L attributes = extractFromAttributes L attributes tagsKey"

definition ExtractMetaDataFromAttributes :: "core_lib \<Rightarrow> bytes \<Rightarrow> string" where
  "ExtractMetaDataFromAttributes L attributes =
     (case extractFromAttributes L attributes metadataKey of
        [] \<Rightarrow> []
      | r # _ \<Rightarrow> TruncateFieldIfExceedsMaxLength r)"

section \<open>Token identifiers (converters/tokenIdentifier.go)\<close>

definition ComputeTokenIdentifier :: "string \<Rightarrow> u64 \<Rightarrow> string" where
  "ComputeTokenIdentifier token nonce =
     (if token = [] \<or> nonce = 0 then []
      else token @ ''-'' @ hex_encode (be_bytes (unat nonce)))"

definition EncodeNonceToHex :: "u64 \<Rightarrow> string" where
  "EncodeNonceToHex nonce = (if nonce = 0 then ''00'' else hex_encode (be_bytes (unat nonce)))"

section \<open>Balances (converters/balanceToFloat.go)\<close>

definition numDecimalsInFloatBalance :: nat where "numDecimalsInFloatBalance = 10"
definition numDecimalsInFloatBalanceESDT :: nat where "numDecimalsInFloatBalanceESDT = 18"

record balanceConverter =
  dividerForDenomination :: f64
  balancePrecision :: rat
  balancePrecisionESDT :: rat

text \<open>
  The two precisions are powers of ten below \<open>2 ^ 53 * 2 ^ 18\<close> and exact; the power of ten of the
  configured denomination is \<^verbatim>\<open>math.Pow\<close>, a parameter.
\<close>

definition NewBalanceConverter :: "core_lib \<Rightarrow> int \<Rightarrow> balanceConverter result" where
  "NewBalanceConverter L denomination =
     (if denomination < 0 then Inl ErrNegativeDenominationValue
      else Inr \<lparr>dividerForDenomination = Pow10 L denomination,
                balancePrecision = 10 ^ numDecimalsInFloatBalance,
                balancePrecisionESDT = 10 ^ numDecimalsInFloatBalanceESDT\<rparr>)"

definition computeBalanceAsFloat ::
    "core_lib \<Rightarrow> balanceConverter \<Rightarrow> int option \<Rightarrow> rat \<Rightarrow> f64 result" where
  "computeBalanceAsFloat L bc balance precision =
     (case balance of
        None \<Rightarrow> Inr (Fin 0)
      | Some b \<Rightarrow>
          if b = 0 then Inr (Fin 0)
          else if length (be_bytes (nat \<bar>b\<bar>)) > MaxESDTValueLength then Inl ErrValueTooBig
          else
            let balanceFloat64 = rnd (of_int b);
                bal = f64_div_pos balanceFloat64 (dividerForDenomination bc);
                balanceFloatWithDecimals =
                  f64_div_pos (f64_round (f64_mul_pos bal precision)) (Fin precision);
                val = MaxFloat64 L balanceFloatWithDecimals (Fin 0)
            in if f64_is_inf val then Inl ErrValueTooBig else Inr val)"

definition ComputeBalanceAsFloat :: "core_lib \<Rightarrow> balanceConverter \<Rightarrow> int option \<Rightarrow> f64 result" where
  "ComputeBalanceAsFloat L bc balance = computeBalanceAsFloat L bc balance (balancePrecision bc)"

definition ConvertBigValueToFloat :: "core_lib \<Rightarrow> balanceConverter \<Rightarrow> int option \<Rightarrow> f64 result" where
  "ConvertBigValueToFloat L bc balance = computeBalanceAsFloat L bc balance (balancePrecisionESDT bc)"

fun ComputeSliceOfStringsAsFloat ::
    "core_lib \<Rightarrow> balanceConverter \<Rightarrow> string list \<Rightarrow> f64 list result" where
  "ComputeSliceOfStringsAsFloat L bc [] = Inr []"
| "ComputeSliceOfStringsAsFloat L bc (v # values) =
     (case set_string10 v of
        None \<Rightarrow> Inl ErrCastStringToBigInt
      | Some valueBig \<Rightarrow>
          bindr (ConvertBigValueToFloat L bc (Some valueBig)) (\<lambda>valueNum.
          bindr (ComputeSliceOfStringsAsFloat L bc values) (\<lambda>floatValues.
            Inr (valueNum # floatValues))))"

definition BigIntToString :: "int option \<Rightarrow> string" where
  "BigIntToString v = (case v of None \<Rightarrow> ''0'' | Some i \<Rightarrow> dec_int i)"

text \<open>The callers log a conversion error and keep the zero value returned beside it.\<close>

definition num_or_zero :: "f64 result \<Rightarrow> f64" where
  "num_or_zero r = (case r of Inl _ \<Rightarrow> Fin 0 | Inr x \<Rightarrow> x)"

section \<open>Token metadata (converters/tokenMetaData.go)\<close>

definition nonEmptyURIs :: "bytes list \<Rightarrow> bool" where
  "nonEmptyURIs uris = list_ex (\<lambda>uri. length uri > 0) uris"

definition whiteListedStorage :: "bytes list \<Rightarrow> bool" where
  "whiteListedStorage uris =
     (case uris of
        [] \<Rightarrow> False
      | uri # _ \<Rightarrow>
          prefix ''https://ipfs.io/ipfs/'' uri \<or> prefix ''ipfs://'' uri \<or>
          prefix ''https://dweb.link/ipfs'' uri \<or>
          (sublist ''.pinata.cloud/ipfs'' uri \<and> prefix ''https://'' uri))"

definition PrepareTokenMetaData ::
    "core_lib \<Rightarrow> altered_TokenMetaData option \<Rightarrow> TokenMetaData option" where
  "PrepareTokenMetaData L tokenMetadata =
     map_option (\<lambda>m.
       \<lparr>md_Name = TruncateFieldIfExceedsMaxLength (am_Name m),
        md_Creator = am_Creator m,
        md_Royalties = am_Royalties m,
        md_Hash = am_Hash m,
        md_URIs = map TruncateFieldIfExceedsMaxLengthBase64 (am_URIs m),
        md_Tags = TruncateSliceElementsIfExceedsMaxLength
                    (ExtractTagsFromAttributes L (am_Attributes m)),
        md_Attributes = TruncateFieldIfExceedsMaxLengthBase64 (am_Attributes m),
        md_MetaData = ExtractMetaDataFromAttributes L (am_Attributes m),
        md_NonEmptyURIs = nonEmptyURIs (am_URIs m),
        md_WhiteListedStorage = whiteListedStorage (am_URIs m)\<rparr>) tokenMetadata"

section \<open>Maps by hash (converters/events.go)\<close>

text \<open>
  The values of these maps are pointers into the slice the map is made from, here positions of the
  list: a later object with the same hash replaces an earlier one.
\<close>

definition ConvertTxsSliceIntoMap :: "Transaction list \<Rightarrow> (string, nat) gomap" where
  "ConvertTxsSliceIntoMap txs =
     fold (\<lambda>(i, tx). gm_set (tx_Hash tx) i) (enumerate 0 txs) []"

definition ConvertScrsSliceIntoMap :: "ScResult list \<Rightarrow> (string, nat) gomap" where
  "ConvertScrsSliceIntoMap scrs =
     fold (\<lambda>(i, scr). gm_set (scr_Hash scr) i) (enumerate 0 scrs) []"

section \<open>Lemmas\<close>

lemma length_TruncateField: "length (TruncateFieldIfExceedsMaxLength f) \<le> MaxFieldLength"
  by (simp add: TruncateFieldIfExceedsMaxLength_def)

lemma prefix_TruncateField: "prefix (TruncateFieldIfExceedsMaxLength f) f"
  by (simp add: TruncateFieldIfExceedsMaxLength_def take_is_prefix)

lemma length_TruncateFieldBase64:
  "length (TruncateFieldIfExceedsMaxLengthBase64 f) \<le> MaxKeywordFieldLengthBeforeBase64Encoding"
  by (simp add: TruncateFieldIfExceedsMaxLengthBase64_def)

lemma EncodeNonceToHex_inject [simp]: "EncodeNonceToHex m = EncodeNonceToHex n \<longleftrightarrow> m = n"
proof -
  have zero: "hex_encode (be_bytes (unat k)) \<noteq> ''00''" if "k \<noteq> 0" for k :: u64
  proof
    assume "hex_encode (be_bytes (unat k)) = ''00''"
    then have "hex_decode (hex_encode (be_bytes (unat k))) = hex_decode ''00''" by simp
    then have "be_bytes (unat k) = [char_of (0::nat)]" by (simp add: hex_value_def)
    with hd_be_bytes [of "unat k"] that show False by (simp add: unat_eq_zero)
  qed
  show ?thesis using zero [of m] zero [of n] by (auto simp: EncodeNonceToHex_def word_unat_eq_iff dest: sym)
qed

lemma EncodeNonceToHex_no_dash: "CHR ''-'' \<notin> set (EncodeNonceToHex n)"
  by (simp add: EncodeNonceToHex_def hex_encode_no_dash)

lemma computeBalance_value:
  assumes d: "dividerForDenomination bc = Fin d" "1 \<le> d" and p: "1 \<le> p" "p \<le> 10 ^ 18"
    and mx: "\<And>x. MaxFloat64 L (Fin x) (Fin 0) = Fin (max x 0)"
    and b: "\<bar>of_int b\<bar> < (2::rat) ^ 800"
  shows "\<exists>v. MaxFloat64 L (f64_div_pos (f64_round (f64_mul_pos
           (f64_div_pos (rnd (of_int b)) (dividerForDenomination bc)) p)) (Fin p)) (Fin 0) = Fin v \<and>
         0 \<le> v"
proof -
  have lt: "x < 2 ^ 1000" if "x \<le> 2 ^ 999" for x :: rat
    using that by (rule order_le_less_trans) simp
  from rnd_abs [of "of_int b"] b obtain v0 where v0: "rnd (of_int b) = Fin v0" "\<bar>v0\<bar> \<le> 2 ^ 801"
    by (auto simp: lt)
  have "\<bar>v0 / d\<bar> \<le> 2 ^ 801" using abs_divide_le [OF d(2), of v0] v0(2) by linarith
  with rnd_abs [of "v0 / d"] obtain v1 where v1: "rnd (v0 / d) = Fin v1" "\<bar>v1\<bar> \<le> 2 ^ 802"
    by (auto simp: lt)
  have "\<bar>v1 * p\<bar> \<le> 2 ^ 802 * 10 ^ 18"
    unfolding abs_mult using v1(2) p by (intro mult_mono) auto
  also have "\<dots> \<le> (2::rat) ^ 862" by simp
  finally have "\<bar>v1 * p\<bar> \<le> 2 ^ 862" .
  with rnd_abs [of "v1 * p"] obtain v2 where v2: "rnd (v1 * p) = Fin v2" "\<bar>v2\<bar> \<le> 2 ^ 863"
    by (auto simp: lt)
  from f64_round_abs [of v2] obtain w where w: "f64_round (Fin v2) = Fin w" "\<bar>w\<bar> \<le> \<bar>v2\<bar> + 1" by blast
  have "\<bar>w / p\<bar> \<le> 2 ^ 864" using abs_divide_le [OF p(1), of w] w(2) v2(2) by simp
  with rnd_abs [of "w / p"] obtain v3 where v3: "rnd (w / p) = Fin v3"
    by (auto simp: lt)
  show ?thesis
    by (simp add: d(1) v0(1) v1(1) v2(1) w(1) v3 mx del: f64_round.simps)
qed

lemma computeBalanceAsFloat_cases:
  assumes "dividerForDenomination bc = Fin d" "1 \<le> d" "1 \<le> p" "p \<le> 10 ^ 18"
    and "\<And>x. MaxFloat64 L (Fin x) (Fin 0) = Fin (max x 0)"
  shows "if nat \<bar>b\<bar> < 256 ^ MaxESDTValueLength
         then \<exists>v. computeBalanceAsFloat L bc (Some b) p = Inr (Fin v) \<and> 0 \<le> v
         else computeBalanceAsFloat L bc (Some b) p = Inl ErrValueTooBig"
proof (cases "nat \<bar>b\<bar> < 256 ^ MaxESDTValueLength")
  case True
  then have small: "length (be_bytes (nat \<bar>b\<bar>)) \<le> MaxESDTValueLength"
    by (simp add: length_be_bytes_le_iff)
  have "\<bar>b\<bar> < 2 ^ 800" using True by (simp add: MaxESDTValueLength_def nat_less_iff)
  then have "\<bar>of_int b\<bar> < (2::rat) ^ 800" by (metis of_int_abs of_int_less_iff of_int_numeral of_int_power)
  from computeBalance_value [OF assms this] obtain v where
    v: "MaxFloat64 L (f64_div_pos (f64_round (f64_mul_pos
          (f64_div_pos (rnd (of_int b)) (dividerForDenomination bc)) p)) (Fin p)) (Fin 0) = Fin v" "0 \<le> v"
    by blast
  with True small show ?thesis by (auto simp: computeBalanceAsFloat_def Let_def)
next
  case False
  then have "length (be_bytes (nat \<bar>b\<bar>)) > MaxESDTValueLength"
    by (simp add: length_be_bytes_le_iff not_le [symmetric])
  with False show ?thesis by (auto simp: computeBalanceAsFloat_def)
qed

lemma map_id_on: "(\<And>x. x \<in> set xs \<Longrightarrow> f x = x) \<Longrightarrow> map f xs = xs"
  by (induction xs) auto

text \<open>A tag that survives the round trip: lower-case ASCII, not empty, free of the separators.\<close>

definition plain_tag :: "string \<Rightarrow> bool" where
  "plain_tag t \<longleftrightarrow> t \<noteq> [] \<and> is_ascii t \<and> map ascii_lower t = t \<and>
     attributesSeparator \<notin> set t \<and> keyValuesSeparator \<notin> set t \<and> valuesSeparator \<notin> set t"

lemma set_join_char: "set (join_char sep ws) \<subseteq> insert sep (\<Union> (set ` set ws))"
  by (induction sep ws rule: join_char.induct) auto

section \<open>Properties\<close>

text \<open>
  The identifier of a token of nonzero nonce determines the token and the nonce: two tokens never
  share an identifier (the collection name may contain dashes, the hexadecimal nonce does not).
\<close>

theorem ComputeTokenIdentifier_inject:
  assumes "ComputeTokenIdentifier t m = ComputeTokenIdentifier u n"
    and "ComputeTokenIdentifier t m \<noteq> []"
  shows "t = u \<and> m = n"
proof -
  have nz: "t \<noteq> [] \<and> m \<noteq> 0" "u \<noteq> [] \<and> n \<noteq> 0"
    using assms by (auto simp: ComputeTokenIdentifier_def split: if_splits)
  with assms(1) have eq: "t @ CHR ''-'' # hex_encode (be_bytes (unat m)) =
      u @ CHR ''-'' # hex_encode (be_bytes (unat n))"
    by (simp add: ComputeTokenIdentifier_def)
  from append_sep_inject [OF eq hex_encode_no_dash hex_encode_no_dash] show ?thesis
    by (simp add: word_unat_eq_iff)
qed

theorem ComputeTokenIdentifier_inject_witness:
  "ComputeTokenIdentifier ''TKN-12'' 5 = ''TKN-12-05'' \<and> ''TKN-12'' = (''TKN-12'' :: string) \<and> 5 = (5 :: u64)"
proof -
  have ev: "ComputeTokenIdentifier ''TKN-12'' 5 = ''TKN-12-05''"
    by code_simp
  then have "ComputeTokenIdentifier ''TKN-12'' 5 \<noteq> []" by simp
  from ev ComputeTokenIdentifier_inject [OF refl this] show ?thesis by blast
qed

text \<open>
  C4. A balance converter built for any accepted denomination turns every value of at most 100 bytes
  into a finite number that is not negative, and rejects every longer value: the overflow test of the
  source after the division never fires, and a marshalled document never holds an infinity.
\<close>

theorem balance_conversion_total:
  assumes "NewBalanceConverter L denomination = Inr bc"
    and "Pow10 L denomination = Fin d" and "1 \<le> d"
    and "\<And>x. MaxFloat64 L (Fin x) (Fin 0) = Fin (max x 0)"
  shows "if nat \<bar>b\<bar> < 256 ^ MaxESDTValueLength
         then (\<exists>v. ComputeBalanceAsFloat L bc (Some b) = Inr (Fin v) \<and> 0 \<le> v) \<and>
              (\<exists>v. ConvertBigValueToFloat L bc (Some b) = Inr (Fin v) \<and> 0 \<le> v)
         else ComputeBalanceAsFloat L bc (Some b) = Inl ErrValueTooBig \<and>
              ConvertBigValueToFloat L bc (Some b) = Inl ErrValueTooBig"
proof -
  from assms(1,2) have bc: "dividerForDenomination bc = Fin d" "balancePrecision bc = 10 ^ 10"
      "balancePrecisionESDT bc = 10 ^ 18"
    by (auto simp: NewBalanceConverter_def numDecimalsInFloatBalance_def
        numDecimalsInFloatBalanceESDT_def split: if_splits)
  show ?thesis
    using computeBalanceAsFloat_cases [OF bc(1) assms(3) _ _ assms(4), of "balancePrecision bc" b]
      computeBalanceAsFloat_cases [OF bc(1) assms(3) _ _ assms(4), of "balancePrecisionESDT bc" b]
    by (simp add: ComputeBalanceAsFloat_def ConvertBigValueToFloat_def bc split: if_splits)
qed

theorem balance_conversion_total_witness:
  "\<exists>bc v. NewBalanceConverter demo_lib 18 = Inr bc \<and>
     ComputeBalanceAsFloat demo_lib bc (Some 1000) = Inr (Fin v) \<and> 0 \<le> v"
proof -
  obtain bc where bc: "NewBalanceConverter demo_lib 18 = Inr bc"
    by (simp add: NewBalanceConverter_def)
  have "Pow10 demo_lib 18 = Fin (10 ^ 18)" by (simp add: demo_lib_def)
  moreover have "\<And>x. MaxFloat64 demo_lib (Fin x) (Fin 0) = Fin (max x 0)"
    by (simp add: demo_lib_def)
  ultimately show ?thesis
    using bc balance_conversion_total [OF bc, of "10 ^ 18" 1000]
    by (simp add: MaxESDTValueLength_def)
qed



end
