(* ===== verification/Tokens_Info.thy ===== *)
theory Tokens_Info
  imports Converters
begin

text \<open>
  The tokens handler of \<^verbatim>\<open>data/tokens.go\<close>: a map from identifiers to token information, filled while
  logs and accounts are processed and completed with the types and owners stored in Elasticsearch.
  The locale \<open>token_store\<close> is the part of the interface the event processors rely on.
\<close>

section \<open>Model\<close>

type_synonym tokensInfo = "(string, TokenInfo) gomap"

definition metaESDT :: string where "metaESDT = ''MetaESDT''"
definition dynamicMetaESDT :: string where "dynamicMetaESDT = ''DynamicMetaESDT''"

definition NewTokensInfo :: tokensInfo where
  "NewTokensInfo = []"

definition token_key :: "TokenInfo \<Rightarrow> string" where
  "token_key tokenInfo = (if ti_Identifier tokenInfo \<noteq> [] then ti_Identifier tokenInfo else ti_Token tokenInfo)"

definition TokensAdd :: "TokenInfo \<Rightarrow> tokensInfo \<Rightarrow> tokensInfo" where
  "TokensAdd tokenInfo m = gm_set (token_key tokenInfo) tokenInfo m"

definition TokensLen :: "tokensInfo \<Rightarrow> nat" where
  "TokensLen m = length m"

definition TokensGetAll :: "tokensInfo \<Rightarrow> TokenInfo list" where
  "TokensGetAll m = gm_values m"

definition GetAllWithoutMetaESDT :: "tokensInfo \<Rightarrow> TokenInfo list" where
  "GetAllWithoutMetaESDT m =
     filter (\<lambda>td. \<not> (ti_Type td = metaESDT \<or> ti_Type td = dynamicMetaESDT)) (gm_values m)"

definition GetAllTokens :: "tokensInfo \<Rightarrow> string list" where
  "GetAllTokens m = gm_keys (fold (\<lambda>td. gm_set (ti_Token td) ()) (gm_values m) [])"

text \<open>The identifiers of every token name, and the update of one answered document.\<close>

definition keyTokenValueIdentifiers :: "tokensInfo \<Rightarrow> (string, string list) gomap" where
  "keyTokenValueIdentifiers m =
     fold (\<lambda>(identifier, td) acc.
       gm_set (ti_Token td) (the_default_list (map_of acc (ti_Token td)) @ [identifier]) acc) m []"

definition put_type_and_owner :: "SourceToken \<Rightarrow> string \<Rightarrow> tokensInfo \<Rightarrow> tokensInfo" where
  "put_type_and_owner src identifier m =
     (case map_of m identifier of
        None \<Rightarrow> m
      | Some td \<Rightarrow> gm_set identifier
          (td\<lparr>ti_Type := st_Type src, ti_CurrentOwner := st_CurrentOwner src\<rparr>) m)"

definition AddTypeAndOwnerFromResponse :: "ResponseTokens option \<Rightarrow> tokensInfo \<Rightarrow> tokensInfo" where
  "AddTypeAndOwnerFromResponse res m =
     (let kv = keyTokenValueIdentifiers m in
      case res of
        None \<Rightarrow> m
      | Some docs \<Rightarrow>
          fold (\<lambda>tokenData st.
            if \<not> rt_Found tokenData then st
            else fold (put_type_and_owner (rt_Source tokenData))
                   (the_default_list (map_of kv (rt_ID tokenData))) st) docs m)"

definition PutTypeAndOwnerInAccountsESDT ::
    "tokensInfo \<Rightarrow> (string, AccountInfo) gomap \<Rightarrow> (string, AccountInfo) gomap" where
  "PutTypeAndOwnerInAccountsESDT m accountsESDT =
     map (\<lambda>(k, accountESDT).
       case map_of m (ai_TokenIdentifier accountESDT) of
         None \<Rightarrow> (k, accountESDT)
       | Some tokenData \<Rightarrow>
           (k, accountESDT\<lparr>ai_Type := ti_Type tokenData, ai_CurrentOwner := ti_CurrentOwner tokenData\<rparr>))
       accountsESDT"

section \<open>Lemmas\<close>

lemma keyTokenValueIdentifiers_fold:
  "map_of (fold (\<lambda>(identifier, td) acc.
       gm_set (ti_Token td) (the_default_list (map_of acc (ti_Token td)) @ [identifier]) acc) m acc0) t =
   (if \<exists>p \<in> set m. ti_Token (snd p) = t
    then Some (the_default_list (map_of acc0 t) @ map fst (filter (\<lambda>p. ti_Token (snd p) = t) m))
    else map_of acc0 t)"
  by (induction m arbitrary: acc0) auto

text \<open>The identifiers filed under a token name are the keys whose entry has this name.\<close>

lemma keyTokenValueIdentifiers_eq:
  "the_default_list (map_of (keyTokenValueIdentifiers m) t) =
     map fst (filter (\<lambda>p. ti_Token (snd p) = t) m)"
proof (cases "\<exists>p \<in> set m. ti_Token (snd p) = t")
  case False
  then have "filter (\<lambda>p. ti_Token (snd p) = t) m = []" by (auto simp: filter_empty_conv)
  with False show ?thesis
    unfolding keyTokenValueIdentifiers_def keyTokenValueIdentifiers_fold by simp
qed (simp add: keyTokenValueIdentifiers_def keyTokenValueIdentifiers_fold)

lemma map_of_put_type_and_owner:
  "map_of (put_type_and_owner src i m) k =
     (if k = i then map_option (\<lambda>td. td\<lparr>ti_Type := st_Type src, ti_CurrentOwner := st_CurrentOwner src\<rparr>) (map_of m k)
      else map_of m k)"
  by (auto simp: put_type_and_owner_def split: option.splits)

lemma map_of_put_all:
  "map_of (fold (put_type_and_owner src) is m) k =
     (if k \<in> set is then map_option (\<lambda>td. td\<lparr>ti_Type := st_Type src, ti_CurrentOwner := st_CurrentOwner src\<rparr>) (map_of m k)
      else map_of m k)"
  by (induction "is" arbitrary: m) (auto simp: map_of_put_type_and_owner option.map_comp o_def)

text \<open>The last document found for a token, and the update it stands for.\<close>

definition last_found :: "ResponseTokens \<Rightarrow> string \<Rightarrow> SourceToken option" where
  "last_found docs t = map_option rt_Source (find (\<lambda>d. rt_Found d \<and> rt_ID d = t) (rev docs))"

definition with_source :: "SourceToken option \<Rightarrow> TokenInfo \<Rightarrow> TokenInfo" where
  "with_source src td =
     (case src of None \<Rightarrow> td
      | Some s \<Rightarrow> td\<lparr>ti_Type := st_Type s, ti_CurrentOwner := st_CurrentOwner s\<rparr>)"

lemma with_source_simps [simp]:
  "with_source None td = td"
  "with_source (Some s) td = td\<lparr>ti_Type := st_Type s, ti_CurrentOwner := st_CurrentOwner s\<rparr>"
  by (simp_all add: with_source_def)

lemma last_found_snoc:
  "last_found (docs @ [d]) t = (if rt_Found d \<and> rt_ID d = t then Some (rt_Source d) else last_found docs t)"
  by (simp add: last_found_def)

lemma ti_Token_with_source [simp]: "ti_Token (with_source s td) = ti_Token td"
  by (simp add: with_source_def split: option.splits)

lemma with_source_override:
  "(with_source s td)\<lparr>ti_Type := a, ti_CurrentOwner := b\<rparr> = td\<lparr>ti_Type := a, ti_CurrentOwner := b\<rparr>"
  by (simp add: with_source_def split: option.splits)

section \<open>The store interface\<close>

locale token_store =
  fixes empty :: 's
    and add :: "TokenInfo \<Rightarrow> 's \<Rightarrow> 's"
    and lookup :: "'s \<Rightarrow> string \<Rightarrow> TokenInfo option"
    and key :: "TokenInfo \<Rightarrow> string"
  assumes lookup_empty: "lookup empty k = None"
    and lookup_add: "lookup (add t s) k = (if k = key t then Some t else lookup s k)"
begin

lemma lookup_add_all:
  "lookup (fold add ts s) k = (case find (\<lambda>t. key t = k) (rev ts) of None \<Rightarrow> lookup s k | Some t \<Rightarrow> Some t)"
  by (induction ts rule: rev_induct) (auto simp: lookup_add split: option.splits)

lemma add_idem: "lookup (add t (add t s)) = lookup (add t s)"
  by (rule ext) (simp add: lookup_add)

end

interpretation tok: token_store NewTokensInfo TokensAdd map_of token_key
  by unfold_locales (simp_all add: NewTokensInfo_def TokensAdd_def)

section \<open>Properties\<close>

text \<open>
  C6. Completing the tokens with an Elasticsearch answer changes, for every identifier, only the type
  and the current owner, to those of the last document found for the token's name; an identifier
  whose token is not in the answer keeps its entry, and no entry appears or disappears.
\<close>

theorem AddTypeAndOwner_spec:
  assumes "gm_wf m"
  shows "map_of (AddTypeAndOwnerFromResponse (Some docs) m) k =
    map_option (\<lambda>td. with_source (last_found docs (ti_Token td)) td) (map_of m k)"
proof -
  have "map_of (fold (\<lambda>tokenData st. if \<not> rt_Found tokenData then st
            else fold (put_type_and_owner (rt_Source tokenData))
                   (the_default_list (map_of (keyTokenValueIdentifiers m) (rt_ID tokenData))) st) docs m) k =
        map_option (\<lambda>td. with_source (last_found docs (ti_Token td)) td) (map_of m k)"
  proof (induction docs rule: rev_induct)
    case Nil
    show ?case by (simp add: last_found_def option.map_ident)
  next
    case (snoc d docs)
    have mem: "k \<in> fst ` {p \<in> set m. ti_Token (snd p) = t} \<longleftrightarrow>
        (\<exists>td. map_of m k = Some td \<and> ti_Token td = t)" for t
      using assms by (force simp: gm_wf_map_of_iff [symmetric])
    show ?case using snoc
      by (cases "map_of m k")
        (auto simp: last_found_snoc map_of_put_all keyTokenValueIdentifiers_eq mem with_source_override)
  qed
  then show ?thesis by (simp add: AddTypeAndOwnerFromResponse_def Let_def)
qed

theorem AddTypeAndOwner_spec_witness:
  "map_of (AddTypeAndOwnerFromResponse
      (Some [\<lparr>rt_Found = True, rt_ID = ''TKN'', rt_Source = \<lparr>st_Type = ''NFT'', st_CurrentOwner = ''o''\<rparr>\<rparr>])
      [(''TKN-01'', zeroTokenInfo\<lparr>ti_Token := ''TKN''\<rparr>)]) ''TKN-01'' =
   Some (zeroTokenInfo\<lparr>ti_Token := ''TKN'', ti_Type := ''NFT'', ti_CurrentOwner := ''o''\<rparr>)"
proof -
  have "gm_wf [(''TKN-01'', zeroTokenInfo\<lparr>ti_Token := ''TKN''\<rparr>)]" by (simp add: gm_wf_def)
  from AddTypeAndOwner_spec [OF this] show ?thesis
    by (simp add: last_found_def)
qed

end
