(* ===== verification/Altered_Accounts.thy ===== *)
theory Altered_Accounts
  imports Go_Lib
begin

text \<open>
  The altered-accounts handler of \<^verbatim>\<open>data/altered.go\<close>: for every address the list of its changes,
  where a token operation on an address already seen is merged with an earlier entry or appended.
\<close>

section \<open>Model\<close>

record AlteredEntry =
  al_BalanceChange :: bool
  al_IsSender :: bool
  al_IsESDTOperation :: bool
  al_IsNFTOperation :: bool
  al_IsNFTCreate :: bool
  al_TokenIdentifier :: string
  al_NFTNonce :: u64
  al_Type :: string

type_synonym alteredAccounts = "(string, AlteredEntry list) gomap"

definition NewAlteredAccounts :: alteredAccounts where
  "NewAlteredAccounts = []"

definition is_token_op :: "AlteredEntry \<Rightarrow> bool" where
  "is_token_op a \<longleftrightarrow> al_IsESDTOperation a \<or> al_IsNFTOperation a"

text \<open>
  The loop over the entries of the address: the entries already passed, the sender count so far and
  the entries to come.  It returns the list with the entry merged, or the final sender count when no
  entry absorbed the account.
\<close>

fun merge_entry ::
    "AlteredEntry \<Rightarrow> AlteredEntry list \<Rightarrow> nat \<Rightarrow> AlteredEntry list \<Rightarrow> nat + AlteredEntry list" where
  "merge_entry account done senderCount [] = Inl senderCount"
| "merge_entry account done senderCount (elem # rest) =
     (let isSender = al_IsSender elem \<or> al_IsSender account;
          senderCount' = (if isSender then Suc senderCount else senderCount);
          shouldRewrite = is_token_op account \<and> \<not> is_token_op elem;
          alreadyExists = al_TokenIdentifier elem = al_TokenIdentifier account \<and>
                          al_NFTNonce elem = al_NFTNonce account
      in if shouldRewrite then
           Inr (done @ elem\<lparr>al_TokenIdentifier := al_TokenIdentifier account,
                  al_NFTNonce := al_NFTNonce account,
                  al_IsNFTOperation := al_IsNFTOperation account,
                  al_IsESDTOperation := al_IsESDTOperation account,
                  al_IsSender := isSender,
                  al_Type := al_Type account,
                  al_IsNFTCreate := al_IsNFTCreate account\<rparr> # rest)
         else if alreadyExists then
           Inr (done @ elem\<lparr>al_IsSender := isSender \<and> senderCount' = 1\<rparr> # rest)
         else merge_entry account (done @ [elem]) senderCount' rest)"

definition AlteredAdd :: "string \<Rightarrow> AlteredEntry \<Rightarrow> alteredAccounts \<Rightarrow> alteredAccounts result" where
  "AlteredAdd key account aa =
     (case map_of aa key of
        None \<Rightarrow> Inr (gm_set key [account] aa)
      | Some entries \<Rightarrow>
          if \<not> is_token_op account then
            (case entries of
               [] \<Rightarrow> Inl PanicIndexOutOfRange
             | e # es \<Rightarrow>
                 Inr (gm_set key (e\<lparr>al_IsSender := al_IsSender e \<or> al_IsSender account\<rparr> # es) aa))
          else
            (case merge_entry account [] 0 entries of
               Inr entries' \<Rightarrow> Inr (gm_set key entries' aa)
             | Inl senderCount \<Rightarrow>
                 let account' = (if senderCount > 0 then account\<lparr>al_IsSender := False\<rparr> else account)
                 in Inr (gm_set key (entries @ [account']) aa)))"

definition AlteredGet :: "string \<Rightarrow> alteredAccounts \<Rightarrow> AlteredEntry list option" where
  "AlteredGet key aa = map_of aa key"

definition AlteredLen :: "alteredAccounts \<Rightarrow> nat" where
  "AlteredLen aa = length aa"

definition AlteredGetAll :: "alteredAccounts option \<Rightarrow> alteredAccounts" where
  "AlteredGetAll aa = (case aa of None \<Rightarrow> [] | Some m \<Rightarrow> m)"

section \<open>Invariant\<close>

definition token_of :: "AlteredEntry \<Rightarrow> string \<times> u64" where
  "token_of e = (al_TokenIdentifier e, al_NFTNonce e)"

text \<open>
  An address has at least one entry; only the first may be marked as the sender; the further ones are
  token operations, and then so is the first; no two of them are about the same token and nonce.
\<close>

fun entries_ok :: "AlteredEntry list \<Rightarrow> bool" where
  "entries_ok [] = False"
| "entries_ok (e # es) =
     (list_all (\<lambda>x. is_token_op x \<and> \<not> al_IsSender x) es \<and>
      (es \<noteq> [] \<longrightarrow> is_token_op e) \<and> distinct (map token_of (e # es)))"

definition altered_inv :: "alteredAccounts \<Rightarrow> bool" where
  "altered_inv aa \<longleftrightarrow> gm_wf aa \<and> (\<forall>k es. map_of aa k = Some es \<longrightarrow> entries_ok es)"

inductive altered_reachable :: "alteredAccounts \<Rightarrow> bool" where
  start: "altered_reachable NewAlteredAccounts"
| add: "altered_reachable aa \<Longrightarrow> AlteredAdd key account aa = Inr aa' \<Longrightarrow> altered_reachable aa'"

section \<open>Lemmas\<close>

text \<open>Past token operations that do not hold the account's token, the loop reaches the end with at
  least one sender counted when the account is a sender.\<close>

lemma merge_entry_tail:
  assumes "list_all (\<lambda>x. is_token_op x \<and> \<not> al_IsSender x) es" and "is_token_op a"
    and "al_IsSender a \<Longrightarrow> 0 < n"
  shows "case merge_entry a pre n es of
      Inl c \<Rightarrow> token_of a \<notin> token_of ` set es \<and> (al_IsSender a \<longrightarrow> 0 < c)
    | Inr out \<Rightarrow> out = pre @ es"
  using assms
proof (induction es arbitrary: pre n)
  case (Cons e es)
  show ?case
  proof (cases "token_of e = token_of a")
    case True
    then have "al_TokenIdentifier e = al_TokenIdentifier a" "al_NFTNonce e = al_NFTNonce a"
      by (auto simp: token_of_def)
    moreover have "e\<lparr>al_IsSender := False\<rparr> = e" using Cons.prems(1) by (cases e) auto
    ultimately show ?thesis using Cons.prems by (auto simp: Let_def)
  next
    case False
    then have ne: "\<not> (al_TokenIdentifier e = al_TokenIdentifier a \<and> al_NFTNonce e = al_NFTNonce a)"
      by (auto simp: token_of_def)
    let ?n = "if al_IsSender a then Suc n else n"
    have "case merge_entry a (pre @ [e]) ?n es of
        Inl c \<Rightarrow> token_of a \<notin> token_of ` set es \<and> (al_IsSender a \<longrightarrow> 0 < c)
      | Inr out \<Rightarrow> out = (pre @ [e]) @ es"
      using Cons.prems by (intro Cons.IH) auto
    with Cons.prems(1,2) ne False show ?thesis
      by (auto simp: Let_def split: sum.splits dest: sym)
  qed
qed simp

lemma merge_entries_ok:
  assumes "entries_ok es" and "is_token_op a"
  shows "case merge_entry a [] 0 es of
      Inl c \<Rightarrow> entries_ok (es @ [if c > 0 then a\<lparr>al_IsSender := False\<rparr> else a])
    | Inr out \<Rightarrow> entries_ok out"
proof -
  obtain e rest where es: "es = e # rest" using assms(1) by (cases es) auto
  show ?thesis
  proof (cases "is_token_op e")
    case False
    with assms have "rest = []" by (auto simp: es)
    with False assms(2) show ?thesis by (simp add: es Let_def)
  next
    case True
    note tok = this
    show ?thesis
    proof (cases "token_of e = token_of a")
      case True
      then have "al_TokenIdentifier e = al_TokenIdentifier a" "al_NFTNonce e = al_NFTNonce a"
        by (auto simp: token_of_def)
      with assms tok show ?thesis by (auto simp: es Let_def token_of_def is_token_op_def)
    next
      case False
      then have ne: "\<not> (al_TokenIdentifier e = al_TokenIdentifier a \<and> al_NFTNonce e = al_NFTNonce a)"
        by (auto simp: token_of_def)
      let ?n = "if al_IsSender e \<or> al_IsSender a then Suc 0 else 0"
      have t: "case merge_entry a [e] ?n rest of
          Inl c \<Rightarrow> token_of a \<notin> token_of ` set rest \<and> (al_IsSender a \<longrightarrow> 0 < c)
        | Inr out \<Rightarrow> out = [e] @ rest"
        using assms by (intro merge_entry_tail) (auto simp: es)
      have step: "merge_entry a [] 0 es = merge_entry a [e] ?n rest"
        using tok ne by (auto simp: es Let_def)
      have tk: "token_of (if 0 < c then a\<lparr>al_IsSender := False\<rparr> else a) = token_of a"
        "is_token_op (if 0 < c then a\<lparr>al_IsSender := False\<rparr> else a)" for c :: nat
        using assms(2) by (auto simp: token_of_def is_token_op_def)
      show ?thesis
      proof (cases "merge_entry a [e] ?n rest")
        case (Inl c)
        let ?x = "if 0 < c then a\<lparr>al_IsSender := False\<rparr> else a"
        from t Inl have "token_of a \<notin> token_of ` set rest" "al_IsSender a \<longrightarrow> 0 < c" by simp_all
        then have "entries_ok (e # rest @ [?x])"
          using assms(1) tok False tk [of c] by (auto simp: es)
        then show ?thesis unfolding step by (simp only: Inl sum.case es append_Cons)
      next
        case (Inr out)
        with t assms(1) show ?thesis unfolding step by (simp add: es)
      qed
    qed
  qed
qed

lemma AlteredAdd_inv:
  assumes "altered_inv aa"
  shows "\<exists>aa'. AlteredAdd key a aa = Inr aa' \<and> altered_inv aa'"
proof (cases "map_of aa key")
  case None
  with assms show ?thesis by (auto simp: AlteredAdd_def altered_inv_def)
next
  case (Some es)
  with assms have ok: "entries_ok es" by (auto simp: altered_inv_def)
  have upd: "altered_inv (gm_set key es' aa)" if "entries_ok es'" for es'
    using assms that by (auto simp: altered_inv_def)
  show ?thesis
  proof (cases "is_token_op a")
    case True
    with merge_entries_ok [OF ok True] Some upd show ?thesis
      by (auto simp: AlteredAdd_def Let_def split: sum.splits)
  next
    case False
    obtain e rest where es: "es = e # rest" using ok by (cases es) auto
    have "entries_ok (e\<lparr>al_IsSender := al_IsSender e \<or> al_IsSender a\<rparr> # rest)"
      using ok by (auto simp: es token_of_def is_token_op_def)
    with False Some upd show ?thesis by (auto simp: AlteredAdd_def es)
  qed
qed

section \<open>Properties\<close>

text \<open>
  C7. In every state the handler can reach, and from it by any further call of Add, which never
  panics, an address has a non-empty list of entries of which only the first can be marked as the
  sender, with no two entries for the same token and nonce.
\<close>

theorem altered_reachable_inv:
  assumes "altered_reachable aa"
  shows "altered_inv aa \<and> (\<exists>aa'. AlteredAdd key account aa = Inr aa' \<and> altered_inv aa')"
proof -
  from assms have "altered_inv aa"
  proof (induction rule: altered_reachable.induct)
    case start
    show ?case by (simp add: altered_inv_def NewAlteredAccounts_def)
  next
    case (add aa key account aa')
    then show ?case using AlteredAdd_inv [of aa key account] by auto
  qed
  then show ?thesis using AlteredAdd_inv by blast
qed

theorem altered_reachable_inv_witness:
  "altered_inv NewAlteredAccounts \<and>
   (\<exists>aa'. AlteredAdd ''addr'' \<lparr>al_BalanceChange = True, al_IsSender = True, al_IsESDTOperation = False,
      al_IsNFTOperation = False, al_IsNFTCreate = False, al_TokenIdentifier = [], al_NFTNonce = 0,
      al_Type = []\<rparr> NewAlteredAccounts = Inr aa' \<and> altered_inv aa')"
  by (rule altered_reachable_inv [OF altered_reachable.start])

end
