(* ===== verification/Token_Roles.thy ===== *)
theory Token_Roles
  imports Go_Lib
begin

text \<open>
  \<^verbatim>\<open>process/elasticproc/tokeninfo/tokeninfo.go\<close>: the role changes and property changes of tokens that
  a block contains, in the order of the events, roles grouped by role name.
\<close>

record RoleData =
  rd_Token :: string
  rd_Address :: string
  rd_Set :: bool

record PropertiesData =
  pd_Token :: string
  pd_Properties :: "(string, bool) gomap"

record TokenRolesAndProperties =
  rolesData :: "(string, RoleData list) gomap"
  tokenProperties :: "PropertiesData list"

definition NewTokenRolesAndProperties :: TokenRolesAndProperties where
  "NewTokenRolesAndProperties = \<lparr>rolesData = [], tokenProperties = []\<rparr>"

definition AddRole ::
    "string \<Rightarrow> string \<Rightarrow> string \<Rightarrow> bool \<Rightarrow> TokenRolesAndProperties \<Rightarrow> TokenRolesAndProperties" where
  "AddRole token address role set_role tap =
     (let rData = \<lparr>rd_Token = token, rd_Address = address, rd_Set = set_role\<rparr> in
      case map_of (rolesData tap) role of
        Some rs \<Rightarrow> tap\<lparr>rolesData := gm_set role (rs @ [rData]) (rolesData tap)\<rparr>
      | None \<Rightarrow> tap\<lparr>rolesData := gm_set role [rData] (rolesData tap)\<rparr>)"

definition GetRoles :: "TokenRolesAndProperties \<Rightarrow> (string, RoleData list) gomap" where
  "GetRoles tap = rolesData tap"

definition AddProperties ::
    "string \<Rightarrow> (string, bool) gomap \<Rightarrow> TokenRolesAndProperties \<Rightarrow> TokenRolesAndProperties" where
  "AddProperties token properties tap =
     tap\<lparr>tokenProperties := tokenProperties tap @ [\<lparr>pd_Token = token, pd_Properties = properties\<rparr>]\<rparr>"

definition GetAllTokensWithProperties :: "TokenRolesAndProperties \<Rightarrow> PropertiesData list" where
  "GetAllTokensWithProperties tap = tokenProperties tap"

lemma map_of_AddRole [gomap_simps]:
  "map_of (rolesData (AddRole token address role s tap)) r =
     (if r = role
      then Some (the_default_list (map_of (rolesData tap) r) @
                 [\<lparr>rd_Token = token, rd_Address = address, rd_Set = s\<rparr>])
      else map_of (rolesData tap) r)"
  by (auto simp: AddRole_def Let_def split: option.splits)

lemma tokenProperties_AddRole [frame_simps]:
  "tokenProperties (AddRole token address role s tap) = tokenProperties tap"
  by (simp add: AddRole_def Let_def split: option.splits)

lemma gm_wf_AddRole [simp, intro]: "gm_wf (rolesData tap) \<Longrightarrow> gm_wf (rolesData (AddRole t a r s tap))"
  by (auto simp: AddRole_def Let_def split: option.splits)

end
