(* ===== verification/Tags_Count.thy ===== *)
theory Tags_Count
  imports Converters
begin

text \<open>
  \<^verbatim>\<open>process/elasticproc/tags/tagsCount.go\<close>: how many of the NFTs created in a block carry a tag.
\<close>

section \<open>Model\<close>

type_synonym tagsCount = "(string, int) gomap"

definition NewTagsCount :: tagsCount where
  "NewTagsCount = []"

definition TagsLen :: "tagsCount \<Rightarrow> nat" where
  "TagsLen tc = length tc"

definition GetTags :: "tagsCount \<Rightarrow> string list" where
  "GetTags tc = gm_keys tc"

text \<open>The set of keys seen so far is the Go map \<^verbatim>\<open>keys\<close>.\<close>

fun removeDuplicatedTags_loop :: "string list \<Rightarrow> string list \<Rightarrow> string list \<Rightarrow> string list" where
  "removeDuplicatedTags_loop keys acc [] = acc"
| "removeDuplicatedTags_loop keys acc (entry # rest) =
     (if entry \<in> set keys then removeDuplicatedTags_loop keys acc rest
      else removeDuplicatedTags_loop (entry # keys) (acc @ [entry]) rest)"

definition removeDuplicatedTags :: "string list \<Rightarrow> string list" where
  "removeDuplicatedTags stringsSlice = removeDuplicatedTags_loop [] [] stringsSlice"

definition ParseTags :: "string list \<Rightarrow> tagsCount \<Rightarrow> tagsCount" where
  "ParseTags tags tc =
     fold (\<lambda>tag m. if tag = [] then m
                   else gm_set tag ((case map_of m tag of None \<Rightarrow> 0 | Some c \<Rightarrow> c) + 1) m)
       (removeDuplicatedTags tags) tc"

section \<open>Lemmas\<close>

lemma removeDuplicatedTags_loop_set:
  "set (removeDuplicatedTags_loop keys acc xs) = set acc \<union> (set xs - set keys)"
  by (induction keys acc xs rule: removeDuplicatedTags_loop.induct) auto

lemma removeDuplicatedTags_loop_distinct:
  "distinct acc \<Longrightarrow> set acc \<subseteq> set keys \<Longrightarrow> distinct (removeDuplicatedTags_loop keys acc xs)"
  by (induction keys acc xs rule: removeDuplicatedTags_loop.induct) auto

lemma set_removeDuplicatedTags [simp]: "set (removeDuplicatedTags xs) = set xs"
  by (simp add: removeDuplicatedTags_def removeDuplicatedTags_loop_set)

lemma distinct_removeDuplicatedTags [simp]: "distinct (removeDuplicatedTags xs)"
  by (simp add: removeDuplicatedTags_def removeDuplicatedTags_loop_distinct)

definition tag_count :: "tagsCount \<Rightarrow> string \<Rightarrow> int" where
  "tag_count tc t = (case map_of tc t of None \<Rightarrow> 0 | Some c \<Rightarrow> c)"

lemma tag_count_fold:
  "distinct ts \<Longrightarrow>
   tag_count (fold (\<lambda>tag m. if tag = [] then m
       else gm_set tag ((case map_of m tag of None \<Rightarrow> 0 | Some c \<Rightarrow> c) + 1) m) ts tc) t =
   tag_count tc t + (if t \<in> set ts \<and> t \<noteq> [] then 1 else 0)"
  by (induction ts arbitrary: tc) (auto simp: tag_count_def)

lemma tag_count_ParseTags:
  "tag_count (ParseTags tags tc) t = tag_count tc t + (if t \<in> set tags \<and> t \<noteq> [] then 1 else 0)"
  by (simp add: ParseTags_def tag_count_fold)

section \<open>Properties\<close>

text \<open>
  After the tags of any number of NFTs have been parsed, the count of a non-empty tag is the number
  of NFTs that carry it, a tag repeated on one NFT counting once, and the empty tag is never counted.
\<close>

theorem ParseTags_counts:
  "tag_count (fold ParseTags nfts NewTagsCount) t =
     (if t = [] then 0 else int (length (filter (\<lambda>tags. t \<in> set tags) nfts)))"
proof -
  have "tag_count (fold ParseTags nfts tc) t =
      tag_count tc t + (if t = [] then 0 else int (length (filter (\<lambda>tags. t \<in> set tags) nfts)))" for tc
    by (induction nfts arbitrary: tc) (auto simp: tag_count_ParseTags)
  then show ?thesis by (simp add: tag_count_def NewTagsCount_def)
qed

end
