(* ===== verification/Status_Info.thy ===== *)
theory Status_Info
  imports Core_Lib
begin

text \<open>
  \<^verbatim>\<open>process/elasticproc/logsevents/statusInfo.go\<close>: the status changes that the events of smart contract
  results cause on the original transactions, one merged record per transaction hash.
\<close>

section \<open>Model\<close>

type_synonym txHashStatusInfoProc = "(string, StatusInfo) gomap"

definition newTxHashStatusInfoProcessor :: txHashStatusInfoProc where
  "newTxHashStatusInfoProcessor = []"

definition addRecord ::
    "core_consts \<Rightarrow> string \<Rightarrow> StatusInfo \<Rightarrow> txHashStatusInfoProc \<Rightarrow> txHashStatusInfoProc" where
  "addRecord K hash statusInfo ths =
     (case map_of ths hash of
        None \<Rightarrow> gm_set hash statusInfo ths
      | Some fromMap \<Rightarrow>
          gm_set hash
            \<lparr>si_Status = (if si_Status fromMap \<noteq> k_TxStatusFail K then si_Status statusInfo
                          else si_Status fromMap),
             si_ErrorEvent = (si_ErrorEvent fromMap \<or> si_ErrorEvent statusInfo),
             si_CompletedEvent = (si_CompletedEvent fromMap \<or> si_CompletedEvent statusInfo)\<rparr> ths)"

definition getAllRecords :: "txHashStatusInfoProc \<Rightarrow> (string, StatusInfo) gomap" where
  "getAllRecords ths = ths"

section \<open>Lemmas\<close>

definition add_records ::
    "core_consts \<Rightarrow> (string \<times> StatusInfo) list \<Rightarrow> txHashStatusInfoProc \<Rightarrow> txHashStatusInfoProc" where
  "add_records K rs ths = fold (\<lambda>(h, r). addRecord K h r) rs ths"

definition records_of :: "string \<Rightarrow> (string \<times> StatusInfo) list \<Rightarrow> StatusInfo list" where
  "records_of h rs = map snd (filter (\<lambda>p. fst p = h) rs)"

text \<open>The merged record: failed if any record is, else the last status; the flags are disjunctions.\<close>

definition merged :: "core_consts \<Rightarrow> StatusInfo list \<Rightarrow> StatusInfo" where
  "merged K rs =
     \<lparr>si_Status = (if list_ex (\<lambda>r. si_Status r = k_TxStatusFail K) rs then k_TxStatusFail K
                   else si_Status (last rs)),
      si_ErrorEvent = list_ex si_ErrorEvent rs,
      si_CompletedEvent = list_ex si_CompletedEvent rs\<rparr>"

lemma map_of_addRecord_other: "k \<noteq> h \<Longrightarrow> map_of (addRecord K h r ths) k = map_of ths k"
  by (simp add: addRecord_def split: option.splits)

lemma addRecord_first: "map_of ths h = None \<Longrightarrow> map_of (addRecord K h r ths) h = Some r"
  by (simp add: addRecord_def)

lemma addRecord_merge:
  assumes "map_of ths h = Some (merged K rs)" and "rs \<noteq> []"
  shows "map_of (addRecord K h r ths) h = Some (merged K (rs @ [r]))"
  using assms last_in_set [OF assms(2)] by (auto simp: addRecord_def merged_def list_ex_iff)

lemma records_of_snoc:
  "records_of h (rs @ [p]) = (if fst p = h then records_of h rs @ [snd p] else records_of h rs)"
  by (simp add: records_of_def)

lemma merged_single: "merged K [r] = r"
  by (cases r) (simp add: merged_def)

lemma gm_wf_addRecord: "gm_wf ths \<Longrightarrow> gm_wf (addRecord K h r ths)"
  by (auto simp: addRecord_def split: option.splits)

section \<open>Properties\<close>

text \<open>
  C9. Whatever records are added in whatever order, a transaction with no record has no entry, and any
  other has one whose error and completed flags are set exactly when some record sets them and whose
  status is the failed one as soon as a single record says so, the last recorded status otherwise.
\<close>

theorem add_records_merged:
  "map_of (getAllRecords (add_records K rs newTxHashStatusInfoProcessor)) h =
     (if records_of h rs = [] then None else Some (merged K (records_of h rs)))"
proof (induction rs rule: rev_induct)
  case Nil
  show ?case
    by (simp add: add_records_def records_of_def getAllRecords_def newTxHashStatusInfoProcessor_def)
next
  case (snoc p rs)
  obtain k r where p: "p = (k, r)" by (cases p)
  show ?case
  proof (cases "k = h")
    case False
    with snoc show ?thesis
      by (simp add: add_records_def getAllRecords_def records_of_snoc p map_of_addRecord_other)
  next
    case True
    with snoc show ?thesis
      by (cases "records_of h rs = []")
        (auto simp: add_records_def getAllRecords_def records_of_snoc p addRecord_first merged_single
          intro: addRecord_merge)
  qed
qed

end
