(* ===== verification/Event_Processors.thy ===== *)
theory Event_Processors
  imports Tokens_Info Token_Roles Status_Info
begin

text \<open>
  The seven event processors of \<^verbatim>\<open>process/elasticproc/logsevents\<close>.  The maps and handlers of
  \<^verbatim>\<open>argsProcessEvent\<close> that a processor mutates are the fields of the state \<open>logsData\<close>; the maps
  \<^verbatim>\<open>txs\<close> and \<^verbatim>\<open>scrs\<close> of pointers are maps from hashes to positions in the two lists of documents,
  so that a change through the map is a change of the document.  Every processor takes the arguments
  and the state and returns its output with the new state, or a run-time panic.

  The locale \<open>events_processor\<close> is the contract the loop over the processors relies on: an event
  whose identifier is not one of the processor's operations gives the empty output and the unchanged
  state, and no processor ever changes the identity of a document.
\<close>

section \<open>State, arguments and output\<close>

record logsData =
  timestamp :: u64
  txHashStatusInfoProc :: txHashStatusInfoProc
  tokens :: tokensInfo
  tokensSupply :: tokensInfo
  txs :: "Transaction list"
  txsMap :: "(string, nat) gomap"
  scrs :: "ScResult list"
  scrsMap :: "(string, nat) gomap"
  scDeploys :: "(string, ScDeployInfo) gomap"
  changeOwnerOperations :: "(string, OwnerData) gomap"
  delegators :: "(string, Delegator) gomap"
  tokensInfo_list :: "TokenInfo list"
  nftsDataUpdates :: "NFTDataUpdate list"
  tokenRolesAndProperties :: TokenRolesAndProperties

definition newLogsData :: "u64 \<Rightarrow> Transaction list \<Rightarrow> ScResult list \<Rightarrow> logsData" where
  "newLogsData ts txs0 scrs0 =
     \<lparr>timestamp = ts, txHashStatusInfoProc = newTxHashStatusInfoProcessor, tokens = NewTokensInfo,
      tokensSupply = NewTokensInfo, txs = txs0, txsMap = ConvertTxsSliceIntoMap txs0, scrs = scrs0,
      scrsMap = ConvertScrsSliceIntoMap scrs0, scDeploys = [], changeOwnerOperations = [],
      delegators = [], tokensInfo_list = [], nftsDataUpdates = [],
      tokenRolesAndProperties = NewTokenRolesAndProperties\<rparr>"

record argsProcessEvent =
  a_txHashHexEncoded :: string
  a_event :: event
  a_logAddress :: bytes
  a_selfShardID :: u32
  a_numOfShards :: u32

record argOutputProcessEvent =
  o_tokenInfo :: "TokenInfo option"
  o_delegator :: "Delegator option"
  o_updatePropNFT :: "NFTDataUpdate option"
  o_processed :: bool

definition emptyOutput :: argOutputProcessEvent where
  "emptyOutput = \<lparr>o_tokenInfo = None, o_delegator = None, o_updatePropNFT = None, o_processed = False\<rparr>"

definition processedOutput :: argOutputProcessEvent where
  "processedOutput = emptyOutput\<lparr>o_processed := True\<rparr>"

type_synonym processor =
  "argsProcessEvent \<Rightarrow> logsData \<Rightarrow> (argOutputProcessEvent \<times> logsData) result"

section \<open>scDeploys.go\<close>

definition minTopicsContractEvent :: nat where "minTopicsContractEvent = 3"
definition numTopicsChangeOwner :: nat where "numTopicsChangeOwner = 1"

definition scDeploysIdentifiers :: "core_consts \<Rightarrow> string list" where
  "scDeploysIdentifiers K = [k_SCDeploy K, k_SCUpgrade K, k_ChangeOwnerAddress K]"

definition processChangeOwnerEvent :: "core_lib \<Rightarrow> processor" where
  "processChangeOwnerEvent L args lg =
     (let scAddress = SilentEncode L (e_Address (a_event args)) in
      bindr (index_r (e_Topics (a_event args)) 0) (\<lambda>t0.
        Inr (processedOutput,
             lg\<lparr>changeOwnerOperations := gm_set scAddress
                  \<lparr>od_TxHash = a_txHashHexEncoded args, od_Address = SilentEncode L t0,
                   od_Timestamp = timestamp lg\<rparr> (changeOwnerOperations lg)\<rparr>)))"

definition scDeploys_processEvent :: "core_lib \<Rightarrow> core_consts \<Rightarrow> processor" where
  "scDeploys_processEvent L K args lg =
     (let eventIdentifier = e_Identifier (a_event args); topics = e_Topics (a_event args) in
      if eventIdentifier \<notin> set (scDeploysIdentifiers K) then Inr (emptyOutput, lg)
      else if length topics = numTopicsChangeOwner \<and> eventIdentifier = k_ChangeOwnerAddress K
      then processChangeOwnerEvent L args lg
      else if length topics < minTopicsContractEvent then Inr (processedOutput, lg)
      else bindr (index_r topics 0) (\<lambda>t0. bindr (index_r topics 1) (\<lambda>t1. bindr (index_r topics 2) (\<lambda>t2.
        Inr (processedOutput,
             lg\<lparr>scDeploys := gm_set (SilentEncode L t0)
                  \<lparr>sd_TxHash = a_txHashHexEncoded args, sd_Creator = SilentEncode L t1,
                   sd_CurrentOwner = SilentEncode L t1, sd_CodeHash = t2, sd_Timestamp = timestamp lg,
                   sd_Upgrades = [], sd_OwnersHistory = []\<rparr> (scDeploys lg)\<rparr>)))))"

section \<open>informativeLogsProcessor.go\<close>

text \<open>A document reached through its pointer in the map is updated in place.\<close>

definition update_tx :: "string \<Rightarrow> (Transaction \<Rightarrow> Transaction) \<Rightarrow> logsData \<Rightarrow> logsData" where
  "update_tx hash f lg =
     (case map_of (txsMap lg) hash of
        None \<Rightarrow> lg
      | Some i \<Rightarrow> if i < length (txs lg) then lg\<lparr>txs := (txs lg)[i := f (txs lg ! i)]\<rparr> else lg)"

definition update_scr :: "string \<Rightarrow> (ScResult \<Rightarrow> ScResult) \<Rightarrow> logsData \<Rightarrow> logsData" where
  "update_scr hash f lg =
     (case map_of (scrsMap lg) hash of
        None \<Rightarrow> lg
      | Some i \<Rightarrow> if i < length (scrs lg) then lg\<lparr>scrs := (scrs lg)[i := f (scrs lg ! i)]\<rparr> else lg)"

definition lookup_tx :: "string \<Rightarrow> logsData \<Rightarrow> Transaction option" where
  "lookup_tx hash lg =
     (case map_of (txsMap lg) hash of
        None \<Rightarrow> None
      | Some i \<Rightarrow> if i < length (txs lg) then Some (txs lg ! i) else None)"

definition lookup_scr :: "string \<Rightarrow> logsData \<Rightarrow> ScResult option" where
  "lookup_scr hash lg =
     (case map_of (scrsMap lg) hash of
        None \<Rightarrow> None
      | Some i \<Rightarrow> if i < length (scrs lg) then Some (scrs lg ! i) else None)"

definition informative_operations :: "core_consts \<Rightarrow> string list" where
  "informative_operations K = [k_WriteLog K, k_SignalError K, k_CompletedTxEvent K, k_InternalVMErrors K]"

definition informative_tx_update :: "core_consts \<Rightarrow> string \<Rightarrow> Transaction \<Rightarrow> Transaction" where
  "informative_tx_update K identifier tx =
     (if identifier = k_CompletedTxEvent K then tx\<lparr>tx_CompletedEvent := True\<rparr>
      else if identifier = k_WriteLog K then tx\<lparr>tx_Status := k_TxStatusSuccess K\<rparr>
      else if identifier = k_SignalError K \<or> identifier = k_InternalVMErrors K
      then tx\<lparr>tx_Status := k_TxStatusFail K, tx_ErrorEvent := True\<rparr>
      else tx)"

definition processEventNoTx :: "core_consts \<Rightarrow> argsProcessEvent \<Rightarrow> logsData \<Rightarrow> argOutputProcessEvent \<times> logsData" where
  "processEventNoTx K args lg =
     (case lookup_scr (a_txHashHexEncoded args) lg of
        None \<Rightarrow> (processedOutput, lg)
      | Some scr \<Rightarrow>
          if scr_OriginalTxHash scr = [] then (processedOutput, lg)
          else let identifier = e_Identifier (a_event args) in
            if identifier = k_CompletedTxEvent K
            then (processedOutput, lg\<lparr>txHashStatusInfoProc := addRecord K (scr_OriginalTxHash scr)
                    \<lparr>si_Status = [], si_ErrorEvent = False, si_CompletedEvent = True\<rparr>
                    (txHashStatusInfoProc lg)\<rparr>)
            else if identifier = k_SignalError K \<or> identifier = k_InternalVMErrors K
            then (processedOutput, lg\<lparr>txHashStatusInfoProc := addRecord K (scr_OriginalTxHash scr)
                    \<lparr>si_Status = k_TxStatusFail K, si_ErrorEvent = True, si_CompletedEvent = False\<rparr>
                    (txHashStatusInfoProc lg)\<rparr>)
            else (processedOutput, lg))"

definition informative_processEvent :: "core_consts \<Rightarrow> processor" where
  "informative_processEvent K args lg =
     (let identifier = e_Identifier (a_event args) in
      if identifier \<notin> set (informative_operations K) then Inr (emptyOutput, lg)
      else case lookup_tx (a_txHashHexEncoded args) lg of
        None \<Rightarrow> Inr (processEventNoTx K args lg)
      | Some _ \<Rightarrow> Inr (processedOutput,
          update_tx (a_txHashHexEncoded args) (informative_tx_update K identifier) lg))"

section \<open>nftsPropertiesProcessor.go\<close>

definition minTopicsUpdate :: nat where "minTopicsUpdate = 4"

definition propertiesChangeOperations :: "core_consts \<Rightarrow> string list" where
  "propertiesChangeOperations K =
     [k_ESDTNFTAddURI K, k_ESDTNFTUpdateAttributes K, k_ESDTFreeze K, k_ESDTUnFreeze K, k_ESDTPause K,
      k_ESDTUnPause K, k_ESDTMetaDataRecreate K, k_ESDTMetaDataUpdate K, k_ESDTSetNewURIs K,
      k_ESDTModifyCreator K, k_ESDTModifyRoyalties K]"

definition convertMetaData :: "core_lib \<Rightarrow> esdt_MetaData option \<Rightarrow> altered_TokenMetaData option" where
  "convertMetaData L metaData =
     (case metaData of
        None \<Rightarrow> None
      | Some m \<Rightarrow> Some
          \<lparr>am_Nonce = em_Nonce m, am_Name = em_Name m,
           am_Creator = (case Encode L (em_Creator m) of None \<Rightarrow> [] | Some a \<Rightarrow> a),
           am_Royalties = em_Royalties m, am_Hash = em_Hash m, am_URIs = em_URIs m,
           am_Attributes = em_Attributes m\<rparr>)"

definition processMetaDataUpdate :: "core_lib \<Rightarrow> NFTDataUpdate \<Rightarrow> bytes \<Rightarrow> NFTDataUpdate" where
  "processMetaDataUpdate L updateNFT esdtTokenBytes =
     (case UnmarshalESDT L esdtTokenBytes of
        None \<Rightarrow> updateNFT
      | Some md \<Rightarrow> updateNFT\<lparr>nu_NewMetaData := PrepareTokenMetaData L (convertMetaData L md)\<rparr>)"

definition processPauseAndUnPauseEvent :: "core_consts \<Rightarrow> string \<Rightarrow> string \<Rightarrow> argOutputProcessEvent" where
  "processPauseAndUnPauseEvent K eventIdentifier token =
     processedOutput\<lparr>o_updatePropNFT :=
       (if eventIdentifier = k_ESDTPause K
        then Some (zeroNFTDataUpdate\<lparr>nu_Identifier := token, nu_Pause := True\<rparr>)
        else if eventIdentifier = k_ESDTUnPause K
        then Some (zeroNFTDataUpdate\<lparr>nu_Identifier := token, nu_UnPause := True\<rparr>)
        else None)\<rparr>"

definition nft_update_switch ::
    "core_lib \<Rightarrow> core_consts \<Rightarrow> string \<Rightarrow> string \<Rightarrow> bytes list \<Rightarrow> NFTDataUpdate \<Rightarrow> NFTDataUpdate result" where
  "nft_update_switch L K eventIdentifier callerAddress topics u =
     (if eventIdentifier = k_ESDTNFTUpdateAttributes K
      then bindr (index_r topics 3) (\<lambda>t3. Inr (u\<lparr>nu_NewAttributes := t3\<rparr>))
      else if eventIdentifier = k_ESDTNFTAddURI K then Inr (u\<lparr>nu_URIsToAdd := drop 3 topics\<rparr>)
      else if eventIdentifier = k_ESDTSetNewURIs K
      then Inr (u\<lparr>nu_SetURIs := True, nu_URIsToAdd := drop 3 topics\<rparr>)
      else if eventIdentifier = k_ESDTFreeze K then Inr (u\<lparr>nu_Freeze := True\<rparr>)
      else if eventIdentifier = k_ESDTUnFreeze K then Inr (u\<lparr>nu_UnFreeze := True\<rparr>)
      else if eventIdentifier = k_ESDTMetaDataRecreate K \<or> eventIdentifier = k_ESDTMetaDataUpdate K
      then bindr (index_r topics 3) (\<lambda>t3. Inr (processMetaDataUpdate L u t3))
      else if eventIdentifier = k_ESDTModifyCreator K then Inr (u\<lparr>nu_NewCreator := callerAddress\<rparr>)
      else if eventIdentifier = k_ESDTModifyRoyalties K
      then bindr (index_r topics 3) (\<lambda>t3. Inr (u\<lparr>nu_NewRoyalties := Some (ucast (be_u64 t3))\<rparr>))
      else Inr u)"

definition nftsProperties_processEvent :: "core_lib \<Rightarrow> core_consts \<Rightarrow> processor" where
  "nftsProperties_processEvent L K args lg =
     (let eventIdentifier = e_Identifier (a_event args); topics = e_Topics (a_event args);
          callerAddress = SilentEncode L (e_Address (a_event args)) in
      if eventIdentifier \<notin> set (propertiesChangeOperations K) then Inr (emptyOutput, lg)
      else if callerAddress = [] then Inr (processedOutput, lg)
      else if length topics = 1
      then bindr (index_r topics 0) (\<lambda>t0. Inr (processPauseAndUnPauseEvent K eventIdentifier t0, lg))
      else let isModifyCreator =
                 length topics = minTopicsUpdate - 1 \<and> eventIdentifier = k_ESDTModifyCreator K in
        if length topics < minTopicsUpdate \<and> \<not> isModifyCreator then Inr (processedOutput, lg)
        else bindr (index_r topics 1) (\<lambda>t1.
          if be_u64 t1 = 0 then Inr (emptyOutput, lg)
          else bindr (index_r topics 0) (\<lambda>t0.
            bindr (nft_update_switch L K eventIdentifier callerAddress topics
                     (zeroNFTDataUpdate\<lparr>nu_Identifier := ComputeTokenIdentifier t0 (be_u64 t1),
                                        nu_Address := callerAddress\<rparr>)) (\<lambda>u.
            Inr (processedOutput\<lparr>o_updatePropNFT := Some u\<rparr>, lg)))))"

section \<open>esdtPropertiesProcessor.go\<close>

definition minTopicsPropertiesAndRoles :: nat where "minTopicsPropertiesAndRoles = 4"
definition esdtPropertiesStartIndex :: nat where "esdtPropertiesStartIndex = 2"
definition upgradePropertiesEvent :: string where "upgradePropertiesEvent = ''upgradeProperties''"

definition rolesOperationsIdentifiers :: "core_consts \<Rightarrow> string list" where
  "rolesOperationsIdentifiers K =
     [k_SetESDTRole K, k_UnSetESDTRole K, k_ESDTNFTCreateRoleTransfer K, upgradePropertiesEvent,
      k_ESDTUnSetBurnRoleForAll K, k_ESDTSetBurnRoleForAll K]"

definition bytesToBool :: "bytes \<Rightarrow> bool" where
  "bytesToBool boolBytes = (case parse_bool boolBytes of None \<Rightarrow> False | Some b \<Rightarrow> b)"

text \<open>\<^verbatim>\<open>unicode.IsLetter\<close> over the runes: byte-wise on ASCII text, the library otherwise.\<close>

definition containsNonLetterChars :: "core_lib \<Rightarrow> string \<Rightarrow> bool" where
  "containsNonLetterChars L s = (if is_ascii s then list_all ascii_letter s else UnicodeAllLetters L s)"

definition checkRolesBytes :: "core_lib \<Rightarrow> bytes list \<Rightarrow> bool" where
  "checkRolesBytes L rolesBytes = list_all (containsNonLetterChars L) rolesBytes"

definition extractDataNFTCreateRoleTransfer :: "core_lib \<Rightarrow> core_consts \<Rightarrow> processor" where
  "extractDataNFTCreateRoleTransfer L K args lg =
     (let topics = e_Topics (a_event args); addrBech = SilentEncode L (e_Address (a_event args)) in
      bindr (index_r topics 3) (\<lambda>t3. bindr (index_r topics 0) (\<lambda>t0.
        Inr (processedOutput,
             lg\<lparr>tokenRolesAndProperties :=
                  AddRole t0 addrBech (k_ESDTRoleNFTCreate K) (bytesToBool t3)
                    (tokenRolesAndProperties lg)\<rparr>))))"

text \<open>The loop over the property/value pairs: a property without its value is read out of range.\<close>

fun property_pairs :: "bytes list \<Rightarrow> (string, bool) gomap \<Rightarrow> (string, bool) gomap result" where
  "property_pairs [] m = Inr m"
| "property_pairs [p] m = Inl PanicIndexOutOfRange"
| "property_pairs (p # v # rest) m = property_pairs rest (gm_set p (bytesToBool v) m)"

definition extractTokenProperties :: processor where
  "extractTokenProperties args lg =
     (let topics = e_Topics (a_event args); properties = drop esdtPropertiesStartIndex topics in
      bindr (property_pairs properties []) (\<lambda>propertiesMap. bindr (index_r topics 0) (\<lambda>t0.
        Inr (processedOutput,
             lg\<lparr>tokenRolesAndProperties := AddProperties t0 propertiesMap (tokenRolesAndProperties lg)\<rparr>))))"

definition esdtProperties_processEvent :: "core_lib \<Rightarrow> core_consts \<Rightarrow> processor" where
  "esdtProperties_processEvent L K args lg =
     (let identifier = e_Identifier (a_event args); topics = e_Topics (a_event args) in
      if identifier \<notin> set (rolesOperationsIdentifiers K) then Inr (emptyOutput, lg)
      else if length topics < minTopicsPropertiesAndRoles then Inr (processedOutput, lg)
      else if identifier = upgradePropertiesEvent then extractTokenProperties args lg
      else if identifier = k_ESDTNFTCreateRoleTransfer K then extractDataNFTCreateRoleTransfer L K args lg
      else let rolesBytes = drop 3 topics in
        if \<not> checkRolesBytes L rolesBytes then Inr (processedOutput, lg)
        else let shouldAddRole = (identifier = k_SetESDTRole K \<or> identifier = k_ESDTSetBurnRoleForAll K);
                 addrBech = SilentEncode L (e_Address (a_event args)) in
          bindr (index_r topics 0) (\<lambda>t0.
            Inr (processedOutput,
                 lg\<lparr>tokenRolesAndProperties :=
                      fold (\<lambda>roleBytes.
                              AddRole t0 (if roleBytes = k_ESDTRoleBurnForAll K then [] else addrBech)
                                roleBytes shouldAddRole)
                        rolesBytes (tokenRolesAndProperties lg)\<rparr>)))"

section \<open>esdtIssueProcessor.go\<close>

definition numIssueLogTopics :: nat where "numIssueLogTopics = 4"
definition transferOwnershipFunc :: string where "transferOwnershipFunc = ''transferOwnership''"
definition changeToDynamicESDTFunc :: string where "changeToDynamicESDTFunc = ''changeToDynamic''"

definition issueOperationsIdentifiers :: "string list" where
  "issueOperationsIdentifiers =
     [''issue'', ''issueSemiFungible'', ''issueNonFungible'', ''registerMetaESDT'',
      ''changeSFTToMetaESDT'', transferOwnershipFunc, ''registerAndSetAllRoles'', ''registerDynamic'',
      ''registerAndSetAllRolesDynamic'', changeToDynamicESDTFunc]"

definition esdtIssue_processEvent :: "core_lib \<Rightarrow> processor" where
  "esdtIssue_processEvent L args lg =
     (let identifierStr = e_Identifier (a_event args); topics = e_Topics (a_event args) in
      if identifierStr \<notin> set issueOperationsIdentifiers then Inr (emptyOutput, lg)
      else if length topics < numIssueLogTopics then Inr (processedOutput, lg)
      else bindr (index_r topics 0) (\<lambda>t0.
        if length t0 = 0 then Inr (processedOutput, lg)
        else bindr (index_r topics 1) (\<lambda>t1. bindr (index_r topics 2) (\<lambda>t2. bindr (index_r topics 3) (\<lambda>t3.
          bindr (if length topics = numIssueLogTopics + 1 \<and> identifierStr \<noteq> transferOwnershipFunc
                 then bindr (index_r topics 4) (\<lambda>t4. Inr (be_u64 t4)) else Inr 0) (\<lambda>numDecimals.
          let encodedAddr = SilentEncode L (e_Address (a_event args));
              tokenInfo = zeroTokenInfo
                \<lparr>ti_Token := t0, ti_Name := t1, ti_Ticker := t2, ti_Type := t3,
                 ti_NumDecimals := numDecimals, ti_Issuer := encodedAddr, ti_CurrentOwner := encodedAddr,
                 ti_Timestamp := timestamp lg,
                 ti_OwnersHistory :=
                   [\<lparr>od_TxHash = [], od_Address = encodedAddr, od_Timestamp = timestamp lg\<rparr>],
                 ti_Properties := Some zeroTokenProperties,
                 ti_ChangeToDynamic := (identifierStr = changeToDynamicESDTFunc)\<rparr> in
          if identifierStr = transferOwnershipFunc \<and> length topics \<ge> numIssueLogTopics + 1
          then bindr (index_r topics 4) (\<lambda>t4.
            let newOwner = SilentEncode L t4 in
            Inr (processedOutput\<lparr>o_tokenInfo := Some (tokenInfo
                   \<lparr>ti_TransferOwnership := True, ti_CurrentOwner := newOwner,
                    ti_OwnersHistory :=
                      [\<lparr>od_TxHash = [], od_Address = newOwner, od_Timestamp = timestamp lg\<rparr>]\<rparr>)\<rparr>, lg))
          else Inr (processedOutput\<lparr>o_tokenInfo := Some tokenInfo\<rparr>, lg)))))))"

section \<open>delegatorsProcessor.go\<close>

definition minNumTopicsDelegators :: nat where "minNumTopicsDelegators = 4"
definition delegateFunc :: string where "delegateFunc = ''delegate''"
definition unDelegateFunc :: string where "unDelegateFunc = ''unDelegate''"
definition withdrawFunc :: string where "withdrawFunc = ''withdraw''"
definition reDelegateRewardsFunc :: string where "reDelegateRewardsFunc = ''reDelegateRewards''"
definition claimRewardsFunc :: string where "claimRewardsFunc = ''claimRewards''"
definition minNumTopicsClaimRewards :: nat where "minNumTopicsClaimRewards = 2"
definition numTopicsClaimRewardsWithContractAddress :: nat where
  "numTopicsClaimRewardsWithContractAddress = 3"

definition delegatorsOperations :: "string list" where
  "delegatorsOperations = [delegateFunc, unDelegateFunc, withdrawFunc, reDelegateRewardsFunc, claimRewardsFunc]"

definition getDelegatorFromClaimRewardsEvent ::
    "core_lib \<Rightarrow> argsProcessEvent \<Rightarrow> Delegator option result" where
  "getDelegatorFromClaimRewardsEvent L args =
     (let topics = e_Topics (a_event args) in
      if length topics < minNumTopicsClaimRewards then Inr None
      else bindr (index_r topics (minNumTopicsClaimRewards - 1)) (\<lambda>t1.
        let shouldDelete = bytesToBool t1 in
        if \<not> shouldDelete then Inr None
        else bindr (if length topics = numTopicsClaimRewardsWithContractAddress
                    then bindr (index_r topics (numTopicsClaimRewardsWithContractAddress - 1))
                           (\<lambda>t2. Inr (SilentEncode L t2))
                    else Inr (SilentEncode L (a_logAddress args))) (\<lambda>encodedContractAddr.
          Inr (Some (zeroDelegator
            \<lparr>dg_Address := SilentEncode L (e_Address (a_event args)),
             dg_Contract := encodedContractAddr, dg_ShouldDelete := shouldDelete\<rparr>)))))"

definition delegators_processEvent :: "core_lib \<Rightarrow> balanceConverter \<Rightarrow> processor" where
  "delegators_processEvent L bc args lg =
     (let eventIdentifierStr = e_Identifier (a_event args); topics = e_Topics (a_event args) in
      if eventIdentifierStr \<notin> set delegatorsOperations then Inr (emptyOutput, lg)
      else if eventIdentifierStr = claimRewardsFunc
      then bindr (getDelegatorFromClaimRewardsEvent L args) (\<lambda>d.
             Inr (processedOutput\<lparr>o_delegator := d\<rparr>, lg))
      else if length topics < minNumTopicsDelegators then Inr (processedOutput, lg)
      else bindr (index_r topics 1) (\<lambda>t1. bindr (index_r topics 0) (\<lambda>t0.
        let activeStake = int (be_nat t1); hasExtra = length topics \<ge> minNumTopicsDelegators + 1 in
        bindr (if hasExtra \<and> eventIdentifierStr = delegateFunc
               then bindr (index_r topics 4) (\<lambda>t4. Inr (SilentEncode L t4))
               else Inr (SilentEncode L (a_logAddress args))) (\<lambda>contractAddr.
        let delegator = zeroDelegator
              \<lparr>dg_Address := SilentEncode L (e_Address (a_event args)), dg_Contract := contractAddr,
               dg_ActiveStake := dec_int activeStake,
               dg_ActiveStakeNum := num_or_zero (ComputeBalanceAsFloat L bc (Some activeStake)),
               dg_Timestamp := timestamp lg\<rparr> in
        if eventIdentifierStr = withdrawFunc \<and> hasExtra
        then bindr (index_r topics 4) (\<lambda>t4.
          Inr (processedOutput\<lparr>o_delegator := Some (delegator
                 \<lparr>dg_ShouldDelete := bytesToBool t4,
                  dg_WithdrawFundIDs := Some (map hex_encode (drop 5 topics))\<rparr>)\<rparr>, lg))
        else if eventIdentifierStr = unDelegateFunc \<and> hasExtra
        then bindr (index_r topics 4) (\<lambda>t4.
          let unDelegateValue = int (be_nat t0) in
          Inr (processedOutput\<lparr>o_delegator := Some (delegator
                 \<lparr>dg_UnDelegateInfo := Some
                    \<lparr>ud_Timestamp = timestamp lg, ud_ID = hex_encode t4,
                     ud_Value = dec_int unDelegateValue,
                     ud_ValueNum = num_or_zero (ComputeBalanceAsFloat L bc (Some unDelegateValue))\<rparr>\<rparr>)\<rparr>,
               lg))
        else Inr (processedOutput\<lparr>o_delegator := Some delegator\<rparr>, lg)))))"

section \<open>nftsProcessor.go\<close>

definition numTopicsWithReceiverAddress :: nat where "numTopicsWithReceiverAddress = 4"

definition nftOperationsIdentifiers :: "core_consts \<Rightarrow> string list" where
  "nftOperationsIdentifiers K = [k_ESDTNFTBurn K, k_ESDTNFTCreate K, k_ESDTWipe K]"

definition shouldAddReceiverData :: "core_consts \<Rightarrow> argsProcessEvent \<Rightarrow> bool" where
  "shouldAddReceiverData K args =
     (let eventIdentifier = e_Identifier (a_event args);
          isWrongIdentifier = (eventIdentifier \<noteq> k_ESDTNFTTransfer K \<and>
            eventIdentifier \<noteq> k_MultiESDTNFTTransfer K \<and> eventIdentifier \<noteq> k_ESDTWipe K) in
      \<not> (isWrongIdentifier \<or> length (e_Topics (a_event args)) < numTopicsWithReceiverAddress))"

definition nft_token_info :: "string \<Rightarrow> u64 \<Rightarrow> u64 \<Rightarrow> TokenInfo" where
  "nft_token_info token nonce ts =
     zeroTokenInfo\<lparr>ti_Token := token, ti_Identifier := ComputeTokenIdentifier token nonce,
                   ti_Timestamp := ts, ti_Nonce := nonce\<rparr>"

definition processNFTEventOnSender ::
    "core_lib \<Rightarrow> core_consts \<Rightarrow> event \<Rightarrow> logsData \<Rightarrow> logsData result" where
  "processNFTEventOnSender L K ev lg =
     (let topics = e_Topics ev; eventIdentifier = e_Identifier ev in
      bindr (index_r topics 0) (\<lambda>token. bindr (index_r topics 1) (\<lambda>t1.
        let nonce = be_u64 t1;
            lg1 = (if eventIdentifier = k_ESDTNFTBurn K \<or> eventIdentifier = k_ESDTWipe K
                   then lg\<lparr>tokensSupply :=
                          TokensAdd (nft_token_info token nonce (timestamp lg)) (tokensSupply lg)\<rparr>
                   else lg) in
        if eventIdentifier \<noteq> k_ESDTNFTCreate K \<or> length topics < numTopicsWithReceiverAddress
        then Inr lg1
        else bindr (index_r topics 3) (\<lambda>esdtTokenBytes.
          case UnmarshalESDT L esdtTokenBytes of
            None \<Rightarrow> Inr lg1
          | Some md \<Rightarrow> Inr (lg1\<lparr>tokens := TokensAdd
              ((nft_token_info token nonce (timestamp lg))
                 \<lparr>ti_Data := PrepareTokenMetaData L (convertMetaData L md)\<rparr>) (tokens lg1)\<rparr>)))))"

definition nfts_processEvent :: "core_lib \<Rightarrow> core_consts \<Rightarrow> processor" where
  "nfts_processEvent L K args lg =
     (let eventIdentifier = e_Identifier (a_event args); topics = e_Topics (a_event args) in
      if eventIdentifier \<notin> set (nftOperationsIdentifiers K) then Inr (emptyOutput, lg)
      else bindr (index_r topics 1) (\<lambda>t1.
        let nonce = be_u64 t1 in
        if nonce = 0 then Inr (emptyOutput, lg)
        else bindr (if ComputeShardID L (e_Address (a_event args)) (a_numOfShards args) = a_selfShardID args
                    then processNFTEventOnSender L K (a_event args) lg else Inr lg) (\<lambda>lg1.
          bindr (index_r topics 0) (\<lambda>token.
          if \<not> shouldAddReceiverData K args then Inr (processedOutput, lg1)
          else bindr (index_r topics 3) (\<lambda>receiver.
            if ComputeShardID L receiver (a_numOfShards args) \<noteq> a_selfShardID args
            then Inr (processedOutput, lg1)
            else if eventIdentifier = k_ESDTWipe K
            then Inr (processedOutput,
              lg1\<lparr>tokensSupply := TokensAdd (nft_token_info token nonce (timestamp lg)) (tokensSupply lg1)\<rparr>)
            else Inr (processedOutput, lg1))))))"

section \<open>What a processor leaves alone\<close>

text \<open>A transaction without the marks that logs leave on it.\<close>

definition tx_core :: "Transaction \<Rightarrow> Transaction" where
  "tx_core tx = tx\<lparr>tx_Status := [], tx_ErrorEvent := False, tx_CompletedEvent := False,
                   tx_HasOperations := False, tx_HasLogs := False\<rparr>"

definition scr_core :: "ScResult \<Rightarrow> ScResult" where
  "scr_core scr = scr\<lparr>scr_HasOperations := False, scr_HasLogs := False\<rparr>"

definition documents_kept :: "logsData \<Rightarrow> logsData \<Rightarrow> bool" where
  "documents_kept lg lg' \<longleftrightarrow>
     timestamp lg' = timestamp lg \<and> txsMap lg' = txsMap lg \<and> scrsMap lg' = scrsMap lg \<and>
     map tx_core (txs lg') = map tx_core (txs lg) \<and> map scr_core (scrs lg') = map scr_core (scrs lg)"

definition has_logs :: "logsData \<Rightarrow> bool list \<times> bool list" where
  "has_logs lg = (map tx_HasLogs (txs lg), map scr_HasLogs (scrs lg))"

lemma documents_kept_refl [simp, intro]: "documents_kept lg lg"
  by (simp add: documents_kept_def)

lemma documents_kept_trans [trans]:
  "documents_kept a b \<Longrightarrow> documents_kept b c \<Longrightarrow> documents_kept a c"
  by (simp add: documents_kept_def)

lemma documents_kept_lengths:
  "documents_kept lg lg' \<Longrightarrow> length (txs lg') = length (txs lg) \<and> length (scrs lg') = length (scrs lg)"
  unfolding documents_kept_def by (metis length_map)

lemma map_update_kept: "i < length xs \<Longrightarrow> f (g (xs ! i)) = f (xs ! i) \<Longrightarrow> map f (xs[i := g (xs ! i)]) = map f xs"
  by (metis list_update_id map_update nth_map)

lemma update_tx_kept: "(\<And>tx. tx_core (f tx) = tx_core tx) \<Longrightarrow> documents_kept lg (update_tx h f lg)"
  by (auto simp: update_tx_def documents_kept_def map_update_kept split: option.split)

lemma update_scr_kept: "(\<And>scr. scr_core (f scr) = scr_core scr) \<Longrightarrow> documents_kept lg (update_scr h f lg)"
  by (auto simp: update_scr_def documents_kept_def map_update_kept split: option.split)

lemma update_tx_has_logs: "(\<And>tx. tx_HasLogs (f tx) = tx_HasLogs tx) \<Longrightarrow> has_logs (update_tx h f lg) = has_logs lg"
  by (auto simp: update_tx_def has_logs_def map_update_kept split: option.split)

lemma update_scr_has_logs:
  "(\<And>scr. scr_HasLogs (f scr) = scr_HasLogs scr) \<Longrightarrow> has_logs (update_scr h f lg) = has_logs lg"
  by (auto simp: update_scr_def has_logs_def map_update_kept split: option.split)

text \<open>
  The contract of one processor.  \<open>ids\<close> are its operations, \<open>well_formed\<close> says which events it reads
  within the range of their topics.
\<close>

locale events_processor =
  fixes ids :: "string list" and well_formed :: "event \<Rightarrow> bool" and proc :: processor
  assumes unhandled: "e_Identifier (a_event args) \<notin> set ids \<Longrightarrow> proc args lg = Inr (emptyOutput, lg)"
    and kept: "proc args lg = Inr (out, lg') \<Longrightarrow> documents_kept lg lg' \<and> has_logs lg' = has_logs lg"
    and accumulators: "proc args lg = Inr (out, lg') \<Longrightarrow>
      delegators lg' = delegators lg \<and> tokensInfo_list lg' = tokensInfo_list lg \<and>
      nftsDataUpdates lg' = nftsDataUpdates lg"
    and returns: "well_formed (a_event args) \<Longrightarrow> \<exists>out lg'. proc args lg = Inr (out, lg')"
begin

lemma handled_if_output:
  assumes "proc args lg = Inr (out, lg')" and "out \<noteq> emptyOutput \<or> lg' \<noteq> lg"
  shows "e_Identifier (a_event args) \<in> set ids"
  using assms unhandled [of args lg] by auto

lemma panic_malformed: "proc args lg = Inl err \<Longrightarrow> \<not> well_formed (a_event args)"
  using returns [of args lg] by auto

lemma panic_handled: "proc args lg = Inl err \<Longrightarrow> e_Identifier (a_event args) \<in> set ids"
  using unhandled [of args lg] by auto

end

definition any_event :: "event \<Rightarrow> bool" where "any_event ev \<longleftrightarrow> True"

definition nfts_well_formed :: "core_consts \<Rightarrow> event \<Rightarrow> bool" where
  "nfts_well_formed K ev \<longleftrightarrow>
     e_Identifier ev \<in> set (nftOperationsIdentifiers K) \<longrightarrow> 2 \<le> length (e_Topics ev)"

definition properties_well_formed :: "event \<Rightarrow> bool" where
  "properties_well_formed ev \<longleftrightarrow>
     e_Identifier ev = upgradePropertiesEvent \<longrightarrow>
       length (e_Topics ev) < minTopicsPropertiesAndRoles \<or> even (length (e_Topics ev))"

lemmas topics_consts [consts_simps] =
  minTopicsContractEvent_def numTopicsChangeOwner_def minTopicsUpdate_def
  minTopicsPropertiesAndRoles_def esdtPropertiesStartIndex_def numIssueLogTopics_def
  minNumTopicsDelegators_def minNumTopicsClaimRewards_def
  numTopicsClaimRewardsWithContractAddress_def numTopicsWithReceiverAddress_def any_event_def

lemma kept_simps [simp]:
  "documents_kept lg (lg\<lparr>changeOwnerOperations := a\<rparr>)" "has_logs (lg\<lparr>changeOwnerOperations := a\<rparr>) = has_logs lg"
  "documents_kept lg (lg\<lparr>scDeploys := b\<rparr>)" "has_logs (lg\<lparr>scDeploys := b\<rparr>) = has_logs lg"
  "documents_kept lg (lg\<lparr>txHashStatusInfoProc := c\<rparr>)" "has_logs (lg\<lparr>txHashStatusInfoProc := c\<rparr>) = has_logs lg"
  "documents_kept lg (lg\<lparr>tokenRolesAndProperties := d\<rparr>)"
  "has_logs (lg\<lparr>tokenRolesAndProperties := d\<rparr>) = has_logs lg"
  "documents_kept lg (lg\<lparr>tokens := e\<rparr>)" "has_logs (lg\<lparr>tokens := e\<rparr>) = has_logs lg"
  "documents_kept lg (lg\<lparr>tokensSupply := g\<rparr>)" "has_logs (lg\<lparr>tokensSupply := g\<rparr>) = has_logs lg"
  "documents_kept lg (lg\<lparr>delegators := h\<rparr>)" "has_logs (lg\<lparr>delegators := h\<rparr>) = has_logs lg"
  "documents_kept lg (lg\<lparr>tokensInfo_list := i\<rparr>)" "has_logs (lg\<lparr>tokensInfo_list := i\<rparr>) = has_logs lg"
  "documents_kept lg (lg\<lparr>nftsDataUpdates := j\<rparr>)" "has_logs (lg\<lparr>nftsDataUpdates := j\<rparr>) = has_logs lg"
  by (simp_all add: documents_kept_def has_logs_def)

lemma index_r_ex [simp]: "n < length xs \<Longrightarrow> \<exists>x. index_r xs n = Inr x"
  by simp

interpretation scDeploysProc: events_processor "scDeploysIdentifiers K" any_event "scDeploys_processEvent L K"
proof unfold_locales
  fix args lg
  show "\<exists>out lg'. scDeploys_processEvent L K args lg = Inr (out, lg')" if "any_event (a_event args)"
    by (cases "length (e_Topics (a_event args)) < 3")
      (auto simp: scDeploys_processEvent_def processChangeOwnerEvent_def Let_def consts_simps
            simp del: length_greater_0_conv)
qed (auto simp: scDeploys_processEvent_def processChangeOwnerEvent_def Let_def consts_simps bindr_Inr_iff
     split: if_splits)

lemma informative_tx_update_core [simp]: "tx_core (informative_tx_update K i tx) = tx_core tx"
  by (simp add: informative_tx_update_def tx_core_def)

lemma informative_tx_update_has_logs [simp]: "tx_HasLogs (informative_tx_update K i tx) = tx_HasLogs tx"
  by (simp add: informative_tx_update_def)

lemma update_tx_frame [frame_simps, simp]:
  "delegators (update_tx h f lg) = delegators lg" "tokensInfo_list (update_tx h f lg) = tokensInfo_list lg"
  "nftsDataUpdates (update_tx h f lg) = nftsDataUpdates lg" "timestamp (update_tx h f lg) = timestamp lg"
  "txsMap (update_tx h f lg) = txsMap lg" "scrsMap (update_tx h f lg) = scrsMap lg"
  "scrs (update_tx h f lg) = scrs lg" "txHashStatusInfoProc (update_tx h f lg) = txHashStatusInfoProc lg"
  by (simp_all add: update_tx_def split: option.split)

lemma update_scr_frame [frame_simps, simp]:
  "delegators (update_scr h g lg) = delegators lg" "tokensInfo_list (update_scr h g lg) = tokensInfo_list lg"
  "nftsDataUpdates (update_scr h g lg) = nftsDataUpdates lg" "timestamp (update_scr h g lg) = timestamp lg"
  "txsMap (update_scr h g lg) = txsMap lg" "scrsMap (update_scr h g lg) = scrsMap lg"
  "txs (update_scr h g lg) = txs lg" "txHashStatusInfoProc (update_scr h g lg) = txHashStatusInfoProc lg"
  by (simp_all add: update_scr_def split: option.split)

lemma processEventNoTx_state:
  "\<exists>c. processEventNoTx K args lg = (processedOutput, lg\<lparr>txHashStatusInfoProc := c\<rparr>)"
proof -
  have same: "\<exists>c. (processedOutput, lg) = (processedOutput, lg\<lparr>txHashStatusInfoProc := c\<rparr>)"
    by (rule exI [of _ "txHashStatusInfoProc lg"]) simp
  show ?thesis
  proof (cases "lookup_scr (a_txHashHexEncoded args) lg")
    case None
    with same show ?thesis by (simp add: processEventNoTx_def)
  next
    case (Some scr)
    with same show ?thesis by (simp only: processEventNoTx_def Let_def option.simps split: if_split) blast
  qed
qed

lemma informative_state:
  assumes "informative_processEvent K args lg = Inr (out, lg')"
  obtains "lg' = lg" | c where "lg' = lg\<lparr>txHashStatusInfoProc := c\<rparr>"
  | i where "lg' = update_tx (a_txHashHexEncoded args) (informative_tx_update K i) lg"
  using assms processEventNoTx_state [of K args lg]
  by (fastforce simp: informative_processEvent_def Let_def split: if_splits option.splits)

interpretation informativeProc: events_processor "informative_operations K" any_event "informative_processEvent K"
proof unfold_locales
  fix args lg out lg'
  show "\<exists>out lg'. informative_processEvent K args lg = Inr (out, lg')"
    using processEventNoTx_state [of K args lg]
    by (auto simp: informative_processEvent_def Let_def split: option.split)
  assume "informative_processEvent K args lg = Inr (out, lg')"
  then show "documents_kept lg lg' \<and> has_logs lg' = has_logs lg"
    and "delegators lg' = delegators lg \<and> tokensInfo_list lg' = tokensInfo_list lg \<and>
      nftsDataUpdates lg' = nftsDataUpdates lg"
    by (cases rule: informative_state; simp add: update_tx_kept update_tx_has_logs)+
qed (simp add: informative_processEvent_def)

definition nftsProperties_well_formed :: "core_consts \<Rightarrow> event \<Rightarrow> bool" where
  "nftsProperties_well_formed K ev \<longleftrightarrow>
     e_Identifier ev = k_ESDTModifyCreator K \<longrightarrow>
       e_Identifier ev \<notin> {k_ESDTNFTUpdateAttributes K, k_ESDTMetaDataRecreate K, k_ESDTMetaDataUpdate K,
                            k_ESDTModifyRoyalties K}"

lemma nft_update_switch_returns:
  assumes "3 < length topics \<or> i = k_ESDTModifyCreator K \<and> i \<notin> {k_ESDTNFTUpdateAttributes K,
             k_ESDTMetaDataRecreate K, k_ESDTMetaDataUpdate K, k_ESDTModifyRoyalties K}"
  shows "\<exists>u'. nft_update_switch L K i c topics u = Inr u'"
  using assms by (auto simp: nft_update_switch_def)

lemma nftsProperties_state: "nftsProperties_processEvent L K args lg = Inr (out, lg') \<Longrightarrow> lg' = lg"
  unfolding nftsProperties_processEvent_def Let_def by (auto simp: bindr_Inr_iff split: if_splits)

lemma nftsProperties_returns:
  assumes "nftsProperties_well_formed K (a_event args)"
  shows "\<exists>out lg'. nftsProperties_processEvent L K args lg = Inr (out, lg')"
proof -
  let ?n = "length (e_Topics (a_event args))" and ?i = "e_Identifier (a_event args)"
  consider "?n = 0" | "?n = 1" | "?n = 2" | "?n = 3" "?i \<noteq> k_ESDTModifyCreator K"
    | "?n = 3" "?i = k_ESDTModifyCreator K" | "3 < ?n" by linarith
  then show ?thesis
  proof cases
    case 5
    then have sw: "\<exists>u'. nft_update_switch L K ?i c (e_Topics (a_event args)) u = Inr u'" for c u
      using assms nft_update_switch_returns [of "e_Topics (a_event args)" ?i K L]
      by (auto simp: nftsProperties_well_formed_def)
    from 5 show ?thesis
      unfolding nftsProperties_processEvent_def Let_def consts_simps
      using sw by (auto simp: bindr_Inr_iff)
  next
    case 6
    then have sw: "\<exists>u'. nft_update_switch L K ?i c (e_Topics (a_event args)) u = Inr u'" for c u
      using nft_update_switch_returns [of "e_Topics (a_event args)" ?i K L] by auto
    from 6 have "index_r (e_Topics (a_event args)) 0 = Inr (e_Topics (a_event args) ! 0)"
      "index_r (e_Topics (a_event args)) 1 = Inr (e_Topics (a_event args) ! 1)" by (auto simp del: length_greater_0_conv)
    with 6 show ?thesis
      unfolding nftsProperties_processEvent_def Let_def consts_simps
      using sw by (auto simp: bindr_Inr_iff)
  qed (auto simp: nftsProperties_processEvent_def Let_def consts_simps)
qed

interpretation nftsPropertiesProc: events_processor "propertiesChangeOperations K"
  "nftsProperties_well_formed K" "nftsProperties_processEvent L K"
  by unfold_locales
    (use nftsProperties_state nftsProperties_returns in
      \<open>blast | simp add: nftsProperties_processEvent_def | fastforce\<close>)+

lemma property_pairs_returns_iff: "(\<exists>m'. property_pairs ps m = Inr m') \<longleftrightarrow> even (length ps)"
  by (induction ps m rule: property_pairs.induct) auto

lemma property_pairs_panic_iff: "property_pairs ps m = Inl e \<longleftrightarrow> odd (length ps) \<and> e = PanicIndexOutOfRange"
  by (induction ps m rule: property_pairs.induct) auto

text \<open>States that agree outside the roles, or outside the two token handlers.\<close>

lemma roles_frame:
  assumes "lg'\<lparr>tokenRolesAndProperties := d\<rparr> = lg\<lparr>tokenRolesAndProperties := d\<rparr>"
  shows "documents_kept lg lg'" "has_logs lg' = has_logs lg" "delegators lg' = delegators lg"
    "tokensInfo_list lg' = tokensInfo_list lg" "nftsDataUpdates lg' = nftsDataUpdates lg"
  using assms by (cases lg; cases lg'; simp add: documents_kept_def has_logs_def)+

lemma tokens_frame:
  assumes "lg'\<lparr>tokens := t, tokensSupply := u\<rparr> = lg\<lparr>tokens := t, tokensSupply := u\<rparr>"
  shows "documents_kept lg lg'" "has_logs lg' = has_logs lg" "delegators lg' = delegators lg"
    "tokensInfo_list lg' = tokensInfo_list lg" "nftsDataUpdates lg' = nftsDataUpdates lg"
  using assms by (cases lg; cases lg'; simp add: documents_kept_def has_logs_def)+

lemma esdtProperties_state:
  assumes "esdtProperties_processEvent L K args lg = Inr (out, lg')"
  shows "lg'\<lparr>tokenRolesAndProperties := d\<rparr> = lg\<lparr>tokenRolesAndProperties := d\<rparr>"
  using assms unfolding esdtProperties_processEvent_def extractTokenProperties_def
    extractDataNFTCreateRoleTransfer_def Let_def
  by (auto simp: bindr_Inr_iff split: if_splits)

lemma esdtProperties_returns:
  assumes "properties_well_formed (a_event args)"
  shows "\<exists>out lg'. esdtProperties_processEvent L K args lg = Inr (out, lg')"
proof (cases "e_Identifier (a_event args) = upgradePropertiesEvent \<and> 4 \<le> length (e_Topics (a_event args))")
  case True
  with assms have "even (length (drop 2 (e_Topics (a_event args))))"
    by (simp add: properties_well_formed_def consts_simps)
  then obtain m where "property_pairs (drop 2 (e_Topics (a_event args))) [] = Inr m"
    using property_pairs_returns_iff by blast
  with True show ?thesis
    by (auto simp: esdtProperties_processEvent_def extractTokenProperties_def Let_def consts_simps
             simp del: length_greater_0_conv)
next
  case False
  then show ?thesis
    by (auto simp: esdtProperties_processEvent_def extractDataNFTCreateRoleTransfer_def Let_def consts_simps
             simp del: length_greater_0_conv)
qed

interpretation esdtPropertiesProc: events_processor "rolesOperationsIdentifiers K"
  properties_well_formed "esdtProperties_processEvent L K"
proof unfold_locales
  fix args lg out lg'
  show "properties_well_formed (a_event args) \<Longrightarrow>
      \<exists>out lg'. esdtProperties_processEvent L K args lg = Inr (out, lg')"
    by (rule esdtProperties_returns)
  assume "esdtProperties_processEvent L K args lg = Inr (out, lg')"
  note frame = roles_frame [OF esdtProperties_state [OF this, of NewTokenRolesAndProperties]]
  from frame show "documents_kept lg lg' \<and> has_logs lg' = has_logs lg"
    and "delegators lg' = delegators lg \<and> tokensInfo_list lg' = tokensInfo_list lg \<and>
      nftsDataUpdates lg' = nftsDataUpdates lg"
    by simp_all
qed (simp add: esdtProperties_processEvent_def)

lemma esdtIssue_state: "esdtIssue_processEvent L args lg = Inr (out, lg') \<Longrightarrow> lg' = lg"
  unfolding esdtIssue_processEvent_def Let_def
  by (auto simp: bindr_Inr_iff split: if_splits)

lemma esdtIssue_returns: "\<exists>out lg'. esdtIssue_processEvent L args lg = Inr (out, lg')"
  by (auto simp: esdtIssue_processEvent_def Let_def consts_simps bindr_Inr_iff
           simp del: length_greater_0_conv)

interpretation esdtIssueProc: events_processor issueOperationsIdentifiers any_event "esdtIssue_processEvent L"
  by unfold_locales
    (use esdtIssue_state esdtIssue_returns in
      \<open>blast | simp add: esdtIssue_processEvent_def | fastforce\<close>)+

lemma delegators_state: "delegators_processEvent L bc args lg = Inr (out, lg') \<Longrightarrow> lg' = lg"
  unfolding delegators_processEvent_def Let_def
  by (auto simp: bindr_Inr_iff split: if_splits)

lemma claimRewards_returns: "\<exists>d. getDelegatorFromClaimRewardsEvent L args = Inr d"
  by (auto simp: getDelegatorFromClaimRewardsEvent_def Let_def consts_simps)

lemma delegators_returns: "\<exists>out lg'. delegators_processEvent L bc args lg = Inr (out, lg')"
proof -
  obtain d where d: "getDelegatorFromClaimRewardsEvent L args = Inr d"
    using claimRewards_returns by blast
  let ?ts = "e_Topics (a_event args)"
  consider "length ?ts < 4" | "length ?ts = 4" | "5 \<le> length ?ts" by linarith
  then show ?thesis
  proof cases
    case 3
    then obtain t0 t1 t2 t3 t4 rest where "?ts = t0 # t1 # t2 # t3 # t4 # rest"
      by (auto simp: numeral_eq_Suc Suc_le_length_iff)
    then show ?thesis unfolding delegators_processEvent_def
      by (simp only: d Let_def index_r_def consts_simps) simp
  next
    case 2
    then obtain t0 t1 t2 t3 where "?ts = [t0, t1, t2, t3]"
      by (auto simp: numeral_eq_Suc length_Suc_conv)
    then show ?thesis unfolding delegators_processEvent_def
      by (simp only: d Let_def index_r_def consts_simps) simp
  qed (simp add: delegators_processEvent_def Let_def consts_simps d)
qed

interpretation delegatorsProc: events_processor delegatorsOperations any_event "delegators_processEvent L bc"
  by unfold_locales
    (use delegators_state delegators_returns in
      \<open>blast | simp add: delegators_processEvent_def | fastforce\<close>)+

lemma processNFTEventOnSender_state:
  assumes "processNFTEventOnSender L K ev lg = Inr lg'"
  shows "lg'\<lparr>tokens := t, tokensSupply := u\<rparr> = lg\<lparr>tokens := t, tokensSupply := u\<rparr>"
  using assms unfolding processNFTEventOnSender_def Let_def
  by (auto simp: bindr_Inr_iff split: if_splits option.splits)

lemma nfts_state:
  assumes "nfts_processEvent L K args lg = Inr (out, lg')"
  shows "lg'\<lparr>tokens := t, tokensSupply := u\<rparr> = lg\<lparr>tokens := t, tokensSupply := u\<rparr>"
  using assms unfolding nfts_processEvent_def Let_def
  by (auto simp: bindr_Inr_iff processNFTEventOnSender_state split: if_splits)

lemma processNFTEventOnSender_returns:
  "2 \<le> length (e_Topics ev) \<Longrightarrow> \<exists>lg'. processNFTEventOnSender L K ev lg = Inr lg'"
  by (auto simp: processNFTEventOnSender_def Let_def consts_simps split: option.split
           simp del: length_greater_0_conv)

lemma nfts_returns:
  assumes "nfts_well_formed K (a_event args)"
  shows "\<exists>out lg'. nfts_processEvent L K args lg = Inr (out, lg')"
proof (cases "2 \<le> length (e_Topics (a_event args))")
  case True
  moreover obtain lg1 where "processNFTEventOnSender L K (a_event args) lg = Inr lg1"
    using processNFTEventOnSender_returns [OF True] by blast
  moreover have "index_r (e_Topics (a_event args)) 0 = Inr (e_Topics (a_event args) ! 0)"
    "index_r (e_Topics (a_event args)) 1 = Inr (e_Topics (a_event args) ! 1)"
    using True by (auto simp del: length_greater_0_conv)
  ultimately show ?thesis
    by (auto simp: nfts_processEvent_def Let_def consts_simps shouldAddReceiverData_def)
next
  case False
  with assms show ?thesis by (simp add: nfts_processEvent_def nfts_well_formed_def)
qed

interpretation nftsProc: events_processor "nftOperationsIdentifiers K" "nfts_well_formed K" "nfts_processEvent L K"
proof unfold_locales
  fix args lg out lg'
  show "nfts_well_formed K (a_event args) \<Longrightarrow> \<exists>out lg'. nfts_processEvent L K args lg = Inr (out, lg')"
    by (rule nfts_returns)
  assume "nfts_processEvent L K args lg = Inr (out, lg')"
  note frame = tokens_frame [OF nfts_state [OF this, of NewTokensInfo NewTokensInfo]]
  from frame show "documents_kept lg lg' \<and> has_logs lg' = has_logs lg"
    and "delegators lg' = delegators lg \<and> tokensInfo_list lg' = tokensInfo_list lg \<and>
      nftsDataUpdates lg' = nftsDataUpdates lg"
    by simp_all
qed (simp add: nfts_processEvent_def)

end
