(* ===== verification/Logs_Events.thy ===== *)
theory Logs_Events
  imports Event_Processors
begin

text \<open>
  \<^verbatim>\<open>process/elasticproc/logsevents/logsAndEventsProcessor.go\<close>: the loop over logs, events and event
  processors, and the log and event documents of a block.  Transactions and smart contract results are
  changed in place by the code, so \<open>ExtractDataFromLogs\<close> returns them beside its result.
\<close>

section \<open>Model\<close>

record PreparedLogsResults =
  plr_Tokens :: tokensInfo
  plr_TokensSupply :: tokensInfo
  plr_ScDeploys :: "(string, ScDeployInfo) gomap"
  plr_ChangeOwnerOperations :: "(string, OwnerData) gomap"
  plr_Delegators :: "(string, Delegator) gomap"
  plr_TxHashStatusInfo :: "(string, StatusInfo) gomap"
  plr_TokensInfo :: "TokenInfo list"
  plr_NFTsDataUpdates :: "NFTDataUpdate list"
  plr_TokenRolesAndProperties :: TokenRolesAndProperties
  plr_DBLogs :: "Logs list"
  plr_DBEvents :: "LogEvent list"

definition createEventsProcessors ::
    "core_lib \<Rightarrow> core_consts \<Rightarrow> balanceConverter \<Rightarrow> processor list" where
  "createEventsProcessors L K bc =
     [scDeploys_processEvent L K, informative_processEvent K, nftsProperties_processEvent L K,
      esdtProperties_processEvent L K, esdtIssue_processEvent L, delegators_processEvent L bc,
      nfts_processEvent L K]"

definition collect_output :: "argOutputProcessEvent \<Rightarrow> logsData \<Rightarrow> logsData" where
  "collect_output res lg =
     (let lg1 = (case o_tokenInfo res of None \<Rightarrow> lg
                 | Some t \<Rightarrow> lg\<lparr>tokensInfo_list := tokensInfo_list lg @ [t]\<rparr>);
          lg2 = (case o_delegator res of None \<Rightarrow> lg1
                 | Some d \<Rightarrow> lg1\<lparr>delegators := gm_set (dg_Address d @ dg_Contract d) d (delegators lg1)\<rparr>) in
      case o_updatePropNFT res of None \<Rightarrow> lg2
      | Some u \<Rightarrow> lg2\<lparr>nftsDataUpdates := nftsDataUpdates lg2 @ [u]\<rparr>)"

fun processEvent :: "processor list \<Rightarrow> argsProcessEvent \<Rightarrow> logsData \<Rightarrow> logsData result" where
  "processEvent [] args lg = Inr lg"
| "processEvent (proc # procs) args lg =
     bindr (proc args lg) (\<lambda>(res, lg1).
       let lg2 = collect_output res lg1; h = a_txHashHexEncoded args in
       if lookup_tx h lg2 \<noteq> None
       then processEvent procs args (update_tx h (\<lambda>tx. tx\<lparr>tx_HasOperations := True\<rparr>) lg2)
       else if lookup_scr h lg2 \<noteq> None
       then processEvent procs args (update_scr h (\<lambda>scr. scr\<lparr>scr_HasOperations := True\<rparr>) lg2)
       else if o_processed res then Inr lg2
       else processEvent procs args lg2)"

definition processEvents ::
    "processor list \<Rightarrow> string \<Rightarrow> bytes \<Rightarrow> event option list \<Rightarrow> u32 \<Rightarrow> u32 \<Rightarrow> logsData \<Rightarrow> logsData result" where
  "processEvents procs logHashHexEncoded logAddress events shardID numOfShards lg =
     fold_r (\<lambda>ev st. case ev of
         None \<Rightarrow> Inr st
       | Some e \<Rightarrow> processEvent procs
           \<lparr>a_txHashHexEncoded = logHashHexEncoded, a_event = e, a_logAddress = logAddress,
            a_selfShardID = shardID, a_numOfShards = numOfShards\<rparr> st) events lg"

definition mark_has_logs :: "string \<Rightarrow> logsData \<Rightarrow> logsData" where
  "mark_has_logs h lg =
     (if lookup_tx h lg \<noteq> None then update_tx h (\<lambda>tx. tx\<lparr>tx_HasLogs := True\<rparr>) lg
      else update_scr h (\<lambda>scr. scr\<lparr>scr_HasLogs := True\<rparr>) lg)"

definition process_log ::
    "processor list \<Rightarrow> u32 \<Rightarrow> u32 \<Rightarrow> LogData option \<Rightarrow> logsData \<Rightarrow> logsData result" where
  "process_log procs shardID numOfShards txLog lg =
     (case txLog of
        None \<Rightarrow> Inr lg
      | Some d \<Rightarrow> (case ld_Log d of
            None \<Rightarrow> Inl PanicNilDereference
          | Some l \<Rightarrow>
              bindr (processEvents procs (ld_TxHash d) (l_Address l) (l_Events l) shardID numOfShards lg)
                (\<lambda>lg1. Inr (mark_has_logs (ld_TxHash d) lg1))))"

definition getOriginalTxHash :: "logsData \<Rightarrow> string \<Rightarrow> string" where
  "getOriginalTxHash lg logHashHex =
     (case lookup_scr logHashHex lg of None \<Rightarrow> [] | Some scr \<Rightarrow> scr_OriginalTxHash scr)"

definition getExecutionOrder :: "logsData \<Rightarrow> string \<Rightarrow> int" where
  "getExecutionOrder lg logHashHex =
     (case lookup_tx logHashHex lg of
        Some tx \<Rightarrow> tx_ExecutionOrder tx
      | None \<Rightarrow> (case lookup_scr logHashHex lg of
            Some scr \<Rightarrow> scr_ExecutionOrder scr
          | None \<Rightarrow> - 1))"

definition hexEncodeSlice :: "bytes list \<Rightarrow> string list" where
  "hexEncodeSlice input = map hex_encode input"

definition eventID :: "string \<Rightarrow> u32 \<Rightarrow> int \<Rightarrow> string" where
  "eventID h shardID order = h @ ''-'' @ dec_nat (unat shardID) @ ''-'' @ dec_int order"

definition prepareLogEvent :: "core_lib \<Rightarrow> Logs \<Rightarrow> Event \<Rightarrow> u32 \<Rightarrow> int \<Rightarrow> LogEvent" where
  "prepareLogEvent L dbLog ev shardID execOrder =
     (let id = eventID (lg_ID dbLog) shardID (ev_Order ev) in
      \<lparr>le_UUID = GenerateUUID L id, le_ID = id, le_TxHash = lg_ID dbLog,
       le_OriginalTxHash = lg_OriginalTxHash dbLog, le_LogAddress = lg_Address dbLog,
       le_Address = ev_Address ev, le_Identifier = ev_Identifier ev, le_Data = hex_encode (ev_Data ev),
       le_AdditionalData = hexEncodeSlice (ev_AdditionalData ev), le_Topics = hexEncodeSlice (ev_Topics ev),
       le_Order = ev_Order ev, le_TxOrder = execOrder, le_ShardID = shardID,
       le_Timestamp = lg_Timestamp dbLog\<rparr>)"

fun log_events :: "core_lib \<Rightarrow> nat \<Rightarrow> event option list \<Rightarrow> Event list" where
  "log_events L idx [] = []"
| "log_events L idx (None # evs) = log_events L (Suc idx) evs"
| "log_events L idx (Some e # evs) =
     \<lparr>ev_Address = SilentEncode L (e_Address e), ev_Identifier = e_Identifier e, ev_Topics = e_Topics e,
      ev_Data = e_Data e, ev_AdditionalData = e_AdditionalData e, ev_Order = int idx\<rparr>
     # log_events L (Suc idx) evs"

definition prepareLog ::
    "core_lib \<Rightarrow> logsData \<Rightarrow> string \<Rightarrow> log \<Rightarrow> u64 \<Rightarrow> u32 \<Rightarrow> Logs \<times> LogEvent list" where
  "prepareLog L lg logHashHex eventLogs ts shardID =
     (let logsDB = \<lparr>lg_UUID = GenerateUUID L logHashHex, lg_ID = logHashHex,
                    lg_OriginalTxHash = getOriginalTxHash lg logHashHex,
                    lg_Address = SilentEncode L (l_Address eventLogs),
                    lg_Events = log_events L 0 (l_Events eventLogs), lg_Timestamp = ts\<rparr> in
      (logsDB, map (\<lambda>ev. prepareLogEvent L logsDB ev shardID (getExecutionOrder lg logHashHex))
                   (lg_Events logsDB)))"

fun prepareLogsForDB ::
    "core_lib \<Rightarrow> logsData \<Rightarrow> LogData option list \<Rightarrow> u64 \<Rightarrow> u32 \<Rightarrow> (Logs list \<times> LogEvent list) result" where
  "prepareLogsForDB L lg [] ts shardID = Inr ([], [])"
| "prepareLogsForDB L lg (None # rest) ts shardID = prepareLogsForDB L lg rest ts shardID"
| "prepareLogsForDB L lg (Some d # rest) ts shardID =
     (case ld_Log d of
        None \<Rightarrow> Inl PanicNilDereference
      | Some l \<Rightarrow>
          (let (dbLog, logEvents) = prepareLog L lg (ld_TxHash d) l ts shardID in
           bindr (prepareLogsForDB L lg rest ts shardID) (\<lambda>(logs, events).
             Inr (dbLog # logs, logEvents @ events))))"

definition ExtractDataFromLogs ::
    "core_lib \<Rightarrow> core_consts \<Rightarrow> balanceConverter \<Rightarrow> LogData option list \<Rightarrow> PreparedResults \<Rightarrow> u64 \<Rightarrow> u32 \<Rightarrow> u32
     \<Rightarrow> (PreparedLogsResults \<times> PreparedResults) result" where
  "ExtractDataFromLogs L K bc logsAndEvents preparedResults ts shardID numOfShards =
     bindr (fold_r (process_log (createEventsProcessors L K bc) shardID numOfShards) logsAndEvents
              (newLogsData ts (pr_Transactions preparedResults) (pr_ScResults preparedResults))) (\<lambda>lg.
     bindr (prepareLogsForDB L lg logsAndEvents ts shardID) (\<lambda>(dbLogs, dbEvents).
     Inr (\<lparr>plr_Tokens = tokens lg, plr_TokensSupply = tokensSupply lg, plr_ScDeploys = scDeploys lg,
           plr_ChangeOwnerOperations = changeOwnerOperations lg, plr_Delegators = delegators lg,
           plr_TxHashStatusInfo = getAllRecords (txHashStatusInfoProc lg),
           plr_TokensInfo = tokensInfo_list lg, plr_NFTsDataUpdates = nftsDataUpdates lg,
           plr_TokenRolesAndProperties = tokenRolesAndProperties lg,
           plr_DBLogs = dbLogs, plr_DBEvents = dbEvents\<rparr>,
          preparedResults\<lparr>pr_Transactions := txs lg, pr_ScResults := scrs lg\<rparr>)))"

section \<open>The loops keep the documents\<close>

lemma collect_output_kept [simp]:
  "documents_kept lg (collect_output res lg)" "has_logs (collect_output res lg) = has_logs lg"
  "txs (collect_output res lg) = txs lg" "scrs (collect_output res lg) = scrs lg"
  "txsMap (collect_output res lg) = txsMap lg" "scrsMap (collect_output res lg) = scrsMap lg"
  by (simp_all add: collect_output_def Let_def documents_kept_def has_logs_def split: option.split)

lemma collect_output_empty [simp]: "collect_output emptyOutput lg = lg"
  by (simp add: collect_output_def emptyOutput_def)

definition keeps_documents :: "processor \<Rightarrow> bool" where
  "keeps_documents p \<longleftrightarrow>
     (\<forall>args lg out lg'. p args lg = Inr (out, lg') \<longrightarrow> documents_kept lg lg' \<and> has_logs lg' = has_logs lg)"

lemma createEventsProcessors_kept: "\<forall>p \<in> set (createEventsProcessors L K bc). keeps_documents p"
  unfolding keeps_documents_def
  using scDeploysProc.kept informativeProc.kept nftsPropertiesProc.kept esdtPropertiesProc.kept
    esdtIssueProc.kept delegatorsProc.kept nftsProc.kept
  by (auto simp: createEventsProcessors_def)

lemma set_has_operations_kept [simp]:
  "documents_kept lg (update_tx h (\<lambda>tx. tx\<lparr>tx_HasOperations := True\<rparr>) lg)"
  "documents_kept lg (update_scr h (\<lambda>scr. scr\<lparr>scr_HasOperations := True\<rparr>) lg)"
  "has_logs (update_tx h (\<lambda>tx. tx\<lparr>tx_HasOperations := True\<rparr>) lg) = has_logs lg"
  "has_logs (update_scr h (\<lambda>scr. scr\<lparr>scr_HasOperations := True\<rparr>) lg) = has_logs lg"
  by (simp_all add: update_tx_kept update_scr_kept update_tx_has_logs update_scr_has_logs tx_core_def scr_core_def)

lemma kept_after_has_operations:
  "documents_kept (update_tx h (\<lambda>tx. tx\<lparr>tx_HasOperations := True\<rparr>) lg) lg' \<Longrightarrow> documents_kept lg lg'"
  "documents_kept (update_scr h (\<lambda>scr. scr\<lparr>scr_HasOperations := True\<rparr>) lg) lg' \<Longrightarrow> documents_kept lg lg'"
  by (erule documents_kept_trans [rotated]; simp)+

lemma processEvent_kept:
  assumes "\<forall>p \<in> set procs. keeps_documents p" and "processEvent procs args lg = Inr lg'"
  shows "documents_kept lg lg' \<and> has_logs lg' = has_logs lg"
  using assms
proof (induction procs arbitrary: lg)
  case (Cons p procs)
  then obtain out lg1 where run: "p args lg = Inr (out, lg1)" by (auto simp: bindr_Inr_iff)
  have step: "documents_kept lg lg1 \<and> has_logs lg1 = has_logs lg"
    using Cons.prems(1) run by (simp add: keeps_documents_def)
  define lg2 where "lg2 = collect_output out lg1"
  have lg2: "documents_kept lg lg2 \<and> has_logs lg2 = has_logs lg"
    using step documents_kept_trans [OF _ collect_output_kept(1) [of lg1 out]] by (simp add: lg2_def)
  have ih: "documents_kept s lg' \<and> has_logs lg' = has_logs s" if "processEvent procs args s = Inr lg'" for s
    using Cons.IH [OF _ that] Cons.prems(1) by simp
  have "documents_kept lg2 lg' \<and> has_logs lg' = has_logs lg2"
    using Cons.prems(2) ih [of lg2]
      ih [of "update_tx (a_txHashHexEncoded args) (\<lambda>tx. tx\<lparr>tx_HasOperations := True\<rparr>) lg2"]
      ih [of "update_scr (a_txHashHexEncoded args) (\<lambda>scr. scr\<lparr>scr_HasOperations := True\<rparr>) lg2"]
    by (auto simp: run Let_def lg2_def [symmetric] split: if_splits intro: kept_after_has_operations)
  with lg2 show ?case by (auto intro: documents_kept_trans)
qed simp

lemma processEvents_kept:
  assumes "processEvents (createEventsProcessors L K bc) h addr evs s n lg = Inr lg'"
  shows "documents_kept lg lg' \<and> has_logs lg' = has_logs lg"
proof -
  have one: "documents_kept u v \<and> has_logs v = has_logs u"
    if "processEvent (createEventsProcessors L K bc) a u = Inr v" for a u v
    by (rule processEvent_kept [OF createEventsProcessors_kept that])
  show ?thesis
    by (rule fold_r_invariant [OF assms [unfolded processEvents_def],
          where P = "\<lambda>t. documents_kept lg t \<and> has_logs t = has_logs lg"])
      (auto split: option.splits dest!: one intro: documents_kept_trans)
qed

lemma mark_has_logs_kept: "documents_kept lg (mark_has_logs h lg)"
  by (simp add: mark_has_logs_def update_tx_kept update_scr_kept tx_core_def scr_core_def)

lemma process_log_kept:
  "process_log (createEventsProcessors L K bc) s n d lg = Inr lg' \<Longrightarrow> documents_kept lg lg'"
  by (auto simp: process_log_def bindr_Inr_iff split: option.splits dest!: processEvents_kept
           intro: documents_kept_trans mark_has_logs_kept)

lemma process_logs_kept:
  "fold_r (process_log (createEventsProcessors L K bc) s n) logs lg = Inr lg' \<Longrightarrow> documents_kept lg lg'"
  by (erule fold_r_invariant) (auto dest: process_log_kept intro: documents_kept_trans)

lemma ExtractDataFromLogs_cases:
  assumes "ExtractDataFromLogs L K bc logs pr ts s n = Inr (res, pr')"
  obtains lg dbLogs dbEvents where
    "fold_r (process_log (createEventsProcessors L K bc) s n) logs
       (newLogsData ts (pr_Transactions pr) (pr_ScResults pr)) = Inr lg"
    "prepareLogsForDB L lg logs ts s = Inr (dbLogs, dbEvents)"
    "pr' = pr\<lparr>pr_Transactions := txs lg, pr_ScResults := scrs lg\<rparr>"
    "plr_DBLogs res = dbLogs" "plr_DBEvents res = dbEvents" "plr_Delegators res = delegators lg"
    "plr_TxHashStatusInfo res = txHashStatusInfoProc lg"
  using assms by (auto simp: ExtractDataFromLogs_def bindr_Inr_iff getAllRecords_def)

section \<open>Positions in the hash maps\<close>

lemma length_takeWhile_less: "\<exists>x \<in> set xs. \<not> P x \<Longrightarrow> length (takeWhile P xs) < length xs"
  by (induction xs) auto

lemma fold_positions:
  fixes key :: "'a \<Rightarrow> string"
  defines "build \<equiv> \<lambda>xs n m. fold (\<lambda>(i, x). gm_set (key x) i) (enumerate n xs) m"
  shows "map_of (build xs n m) k = (if k \<in> key ` set xs
           then Some (n + (length xs - 1 - length (takeWhile (\<lambda>x. key x \<noteq> k) (rev xs))))
           else map_of m k)"
proof (induction xs rule: rev_induct)
  case (snoc x xs)
  have step: "build (xs @ [x]) n m = gm_set (key x) (n + length xs) (build xs n m)"
    by (simp add: build_def enumerate_append_eq)
  show ?case
  proof (cases "k \<in> key ` set xs")
    case True
    then have "length (takeWhile (\<lambda>x. key x \<noteq> k) (rev xs)) < length xs"
      using length_takeWhile_less [of "rev xs" "\<lambda>x. key x \<noteq> k"] by auto
    with True snoc.IH show ?thesis by (auto simp: step)
  qed (use snoc.IH in \<open>auto simp: step\<close>)
qed (simp add: build_def)

lemma last_position:
  assumes "k \<in> key ` set xs"
  defines "i \<equiv> length xs - 1 - length (takeWhile (\<lambda>x. key x \<noteq> k) (rev xs))"
  shows "i < length xs" and "key (xs ! i) = k"
proof -
  let ?t = "length (takeWhile (\<lambda>x. key x \<noteq> k) (rev xs))"
  have t: "?t < length (rev xs)"
    using assms(1) length_takeWhile_less [of "rev xs" "\<lambda>x. key x \<noteq> k"] by auto
  with assms(1) show "i < length xs" by (auto simp: i_def)
  have "key (rev xs ! ?t) = k" using nth_length_takeWhile [of "\<lambda>x. key x \<noteq> k" "rev xs"] t by simp
  with t show "key (xs ! i) = k" by (simp add: i_def rev_nth)
qed

lemma ConvertTxs_position:
  assumes "map_of (ConvertTxsSliceIntoMap xs) k = Some i"
  shows "i < length xs \<and> tx_Hash (xs ! i) = k"
  using assms last_position [of k tx_Hash xs] fold_positions [of tx_Hash 0 xs "[]" k]
  by (auto simp: ConvertTxsSliceIntoMap_def split: if_splits)

lemma ConvertScrs_position:
  assumes "map_of (ConvertScrsSliceIntoMap xs) k = Some i"
  shows "i < length xs \<and> scr_Hash (xs ! i) = k"
  using assms last_position [of k scr_Hash xs] fold_positions [of scr_Hash 0 xs "[]" k]
  by (auto simp: ConvertScrsSliceIntoMap_def split: if_splits)

lemma ConvertTxs_None_iff: "map_of (ConvertTxsSliceIntoMap xs) k = None \<longleftrightarrow> k \<notin> tx_Hash ` set xs"
  using fold_positions [of tx_Hash 0 xs "[]" k] by (simp add: ConvertTxsSliceIntoMap_def)

lemma ConvertScrs_None_iff: "map_of (ConvertScrsSliceIntoMap xs) k = None \<longleftrightarrow> k \<notin> scr_Hash ` set xs"
  using fold_positions [of scr_Hash 0 xs "[]" k] by (simp add: ConvertScrsSliceIntoMap_def)

lemma ConvertTxs_nth:
  assumes "distinct (map tx_Hash xs)" and "i < length xs"
  shows "map_of (ConvertTxsSliceIntoMap xs) (tx_Hash (xs ! i)) = Some i"
proof -
  from assms(2) obtain j where j: "map_of (ConvertTxsSliceIntoMap xs) (tx_Hash (xs ! i)) = Some j"
    using ConvertTxs_None_iff [of xs "tx_Hash (xs ! i)"] by fastforce
  with ConvertTxs_position [OF j] assms show ?thesis
    using nth_eq_iff_index_eq [of "map tx_Hash xs" i j] by simp
qed

lemma ConvertScrs_nth:
  assumes "distinct (map scr_Hash xs)" and "i < length xs"
  shows "map_of (ConvertScrsSliceIntoMap xs) (scr_Hash (xs ! i)) = Some i"
proof -
  from assms(2) obtain j where j: "map_of (ConvertScrsSliceIntoMap xs) (scr_Hash (xs ! i)) = Some j"
    using ConvertScrs_None_iff [of xs "scr_Hash (xs ! i)"] by fastforce
  with ConvertScrs_position [OF j] assms show ?thesis
    using nth_eq_iff_index_eq [of "map scr_Hash xs" i j] by simp
qed

text \<open>The maps of the state point into its lists.\<close>

definition positions_ok :: "logsData \<Rightarrow> bool" where
  "positions_ok lg \<longleftrightarrow>
     (\<forall>h i. map_of (txsMap lg) h = Some i \<longrightarrow> i < length (txs lg)) \<and>
     (\<forall>h i. map_of (scrsMap lg) h = Some i \<longrightarrow> i < length (scrs lg))"

lemma positions_ok_new: "positions_ok (newLogsData ts ts0 ss0)"
  by (auto simp: positions_ok_def newLogsData_def dest: ConvertTxs_position ConvertScrs_position)

lemma positions_ok_kept: "documents_kept lg lg' \<Longrightarrow> positions_ok lg \<Longrightarrow> positions_ok lg'"
  using documents_kept_lengths [of lg lg'] by (simp add: positions_ok_def documents_kept_def)

lemma lookup_tx_None_iff: "positions_ok lg \<Longrightarrow> lookup_tx h lg = None \<longleftrightarrow> map_of (txsMap lg) h = None"
  by (auto simp: lookup_tx_def positions_ok_def split: option.split)

lemma lookup_scr_None_iff: "positions_ok lg \<Longrightarrow> lookup_scr h lg = None \<longleftrightarrow> map_of (scrsMap lg) h = None"
  by (auto simp: lookup_scr_def positions_ok_def split: option.split)

section \<open>Marking the documents that have logs\<close>

definition tx_logged :: "string set \<Rightarrow> Transaction list \<Rightarrow> Transaction list \<Rightarrow> bool" where
  "tx_logged H xs ys \<longleftrightarrow> length ys = length xs \<and>
     (\<forall>i < length xs. tx_HasLogs (ys ! i) = (tx_HasLogs (xs ! i) \<or> tx_Hash (xs ! i) \<in> H))"

definition logged_hashes :: "LogData option list \<Rightarrow> string set" where
  "logged_hashes logs = ld_TxHash ` {d. Some d \<in> set logs}"

lemma mark_has_logs_txs:
  assumes "positions_ok lg" and "i < length (txs lg)"
    and "\<And>h j. map_of (txsMap lg) h = Some j \<longleftrightarrow> j < length (txs lg) \<and> h = hash j"
  shows "tx_HasLogs (txs (mark_has_logs h lg) ! i) = (tx_HasLogs (txs lg ! i) \<or> hash i = h)"
proof (cases "map_of (txsMap lg) h")
  case None
  with assms(3) [of h i] assms(2) have "hash i \<noteq> h" by auto
  with None assms(1) show ?thesis by (simp add: mark_has_logs_def lookup_tx_None_iff)
next
  case (Some j)
  with assms(3) [of h j] have j: "j < length (txs lg)" "h = hash j" by auto
  have "hash i = h \<longleftrightarrow> i = j" using assms(3) [of h i] assms(2) Some j by auto
  with Some j assms(1,2) show ?thesis
    by (simp add: mark_has_logs_def lookup_tx_None_iff update_tx_def nth_list_update)
qed

lemma ConvertTxs_iff:
  assumes "distinct (map tx_Hash xs)"
  shows "map_of (ConvertTxsSliceIntoMap xs) h = Some j \<longleftrightarrow> j < length xs \<and> h = tx_Hash (xs ! j)"
  using ConvertTxs_position [of xs h j] ConvertTxs_nth [OF assms, of j] by auto

lemma process_log_tx_logged:
  assumes run: "process_log (createEventsProcessors L K bc) s n (Some d) lg = Inr lg'"
    and pos: "positions_ok lg"
    and inj: "\<And>h j. map_of (txsMap lg) h = Some j \<longleftrightarrow> j < length (txs lg) \<and> h = hash j"
    and i: "i < length (txs lg)"
  shows "tx_HasLogs (txs lg' ! i) = (tx_HasLogs (txs lg ! i) \<or> hash i = ld_TxHash d)"
proof -
  obtain l :: log and lg1 where
    evs: "processEvents (createEventsProcessors L K bc) (ld_TxHash d) (l_Address l) (l_Events l) s n lg = Inr lg1"
    and lg': "lg' = mark_has_logs (ld_TxHash d) lg1"
    using run by (fastforce simp: process_log_def bindr_Inr_iff split: option.splits)
  from processEvents_kept [OF evs] have kept: "documents_kept lg lg1" and hl: "has_logs lg1 = has_logs lg" by auto
  have len: "length (txs lg1) = length (txs lg)" using documents_kept_lengths [OF kept] by simp
  have "txsMap lg1 = txsMap lg" using kept by (simp add: documents_kept_def)
  moreover have "map tx_HasLogs (txs lg1) = map tx_HasLogs (txs lg)" using hl by (simp add: has_logs_def)
  then have "tx_HasLogs (txs lg1 ! i) = tx_HasLogs (txs lg ! i)"
    using i len by (metis nth_map)
  ultimately show ?thesis
    using mark_has_logs_txs [of lg1 i hash "ld_TxHash d"] positions_ok_kept [OF kept pos] i len inj lg' by simp
qed

lemma process_logs_tx_logged:
  assumes "fold_r (process_log (createEventsProcessors L K bc) s n) logs lg = Inr lg'"
    and "positions_ok lg"
    and "\<And>h j. map_of (txsMap lg) h = Some j \<longleftrightarrow> j < length (txs lg) \<and> h = hash j"
    and "i < length (txs lg)"
  shows "tx_HasLogs (txs lg' ! i) = (tx_HasLogs (txs lg ! i) \<or> hash i \<in> logged_hashes logs)"
  using assms
proof (induction logs arbitrary: lg)
  case (Cons d logs)
  from Cons.prems(1) obtain lg1 where
    step: "process_log (createEventsProcessors L K bc) s n d lg = Inr lg1"
    and rest: "fold_r (process_log (createEventsProcessors L K bc) s n) logs lg1 = Inr lg'"
    by (auto simp: bindr_Inr_iff)
  note kept = process_log_kept [OF step]
  have len: "length (txs lg1) = length (txs lg)" and tm: "txsMap lg1 = txsMap lg"
    using documents_kept_lengths [OF kept] kept by (auto simp: documents_kept_def)
  have "tx_HasLogs (txs lg' ! i) = (tx_HasLogs (txs lg1 ! i) \<or> hash i \<in> logged_hashes logs)"
    using Cons.IH [OF rest positions_ok_kept [OF kept Cons.prems(2)]] Cons.prems(3,4) len tm by simp
  moreover have "tx_HasLogs (txs lg1 ! i) =
      (tx_HasLogs (txs lg ! i) \<or> (\<exists>x. d = Some x \<and> hash i = ld_TxHash x))"
    using step process_log_tx_logged [OF _ Cons.prems(2,3,4), of L K bc s n _ lg1]
    by (cases d) (auto simp: process_log_def)
  ultimately show ?case by (auto simp: logged_hashes_def)
qed (simp add: logged_hashes_def)

section \<open>When the extraction panics\<close>

definition all_identifiers :: "core_consts \<Rightarrow> string list" where
  "all_identifiers K =
     scDeploysIdentifiers K @ informative_operations K @ propertiesChangeOperations K @
     rolesOperationsIdentifiers K @ issueOperationsIdentifiers @ delegatorsOperations @
     nftOperationsIdentifiers K"

text \<open>The identifiers of the seven processors are pairwise different strings.\<close>

definition identifiers_distinct :: "core_consts \<Rightarrow> bool" where
  "identifiers_distinct K \<longleftrightarrow> distinct (all_identifiers K)"

definition event_ok :: "core_consts \<Rightarrow> event \<Rightarrow> bool" where
  "event_ok K ev \<longleftrightarrow> nfts_well_formed K ev \<and> properties_well_formed ev"

definition log_ok :: "core_consts \<Rightarrow> LogData option \<Rightarrow> bool" where
  "log_ok K txLog =
     (case txLog of
        None \<Rightarrow> True
      | Some d \<Rightarrow> (case ld_Log d of
            None \<Rightarrow> False
          | Some l \<Rightarrow> list_all (\<lambda>ev. case ev of None \<Rightarrow> True | Some e \<Rightarrow> event_ok K e) (l_Events l)))"

lemma processEvent_total:
  assumes "\<forall>p \<in> set procs. \<forall>lg. \<exists>out lg'. p args lg = Inr (out, lg')"
  shows "\<exists>lg'. processEvent procs args lg = Inr lg'"
  using assms
proof (induction procs arbitrary: lg)
  case (Cons p procs)
  then obtain out lg1 where "p args lg = Inr (out, lg1)" by (meson list.set_intros(1))
  with Cons show ?case by (simp add: Let_def)
qed simp

lemma processEvent_panics:
  assumes "\<forall>p \<in> set ps. \<forall>lg. p args lg = Inr (emptyOutput, lg)" and "\<And>lg. q args lg = Inl err"
  shows "processEvent (ps @ q # qs) args lg = Inl err"
  using assms by (induction ps arbitrary: lg) (auto simp: Let_def emptyOutput_def)

lemma nftsProperties_ok:
  assumes "identifiers_distinct K"
  shows "nftsProperties_well_formed K ev"
proof -
  have "distinct (propertiesChangeOperations K)"
    using assms unfolding identifiers_distinct_def all_identifiers_def distinct_append by blast
  then show ?thesis
    unfolding nftsProperties_well_formed_def propertiesChangeOperations_def by auto
qed

lemma nfts_malformed: "\<not> nfts_well_formed K (a_event args) \<Longrightarrow> nfts_processEvent L K args lg = Inl PanicIndexOutOfRange"
  by (auto simp: nfts_well_formed_def nfts_processEvent_def Let_def index_r_def)

lemma properties_malformed:
  assumes "\<not> properties_well_formed (a_event args)"
  shows "esdtProperties_processEvent L K args lg = Inl PanicIndexOutOfRange"
proof -
  from assms have ev: "e_Identifier (a_event args) = upgradePropertiesEvent"
    "\<not> length (e_Topics (a_event args)) < 4" "odd (length (e_Topics (a_event args)))"
    by (auto simp: properties_well_formed_def consts_simps)
  then have "odd (length (drop 2 (e_Topics (a_event args))))" by simp
  then have "property_pairs (drop 2 (e_Topics (a_event args))) [] = Inl PanicIndexOutOfRange"
    using property_pairs_panic_iff by blast
  with ev show ?thesis
    by (simp add: esdtProperties_processEvent_def extractTokenProperties_def Let_def consts_simps
        rolesOperationsIdentifiers_def)
qed

lemma processEvent_returns:
  assumes "identifiers_distinct K" and "event_ok K (a_event args)"
  shows "\<exists>lg'. processEvent (createEventsProcessors L K bc) args lg = Inr lg'"
  using assms nftsProperties_ok [OF assms(1)] scDeploysProc.returns informativeProc.returns
    nftsPropertiesProc.returns esdtPropertiesProc.returns esdtIssueProc.returns delegatorsProc.returns nftsProc.returns
  by (intro processEvent_total) (simp add: createEventsProcessors_def event_ok_def any_event_def)

lemma processEvent_malformed:
  assumes "identifiers_distinct K" and "\<not> event_ok K (a_event args)"
  shows "processEvent (createEventsProcessors L K bc) args lg = Inl PanicIndexOutOfRange"
proof (cases "properties_well_formed (a_event args)")
  case False
  then have "e_Identifier (a_event args) = upgradePropertiesEvent"
    by (auto simp: properties_well_formed_def)
  with assms(1) have "\<forall>p \<in> set [scDeploys_processEvent L K, informative_processEvent K, nftsProperties_processEvent L K].
      \<forall>lg. p args lg = Inr (emptyOutput, lg)"
    using scDeploysProc.unhandled informativeProc.unhandled nftsPropertiesProc.unhandled
    by (auto simp: identifiers_distinct_def all_identifiers_def rolesOperationsIdentifiers_def)
  from processEvent_panics [OF this, of "esdtProperties_processEvent L K"] properties_malformed [OF False] show ?thesis
    by (simp add: createEventsProcessors_def)
next
  case True
  with assms(2) have mal: "\<not> nfts_well_formed K (a_event args)" by (simp add: event_ok_def)
  then have "e_Identifier (a_event args) \<in> set (nftOperationsIdentifiers K)"
    by (simp add: nfts_well_formed_def)
  with assms(1) have "e_Identifier (a_event args) \<notin> set (scDeploysIdentifiers K)"
    "e_Identifier (a_event args) \<notin> set (informative_operations K)"
    "e_Identifier (a_event args) \<notin> set (propertiesChangeOperations K)"
    "e_Identifier (a_event args) \<notin> set (rolesOperationsIdentifiers K)"
    "e_Identifier (a_event args) \<notin> set issueOperationsIdentifiers"
    "e_Identifier (a_event args) \<notin> set delegatorsOperations"
    unfolding identifiers_distinct_def all_identifiers_def distinct_append set_append by blast+
  then have "\<forall>p \<in> set [scDeploys_processEvent L K, informative_processEvent K, nftsProperties_processEvent L K,
        esdtProperties_processEvent L K, esdtIssue_processEvent L, delegators_processEvent L bc].
      \<forall>lg. p args lg = Inr (emptyOutput, lg)"
    by (simp add: scDeploysProc.unhandled informativeProc.unhandled nftsPropertiesProc.unhandled
        esdtPropertiesProc.unhandled esdtIssueProc.unhandled delegatorsProc.unhandled)
  from processEvent_panics [OF this, of "nfts_processEvent L K"] nfts_malformed [OF mal] show ?thesis
    by (simp add: createEventsProcessors_def)
qed

lemma processEvents_returns_iff:
  assumes "identifiers_distinct K"
  shows "(\<exists>lg'. processEvents (createEventsProcessors L K bc) h a evs s n lg = Inr lg') \<longleftrightarrow>
    list_all (\<lambda>ev. case ev of None \<Rightarrow> True | Some e \<Rightarrow> event_ok K e) evs"
proof (induction evs arbitrary: lg)
  case (Cons ev evs)
  show ?case
  proof (cases ev)
    case None
    with Cons.IH show ?thesis by (simp add: processEvents_def)
  next
    case (Some e)
    let ?args = "\<lparr>a_txHashHexEncoded = h, a_event = e, a_logAddress = a, a_selfShardID = s, a_numOfShards = n\<rparr>"
    show ?thesis
    proof (cases "event_ok K e")
      case True
      then obtain lg1 where "processEvent (createEventsProcessors L K bc) ?args lg = Inr lg1"
        using processEvent_returns [OF assms, of ?args L bc lg] by auto
      with Cons.IH [of lg1] Some True show ?thesis by (simp add: processEvents_def)
    next
      case False
      then have "processEvent (createEventsProcessors L K bc) ?args lg = Inl PanicIndexOutOfRange"
        using processEvent_malformed [OF assms, of ?args] by simp
      with Some False show ?thesis by (simp add: processEvents_def)
    qed
  qed
qed (simp add: processEvents_def)

lemma process_log_returns_iff:
  assumes "identifiers_distinct K"
  shows "(\<exists>lg'. process_log (createEventsProcessors L K bc) s n d lg = Inr lg') \<longleftrightarrow> log_ok K d"
  using processEvents_returns_iff [OF assms]
  by (auto simp: process_log_def log_ok_def bindr_Inr_iff split: option.split)

lemma process_logs_returns_iff:
  assumes "identifiers_distinct K"
  shows "(\<exists>lg'. fold_r (process_log (createEventsProcessors L K bc) s n) logs lg = Inr lg') \<longleftrightarrow>
    list_all (log_ok K) logs"
proof (induction logs arbitrary: lg)
  case (Cons d logs)
  show ?case
  proof (cases "log_ok K d")
    case True
    then obtain lg1 where "process_log (createEventsProcessors L K bc) s n d lg = Inr lg1"
      using process_log_returns_iff [OF assms] by blast
    with Cons.IH [of lg1] True show ?thesis by simp
  next
    case False
    then show ?thesis using process_log_returns_iff [OF assms, of L bc s n d lg]
      by (auto simp: bindr_Inr_iff)
  qed
qed simp

lemma prepareLogsForDB_returns:
  "list_all (log_ok K) logs \<Longrightarrow> \<exists>r. prepareLogsForDB L lg logs ts s = Inr r"
  by (induction logs) (auto simp: log_ok_def Let_def bindr_Inr_iff split: option.splits prod.splits)

lemma extraction_returns_iff:
  assumes "identifiers_distinct K"
  shows "(\<exists>r. ExtractDataFromLogs L K bc logs pr ts s n = Inr r) \<longleftrightarrow> list_all (log_ok K) logs"
proof
  assume "\<exists>r. ExtractDataFromLogs L K bc logs pr ts s n = Inr r"
  then obtain lg where "fold_r (process_log (createEventsProcessors L K bc) s n) logs
       (newLogsData ts (pr_Transactions pr) (pr_ScResults pr)) = Inr lg"
    by (auto simp: ExtractDataFromLogs_def bindr_Inr_iff)
  then show "list_all (log_ok K) logs"
    using process_logs_returns_iff [OF assms] by blast
next
  assume ok: "list_all (log_ok K) logs"
  with process_logs_returns_iff [OF assms] obtain lg where
    "fold_r (process_log (createEventsProcessors L K bc) s n) logs
       (newLogsData ts (pr_Transactions pr) (pr_ScResults pr)) = Inr lg" by blast
  moreover obtain dbLogs dbEvents where "prepareLogsForDB L lg logs ts s = Inr (dbLogs, dbEvents)"
    using prepareLogsForDB_returns [OF ok, of L lg ts s] by auto
  ultimately show "\<exists>r. ExtractDataFromLogs L K bc logs pr ts s n = Inr r"
    by (simp add: ExtractDataFromLogs_def)
qed

section \<open>Event identifiers\<close>

lemma eventID_inject:
  assumes "0 \<le> o1" "0 \<le> o2"
  shows "eventID h1 s1 o1 = eventID h2 s2 o2 \<longleftrightarrow> h1 = h2 \<and> s1 = s2 \<and> o1 = o2"
proof
  have nodash: "CHR ''-'' \<notin> set (dec_nat k)" for k
    by (rule dec_nat_no_char) (simp add: is_digit_char_def)
  assume eq: "eventID h1 s1 o1 = eventID h2 s2 o2"
  have "(h1 @ CHR ''-'' # dec_nat (unat s1)) @ CHR ''-'' # dec_nat (nat o1) =
        (h2 @ CHR ''-'' # dec_nat (unat s2)) @ CHR ''-'' # dec_nat (nat o2)"
    using eq assms by (simp add: eventID_def dec_int_def)
  from append_sep_inject [OF this nodash nodash]
  have 1: "h1 @ CHR ''-'' # dec_nat (unat s1) = h2 @ CHR ''-'' # dec_nat (unat s2)"
    and "nat o1 = nat o2" by auto
  with assms append_sep_inject [OF 1 nodash nodash] show "h1 = h2 \<and> s1 = s2 \<and> o1 = o2"
    by (auto dest: unsigned_word_eqI)
qed simp

lemma log_events_orders:
  "sorted_wrt (<) (map ev_Order (log_events L n evs))" "\<forall>e \<in> set (log_events L n evs). int n \<le> ev_Order e"
  by (induction L n evs rule: log_events.induct) force+

definition event_ids :: "u32 \<Rightarrow> string \<Rightarrow> string set" where
  "event_ids s h = eventID h s ` {0..}"

lemma event_ids_disjoint: "h \<notin> H \<Longrightarrow> event_ids s h \<inter> \<Union> (event_ids s ` H) = {}"
  by (auto simp: event_ids_def eventID_inject)

lemma distinct_log_event_ids:
  "distinct (map le_ID (snd (prepareLog L lg h l ts s)))"
  "set (map le_ID (snd (prepareLog L lg h l ts s))) \<subseteq> event_ids s h"
proof -
  let ?evs = "log_events L 0 (l_Events l)"
  have ids: "map le_ID (snd (prepareLog L lg h l ts s)) = map (eventID h s \<circ> ev_Order) ?evs"
    by (simp add: prepareLog_def Let_def prepareLogEvent_def)
  have nonneg: "\<forall>e \<in> set ?evs. 0 \<le> ev_Order e" using log_events_orders(2) [of L 0] by simp
  have "distinct (map ev_Order ?evs)"
    using log_events_orders(1) [of L 0] strict_sorted_iff by blast
  moreover have "inj_on (eventID h s) (ev_Order ` set ?evs)"
    using nonneg eventID_inject by (auto intro!: inj_onI)
  ultimately show "distinct (map le_ID (snd (prepareLog L lg h l ts s)))"
    by (simp add: ids distinct_map comp_inj_on)
  show "set (map le_ID (snd (prepareLog L lg h l ts s))) \<subseteq> event_ids s h"
    using nonneg by (auto simp: ids event_ids_def)
qed

fun log_hashes :: "LogData option list \<Rightarrow> string list" where
  "log_hashes [] = []"
| "log_hashes (None # logs) = log_hashes logs"
| "log_hashes (Some d # logs) = ld_TxHash d # log_hashes logs"

lemma prepareLogsForDB_ids:
  assumes "prepareLogsForDB L lg logs ts s = Inr (dbLogs, dbEvents)" and "distinct (log_hashes logs)"
  shows "distinct (map le_ID dbEvents) \<and> map lg_ID dbLogs = log_hashes logs \<and>
     set (map le_ID dbEvents) \<subseteq> \<Union> (event_ids s ` set (log_hashes logs))"
  using assms
proof (induction L lg logs ts s arbitrary: dbLogs dbEvents rule: prepareLogsForDB.induct)
  case (3 L lg d rest ts s)
  then obtain l where l: "ld_Log d = Some l" by (auto split: option.splits)
  let ?p = "prepareLog L lg (ld_TxHash d) l ts s"
  from 3 l obtain logs' events' where
    rest: "prepareLogsForDB L lg rest ts s = Inr (logs', events')"
    and db: "dbLogs = fst ?p # logs'" "dbEvents = snd ?p @ events'"
    by (auto simp: Let_def bindr_Inr_iff split: prod.splits)
  have ih: "distinct (map le_ID events') \<and> map lg_ID logs' = log_hashes rest \<and>
      set (map le_ID events') \<subseteq> \<Union> (event_ids s ` set (log_hashes rest))"
    using 3(1) [OF l refl prod.collapse rest] 3(3) by simp
  have "lg_ID (fst ?p) = ld_TxHash d" by (simp add: prepareLog_def Let_def)
  moreover note own = distinct_log_event_ids [where L = L and lg = lg and h = "ld_TxHash d" and l = l and ts = ts and s = s]
  have "set (map le_ID (snd ?p)) \<inter> set (map le_ID events') = {}"
    using own(2) ih event_ids_disjoint [of "ld_TxHash d" "set (log_hashes rest)" s] 3(3) by fastforce
  ultimately show ?case using db ih own by auto
qed auto

section \<open>The status of a transaction\<close>

definition known_tx :: "string \<Rightarrow> nat \<Rightarrow> logsData \<Rightarrow> bool" where
  "known_tx h i lg \<longleftrightarrow> map_of (txsMap lg) h = Some i \<and> i < length (txs lg)"

lemma known_tx_kept: "documents_kept lg lg' \<Longrightarrow> known_tx h i lg \<Longrightarrow> known_tx h i lg'"
  using documents_kept_lengths [of lg lg'] by (simp add: known_tx_def documents_kept_def)

lemma lookup_known_tx: "known_tx h i lg \<Longrightarrow> lookup_tx h lg = Some (txs lg ! i)"
  by (simp add: known_tx_def lookup_tx_def)

lemma update_known_tx: "known_tx h i lg \<Longrightarrow> txs (update_tx h f lg) ! i = f (txs lg ! i)"
  by (simp add: known_tx_def update_tx_def)

lemma known_tx_collect [simp]: "known_tx h i (collect_output out lg) = known_tx h i lg"
  by (simp add: known_tx_def)

text \<open>The effect of one processor on the transaction of the log.\<close>

definition tx_effect :: "processor \<Rightarrow> argsProcessEvent \<Rightarrow> (Transaction \<Rightarrow> Transaction) \<Rightarrow> bool" where
  "tx_effect p args g \<longleftrightarrow>
     (\<forall>i lg out lg'. known_tx (a_txHashHexEncoded args) i lg \<longrightarrow> p args lg = Inr (out, lg') \<longrightarrow>
        txs lg' ! i = g (txs lg ! i))"

lemma processEvent_known_tx:
  assumes "list_all2 (\<lambda>p g. keeps_documents p \<and> tx_effect p args g) procs gs"
    and "known_tx (a_txHashHexEncoded args) i lg" and "processEvent procs args lg = Inr lg'"
  shows "txs lg' ! i = fold (\<lambda>g tx. (g tx)\<lparr>tx_HasOperations := True\<rparr>) gs (txs lg ! i)"
  using assms
proof (induction procs gs arbitrary: lg rule: list_all2_induct)
  case (Cons p procs g gs)
  then obtain out lg1 where run: "p args lg = Inr (out, lg1)" by (auto simp: bindr_Inr_iff)
  let ?h = "a_txHashHexEncoded args" and ?lg2 = "collect_output out lg1"
  let ?lg3 = "update_tx ?h (\<lambda>tx. tx\<lparr>tx_HasOperations := True\<rparr>) ?lg2"
  have known: "known_tx ?h i ?lg2" and eff: "txs ?lg2 ! i = g (txs lg ! i)"
    using Cons.hyps(1) Cons.prems(1) run known_tx_kept [of lg lg1 ?h i]
    by (auto simp: keeps_documents_def tx_effect_def)
  then have "processEvent procs args ?lg3 = Inr lg'"
    using Cons.prems(2) by (simp add: run Let_def lookup_known_tx)
  moreover have "known_tx ?h i ?lg3" using known set_has_operations_kept(1) known_tx_kept by blast
  ultimately show ?case using Cons.IH [of ?lg3] update_known_tx [OF known] eff by simp
qed simp

lemma informative_tx_effect:
  "tx_effect (informative_processEvent K) args (informative_tx_update K (e_Identifier (a_event args)))"
proof -
  have "informative_tx_update K (e_Identifier (a_event args)) tx = tx"
    if "e_Identifier (a_event args) \<notin> set (informative_operations K)" for tx
    using that by (auto simp: informative_operations_def informative_tx_update_def)
  then show ?thesis
    by (auto simp: tx_effect_def informative_processEvent_def Let_def lookup_known_tx update_known_tx
        split: if_splits)
qed

lemma no_tx_effect: "(\<And>lg out lg'. p args lg = Inr (out, lg') \<Longrightarrow> txs lg' = txs lg) \<Longrightarrow> tx_effect p args id"
  by (simp add: tx_effect_def)

lemma scDeploys_txs: "scDeploys_processEvent L K args lg = Inr (out, lg') \<Longrightarrow> txs lg' = txs lg"
  by (auto simp: scDeploys_processEvent_def processChangeOwnerEvent_def Let_def bindr_Inr_iff split: if_splits)

lemma esdtProperties_txs: "esdtProperties_processEvent L K args lg = Inr (out, lg') \<Longrightarrow> txs lg' = txs lg"
  using arg_cong [OF esdtProperties_state, of L K args lg out lg' txs NewTokenRolesAndProperties] by simp

lemma nfts_txs: "nfts_processEvent L K args lg = Inr (out, lg') \<Longrightarrow> txs lg' = txs lg"
  using arg_cong [OF nfts_state, of L K args lg out lg' txs NewTokensInfo NewTokensInfo] by simp

lemma chain_known_tx:
  assumes "known_tx (a_txHashHexEncoded args) i lg"
    and "processEvent (createEventsProcessors L K bc) args lg = Inr lg'"
  shows "txs lg' ! i =
    (informative_tx_update K (e_Identifier (a_event args)) (txs lg ! i))\<lparr>tx_HasOperations := True\<rparr>"
proof -
  let ?f = "informative_tx_update K (e_Identifier (a_event args))"
  have "list_all2 (\<lambda>p g. keeps_documents p \<and> tx_effect p args g) (createEventsProcessors L K bc)
      [id, ?f, id, id, id, id, id]"
    using createEventsProcessors_kept [of L K bc] informative_tx_effect [of K args]
    by (auto simp: createEventsProcessors_def intro!: no_tx_effect
        dest: scDeploys_txs esdtProperties_txs nfts_txs nftsProperties_state esdtIssue_state delegators_state)
  from processEvent_known_tx [OF this assms] show ?thesis
    by (simp add: informative_tx_update_def)
qed

fun present :: "'a option list \<Rightarrow> 'a list" where
  "present [] = []"
| "present (None # xs) = present xs"
| "present (Some x # xs) = x # present xs"

lemma processEvents_known_tx:
  assumes "known_tx h i lg" and "processEvents (createEventsProcessors L K bc) h a evs s n lg = Inr lg'"
  shows "txs lg' ! i = fold (\<lambda>e tx. (informative_tx_update K (e_Identifier e) tx)\<lparr>tx_HasOperations := True\<rparr>)
    (present evs) (txs lg ! i)"
  using assms
proof (induction evs arbitrary: lg)
  case (Cons ev evs)
  show ?case
  proof (cases ev)
    case None
    with Cons show ?thesis by (simp add: processEvents_def)
  next
    case (Some e)
    let ?args = "\<lparr>a_txHashHexEncoded = h, a_event = e, a_logAddress = a, a_selfShardID = s, a_numOfShards = n\<rparr>"
    obtain lg1 where one: "processEvent (createEventsProcessors L K bc) ?args lg = Inr lg1"
      and rest: "processEvents (createEventsProcessors L K bc) h a evs s n lg1 = Inr lg'"
      using Cons.prems(2) Some by (auto simp: processEvents_def bindr_Inr_iff)
    have "known_tx h i lg1"
      using processEvent_kept [OF createEventsProcessors_kept one] known_tx_kept Cons.prems(1) by blast
    then show ?thesis
      using Cons.IH [OF _ rest] chain_known_tx [OF _ one] Cons.prems(1) Some by simp
  qed
qed (simp add: processEvents_def)

text \<open>The status that the last status-bearing event of a list leaves.\<close>

definition status_after :: "core_consts \<Rightarrow> string list \<Rightarrow> string \<Rightarrow> string" where
  "status_after K ids st =
     (case filter (\<lambda>i. i \<in> {k_WriteLog K, k_SignalError K, k_InternalVMErrors K}) (rev ids) of
        [] \<Rightarrow> st
      | i # _ \<Rightarrow> if i = k_WriteLog K then k_TxStatusSuccess K else k_TxStatusFail K)"

lemma fold_informative:
  fixes K :: core_consts and evs :: "event list"
  defines "step \<equiv> \<lambda>e tx. (informative_tx_update K (e_Identifier e) tx)\<lparr>tx_HasOperations := True\<rparr>"
  assumes "distinct (informative_operations K)"
  shows "tx_ErrorEvent (fold step evs tx) =
      (tx_ErrorEvent tx \<or> (\<exists>e \<in> set evs. e_Identifier e \<in> {k_SignalError K, k_InternalVMErrors K}))"
    and "tx_CompletedEvent (fold step evs tx) =
      (tx_CompletedEvent tx \<or> (\<exists>e \<in> set evs. e_Identifier e = k_CompletedTxEvent K))"
    and "tx_Status (fold step evs tx) = status_after K (map e_Identifier evs) (tx_Status tx)"
    and "tx_HasOperations (fold step evs tx) = (tx_HasOperations tx \<or> evs \<noteq> [])"
  using assms(2)
  by (induction evs rule: rev_induct)
    (auto simp: step_def informative_tx_update_def informative_operations_def status_after_def)

section \<open>An example block\<close>

definition demo_event :: "string \<Rightarrow> event" where
  "demo_event i = \<lparr>e_Address = ''c'', e_Identifier = i, e_Topics = [], e_Data = [], e_AdditionalData = []\<rparr>"

definition demo_logs :: "LogData option list" where
  "demo_logs = [None, Some \<lparr>ld_TxHash = ''ab'', ld_Log = Some \<lparr>l_Address = ''c'',
     l_Events = [Some (demo_event ''signalError''), None, Some (demo_event ''completedTxEvent'')]\<rparr>\<rparr>]"

definition demo_results :: PreparedResults where
  "demo_results = \<lparr>pr_Transactions = [zeroTransaction\<lparr>tx_Hash := ''ab''\<rparr>, zeroTransaction\<lparr>tx_Hash := ''cd''\<rparr>],
     pr_ScResults = [], pr_Receipts = [], pr_TxHashFee = []\<rparr>"

definition demo_bc :: balanceConverter where
  "demo_bc = \<lparr>dividerForDenomination = Fin 1, balancePrecision = 1, balancePrecisionESDT = 1\<rparr>"

lemma demo_consts_distinct: "identifiers_distinct demo_consts"
  by code_simp

lemma demo_logs_ok: "list_all (log_ok demo_consts) demo_logs"
  by code_simp

section \<open>Properties\<close>

text \<open>
  C10. Extracting the data of logs never changes what a document says besides the marks that logs
  leave: status, error and completion flags, \<^verbatim>\<open>HasOperations\<close> and \<^verbatim>\<open>HasLogs\<close> of transactions, the last two of
  smart contract results; number, order and every other field of the documents, the receipts and the
  fee data are the same.  With distinct transaction hashes, exactly the transactions whose hash is the
  hash of a (non-nil) log get \<^verbatim>\<open>HasLogs\<close>.
\<close>

theorem ExtractDataFromLogs_documents:
  assumes "ExtractDataFromLogs L K bc logs pr ts s n = Inr (res, pr')"
    and "distinct (map tx_Hash (pr_Transactions pr))"
  shows "map tx_core (pr_Transactions pr') = map tx_core (pr_Transactions pr) \<and>
     map scr_core (pr_ScResults pr') = map scr_core (pr_ScResults pr) \<and>
     pr_Receipts pr' = pr_Receipts pr \<and> pr_TxHashFee pr' = pr_TxHashFee pr \<and>
     tx_logged (logged_hashes logs) (pr_Transactions pr) (pr_Transactions pr')"
proof -
  let ?new = "newLogsData ts (pr_Transactions pr) (pr_ScResults pr)"
  from assms(1) obtain lg where
    run: "fold_r (process_log (createEventsProcessors L K bc) s n) logs ?new = Inr lg"
    and pr': "pr' = pr\<lparr>pr_Transactions := txs lg, pr_ScResults := scrs lg\<rparr>"
    by (rule ExtractDataFromLogs_cases)
  note kept = process_logs_kept [OF run]
  have "map_of (txsMap ?new) h = Some j \<longleftrightarrow> j < length (txs ?new) \<and> h = tx_Hash (pr_Transactions pr ! j)"
    for h j by (simp add: newLogsData_def ConvertTxs_iff [OF assms(2)])
  then have "tx_logged (logged_hashes logs) (pr_Transactions pr) (txs lg)"
    using process_logs_tx_logged [OF run positions_ok_new] documents_kept_lengths [OF kept]
    by (auto simp: tx_logged_def newLogsData_def)
  with kept pr' show ?thesis by (simp add: documents_kept_def newLogsData_def)
qed

text \<open>
  C11. The extraction of logs returns a result if and only if no log of the list lacks its body and
  every event that is burned, created or wiped NFT data has at least two topics and every
  \<^verbatim>\<open>upgradeProperties\<close> event with at least four topics has an even number of them; in every other
  case it ends in a run-time panic.
\<close>

theorem ExtractDataFromLogs_returns_iff:
  assumes "identifiers_distinct K"
  shows "(\<exists>r. ExtractDataFromLogs L K bc logs pr ts s n = Inr r) \<longleftrightarrow> list_all (log_ok K) logs"
  by (rule extraction_returns_iff [OF assms])

theorem ExtractDataFromLogs_returns_iff_witness:
  "(\<exists>r. ExtractDataFromLogs demo_lib demo_consts demo_bc demo_logs demo_results 7 0 3 = Inr r) \<and>
   \<not> (\<exists>r. ExtractDataFromLogs demo_lib demo_consts demo_bc
         [Some \<lparr>ld_TxHash = ''ab'', ld_Log = Some \<lparr>l_Address = [], l_Events = [Some (demo_event ''ESDTNFTBurn'')]\<rparr>\<rparr>]
         demo_results 7 0 3 = Inr r)"
proof -
  have "\<not> list_all (log_ok demo_consts) [Some \<lparr>ld_TxHash = ''ab'',
      ld_Log = Some \<lparr>l_Address = [], l_Events = [Some (demo_event ''ESDTNFTBurn'')]\<rparr>\<rparr>]"
    by code_simp
  then show ?thesis
    using ExtractDataFromLogs_returns_iff [OF demo_consts_distinct] demo_logs_ok by simp
qed

text \<open>
  C12. The identifiers of the event documents of a block, \<^verbatim>\<open>hash-shard-order\<close>, are pairwise different
  when the logs have different hashes, and the log documents carry the hashes of the logs in order;
  no identifier of another shard or of another log collides with them.
\<close>

theorem log_event_ids_distinct:
  assumes "ExtractDataFromLogs L K bc logs pr ts s n = Inr (res, pr')" and "distinct (log_hashes logs)"
  shows "distinct (map le_ID (plr_DBEvents res)) \<and> map lg_ID (plr_DBLogs res) = log_hashes logs \<and>
    (\<forall>h' s'. h' \<notin> set (log_hashes logs) \<or> s' \<noteq> s \<longrightarrow>
       event_ids s' h' \<inter> set (map le_ID (plr_DBEvents res)) = {})"
proof -
  from assms(1) obtain lg where db: "prepareLogsForDB L lg logs ts s = Inr (plr_DBLogs res, plr_DBEvents res)"
    by (rule ExtractDataFromLogs_cases) simp
  note ids = prepareLogsForDB_ids [OF db assms(2)]
  have "event_ids s' h' \<inter> \<Union> (event_ids s ` set (log_hashes logs)) = {}"
    if "h' \<notin> set (log_hashes logs) \<or> s' \<noteq> s" for h' s'
    using that by (auto simp: event_ids_def eventID_inject)
  with ids show ?thesis by blast
qed

text \<open>
  C13. Whatever events a log of a known transaction has, after they are processed the transaction has
  an error event iff it had one or some event is \<^verbatim>\<open>signalError\<close> or \<^verbatim>\<open>internalVMErrors\<close>, it is completed
  iff it was or some event is \<^verbatim>\<open>completedTxEvent\<close>, and its status is the one of the last event that
  bears a status (success for \<^verbatim>\<open>writeLog\<close>, fail for the two error events).
\<close>

theorem processEvents_tx_status:
  assumes "identifiers_distinct K" and "known_tx h i lg"
    and "processEvents (createEventsProcessors L K bc) h a evs s n lg = Inr lg'"
  shows "let tx = txs lg ! i; tx' = txs lg' ! i; ids = map e_Identifier (present evs) in
    tx_ErrorEvent tx' = (tx_ErrorEvent tx \<or> k_SignalError K \<in> set ids \<or> k_InternalVMErrors K \<in> set ids) \<and>
    tx_CompletedEvent tx' = (tx_CompletedEvent tx \<or> k_CompletedTxEvent K \<in> set ids) \<and>
    tx_Status tx' = status_after K ids (tx_Status tx) \<and>
    tx_HasOperations tx' = (tx_HasOperations tx \<or> ids \<noteq> [])"
proof -
  have "distinct (informative_operations K)"
    using assms(1) unfolding identifiers_distinct_def all_identifiers_def distinct_append by blast
  note marks = fold_informative [OF this, of "present evs" "txs lg ! i"]
  show ?thesis
    unfolding Let_def processEvents_known_tx [OF assms(2,3)] marks by force
qed

section \<open>Witnesses\<close>

lemma demo_extraction:
  obtains res pr' where
    "ExtractDataFromLogs demo_lib demo_consts demo_bc demo_logs demo_results 7 0 3 = Inr (res, pr')"
proof -
  have "\<exists>r. ExtractDataFromLogs demo_lib demo_consts demo_bc demo_logs demo_results 7 0 3 = Inr r"
    using extraction_returns_iff [OF demo_consts_distinct] demo_logs_ok by blast
  then show ?thesis using that by auto
qed

theorem ExtractDataFromLogs_documents_witness:
  "\<exists>res pr'. ExtractDataFromLogs demo_lib demo_consts demo_bc demo_logs demo_results 7 0 3 = Inr (res, pr') \<and>
     tx_HasLogs (pr_Transactions pr' ! 0) \<and> \<not> tx_HasLogs (pr_Transactions pr' ! 1)"
proof -
  obtain res pr' where
    run: "ExtractDataFromLogs demo_lib demo_consts demo_bc demo_logs demo_results 7 0 3 = Inr (res, pr')"
    by (rule demo_extraction)
  have "tx_logged (logged_hashes demo_logs) (pr_Transactions demo_results) (pr_Transactions pr')"
    using ExtractDataFromLogs_documents [OF run] by (simp add: demo_results_def)
  then show ?thesis using run
    by (auto simp: tx_logged_def demo_results_def demo_logs_def logged_hashes_def zeroTransaction_def)
qed

theorem log_event_ids_distinct_witness:
  "\<exists>res pr'. ExtractDataFromLogs demo_lib demo_consts demo_bc demo_logs demo_results 7 0 3 = Inr (res, pr') \<and>
     distinct (map le_ID (plr_DBEvents res)) \<and> map lg_ID (plr_DBLogs res) = [''ab'']"
proof -
  obtain res pr' where
    run: "ExtractDataFromLogs demo_lib demo_consts demo_bc demo_logs demo_results 7 0 3 = Inr (res, pr')"
    by (rule demo_extraction)
  have hs: "log_hashes demo_logs = [''ab'']" by (simp add: demo_logs_def)
  show ?thesis using run log_event_ids_distinct [OF run] by (auto simp: hs)
qed

theorem processEvents_tx_status_witness:
  "\<exists>lg'. processEvents (createEventsProcessors demo_lib demo_consts demo_bc) ''ab'' ''c''
       [Some (demo_event ''signalError''), Some (demo_event ''completedTxEvent'')] 0 3
       (newLogsData 7 (pr_Transactions demo_results) []) = Inr lg' \<and>
     tx_ErrorEvent (txs lg' ! 0) \<and> tx_Status (txs lg' ! 0) = ''fail''"
proof -
  let ?lg = "newLogsData 7 (pr_Transactions demo_results) []"
  have known: "known_tx ''ab'' 0 ?lg" by code_simp
  have "list_all (\<lambda>ev. case ev of None \<Rightarrow> True | Some e \<Rightarrow> event_ok demo_consts e)
      [Some (demo_event ''signalError''), Some (demo_event ''completedTxEvent'')]" by code_simp
  then obtain lg' where run: "processEvents (createEventsProcessors demo_lib demo_consts demo_bc) ''ab'' ''c''
       [Some (demo_event ''signalError''), Some (demo_event ''completedTxEvent'')] 0 3 ?lg = Inr lg'"
    using processEvents_returns_iff [OF demo_consts_distinct] by blast
  show ?thesis
    using run processEvents_tx_status [OF demo_consts_distinct known run]
    by (simp add: demo_event_def demo_consts_def status_after_def Let_def)
qed

end
