(* ===== verification/Transactions.thy ===== *)
theory Transactions
  imports Converters
begin

text \<open>
  \<^verbatim>\<open>process/elasticproc/transactions\<close> up to the serialization: the documents of transactions, rewards,
  receipts and smart contract results of a block, built from the miniblocks, the header and the pool.
  Maps keyed by raw hashes are association lists; a document reached through its pointer in a map is
  updated at its key.  The two hash extractors (of a regular and of a sovereign chain) are instances of
  the locale \<open>tx_hash_extractor\<close>.
\<close>

section \<open>checkers.go\<close>

definition okHexEncoded :: string where "okHexEncoded = ''6f6b''"
definition rewardsOperation :: string where "rewardsOperation = ''reward''"

record tx_processor_args =
  ta_Marshalizer :: bool
  ta_Hasher :: bool
  ta_AddressPubkeyConverter :: bool
  ta_BalanceConverter :: bool
  ta_TxHashExtractor :: bool
  ta_RewardTxData :: bool

text \<open>Each field says whether the dependency is present (not nil).\<close>

definition checkTxsProcessorArg :: "tx_processor_args option \<Rightarrow> unit result" where
  "checkTxsProcessorArg args =
     (case args of
        None \<Rightarrow> Inl ErrNilTransactionsProcessorArguments
      | Some a \<Rightarrow>
          if \<not> ta_Marshalizer a then Inl ErrNilMarshalizer
          else if \<not> ta_Hasher a then Inl ErrNilHasher
          else if \<not> ta_AddressPubkeyConverter a then Inl ErrNilPubkeyConverter
          else if \<not> ta_BalanceConverter a then Inl ErrNilBalanceConverter
          else if \<not> ta_TxHashExtractor a then Inl ErrNilTxHashExtractor
          else if \<not> ta_RewardTxData a then Inl ErrNilRewardTxDataHandler
          else Inr ())"

definition areESDTValuesOK :: "string list \<Rightarrow> bool" where
  "areESDTValuesOK values = list_all (\<lambda>v. length v \<le> MaxESDTValueLength) values"

definition checkPrepareTransactionForDatabaseArguments ::
    "Header option \<Rightarrow> TransactionPool option \<Rightarrow> unit result" where
  "checkPrepareTransactionForDatabaseArguments header pool =
     (if header = None then Inl ErrNilHeaderHandler else if pool = None then Inl ErrNilPool else Inr ())"

definition isScResultSuccessful :: "core_consts \<Rightarrow> bytes \<Rightarrow> bool" where
  "isScResultSuccessful K scResultData \<longleftrightarrow>
     sublist (''@'' @ hex_encode (k_OkCode K)) scResultData \<or> sublist (''@'' @ k_OkCode K) scResultData"

definition isDataOk :: "bytes \<Rightarrow> bool" where
  "isDataOk d = prefix (''@'' @ okHexEncoded) d"

definition isSCRForSenderWithRefund :: "ScResult \<Rightarrow> Transaction \<Rightarrow> bool" where
  "isSCRForSenderWithRefund dbScResult tx \<longleftrightarrow>
     scr_PrevTxHash dbScResult = tx_Hash tx \<and> scr_Receiver dbScResult = tx_Sender tx \<and>
     scr_Nonce dbScResult = tx_Nonce tx + 1 \<and> isDataOk (scr_Data dbScResult)"

definition stringValueToBigInt :: "string \<Rightarrow> int" where
  "stringValueToBigInt strValue = (case set_string10 strValue of None \<Rightarrow> 0 | Some v \<Rightarrow> v)"

text \<open>The two prefixes are constants of the core library.\<close>

definition isRelayedTx :: "string \<Rightarrow> string \<Rightarrow> Transaction \<Rightarrow> bool" where
  "isRelayedTx relayedTransaction relayedTransactionV2 tx \<longleftrightarrow>
     (prefix relayedTransaction (tx_Data tx) \<or> prefix relayedTransactionV2 (tx_Data tx)) \<and>
     length (tx_SmartContractResults tx) > 0"

definition isCrossShardOnSourceShard :: "Transaction \<Rightarrow> u32 \<Rightarrow> bool" where
  "isCrossShardOnSourceShard tx selfShardID \<longleftrightarrow>
     tx_SenderShard tx \<noteq> tx_ReceiverShard tx \<and> tx_SenderShard tx = selfShardID"

section \<open>Hash extractors and reward senders\<close>

definition ExtractExecutedTxHashes :: "nat \<Rightarrow> bytes list \<Rightarrow> Header \<Rightarrow> bytes list" where
  "ExtractExecutedTxHashes mbIndex mbTxHashes header =
     (if length (h_MiniBlockHeaders header) \<le> mbIndex then mbTxHashes
      else let mbh = h_MiniBlockHeaders header ! mbIndex;
               firstProcessed = mh_IndexOfFirstTxProcessed mbh;
               lastProcessed = mh_IndexOfLastTxProcessed mbh in
        map snd (filter (\<lambda>(txIndex, _).
          \<not> (signed_take_bit 31 (int txIndex) < firstProcessed \<or> signed_take_bit 31 (int txIndex) > lastProcessed))
          (enumerate 0 mbTxHashes)))"

definition sovereign_ExtractExecutedTxHashes :: "nat \<Rightarrow> bytes list \<Rightarrow> Header \<Rightarrow> bytes list" where
  "sovereign_ExtractExecutedTxHashes mbIndex mbTxHashes header = mbTxHashes"

definition reward_GetSender :: "core_consts \<Rightarrow> string" where
  "reward_GetSender K = dec_nat (unat (k_MetachainShardId K))"

definition sovereign_reward_GetSender :: "core_consts \<Rightarrow> string" where
  "sovereign_reward_GetSender K = dec_nat (unat (k_SovereignChainShardId K))"

type_synonym hash_extractor = "nat \<Rightarrow> bytes list \<Rightarrow> Header \<Rightarrow> bytes list"

section \<open>transactionDBBuilder.go\<close>

definition zeroFeeInfo :: FeeInfo where
  "zeroFeeInfo = \<lparr>fi_GasUsed = 0, fi_Fee = 0, fi_InitialPaidFee = 0, fi_GasRefunded = 0, fi_HadRefund = False\<rparr>"

definition getFeeInfo :: "FeeInfo option \<Rightarrow> FeeInfo" where
  "getFeeInfo f = (case f of Some feeInfo \<Rightarrow> feeInfo | None \<Rightarrow> zeroFeeInfo)"

text \<open>The float slice of a failed conversion is nil.\<close>

definition nums_or_nil :: "f64 list result \<Rightarrow> f64 list" where
  "nums_or_nil r = (case r of Inl _ \<Rightarrow> [] | Inr xs \<Rightarrow> xs)"

definition encode_nonempty :: "core_lib \<Rightarrow> bytes \<Rightarrow> string" where
  "encode_nonempty L addr = (if length addr > 0 then SilentEncode L addr else [])"

definition prepareTransaction ::
    "core_lib \<Rightarrow> balanceConverter \<Rightarrow> TxInfo \<Rightarrow> bytes \<Rightarrow> bytes \<Rightarrow> MiniBlock \<Rightarrow> Header \<Rightarrow> string \<Rightarrow> u32 \<Rightarrow> Transaction" where
  "prepareTransaction L bc txInfo txHash mbHash mb header txStatus numOfShards =
     (let tx = txi_Transaction txInfo;
          res = ParseDataField L (ct_Data tx) (ct_SndAddr tx) (ct_RcvAddr tx) numOfShards;
          receiverShardID = (if m_Type mb = InvalidBlock then ComputeShardID L (ct_RcvAddr tx) numOfShards
                             else m_ReceiverShardID mb);
          feeInfo = getFeeInfo (txi_FeeInfo txInfo);
          sender = SilentEncode L (ct_SndAddr tx);
          relayedAddress = encode_nonempty L (ct_RelayerAddr tx);
          relayedSignature = hex_encode (ct_RelayerSignature tx);
          sig = hex_encode (ct_Signature tx);
          hasValidRelayer = (length relayedAddress = length sender \<and> length relayedAddress > 0);
          hasValidRelayerSignature = (length relayedSignature = length sig \<and> length relayedSignature > 0) in
      zeroTransaction
        \<lparr>tx_Hash := hex_encode txHash, tx_MBHash := hex_encode mbHash, tx_Nonce := ct_Nonce tx,
         tx_Round := h_Round header, tx_Value := dec_int (ct_Value tx),
         tx_Receiver := SilentEncode L (ct_RcvAddr tx), tx_Sender := sender,
         tx_ValueNum := num_or_zero (ConvertBigValueToFloat L bc (Some (ct_Value tx))),
         tx_ReceiverShard := receiverShardID, tx_SenderShard := m_SenderShardID mb,
         tx_GasPrice := ct_GasPrice tx, tx_GasLimit := ct_GasLimit tx, tx_Data := ct_Data tx,
         tx_Signature := sig, tx_Timestamp := h_TimeStamp header, tx_Status := txStatus,
         tx_GasUsed := fi_GasUsed feeInfo, tx_InitialPaidFee := dec_int (fi_InitialPaidFee feeInfo),
         tx_Fee := dec_int (fi_Fee feeInfo),
         tx_FeeNum := num_or_zero (ConvertBigValueToFloat L bc (Some (fi_Fee feeInfo))),
         tx_ReceiverUserName := TruncateFieldIfExceedsMaxLengthBase64 (ct_RcvUserName tx),
         tx_SenderUserName := TruncateFieldIfExceedsMaxLengthBase64 (ct_SndUserName tx),
         tx_IsScCall := IsSmartContractAddress L (ct_RcvAddr tx),
         tx_ESDTValues := (if areESDTValuesOK (rp_ESDTValues res) then rp_ESDTValues res else []),
         tx_ESDTValuesNum := nums_or_nil (ComputeSliceOfStringsAsFloat L bc (rp_ESDTValues res)),
         tx_Receivers := EncodeSlice L (rp_Receivers res), tx_Version := ct_Version tx,
         tx_GuardianAddress := encode_nonempty L (ct_GuardianAddr tx),
         tx_GuardianSignature := hex_encode (ct_GuardianSignature tx),
         tx_ExecutionOrder := uint (txi_ExecutionOrder txInfo), tx_Operation := rp_Operation res,
         tx_RelayedSignature := relayedSignature, tx_RelayedAddr := relayedAddress,
         tx_HadRefund := fi_HadRefund feeInfo, tx_UUID := GenerateUUID L (hex_encode txHash),
         tx_Epoch := h_Epoch header, tx_Function := TruncateFieldIfExceedsMaxLength (rp_Function res),
         tx_Tokens := TruncateSliceElementsIfExceedsMaxLength (rp_Tokens res),
         tx_ReceiversShardIDs := rp_ReceiversShardID res,
         tx_IsRelayed := (rp_IsRelayed res \<or> hasValidRelayer \<and> hasValidRelayerSignature)\<rparr>)"

definition prepareRewardTransaction ::
    "core_lib \<Rightarrow> balanceConverter \<Rightarrow> string \<Rightarrow> RewardInfo \<Rightarrow> bytes \<Rightarrow> bytes \<Rightarrow> MiniBlock \<Rightarrow> Header \<Rightarrow> string \<Rightarrow> Transaction" where
  "prepareRewardTransaction L bc rewardSender rTxInfo txHash mbHash mb header txStatus =
     (let rTx = rwi_Reward rTxInfo in
      zeroTransaction
        \<lparr>tx_Hash := hex_encode txHash, tx_MBHash := hex_encode mbHash, tx_Nonce := 0,
         tx_Round := rw_Round rTx, tx_Value := dec_int (rw_Value rTx),
         tx_ValueNum := num_or_zero (ConvertBigValueToFloat L bc (Some (rw_Value rTx))),
         tx_Receiver := SilentEncode L (rw_RcvAddr rTx), tx_Sender := rewardSender,
         tx_ReceiverShard := m_ReceiverShardID mb, tx_SenderShard := m_SenderShardID mb,
         tx_GasPrice := 0, tx_GasLimit := 0, tx_Data := [], tx_Signature := [],
         tx_Timestamp := h_TimeStamp header, tx_Status := txStatus, tx_Operation := rewardsOperation,
         tx_ExecutionOrder := uint (rwi_ExecutionOrder rTxInfo),
         tx_UUID := GenerateUUID L (hex_encode txHash), tx_Epoch := h_Epoch header\<rparr>)"

definition prepareReceipt :: "core_lib \<Rightarrow> string \<Rightarrow> core_Receipt \<Rightarrow> Header \<Rightarrow> Receipt" where
  "prepareReceipt L recHashHex rec header =
     \<lparr>rec_Hash = recHashHex, rec_Value = dec_int (cr_Value rec), rec_Sender = SilentEncode L (cr_SndAddr rec),
      rec_Data = cr_Data rec, rec_TxHash = hex_encode (cr_TxHash rec), rec_Timestamp = h_TimeStamp header\<rparr>"

section \<open>transactionsGrouper.go\<close>

definition computeStatus :: "core_consts \<Rightarrow> u32 \<Rightarrow> u32 \<Rightarrow> string" where
  "computeStatus K selfShardID receiverShardID =
     (if selfShardID = receiverShardID then k_TxStatusSuccess K else k_TxStatusPending K)"

definition shouldIndex :: "u32 \<Rightarrow> bool \<Rightarrow> u32 \<Rightarrow> bool" where
  "shouldIndex destinationShardID isImportDB selfShardID =
     (if \<not> isImportDB then True else selfShardID = destinationShardID)"

definition mb_hash :: "core_lib \<Rightarrow> MiniBlock \<Rightarrow> bytes result" where
  "mb_hash L mb = (case CalculateMBHash L mb of None \<Rightarrow> Inl (ExternalError ''CalculateHash'') | Some h \<Rightarrow> Inr h)"

definition prepareNormalTxForDB ::
    "core_lib \<Rightarrow> balanceConverter \<Rightarrow> bytes \<Rightarrow> MiniBlock \<Rightarrow> string \<Rightarrow> bytes \<Rightarrow> (string, TxInfo) gomap \<Rightarrow> Header \<Rightarrow> u32
     \<Rightarrow> Transaction option" where
  "prepareNormalTxForDB L bc mbHash mb mbStatus txHash txs header numOfShards =
     (case map_of txs (hex_encode txHash) of
        None \<Rightarrow> None
      | Some txInfo \<Rightarrow> Some (prepareTransaction L bc txInfo txHash mbHash mb header mbStatus numOfShards))"

definition prepareRewardTxForDB ::
    "core_lib \<Rightarrow> balanceConverter \<Rightarrow> string \<Rightarrow> bytes \<Rightarrow> MiniBlock \<Rightarrow> string \<Rightarrow> bytes \<Rightarrow> (string, RewardInfo) gomap \<Rightarrow> Header
     \<Rightarrow> Transaction option" where
  "prepareRewardTxForDB L bc rewardSender mbHash mb mbStatus txHash txs header =
     (case map_of txs (hex_encode txHash) of
        None \<Rightarrow> None
      | Some rtx \<Rightarrow> Some (prepareRewardTransaction L bc rewardSender rtx txHash mbHash mb header mbStatus))"

definition prepareInvalidTxForDB ::
    "core_lib \<Rightarrow> core_consts \<Rightarrow> balanceConverter \<Rightarrow> bytes \<Rightarrow> MiniBlock \<Rightarrow> bytes \<Rightarrow> (string, TxInfo) gomap \<Rightarrow> Header \<Rightarrow> u32
     \<Rightarrow> Transaction option" where
  "prepareInvalidTxForDB L K bc mbHash mb txHash txs header numOfShards =
     (case map_of txs (hex_encode txHash) of
        None \<Rightarrow> None
      | Some txInfo \<Rightarrow>
          Some (prepareTransaction L bc txInfo txHash mbHash mb header (k_TxStatusInvalid K) numOfShards))"

text \<open>The loop over the executed hashes: a hash the pool lacks is skipped, another one is put in the map.\<close>

definition group_hashes ::
    "(bytes \<Rightarrow> Transaction option) \<Rightarrow> bool \<Rightarrow> bytes list \<Rightarrow> (string, Transaction) gomap" where
  "group_hashes prepare keep hashes =
     fold (\<lambda>txHash m. case prepare txHash of
         None \<Rightarrow> m
       | Some dbTx \<Rightarrow> if keep then gm_set txHash dbTx m else m) hashes []"

definition groupNormalTxs ::
    "core_lib \<Rightarrow> core_consts \<Rightarrow> balanceConverter \<Rightarrow> hash_extractor \<Rightarrow> nat \<Rightarrow> MiniBlock \<Rightarrow> Header
     \<Rightarrow> (string, TxInfo) gomap \<Rightarrow> bool \<Rightarrow> u32 \<Rightarrow> (string, Transaction) gomap result" where
  "groupNormalTxs L K bc extractor mbIndex mb header txs isImportDB numOfShards =
     bindr (mb_hash L mb) (\<lambda>mbHash.
       let selfShardID = h_ShardID header;
           executedTxHashes = extractor mbIndex (m_TxHashes mb) header;
           mbStatus = computeStatus K selfShardID (m_ReceiverShardID mb) in
       Inr (group_hashes
              (\<lambda>txHash. prepareNormalTxForDB L bc mbHash mb mbStatus txHash txs header numOfShards)
              (shouldIndex (m_ReceiverShardID mb) isImportDB selfShardID) executedTxHashes))"

definition groupRewardsTxs ::
    "core_lib \<Rightarrow> core_consts \<Rightarrow> balanceConverter \<Rightarrow> string \<Rightarrow> hash_extractor \<Rightarrow> nat \<Rightarrow> MiniBlock \<Rightarrow> Header
     \<Rightarrow> (string, RewardInfo) gomap \<Rightarrow> bool \<Rightarrow> (string, Transaction) gomap result" where
  "groupRewardsTxs L K bc rewardSender extractor mbIndex mb header txs isImportDB =
     bindr (mb_hash L mb) (\<lambda>mbHash.
       let selfShardID = h_ShardID header;
           mbStatus = computeStatus K selfShardID (m_ReceiverShardID mb);
           executedTxHashes = extractor mbIndex (m_TxHashes mb) header in
       Inr (group_hashes
              (\<lambda>txHash. prepareRewardTxForDB L bc rewardSender mbHash mb mbStatus txHash txs header)
              (shouldIndex (m_ReceiverShardID mb) isImportDB selfShardID) executedTxHashes))"

definition groupInvalidTxs ::
    "core_lib \<Rightarrow> core_consts \<Rightarrow> balanceConverter \<Rightarrow> hash_extractor \<Rightarrow> nat \<Rightarrow> MiniBlock \<Rightarrow> Header
     \<Rightarrow> (string, TxInfo) gomap \<Rightarrow> u32 \<Rightarrow> (string, Transaction) gomap result" where
  "groupInvalidTxs L K bc extractor mbIndex mb header txs numOfShards =
     bindr (mb_hash L mb) (\<lambda>mbHash.
       Inr (group_hashes
              (\<lambda>txHash. prepareInvalidTxForDB L K bc mbHash mb txHash txs header numOfShards) True
              (extractor mbIndex (m_TxHashes mb) header)))"

definition groupReceipts :: "core_lib \<Rightarrow> Header \<Rightarrow> (string, core_Receipt) gomap \<Rightarrow> Receipt list" where
  "groupReceipts L header txsPool = map (\<lambda>(hashHex, rec). prepareReceipt L hashHex rec header) txsPool"

definition convertMapTxsToSlice :: "(string, Transaction) gomap \<Rightarrow> Transaction list" where
  "convertMapTxsToSlice txs = gm_values txs"

section \<open>smartContractResultsProcessor.go\<close>

definition prepareSmartContractResult ::
    "core_lib \<Rightarrow> balanceConverter \<Rightarrow> string \<Rightarrow> bytes \<Rightarrow> SCRInfo \<Rightarrow> Header \<Rightarrow> u32 \<Rightarrow> u32 \<Rightarrow> u32 \<Rightarrow> ScResult" where
  "prepareSmartContractResult L bc scrHashHex mbHash scrInfo header senderShard receiverShard numOfShards =
     (let scr = sci_SmartContractResult scrInfo;
          res = ParseDataField L (cs_Data scr) (cs_SndAddr scr) (cs_RcvAddr scr) numOfShards;
          feeInfo = getFeeInfo (sci_FeeInfo scrInfo) in
      zeroScResult
        \<lparr>scr_Hash := scrHashHex, scr_MBHash := (if length mbHash > 0 then hex_encode mbHash else []),
         scr_Nonce := cs_Nonce scr, scr_GasLimit := cs_GasLimit scr, scr_GasPrice := cs_GasPrice scr,
         scr_Value := dec_int (cs_Value scr),
         scr_ValueNum := num_or_zero (ConvertBigValueToFloat L bc (Some (cs_Value scr))),
         scr_Sender := SilentEncode L (cs_SndAddr scr), scr_Receiver := SilentEncode L (cs_RcvAddr scr),
         scr_RelayerAddr := encode_nonempty L (cs_RelayerAddr scr),
         scr_RelayedValue := (case cs_RelayedValue scr of None \<Rightarrow> [] | Some v \<Rightarrow> dec_int v),
         scr_Code := cs_Code scr, scr_Data := cs_Data scr,
         scr_PrevTxHash := hex_encode (cs_PrevTxHash scr),
         scr_OriginalTxHash := hex_encode (cs_OriginalTxHash scr), scr_CallType := dec_nat (cs_CallType scr),
         scr_CodeMetadata := cs_CodeMetadata scr, scr_ReturnMessage := cs_ReturnMessage scr,
         scr_Timestamp := h_TimeStamp header, scr_SenderAddressBytes := cs_SndAddr scr,
         scr_SenderShard := senderShard, scr_ReceiverShard := receiverShard,
         scr_Operation := rp_Operation res,
         scr_Function := TruncateFieldIfExceedsMaxLength (rp_Function res),
         scr_ESDTValues := (if areESDTValuesOK (rp_ESDTValues res) then rp_ESDTValues res else []),
         scr_ESDTValuesNum := nums_or_nil (ComputeSliceOfStringsAsFloat L bc (rp_ESDTValues res)),
         scr_Tokens := TruncateSliceElementsIfExceedsMaxLength (rp_Tokens res),
         scr_Receivers := EncodeSlice L (rp_Receivers res), scr_ReceiversShardIDs := rp_ReceiversShardID res,
         scr_IsRelayed := rp_IsRelayed res,
         scr_OriginalSender := (case cs_OriginalSender scr of None \<Rightarrow> [] | Some a \<Rightarrow> SilentEncode L a),
         scr_InitialTxFee := dec_int (fi_Fee feeInfo), scr_InitialTxGasUsed := fi_GasUsed feeInfo,
         scr_GasRefunded := fi_GasRefunded feeInfo, scr_ExecutionOrder := uint (sci_ExecutionOrder scrInfo),
         scr_UUID := GenerateUUID L scrHashHex, scr_Epoch := h_Epoch header\<rparr>)"

text \<open>The loop over the hashes of a miniblock removes every result it emits from the working map.\<close>

fun scrs_of_hashes ::
    "core_lib \<Rightarrow> balanceConverter \<Rightarrow> bytes \<Rightarrow> Header \<Rightarrow> MiniBlock \<Rightarrow> u32 \<Rightarrow> bytes list \<Rightarrow> (string, SCRInfo) gomap
     \<Rightarrow> ScResult list \<times> (string, SCRInfo) gomap" where
  "scrs_of_hashes L bc mbHash header mb n [] scrs = ([], scrs)"
| "scrs_of_hashes L bc mbHash header mb n (scrHash # rest) scrs =
     (let scrHashHex = hex_encode scrHash in
      case map_of scrs scrHashHex of
        None \<Rightarrow> scrs_of_hashes L bc mbHash header mb n rest scrs
      | Some scrInfo \<Rightarrow>
          let indexerSCR = prepareSmartContractResult L bc scrHashHex mbHash scrInfo header
                (m_SenderShardID mb) (m_ReceiverShardID mb) n;
              (out, scrs') = scrs_of_hashes L bc mbHash header mb n rest (gm_delete scrHashHex scrs) in
          (indexerSCR # out, scrs'))"

definition processSCRsFromMiniblock ::
    "core_lib \<Rightarrow> balanceConverter \<Rightarrow> Header \<Rightarrow> MiniBlock \<Rightarrow> (string, SCRInfo) gomap \<Rightarrow> u32
     \<Rightarrow> ScResult list \<times> (string, SCRInfo) gomap" where
  "processSCRsFromMiniblock L bc header mb scrs numOfShards =
     (case mb_hash L mb of
        Inl _ \<Rightarrow> ([], scrs)
      | Inr mbHash \<Rightarrow> scrs_of_hashes L bc mbHash header mb numOfShards (m_TxHashes mb) scrs)"

fun scrs_of_miniblocks ::
    "core_lib \<Rightarrow> balanceConverter \<Rightarrow> Header \<Rightarrow> u32 \<Rightarrow> MiniBlock list \<Rightarrow> (string, SCRInfo) gomap
     \<Rightarrow> ScResult list \<times> (string, SCRInfo) gomap" where
  "scrs_of_miniblocks L bc header n [] scrs = ([], scrs)"
| "scrs_of_miniblocks L bc header n (mb # mbs) scrs =
     (if m_Type mb \<noteq> SmartContractResultBlock then scrs_of_miniblocks L bc header n mbs scrs
      else let (out, scrs1) = processSCRsFromMiniblock L bc header mb scrs n;
               (out2, scrs2) = scrs_of_miniblocks L bc header n mbs scrs1 in (out @ out2, scrs2))"

definition processSCRs ::
    "core_lib \<Rightarrow> balanceConverter \<Rightarrow> MiniBlock list \<Rightarrow> Header \<Rightarrow> (string, SCRInfo) gomap \<Rightarrow> u32 \<Rightarrow> ScResult list" where
  "processSCRs L bc miniBlocks header scrs numOfShards =
     (let (allSCRs, workingSCRSMap) = scrs_of_miniblocks L bc header numOfShards miniBlocks scrs;
          selfShardID = h_ShardID header in
      allSCRs @ map (\<lambda>(scrHashHex, noMBScrInfo).
        prepareSmartContractResult L bc scrHashHex [] noMBScrInfo header selfShardID selfShardID numOfShards)
        workingSCRSMap)"

section \<open>scrsDataToTransactions.go\<close>

fun attachSCRs ::
    "ScResult list \<Rightarrow> (string, Transaction) gomap \<Rightarrow> ScResult list \<times> (string, Transaction) gomap" where
  "attachSCRs [] txs = ([], txs)"
| "attachSCRs (scr # scrs) txs =
     (case hex_decode (scr_OriginalTxHash scr) of
        None \<Rightarrow> attachSCRs scrs txs
      | Some h \<Rightarrow> (case map_of txs h of
            None \<Rightarrow> (let (without, txs') = attachSCRs scrs txs in (scr # without, txs'))
          | Some tx \<Rightarrow> attachSCRs scrs
              (gm_set h (tx\<lparr>tx_SmartContractResults := tx_SmartContractResults tx @ [scr]\<rparr>) txs)))"

definition processTransactionsAfterSCRsWereAttached ::
    "(string, Transaction) gomap \<Rightarrow> (string, Transaction) gomap" where
  "processTransactionsAfterSCRsWereAttached transactions =
     map (\<lambda>(k, tx). (k, if length (tx_SmartContractResults tx) = 0 then tx else tx\<lparr>tx_HasSCR := True\<rparr>))
       transactions"

definition processSCRsWithoutTx ::
    "core_lib \<Rightarrow> balanceConverter \<Rightarrow> ScResult list \<Rightarrow> (string, FeeData) gomap" where
  "processSCRsWithoutTx L bc scrs =
     fold (\<lambda>scr m.
       if (scr_InitialTxGasUsed scr = 0 \<or> scr_OriginalTxHash scr = []) \<and> scr_GasRefunded scr = 0 then m
       else gm_set (scr_OriginalTxHash scr)
         \<lparr>fd_FeeNum = (case set_string10 (scr_InitialTxFee scr) of
                         None \<Rightarrow> Fin 0
                       | Some fee \<Rightarrow> num_or_zero (ConvertBigValueToFloat L bc (Some fee))),
          fd_Fee = scr_InitialTxFee scr, fd_GasUsed = scr_InitialTxGasUsed scr,
          fd_Receiver = scr_Receiver scr, fd_GasRefunded = scr_GasRefunded scr\<rparr> m) scrs []"

section \<open>transactionsProcessor.go\<close>

definition shouldIgnoreProcessedMBScheduled :: "Header \<Rightarrow> nat \<Rightarrow> bool" where
  "shouldIgnoreProcessedMBScheduled header mbIndex =
     (if length (h_MiniBlockHeaders header) \<le> mbIndex then False
      else mh_ProcessingType (h_MiniBlockHeaders header ! mbIndex) = Processed)"

definition mergeTxsMaps ::
    "(string, Transaction) gomap \<Rightarrow> (string, Transaction) gomap \<Rightarrow> (string, Transaction) gomap" where
  "mergeTxsMaps dst src = fold (\<lambda>(k, v). gm_set k v) src dst"

definition setTransactionSearchOrder :: "(string, Transaction) gomap \<Rightarrow> (string, Transaction) gomap" where
  "setTransactionSearchOrder transactions =
     map (\<lambda>(i, k, tx). (k, tx\<lparr>tx_SearchOrder := of_nat i\<rparr>)) (enumerate 0 transactions)"

text \<open>One round of the loop over the miniblocks, on the maps of normal and of reward transactions.\<close>

definition group_miniblock ::
    "core_lib \<Rightarrow> core_consts \<Rightarrow> balanceConverter \<Rightarrow> string \<Rightarrow> hash_extractor \<Rightarrow> Header \<Rightarrow> TransactionPool \<Rightarrow> bool \<Rightarrow> u32
     \<Rightarrow> nat \<times> MiniBlock \<Rightarrow> (string, Transaction) gomap \<times> (string, Transaction) gomap
     \<Rightarrow> (string, Transaction) gomap \<times> (string, Transaction) gomap" where
  "group_miniblock L K bc rewardSender extractor header pool isImportDB numOfShards imb st =
     (let (mbIndex, mb) = imb; (normalTxs, rewardsTxs) = st in
      case m_Type mb of
        TxBlock \<Rightarrow>
          if shouldIgnoreProcessedMBScheduled header mbIndex then st
          else (case groupNormalTxs L K bc extractor mbIndex mb header (tp_Transactions pool) isImportDB numOfShards of
              Inl _ \<Rightarrow> st
            | Inr txs \<Rightarrow> (mergeTxsMaps normalTxs txs, rewardsTxs))
      | RewardsBlock \<Rightarrow>
          (case groupRewardsTxs L K bc rewardSender extractor mbIndex mb header (tp_Rewards pool) isImportDB of
              Inl _ \<Rightarrow> st
            | Inr txs \<Rightarrow> (normalTxs, mergeTxsMaps rewardsTxs txs))
      | InvalidBlock \<Rightarrow>
          (case groupInvalidTxs L K bc extractor mbIndex mb header (tp_InvalidTxs pool) numOfShards of
              Inl _ \<Rightarrow> st
            | Inr txs \<Rightarrow> (mergeTxsMaps normalTxs txs, rewardsTxs))
      | _ \<Rightarrow> st)"

definition group_miniblocks ::
    "core_lib \<Rightarrow> core_consts \<Rightarrow> balanceConverter \<Rightarrow> string \<Rightarrow> hash_extractor \<Rightarrow> Header \<Rightarrow> TransactionPool \<Rightarrow> bool \<Rightarrow> u32
     \<Rightarrow> MiniBlock list \<Rightarrow> (string, Transaction) gomap \<times> (string, Transaction) gomap" where
  "group_miniblocks L K bc rewardSender extractor header pool isImportDB numOfShards miniBlocks =
     fold (group_miniblock L K bc rewardSender extractor header pool isImportDB numOfShards)
       (enumerate 0 miniBlocks) ([], [])"

definition PrepareTransactionsForDatabase ::
    "core_lib \<Rightarrow> core_consts \<Rightarrow> balanceConverter \<Rightarrow> string \<Rightarrow> hash_extractor \<Rightarrow> MiniBlock list \<Rightarrow> Header option
     \<Rightarrow> TransactionPool option \<Rightarrow> bool \<Rightarrow> u32 \<Rightarrow> PreparedResults" where
  "PrepareTransactionsForDatabase L K bc rewardSender extractor miniBlocks header pool isImportDB numOfShards =
     (case (header, pool) of
        (Some hdr, Some pl) \<Rightarrow>
          let (normalTxs, rewardsTxs) =
                group_miniblocks L K bc rewardSender extractor hdr pl isImportDB numOfShards miniBlocks;
              normalTxs1 = setTransactionSearchOrder normalTxs;
              dbReceipts = groupReceipts L hdr (tp_Receipts pl);
              dbSCResults = processSCRs L bc miniBlocks hdr (tp_SmartContractResults pl) numOfShards;
              (srcsNoTxInCurrentShard, normalTxs2) = attachSCRs dbSCResults normalTxs1;
              normalTxs3 = processTransactionsAfterSCRsWereAttached normalTxs2;
              txHashFee = processSCRsWithoutTx L bc srcsNoTxInCurrentShard in
          \<lparr>pr_Transactions = convertMapTxsToSlice normalTxs3 @ convertMapTxsToSlice rewardsTxs,
           pr_ScResults = dbSCResults, pr_Receipts = dbReceipts, pr_TxHashFee = txHashFee\<rparr>
      | _ \<Rightarrow> \<lparr>pr_Transactions = [], pr_ScResults = [], pr_Receipts = [], pr_TxHashFee = []\<rparr>)"

definition isCrossShardAtSourceNormalTx :: "u32 \<Rightarrow> MiniBlock \<Rightarrow> bool" where
  "isCrossShardAtSourceNormalTx selfShardID miniblock \<longleftrightarrow>
     m_SenderShardID miniblock \<noteq> m_ReceiverShardID miniblock \<and> m_SenderShardID miniblock = selfShardID \<and>
     m_Type miniblock = TxBlock"

definition getTxsHashesFromMiniblockHexEncoded :: "MiniBlock \<Rightarrow> string list" where
  "getTxsHashesFromMiniblockHexEncoded miniBlock = map hex_encode (m_TxHashes miniBlock)"

fun hashes_for_remove :: "Header \<Rightarrow> (nat \<times> MiniBlock) list \<Rightarrow> string list \<times> string list" where
  "hashes_for_remove header [] = ([], [])"
| "hashes_for_remove header ((mbIndex, miniblock) # rest) =
     (let (txsHashes, scrsHashes) = hashes_for_remove header rest;
          own = getTxsHashesFromMiniblockHexEncoded miniblock in
      if shouldIgnoreProcessedMBScheduled header mbIndex \<or> isCrossShardAtSourceNormalTx (h_ShardID header) miniblock
      then (txsHashes, scrsHashes)
      else if m_Type miniblock = SmartContractResultBlock then (txsHashes, own @ scrsHashes)
      else (own @ txsHashes, scrsHashes))"

definition GetHexEncodedHashesForRemove ::
    "Header option \<Rightarrow> MiniBlock list option \<Rightarrow> string list \<times> string list" where
  "GetHexEncodedHashesForRemove header body =
     (case (header, body) of
        (Some h, Some mbs) \<Rightarrow>
          if length (h_MiniBlockHeadersHashes h) = 0 then ([], [])
          else hashes_for_remove h (enumerate 0 mbs)
      | _ \<Rightarrow> ([], []))"

section \<open>Grouping, over any hash extractor\<close>

lemma group_hashes_lookup:
  "map_of (group_hashes prepare keep hashes) h =
     (if keep \<and> h \<in> set hashes then prepare h else None)"
proof -
  have "map_of (fold (\<lambda>txHash m. case prepare txHash of None \<Rightarrow> m
          | Some dbTx \<Rightarrow> if keep then gm_set txHash dbTx m else m) hashes m0) h =
      (if keep \<and> h \<in> set hashes \<and> prepare h \<noteq> None then prepare h else map_of m0 h)" for m0
    by (induction hashes arbitrary: m0) (auto split: option.splits)
  from this [of "[]"] show ?thesis by (auto simp: group_hashes_def)
qed

lemma gm_wf_group_hashes [simp]: "gm_wf (group_hashes prepare keep hashes)"
proof -
  have "gm_wf m0 \<Longrightarrow> gm_wf (fold (\<lambda>txHash m. case prepare txHash of None \<Rightarrow> m
          | Some dbTx \<Rightarrow> if keep then gm_set txHash dbTx m else m) hashes m0)" for m0
    by (induction hashes arbitrary: m0) (auto split: option.splits)
  then show ?thesis by (simp add: group_hashes_def)
qed

lemma map_of_mergeTxsMaps: "gm_wf src \<Longrightarrow> map_of (mergeTxsMaps dst src) = map_of dst ++ map_of src"
proof (induction src arbitrary: dst)
  case (Cons kv src)
  obtain k v where kv: "kv = (k, v)" by force
  from Cons.prems kv have "map_of src k = None" "gm_wf src"
    by (auto simp: gm_wf_def map_of_eq_None_iff)
  with Cons.IH [of "gm_set k v dst"] kv show ?case
    by (auto simp: mergeTxsMaps_def map_add_def fun_eq_iff split: option.splits)
qed (simp add: mergeTxsMaps_def)

lemma gm_wf_mergeTxsMaps [simp]: "gm_wf dst \<Longrightarrow> gm_wf (mergeTxsMaps dst src)"
  by (induction src arbitrary: dst) (auto simp: mergeTxsMaps_def)

text \<open>
  What the code relies on in a hash extractor: the executed hashes are a subsequence of the hashes of
  the miniblock.
\<close>

definition tx_origin ::
    "core_consts \<Rightarrow> Header \<Rightarrow> (nat \<times> MiniBlock) list \<Rightarrow> block_type set \<Rightarrow> bytes \<Rightarrow> Transaction \<Rightarrow> bool" where
  "tx_origin K header imbs types h tx \<longleftrightarrow> tx_Hash tx = hex_encode h \<and>
     (\<exists>i mb. (i, mb) \<in> set imbs \<and> m_Type mb \<in> types \<and> h \<in> set (m_TxHashes mb) \<and>
        tx_SenderShard tx = m_SenderShardID mb \<and>
        (m_Type mb = TxBlock \<longrightarrow> \<not> shouldIgnoreProcessedMBScheduled header i) \<and>
        tx_Status tx = (if m_Type mb = InvalidBlock then k_TxStatusInvalid K
                        else computeStatus K (h_ShardID header) (m_ReceiverShardID mb)))"

text \<open>As grouped, before results are attached.\<close>

definition tx_grouped ::
    "core_consts \<Rightarrow> Header \<Rightarrow> (nat \<times> MiniBlock) list \<Rightarrow> block_type set \<Rightarrow> bytes \<Rightarrow> Transaction \<Rightarrow> bool" where
  "tx_grouped K header imbs types h tx \<longleftrightarrow> tx_origin K header imbs types h tx \<and>
     \<not> tx_HasSCR tx \<and> tx_SmartContractResults tx = []"

definition txs_ok ::
    "core_consts \<Rightarrow> Header \<Rightarrow> (nat \<times> MiniBlock) list \<Rightarrow> block_type set \<Rightarrow> (string, Transaction) gomap \<Rightarrow> bool" where
  "txs_ok K header imbs types m \<longleftrightarrow> gm_wf m \<and>
     (\<forall>h tx. map_of m h = Some tx \<longrightarrow> tx_grouped K header imbs types h tx)"

lemma tx_origin_mono: "tx_origin K header imbs types h tx \<Longrightarrow> types \<subseteq> types' \<Longrightarrow> tx_origin K header imbs types' h tx"
  unfolding tx_origin_def by blast

lemma prepared_fields [simp]:
  "tx_Hash (prepareTransaction L bc i h mbh mb hdr st n) = hex_encode h"
  "tx_Status (prepareTransaction L bc i h mbh mb hdr st n) = st"
  "tx_SenderShard (prepareTransaction L bc i h mbh mb hdr st n) = m_SenderShardID mb"
  "tx_Hash (prepareRewardTransaction L bc s r h mbh mb hdr st) = hex_encode h"
  "tx_Status (prepareRewardTransaction L bc s r h mbh mb hdr st) = st"
  "tx_SenderShard (prepareRewardTransaction L bc s r h mbh mb hdr st) = m_SenderShardID mb"
  "\<not> tx_HasSCR (prepareTransaction L bc i h mbh mb hdr st n)"
  "tx_SmartContractResults (prepareTransaction L bc i h mbh mb hdr st n) = []"
  "\<not> tx_HasSCR (prepareRewardTransaction L bc s r h mbh mb hdr st)"
  "tx_SmartContractResults (prepareRewardTransaction L bc s r h mbh mb hdr st) = []"
  by (simp_all add: prepareTransaction_def prepareRewardTransaction_def zeroTransaction_def Let_def)

lemma txs_ok_merge:
  assumes "txs_ok K header imbs types m" and "gm_wf m'"
    and "\<And>h tx. map_of m' h = Some tx \<Longrightarrow> tx_grouped K header imbs types h tx"
  shows "txs_ok K header imbs types (mergeTxsMaps m m')"
  using assms by (auto simp: txs_ok_def map_of_mergeTxsMaps map_add_Some_iff)

locale tx_hash_extractor =
  fixes extractor :: hash_extractor
  assumes subsequence: "subseq (extractor i hs header) hs"
begin

lemma extracted: "h \<in> set (extractor i hs header) \<Longrightarrow> h \<in> set hs"
  using list_emb_set [OF subsequence [of i hs header]] by blast

lemma group_hashes_origin:
  assumes "map_of (group_hashes prepare keep (extractor i (m_TxHashes mb) header)) h = Some tx"
    and "\<And>h tx. prepare h = Some tx \<Longrightarrow> tx_Hash tx = hex_encode h \<and> tx_SenderShard tx = m_SenderShardID mb \<and>
      tx_Status tx = (if m_Type mb = InvalidBlock then k_TxStatusInvalid K
                      else computeStatus K (h_ShardID header) (m_ReceiverShardID mb)) \<and>
      \<not> tx_HasSCR tx \<and> tx_SmartContractResults tx = []"
    and "(i, mb) \<in> set imbs" and "m_Type mb \<in> types"
    and "m_Type mb = TxBlock \<Longrightarrow> \<not> shouldIgnoreProcessedMBScheduled header i"
  shows "tx_grouped K header imbs types h tx"
proof -
  from assms(1) have h: "h \<in> set (extractor i (m_TxHashes mb) header)" "prepare h = Some tx"
    by (auto simp: group_hashes_lookup split: if_splits)
  show ?thesis unfolding tx_grouped_def tx_origin_def
    using assms(2) [OF h(2)] assms(3-5) extracted [OF h(1)] by blast
qed

lemma group_miniblock_ok:
  assumes "txs_ok K header imbs {TxBlock, InvalidBlock} (fst st)" and "txs_ok K header imbs {RewardsBlock} (snd st)"
    and "imb \<in> set imbs"
  shows "txs_ok K header imbs {TxBlock, InvalidBlock}
      (fst (group_miniblock L K bc rs extractor header pool imp n imb st)) \<and>
    txs_ok K header imbs {RewardsBlock} (snd (group_miniblock L K bc rs extractor header pool imp n imb st))"
proof -
  obtain i mb where imb: "imb = (i, mb)" by force
  obtain nt rt where st: "st = (nt, rt)" by force
  show ?thesis
  proof (cases "m_Type mb")
    case TxBlock
    have "tx_grouped K header imbs {TxBlock, InvalidBlock} h tx"
      if "groupNormalTxs L K bc extractor i mb header (tp_Transactions pool) imp n = Inr m"
        "map_of m h = Some tx" "\<not> shouldIgnoreProcessedMBScheduled header i" for m h tx
      using that assms(3) TxBlock imb
      by (auto simp: groupNormalTxs_def bindr_Inr_iff Let_def prepareNormalTxForDB_def
          elim!: group_hashes_origin [where i = i and mb = mb] split: option.splits)
    moreover have "gm_wf m"
      if "groupNormalTxs L K bc extractor i mb header (tp_Transactions pool) imp n = Inr m" for m
      using that by (auto simp: groupNormalTxs_def bindr_Inr_iff Let_def)
    ultimately show ?thesis using assms(1,2) TxBlock imb st
      by (auto simp: group_miniblock_def intro!: txs_ok_merge split: sum.splits)
  next
    case InvalidBlock
    have "tx_grouped K header imbs {TxBlock, InvalidBlock} h tx"
      if "groupInvalidTxs L K bc extractor i mb header (tp_InvalidTxs pool) n = Inr m" "map_of m h = Some tx" for m h tx
      using that assms(3) InvalidBlock imb
      by (auto simp: groupInvalidTxs_def bindr_Inr_iff Let_def prepareInvalidTxForDB_def
          elim!: group_hashes_origin [where i = i and mb = mb] split: option.splits)
    moreover have "gm_wf m"
      if "groupInvalidTxs L K bc extractor i mb header (tp_InvalidTxs pool) n = Inr m" for m
      using that by (auto simp: groupInvalidTxs_def bindr_Inr_iff Let_def)
    ultimately show ?thesis using assms(1,2) InvalidBlock imb st
      by (auto simp: group_miniblock_def intro!: txs_ok_merge split: sum.splits)
  next
    case RewardsBlock
    have "tx_grouped K header imbs {RewardsBlock} h tx"
      if "groupRewardsTxs L K bc rs extractor i mb header (tp_Rewards pool) imp = Inr m" "map_of m h = Some tx" for m h tx
      using that assms(3) RewardsBlock imb
      by (auto simp: groupRewardsTxs_def bindr_Inr_iff Let_def prepareRewardTxForDB_def
          elim!: group_hashes_origin [where i = i and mb = mb] split: option.splits)
    moreover have "gm_wf m"
      if "groupRewardsTxs L K bc rs extractor i mb header (tp_Rewards pool) imp = Inr m" for m
      using that by (auto simp: groupRewardsTxs_def bindr_Inr_iff Let_def)
    ultimately show ?thesis using assms(1,2) RewardsBlock imb st
      by (auto simp: group_miniblock_def intro!: txs_ok_merge split: sum.splits)
  qed (use assms(1,2) imb st in \<open>simp_all add: group_miniblock_def\<close>)
qed

lemma group_miniblocks_ok:
  defines "r \<equiv> \<lambda>L K bc rs header pool imp n mbs. group_miniblocks L K bc rs extractor header pool imp n mbs"
  shows "txs_ok K header (enumerate 0 mbs) {TxBlock, InvalidBlock} (fst (r L K bc rs header pool imp n mbs)) \<and>
    txs_ok K header (enumerate 0 mbs) {RewardsBlock} (snd (r L K bc rs header pool imp n mbs))"
proof -
  let ?P = "\<lambda>st. txs_ok K header (enumerate 0 mbs) {TxBlock, InvalidBlock} (fst st) \<and>
    txs_ok K header (enumerate 0 mbs) {RewardsBlock} (snd st)"
  have "?P (fold (group_miniblock L K bc rs extractor header pool imp n) imbs st)"
    if "set imbs \<subseteq> set (enumerate 0 mbs)" "?P st" for imbs st
    using that
  proof (induction imbs arbitrary: st)
    case (Cons imb imbs)
    then show ?case using group_miniblock_ok [of K header "enumerate 0 mbs" st imb] by simp
  qed simp
  from this [of "enumerate 0 mbs" "([], [])"] show ?thesis
    by (simp add: r_def group_miniblocks_def) (simp add: txs_ok_def)
qed

end

interpretation txhe: tx_hash_extractor ExtractExecutedTxHashes
proof
  fix i hs header
  have "subseq (map snd (filter P (enumerate n xs))) xs" for P n and xs :: "bytes list"
    by (induction xs arbitrary: n) auto
  then show "subseq (ExtractExecutedTxHashes i hs header) hs"
    by (simp add: ExtractExecutedTxHashes_def Let_def)
qed

interpretation sovhe: tx_hash_extractor sovereign_ExtractExecutedTxHashes
  by unfold_locales (simp add: sovereign_ExtractExecutedTxHashes_def)

section \<open>Smart contract results\<close>

lemma prepareSCR_fields [simp]:
  "scr_Hash (prepareSmartContractResult L bc h mbh i hdr s r n) = h"
  "scr_OriginalTxHash (prepareSmartContractResult L bc h mbh i hdr s r n) =
     hex_encode (cs_OriginalTxHash (sci_SmartContractResult i))"
  "scr_SenderShard (prepareSmartContractResult L bc h mbh i hdr s r n) = s"
  "scr_ReceiverShard (prepareSmartContractResult L bc h mbh i hdr s r n) = r"
  by (simp_all add: prepareSmartContractResult_def Let_def)

lemma mset_keys_delete:
  "gm_wf m \<Longrightarrow> map_of m k \<noteq> None \<Longrightarrow> mset (map fst m) = add_mset k (mset (map fst (gm_delete k m)))"
proof (induction m)
  case (Cons kv m)
  obtain k' v where kv: "kv = (k', v)" by force
  show ?case
  proof (cases "k' = k")
    case True
    then have "gm_delete k (kv # m) = m"
      using Cons.prems kv by (auto simp: gm_delete_def gm_wf_def delete_id)
    with True kv show ?thesis by simp
  next
    case False
    then have "gm_delete k (kv # m) = kv # gm_delete k m" using kv by (simp add: gm_delete_def)
    with Cons False kv show ?thesis by (auto simp: gm_wf_def)
  qed
qed simp

lemma scrs_of_hashes_mset:
  assumes "scrs_of_hashes L bc mbh hdr mb n hs m = (out, m')" and "gm_wf m"
  shows "mset (map fst m) = mset (map scr_Hash out) + mset (map fst m') \<and> gm_wf m'"
  using assms
proof (induction hs arbitrary: m out m')
  case (Cons h hs)
  show ?case
  proof (cases "map_of m (hex_encode h)")
    case None
    with Cons show ?thesis by (simp add: Let_def)
  next
    case (Some i)
    obtain o1 m1 where rec: "scrs_of_hashes L bc mbh hdr mb n hs (gm_delete (hex_encode h) m) = (o1, m1)" by force
    have "mset (map fst m) = add_mset (hex_encode h) (mset (map fst (gm_delete (hex_encode h) m)))"
      using mset_keys_delete [OF Cons.prems(2)] Some by simp
    with Cons.IH [OF rec] Cons.prems Some rec show ?thesis by (auto simp: Let_def)
  qed
qed simp

lemma scrs_of_miniblocks_mset:
  assumes "scrs_of_miniblocks L bc hdr n mbs m = (out, m')" and "gm_wf m"
  shows "mset (map fst m) = mset (map scr_Hash out) + mset (map fst m') \<and> gm_wf m'"
  using assms
proof (induction mbs arbitrary: m out m')
  case (Cons mb mbs)
  show ?case
  proof (cases "m_Type mb = SmartContractResultBlock")
    case False
    with Cons show ?thesis by simp
  next
    case True
    obtain o1 m1 where one: "processSCRsFromMiniblock L bc hdr mb m n = (o1, m1)" by force
    obtain o2 m2 where rest: "scrs_of_miniblocks L bc hdr n mbs m1 = (o2, m2)" by force
    have "mset (map fst m) = mset (map scr_Hash o1) + mset (map fst m1) \<and> gm_wf m1"
      using one scrs_of_hashes_mset [OF _ Cons.prems(2)] Cons.prems(2)
      by (auto simp: processSCRsFromMiniblock_def split: sum.splits)
    with Cons.IH [OF rest] Cons.prems(1) one rest True show ?thesis by (auto simp: Let_def)
  qed
qed simp

lemma gm_set_existing:
  "gm_wf m \<Longrightarrow> map_of m k \<noteq> None \<Longrightarrow> gm_set k v m = map (\<lambda>(k', x). (k', if k' = k then v else x)) m"
proof (induction m)
  case (Cons kv m)
  obtain k' x where kv: "kv = (k', x)" by force
  show ?case
  proof (cases "k' = k")
    case True
    with Cons.prems kv have "map (\<lambda>(k', x). (k', if k' = k then v else x)) m = m"
      by (intro map_idI) (force simp: gm_wf_def)
    with True kv show ?thesis by (simp add: gm_set_def)
  next
    case False
    with Cons kv show ?thesis by (simp add: gm_set_def gm_wf_def)
  qed
qed simp

definition scrs_of_tx :: "ScResult list \<Rightarrow> bytes \<Rightarrow> ScResult list" where
  "scrs_of_tx scrs h = filter (\<lambda>scr. hex_decode (scr_OriginalTxHash scr) = Some h) scrs"

lemma attachSCRs_spec:
  assumes "gm_wf txs"
  shows "attachSCRs scrs txs =
    (filter (\<lambda>scr. \<exists>h. hex_decode (scr_OriginalTxHash scr) = Some h \<and> map_of txs h = None) scrs,
     map (\<lambda>(h, tx). (h, tx\<lparr>tx_SmartContractResults := tx_SmartContractResults tx @ scrs_of_tx scrs h\<rparr>)) txs)"
  using assms
proof (induction scrs arbitrary: txs)
  case Nil
  show ?case by (auto simp: scrs_of_tx_def intro!: map_idI [symmetric])
next
  case (Cons scr scrs)
  show ?case
  proof (cases "hex_decode (scr_OriginalTxHash scr)")
    case None
    with Cons show ?thesis by (simp add: scrs_of_tx_def)
  next
    case (Some h)
    show ?thesis
    proof (cases "map_of txs h")
      case None
      then have "scrs_of_tx (scr # scrs) h' = scrs_of_tx scrs h'" if "(h', tx) \<in> set txs" for h' tx
        using that Some by (force simp: scrs_of_tx_def map_of_eq_None_iff)
      then have "map (\<lambda>(h, tx). (h, tx\<lparr>tx_SmartContractResults := tx_SmartContractResults tx @ scrs_of_tx (scr # scrs) h\<rparr>)) txs =
          map (\<lambda>(h, tx). (h, tx\<lparr>tx_SmartContractResults := tx_SmartContractResults tx @ scrs_of_tx scrs h\<rparr>)) txs"
        by auto
      with Cons Some None show ?thesis by simp
    next
      case (Some tx)
      let ?txs1 = "gm_set h (tx\<lparr>tx_SmartContractResults := tx_SmartContractResults tx @ [scr]\<rparr>) txs"
      have eq: "?txs1 = map (\<lambda>(k', x). (k', if k' = h
          then tx\<lparr>tx_SmartContractResults := tx_SmartContractResults tx @ [scr]\<rparr> else x)) txs"
        using gm_set_existing [OF Cons.prems] Some by simp
      have val: "x = tx" if "(h, x) \<in> set txs" for x
        using that Some Cons.prems by (simp add: gm_wf_def)
      have keys: "map_of ?txs1 h' = None \<longleftrightarrow> map_of txs h' = None" for h' using Some by auto
      have "map (\<lambda>(h, tx). (h, tx\<lparr>tx_SmartContractResults := tx_SmartContractResults tx @ scrs_of_tx scrs h\<rparr>)) ?txs1 =
          map (\<lambda>(h, tx). (h, tx\<lparr>tx_SmartContractResults := tx_SmartContractResults tx @ scrs_of_tx (scr # scrs) h\<rparr>)) txs"
        unfolding eq using \<open>hex_decode (scr_OriginalTxHash scr) = Some h\<close>
        by (auto simp: scrs_of_tx_def dest: val)
      then show ?thesis
        using Cons.IH [of ?txs1, unfolded keys] Cons.prems Some
          \<open>hex_decode (scr_OriginalTxHash scr) = Some h\<close> by simp
    qed
  qed
qed

section \<open>The prepared results\<close>

lemma length_search_order [simp]: "length (setTransactionSearchOrder m) = length m"
  by (simp add: setTransactionSearchOrder_def)

lemma search_order_nth [simp]:
  "i < length m \<Longrightarrow> setTransactionSearchOrder m ! i = (fst (m ! i), (snd (m ! i))\<lparr>tx_SearchOrder := of_nat i\<rparr>)"
  by (simp add: setTransactionSearchOrder_def nth_enumerate_eq case_prod_unfold)

lemma search_order_keys [simp]: "map fst (setTransactionSearchOrder m) = map fst m"
  by (rule nth_equalityI) simp_all

lemma gm_wf_search_order [simp]: "gm_wf (setTransactionSearchOrder m) = gm_wf m"
  by (simp add: gm_wf_def)

text \<open>The normal transactions of the result, from the grouped map and the results of the block.\<close>

definition final_normal :: "ScResult list \<Rightarrow> (string, Transaction) gomap \<Rightarrow> (string, Transaction) gomap" where
  "final_normal scrs m =
     processTransactionsAfterSCRsWereAttached (snd (attachSCRs scrs (setTransactionSearchOrder m)))"

lemma final_normal_nth:
  assumes "gm_wf m" and "i < length m"
  shows "final_normal scrs m ! i =
    (let (h, tx) = m ! i; attached = tx_SmartContractResults tx @ scrs_of_tx scrs h in
     (h, tx\<lparr>tx_SearchOrder := of_nat i, tx_SmartContractResults := attached,
            tx_HasSCR := (if attached = [] then tx_HasSCR tx else True)\<rparr>))"
  using assms
  by (simp add: final_normal_def attachSCRs_spec processTransactionsAfterSCRsWereAttached_def
      case_prod_unfold Let_def)

lemma length_final_normal [simp]: "gm_wf m \<Longrightarrow> length (final_normal scrs m) = length m"
  by (simp add: final_normal_def attachSCRs_spec processTransactionsAfterSCRsWereAttached_def)

lemma prepared_results:
  fixes L K bc rs ext hdr pool imp n mbs
  defines "nr \<equiv> group_miniblocks L K bc rs ext hdr pool imp n mbs"
    and "scrs \<equiv> processSCRs L bc mbs hdr (tp_SmartContractResults pool) n"
    and "res \<equiv> PrepareTransactionsForDatabase L K bc rs ext mbs (Some hdr) (Some pool) imp n"
  shows "pr_Transactions res = gm_values (final_normal scrs (fst nr)) @ gm_values (snd nr)"
    and "pr_ScResults res = scrs"
    and "pr_TxHashFee res = processSCRsWithoutTx L bc (fst (attachSCRs scrs (setTransactionSearchOrder (fst nr))))"
  by (simp_all add: res_def nr_def scrs_def PrepareTransactionsForDatabase_def final_normal_def Let_def
      convertMapTxsToSlice_def case_prod_unfold)

definition known_extractor :: "hash_extractor \<Rightarrow> bool" where
  "known_extractor ext \<longleftrightarrow> ext = ExtractExecutedTxHashes \<or> ext = sovereign_ExtractExecutedTxHashes"

lemma grouped_ok:
  assumes "known_extractor ext"
  defines "nr \<equiv> \<lambda>L K bc rs hdr pool imp n mbs. group_miniblocks L K bc rs ext hdr pool imp n mbs"
  shows "txs_ok K hdr (enumerate 0 mbs) {TxBlock, InvalidBlock} (fst (nr L K bc rs hdr pool imp n mbs))"
    and "txs_ok K hdr (enumerate 0 mbs) {RewardsBlock} (snd (nr L K bc rs hdr pool imp n mbs))"
  using assms txhe.group_miniblocks_ok sovhe.group_miniblocks_ok by (auto simp: known_extractor_def)

lemma txs_ok_values:
  assumes "txs_ok K hdr imbs types m"
  shows "distinct (map tx_Hash (gm_values m))"
    and "tx \<in> set (gm_values m) \<Longrightarrow> \<exists>h. tx_grouped K hdr imbs types h tx"
proof -
  have pairs: "tx_grouped K hdr imbs types h tx" if "(h, tx) \<in> set m" for h tx
    using that assms by (simp add: txs_ok_def gm_wf_def)
  then have "map tx_Hash (gm_values m) = map (hex_encode \<circ> fst) m"
    by (auto simp: gm_values_def tx_grouped_def tx_origin_def)
  moreover have "distinct (map (hex_encode \<circ> fst) m)"
    using assms by (auto simp: txs_ok_def gm_wf_def distinct_map inj_on_def)
  ultimately show "distinct (map tx_Hash (gm_values m))" by simp
  show "tx \<in> set (gm_values m) \<Longrightarrow> \<exists>h. tx_grouped K hdr imbs types h tx"
    using pairs unfolding gm_values_def by force
qed

lemma final_normal_values_nth:
  assumes "txs_ok K hdr imbs types m" and "i < length m"
  shows "gm_values (final_normal scrs m) ! i =
      (snd (m ! i))\<lparr>tx_SearchOrder := of_nat i, tx_SmartContractResults := scrs_of_tx scrs (fst (m ! i)),
                    tx_HasSCR := (scrs_of_tx scrs (fst (m ! i)) \<noteq> [])\<rparr>"
    and "tx_grouped K hdr imbs types (fst (m ! i)) (snd (m ! i))"
proof -
  have wf: "gm_wf m" using assms(1) by (simp add: txs_ok_def)
  have "map_of m (fst (m ! i)) = Some (snd (m ! i))"
    using assms(2) wf by (simp add: gm_wf_def)
  then show gr: "tx_grouped K hdr imbs types (fst (m ! i)) (snd (m ! i))"
    using assms(1) by (simp add: txs_ok_def)
  then show "gm_values (final_normal scrs m) ! i =
      (snd (m ! i))\<lparr>tx_SearchOrder := of_nat i, tx_SmartContractResults := scrs_of_tx scrs (fst (m ! i)),
                    tx_HasSCR := (scrs_of_tx scrs (fst (m ! i)) \<noteq> [])\<rparr>"
    using assms(2) wf by (simp add: gm_values_def final_normal_nth case_prod_unfold Let_def tx_grouped_def)
qed

lemma final_normal_hashes:
  assumes "txs_ok K hdr imbs types m"
  shows "map tx_Hash (gm_values (final_normal scrs m)) = map tx_Hash (gm_values m)"
proof (rule nth_equalityI)
  have wf: "gm_wf m" using assms by (simp add: txs_ok_def)
  then show "length (map tx_Hash (gm_values (final_normal scrs m))) = length (map tx_Hash (gm_values m))"
    by (simp add: gm_values_def)
  fix i
  assume "i < length (map tx_Hash (gm_values (final_normal scrs m)))"
  then have i: "i < length m" using wf by (simp add: gm_values_def)
  with final_normal_values_nth(1) [OF assms i, of scrs] wf
  show "map tx_Hash (gm_values (final_normal scrs m)) ! i = map tx_Hash (gm_values m) ! i"
    by (simp add: gm_values_def)
qed

lemma final_normal_origin:
  assumes "txs_ok K hdr imbs types m" and "tx \<in> set (gm_values (final_normal scrs m))"
  shows "\<exists>h. tx_origin K hdr imbs types h tx \<and> tx_HasSCR tx = (scrs_of_tx scrs h \<noteq> [])"
proof -
  have "length (gm_values (final_normal scrs m)) = length m"
    using assms(1) by (simp add: txs_ok_def gm_values_def)
  with assms(2) obtain i where i: "i < length m" "tx = gm_values (final_normal scrs m) ! i"
    by (auto simp: in_set_conv_nth)
  from final_normal_values_nth(1) [OF assms(1) i(1), of scrs] final_normal_values_nth(2) [OF assms(1) i(1)] i(2)
  show ?thesis
    by (intro exI [of _ "fst (m ! i)"]) (auto simp: tx_grouped_def tx_origin_def)
qed

lemma scrs_of_hashes_original:
  assumes "scrs_of_hashes L bc mbh hdr mb n hs m = (out, m')" and "scr \<in> set out"
  shows "\<exists>h. scr_OriginalTxHash scr = hex_encode h"
  using assms
proof (induction hs arbitrary: m out m')
  case (Cons h hs)
  obtain o1 m1 where "scrs_of_hashes L bc mbh hdr mb n hs (gm_delete (hex_encode h) m) = (o1, m1)" by force
  with Cons show ?case by (auto simp: Let_def split: option.splits)
qed simp

lemma scrs_of_miniblocks_original:
  assumes "scrs_of_miniblocks L bc hdr n mbs m = (out, m')" and "scr \<in> set out"
  shows "\<exists>h. scr_OriginalTxHash scr = hex_encode h"
  using assms
proof (induction mbs arbitrary: m out m')
  case (Cons mb mbs)
  obtain o1 m1 where one: "processSCRsFromMiniblock L bc hdr mb m n = (o1, m1)" by force
  obtain o2 m2 where rest: "scrs_of_miniblocks L bc hdr n mbs m1 = (o2, m2)" by force
  have "\<exists>h. scr_OriginalTxHash scr = hex_encode h" if "scr \<in> set o1"
    using that one scrs_of_hashes_original
    by (fastforce simp: processSCRsFromMiniblock_def split: sum.splits)
  with Cons one rest show ?case by (auto simp: Let_def split: if_splits)
qed simp

lemma processSCRs_original:
  assumes "scr \<in> set (processSCRs L bc mbs hdr scrs n)"
  shows "\<exists>h. scr_OriginalTxHash scr = hex_encode h"
proof -
  obtain out m where run: "scrs_of_miniblocks L bc hdr n mbs scrs = (out, m)" by force
  with assms scrs_of_miniblocks_original [OF run] show ?thesis
    by (auto simp: processSCRs_def Let_def)
qed

lemma scrs_of_tx_nonempty:
  assumes "\<And>scr. scr \<in> set scrs \<Longrightarrow> \<exists>h. scr_OriginalTxHash scr = hex_encode h"
  shows "scrs_of_tx scrs h \<noteq> [] \<longleftrightarrow> (\<exists>scr \<in> set scrs. scr_OriginalTxHash scr = hex_encode h)"
  using assms by (fastforce simp: scrs_of_tx_def filter_empty_conv)

definition refund_of :: "ScResult \<Rightarrow> FeeData \<Rightarrow> bool" where
  "refund_of scr fd \<longleftrightarrow> fd_GasUsed fd = scr_InitialTxGasUsed scr \<and> fd_GasRefunded fd = scr_GasRefunded scr \<and>
     fd_Fee fd = scr_InitialTxFee scr \<and> fd_Receiver fd = scr_Receiver scr \<and>
     (scr_InitialTxGasUsed scr \<noteq> 0 \<or> scr_GasRefunded scr \<noteq> 0)"

lemma processSCRsWithoutTx_lookup:
  "map_of (processSCRsWithoutTx L bc scrs) h = Some fd \<Longrightarrow>
     \<exists>scr \<in> set scrs. scr_OriginalTxHash scr = h \<and> refund_of scr fd"
proof (induction scrs rule: rev_induct)
  case (snoc scr scrs)
  then show ?case
    by (auto simp: processSCRsWithoutTx_def refund_of_def split: if_splits)
qed (simp add: processSCRsWithoutTx_def)

lemma unattached_scr:
  assumes "gm_wf m" and "scr \<in> set (fst (attachSCRs scrs (setTransactionSearchOrder m)))"
  shows "scr \<in> set scrs \<and> (\<exists>h. hex_decode (scr_OriginalTxHash scr) = Some h \<and> h \<notin> fst ` set m)"
proof -
  have "fst ` set (setTransactionSearchOrder m) = fst ` set m"
    by (metis search_order_keys set_map)
  with assms show ?thesis by (auto simp: attachSCRs_spec map_of_eq_None_iff)
qed

lemma txs_ok_hashes: "txs_ok K hdr imbs types m \<Longrightarrow> tx_Hash ` set (gm_values m) = hex_encode ` fst ` set m"
  by (force simp: txs_ok_def gm_values_def tx_grouped_def tx_origin_def gm_wf_map_of_iff [symmetric] image_iff)

section \<open>Properties\<close>

text \<open>
  C14. Every smart contract result of the pool becomes exactly one document: the hashes of the documents
  are, as a multiset, the keys of the pool, whatever the miniblocks list, repeat or lack.
\<close>

theorem processSCRs_complete:
  assumes "gm_wf scrs"
  shows "mset (map scr_Hash (processSCRs L bc mbs hdr scrs n)) = mset (gm_keys scrs)"
proof -
  obtain out m where run: "scrs_of_miniblocks L bc hdr n mbs scrs = (out, m)" by force
  have "map scr_Hash (map (\<lambda>(h, i). prepareSmartContractResult L bc h [] i hdr (h_ShardID hdr) (h_ShardID hdr) n) m) =
      map fst m" by auto
  then have "map scr_Hash (processSCRs L bc mbs hdr scrs n) = map scr_Hash out @ map fst m"
    by (simp only: processSCRs_def run Let_def prod.case map_append)
  with scrs_of_miniblocks_mset [OF run assms] show ?thesis by (simp add: gm_keys_def)
qed


text \<open>
  C16. A normal transaction of the block (these are the first \<open>k\<close> documents) is marked as having results
  exactly when some result of the block names it as its original transaction; fee data go only to
  original transactions that are not among the normal transactions of the block, with the values of a
  result that refunds gas or carries the gas of the initial transaction.
\<close>

theorem prepared_scrs_attached:
  assumes "known_extractor ext"
    and "res = PrepareTransactionsForDatabase L K bc rs ext mbs (Some hdr) (Some pool) imp n"
    and "k = length (fst (group_miniblocks L K bc rs ext hdr pool imp n mbs))"
  shows "(\<forall>tx \<in> set (take k (pr_Transactions res)).
      tx_HasSCR tx \<longleftrightarrow> (\<exists>scr \<in> set (pr_ScResults res). scr_OriginalTxHash scr = tx_Hash tx)) \<and>
    (\<forall>h fd. map_of (pr_TxHashFee res) h = Some fd \<longrightarrow>
      h \<notin> tx_Hash ` set (take k (pr_Transactions res)) \<and>
      (\<exists>scr \<in> set (pr_ScResults res). scr_OriginalTxHash scr = h \<and> refund_of scr fd))"
proof -
  let ?m = "fst (group_miniblocks L K bc rs ext hdr pool imp n mbs)"
  let ?scrs = "processSCRs L bc mbs hdr (tp_SmartContractResults pool) n"
  note ok = grouped_ok(1) [OF assms(1), of K hdr mbs L bc rs pool imp n]
  then have wf: "gm_wf ?m" by (simp add: txs_ok_def)
  then have normal: "take k (pr_Transactions res) = gm_values (final_normal ?scrs ?m)"
    using length_final_normal [OF wf, of ?scrs] by (simp add: assms(2,3) prepared_results(1) gm_values_def)
  have scrs: "pr_ScResults res = ?scrs" by (simp add: assms(2) prepared_results(2))
  have hashes: "tx_Hash ` set (take k (pr_Transactions res)) = hex_encode ` fst ` set ?m"
    using arg_cong [OF final_normal_hashes [OF ok, of ?scrs], of set] txs_ok_hashes [OF ok] by (simp add: normal)
  have "tx_HasSCR tx \<longleftrightarrow> (\<exists>scr \<in> set ?scrs. scr_OriginalTxHash scr = tx_Hash tx)"
    if "tx \<in> set (gm_values (final_normal ?scrs ?m))" for tx
    using final_normal_origin [OF ok that] scrs_of_tx_nonempty [OF processSCRs_original]
    by (auto simp: tx_origin_def)
  moreover have "h \<notin> hex_encode ` fst ` set ?m \<and> (\<exists>scr \<in> set ?scrs. scr_OriginalTxHash scr = h \<and> refund_of scr fd)"
    if fee: "map_of (pr_TxHashFee res) h = Some fd" for h fd
  proof -
    from processSCRsWithoutTx_lookup [OF fee [unfolded assms(2) prepared_results(3)]] obtain scr where scr: "scr \<in> set (fst (attachSCRs ?scrs (setTransactionSearchOrder ?m)))"
      "scr_OriginalTxHash scr = h" "refund_of scr fd"
      by blast
    with unattached_scr [OF wf scr(1)] show ?thesis by force
  qed
  ultimately show ?thesis unfolding normal scrs hashes [unfolded normal] by blast
qed

text \<open>
  C17. Reverting a block asks for the removal of every transaction its indexing produced, except those
  of cross-shard miniblocks at their source (which the destination shard shares) and those of reward or
  invalid miniblocks whose header says the miniblock was already processed.
\<close>

theorem removal_covers_prepared:
  assumes "known_extractor ext" and "h_MiniBlockHeadersHashes hdr \<noteq> []"
    and "tx \<in> set (pr_Transactions (PrepareTransactionsForDatabase L K bc rs ext mbs (Some hdr) (Some pool) imp n))"
  shows "tx_Hash tx \<in> set (fst (GetHexEncodedHashesForRemove (Some hdr) (Some mbs))) \<or>
    (\<exists>i mb. (i, mb) \<in> set (enumerate 0 mbs) \<and> tx_Hash tx \<in> set (getTxsHashesFromMiniblockHexEncoded mb) \<and>
       (isCrossShardAtSourceNormalTx (h_ShardID hdr) mb \<or>
        m_Type mb \<noteq> TxBlock \<and> shouldIgnoreProcessedMBScheduled hdr i))"
proof -
  have removed: "hex_encode h \<in> set (fst (hashes_for_remove hdr imbs))"
    if "(i, mb) \<in> set imbs" "h \<in> set (m_TxHashes mb)" "\<not> shouldIgnoreProcessedMBScheduled hdr i"
      "\<not> isCrossShardAtSourceNormalTx (h_ShardID hdr) mb" "m_Type mb \<noteq> SmartContractResultBlock" for i mb h imbs
    using that
    by (induction hdr imbs rule: hashes_for_remove.induct)
      (auto simp: Let_def getTxsHashesFromMiniblockHexEncoded_def split: prod.splits)
  let ?types = "{TxBlock, InvalidBlock, RewardsBlock}"
  let ?m = "group_miniblocks L K bc rs ext hdr pool imp n mbs"
  note ok = grouped_ok [OF assms(1), of K hdr mbs L bc rs pool imp n]
  from assms(3) consider
    "tx \<in> set (gm_values (final_normal (processSCRs L bc mbs hdr (tp_SmartContractResults pool) n) (fst ?m)))"
    | "tx \<in> set (gm_values (snd ?m))"
    unfolding prepared_results(1) by auto
  then have "\<exists>h. tx_origin K hdr (enumerate 0 mbs) ?types h tx"
  proof cases
    case 1
    from final_normal_origin [OF ok(1) this] show ?thesis by (auto elim!: tx_origin_mono)
  next
    case 2
    from txs_ok_values(2) [OF ok(2) this] show ?thesis unfolding tx_grouped_def by (auto elim!: tx_origin_mono)
  qed
  then obtain h i mb where "tx_Hash tx = hex_encode h" "(i, mb) \<in> set (enumerate 0 mbs)" "m_Type mb \<in> ?types"
    "h \<in> set (m_TxHashes mb)" "m_Type mb = TxBlock \<longrightarrow> \<not> shouldIgnoreProcessedMBScheduled hdr i"
    by (auto simp: tx_origin_def)
  then show ?thesis
  proof (cases "shouldIgnoreProcessedMBScheduled hdr i \<or> isCrossShardAtSourceNormalTx (h_ShardID hdr) mb")
    case True
    with \<open>(i, mb) \<in> set (enumerate 0 mbs)\<close> \<open>h \<in> set (m_TxHashes mb)\<close> \<open>tx_Hash tx = hex_encode h\<close>
      \<open>m_Type mb = TxBlock \<longrightarrow> \<not> shouldIgnoreProcessedMBScheduled hdr i\<close>
    show ?thesis by (auto simp: getTxsHashesFromMiniblockHexEncoded_def)
  next
    case False
    with removed [of i mb "enumerate 0 mbs" h] assms(2) \<open>(i, mb) \<in> set (enumerate 0 mbs)\<close>
      \<open>h \<in> set (m_TxHashes mb)\<close> \<open>tx_Hash tx = hex_encode h\<close> \<open>m_Type mb \<in> ?types\<close>
    show ?thesis by (auto simp: GetHexEncodedHashesForRemove_def)
  qed
qed

lemma filter_enumerate_range:
  "map snd (filter (\<lambda>(i, _). a \<le> i \<and> i \<le> b) (enumerate n xs)) = drop (a - n) (take (Suc b - n) xs)"
proof (induction xs arbitrary: n)
  case (Cons x xs)
  show ?case
  proof (cases "n \<le> b")
    case True
    then have "Suc b - n = Suc (Suc b - Suc n)" by simp
    moreover have "a - n = Suc (a - Suc n)" if "\<not> a \<le> n" using that by simp
    ultimately show ?thesis using Cons.IH [of "Suc n"] True by (cases "a \<le> n") auto
  next
    case False
    with Cons.IH [of "Suc n"] show ?thesis by simp
  qed
qed simp

text \<open>
  For a miniblock with a header and fewer than \<open>2 ^ 31\<close> transactions, the executed hashes are the
  consecutive hashes from the first to the last processed index, both included.
\<close>

theorem ExtractExecutedTxHashes_range:
  assumes "i < length (h_MiniBlockHeaders hdr)" and "length hs \<le> 2 ^ 31"
    and "mh_IndexOfFirstTxProcessed (h_MiniBlockHeaders hdr ! i) = int a"
    and "mh_IndexOfLastTxProcessed (h_MiniBlockHeaders hdr ! i) = int b"
  shows "ExtractExecutedTxHashes i hs hdr = drop a (take (Suc b) hs)"
proof -
  have "signed_take_bit 31 (int j) = int j" if "j < length hs" for j
    using that assms(2) by (intro signed_take_bit_int_eq_self) auto
  then have "filter (\<lambda>(txIndex, _). \<not> (signed_take_bit 31 (int txIndex) < int a \<or> signed_take_bit 31 (int txIndex) > int b))
        (enumerate 0 hs) = filter (\<lambda>(txIndex, _). a \<le> txIndex \<and> txIndex \<le> b) (enumerate 0 hs)"
    by (intro filter_cong) (auto simp: in_set_enumerate_eq)
  with filter_enumerate_range [of a b 0 hs] assms(1,3,4) show ?thesis
    by (simp add: ExtractExecutedTxHashes_def Let_def)
qed

section \<open>Witnesses\<close>

definition demo_mb :: "block_type \<Rightarrow> bytes list \<Rightarrow> MiniBlock" where
  "demo_mb t hs = \<lparr>m_TxHashes = hs, m_ReceiverShardID = 0, m_SenderShardID = 0, m_Type = t, m_Reserved = []\<rparr>"

definition demo_mbh :: MiniBlockHeader where
  "demo_mbh = \<lparr>mh_Type = TxBlock, mh_SenderShardID = 0, mh_ReceiverShardID = 0, mh_TxCount = 3,
     mh_ProcessingType = Normal, mh_ConstructionState = Final, mh_IndexOfFirstTxProcessed = 1,
     mh_IndexOfLastTxProcessed = 2\<rparr>"

definition demo_header :: Header where
  "demo_header = \<lparr>h_ShardID = 0, h_Nonce = 5, h_Round = 6, h_Epoch = 1, h_TimeStamp = 7, h_TxCount = 3,
     h_MiniBlockHeaders = [demo_mbh], h_MiniBlockHeadersHashes = [''x''], h_IsMetaBlock = False\<rparr>"

definition demo_reward :: RewardInfo where
  "demo_reward = \<lparr>rwi_Reward = \<lparr>rw_Round = 1, rw_Value = 5, rw_RcvAddr = ''r''\<rparr>, rwi_ExecutionOrder = 0\<rparr>"

definition demo_pool :: TransactionPool where
  "demo_pool = \<lparr>tp_Transactions = [], tp_SmartContractResults = [], tp_Rewards = [(hex_encode ''b'', demo_reward)],
     tp_InvalidTxs = [], tp_Receipts = [], tp_Logs = []\<rparr>"

definition demo_converter :: balanceConverter where
  "demo_converter = \<lparr>dividerForDenomination = Fin 1, balancePrecision = 1, balancePrecisionESDT = 1\<rparr>"

abbreviation demo_prepared :: PreparedResults where
  "demo_prepared \<equiv> PrepareTransactionsForDatabase demo_lib demo_consts demo_converter ''4294967295''
     ExtractExecutedTxHashes [demo_mb RewardsBlock [''a'', ''b'', ''c'']] (Some demo_header) (Some demo_pool) False 2"

lemma demo_extractor: "known_extractor ExtractExecutedTxHashes"
  by (simp add: known_extractor_def)

definition demo_reward_doc :: Transaction where
  "demo_reward_doc = prepareRewardTransaction demo_lib demo_converter ''4294967295'' demo_reward ''b'' ''mb''
     (demo_mb RewardsBlock [''a'', ''b'', ''c'']) demo_header ''success''"

lemma demo_executed: "ExtractExecutedTxHashes 0 [''a'', ''b'', ''c''] demo_header = [''b'', ''c'']"
  by (simp add: ExtractExecutedTxHashes_def demo_header_def demo_mbh_def signed_take_bit_int_eq_self Let_def)

lemma demo_groups:
  "group_miniblocks demo_lib demo_consts demo_converter ''4294967295'' ExtractExecutedTxHashes demo_header
     demo_pool False 2 [demo_mb RewardsBlock [''a'', ''b'', ''c'']] = ([], [(''b'', demo_reward_doc)])"
proof -
  have "mb_hash demo_lib mb = Inr ''mb''" for mb by (simp add: mb_hash_def demo_lib_def)
  moreover have "computeStatus demo_consts 0 0 = ''success''" by (simp add: computeStatus_def demo_consts_def)
  moreover have "m_Type (demo_mb t hs) = t" "m_TxHashes (demo_mb t hs) = hs" "m_ReceiverShardID (demo_mb t hs) = 0"
    "h_ShardID demo_header = 0" for t hs by (simp_all add: demo_mb_def demo_header_def)
  ultimately show ?thesis
    by (simp add: group_miniblocks_def group_miniblock_def groupRewardsTxs_def Let_def demo_executed
        group_hashes_def prepareRewardTxForDB_def demo_pool_def shouldIndex_def mergeTxsMaps_def gm_set_def
        demo_reward_doc_def del: hex_encode_Cons)
qed

lemma demo_prepared_txs: "pr_Transactions demo_prepared = [demo_reward_doc]"
  by (simp add: prepared_results(1) demo_groups gm_values_def final_normal_def attachSCRs_spec
      processTransactionsAfterSCRsWereAttached_def setTransactionSearchOrder_def)

definition demo_scr :: SCRInfo where
  "demo_scr = \<lparr>sci_SmartContractResult = \<lparr>cs_Nonce = 1, cs_Value = 0, cs_RcvAddr = ''r'', cs_SndAddr = ''s'',
     cs_RelayerAddr = [], cs_RelayedValue = None, cs_Code = [], cs_Data = [], cs_PrevTxHash = ''p'',
     cs_OriginalTxHash = ''o'', cs_GasLimit = 0, cs_GasPrice = 0, cs_CallType = 0, cs_CodeMetadata = [],
     cs_ReturnMessage = [], cs_OriginalSender = None\<rparr>, sci_FeeInfo = None, sci_ExecutionOrder = 0\<rparr>"

theorem processSCRs_complete_witness:
  "mset (map scr_Hash (processSCRs demo_lib demo_converter [demo_mb SmartContractResultBlock [''a'', ''a'']] demo_header
     [(''61'', demo_scr), (''62'', demo_scr)] 2)) = {#''61'', ''62''#}"
  using processSCRs_complete [of "[(''61'', demo_scr), (''62'', demo_scr)]"]
  by (simp add: gm_wf_def gm_keys_def)


definition demo_refund :: SCRInfo where
  "demo_refund = demo_scr\<lparr>sci_FeeInfo := Some \<lparr>fi_GasUsed = 9, fi_Fee = 4, fi_InitialPaidFee = 5, fi_GasRefunded = 3,
     fi_HadRefund = True\<rparr>\<rparr>"

theorem prepared_scrs_attached_witness:
  "\<exists>fd scr. map_of (pr_TxHashFee (PrepareTransactionsForDatabase demo_lib demo_consts demo_converter ''4294967295''
       ExtractExecutedTxHashes [] (Some demo_header) (Some (demo_pool\<lparr>tp_SmartContractResults := [(''62'', demo_refund)]\<rparr>))
       False 2)) (hex_encode ''o'') = Some fd \<and> scr_OriginalTxHash scr = hex_encode ''o'' \<and> refund_of scr fd"
proof -
  let ?pool = "demo_pool\<lparr>tp_SmartContractResults := [(''62'', demo_refund)]\<rparr>"
  let ?scr = "prepareSmartContractResult demo_lib demo_converter ''62'' [] demo_refund demo_header 0 0 2"
  have orig: "cs_OriginalTxHash (sci_SmartContractResult demo_refund) = ''o''"
    by (simp add: demo_refund_def demo_scr_def)
  have "scr_GasRefunded ?scr = 3"
    by (simp add: prepareSmartContractResult_def demo_refund_def demo_scr_def getFeeInfo_def Let_def)
  moreover have "group_miniblocks demo_lib demo_consts demo_converter ''4294967295'' ExtractExecutedTxHashes demo_header
      ?pool False 2 [] = ([], [])" by (simp add: group_miniblocks_def)
  moreover have "processSCRs demo_lib demo_converter [] demo_header [(''62'', demo_refund)] 2 = [?scr]"
    by (simp add: processSCRs_def demo_header_def)
  ultimately obtain fd where "map_of (pr_TxHashFee (PrepareTransactionsForDatabase demo_lib demo_consts demo_converter
      ''4294967295'' ExtractExecutedTxHashes [] (Some demo_header) (Some ?pool) False 2)) (hex_encode ''o'') = Some fd"
    by (simp add: prepared_results(3) orig setTransactionSearchOrder_def processSCRsWithoutTx_def del: hex_encode_Cons)
  with prepared_scrs_attached [OF demo_extractor refl refl, of demo_lib demo_consts demo_converter "''4294967295''"
      demo_header ?pool False 2 "[]"] show ?thesis by blast
qed

theorem removal_covers_prepared_witness:
  "''62'' \<in> set (fst (GetHexEncodedHashesForRemove (Some demo_header) (Some [demo_mb RewardsBlock [''a'', ''b'', ''c'']])))"
proof -
  have hash: "tx_Hash demo_reward_doc = ''62''"
    by (simp add: demo_reward_doc_def) code_simp
  have "\<not> isCrossShardAtSourceNormalTx 0 (demo_mb RewardsBlock hs)" "\<not> shouldIgnoreProcessedMBScheduled demo_header 0"
    for hs by (simp_all add: isCrossShardAtSourceNormalTx_def demo_mb_def shouldIgnoreProcessedMBScheduled_def
      demo_header_def demo_mbh_def)
  then show ?thesis
    using removal_covers_prepared [OF demo_extractor, of demo_header demo_reward_doc demo_lib demo_consts demo_converter
        "''4294967295''" "[demo_mb RewardsBlock [''a'', ''b'', ''c'']]" demo_pool False 2]
    unfolding demo_prepared_txs by (auto simp: hash demo_header_def)
qed

theorem ExtractExecutedTxHashes_range_witness:
  "ExtractExecutedTxHashes 0 [''a'', ''b'', ''c''] demo_header = drop 1 (take (Suc 2) [''a'', ''b'', ''c''])"
  by (rule ExtractExecutedTxHashes_range) (simp_all add: demo_header_def demo_mbh_def)

end
