(* ===== verification/Accounts.thy ===== *)
theory Accounts
  imports Tokens_Info Tags_Count
begin

text \<open>
  \<^verbatim>\<open>process/elasticproc/accounts/accountsProcessor.go\<close>: the regular accounts and the accounts with ESDT
  tokens of a block, their documents keyed by address or by address, token and nonce, the history
  documents, and the completion of token documents with the metadata of altered accounts.
\<close>

section \<open>Model\<close>

record Account =
  ac_UserAccount :: AlteredAccount
  ac_IsSender :: bool

record AccountESDT =
  ae_Account :: AlteredAccount
  ae_TokenIdentifier :: string
  ae_NFTNonce :: u64
  ae_IsSender :: bool
  ae_IsNFTOperation :: bool
  ae_IsNFTCreate :: bool

definition NewAccountsProcessor :: "bool \<Rightarrow> bool \<Rightarrow> unit result" where
  "NewAccountsProcessor has_pubkeyConverter has_balanceConverter =
     (if \<not> has_pubkeyConverter then Inl ErrNilPubkeyConverter
      else if \<not> has_balanceConverter then Inl ErrNilBalanceConverter else Inr ())"

definition notZeroBalance :: "string \<Rightarrow> bool" where
  "notZeroBalance balance \<longleftrightarrow> length balance > 0 \<and> balance \<noteq> ''0''"

definition splitAlteredAccounts :: "AlteredAccount \<Rightarrow> Account list \<times> AccountESDT list" where
  "splitAlteredAccounts account =
     (let (isSender, balanceChanged) =
            (case aa_AdditionalData account of
               None \<Rightarrow> (False, False)
             | Some d \<Rightarrow> (aad_IsSender d, aad_BalanceChanged d));
          ignoreAddress = (\<not> balanceChanged \<and> notZeroBalance (aa_Balance account) \<and> \<not> isSender) in
      (if ignoreAddress then [] else [\<lparr>ac_UserAccount = account, ac_IsSender = isSender\<rparr>],
       map (\<lambda>info. \<lparr>ae_Account = account, ae_TokenIdentifier = atd_Identifier info, ae_NFTNonce = atd_Nonce info,
                    ae_IsSender = isSender, ae_IsNFTOperation = False,
                    ae_IsNFTCreate = (case atd_IsNFTCreate info of None \<Rightarrow> False | Some b \<Rightarrow> b)\<rparr>)
         (aa_Tokens account)))"

definition GetAccounts :: "(string, AlteredAccount) gomap \<Rightarrow> Account list \<times> AccountESDT list" where
  "GetAccounts coreAlteredAccounts =
     (let parts = map splitAlteredAccounts (gm_values coreAlteredAccounts) in
      (concat (map fst parts), concat (map snd parts)))"

definition addDeveloperRewardsInAccount ::
    "core_lib \<Rightarrow> balanceConverter \<Rightarrow> AdditionalAccountData \<Rightarrow> AccountInfo \<Rightarrow> AccountInfo" where
  "addDeveloperRewardsInAccount L bc additionalData account =
     (if aad_DeveloperRewards additionalData = [] then account
      else case set_string10 (aad_DeveloperRewards additionalData) of
        None \<Rightarrow> account
      | Some rewards \<Rightarrow> account
          \<lparr>ai_DeveloperRewards := aad_DeveloperRewards additionalData,
           ai_DeveloperRewardsNum := num_or_zero (ComputeBalanceAsFloat L bc (Some rewards))\<rparr>)"

definition addAdditionalDataInAccount ::
    "core_lib \<Rightarrow> balanceConverter \<Rightarrow> AdditionalAccountData option \<Rightarrow> AccountInfo \<Rightarrow> AccountInfo" where
  "addAdditionalDataInAccount L bc additionalData account =
     (case additionalData of
        None \<Rightarrow> account
      | Some d \<Rightarrow> addDeveloperRewardsInAccount L bc d
          (account\<lparr>ai_UserName := aad_UserName d, ai_CurrentOwner := aad_CurrentOwner d,
                   ai_RootHash := aad_RootHash d, ai_CodeHash := aad_CodeHash d,
                   ai_CodeMetadata := aad_CodeMetadata d\<rparr>))"

definition regular_account ::
    "core_lib \<Rightarrow> balanceConverter \<Rightarrow> u64 \<Rightarrow> u32 \<Rightarrow> Account \<Rightarrow> AccountInfo option" where
  "regular_account L bc ts shardID userAccount =
     (let acc = ac_UserAccount userAccount; address = aa_Address acc in
      case Decode L address of
        None \<Rightarrow> None
      | Some addressBytes \<Rightarrow> (case set_string10 (aa_Balance acc) of
            None \<Rightarrow> None
          | Some balance \<Rightarrow> Some (addAdditionalDataInAccount L bc (aa_AdditionalData acc)
              (zeroAccountInfo
                \<lparr>ai_Address := address, ai_Nonce := aa_Nonce acc, ai_Balance := BigIntToString (Some balance),
                 ai_BalanceNum := num_or_zero (ComputeBalanceAsFloat L bc (Some balance)),
                 ai_IsSender := ac_IsSender userAccount,
                 ai_IsSmartContract := IsSmartContractAddress L addressBytes,
                 ai_Timestamp := ts, ai_ShardID := shardID\<rparr>))))"

definition PrepareRegularAccountsMap ::
    "core_lib \<Rightarrow> balanceConverter \<Rightarrow> u64 \<Rightarrow> Account list \<Rightarrow> u32 \<Rightarrow> (string, AccountInfo) gomap" where
  "PrepareRegularAccountsMap L bc ts accounts shardID =
     fold (\<lambda>userAccount m. case regular_account L bc ts shardID userAccount of
         None \<Rightarrow> m
       | Some acc \<Rightarrow> gm_set (aa_Address (ac_UserAccount userAccount)) acc m) accounts []"

text \<open>The token of the account that the change names: the last one in its list.\<close>

definition emptyTokenData :: AccountTokenData where
  "emptyTokenData = \<lparr>atd_Nonce = 0, atd_Identifier = [], atd_Balance = [], atd_Properties = [],
     atd_MetaData = None, atd_IsNFTCreate = None\<rparr>"

definition getESDTInfo ::
    "core_lib \<Rightarrow> AccountESDT \<Rightarrow> int \<times> string \<times> TokenMetaData option" where
  "getESDTInfo L accountESDT =
     (if ae_TokenIdentifier accountESDT = [] then (0, [], None)
      else if ae_IsNFTOperation accountESDT \<and> ae_NFTNonce accountESDT = 0 then (0, [], None)
      else let accountTokenData = fold (\<lambda>tokenData cur.
                 if atd_Identifier tokenData = ae_TokenIdentifier accountESDT \<and>
                    atd_Nonce tokenData = ae_NFTNonce accountESDT then tokenData else cur)
                 (aa_Tokens (ae_Account accountESDT)) emptyTokenData in
        case set_string10 (atd_Balance accountTokenData) of
          None \<Rightarrow> (0, [], None)
        | Some value \<Rightarrow> (value, atd_Properties accountTokenData,
            PrepareTokenMetaData L (atd_MetaData accountTokenData)))"

definition isFrozen :: "string \<Rightarrow> bool" where
  "isFrozen properties =
     (case hex_decode properties of
        None \<Rightarrow> False
      | Some [] \<Rightarrow> False
      | Some (b # _) \<Rightarrow> odd (of_char b :: nat))"

definition esdt_key :: "string \<Rightarrow> string \<Rightarrow> u64 \<Rightarrow> string" where
  "esdt_key address token nonce = address @ ''-'' @ token @ ''-'' @ dec_nat (unat nonce)"

definition esdt_account ::
    "core_lib \<Rightarrow> core_consts \<Rightarrow> balanceConverter \<Rightarrow> u64 \<Rightarrow> u32 \<Rightarrow> AccountESDT \<Rightarrow> bytes \<Rightarrow> AccountInfo" where
  "esdt_account L K bc ts shardID accountESDT addressBytes =
     (let (balance, properties, tokenMetaData) = getESDTInfo L accountESDT;
          tokenIdentifier = ComputeTokenIdentifier (ae_TokenIdentifier accountESDT) (ae_NFTNonce accountESDT) in
      zeroAccountInfo
        \<lparr>ai_Address := aa_Address (ae_Account accountESDT), ai_TokenName := ae_TokenIdentifier accountESDT,
         ai_TokenIdentifier := tokenIdentifier, ai_TokenNonce := ae_NFTNonce accountESDT,
         ai_Balance := dec_int balance,
         ai_BalanceNum := num_or_zero (ConvertBigValueToFloat L bc (Some balance)),
         ai_Properties := properties, ai_Frozen := isFrozen properties,
         ai_IsSender := ae_IsSender accountESDT,
         ai_IsSmartContract := IsSmartContractAddress L addressBytes,
         ai_Data := tokenMetaData, ai_Timestamp := ts, ai_ShardID := shardID,
         ai_Type := (if ae_NFTNonce accountESDT = 0 then k_FungibleESDT K else [])\<rparr>)"

text \<open>The state of the loop: the map of accounts, the tokens with a balance and the tag counts.\<close>

definition esdt_step ::
    "core_lib \<Rightarrow> core_consts \<Rightarrow> balanceConverter \<Rightarrow> u64 \<Rightarrow> u32 \<Rightarrow> AccountESDT
     \<Rightarrow> (string, AccountInfo) gomap \<times> tokensInfo \<times> tagsCount
     \<Rightarrow> (string, AccountInfo) gomap \<times> tokensInfo \<times> tagsCount" where
  "esdt_step L K bc ts shardID accountESDT st =
     (case Decode L (aa_Address (ae_Account accountESDT)) of
        None \<Rightarrow> st
      | Some addressBytes \<Rightarrow>
          let (accountsESDTMap, tokensData, tagsCount) = st;
              acc = esdt_account L K bc ts shardID accountESDT addressBytes;
              tags1 = (case ai_Data acc of
                         Some d \<Rightarrow> if ae_IsNFTCreate accountESDT then ParseTags (md_Tags d) tagsCount else tagsCount
                       | None \<Rightarrow> tagsCount);
              map1 = gm_set (esdt_key (ai_Address acc) (ai_TokenName acc) (ae_NFTNonce accountESDT)) acc accountsESDTMap in
          if ai_Balance acc = ''0'' \<or> ai_Balance acc = [] then (map1, tokensData, tags1)
          else (map1, TokensAdd (zeroTokenInfo\<lparr>ti_Token := ae_TokenIdentifier accountESDT,
                                               ti_Identifier := ai_TokenIdentifier acc\<rparr>) tokensData, tags1))"

definition PrepareAccountsMapESDT ::
    "core_lib \<Rightarrow> core_consts \<Rightarrow> balanceConverter \<Rightarrow> u64 \<Rightarrow> AccountESDT list \<Rightarrow> tagsCount \<Rightarrow> u32
     \<Rightarrow> (string, AccountInfo) gomap \<times> tokensInfo \<times> tagsCount" where
  "PrepareAccountsMapESDT L K bc ts accounts tagsCount shardID =
     fold (esdt_step L K bc ts shardID) accounts ([], NewTokensInfo, tagsCount)"

definition account_history :: "u64 \<Rightarrow> u32 \<Rightarrow> AccountInfo \<Rightarrow> AccountBalanceHistory" where
  "account_history ts shardID userAccount =
     \<lparr>abh_Address = ai_Address userAccount, abh_Timestamp = ts, abh_Balance = ai_Balance userAccount,
      abh_Token = ai_TokenName userAccount,
      abh_Identifier = ComputeTokenIdentifier (ai_TokenName userAccount) (ai_TokenNonce userAccount),
      abh_TokenNonce = ai_TokenNonce userAccount, abh_IsSender = ai_IsSender userAccount,
      abh_IsSmartContract = ai_IsSmartContract userAccount, abh_ShardID = shardID\<rparr>"

definition PrepareAccountsHistory ::
    "u64 \<Rightarrow> (string, AccountInfo) gomap \<Rightarrow> u32 \<Rightarrow> (string, AccountBalanceHistory) gomap" where
  "PrepareAccountsHistory ts accounts shardID =
     fold (\<lambda>userAccount m. let acc = account_history ts shardID userAccount in
         gm_set (esdt_key (abh_Address acc) (abh_Token acc) (abh_TokenNonce acc)) acc m)
       (gm_values accounts) []"

fun find_metadata ::
    "TokenInfo \<Rightarrow> AccountTokenData list \<Rightarrow> altered_TokenMetaData option option" where
  "find_metadata tokenData [] = None"
| "find_metadata tokenData (token # rest) =
     (if ti_Token tokenData = atd_Identifier token \<and> ti_Nonce tokenData = atd_Nonce token
      then Some (atd_MetaData token) else find_metadata tokenData rest)"

definition loadMetadataForToken ::
    "TokenInfo \<Rightarrow> (string, AlteredAccount) gomap \<Rightarrow> altered_TokenMetaData option result" where
  "loadMetadataForToken tokenData coreAlteredAccounts =
     (case find_metadata tokenData (concat (map aa_Tokens (gm_values coreAlteredAccounts))) of
        None \<Rightarrow> Inl ErrTokenNotFound
      | Some md \<Rightarrow> Inr md)"

definition PutTokenMedataDataInTokens ::
    "core_lib \<Rightarrow> TokenInfo list \<Rightarrow> (string, AlteredAccount) gomap \<Rightarrow> TokenInfo list" where
  "PutTokenMedataDataInTokens L tokensData coreAlteredAccounts =
     map (\<lambda>tokenData.
       if ti_Data tokenData \<noteq> None \<or> ti_Nonce tokenData = 0 then tokenData
       else case loadMetadataForToken tokenData coreAlteredAccounts of
         Inl _ \<Rightarrow> tokenData
       | Inr metadata \<Rightarrow> tokenData\<lparr>ti_Data := PrepareTokenMetaData L metadata\<rparr>) tokensData"

section \<open>Keys\<close>

lemma first_sep_inject:
  "a @ c # b = a' @ c # b' \<Longrightarrow> c \<notin> set a \<Longrightarrow> c \<notin> set a' \<Longrightarrow> a = a' \<and> b = b'"
proof (induction a arbitrary: a')
  case Nil
  then show ?case by (cases a') auto
next
  case (Cons x a)
  then show ?case by (cases a') auto
qed

definition plain_address :: "string \<Rightarrow> bool" where
  "plain_address a \<longleftrightarrow> CHR ''-'' \<notin> set a"

lemma esdt_key_inject:
  assumes "plain_address a" "plain_address a'"
  shows "esdt_key a t n = esdt_key a' t' n' \<longleftrightarrow> a = a' \<and> t = t' \<and> n = n'"
proof
  have nodash: "CHR ''-'' \<notin> set (dec_nat k)" for k
    by (rule dec_nat_no_char) (simp add: is_digit_char_def)
  assume "esdt_key a t n = esdt_key a' t' n'"
  then have "(a @ CHR ''-'' # t) @ CHR ''-'' # dec_nat (unat n) = (a' @ CHR ''-'' # t') @ CHR ''-'' # dec_nat (unat n')"
    by (simp add: esdt_key_def)
  from append_sep_inject [OF this nodash nodash]
  have "a @ CHR ''-'' # t = a' @ CHR ''-'' # t'" and "unat n = unat n'" by auto
  with first_sep_inject [of a "CHR ''-''" t a' t'] assms show "a = a' \<and> t = t' \<and> n = n'"
    by (auto simp: plain_address_def dest: unsigned_word_eqI)
qed simp

lemma esdt_account_fields [simp]:
  "ai_Address (esdt_account L K bc ts sh ae b) = aa_Address (ae_Account ae)"
  "ai_TokenName (esdt_account L K bc ts sh ae b) = ae_TokenIdentifier ae"
  "ai_TokenNonce (esdt_account L K bc ts sh ae b) = ae_NFTNonce ae"
  by (simp_all add: esdt_account_def case_prod_unfold Let_def)

definition names :: "string \<Rightarrow> string \<Rightarrow> u64 \<Rightarrow> AccountESDT \<Rightarrow> bool" where
  "names a t n ae \<longleftrightarrow> aa_Address (ae_Account ae) = a \<and> ae_TokenIdentifier ae = t \<and> ae_NFTNonce ae = n"

lemma fst_esdt_step:
  "fst (esdt_step L K bc ts sh ae st) =
     (case Decode L (aa_Address (ae_Account ae)) of
        None \<Rightarrow> fst st
      | Some b \<Rightarrow> gm_set (esdt_key (aa_Address (ae_Account ae)) (ae_TokenIdentifier ae) (ae_NFTNonce ae))
                  (esdt_account L K bc ts sh ae b) (fst st))"
  by (simp add: esdt_step_def case_prod_unfold Let_def split: option.split)

lemma accounts_map_lookup:
  assumes "\<forall>ae \<in> set accounts. plain_address (aa_Address (ae_Account ae))" and "plain_address a"
  shows "map_of (fst (PrepareAccountsMapESDT L K bc ts accounts tags sh)) (esdt_key a t n) =
    (case Decode L a of
       None \<Rightarrow> None
     | Some b \<Rightarrow> map_option (\<lambda>ae. esdt_account L K bc ts sh ae b) (List.find (names a t n) (rev accounts)))"
  using assms(1)
proof (induction accounts rule: rev_induct)
  case (snoc ae accounts)
  let ?prev = "PrepareAccountsMapESDT L K bc ts accounts tags sh"
  have step: "PrepareAccountsMapESDT L K bc ts (accounts @ [ae]) tags sh = esdt_step L K bc ts sh ae ?prev"
    by (simp add: PrepareAccountsMapESDT_def)
  let ?k = "esdt_key (aa_Address (ae_Account ae)) (ae_TokenIdentifier ae) (ae_NFTNonce ae)"
  have ih: "map_of (fst ?prev) (esdt_key a t n) = (case Decode L a of None \<Rightarrow> None
      | Some b \<Rightarrow> map_option (\<lambda>ae. esdt_account L K bc ts sh ae b) (List.find (names a t n) (rev accounts)))"
    using snoc by simp
  show ?case
  proof (cases "names a t n ae")
    case True
    then have "aa_Address (ae_Account ae) = a" "?k = esdt_key a t n" by (auto simp: names_def)
    with ih True show ?thesis by (auto simp: step fst_esdt_step split: option.split)
  next
    case False
    then have "esdt_key a t n \<noteq> ?k"
      using snoc.prems assms(2) by (auto simp: esdt_key_inject names_def)
    with ih False show ?thesis by (auto simp: step fst_esdt_step split: option.split)
  qed
qed (simp add: PrepareAccountsMapESDT_def split: option.split)

lemma set_gm_set_subset: "set (gm_set k v m) \<subseteq> insert (k, v) (set m)"
  by (induction m) (auto simp: gm_set_def)

lemma accounts_map_wf:
  "gm_wf (fst (PrepareAccountsMapESDT L K bc ts accounts tags sh)) \<and>
   (\<forall>(k, i) \<in> set (fst (PrepareAccountsMapESDT L K bc ts accounts tags sh)).
      k = esdt_key (ai_Address i) (ai_TokenName i) (ai_TokenNonce i))"
proof (induction accounts rule: rev_induct)
  case (snoc ae accounts)
  let ?prev = "fst (PrepareAccountsMapESDT L K bc ts accounts tags sh)"
  have step: "PrepareAccountsMapESDT L K bc ts (accounts @ [ae]) tags sh =
      esdt_step L K bc ts sh ae (PrepareAccountsMapESDT L K bc ts accounts tags sh)"
    by (simp add: PrepareAccountsMapESDT_def)
  show ?case
  proof (cases "Decode L (aa_Address (ae_Account ae))")
    case None
    with snoc show ?thesis by (simp add: step fst_esdt_step)
  next
    case (Some b)
    let ?e = "esdt_account L K bc ts sh ae b"
    let ?k = "esdt_key (aa_Address (ae_Account ae)) (ae_TokenIdentifier ae) (ae_NFTNonce ae)"
    have "set (gm_set ?k ?e ?prev) \<subseteq> insert (?k, ?e) (set ?prev)" by (rule set_gm_set_subset)
    with snoc Some show ?thesis by (auto simp: step fst_esdt_step)
  qed
qed (simp add: PrepareAccountsMapESDT_def)

lemma gm_set_fresh: "k \<notin> fst ` set m \<Longrightarrow> gm_set k v m = m @ [(k, v)]"
  by (induction m) (auto simp: gm_set_def)

lemma history_of_map:
  assumes "gm_wf m" and "\<forall>(k, i) \<in> set m. k = esdt_key (ai_Address i) (ai_TokenName i) (ai_TokenNonce i)"
  shows "PrepareAccountsHistory ts m sh = map (\<lambda>(k, i). (k, account_history ts sh i)) m"
  using assms
proof (induction m rule: rev_induct)
  case (snoc ki m)
  obtain k i where ki: "ki = (k, i)" by force
  have "PrepareAccountsHistory ts (m @ [ki]) sh = gm_set k (account_history ts sh i) (PrepareAccountsHistory ts m sh)"
    using snoc.prems ki by (simp add: PrepareAccountsHistory_def gm_values_def Let_def account_history_def)
  moreover have "k \<notin> fst ` set m" "gm_wf m" using snoc.prems ki by (auto simp: gm_wf_def)
  ultimately show ?case using snoc ki by (auto simp: gm_set_fresh image_image case_prod_unfold)
qed (simp add: PrepareAccountsHistory_def gm_values_def)

section \<open>Tokens of an account\<close>

lemma last_token:
  assumes "distinct (map (\<lambda>t. (atd_Identifier t, atd_Nonce t)) ts)" and "tok \<in> set ts"
  shows "fold (\<lambda>t cur. if atd_Identifier t = atd_Identifier tok \<and> atd_Nonce t = atd_Nonce tok then t else cur) ts d = tok"
  using assms
proof (induction ts arbitrary: d)
  case (Cons t ts)
  have keep: "fold (\<lambda>t cur. if atd_Identifier t = atd_Identifier tok \<and> atd_Nonce t = atd_Nonce tok then t else cur) ts tok = tok"
    if "t = tok" using that Cons.prems(1)
    by (induction ts) auto
  from Cons keep show ?case by (cases "t = tok") (auto simp: image_iff)
qed simp

section \<open>Properties\<close>

text \<open>
  C19. With addresses that contain no dash, the document of the ESDT accounts map at address, token and
  nonce is the one of the last change of the block for exactly this address, token and nonce, provided
  the address can be decoded; changes of other addresses, tokens or nonces never disturb it.
\<close>

theorem accounts_esdt_lookup:
  assumes "\<forall>ae \<in> set accounts. plain_address (aa_Address (ae_Account ae))" and "plain_address a"
  shows "map_of (fst (PrepareAccountsMapESDT L K bc ts accounts tags sh)) (esdt_key a t n) =
    (case Decode L a of
       None \<Rightarrow> None
     | Some b \<Rightarrow> map_option (\<lambda>ae. esdt_account L K bc ts sh ae b) (List.find (names a t n) (rev accounts)))"
  by (rule accounts_map_lookup [OF assms])

text \<open>
  The history of the ESDT accounts map has exactly one document per entry of the map, under the same
  key, with the address, balance, token and nonce of the entry.
\<close>

theorem accounts_history_one_per_entry:
  "PrepareAccountsHistory ts (fst (PrepareAccountsMapESDT L K bc ts0 accounts tags sh0)) sh =
     map (\<lambda>(k, i). (k, account_history ts sh i)) (fst (PrepareAccountsMapESDT L K bc ts0 accounts tags sh0))"
  using accounts_map_wf by (intro history_of_map) blast+


section \<open>Witnesses\<close>

definition demo_token :: AccountTokenData where
  "demo_token = \<lparr>atd_Nonce = 3, atd_Identifier = ''TKN-ab'', atd_Balance = ''5'', atd_Properties = ''0100'',
     atd_MetaData = None, atd_IsNFTCreate = None\<rparr>"

definition demo_account :: AlteredAccount where
  "demo_account = \<lparr>aa_Address = ''6162'', aa_Nonce = 1, aa_Balance = ''7'', aa_Tokens = [demo_token],
     aa_AdditionalData = None\<rparr>"

definition demo_change :: AccountESDT where
  "demo_change = \<lparr>ae_Account = demo_account, ae_TokenIdentifier = ''TKN-ab'', ae_NFTNonce = 3, ae_IsSender = False,
     ae_IsNFTOperation = False, ae_IsNFTCreate = False\<rparr>"

definition demo_balances :: balanceConverter where
  "demo_balances = \<lparr>dividerForDenomination = Fin 1, balancePrecision = 1, balancePrecisionESDT = 1\<rparr>"

theorem accounts_esdt_lookup_witness:
  "map_of (fst (PrepareAccountsMapESDT demo_lib demo_consts demo_balances 9 [demo_change] [] 0))
       (esdt_key ''6162'' ''TKN-ab'' 3) = Some (esdt_account demo_lib demo_consts demo_balances 9 0 demo_change ''ab'')"
proof -
  have "Decode demo_lib ''6162'' = Some ''ab''" by code_simp
  moreover have "names ''6162'' ''TKN-ab'' 3 demo_change" by (simp add: names_def demo_change_def demo_account_def)
  moreover have "\<forall>ae \<in> set [demo_change]. plain_address (aa_Address (ae_Account ae))" "plain_address ''6162''"
    by (simp_all add: plain_address_def demo_change_def demo_account_def)
  ultimately show ?thesis
    using accounts_esdt_lookup [of "[demo_change]" "''6162''" demo_lib demo_consts demo_balances 9 "[]" 0 "''TKN-ab''" 3]
    by simp
qed


end
