(* ===== verification/Operations.thy ===== *)
theory Operations
  imports Transactions
begin

text \<open>
  \<^verbatim>\<open>process/elasticproc/operations/operationsProcessor.go\<close>: the copies of transactions and smart contract
  results that go to the operations index.
\<close>

section \<open>Model\<close>

definition AtSeparator :: string where "AtSeparator = ''@''"
definition GasRefundForRelayerMessage :: string where
  "GasRefundForRelayerMessage = ''gas refund for relayer''"

definition operations_shouldIndex :: "u32 \<Rightarrow> bool \<Rightarrow> u32 \<Rightarrow> bool" where
  "operations_shouldIndex destinationShardID isImportDB selfShardID =
     (if \<not> isImportDB then True else selfShardID = destinationShardID)"

definition setCanBeIgnoredField :: "core_lib \<Rightarrow> core_consts \<Rightarrow> ScResult \<Rightarrow> ScResult" where
  "setCanBeIgnoredField L K scr =
     (let dataFieldStr = scr_Data scr;
          hasOkPrefix = prefix (AtSeparator @ hex_encode (k_OkCode K)) dataFieldStr;
          isRefundForRelayed = (scr_ReturnMessage scr = GasRefundForRelayerMessage \<and> dataFieldStr = []) in
      if hasOkPrefix \<or> isRefundForRelayed then scr\<lparr>scr_CanBeIgnored := True\<rparr>
      else if (scr_Operation scr = k_ESDTNFTTransfer K \<or> scr_Operation scr = k_MultiESDTNFTTransfer K) \<and>
              \<not> IsSmartContractAddress L (scr_SenderAddressBytes scr)
      then scr\<lparr>scr_CanBeIgnored := True\<rparr> else scr)"

definition operation_tx :: "core_consts \<Rightarrow> Transaction \<Rightarrow> Transaction" where
  "operation_tx K tx = tx\<lparr>tx_SmartContractResults := [], tx_Type := k_TxTypeNormal K\<rparr>"

definition operation_scr :: "core_lib \<Rightarrow> core_consts \<Rightarrow> u32 \<Rightarrow> ScResult \<Rightarrow> ScResult" where
  "operation_scr L K selfShardID scr =
     (let copied = setCanBeIgnoredField L K (scr\<lparr>scr_Type := k_TxTypeUnsigned K\<rparr>) in
      copied\<lparr>scr_Status := (if selfShardID = scr_ReceiverShard copied then k_TxStatusSuccess K
                            else k_TxStatusPending K)\<rparr>)"

definition ProcessTransactionsAndSCRs ::
    "core_lib \<Rightarrow> core_consts \<Rightarrow> Transaction list \<Rightarrow> ScResult list \<Rightarrow> bool \<Rightarrow> u32 \<Rightarrow> Transaction list \<times> ScResult list" where
  "ProcessTransactionsAndSCRs L K txs scrs isImportDB selfShardID =
     (map (operation_tx K) (filter (\<lambda>tx. operations_shouldIndex (tx_ReceiverShard tx) isImportDB selfShardID) txs),
      map (operation_scr L K selfShardID)
        (filter (\<lambda>scr. operations_shouldIndex (scr_ReceiverShard scr) isImportDB selfShardID) scrs))"

section \<open>Properties\<close>

lemma setCanBeIgnored_frame [frame_simps, simp]:
  "scr_Hash (setCanBeIgnoredField L K scr) = scr_Hash scr"
  "scr_ReceiverShard (setCanBeIgnoredField L K scr) = scr_ReceiverShard scr"
  "scr_Type (setCanBeIgnoredField L K scr) = scr_Type scr"
  "scr_Data (setCanBeIgnoredField L K scr) = scr_Data scr"
  by (simp_all add: setCanBeIgnoredField_def Let_def)

lemma operation_scr_fields [simp]:
  "scr_Hash (operation_scr L K s scr) = scr_Hash scr"
  "scr_Type (operation_scr L K s scr) = k_TxTypeUnsigned K"
  "scr_ReceiverShard (operation_scr L K s scr) = scr_ReceiverShard scr"
  "scr_Status (operation_scr L K s scr) = (if s = scr_ReceiverShard scr then k_TxStatusSuccess K else k_TxStatusPending K)"
  by (simp_all add: operation_scr_def Let_def)


end
