(* ===== verification/Miniblocks.thy ===== *)
theory Miniblocks
  imports Transactions
begin

text \<open>
  \<^verbatim>\<open>process/elasticproc/miniblocks/miniblocksProcessor.go\<close>.  The names of block and processing types
  (\<^verbatim>\<open>Type.String\<close>, \<^verbatim>\<open>ProcessingType.String\<close> of the core library) are the arguments \<open>tn\<close> and \<open>pn\<close>.
\<close>

section \<open>Model\<close>

definition NewMiniblocksProcessor :: "bool \<Rightarrow> bool \<Rightarrow> unit result" where
  "NewMiniblocksProcessor has_hasher has_marshalizer =
     (if \<not> has_marshalizer then Inl ErrNilMarshalizer
      else if \<not> has_hasher then Inl ErrNilHasher else Inr ())"

definition computeProcessingTypeAndConstructionState ::
    "(processing_type \<Rightarrow> string) \<Rightarrow> nat \<Rightarrow> Header \<Rightarrow> string \<times> construction_state" where
  "computeProcessingTypeAndConstructionState pn mbIndex header =
     (if length (h_MiniBlockHeaders header) \<le> mbIndex then (pn Normal, Final)
      else let mbh = h_MiniBlockHeaders header ! mbIndex in
        case mh_ProcessingType mbh of
          Scheduled \<Rightarrow> (pn Scheduled, mh_ConstructionState mbh)
        | Processed \<Rightarrow> (pn Processed, mh_ConstructionState mbh)
        | _ \<Rightarrow> (pn Normal, mh_ConstructionState mbh))"

definition setFieldsMBIntraShardAndCrossFromMe ::
    "(processing_type \<Rightarrow> string) \<Rightarrow> nat \<Rightarrow> Header \<Rightarrow> string \<Rightarrow> Miniblock \<Rightarrow> bool \<Rightarrow> Miniblock" where
  "setFieldsMBIntraShardAndCrossFromMe pn mbIndex header headerHash dbMiniblock isIntraShard =
     (let (processingType, constructionState) = computeProcessingTypeAndConstructionState pn mbIndex header;
          mb1 = dbMiniblock\<lparr>mb_ProcessingTypeOnSource := processingType\<rparr> in
      if constructionState = Final \<and> processingType = pn Normal then
        (let mb2 = mb1\<lparr>mb_SenderBlockHash := headerHash, mb_ProcessingTypeOnSource := processingType\<rparr> in
         if isIntraShard
         then mb2\<lparr>mb_ReceiverBlockHash := headerHash, mb_ProcessingTypeOnDestination := processingType\<rparr>
         else mb2)
      else if constructionState = Proposed \<and> processingType = pn Scheduled then
        mb1\<lparr>mb_SenderBlockHash := headerHash, mb_ProcessingTypeOnSource := processingType\<rparr>
      else if constructionState = Final \<and> processingType = pn Processed then
        mb1\<lparr>mb_ReceiverBlockHash := headerHash, mb_ProcessingTypeOnDestination := processingType\<rparr>
      else mb1)"

definition base_miniblock :: "(block_type \<Rightarrow> string) \<Rightarrow> Header \<Rightarrow> MiniBlock \<Rightarrow> bytes \<Rightarrow> Miniblock" where
  "base_miniblock tn header miniblock mbHash =
     \<lparr>mb_Hash = hex_encode mbHash, mb_SenderShardID = m_SenderShardID miniblock,
      mb_ReceiverShardID = m_ReceiverShardID miniblock, mb_SenderBlockHash = [],
      mb_ReceiverBlockHash = [], mb_Type = tn (m_Type miniblock), mb_ProcessingTypeOnSource = [],
      mb_ProcessingTypeOnDestination = [], mb_Timestamp = h_TimeStamp header,
      mb_Reserved = m_Reserved miniblock\<rparr>"

definition prepareMiniblockForDB ::
    "core_lib \<Rightarrow> (block_type \<Rightarrow> string) \<Rightarrow> (processing_type \<Rightarrow> string) \<Rightarrow> nat \<Rightarrow> MiniBlock \<Rightarrow> Header \<Rightarrow> bytes
     \<Rightarrow> Miniblock result" where
  "prepareMiniblockForDB L tn pn mbIndex miniblock header headerHash =
     bindr (mb_hash L miniblock) (\<lambda>mbHash.
       let dbMiniblock = base_miniblock tn header miniblock mbHash;
           encodedHeaderHash = hex_encode headerHash;
           isIntraShard = (mb_SenderShardID dbMiniblock = mb_ReceiverShardID dbMiniblock);
           isCrossOnSource = (\<not> isIntraShard \<and> mb_SenderShardID dbMiniblock = h_ShardID header) in
       if isIntraShard \<or> isCrossOnSource
       then Inr (setFieldsMBIntraShardAndCrossFromMe pn mbIndex header encodedHeaderHash dbMiniblock isIntraShard)
       else Inr (dbMiniblock
         \<lparr>mb_ProcessingTypeOnDestination := fst (computeProcessingTypeAndConstructionState pn mbIndex header),
          mb_ReceiverBlockHash := encodedHeaderHash\<rparr>))"

fun db_miniblocks ::
    "core_lib \<Rightarrow> core_consts \<Rightarrow> (block_type \<Rightarrow> string) \<Rightarrow> (processing_type \<Rightarrow> string) \<Rightarrow> Header \<Rightarrow> bytes
     \<Rightarrow> (nat \<times> MiniBlock) list \<Rightarrow> Miniblock list" where
  "db_miniblocks L K tn pn header headerHash [] = []"
| "db_miniblocks L K tn pn header headerHash ((mbIndex, miniBlock) # rest) =
     (if m_ReceiverShardID miniBlock = k_AllShardId K \<and> h_ShardID header \<noteq> k_MetachainShardId K
      then db_miniblocks L K tn pn header headerHash rest
      else case prepareMiniblockForDB L tn pn mbIndex miniBlock header headerHash of
        Inl _ \<Rightarrow> db_miniblocks L K tn pn header headerHash rest
      | Inr dbMiniBlock \<Rightarrow> dbMiniBlock # db_miniblocks L K tn pn header headerHash rest)"

definition PrepareDBMiniblocks ::
    "core_lib \<Rightarrow> core_consts \<Rightarrow> (block_type \<Rightarrow> string) \<Rightarrow> (processing_type \<Rightarrow> string) \<Rightarrow> Header \<Rightarrow> MiniBlock list
     \<Rightarrow> Miniblock list" where
  "PrepareDBMiniblocks L K tn pn header miniBlocks =
     (case CalculateHeaderHash L header of
        None \<Rightarrow> []
      | Some headerHash \<Rightarrow> db_miniblocks L K tn pn header headerHash (enumerate 0 miniBlocks))"

definition GetMiniblocksHashesHexEncoded :: "core_lib \<Rightarrow> Header \<Rightarrow> MiniBlock list option \<Rightarrow> string list" where
  "GetMiniblocksHashesHexEncoded L header body =
     (case body of
        None \<Rightarrow> []
      | Some miniBlocks \<Rightarrow>
          if length (h_MiniBlockHeadersHashes header) = 0 then []
          else concat (map (\<lambda>miniblock.
            if m_Type miniblock = PeerBlock then []
            else if h_ShardID header = m_ReceiverShardID miniblock \<and>
                    m_ReceiverShardID miniblock \<noteq> m_SenderShardID miniblock then []
            else case mb_hash L miniblock of Inl _ \<Rightarrow> [] | Inr h \<Rightarrow> [hex_encode h]) miniBlocks))"

section \<open>Lemmas\<close>

text \<open>The stage a header gives to its miniblock at an index.\<close>

definition stage :: "nat \<Rightarrow> Header \<Rightarrow> processing_type \<times> construction_state" where
  "stage i header =
     (if length (h_MiniBlockHeaders header) \<le> i then (Normal, Final)
      else let mbh = h_MiniBlockHeaders header ! i in
        (case mh_ProcessingType mbh of Scheduled \<Rightarrow> Scheduled | Processed \<Rightarrow> Processed | _ \<Rightarrow> Normal,
         mh_ConstructionState mbh))"

lemma base_miniblock_fields [simp]:
  "mb_Hash (base_miniblock tn header mb h) = hex_encode h"
  "mb_SenderShardID (base_miniblock tn header mb h) = m_SenderShardID mb"
  "mb_ReceiverShardID (base_miniblock tn header mb h) = m_ReceiverShardID mb"
  by (simp_all add: base_miniblock_def)

lemma compute_stage:
  "computeProcessingTypeAndConstructionState pn i header = (pn (fst (stage i header)), snd (stage i header))"
  by (simp add: computeProcessingTypeAndConstructionState_def stage_def Let_def split: processing_type.split)

lemma stage_cases: "fst (stage i header) \<in> {Normal, Scheduled, Processed}"
  by (simp add: stage_def Let_def split: processing_type.split)

definition processing_names_ok :: "(processing_type \<Rightarrow> string) \<Rightarrow> bool" where
  "processing_names_ok pn \<longleftrightarrow> distinct [pn Normal, pn Scheduled, pn Processed]"

lemma setFields_block_hashes:
  assumes "processing_names_ok pn" and "mb_SenderBlockHash m = []" "mb_ReceiverBlockHash m = []"
  defines "doc \<equiv> \<lambda>i header hash intra. setFieldsMBIntraShardAndCrossFromMe pn i header hash m intra"
  shows "mb_SenderBlockHash (doc i header hash intra) =
      (if stage i header = (Normal, Final) \<or> stage i header = (Scheduled, Proposed) then hash else [])"
    and "mb_ReceiverBlockHash (doc i header hash intra) =
      (if stage i header = (Normal, Final) \<and> intra \<or> stage i header = (Processed, Final) then hash else [])"
proof -
  have neq: "pn Normal \<noteq> pn Scheduled" "pn Scheduled \<noteq> pn Normal" "pn Normal \<noteq> pn Processed"
    "pn Processed \<noteq> pn Normal" "pn Scheduled \<noteq> pn Processed" "pn Processed \<noteq> pn Scheduled"
    using assms(1) by (auto simp: processing_names_ok_def)
  obtain p c where st: "stage i header = (p, c)" by force
  with stage_cases [of i header] consider "p = Normal" | "p = Scheduled" | "p = Processed" by fastforce
  then have "mb_SenderBlockHash (doc i header hash intra) =
      (if stage i header = (Normal, Final) \<or> stage i header = (Scheduled, Proposed) then hash else []) \<and>
    mb_ReceiverBlockHash (doc i header hash intra) =
      (if stage i header = (Normal, Final) \<and> intra \<or> stage i header = (Processed, Final) then hash else [])"
    using assms(2,3) st neq
    by cases (simp_all add: doc_def setFieldsMBIntraShardAndCrossFromMe_def compute_stage Let_def)
  then show "mb_SenderBlockHash (doc i header hash intra) =
      (if stage i header = (Normal, Final) \<or> stage i header = (Scheduled, Proposed) then hash else [])"
    and "mb_ReceiverBlockHash (doc i header hash intra) =
      (if stage i header = (Normal, Final) \<and> intra \<or> stage i header = (Processed, Final) then hash else [])"
    by simp_all
qed

lemma prepared_miniblock_identity:
  assumes "prepareMiniblockForDB L tn pn i mb header hh = Inr doc"
  shows "\<exists>h. mb_hash L mb = Inr h \<and> mb_Hash doc = hex_encode h"
    and "mb_SenderShardID doc = m_SenderShardID mb" and "mb_ReceiverShardID doc = m_ReceiverShardID mb"
  using assms
  by (auto simp: prepareMiniblockForDB_def bindr_Inr_iff Let_def setFieldsMBIntraShardAndCrossFromMe_def
      case_prod_unfold split: if_splits)

lemma db_miniblocks_mem:
  "doc \<in> set (db_miniblocks L K tn pn header hh imbs) \<Longrightarrow>
     \<exists>i mb. (i, mb) \<in> set imbs \<and> prepareMiniblockForDB L tn pn i mb header hh = Inr doc"
  by (induction L K tn pn header hh imbs rule: db_miniblocks.induct) (auto split: if_splits sum.splits)

section \<open>Properties\<close>

text \<open>
  C23. The block hashes of a miniblock document, with different names for the three processing types.
  At the destination of a cross-shard miniblock only the receiver block hash is set.  In the shard of the
  sender (or inside one shard) a final normal miniblock sets the sender block hash, and the receiver block
  hash too exactly when it stays in the shard; a scheduled proposal sets only the sender block hash and
  the later final execution only the receiver block hash; no other stage sets one.
\<close>

theorem miniblock_block_hashes:
  assumes "processing_names_ok pn" and "prepareMiniblockForDB L tn pn i mb header hh = Inr doc"
  shows "let intra = (m_SenderShardID mb = m_ReceiverShardID mb); st = stage i header; hash = hex_encode hh in
    (mb_SenderBlockHash doc, mb_ReceiverBlockHash doc) =
      (if \<not> intra \<and> m_SenderShardID mb \<noteq> h_ShardID header then ([], hash)
       else if st = (Normal, Final) then (hash, if intra then hash else [])
       else if st = (Scheduled, Proposed) then (hash, [])
       else if st = (Processed, Final) then ([], hash)
       else ([], []))"
proof -
  obtain h where h: "mb_hash L mb = Inr h"
    using assms(2) by (auto simp: prepareMiniblockForDB_def bindr_Inr_iff)
  then have doc: "doc = (if m_SenderShardID mb = m_ReceiverShardID mb \<or> m_SenderShardID mb = h_ShardID header
      then setFieldsMBIntraShardAndCrossFromMe pn i header (hex_encode hh) (base_miniblock tn header mb h)
        (m_SenderShardID mb = m_ReceiverShardID mb)
      else (base_miniblock tn header mb h)
        \<lparr>mb_ProcessingTypeOnDestination := fst (computeProcessingTypeAndConstructionState pn i header),
         mb_ReceiverBlockHash := hex_encode hh\<rparr>)"
    using assms(2) by (auto simp: prepareMiniblockForDB_def Let_def split: if_splits)
  have m: "mb_SenderBlockHash (base_miniblock tn header mb h) = []" "mb_ReceiverBlockHash (base_miniblock tn header mb h) = []"
    by (simp_all add: base_miniblock_def)
  show ?thesis
    by (simp add: doc Let_def setFields_block_hashes [OF assms(1) m] m)
qed


section \<open>Witnesses\<close>

definition demo_pn :: "processing_type \<Rightarrow> string" where
  "demo_pn p = (case p of Normal \<Rightarrow> ''Normal'' | Scheduled \<Rightarrow> ''Scheduled'' | Processed \<Rightarrow> ''Processed'' | _ \<Rightarrow> ''other'')"

theorem miniblock_block_hashes_witness:
  "\<exists>doc. prepareMiniblockForDB demo_lib (\<lambda>_. ''TxBlock'') demo_pn 0 (demo_mb TxBlock [''a'']) demo_header ''hh'' = Inr doc \<and>
     mb_SenderBlockHash doc = hex_encode ''hh'' \<and> mb_ReceiverBlockHash doc = hex_encode ''hh''"
proof -
  obtain doc where run:
    "prepareMiniblockForDB demo_lib (\<lambda>_. ''TxBlock'') demo_pn 0 (demo_mb TxBlock [''a'']) demo_header ''hh'' = Inr doc"
    by (simp add: prepareMiniblockForDB_def mb_hash_def demo_lib_def demo_mb_def Let_def)
  have "processing_names_ok demo_pn" by (simp add: processing_names_ok_def demo_pn_def)
  moreover have "stage 0 demo_header = (Normal, Final)" by (simp add: stage_def demo_header_def demo_mbh_def)
  ultimately show ?thesis
    using run miniblock_block_hashes [OF _ run] by (auto simp: Let_def demo_mb_def simp del: hex_encode_Cons)
qed


end
