(* ===== verification/Block_Proc.thy ===== *)
theory Block_Proc
  imports Transactions
begin

text \<open>
  \<^verbatim>\<open>process/elasticproc/block/blockProcessor.go\<close>: the block document.  The header handler has the fields
  of \<open>Header\<close> and those read only here; the functions of the core library that only this component calls
  are the fields of \<open>block_lib\<close>.
\<close>

section \<open>Data\<close>

record Economics =
  ec_TotalSupply :: int
  ec_TotalToDistribute :: int
  ec_TotalNewlyMinted :: int
  ec_RewardsPerBlock :: int
  ec_RewardsForProtocolSustainability :: int
  ec_NodePrice :: int
  ec_PrevEpochStartRound :: u64
  ec_PrevEpochStartHash :: bytes

record PendingMiniBlock =
  pm_Hash :: bytes
  pm_SenderShardID :: u32
  pm_ReceiverShardID :: u32
  pm_Type :: block_type
  pm_Reserved :: bytes

record core_EpochStartShardData =
  es_ShardID :: u32
  es_Epoch :: u32
  es_Round :: u64
  es_Nonce :: u64
  es_HeaderHash :: bytes
  es_RootHash :: bytes
  es_ScheduledRootHash :: bytes
  es_FirstPendingMetaBlock :: bytes
  es_LastFinishedMetaBlock :: bytes
  es_PendingMiniBlockHeaders :: "PendingMiniBlock list"

record AdditionalHeaderData =
  ad_ScheduledRootHash :: bytes
  ad_ScheduledAccumulatedFees :: "int option"
  ad_ScheduledDeveloperFees :: "int option"
  ad_ScheduledGasProvided :: u64
  ad_ScheduledGasPenalized :: u64
  ad_ScheduledGasRefunded :: u64

record HeaderFull = Header +
  hf_PubKeysBitmap :: bytes
  hf_RootHash :: bytes
  hf_PrevHash :: bytes
  hf_IsStartOfEpochBlock :: bool
  hf_AccumulatedFees :: "int option"
  hf_DeveloperFees :: "int option"
  hf_RandSeed :: bytes
  hf_PrevRandSeed :: bytes
  hf_Signature :: bytes
  hf_LeaderSignature :: bytes
  hf_ChainID :: bytes
  hf_SoftwareVersion :: bytes
  hf_ReceiptsHash :: bytes
  hf_Reserved :: bytes
  hf_AdditionalData :: "AdditionalHeaderData option"
  hf_Economics :: Economics
  hf_LastFinalizedHeaders :: "core_EpochStartShardData list"

record HeaderGasConsumption =
  gc_GasProvided :: u64
  gc_GasRefunded :: u64
  gc_GasPenalized :: u64
  gc_MaxGasPerBlock :: u64

record BlockData =
  bd_HeaderBytes :: bytes
  bd_HeaderType :: string
  bd_HeaderHash :: bytes
  bd_Body :: "MiniBlock list option"
  bd_IntraShardMiniBlocks :: "MiniBlock list"

record OutportBlockWithHeader =
  ob_Header :: "HeaderFull option"
  ob_BlockData :: "BlockData option"
  ob_TransactionPool :: "TransactionPool option"
  ob_HeaderGasConsumption :: "HeaderGasConsumption option"
  ob_SignersIndexes :: "u64 list"
  ob_NotarizedHeadersHashes :: "string list"

record ScheduledData =
  sch_ScheduledRootHash :: string
  sch_ScheduledAccumulatedFees :: string
  sch_ScheduledDeveloperFees :: string
  sch_ScheduledGasProvided :: u64
  sch_ScheduledGasPenalized :: u64
  sch_ScheduledGasRefunded :: u64

record EpochStartInfo =
  ei_TotalSupply :: string
  ei_TotalToDistribute :: string
  ei_TotalNewlyMinted :: string
  ei_RewardsPerBlock :: string
  ei_RewardsForProtocolSustainability :: string
  ei_NodePrice :: string
  ei_PrevEpochStartRound :: u64
  ei_PrevEpochStartHash :: string

record EpochStartShardData =
  esd_ShardID :: u32
  esd_Epoch :: u32
  esd_Round :: u64
  esd_Nonce :: u64
  esd_HeaderHash :: string
  esd_RootHash :: string
  esd_ScheduledRootHash :: string
  esd_FirstPendingMetaBlock :: string
  esd_LastFinishedMetaBlock :: string
  esd_PendingMiniBlockHeaders :: "Miniblock list"

record Block =
  bl_UUID :: string
  bl_Nonce :: u64
  bl_Round :: u64
  bl_Epoch :: u32
  bl_Hash :: string
  bl_MiniBlocksHashes :: "string list"
  bl_MiniBlocksDetails :: "MiniBlocksDetails list"
  bl_NotarizedBlocksHashes :: "string list"
  bl_Proposer :: u64
  bl_Validators :: "u64 list"
  bl_PubKeyBitmap :: string
  bl_Size :: int
  bl_SizeTxs :: int
  bl_Timestamp :: u64
  bl_StateRootHash :: string
  bl_PrevHash :: string
  bl_ShardID :: u32
  bl_TxCount :: u32
  bl_NotarizedTxsCount :: u32
  bl_AccumulatedFees :: string
  bl_DeveloperFees :: string
  bl_EpochStartBlock :: bool
  bl_SearchOrder :: u64
  bl_EpochStartInfo :: "EpochStartInfo option"
  bl_GasProvided :: u64
  bl_GasRefunded :: u64
  bl_GasPenalized :: u64
  bl_MaxGasLimit :: u64
  bl_ScheduledData :: "ScheduledData option"
  bl_EpochStartShardsData :: "EpochStartShardData list"
  bl_RandSeed :: string
  bl_PrevRandSeed :: string
  bl_Signature :: string
  bl_LeaderSignature :: string
  bl_ChainID :: string
  bl_SoftwareVersion :: string
  bl_ReceiptsHash :: string
  bl_Reserved :: bytes

text \<open>Sizes and names of the core library, and the marshalled body.\<close>

record block_lib =
  MarshalBody :: "MiniBlock list \<Rightarrow> bytes option"
  SizeTx :: "core_Transaction \<Rightarrow> nat"
  SizeReward :: "RewardTx \<Rightarrow> nat"
  SizeSCR :: "core_SmartContractResult \<Rightarrow> nat"
  TypeString :: "block_type \<Rightarrow> string"
  ProcessingTypeString :: "processing_type \<Rightarrow> string"

section \<open>Model\<close>

definition notExecutedInCurrentBlock :: int where "notExecutedInCurrentBlock = - 1"
definition notFound :: int where "notFound = - 2"

definition NewBlockProcessor :: "bool \<Rightarrow> bool \<Rightarrow> unit result" where
  "NewBlockProcessor has_hasher has_marshalizer =
     (if \<not> has_hasher then Inl ErrNilHasher else if \<not> has_marshalizer then Inl ErrNilMarshalizer else Inr ())"

definition getTxsCount :: "core_consts \<Rightarrow> HeaderFull \<Rightarrow> u32 \<times> u32" where
  "getTxsCount K header =
     (if k_MetachainShardId K \<noteq> h_ShardID header then (h_TxCount header, 0)
      else if \<not> h_IsMetaBlock header then (0, 0)
      else let numTxs = fold (\<lambda>mb n. if mh_Type mb = PeerBlock then n else n + mh_TxCount mb)
                 (h_MiniBlockHeaders header) 0 in
        (numTxs, h_TxCount header - numTxs))"

definition epoch_start_shard_data :: "block_lib \<Rightarrow> core_EpochStartShardData \<Rightarrow> EpochStartShardData" where
  "epoch_start_shard_data B d =
     \<lparr>esd_ShardID = es_ShardID d, esd_Epoch = es_Epoch d, esd_Round = es_Round d, esd_Nonce = es_Nonce d,
      esd_HeaderHash = hex_encode (es_HeaderHash d), esd_RootHash = hex_encode (es_RootHash d),
      esd_ScheduledRootHash = hex_encode (es_ScheduledRootHash d),
      esd_FirstPendingMetaBlock = hex_encode (es_FirstPendingMetaBlock d),
      esd_LastFinishedMetaBlock = hex_encode (es_LastFinishedMetaBlock d),
      esd_PendingMiniBlockHeaders = map (\<lambda>pm.
        \<lparr>mb_Hash = hex_encode (pm_Hash pm), mb_SenderShardID = pm_SenderShardID pm,
         mb_ReceiverShardID = pm_ReceiverShardID pm, mb_SenderBlockHash = [], mb_ReceiverBlockHash = [],
         mb_Type = TypeString B (pm_Type pm), mb_ProcessingTypeOnSource = [],
         mb_ProcessingTypeOnDestination = [], mb_Timestamp = 0, mb_Reserved = pm_Reserved pm\<rparr>)
        (es_PendingMiniBlockHeaders d)\<rparr>"

definition addEpochStartInfoForMeta :: "block_lib \<Rightarrow> core_consts \<Rightarrow> HeaderFull \<Rightarrow> Block \<Rightarrow> Block" where
  "addEpochStartInfoForMeta B K header b =
     (if h_ShardID header \<noteq> k_MetachainShardId K then b
      else if \<not> h_IsMetaBlock header then b
      else if \<not> hf_IsStartOfEpochBlock header then b
      else let e = hf_Economics header in
        b\<lparr>bl_EpochStartInfo := Some
            \<lparr>ei_TotalSupply = dec_int (ec_TotalSupply e), ei_TotalToDistribute = dec_int (ec_TotalToDistribute e),
             ei_TotalNewlyMinted = dec_int (ec_TotalNewlyMinted e),
             ei_RewardsPerBlock = dec_int (ec_RewardsPerBlock e),
             ei_RewardsForProtocolSustainability = dec_int (ec_RewardsForProtocolSustainability e),
             ei_NodePrice = dec_int (ec_NodePrice e), ei_PrevEpochStartRound = ec_PrevEpochStartRound e,
             ei_PrevEpochStartHash = hex_encode (ec_PrevEpochStartHash e)\<rparr>,
          bl_EpochStartShardsData := map (epoch_start_shard_data B) (hf_LastFinalizedHeaders header)\<rparr>)"

definition getEncodedMBSHashes :: "core_lib \<Rightarrow> MiniBlock list \<Rightarrow> MiniBlock list \<Rightarrow> string list" where
  "getEncodedMBSHashes L body intraShardMbs =
     concat (map (\<lambda>mb. case mb_hash L mb of Inl _ \<Rightarrow> [] | Inr h \<Rightarrow> [hex_encode h]) (body @ intraShardMbs))"

text \<open>A nil pool is dereferenced for the four types that look up a transaction.\<close>

definition getExecutionOrderForTx ::
    "bytes \<Rightarrow> block_type \<Rightarrow> TransactionPool option \<Rightarrow> u32 option result" where
  "getExecutionOrderForTx txHash mbType pool =
     (let h = hex_encode txHash in
      case mbType of
        TxBlock \<Rightarrow> (case pool of None \<Rightarrow> Inl PanicNilDereference
          | Some p \<Rightarrow> Inr (map_option txi_ExecutionOrder (map_of (tp_Transactions p) h)))
      | InvalidBlock \<Rightarrow> (case pool of None \<Rightarrow> Inl PanicNilDereference
          | Some p \<Rightarrow> Inr (map_option txi_ExecutionOrder (map_of (tp_InvalidTxs p) h)))
      | RewardsBlock \<Rightarrow> (case pool of None \<Rightarrow> Inl PanicNilDereference
          | Some p \<Rightarrow> Inr (map_option rwi_ExecutionOrder (map_of (tp_Rewards p) h)))
      | SmartContractResultBlock \<Rightarrow> (case pool of None \<Rightarrow> Inl PanicNilDereference
          | Some p \<Rightarrow> Inr (map_option sci_ExecutionOrder (map_of (tp_SmartContractResults p) h)))
      | _ \<Rightarrow> Inr None)"

definition order_or_not_found :: "u32 option \<Rightarrow> int" where
  "order_or_not_found r = (case r of None \<Rightarrow> notFound | Some executionOrder \<Rightarrow> uint executionOrder)"

fun extractExecutionOrderIntraShardMBUnsigned_loop ::
    "block_type \<Rightarrow> TransactionPool option \<Rightarrow> bytes list \<Rightarrow> int list result" where
  "extractExecutionOrderIntraShardMBUnsigned_loop t pool [] = Inr []"
| "extractExecutionOrderIntraShardMBUnsigned_loop t pool (txHash # rest) =
     bindr (getExecutionOrderForTx txHash t pool) (\<lambda>r.
     bindr (extractExecutionOrderIntraShardMBUnsigned_loop t pool rest) (\<lambda>os. Inr (order_or_not_found r # os)))"

definition extractExecutionOrderIntraShardMBUnsigned ::
    "MiniBlock \<Rightarrow> TransactionPool option \<Rightarrow> int list result" where
  "extractExecutionOrderIntraShardMBUnsigned mb pool =
     extractExecutionOrderIntraShardMBUnsigned_loop (m_Type mb) pool (m_TxHashes mb)"

fun execution_order_loop ::
    "MiniBlockHeader \<Rightarrow> TransactionPool option \<Rightarrow> nat \<Rightarrow> bytes list \<Rightarrow> int list result" where
  "execution_order_loop mbHeader pool idx [] = Inr []"
| "execution_order_loop mbHeader pool idx (txHash # rest) =
     (let isExecutedInCurrentBlock = (signed_take_bit 31 (int idx) \<ge> mh_IndexOfFirstTxProcessed mbHeader \<and>
                                      signed_take_bit 31 (int idx) \<le> mh_IndexOfLastTxProcessed mbHeader) in
      bindr (if \<not> isExecutedInCurrentBlock then Inr notExecutedInCurrentBlock
             else bindr (getExecutionOrderForTx txHash (mh_Type mbHeader) pool) (\<lambda>r. Inr (order_or_not_found r))) (\<lambda>ord.
      bindr (execution_order_loop mbHeader pool (Suc idx) rest) (\<lambda>os. Inr (ord # os))))"

definition extractExecutionOrderIndicesFromPool ::
    "MiniBlockHeader \<Rightarrow> bytes list \<Rightarrow> TransactionPool option \<Rightarrow> int list result" where
  "extractExecutionOrderIndicesFromPool mbHeader txsHashes pool = execution_order_loop mbHeader pool 0 txsHashes"

fun appendBlockDetailsFromHeaders ::
    "block_lib \<Rightarrow> (nat \<times> MiniBlockHeader) list \<Rightarrow> MiniBlock list \<Rightarrow> TransactionPool option
     \<Rightarrow> MiniBlocksDetails list \<Rightarrow> MiniBlocksDetails list result" where
  "appendBlockDetailsFromHeaders B [] body pool ds = Inr ds"
| "appendBlockDetailsFromHeaders B ((idx, mbHeader) # rest) body pool ds =
     (if mh_Type mbHeader = PeerBlock then appendBlockDetailsFromHeaders B rest body pool ds
      else bindr (index_r body idx) (\<lambda>mb.
        bindr (extractExecutionOrderIndicesFromPool mbHeader (m_TxHashes mb) pool) (\<lambda>orders.
        appendBlockDetailsFromHeaders B rest body pool (ds @
          [\<lparr>mbd_IndexFirstProcessedTx = mh_IndexOfFirstTxProcessed mbHeader,
            mbd_IndexLastProcessedTx = mh_IndexOfLastTxProcessed mbHeader,
            mbd_SenderShardID = mh_SenderShardID mbHeader, mbd_ReceiverShardID = mh_ReceiverShardID mbHeader,
            mbd_MBIndex = idx, mbd_Type = TypeString B (mh_Type mbHeader),
            mbd_ProcessingType = ProcessingTypeString B (mh_ProcessingType mbHeader),
            mbd_TxsHashes = map hex_encode (m_TxHashes mb), mbd_ExecutionOrderTxsIndices = orders\<rparr>]))))"

fun appendBlockDetailsFromIntraShardMbs ::
    "block_lib \<Rightarrow> (nat \<times> MiniBlock) list \<Rightarrow> TransactionPool option \<Rightarrow> nat \<Rightarrow> MiniBlocksDetails list
     \<Rightarrow> MiniBlocksDetails list result" where
  "appendBlockDetailsFromIntraShardMbs B [] pool offset ds = Inr ds"
| "appendBlockDetailsFromIntraShardMbs B ((idx, intraMB) # rest) pool offset ds =
     (if m_Type intraMB = PeerBlock \<or> m_Type intraMB = ReceiptBlock
      then appendBlockDetailsFromIntraShardMbs B rest pool offset ds
      else bindr (extractExecutionOrderIntraShardMBUnsigned intraMB pool) (\<lambda>orders.
        appendBlockDetailsFromIntraShardMbs B rest pool offset (ds @
          [\<lparr>mbd_IndexFirstProcessedTx = 0,
            mbd_IndexLastProcessedTx = signed_take_bit 31 (int (length (m_TxHashes intraMB)) - 1),
            mbd_SenderShardID = m_SenderShardID intraMB, mbd_ReceiverShardID = m_ReceiverShardID intraMB,
            mbd_MBIndex = idx + offset, mbd_Type = TypeString B (m_Type intraMB),
            mbd_ProcessingType = ProcessingTypeString B Normal,
            mbd_TxsHashes = map hex_encode (m_TxHashes intraMB), mbd_ExecutionOrderTxsIndices = orders\<rparr>])))"

definition computeBlockSize :: "block_lib \<Rightarrow> bytes \<Rightarrow> MiniBlock list \<Rightarrow> nat result" where
  "computeBlockSize B headerBytes body =
     (case MarshalBody B body of
        None \<Rightarrow> Inl (ExternalError ''Marshal'')
      | Some bodyBytes \<Rightarrow> Inr (length headerBytes + length bodyBytes))"

definition getLeaderIndex :: "u64 list \<Rightarrow> u64" where
  "getLeaderIndex signersIndexes = (case signersIndexes of i # _ \<Rightarrow> i | [] \<Rightarrow> 0)"

definition createShardIdentifier :: "core_consts \<Rightarrow> u32 \<Rightarrow> u32" where
  "createShardIdentifier K shardID = (if shardID = k_MetachainShardId K then 1 else shardID + 2)"

text \<open>\<^verbatim>\<open>%02d\<close>: at least two digits.\<close>

definition two_digits :: "nat \<Rightarrow> string" where
  "two_digits n = (if n < 10 then CHR ''0'' # dec_nat n else dec_nat n)"

definition computeBlockSearchOrder :: "core_consts \<Rightarrow> u32 \<Rightarrow> u64 \<Rightarrow> u64" where
  "computeBlockSearchOrder K shardID nonce =
     (let shardIdentifier = createShardIdentifier K shardID;
          stringOrder = ''1'' @ two_digits (unat shardIdentifier) @ dec_nat (unat nonce) in
      case parse_uint 64 stringOrder of None \<Rightarrow> 0 | Some order \<Rightarrow> of_nat order)"

definition ComputeHeaderHash :: "core_lib \<Rightarrow> Header \<Rightarrow> bytes result" where
  "ComputeHeaderHash L header =
     (case CalculateHeaderHash L header of None \<Rightarrow> Inl (ExternalError ''CalculateHash'') | Some h \<Rightarrow> Inr h)"

definition computeSizeOfTransactions :: "block_lib \<Rightarrow> TransactionPool option \<Rightarrow> nat" where
  "computeSizeOfTransactions B pool =
     (case pool of
        None \<Rightarrow> 0
      | Some p \<Rightarrow>
          sum_list (map (SizeTx B \<circ> txi_Transaction) (gm_values (tp_Transactions p))) +
          sum_list (map (SizeReward B \<circ> rwi_Reward) (gm_values (tp_Rewards p))) +
          sum_list (map (SizeTx B \<circ> txi_Transaction) (gm_values (tp_InvalidTxs p))) +
          sum_list (map (SizeSCR B \<circ> sci_SmartContractResult) (gm_values (tp_SmartContractResults p))))"

definition scheduled_data :: "AdditionalHeaderData option \<Rightarrow> ScheduledData option" where
  "scheduled_data ad = map_option (\<lambda>d.
     \<lparr>sch_ScheduledRootHash = hex_encode (ad_ScheduledRootHash d),
      sch_ScheduledAccumulatedFees = BigIntToString (ad_ScheduledAccumulatedFees d),
      sch_ScheduledDeveloperFees = BigIntToString (ad_ScheduledDeveloperFees d),
      sch_ScheduledGasProvided = ad_ScheduledGasProvided d, sch_ScheduledGasPenalized = ad_ScheduledGasPenalized d,
      sch_ScheduledGasRefunded = ad_ScheduledGasRefunded d\<rparr>) ad"

definition PrepareBlockForDB ::
    "core_lib \<Rightarrow> block_lib \<Rightarrow> core_consts \<Rightarrow> OutportBlockWithHeader \<Rightarrow> Block result" where
  "PrepareBlockForDB L B K obh =
     (case ob_Header obh of None \<Rightarrow> Inl ErrNilHeaderHandler
      | Some header \<Rightarrow> (case ob_BlockData obh of None \<Rightarrow> Inl ErrNilBlockData
      | Some bd \<Rightarrow> (case bd_Body bd of None \<Rightarrow> Inl ErrNilBlockBody
      | Some body \<Rightarrow> (case ob_HeaderGasConsumption obh of None \<Rightarrow> Inl ErrNilHeaderGasConsumed
      | Some gas \<Rightarrow>
          bindr (computeBlockSize B (bd_HeaderBytes bd) body) (\<lambda>blockSizeInBytes.
          let (numTxs, notarizedTxs) = getTxsCount K header;
              elasticBlock =
                \<lparr>bl_UUID = GenerateUUID L (hex_encode (bd_HeaderHash bd)), bl_Nonce = h_Nonce header,
                 bl_Round = h_Round header, bl_Epoch = h_Epoch header, bl_Hash = hex_encode (bd_HeaderHash bd),
                 bl_MiniBlocksHashes = getEncodedMBSHashes L body (bd_IntraShardMiniBlocks bd),
                 bl_MiniBlocksDetails = [], bl_NotarizedBlocksHashes = ob_NotarizedHeadersHashes obh,
                 bl_Proposer = getLeaderIndex (ob_SignersIndexes obh), bl_Validators = ob_SignersIndexes obh,
                 bl_PubKeyBitmap = hex_encode (hf_PubKeysBitmap header), bl_Size = int blockSizeInBytes,
                 bl_SizeTxs = int (computeSizeOfTransactions B (ob_TransactionPool obh)),
                 bl_Timestamp = h_TimeStamp header, bl_StateRootHash = hex_encode (hf_RootHash header),
                 bl_PrevHash = hex_encode (hf_PrevHash header), bl_ShardID = h_ShardID header,
                 bl_TxCount = numTxs, bl_NotarizedTxsCount = notarizedTxs,
                 bl_AccumulatedFees = BigIntToString (hf_AccumulatedFees header),
                 bl_DeveloperFees = BigIntToString (hf_DeveloperFees header),
                 bl_EpochStartBlock = hf_IsStartOfEpochBlock header,
                 bl_SearchOrder = computeBlockSearchOrder K (h_ShardID header) (h_Nonce header),
                 bl_EpochStartInfo = None, bl_GasProvided = gc_GasProvided gas, bl_GasRefunded = gc_GasRefunded gas,
                 bl_GasPenalized = gc_GasPenalized gas, bl_MaxGasLimit = gc_MaxGasPerBlock gas,
                 bl_ScheduledData = scheduled_data (hf_AdditionalData header), bl_EpochStartShardsData = [],
                 bl_RandSeed = hex_encode (hf_RandSeed header), bl_PrevRandSeed = hex_encode (hf_PrevRandSeed header),
                 bl_Signature = hex_encode (hf_Signature header),
                 bl_LeaderSignature = hex_encode (hf_LeaderSignature header), bl_ChainID = hf_ChainID header,
                 bl_SoftwareVersion = hex_encode (hf_SoftwareVersion header),
                 bl_ReceiptsHash = hex_encode (hf_ReceiptsHash header), bl_Reserved = hf_Reserved header\<rparr>;
              b1 = addEpochStartInfoForMeta B K header elasticBlock in
          bindr (appendBlockDetailsFromHeaders B (enumerate 0 (h_MiniBlockHeaders header)) body
                   (ob_TransactionPool obh) (bl_MiniBlocksDetails b1)) (\<lambda>ds1.
          bindr (appendBlockDetailsFromIntraShardMbs B (enumerate 0 (bd_IntraShardMiniBlocks bd))
                   (ob_TransactionPool obh) (length (h_MiniBlockHeaders header)) ds1) (\<lambda>ds2.
          Inr (b1\<lparr>bl_MiniBlocksDetails := ds2\<rparr>))))))))"

section \<open>Decimal strings\<close>

lemma digits_value_append: "digits_value (s @ t) = digits_value s * 10 ^ length t + digits_value t"
proof (induction t rule: rev_induct)
  case Nil
  show ?case by (simp add: digits_value_def)
next
  case (snoc c t)
  have "digits_value (s @ t @ [c]) = 10 * digits_value (s @ t) + (of_char c - 48)"
    using digits_value_snoc [of "s @ t" c] by simp
  with snoc show ?case by (simp add: digits_value_snoc algebra_simps)
qed

lemma dec_nat_length_le: "n < 10 ^ k \<Longrightarrow> 0 < k \<Longrightarrow> length (dec_nat n) \<le> k"
proof (induction n arbitrary: k rule: dec_nat.induct)
  case (1 n)
  show ?case
  proof (cases "n < 10")
    case True
    with 1 show ?thesis by (subst dec_nat.simps) simp
  next
    case False
    then obtain j where k: "k = Suc j" "0 < j" using 1(2,3) by (cases k; cases "k - 1") auto
    with 1(2) have "n div 10 < 10 ^ j" by (simp add: less_mult_imp_div_less mult.commute)
    with 1(1) False k show ?thesis by (subst dec_nat.simps) simp
  qed
qed

lemma dec_nat_less_power: "n < 10 ^ length (dec_nat n)"
proof (induction n rule: dec_nat.induct)
  case (1 n)
  show ?case
  proof (cases "n < 10")
    case True
    then show ?thesis by (subst dec_nat.simps) simp
  next
    case False
    with 1 have "n div 10 < 10 ^ length (dec_nat (n div 10))" by simp
    then have "n < 10 * 10 ^ length (dec_nat (n div 10))" by linarith
    with False show ?thesis by (subst dec_nat.simps) simp
  qed
qed

lemma dec_nat_length_mono: "m \<le> n \<Longrightarrow> length (dec_nat m) \<le> length (dec_nat n)"
  using dec_nat_less_power [of n] by (intro dec_nat_length_le) auto

lemma digits_value_Cons: "digits_value (c # s) = (of_char c - 48) * 10 ^ length s + digits_value s"
proof -
  have "digits_value [c] = of_char c - 48" by (simp add: digits_value_def)
  with digits_value_append [of "[c]" s] show ?thesis by simp
qed

lemma two_digits_value: "digits_value (two_digits n) = n"
  by (simp add: two_digits_def digits_value_Cons)

lemma two_digits_length: "n < 100 \<Longrightarrow> length (two_digits n) = 2"
proof -
  assume "n < 100"
  then have "n div 10 < 10" by (simp add: less_mult_imp_div_less)
  then have "length (dec_nat n) = (if n < 10 then 1 else 2)"
    by (simp add: dec_nat.simps [of n] dec_nat.simps [of "n div 10"])
  then show ?thesis by (simp add: two_digits_def)
qed

lemma two_digits_digits: "list_all is_digit_char (two_digits n)"
  using dec_nat_digits [of n] by (simp add: two_digits_def is_digit_char_def)

text \<open>The search order as a number: one hundred plus the identifier, followed by the digits of the nonce.\<close>

definition order_value :: "nat \<Rightarrow> nat \<Rightarrow> nat" where
  "order_value i n = (100 + i) * 10 ^ length (dec_nat n) + n"

lemma order_value_less:
  assumes "i < 100" and "n < 10 ^ 16"
  shows "order_value i n < 2 ^ 64"
proof -
  have "(10::nat) ^ length (dec_nat n) \<le> 10 ^ 16"
    using assms(2) by (intro power_increasing dec_nat_length_le) auto
  then have "(100 + i) * 10 ^ length (dec_nat n) \<le> 199 * 10 ^ 16"
    using assms(1) by (intro mult_mono) auto
  with assms(2) show ?thesis by (simp add: order_value_def)
qed

lemma order_value_mono: "m < n \<Longrightarrow> order_value i m < order_value i n"
  using dec_nat_length_mono [of m n] unfolding order_value_def
  by (intro add_le_less_mono mult_left_mono power_increasing) auto

lemma order_value_less_iff: "order_value i m < order_value i n \<longleftrightarrow> m < n"
  using order_value_mono [of m n i] order_value_mono [of n m i] by (cases m n rule: linorder_cases) auto

lemma order_value_digits:
  "i < 100 \<Longrightarrow> digits_value (''1'' @ two_digits i @ dec_nat n) = order_value i n"
  by (simp add: digits_value_Cons digits_value_append two_digits_length two_digits_value order_value_def power_add
      algebra_simps)

text \<open>The number determines the digit count, hence the identifier and the nonce.\<close>

lemma order_value_inject:
  assumes "order_value i m = order_value j n" and "i < 100" and "j < 100"
  shows "i = j \<and> m = n"
proof -
  have bounds: "100 * 10 ^ length (dec_nat k) \<le> order_value a k \<and> order_value a k < 200 * 10 ^ length (dec_nat k)"
    if "a < 100" for a k
  proof -
    have "(100 + a) * 10 ^ length (dec_nat k) \<le> 199 * 10 ^ length (dec_nat k)" using that by (intro mult_right_mono) auto
    with dec_nat_less_power [of k] have "order_value a k < 200 * 10 ^ length (dec_nat k)"
      unfolding order_value_def by linarith
    then show ?thesis by (simp add: order_value_def algebra_simps)
  qed
  have "\<not> length (dec_nat k) < length (dec_nat l)" if "order_value a k = order_value b l" "a < 100" "b < 100" for a b k l
  proof
    assume "length (dec_nat k) < length (dec_nat l)"
    then have "(10::nat) ^ Suc (length (dec_nat k)) \<le> 10 ^ length (dec_nat l)" by (intro power_increasing) auto
    with bounds [OF that(2), of k] bounds [OF that(3), of l] that(1) show False by simp
  qed
  from this [OF assms] this [OF assms(1) [symmetric] assms(3,2)]
  have len: "length (dec_nat m) = length (dec_nat n)" by simp
  let ?p = "10 ^ length (dec_nat n) :: nat"
  have less: "m < ?p" "n < ?p" using dec_nat_less_power [of m] dec_nat_less_power [of n] len by auto
  have eq: "(100 + i) * ?p + m = (100 + j) * ?p + n" using assms(1) by (simp add: order_value_def len)
  have "((100 + i) * ?p + m) div ?p = 100 + i" "((100 + j) * ?p + n) div ?p = 100 + j"
    using less by simp_all
  with eq have "i = j" by simp
  with eq show ?thesis by simp
qed

abbreviation shard_ok :: "core_consts \<Rightarrow> u32 \<Rightarrow> bool" where
  "shard_ok K s \<equiv> s = k_MetachainShardId K \<or> unat s < 98"

lemma createShardIdentifier_unat:
  "shard_ok K s \<Longrightarrow> unat (createShardIdentifier K s) = (if s = k_MetachainShardId K then 1 else unat s + 2)"
  by (auto simp: createShardIdentifier_def unat_word_ariths)

lemma createShardIdentifier_inject:
  assumes "shard_ok K s" and "shard_ok K t" and "unat (createShardIdentifier K s) = unat (createShardIdentifier K t)"
  shows "s = t"
proof -
  have "(if s = k_MetachainShardId K then 1 else unat s + 2) = (if t = k_MetachainShardId K then 1 else unat t + 2)"
    using assms(3) unfolding createShardIdentifier_unat [OF assms(1)] createShardIdentifier_unat [OF assms(2)] .
  then have "s = k_MetachainShardId K \<and> t = k_MetachainShardId K \<or> unat s = unat t"
    by (simp split: if_splits)
  then show ?thesis by (metis word_unat_eq_iff)
qed

lemma computeBlockSearchOrder_value:
  assumes "shard_ok K s" and "unat n < 10 ^ 16"
  shows "unat (computeBlockSearchOrder K s n) = order_value (unat (createShardIdentifier K s)) (unat n)"
proof -
  let ?i = "unat (createShardIdentifier K s)"
  have i: "?i < 100" using createShardIdentifier_unat [OF assms(1)] assms(1) by auto
  have "parse_digits (''1'' @ two_digits ?i @ dec_nat (unat n)) = Some (order_value ?i (unat n))"
    using dec_nat_digits [of "unat n"] two_digits_digits [of ?i]
    by (simp add: parse_digits_def order_value_digits [OF i, simplified] is_digit_char_def)
  with order_value_less [OF i assms(2)] show ?thesis
    by (simp add: computeBlockSearchOrder_def parse_uint_def Let_def unat_of_nat take_bit_nat_eq_self_iff)
qed

section \<open>Miniblock details\<close>

text \<open>The order of a transaction in the pool, by the type of its miniblock.\<close>

definition pool_order :: "TransactionPool \<Rightarrow> block_type \<Rightarrow> bytes \<Rightarrow> u32 option" where
  "pool_order p t txHash =
     (if t = TxBlock then map_option txi_ExecutionOrder (map_of (tp_Transactions p) (hex_encode txHash))
      else if t = InvalidBlock then map_option txi_ExecutionOrder (map_of (tp_InvalidTxs p) (hex_encode txHash))
      else if t = RewardsBlock then map_option rwi_ExecutionOrder (map_of (tp_Rewards p) (hex_encode txHash))
      else if t = SmartContractResultBlock
        then map_option sci_ExecutionOrder (map_of (tp_SmartContractResults p) (hex_encode txHash))
      else None)"

lemma getExecutionOrderForTx_pool: "getExecutionOrderForTx h t (Some p) = Inr (pool_order p t h)"
  by (simp add: getExecutionOrderForTx_def pool_order_def Let_def split: block_type.split)

lemma intra_orders:
  "extractExecutionOrderIntraShardMBUnsigned mb (Some p) =
     Inr (map (order_or_not_found \<circ> pool_order p (m_Type mb)) (m_TxHashes mb))"
proof -
  have "extractExecutionOrderIntraShardMBUnsigned_loop t (Some p) hs = Inr (map (order_or_not_found \<circ> pool_order p t) hs)"
    for t hs by (induction hs) (simp_all add: getExecutionOrderForTx_pool)
  then show ?thesis by (simp add: extractExecutionOrderIntraShardMBUnsigned_def)
qed

definition header_order :: "MiniBlockHeader \<Rightarrow> TransactionPool \<Rightarrow> nat \<Rightarrow> bytes \<Rightarrow> int" where
  "header_order mbh p i h =
     (if mh_IndexOfFirstTxProcessed mbh \<le> signed_take_bit 31 (int i) \<and> signed_take_bit 31 (int i) \<le> mh_IndexOfLastTxProcessed mbh
      then order_or_not_found (pool_order p (mh_Type mbh) h) else notExecutedInCurrentBlock)"

lemma header_orders:
  "extractExecutionOrderIndicesFromPool mbh hs (Some p) = Inr (map (\<lambda>(i, h). header_order mbh p i h) (enumerate 0 hs))"
proof -
  have "execution_order_loop mbh (Some p) n hs = Inr (map (\<lambda>(i, h). header_order mbh p i h) (enumerate n hs))" for n
    by (induction hs arbitrary: n) (auto simp: header_order_def getExecutionOrderForTx_pool Let_def)
  then show ?thesis by (simp add: extractExecutionOrderIndicesFromPool_def)
qed

lemma order_or_not_found_cases:
  "order_or_not_found r = notFound \<longleftrightarrow> r = None" "order_or_not_found r \<noteq> notExecutedInCurrentBlock"
  "order_or_not_found r = uint w \<longleftrightarrow> r = Some w"
proof -
  have "uint w \<noteq> notFound" "uint w \<noteq> notExecutedInCurrentBlock" for w :: u32
    using uint_ge_0 [of w] unfolding notFound_def notExecutedInCurrentBlock_def by linarith+
  then show "order_or_not_found r = notFound \<longleftrightarrow> r = None" "order_or_not_found r \<noteq> notExecutedInCurrentBlock"
    "order_or_not_found r = uint w \<longleftrightarrow> r = Some w"
    by (auto simp: order_or_not_found_def notFound_def notExecutedInCurrentBlock_def word_uint_eq_iff split: option.splits)
qed

text \<open>The details a block lists: those of its headers, then those of the miniblocks inside the shard.\<close>

definition header_detail :: "block_lib \<Rightarrow> MiniBlock list \<Rightarrow> TransactionPool \<Rightarrow> nat \<times> MiniBlockHeader \<Rightarrow> MiniBlocksDetails" where
  "header_detail B body p = (\<lambda>(idx, mbHeader).
     \<lparr>mbd_IndexFirstProcessedTx = mh_IndexOfFirstTxProcessed mbHeader,
      mbd_IndexLastProcessedTx = mh_IndexOfLastTxProcessed mbHeader,
      mbd_SenderShardID = mh_SenderShardID mbHeader, mbd_ReceiverShardID = mh_ReceiverShardID mbHeader,
      mbd_MBIndex = idx, mbd_Type = TypeString B (mh_Type mbHeader),
      mbd_ProcessingType = ProcessingTypeString B (mh_ProcessingType mbHeader),
      mbd_TxsHashes = map hex_encode (m_TxHashes (body ! idx)),
      mbd_ExecutionOrderTxsIndices =
        map (\<lambda>(i, h). header_order mbHeader p i h) (enumerate 0 (m_TxHashes (body ! idx)))\<rparr>)"

definition intra_detail :: "block_lib \<Rightarrow> TransactionPool \<Rightarrow> nat \<Rightarrow> nat \<times> MiniBlock \<Rightarrow> MiniBlocksDetails" where
  "intra_detail B p offset = (\<lambda>(idx, mb).
     \<lparr>mbd_IndexFirstProcessedTx = 0, mbd_IndexLastProcessedTx = signed_take_bit 31 (int (length (m_TxHashes mb)) - 1),
      mbd_SenderShardID = m_SenderShardID mb, mbd_ReceiverShardID = m_ReceiverShardID mb,
      mbd_MBIndex = idx + offset, mbd_Type = TypeString B (m_Type mb), mbd_ProcessingType = ProcessingTypeString B Normal,
      mbd_TxsHashes = map hex_encode (m_TxHashes mb),
      mbd_ExecutionOrderTxsIndices = map (order_or_not_found \<circ> pool_order p (m_Type mb)) (m_TxHashes mb)\<rparr>)"

abbreviation header_listed :: "nat \<times> MiniBlockHeader \<Rightarrow> bool" where
  "header_listed \<equiv> \<lambda>(i, mbh). mh_Type mbh \<noteq> PeerBlock"

abbreviation intra_listed :: "nat \<times> MiniBlock \<Rightarrow> bool" where
  "intra_listed \<equiv> \<lambda>(i, mb). m_Type mb \<noteq> PeerBlock \<and> m_Type mb \<noteq> ReceiptBlock"

lemma header_details:
  "appendBlockDetailsFromHeaders B imhs body (Some p) ds =
     (if \<exists>(i, mbh) \<in> set imhs. mh_Type mbh \<noteq> PeerBlock \<and> length body \<le> i then Inl PanicIndexOutOfRange
      else Inr (ds @ map (header_detail B body p) (filter header_listed imhs)))"
proof (induction imhs arbitrary: ds)
  case (Cons im rest)
  obtain idx mbh where im: "im = (idx, mbh)" by (cases im)
  show ?case
  proof (cases "mh_Type mbh = PeerBlock \<or> length body \<le> idx")
    case True
    then show ?thesis by (auto simp: im Cons.IH index_r_def)
  next
    case False
    then have "appendBlockDetailsFromHeaders B (im # rest) body (Some p) ds =
        appendBlockDetailsFromHeaders B rest body (Some p) (ds @ [header_detail B body p im])"
      by (simp add: im header_orders header_detail_def)
    then show ?thesis using False by (simp add: im Cons.IH)
  qed
qed simp

lemma intra_details:
  "appendBlockDetailsFromIntraShardMbs B imbs (Some p) offset ds =
     Inr (ds @ map (intra_detail B p offset) (filter intra_listed imbs))"
  by (induction B imbs "Some p" offset ds rule: appendBlockDetailsFromIntraShardMbs.induct)
    (auto simp: intra_orders intra_detail_def)

lemma sorted_enumerate_filter: "sorted_wrt (<) (map fst (filter P (enumerate n xs)))"
proof (induction xs arbitrary: n)
  case (Cons x xs)
  have "Suc n \<le> i" if "(i, y) \<in> set (enumerate (Suc n) xs)" for i y using that by (auto simp: in_set_enumerate_eq)
  with Cons [of "Suc n"] show ?case by (auto simp: Suc_le_eq)
qed simp

lemma count_loop:
  "fold (\<lambda>mb n. if mh_Type mb = PeerBlock then n else n + mh_TxCount mb) mbs a =
     a + sum_list (map mh_TxCount (filter (\<lambda>mb. mh_Type mb \<noteq> PeerBlock) mbs))"
  by (induction mbs arbitrary: a) (simp_all add: algebra_simps)

lemma unat_sum_list:
  fixes ws :: "u32 list"
  assumes "sum_list (map unat ws) < 2 ^ 32"
  shows "unat (sum_list ws) = sum_list (map unat ws)"
  using assms
proof (induction ws)
  case (Cons w ws)
  then have "unat (sum_list ws) = sum_list (map unat ws)" "unat w + sum_list (map unat ws) < 2 ^ 32" by simp_all
  then show ?case by (simp add: unat_word_ariths)
qed simp

section \<open>Properties\<close>

text \<open>
  C25. For the shards the two digits of the identifier cover (the metachain and shard numbers below 98)
  and nonces below \<open>10 ^ 16\<close>, the search order of a block determines its shard and nonce, and within a
  shard it grows strictly with the nonce: sorting by it is sorting by height.
\<close>

theorem block_search_order:
  assumes "shard_ok K s" and "shard_ok K t" and "unat m < 10 ^ 16" and "unat n < 10 ^ 16"
  shows "(computeBlockSearchOrder K s m = computeBlockSearchOrder K t n \<longleftrightarrow> s = t \<and> m = n) \<and>
    (computeBlockSearchOrder K s m < computeBlockSearchOrder K s n \<longleftrightarrow> m < n)"
proof
  have small: "unat (createShardIdentifier K r) < 100" if "shard_ok K r" for r
    using createShardIdentifier_unat [OF that] that by auto
  have "s = t" if "unat (createShardIdentifier K s) = unat (createShardIdentifier K t)"
    using assms(1,2) that by (rule createShardIdentifier_inject)
  moreover have "unat (createShardIdentifier K s) = unat (createShardIdentifier K t) \<and> unat m = unat n"
    if "computeBlockSearchOrder K s m = computeBlockSearchOrder K t n"
    using computeBlockSearchOrder_value [OF assms(1,3)] computeBlockSearchOrder_value [OF assms(2,4)]
    by (intro order_value_inject small assms(1,2)) (simp add: that)
  ultimately show "computeBlockSearchOrder K s m = computeBlockSearchOrder K t n \<longleftrightarrow> s = t \<and> m = n"
    by (auto intro: word_unat_eq_iff [THEN iffD2])
  show "computeBlockSearchOrder K s m < computeBlockSearchOrder K s n \<longleftrightarrow> m < n"
    unfolding word_less_nat_alt computeBlockSearchOrder_value [OF assms(1,3)] computeBlockSearchOrder_value [OF assms(1,4)]
    by (rule order_value_less_iff)
qed

text \<open>
  C26. The execution order of the transaction at position \<open>i\<close> of a miniblock: \<open>-1\<close> exactly when the
  header did not process that position in this block, \<open>-2\<close> exactly when it did and the pool of the
  miniblock's type does not have the hash, and \<open>w\<close> exactly when the pool has it with that order.
\<close>

theorem execution_order_meaning:
  assumes "extractExecutionOrderIndicesFromPool mbh hs (Some p) = Inr os" and "length hs \<le> 2 ^ 31" and "i < length hs"
  shows "length os = length hs \<and>
    (let processed = (mh_IndexOfFirstTxProcessed mbh \<le> int i \<and> int i \<le> mh_IndexOfLastTxProcessed mbh);
         r = pool_order p (mh_Type mbh) (hs ! i) in
      (os ! i = - 1 \<longleftrightarrow> \<not> processed) \<and> (os ! i = - 2 \<longleftrightarrow> processed \<and> r = None) \<and>
      (\<forall>w. os ! i = uint w \<longleftrightarrow> processed \<and> r = Some w))"
proof -
  have os: "os = map (\<lambda>(i, h). header_order mbh p i h) (enumerate 0 hs)" using assms(1) by (simp add: header_orders)
  have "signed_take_bit 31 (int i) = int i" using assms(2,3) by (intro signed_take_bit_int_eq_self) auto
  then have "os ! i = (if mh_IndexOfFirstTxProcessed mbh \<le> int i \<and> int i \<le> mh_IndexOfLastTxProcessed mbh
      then order_or_not_found (pool_order p (mh_Type mbh) (hs ! i)) else notExecutedInCurrentBlock)"
    using assms(3) by (simp add: os nth_enumerate_eq header_order_def)
  moreover have "- 1 \<noteq> uint w" for w :: u32 using uint_ge_0 [of w] by linarith
  moreover have "length os = length hs" by (simp add: os)
  ultimately show ?thesis
    using order_or_not_found_cases [of "pool_order p (mh_Type mbh) (hs ! i)"]
    by (cases "mh_IndexOfFirstTxProcessed mbh \<le> int i \<and> int i \<le> mh_IndexOfLastTxProcessed mbh")
      (auto simp: Let_def notExecutedInCurrentBlock_def notFound_def)
qed


lemma prepared_details:
  assumes "PrepareBlockForDB L B K obh = Inr b" and "ob_TransactionPool obh = Some p"
    and "ob_Header obh = Some header" and "ob_BlockData obh = Some bd"
  shows "\<exists>body. bd_Body bd = Some body \<and> bl_MiniBlocksDetails b =
      map (header_detail B body p) (filter header_listed (enumerate 0 (h_MiniBlockHeaders header))) @
      map (intra_detail B p (length (h_MiniBlockHeaders header))) (filter intra_listed (enumerate 0 (bd_IntraShardMiniBlocks bd)))"
  using assms
  by (auto simp: PrepareBlockForDB_def bindr_Inr_iff header_details intra_details addEpochStartInfoForMeta_def Let_def
      case_prod_unfold split: option.splits if_splits)

text \<open>
  C28. The details of a block document list the non-peer miniblock headers and then the miniblocks inside
  the shard that are neither peer nor receipt miniblocks, in order: the miniblock indices increase strictly,
  they are exactly the positions of these miniblocks (those inside the shard counted after the headers), and
  every entry has one execution order per transaction hash.
\<close>

theorem block_details_indices:
  assumes "PrepareBlockForDB L B K obh = Inr b" and "ob_TransactionPool obh = Some p"
    and "ob_Header obh = Some header" and "ob_BlockData obh = Some bd"
  shows "sorted_wrt (<) (map mbd_MBIndex (bl_MiniBlocksDetails b)) \<and>
    set (map mbd_MBIndex (bl_MiniBlocksDetails b)) =
      {i. i < length (h_MiniBlockHeaders header) \<and> mh_Type (h_MiniBlockHeaders header ! i) \<noteq> PeerBlock} \<union>
      {length (h_MiniBlockHeaders header) + j | j. j < length (bd_IntraShardMiniBlocks bd) \<and>
         m_Type (bd_IntraShardMiniBlocks bd ! j) \<notin> {PeerBlock, ReceiptBlock}} \<and>
    list_all (\<lambda>d. length (mbd_ExecutionOrderTxsIndices d) = length (mbd_TxsHashes d)) (bl_MiniBlocksDetails b)"
proof -
  let ?n = "length (h_MiniBlockHeaders header)"
  let ?hs = "filter header_listed (enumerate 0 (h_MiniBlockHeaders header))"
  let ?is = "filter intra_listed (enumerate 0 (bd_IntraShardMiniBlocks bd))"
  from prepared_details [OF assms] obtain body where
    ds: "bl_MiniBlocksDetails b = map (header_detail B body p) ?hs @ map (intra_detail B p ?n) ?is" by blast
  have idx: "map mbd_MBIndex (bl_MiniBlocksDetails b) = map fst ?hs @ map (\<lambda>j. j + ?n) (map fst ?is)"
    by (simp add: ds header_detail_def intra_detail_def case_prod_unfold)
  have below: "i < k + ?n" if "i \<in> set (map fst ?hs)" for i k using that by (auto simp: in_set_enumerate_eq)
  have "sorted_wrt (<) (map (\<lambda>j. j + ?n) (map fst ?is))"
    using sorted_enumerate_filter [of intra_listed 0 "bd_IntraShardMiniBlocks bd"] by (simp add: sorted_wrt_map)
  moreover have "x < y" if "x \<in> set (map fst ?hs)" "y \<in> set (map (\<lambda>j. j + ?n) (map fst ?is))" for x y
  proof -
    from that(2) obtain j where "y = j + ?n" unfolding set_map by blast
    with below [OF that(1), of j] show ?thesis by simp
  qed
  ultimately have "sorted_wrt (<) (map mbd_MBIndex (bl_MiniBlocksDetails b))"
    unfolding idx sorted_wrt_append by (intro conjI ballI sorted_enumerate_filter)
  moreover have "set (map fst ?hs) = {i. i < ?n \<and> mh_Type (h_MiniBlockHeaders header ! i) \<noteq> PeerBlock}"
    by (force simp: in_set_enumerate_eq)
  moreover have "set (map (\<lambda>j. j + ?n) (map fst ?is)) = {?n + j | j. j < length (bd_IntraShardMiniBlocks bd) \<and>
      m_Type (bd_IntraShardMiniBlocks bd ! j) \<notin> {PeerBlock, ReceiptBlock}}"
    by (force simp: in_set_enumerate_eq)
  moreover have "list_all (\<lambda>d. length (mbd_ExecutionOrderTxsIndices d) = length (mbd_TxsHashes d)) (bl_MiniBlocksDetails b)"
    by (auto simp: ds header_detail_def intra_detail_def list_all_iff)
  ultimately show ?thesis unfolding idx set_append by blast
qed

text \<open>
  In a metachain block whose own miniblocks account for no more transactions than the header counts,
  the count of transactions is the sum over the non-peer miniblock headers, without wrap-around, and the
  notarized count is the rest; in a shard block nothing is notarized.
\<close>

theorem getTxsCount_split:
  assumes "h_IsMetaBlock header"
    and "sum_list (map (unat \<circ> mh_TxCount) (filter (\<lambda>mb. mh_Type mb \<noteq> PeerBlock) (h_MiniBlockHeaders header)))
           \<le> unat (h_TxCount header)"
  shows "if h_ShardID header = k_MetachainShardId K
    then unat (fst (getTxsCount K header)) =
           sum_list (map (unat \<circ> mh_TxCount) (filter (\<lambda>mb. mh_Type mb \<noteq> PeerBlock) (h_MiniBlockHeaders header))) \<and>
         unat (fst (getTxsCount K header)) + unat (snd (getTxsCount K header)) = unat (h_TxCount header)
    else getTxsCount K header = (h_TxCount header, 0)"
proof (cases "h_ShardID header = k_MetachainShardId K")
  case True
  let ?cs = "map mh_TxCount (filter (\<lambda>mb. mh_Type mb \<noteq> PeerBlock) (h_MiniBlockHeaders header))"
  have run: "getTxsCount K header = (sum_list ?cs, h_TxCount header - sum_list ?cs)"
    using True assms(1) by (simp add: getTxsCount_def count_loop Let_def)
  have "unat (h_TxCount header) < 2 ^ 32" using unsigned_less [of "h_TxCount header", where 'a = nat] by simp
  with assms(2) have "sum_list (map unat ?cs) < 2 ^ 32" by simp
  from unat_sum_list [OF this] have sum: "unat (sum_list ?cs) = sum_list (map unat ?cs)" .
  with assms(2) have "sum_list ?cs \<le> h_TxCount header" by (simp add: word_le_nat_alt)
  then have "unat (h_TxCount header - sum_list ?cs) = unat (h_TxCount header) - unat (sum_list ?cs)"
    by (rule unat_sub)
  with sum assms(2) True show ?thesis by (simp add: run)
next
  case False
  then show ?thesis by (auto simp: getTxsCount_def)
qed

section \<open>Witnesses\<close>

lemma demo_shards: "shard_ok demo_consts 0" "shard_ok demo_consts 1"
  by simp_all

theorem block_search_order_witness:
  "computeBlockSearchOrder demo_consts 0 9 \<noteq> computeBlockSearchOrder demo_consts 1 9 \<and>
   computeBlockSearchOrder demo_consts 0 9 < computeBlockSearchOrder demo_consts 0 10"
  using block_search_order [OF demo_shards, of 9 9] block_search_order [OF demo_shards, of 9 10] by simp

theorem execution_order_meaning_witness:
  "\<exists>os. extractExecutionOrderIndicesFromPool (demo_mbh\<lparr>mh_Type := RewardsBlock\<rparr>) [''a'', ''b'', ''c''] (Some demo_pool) = Inr os \<and>
     os ! 0 = - 1 \<and> os ! 1 = uint (rwi_ExecutionOrder demo_reward)"
proof -
  let ?mbh = "demo_mbh\<lparr>mh_Type := RewardsBlock\<rparr>"
  obtain os where os: "extractExecutionOrderIndicesFromPool ?mbh [''a'', ''b'', ''c''] (Some demo_pool) = Inr os"
    by (simp add: header_orders)
  have "pool_order demo_pool RewardsBlock ''b'' = Some (rwi_ExecutionOrder demo_reward)"
    by (simp add: pool_order_def demo_pool_def)
  with os execution_order_meaning [OF os, of 0] execution_order_meaning [OF os, of 1] show ?thesis
    by (simp add: Let_def demo_mbh_def)
qed

definition demo_block_lib :: block_lib where
  "demo_block_lib = \<lparr>MarshalBody = (\<lambda>_. Some []), SizeTx = (\<lambda>_. 1), SizeReward = (\<lambda>_. 1), SizeSCR = (\<lambda>_. 1),
     TypeString = (\<lambda>_. ''TxBlock''), ProcessingTypeString = (\<lambda>_. ''Normal'')\<rparr>"

definition demo_full_header :: HeaderFull where
  "demo_full_header = \<lparr>h_ShardID = 0, h_Nonce = 5, h_Round = 6, h_Epoch = 1, h_TimeStamp = 7, h_TxCount = 3,
     h_MiniBlockHeaders = [demo_mbh], h_MiniBlockHeadersHashes = [''x''], h_IsMetaBlock = False,
     hf_PubKeysBitmap = [], hf_RootHash = [], hf_PrevHash = [], hf_IsStartOfEpochBlock = False,
     hf_AccumulatedFees = Some 1, hf_DeveloperFees = None, hf_RandSeed = [], hf_PrevRandSeed = [], hf_Signature = [],
     hf_LeaderSignature = [], hf_ChainID = [], hf_SoftwareVersion = [], hf_ReceiptsHash = [], hf_Reserved = [],
     hf_AdditionalData = None,
     hf_Economics = \<lparr>ec_TotalSupply = 0, ec_TotalToDistribute = 0, ec_TotalNewlyMinted = 0, ec_RewardsPerBlock = 0,
       ec_RewardsForProtocolSustainability = 0, ec_NodePrice = 0, ec_PrevEpochStartRound = 0, ec_PrevEpochStartHash = []\<rparr>,
     hf_LastFinalizedHeaders = []\<rparr>"

definition demo_block :: "MiniBlock list \<Rightarrow> OutportBlockWithHeader" where
  "demo_block mbs = \<lparr>ob_Header = Some demo_full_header,
     ob_BlockData = Some \<lparr>bd_HeaderBytes = ''h'', bd_HeaderType = ''H'', bd_HeaderHash = ''hh'', bd_Body = Some mbs,
       bd_IntraShardMiniBlocks = [demo_mb SmartContractResultBlock [''b'']]\<rparr>,
     ob_TransactionPool = Some demo_pool,
     ob_HeaderGasConsumption = Some \<lparr>gc_GasProvided = 1, gc_GasRefunded = 0, gc_GasPenalized = 0, gc_MaxGasPerBlock = 2\<rparr>,
     ob_SignersIndexes = [2, 1], ob_NotarizedHeadersHashes = []\<rparr>"

lemma demo_block_pool: "ob_TransactionPool (demo_block mbs) = Some demo_pool"
  by (simp add: demo_block_def)

lemma demo_block_run: "\<exists>b. PrepareBlockForDB demo_lib demo_block_lib demo_consts (demo_block [demo_mb TxBlock [''a'']]) = Inr b"
  by (simp add: PrepareBlockForDB_def demo_block_def computeBlockSize_def demo_block_lib_def header_details intra_details
      demo_full_header_def Let_def case_prod_unfold)


theorem block_details_indices_witness:
  "\<exists>b. PrepareBlockForDB demo_lib demo_block_lib demo_consts (demo_block [demo_mb TxBlock [''a'']]) = Inr b \<and>
     set (map mbd_MBIndex (bl_MiniBlocksDetails b)) = {0, 1}"
proof -
  obtain bd where bd: "ob_BlockData (demo_block [demo_mb TxBlock [''a'']]) = Some bd"
    "bd_IntraShardMiniBlocks bd = [demo_mb SmartContractResultBlock [''b'']]"
    by (simp add: demo_block_def)
  obtain b where b: "PrepareBlockForDB demo_lib demo_block_lib demo_consts (demo_block [demo_mb TxBlock [''a'']]) = Inr b"
    using demo_block_run by blast
  have "ob_Header (demo_block [demo_mb TxBlock [''a'']]) = Some demo_full_header" by (simp add: demo_block_def)
  from block_details_indices [OF b demo_block_pool this bd(1)] b show ?thesis
    by (auto simp: bd(2) demo_full_header_def demo_mbh_def demo_mb_def)
qed

theorem getTxsCount_split_witness:
  "let header = demo_full_header\<lparr>h_IsMetaBlock := True, h_TxCount := 5, h_ShardID := k_MetachainShardId demo_consts\<rparr> in
     unat (fst (getTxsCount demo_consts header)) = 3 \<and>
     unat (fst (getTxsCount demo_consts header)) + unat (snd (getTxsCount demo_consts header)) = 5"
  using getTxsCount_split [of "demo_full_header\<lparr>h_IsMetaBlock := True, h_TxCount := 5, h_ShardID := k_MetachainShardId demo_consts\<rparr>"
      demo_consts]
  by (simp add: demo_full_header_def demo_mbh_def Let_def)

end
