(* ===== verification/Json.thy ===== *)
theory Json
  imports Converters
begin

text \<open>
  The text the serializers build: \<^verbatim>\<open>encoding/json\<close> (strings with the escapes of the default encoder, which
  also escapes the HTML characters; numbers; structs as ordered lists of fields), \<^verbatim>\<open>encoding/base64\<close>, the
  shortest decimal text of a float of \<^verbatim>\<open>strconv\<close>, and \<^verbatim>\<open>converters/json.go\<close>.

  An empty byte slice or string slice is the nil one, which \<^verbatim>\<open>json.Marshal\<close> writes as \<^verbatim>\<open>null\<close> where the
  field has no \<^verbatim>\<open>omitempty\<close>, unless the sources create it with \<^verbatim>\<open>make\<close>.
\<close>

section \<open>Shortest decimal text of a float\<close>

text \<open>The exponent \<open>k\<close> with \<open>10 ^ k \<le> x < 10 ^ (k + 1)\<close>, for a positive \<open>x\<close>.\<close>

definition ilog10 :: "rat \<Rightarrow> int" where
  "ilog10 x =
     (let (p, q) = quotient_of x;
          d = int (length (dec_nat (nat p))) - int (length (dec_nat (nat q)))
      in if x < 10 powi d then d - 1 else d)"

text \<open>
  \<^verbatim>\<open>strconv\<close> with precision \<open>-1\<close>: the fewest digits whose value rounds back to the float, and of two
  such values the closer one.  The result is the digits and the position of the decimal point.
\<close>

fun shortest_from :: "(rat \<Rightarrow> f64) \<Rightarrow> rat \<Rightarrow> int \<Rightarrow> nat \<Rightarrow> nat \<Rightarrow> string \<times> int" where
  "shortest_from rd x k n 0 =
     (let c = dec_nat (nat \<lfloor>x / 10 powi (k - int n + 1)\<rfloor>) in (c, int (length c) + k - int n + 1))"
| "shortest_from rd x k n (Suc left) =
     (let e = k - int n + 1; u = 10 powi e; lo = \<lfloor>x / u\<rfloor>; hi = lo + 1;
          lo_ok = (lo > 0 \<and> rd (of_int lo * u) = Fin x); hi_ok = (rd (of_int hi * u) = Fin x);
          pick = (\<lambda>c. let s = dec_nat (nat c) in (s, int (length s) + e))
      in if lo_ok \<and> (\<not> hi_ok \<or> x - of_int lo * u \<le> of_int hi * u - x) then pick lo
         else if hi_ok then pick hi
         else shortest_from rd x k (Suc n) left)"

definition strip_zeros :: "string \<Rightarrow> string" where
  "strip_zeros s = rev (dropWhile (\<lambda>c. c = CHR ''0'') (rev s))"

definition shortest_digits :: "(rat \<Rightarrow> f64) \<Rightarrow> rat \<Rightarrow> string \<times> int" where
  "shortest_digits rd x = (let (s, dp) = shortest_from rd x (ilog10 x) 1 17 in (strip_zeros s, dp))"

definition fmt_f :: "string \<Rightarrow> int \<Rightarrow> string" where
  "fmt_f ds dp =
     (if dp \<le> 0 then ''0.'' @ replicate (nat (- dp)) (CHR ''0'') @ ds
      else if int (length ds) \<le> dp then ds @ replicate (nat dp - length ds) (CHR ''0'')
      else take (nat dp) ds @ ''.'' @ drop (nat dp) ds)"

definition exp_text :: "bool \<Rightarrow> int \<Rightarrow> string" where
  "exp_text clean e =
     (let s = dec_nat (nat \<bar>e\<bar>); two = (if length s < 2 \<and> \<not> (clean \<and> e < 0) then CHR ''0'' # s else s)
      in ''e'' @ (if e < 0 then ''-'' else ''+'') @ two)"

definition fmt_e :: "bool \<Rightarrow> string \<Rightarrow> int \<Rightarrow> string" where
  "fmt_e clean ds dp =
     take 1 ds @ (if length ds > 1 then ''.'' @ drop 1 ds else []) @ exp_text clean (dp - 1)"

definition sign_text :: "rat \<Rightarrow> string" where
  "sign_text x = (if x < 0 then ''-'' else [])"

text \<open>Single precision, for the one \<^verbatim>\<open>float32\<close> field of the documents.\<close>

definition rnd32 :: "rat \<Rightarrow> f64" where
  "rnd32 x =
     (let u = 2 powi (max (ilog2 x) (- 126) - 23); v = of_int (round_half_even (x / u)) * u
      in if v \<ge> 2 ^ 128 then PosInf else Fin v)"

text \<open>The number of a JSON document, and \<^verbatim>\<open>%g\<close>.\<close>

definition json_float :: "(rat \<Rightarrow> f64) \<Rightarrow> rat \<Rightarrow> string" where
  "json_float rd x =
     (if x = 0 then ''0''
      else let (ds, dp) = shortest_digits rd \<bar>x\<bar> in
        sign_text x @ (if \<bar>x\<bar> < 1 / 10 ^ 6 \<or> 10 ^ 21 \<le> \<bar>x\<bar> then fmt_e True ds dp else fmt_f ds dp))"

fun percent_g :: "f64 \<Rightarrow> string" where
  "percent_g (Fin x) =
     (if x = 0 then ''0''
      else let (ds, dp) = shortest_digits rnd_pos \<bar>x\<bar> in
        sign_text x @ (if dp - 1 < - 4 \<or> 6 \<le> dp - 1 then fmt_e False ds dp else fmt_f ds dp))"
| "percent_g PosInf = ''+Inf''"
| "percent_g NegInf = ''-Inf''"
| "percent_g NaN = ''NaN''"

section \<open>Strings\<close>

text \<open>\<^verbatim>\<open>utf8.DecodeRuneInString\<close> at a byte that is not ASCII: the size of the rune, 0 when it is invalid.\<close>

definition byte_in :: "string \<Rightarrow> nat \<Rightarrow> nat \<Rightarrow> nat \<Rightarrow> bool" where
  "byte_in s i lo hi \<longleftrightarrow> i < length s \<and> lo \<le> of_char (s ! i) \<and> of_char (s ! i) \<le> hi"

definition rune2 :: "string \<Rightarrow> bool" where
  "rune2 s \<longleftrightarrow> byte_in s 0 194 223 \<and> byte_in s 1 128 191"

definition rune3 :: "string \<Rightarrow> bool" where
  "rune3 s \<longleftrightarrow>
     (byte_in s 0 224 224 \<and> byte_in s 1 160 191 \<or> (byte_in s 0 225 236 \<or> byte_in s 0 238 239) \<and> byte_in s 1 128 191 \<or>
      byte_in s 0 237 237 \<and> byte_in s 1 128 159) \<and> byte_in s 2 128 191"

definition rune4 :: "string \<Rightarrow> bool" where
  "rune4 s \<longleftrightarrow>
     (byte_in s 0 240 240 \<and> byte_in s 1 144 191 \<or> byte_in s 0 241 243 \<and> byte_in s 1 128 191 \<or>
      byte_in s 0 244 244 \<and> byte_in s 1 128 143) \<and> byte_in s 2 128 191 \<and> byte_in s 3 128 191"

definition rune_size :: "string \<Rightarrow> nat" where
  "rune_size s = (if rune2 s then 2 else if rune3 s then 3 else if rune4 s then 4 else 0)"

definition backslash :: char where "backslash = CHR 0x5C"

definition escape_ascii :: "char \<Rightarrow> string" where
  "escape_ascii c =
     (if c = backslash \<or> c = CHR 0x22 then [backslash, c]
      else if c = CHR 0x0A then [backslash, CHR ''n'']
      else if c = CHR 0x0D then [backslash, CHR ''r'']
      else if c = CHR 0x09 then [backslash, CHR ''t'']
      else if (of_char c :: nat) < 32 \<or> c \<in> {CHR ''<'', CHR ''>'', CHR ''&''}
      then backslash # ''u00'' @ [hex_digit (of_char c div 16), hex_digit (of_char c mod 16)]
      else [c])"

text \<open>The separators U+2028 and U+2029 are escaped, an invalid byte becomes U+FFFD.\<close>

definition escape_rune :: "string \<Rightarrow> string" where
  "escape_rune r =
     (if r = [CHR 0xE2, CHR 0x80, CHR 0xA8] then backslash # ''u2028''
      else if r = [CHR 0xE2, CHR 0x80, CHR 0xA9] then backslash # ''u2029''
      else r)"

function json_escape :: "string \<Rightarrow> string" where
  "json_escape [] = []"
| "json_escape (c # s) =
     (if (of_char c :: nat) < 128 then escape_ascii c @ json_escape s
      else if rune_size (c # s) = 0 then (backslash # ''ufffd'') @ json_escape s
      else escape_rune (take (rune_size (c # s)) (c # s)) @ json_escape (drop (rune_size (c # s) - 1) s))"
  by pat_completeness auto
termination
  by (relation "measure length") auto

definition json_string :: "string \<Rightarrow> string" where
  "json_string s = [CHR 0x22] @ json_escape s @ [CHR 0x22]"

section \<open>Values\<close>

datatype json =
    JNull
  | JBool bool
  | JInt int
  | JFloat f64
  | JFloat32 f64
  | JStr string
  | JArr "json list"
  | JObj "(string \<times> json) list"

definition bool_text :: "bool \<Rightarrow> string" where
  "bool_text b = (if b then ''true'' else ''false'')"

fun float_text :: "(rat \<Rightarrow> f64) \<Rightarrow> f64 \<Rightarrow> string" where
  "float_text rd (Fin x) = json_float rd x"
| "float_text rd _ = ''NaN''"

primrec json_text :: "json \<Rightarrow> string" where
  "json_text JNull = ''null''"
| "json_text (JBool b) = bool_text b"
| "json_text (JInt i) = dec_int i"
| "json_text (JFloat f) = float_text rnd_pos f"
| "json_text (JFloat32 f) = float_text rnd32 f"
| "json_text (JStr s) = json_string s"
| "json_text (JArr js) = ''['' @ join_char (CHR '','') (map json_text js) @ '']''"
| "json_text (JObj kvs) = ''{'' @ join_char (CHR '','')
     (map (\<lambda>(k, t). json_string k @ '':'' @ t) (map (map_prod id json_text) kvs)) @ ''}''"

primrec json_finite :: "json \<Rightarrow> bool" where
  "json_finite JNull = True"
| "json_finite (JBool b) = True"
| "json_finite (JInt i) = True"
| "json_finite (JFloat f) = f64_finite f"
| "json_finite (JFloat32 f) = f64_finite f"
| "json_finite (JStr s) = True"
| "json_finite (JArr js) = list_all id (map json_finite js)"
| "json_finite (JObj kvs) = list_all snd (map (map_prod id json_finite) kvs)"

text \<open>\<^verbatim>\<open>json.Marshal\<close> fails only on an infinity or NaN, for the types of the sources.\<close>

definition Marshal :: "json \<Rightarrow> bytes result" where
  "Marshal j = (if json_finite j then Inr (json_text j) else Inl ErrMarshalUnsupportedValue)"

section \<open>Base64\<close>

definition base64_char :: "nat \<Rightarrow> char" where
  "base64_char n =
     (if n < 26 then char_of (65 + n) else if n < 52 then char_of (71 + n) else if n < 62 then char_of (n - 4)
      else if n = 62 then CHR ''+'' else CHR ''/'')"

fun base64_encode :: "bytes \<Rightarrow> string" where
  "base64_encode [] = []"
| "base64_encode [a] =
     (let x = of_char a in [base64_char (x div 4), base64_char ((x mod 4) * 16), CHR ''='', CHR ''=''])"
| "base64_encode [a, b] =
     (let x = of_char a; y = of_char b in
      [base64_char (x div 4), base64_char ((x mod 4) * 16 + y div 16), base64_char ((y mod 16) * 4), CHR ''=''])"
| "base64_encode (a # b # c # s) =
     (let x = of_char a; y = of_char b; z = of_char c in
      [base64_char (x div 4), base64_char ((x mod 4) * 16 + y div 16), base64_char ((y mod 16) * 4 + z div 64),
       base64_char (z mod 64)] @ base64_encode s)"

section \<open>converters/json.go\<close>

definition defaultStr :: string where "defaultStr = ''default''"

text \<open>The first and the last byte of the marshalled string, its quotes, are cut off.\<close>

definition JsonEscape :: "string \<Rightarrow> string" where
  "JsonEscape i =
     (case Marshal (JStr i) of Inl _ \<Rightarrow> defaultStr | Inr b \<Rightarrow> take (length b - 2) (drop 1 b))"

definition PrepareHashesForQueryRemove :: "string list \<Rightarrow> bytes" where
  "PrepareHashesForQueryRemove hashes =
     ''{\"query\": {\"ids\": {\"values\": '' @ json_text (JArr (map JStr hashes)) @ ''}}}''"

section \<open>The text is on one line\<close>

text \<open>A bulk request is read line by line: what stands between two newlines must not contain one.\<close>

definition printable :: "char \<Rightarrow> bool" where
  "printable c \<longleftrightarrow> 32 \<le> (of_char c :: nat)"

named_theorems printable_intros \<open>texts without control characters\<close>

lemma printable_literals [simp]:
  "printable (Char b0 b1 b2 b3 b4 b5 b6 b7) \<longleftrightarrow> b5 \<or> b6 \<or> b7" "printable backslash"
  by (auto simp: printable_def backslash_def)

lemma printable_dec_nat [printable_intros]: "list_all printable (dec_nat n)"
  using dec_nat_digits [of n] by (auto simp: list_all_iff is_digit_char_def printable_def)

lemma printable_dec_int [printable_intros]: "list_all printable (dec_int i)"
  by (simp add: dec_int_def printable_dec_nat)

lemma printable_sublist: "list_all printable s \<Longrightarrow> set t \<subseteq> set s \<Longrightarrow> list_all printable t"
  by (auto simp: list_all_iff)

lemma printable_shortest_from: "list_all printable (fst (shortest_from rd x k n m))"
  by (induction m arbitrary: n) (simp_all add: Let_def printable_dec_nat)

lemma printable_shortest_digits: "list_all printable (fst (shortest_digits rd x))"
proof -
  have "set (strip_zeros s) \<subseteq> set s" for s
    by (auto simp: strip_zeros_def dest: set_dropWhileD)
  with printable_shortest_from [of rd x "ilog10 x" 1 17] show ?thesis
    by (auto simp: shortest_digits_def Let_def case_prod_unfold intro: printable_sublist)
qed

lemma printable_take_drop: "list_all printable s \<Longrightarrow> list_all printable (take n s)"
  "list_all printable s \<Longrightarrow> list_all printable (drop n s)"
  by (auto simp: list_all_iff dest: in_set_takeD in_set_dropD)

lemma printable_fmt: "list_all printable ds \<Longrightarrow> list_all printable (fmt_f ds dp)"
  "list_all printable ds \<Longrightarrow> list_all printable (fmt_e clean ds dp)"
  by (simp_all add: fmt_f_def fmt_e_def exp_text_def Let_def printable_take_drop printable_dec_nat)
    (simp_all add: list_all_iff)

lemma printable_json_float [printable_intros]: "list_all printable (json_float rd x)"
  using printable_shortest_digits [of rd "\<bar>x\<bar>"]
  by (simp add: json_float_def Let_def case_prod_unfold printable_fmt sign_text_def)

lemma printable_percent_g [printable_intros]: "list_all printable (percent_g f)"
  using printable_shortest_digits [of rnd_pos]
  by (cases f) (simp_all add: Let_def case_prod_unfold printable_fmt sign_text_def)

lemma printable_hex_digit [simp]: "n < 16 \<Longrightarrow> printable (hex_digit n)"
  by (auto simp: printable_def hex_digit_def)

lemma printable_escape_ascii: "list_all printable (escape_ascii c)"
proof -
  have "(of_char c :: nat) div 16 < 16" "(of_char c :: nat) mod 16 < 16"
    using nat_of_char_less_256 [of c] by (simp_all add: less_mult_imp_div_less)
  then show ?thesis by (simp add: escape_ascii_def not_less printable_def [of c, symmetric])
qed

lemma byte_in_high: "byte_in s i lo hi \<Longrightarrow> 128 \<le> lo \<Longrightarrow> i < length s \<and> 128 \<le> (of_char (s ! i) :: nat)"
  by (auto simp: byte_in_def)

lemma rune_size_bytes: "i < rune_size s \<Longrightarrow> i < length s \<and> 128 \<le> (of_char (s ! i) :: nat)"
proof -
  have two: "i = 0 \<or> i = 1 \<Longrightarrow> i < length s \<and> 128 \<le> (of_char (s ! i) :: nat)" if "rune2 s"
    using that unfolding rune2_def by (auto dest!: byte_in_high)
  have three: "i = 0 \<or> i = 1 \<or> i = 2 \<Longrightarrow> i < length s \<and> 128 \<le> (of_char (s ! i) :: nat)" if "rune3 s"
    using that unfolding rune3_def by (elim conjE disjE) (auto dest!: byte_in_high)
  have four: "i = 0 \<or> i = 1 \<or> i = 2 \<or> i = 3 \<Longrightarrow> i < length s \<and> 128 \<le> (of_char (s ! i) :: nat)" if "rune4 s"
    using that unfolding rune4_def by (elim conjE disjE) (auto dest!: byte_in_high)
  assume "i < rune_size s"
  then show ?thesis using two three four by (simp add: rune_size_def less_Suc_eq eval_nat_numeral split: if_splits)
qed

lemma rune_size_le: "rune_size s \<le> length s"
proof (cases "rune_size s")
  case (Suc n)
  then have "n < length s" using rune_size_bytes [of n s] by simp
  with Suc show ?thesis by simp
qed simp

lemma printable_json_escape [printable_intros]: "list_all printable (json_escape s)"
proof (induction s rule: json_escape.induct)
  case (2 c s)
  have "list_all printable (take (rune_size (c # s)) (c # s))"
    using rune_size_bytes [of _ "c # s"] by (force simp: list_all_length printable_def)
  then have "list_all printable (escape_rune (take (rune_size (c # s)) (c # s)))"
    by (auto simp: escape_rune_def)
  with 2 show ?case by (auto simp: printable_escape_ascii)
qed simp

lemma printable_join_char: "printable c \<Longrightarrow> list_all (list_all printable) ws \<Longrightarrow> list_all printable (join_char c ws)"
  by (induction c ws rule: join_char.induct) auto

lemma printable_json_string [printable_intros]: "list_all printable (json_string s)"
  by (simp add: json_string_def printable_json_escape)

lemma printable_json_text [printable_intros]: "list_all printable (json_text j)"
proof (induction j)
  case (JFloat f)
  then show ?case by (cases f) (simp_all add: printable_json_float)
next
  case (JFloat32 f)
  then show ?case by (cases f) (simp_all add: printable_json_float)
next
  case (JArr js)
  then have "list_all (list_all printable) (map json_text js)" by (simp add: list_all_iff)
  then have "list_all printable (join_char (CHR '','') (map json_text js))"
    by (rule printable_join_char [rotated]) simp
  then show ?case by simp
next
  case (JObj kvs)
  then have "list_all printable (json_text v)" if "(k, v) \<in> set kvs" for k v
    using that by (auto elim!: snds.cases)
  then have "list_all (list_all printable) (map (\<lambda>(k, t). json_string k @ '':'' @ t) (map (map_prod id json_text) kvs))"
    by (auto simp: list_all_iff printable_json_string [unfolded list_all_iff, rule_format])
  then have "list_all printable (join_char (CHR '','') (map (\<lambda>(k, t). json_string k @ '':'' @ t) (map (map_prod id json_text) kvs)))"
    by (rule printable_join_char [rotated]) simp
  then show ?case by simp
qed (simp_all add: printable_intros bool_text_def)

lemma printable_Marshal: "Marshal j = Inr t \<Longrightarrow> list_all printable t"
  by (auto simp: Marshal_def printable_json_text split: if_splits)

lemma JsonEscape_eq: "JsonEscape s = json_escape s"
  by (simp add: JsonEscape_def Marshal_def json_string_def)

lemma printable_JsonEscape [printable_intros]: "list_all printable (JsonEscape s)"
  by (simp add: JsonEscape_eq printable_json_escape)

lemma printable_base64_char: "printable (base64_char n)"
  by (auto simp: base64_char_def printable_def)

lemma printable_base64 [printable_intros]: "list_all printable (base64_encode s)"
  by (induction s rule: base64_encode.induct) (simp_all add: Let_def printable_base64_char)

text \<open>The code of a script is written over several lines; what is left is on one line.\<close>

lemma printable_FormatPainlessSource:
  assumes "list_all (\<lambda>c. printable c \<or> c = CHR 0x09 \<or> c = CHR 0x0A) code"
  shows "list_all printable (FormatPainlessSource code)"
  using assms by (auto simp: FormatPainlessSource_def list_all_iff)

lemma printable_no_newline: "list_all printable s \<Longrightarrow> CHR 0x0A \<notin> set s"
  by (auto simp: list_all_iff printable_def)

end
