(* ===== verification/Docs_Json.thy ===== *)
theory Docs_Json
  imports Json Block_Proc Token_Roles "HOL-Library.Char_ord" "HOL-Library.List_Lexorder"
begin

text \<open>
  The JSON of the documents: for every struct of the package \<^verbatim>\<open>data\<close> the fields that \<^verbatim>\<open>json.Marshal\<close> writes,
  in the order and under the names of the struct tags; fields tagged \<^verbatim>\<open>-\<close> are left out, and fields tagged
  \<^verbatim>\<open>omitempty\<close> are left out when they are empty.
\<close>

section \<open>Fields\<close>

type_synonym json_fields = "(string \<times> json) list"

definition f_str :: "string \<Rightarrow> string \<Rightarrow> json_fields" where "f_str n s = [(n, JStr s)]"
definition f_bool :: "string \<Rightarrow> bool \<Rightarrow> json_fields" where "f_bool n b = [(n, JBool b)]"
definition f_int :: "string \<Rightarrow> int \<Rightarrow> json_fields" where "f_int n i = [(n, JInt i)]"
definition f_uint :: "string \<Rightarrow> 'w::len word \<Rightarrow> json_fields" where "f_uint n w = [(n, JInt (uint w))]"
definition f_float :: "string \<Rightarrow> f64 \<Rightarrow> json_fields" where "f_float n f = [(n, JFloat f)]"

text \<open>A \<^verbatim>\<open>time.Duration\<close> is a signed 64-bit integer.\<close>

definition f_time :: "string \<Rightarrow> u64 \<Rightarrow> json_fields" where "f_time n w = [(n, JInt (sint w))]"

definition json_bytes :: "bytes \<Rightarrow> json" where
  "json_bytes b = (if b = [] then JNull else JStr (base64_encode b))"

definition json_list :: "('a \<Rightarrow> json) \<Rightarrow> 'a list \<Rightarrow> json" where
  "json_list f xs = (if xs = [] then JNull else JArr (map f xs))"

definition f_bytes :: "string \<Rightarrow> bytes \<Rightarrow> json_fields" where "f_bytes n b = [(n, json_bytes b)]"

definition omit_empty :: "bool \<Rightarrow> json_fields \<Rightarrow> json_fields" where
  "omit_empty skip kvs = (if skip then [] else kvs)"

definition o_str :: "string \<Rightarrow> string \<Rightarrow> json_fields" where "o_str n s = omit_empty (s = []) (f_str n s)"
definition o_bool :: "string \<Rightarrow> bool \<Rightarrow> json_fields" where "o_bool n b = omit_empty (\<not> b) (f_bool n b)"
definition o_uint :: "string \<Rightarrow> 'w::len word \<Rightarrow> json_fields" where "o_uint n w = omit_empty (w = 0) (f_uint n w)"
definition o_time :: "string \<Rightarrow> u64 \<Rightarrow> json_fields" where "o_time n w = omit_empty (w = 0) (f_time n w)"
definition o_float :: "string \<Rightarrow> f64 \<Rightarrow> json_fields" where "o_float n f = omit_empty (f = Fin 0) (f_float n f)"
definition o_bytes :: "string \<Rightarrow> bytes \<Rightarrow> json_fields" where "o_bytes n b = omit_empty (b = []) (f_bytes n b)"
definition o_list :: "string \<Rightarrow> ('a \<Rightarrow> json) \<Rightarrow> 'a list \<Rightarrow> json_fields" where
  "o_list n f xs = omit_empty (xs = []) [(n, JArr (map f xs))]"
definition o_ptr :: "string \<Rightarrow> ('a \<Rightarrow> json) \<Rightarrow> 'a option \<Rightarrow> json_fields" where
  "o_ptr n f x = (case x of None \<Rightarrow> [] | Some v \<Rightarrow> [(n, f v)])"

lemmas field_defs = f_str_def f_bool_def f_int_def f_uint_def f_float_def f_time_def f_bytes_def o_str_def o_bool_def
  o_uint_def o_time_def o_float_def o_bytes_def o_list_def omit_empty_def

section \<open>Documents\<close>

definition TokenMetaData_json :: "TokenMetaData \<Rightarrow> json" where
  "TokenMetaData_json m = JObj
     (o_str ''name'' (md_Name m) @ o_str ''creator'' (md_Creator m) @ o_uint ''royalties'' (md_Royalties m) @
      o_bytes ''hash'' (md_Hash m) @ o_list ''uris'' json_bytes (md_URIs m) @ o_list ''tags'' JStr (md_Tags m) @
      o_bytes ''attributes'' (md_Attributes m) @ o_str ''metadata'' (md_MetaData m) @
      f_bool ''nonEmptyURIs'' (md_NonEmptyURIs m) @ f_bool ''whiteListedStorage'' (md_WhiteListedStorage m))"

definition AccountInfo_json :: "AccountInfo \<Rightarrow> json" where
  "AccountInfo_json a = JObj
     (o_str ''address'' (ai_Address a) @ o_uint ''nonce'' (ai_Nonce a) @ f_str ''balance'' (ai_Balance a) @
      f_float ''balanceNum'' (ai_BalanceNum a) @ o_str ''token'' (ai_TokenName a) @
      o_str ''identifier'' (ai_TokenIdentifier a) @ o_uint ''tokenNonce'' (ai_TokenNonce a) @
      o_str ''properties'' (ai_Properties a) @ o_bool ''frozen'' (ai_Frozen a) @ o_str ''owner'' (ai_Owner a) @
      o_str ''userName'' (ai_UserName a) @ o_str ''developerRewards'' (ai_DeveloperRewards a) @
      o_float ''developerRewardsNum'' (ai_DeveloperRewardsNum a) @ o_ptr ''data'' TokenMetaData_json (ai_Data a) @
      o_time ''timestamp'' (ai_Timestamp a) @ o_str ''type'' (ai_Type a) @ o_str ''currentOwner'' (ai_CurrentOwner a) @
      f_uint ''shardID'' (ai_ShardID a) @ o_bytes ''rootHash'' (ai_RootHash a) @ o_bytes ''codeHash'' (ai_CodeHash a) @
      o_bytes ''codeMetadata'' (ai_CodeMetadata a))"

definition AccountBalanceHistory_json :: "AccountBalanceHistory \<Rightarrow> json" where
  "AccountBalanceHistory_json a = JObj
     (f_str ''address'' (abh_Address a) @ f_time ''timestamp'' (abh_Timestamp a) @ f_str ''balance'' (abh_Balance a) @
      o_str ''token'' (abh_Token a) @ o_str ''identifier'' (abh_Identifier a) @ o_uint ''tokenNonce'' (abh_TokenNonce a) @
      o_bool ''isSender'' (abh_IsSender a) @ o_bool ''isSmartContract'' (abh_IsSmartContract a) @
      f_uint ''shardID'' (abh_ShardID a))"

definition TokenProperties_json :: "TokenProperties \<Rightarrow> json" where
  "TokenProperties_json p = JObj
     (f_bool ''canMint'' (tp_Mintable p) @ f_bool ''canBurn'' (tp_Burnable p) @ f_bool ''canUpgrade'' (tp_Upgradable p) @
      f_bool ''canTransferNFTCreateRole'' (tp_CanTransferNFTCreateRole p) @
      f_bool ''canAddSpecialRoles'' (tp_CanAddSpecialRoles p) @ f_bool ''canPause'' (tp_CanPause p) @
      f_bool ''canFreeze'' (tp_CanFreeze p) @ f_bool ''canWipe'' (tp_CanWipe p) @
      f_bool ''canChangeOwner'' (tp_CanChangeOwner p) @ f_bool ''canCreateMultiShard'' (tp_CanCreateMultiShard p))"

definition OwnerData_json :: "OwnerData \<Rightarrow> json" where
  "OwnerData_json d = JObj
     (o_str ''txHash'' (od_TxHash d) @ f_str ''address'' (od_Address d) @ f_time ''timestamp'' (od_Timestamp d))"

definition TokenInfo_json :: "TokenInfo \<Rightarrow> json" where
  "TokenInfo_json t = JObj
     (o_str ''name'' (ti_Name t) @ o_str ''ticker'' (ti_Ticker t) @ o_str ''identifier'' (ti_Identifier t) @
      o_str ''token'' (ti_Token t) @ o_str ''issuer'' (ti_Issuer t) @ o_str ''currentOwner'' (ti_CurrentOwner t) @
      f_uint ''numDecimals'' (ti_NumDecimals t) @ o_str ''type'' (ti_Type t) @ o_uint ''nonce'' (ti_Nonce t) @
      o_time ''timestamp'' (ti_Timestamp t) @ o_ptr ''data'' TokenMetaData_json (ti_Data t) @
      o_list ''ownersHistory'' OwnerData_json (ti_OwnersHistory t) @ o_ptr ''properties'' TokenProperties_json (ti_Properties t))"

definition ScResult_json :: "ScResult \<Rightarrow> json" where
  "ScResult_json s = JObj
     (f_str ''uuid'' (scr_UUID s) @ o_str ''miniBlockHash'' (scr_MBHash s) @ f_uint ''nonce'' (scr_Nonce s) @
      f_uint ''gasLimit'' (scr_GasLimit s) @ f_uint ''gasPrice'' (scr_GasPrice s) @ f_str ''value'' (scr_Value s) @
      f_float ''valueNum'' (scr_ValueNum s) @ f_str ''sender'' (scr_Sender s) @ f_str ''receiver'' (scr_Receiver s) @
      f_uint ''senderShard'' (scr_SenderShard s) @ f_uint ''receiverShard'' (scr_ReceiverShard s) @
      o_str ''relayerAddr'' (scr_RelayerAddr s) @ o_str ''relayedValue'' (scr_RelayedValue s) @ o_str ''code'' (scr_Code s) @
      o_bytes ''data'' (scr_Data s) @ f_str ''prevTxHash'' (scr_PrevTxHash s) @
      f_str ''originalTxHash'' (scr_OriginalTxHash s) @ f_str ''callType'' (scr_CallType s) @
      o_bytes ''codeMetaData'' (scr_CodeMetadata s) @ o_str ''returnMessage'' (scr_ReturnMessage s) @
      f_time ''timestamp'' (scr_Timestamp s) @ o_bool ''hasOperations'' (scr_HasOperations s) @ o_str ''type'' (scr_Type s) @
      o_str ''status'' (scr_Status s) @ o_list ''tokens'' JStr (scr_Tokens s) @ o_list ''esdtValues'' JStr (scr_ESDTValues s) @
      o_list ''esdtValuesNum'' JFloat (scr_ESDTValuesNum s) @ o_list ''receivers'' JStr (scr_Receivers s) @
      o_list ''receiversShardIDs'' (JInt \<circ> uint) (scr_ReceiversShardIDs s) @ o_str ''operation'' (scr_Operation s) @
      o_str ''function'' (scr_Function s) @ o_bool ''isRelayed'' (scr_IsRelayed s) @
      o_bool ''canBeIgnored'' (scr_CanBeIgnored s) @ o_str ''originalSender'' (scr_OriginalSender s) @
      o_bool ''hasLogs'' (scr_HasLogs s) @ f_uint ''epoch'' (scr_Epoch s))"

definition Transaction_json :: "Transaction \<Rightarrow> json" where
  "Transaction_json t = JObj
     (f_str ''uuid'' (tx_UUID t) @ f_str ''miniBlockHash'' (tx_MBHash t) @ f_uint ''nonce'' (tx_Nonce t) @
      f_uint ''round'' (tx_Round t) @ f_str ''value'' (tx_Value t) @ f_float ''valueNum'' (tx_ValueNum t) @
      f_str ''receiver'' (tx_Receiver t) @ f_str ''sender'' (tx_Sender t) @ f_uint ''receiverShard'' (tx_ReceiverShard t) @
      f_uint ''senderShard'' (tx_SenderShard t) @ f_uint ''gasPrice'' (tx_GasPrice t) @ f_uint ''gasLimit'' (tx_GasLimit t) @
      f_uint ''gasUsed'' (tx_GasUsed t) @ f_str ''fee'' (tx_Fee t) @ f_float ''feeNum'' (tx_FeeNum t) @
      o_str ''initialPaidFee'' (tx_InitialPaidFee t) @ f_bytes ''data'' (tx_Data t) @ f_str ''signature'' (tx_Signature t) @
      f_time ''timestamp'' (tx_Timestamp t) @ f_str ''status'' (tx_Status t) @ f_uint ''searchOrder'' (tx_SearchOrder t) @
      o_bytes ''senderUserName'' (tx_SenderUserName t) @ o_bytes ''receiverUserName'' (tx_ReceiverUserName t) @
      o_bool ''hasScResults'' (tx_HasSCR t) @ o_bool ''isScCall'' (tx_IsScCall t) @
      o_bool ''hasOperations'' (tx_HasOperations t) @ o_bool ''hasLogs'' (tx_HasLogs t) @ o_list ''tokens'' JStr (tx_Tokens t) @
      o_list ''esdtValues'' JStr (tx_ESDTValues t) @ o_list ''esdtValuesNum'' JFloat (tx_ESDTValuesNum t) @
      o_list ''receivers'' JStr (tx_Receivers t) @ o_list ''receiversShardIDs'' (JInt \<circ> uint) (tx_ReceiversShardIDs t) @
      o_str ''type'' (tx_Type t) @ o_str ''operation'' (tx_Operation t) @ o_str ''function'' (tx_Function t) @
      o_bool ''isRelayed'' (tx_IsRelayed t) @ o_uint ''version'' (tx_Version t) @ o_str ''guardian'' (tx_GuardianAddress t) @
      o_str ''guardianSignature'' (tx_GuardianSignature t) @ o_bool ''errorEvent'' (tx_ErrorEvent t) @
      o_bool ''completedEvent'' (tx_CompletedEvent t) @ o_str ''relayer'' (tx_RelayedAddr t) @
      o_str ''relayerSignature'' (tx_RelayedSignature t) @ o_bool ''hadRefund'' (tx_HadRefund t) @ f_uint ''epoch'' (tx_Epoch t))"

definition Receipt_json :: "Receipt \<Rightarrow> json" where
  "Receipt_json r = JObj
     (f_str ''value'' (rec_Value r) @ f_str ''sender'' (rec_Sender r) @ o_str ''data'' (rec_Data r) @
      f_str ''txHash'' (rec_TxHash r) @ f_time ''timestamp'' (rec_Timestamp r))"

definition Upgrade_json :: "Upgrade \<Rightarrow> json" where
  "Upgrade_json u = JObj
     (f_str ''upgradeTxHash'' (up_TxHash u) @ f_str ''upgrader'' (up_Upgrader u) @ f_uint ''timestamp'' (up_Timestamp u) @
      f_bytes ''codeHash'' (up_CodeHash u))"

text \<open>The serializer sets both slices of a deploy to empty slices made with \<^verbatim>\<open>make\<close>.\<close>

definition ScDeployInfo_json :: "ScDeployInfo \<Rightarrow> json" where
  "ScDeployInfo_json d = JObj
     (f_str ''deployTxHash'' (sd_TxHash d) @ f_str ''deployer'' (sd_Creator d) @ f_str ''currentOwner'' (sd_CurrentOwner d) @
      f_bytes ''initialCodeHash'' (sd_CodeHash d) @ f_uint ''timestamp'' (sd_Timestamp d) @
      [(''upgrades'', JArr (map Upgrade_json (sd_Upgrades d))), (''owners'', JArr (map OwnerData_json (sd_OwnersHistory d)))])"

definition UnDelegate_json :: "UnDelegate \<Rightarrow> json" where
  "UnDelegate_json u = JObj
     (f_time ''timestamp'' (ud_Timestamp u) @ f_str ''id'' (ud_ID u) @ f_str ''value'' (ud_Value u) @
      f_float ''valueNum'' (ud_ValueNum u))"

definition Delegator_json :: "Delegator \<Rightarrow> json" where
  "Delegator_json d = JObj
     (f_str ''address'' (dg_Address d) @ f_str ''contract'' (dg_Contract d) @ f_time ''timestamp'' (dg_Timestamp d) @
      f_str ''activeStake'' (dg_ActiveStake d) @ f_float ''activeStakeNum'' (dg_ActiveStakeNum d))"

text \<open>The topics of an event document come from \<^verbatim>\<open>hexEncodeSlice\<close>, never nil.\<close>

definition LogEvent_json :: "LogEvent \<Rightarrow> json" where
  "LogEvent_json e = JObj
     (f_str ''uuid'' (le_UUID e) @ f_str ''txHash'' (le_TxHash e) @ o_str ''originalTxHash'' (le_OriginalTxHash e) @
      f_str ''logAddress'' (le_LogAddress e) @ f_str ''address'' (le_Address e) @ f_str ''identifier'' (le_Identifier e) @
      o_str ''data'' (le_Data e) @ o_list ''additionalData'' JStr (le_AdditionalData e) @
      [(''topics'', JArr (map JStr (le_Topics e)))] @ f_int ''order'' (le_Order e) @ f_int ''txOrder'' (le_TxOrder e) @
      f_uint ''shardID'' (le_ShardID e) @ o_time ''timestamp'' (le_Timestamp e))"

definition Event_json :: "Event \<Rightarrow> json" where
  "Event_json e = JObj
     (f_str ''address'' (ev_Address e) @ f_str ''identifier'' (ev_Identifier e) @
      [(''topics'', json_list json_bytes (ev_Topics e))] @ f_bytes ''data'' (ev_Data e) @
      o_list ''additionalData'' json_bytes (ev_AdditionalData e) @ f_int ''order'' (ev_Order e))"

definition Logs_json :: "Logs \<Rightarrow> json" where
  "Logs_json l = JObj
     (f_str ''uuid'' (lg_UUID l) @ o_str ''originalTxHash'' (lg_OriginalTxHash l) @ f_str ''address'' (lg_Address l) @
      [(''events'', JArr (map Event_json (lg_Events l)))] @ o_time ''timestamp'' (lg_Timestamp l))"

definition Miniblock_json :: "Miniblock \<Rightarrow> json" where
  "Miniblock_json m = JObj
     (o_str ''hash'' (mb_Hash m) @ f_uint ''senderShard'' (mb_SenderShardID m) @ f_uint ''receiverShard'' (mb_ReceiverShardID m) @
      o_str ''senderBlockHash'' (mb_SenderBlockHash m) @ o_str ''receiverBlockHash'' (mb_ReceiverBlockHash m) @
      f_str ''type'' (mb_Type m) @ o_str ''procTypeS'' (mb_ProcessingTypeOnSource m) @
      o_str ''procTypeD'' (mb_ProcessingTypeOnDestination m) @ f_time ''timestamp'' (mb_Timestamp m) @
      o_bytes ''reserved'' (mb_Reserved m))"

definition MiniBlocksDetails_json :: "MiniBlocksDetails \<Rightarrow> json" where
  "MiniBlocksDetails_json d = JObj
     (f_int ''firstProcessedTx'' (mbd_IndexFirstProcessedTx d) @ f_int ''lastProcessedTx'' (mbd_IndexLastProcessedTx d) @
      f_uint ''senderShard'' (mbd_SenderShardID d) @ f_uint ''receiverShard'' (mbd_ReceiverShardID d) @
      f_int ''mbIndex'' (int (mbd_MBIndex d)) @ f_str ''type'' (mbd_Type d) @ o_str ''procType'' (mbd_ProcessingType d) @
      o_list ''txsHashes'' JStr (mbd_TxsHashes d) @ o_list ''executionOrderTxsIndices'' JInt (mbd_ExecutionOrderTxsIndices d))"

definition ScheduledData_json :: "ScheduledData \<Rightarrow> json" where
  "ScheduledData_json d = JObj
     (o_str ''rootHash'' (sch_ScheduledRootHash d) @ o_str ''accumulatedFees'' (sch_ScheduledAccumulatedFees d) @
      o_str ''developerFees'' (sch_ScheduledDeveloperFees d) @ o_uint ''gasProvided'' (sch_ScheduledGasProvided d) @
      o_uint ''penalized'' (sch_ScheduledGasPenalized d) @ o_uint ''gasRefunded'' (sch_ScheduledGasRefunded d))"

definition EpochStartInfo_json :: "EpochStartInfo \<Rightarrow> json" where
  "EpochStartInfo_json e = JObj
     (f_str ''totalSupply'' (ei_TotalSupply e) @ f_str ''totalToDistribute'' (ei_TotalToDistribute e) @
      f_str ''totalNewlyMinted'' (ei_TotalNewlyMinted e) @ f_str ''rewardsPerBlock'' (ei_RewardsPerBlock e) @
      f_str ''rewardsForProtocolSustainability'' (ei_RewardsForProtocolSustainability e) @
      f_str ''nodePrice'' (ei_NodePrice e) @ f_uint ''prevEpochStartRound'' (ei_PrevEpochStartRound e) @
      f_str ''prevEpochStartHash'' (ei_PrevEpochStartHash e))"

definition EpochStartShardData_json :: "EpochStartShardData \<Rightarrow> json" where
  "EpochStartShardData_json d = JObj
     (o_uint ''shardID'' (esd_ShardID d) @ o_uint ''epoch'' (esd_Epoch d) @ o_uint ''round'' (esd_Round d) @
      o_uint ''nonce'' (esd_Nonce d) @ o_str ''headerHash'' (esd_HeaderHash d) @ o_str ''rootHash'' (esd_RootHash d) @
      o_str ''scheduledRootHash'' (esd_ScheduledRootHash d) @ o_str ''firstPendingMetaBlock'' (esd_FirstPendingMetaBlock d) @
      o_str ''lastFinishedMetaBlock'' (esd_LastFinishedMetaBlock d) @
      o_list ''pendingMiniBlockHeaders'' Miniblock_json (esd_PendingMiniBlockHeaders d))"

definition Block_json :: "Block \<Rightarrow> json" where
  "Block_json b = JObj
     (f_str ''uuid'' (bl_UUID b) @ f_uint ''nonce'' (bl_Nonce b) @ f_uint ''round'' (bl_Round b) @ f_uint ''epoch'' (bl_Epoch b) @
      [(''miniBlocksHashes'', JArr (map JStr (bl_MiniBlocksHashes b)))] @
      o_list ''miniBlocksDetails'' MiniBlocksDetails_json (bl_MiniBlocksDetails b) @
      [(''notarizedBlocksHashes'', json_list JStr (bl_NotarizedBlocksHashes b))] @ f_uint ''proposer'' (bl_Proposer b) @
      [(''validators'', json_list (JInt \<circ> uint) (bl_Validators b))] @ f_str ''pubKeyBitmap'' (bl_PubKeyBitmap b) @
      f_int ''size'' (bl_Size b) @ f_int ''sizeTxs'' (bl_SizeTxs b) @ f_time ''timestamp'' (bl_Timestamp b) @
      f_str ''stateRootHash'' (bl_StateRootHash b) @ f_str ''prevHash'' (bl_PrevHash b) @ f_uint ''shardId'' (bl_ShardID b) @
      f_uint ''txCount'' (bl_TxCount b) @ f_uint ''notarizedTxsCount'' (bl_NotarizedTxsCount b) @
      f_str ''accumulatedFees'' (bl_AccumulatedFees b) @ f_str ''developerFees'' (bl_DeveloperFees b) @
      f_bool ''epochStartBlock'' (bl_EpochStartBlock b) @ f_uint ''searchOrder'' (bl_SearchOrder b) @
      o_ptr ''epochStartInfo'' EpochStartInfo_json (bl_EpochStartInfo b) @ f_uint ''gasProvided'' (bl_GasProvided b) @
      f_uint ''gasRefunded'' (bl_GasRefunded b) @ f_uint ''gasPenalized'' (bl_GasPenalized b) @
      f_uint ''maxGasLimit'' (bl_MaxGasLimit b) @ o_ptr ''scheduledData'' ScheduledData_json (bl_ScheduledData b) @
      o_list ''epochStartShardsData'' EpochStartShardData_json (bl_EpochStartShardsData b) @
      o_str ''randSeed'' (bl_RandSeed b) @ o_str ''prevRandSeed'' (bl_PrevRandSeed b) @ o_str ''signature'' (bl_Signature b) @
      o_str ''leaderSignature'' (bl_LeaderSignature b) @ o_str ''chainID'' (bl_ChainID b) @
      o_str ''softwareVersion'' (bl_SoftwareVersion b) @ o_str ''receiptsHash'' (bl_ReceiptsHash b) @
      o_bytes ''reserved'' (bl_Reserved b))"

section \<open>The structures of data/data.go\<close>

record ValidatorsPublicKeys =
  vp_PublicKeys :: "string list"

record ValidatorRatingInfo =
  vr_PublicKey :: string
  vr_Rating :: f64

record RoundInfo =
  ri_Round :: u64
  ri_SignersIndexes :: "u64 list"
  ri_BlockWasProposed :: bool
  ri_ShardId :: u32
  ri_Epoch :: u32
  ri_Timestamp :: u64

record EpochInfo =
  epi_AccumulatedFees :: string
  epi_DeveloperFees :: string

record KeyValueObj =
  kv_Key :: string
  kv_Value :: string

definition ValidatorsPublicKeys_json :: "ValidatorsPublicKeys \<Rightarrow> json" where
  "ValidatorsPublicKeys_json v = JObj [(''publicKeys'', JArr (map JStr (vp_PublicKeys v)))]"

definition ValidatorRatingInfo_json :: "ValidatorRatingInfo \<Rightarrow> json" where
  "ValidatorRatingInfo_json v = JObj [(''rating'', JFloat32 (vr_Rating v))]"

definition RoundInfo_json :: "RoundInfo \<Rightarrow> json" where
  "RoundInfo_json r = JObj
     (f_uint ''round'' (ri_Round r) @ [(''signersIndexes'', json_list (JInt \<circ> uint) (ri_SignersIndexes r))] @
      f_bool ''blockWasProposed'' (ri_BlockWasProposed r) @ f_uint ''shardId'' (ri_ShardId r) @
      f_uint ''epoch'' (ri_Epoch r) @ f_time ''timestamp'' (ri_Timestamp r))"

definition EpochInfo_json :: "EpochInfo \<Rightarrow> json" where
  "EpochInfo_json e = JObj
     (f_str ''accumulatedFees'' (epi_AccumulatedFees e) @ f_str ''developerFees'' (epi_DeveloperFees e))"

definition KeyValueObj_json :: "KeyValueObj \<Rightarrow> json" where
  "KeyValueObj_json o1 = JObj (f_str ''key'' (kv_Key o1) @ f_str ''value'' (kv_Value o1))"

text \<open>A map of flags: \<^verbatim>\<open>json.Marshal\<close> sorts the keys of a map.\<close>

definition properties_json :: "(string, bool) gomap \<Rightarrow> json" where
  "properties_json m = JObj (map (\<lambda>(k, b). (k, JBool b)) (sort_key fst m))"

end
