(* ===== verification/Painless_Code.thy ===== *)
theory Painless_Code
  imports Json
begin

text \<open>
  The Painless scripts the serializers send along, as the raw string literals of the sources have them:
  the lines between the back quotes with their leading tabs.  \<^verbatim>\<open>FormatPainlessSource\<close> removes the newlines and
  the tabs before a script is put into a request; what is left has neither a double quote nor a backslash,
  so that it stands in a JSON string as it is.
\<close>

definition tabs :: "nat \<Rightarrow> string" where
  "tabs n = replicate n (CHR 0x09)"

definition code_text :: "string list \<Rightarrow> string" where
  "code_text ls = join_char (CHR 0x0A) ls"

section \<open>Scripts\<close>

subsection \<open>process/elasticproc/logsevents/serialize.go\<close>

definition code_events :: string where
  "code_events = code_text
     [[],
      tabs 2 @ ''if ('create' == ctx.op) {'',
      tabs 3 @ ''ctx._source = params.event'',
      tabs 2 @ ''} else {'',
      tabs 3 @ ''if (ctx._source.containsKey('timestamp')) {'',
      tabs 4 @ ''if (ctx._source.timestamp <= params.event.timestamp) {'',
      tabs 5 @ ''ctx._source = params.event'',
      tabs 4 @ ''}'',
      tabs 3 @ ''} else {'',
      tabs 4 @ ''ctx._source = params.event'',
      tabs 3 @ ''}'',
      tabs 2 @ ''}'',
      []]"

definition code_logs :: string where
  "code_logs = code_text
     [[],
      tabs 2 @ ''if ('create' == ctx.op) {'',
      tabs 3 @ ''ctx._source = params.log'',
      tabs 2 @ ''} else {'',
      tabs 3 @ ''if (ctx._source.containsKey('timestamp')) {'',
      tabs 4 @ ''if (ctx._source.timestamp <= params.log.timestamp) {'',
      tabs 5 @ ''ctx._source = params.log'',
      tabs 4 @ ''}'',
      tabs 3 @ ''} else {'',
      tabs 4 @ ''ctx._source = params.log'',
      tabs 3 @ ''}'',
      tabs 2 @ ''}'',
      []]"

definition code_change_owner :: string where
  "code_change_owner = code_text
     [[],
      tabs 2 @ ''if ('create' == ctx.op) {'',
      tabs 3 @ ''return'',
      tabs 2 @ ''} else {'',
      tabs 3 @ ''ctx._source.currentOwner = params.ownerData.address;'',
      tabs 3 @ ''if (!ctx._source.containsKey('owners')) {'',
      tabs 4 @ ''ctx._source.owners = [params.ownerData];'',
      tabs 3 @ ''} else {'',
      tabs 4 @ ''ctx._source.owners.add(params.ownerData);'',
      tabs 3 @ ''}'',
      tabs 2 @ ''}'',
      []]"

definition code_deploy :: string where
  "code_deploy = code_text
     [[],
      tabs 2 @ ''if (!ctx._source.containsKey('upgrades')) {'',
      tabs 3 @ ''ctx._source.upgrades = [params.elem];'',
      tabs 2 @ ''} else {'',
      tabs 3 @ ''ctx._source.upgrades.add(params.elem);'',
      tabs 2 @ ''}'',
      []]"

definition code_token :: string where
  "code_token = code_text
     [[],
      tabs 2 @ ''if (ctx._source.containsKey('roles')) {'',
      tabs 3 @ ''HashMap roles = ctx._source.roles;'',
      tabs 3 @ ''ctx._source = params.token;'',
      tabs 3 @ ''ctx._source.roles = roles'',
      tabs 2 @ ''}'',
      []]"

definition code_change_type :: string where
  "code_change_type = code_text
     [[],
      tabs 2 @ ''ctx._source.type = params.type;'',
      tabs 2 @ ''ctx._source.changedToDynamicTimestamp = params.timestamp;'',
      []]"

definition code_transfer_ownership :: string where
  "code_transfer_ownership = code_text
     [[],
      tabs 2 @ ''if (!ctx._source.containsKey('ownersHistory')) {'',
      tabs 3 @ ''ctx._source.ownersHistory = [params.elem]'',
      tabs 2 @ ''} else {'',
      tabs 3 @ ''ctx._source.ownersHistory.add(params.elem)'',
      tabs 2 @ ''}'',
      tabs 2 @ ''ctx._source.currentOwner = params.owner'',
      []]"

definition code_role_set :: string where
  "code_role_set = code_text
     [tabs 1,
      tabs 3 @ ''if (!ctx._source.containsKey('roles')) {'',
      tabs 4 @ ''ctx._source.roles = new HashMap();'',
      tabs 3 @ ''}'',
      tabs 3 @ ''if (!ctx._source.roles.containsKey(params.role)) {'',
      tabs 4 @ ''ctx._source.roles.put(params.role, [params.address]);'',
      tabs 3 @ ''} else {'',
      tabs 4 @ ''int i;'',
      tabs 4 @ ''for (i = 0; i < ctx._source.roles.get(params.role).length; i++) {'',
      tabs 5 @ ''if (ctx._source.roles.get(params.role).get(i) == params.address) {'',
      tabs 6 @ ''return;'',
      tabs 5 @ ''}'',
      tabs 4 @ ''}'',
      tabs 4 @ ''ctx._source.roles.get(params.role).add(params.address);'',
      tabs 3 @ ''}'',
      []]"

definition code_role_unset :: string where
  "code_role_unset = code_text
     [[],
      tabs 1 @ ''if (ctx._source.containsKey('roles')) {'',
      tabs 2 @ ''if (ctx._source.roles.containsKey(params.role)) {'',
      tabs 3 @ ''ctx._source.roles.get(params.role).removeIf(p -> p.equals(params.address));'',
      tabs 3 @ ''if (ctx._source.roles.get(params.role).length == 0) {'',
      tabs 4 @ ''ctx._source.roles.remove(params.role)'',
      tabs 3 @ ''}'',
      tabs 2 @ ''}'',
      tabs 1 @ ''}'',
      []]"

definition code_properties :: string where
  "code_properties = code_text
     [tabs 1,
      tabs 3 @ ''if (!ctx._source.containsKey('properties')) {'',
      tabs 4 @ ''ctx._source.properties = new HashMap();'',
      tabs 3 @ ''}'',
      tabs 3 @ ''params.properties.forEach('',
      tabs 4 @ ''(key, value) -> ctx._source.properties[key] = value'',
      tabs 3 @ '');'',
      []]"

subsection \<open>process/elasticproc/logsevents/serializeDelegators.go\<close>

definition code_delegators_revert :: string where
  "code_delegators_revert = code_text
     [[],
      tabs 1 @ ''if ( !ctx._source.containsKey('unDelegateInfo') ) { return } '',
      tabs 1 @ ''if ( ctx._source.unDelegateInfo.length == 0 ) { return }'',
      tabs 1 @ ''ctx._source.unDelegateInfo.removeIf(info -> info.timestamp.equals(params.timestamp));'',
      []]"

definition code_delegator :: string where
  "code_delegator = code_text
     [[],
      tabs 2 @ ''if ('create' == ctx.op) {'',
      tabs 3 @ ''ctx._source = params.delegator'',
      tabs 2 @ ''} else {'',
      tabs 3 @ ''ctx._source.activeStake = params.delegator.activeStake;'',
      tabs 3 @ ''ctx._source.activeStakeNum = params.delegator.activeStakeNum;'',
      tabs 3 @ ''ctx._source.timestamp = params.delegator.timestamp;'',
      tabs 2 @ ''}'',
      []]"

definition code_undelegate :: string where
  "code_undelegate = code_text
     [[],
      tabs 2 @ ''if ('create' == ctx.op) {'',
      tabs 3 @ ''ctx._source = params.delegator'',
      tabs 2 @ ''} else {'',
      tabs 3 @ ''if (!ctx._source.containsKey('unDelegateInfo')) {'',
      tabs 4 @ ''ctx._source.unDelegateInfo = [params.unDelegate];'',
      tabs 3 @ ''} else {'',
      tabs 4 @ ''ctx._source.unDelegateInfo.add(params.unDelegate);'',
      tabs 3 @ ''}'',
      [],
      tabs 3 @ ''ctx._source.activeStake = params.delegator.activeStake;'',
      tabs 3 @ ''ctx._source.activeStakeNum = params.delegator.activeStakeNum;'',
      tabs 3 @ ''ctx._source.timestamp = params.delegator.timestamp;'',
      tabs 2 @ ''}'',
      []]"

definition code_withdraw :: string where
  "code_withdraw = code_text
     [[],
      tabs 2 @ ''if ('create' == ctx.op) {'',
      tabs 3 @ ''ctx._source = params.delegator'',
      tabs 2 @ ''} else {'',
      tabs 3 @ ''if (!ctx._source.containsKey('unDelegateInfo')) {'',
      tabs 4 @ ''return'',
      tabs 3 @ ''} else {'',
      tabs 4 @ ''Iterator itr = ctx._source.unDelegateInfo.iterator();'',
      tabs 4 @ ''while (itr.hasNext()) {'',
      tabs 5 @ ''HashMap unDelegate = itr.next();'',
      tabs 5 @ ''for (int j = 0; j < params.withdrawIds.length; j++) {'',
      tabs 5 @ ''  if (unDelegate.id == params.withdrawIds[j]) {'',
      tabs 6 @ ''itr.remove();'',
      tabs 5 @ ''  }'',
      tabs 5 @ ''}'',
      tabs 4 @ ''}'',
      tabs 4 @ ''if (ctx._source.unDelegateInfo.length == 0) {ctx._source.remove('unDelegateInfo')}'',
      tabs 3 @ ''}'',
      [],
      tabs 3 @ ''ctx._source.activeStake = params.delegator.activeStake;'',
      tabs 3 @ ''ctx._source.activeStakeNum = params.delegator.activeStakeNum;'',
      tabs 3 @ ''ctx._source.timestamp = params.delegator.timestamp;'',
      tabs 2 @ ''}'',
      []]"

subsection \<open>process/elasticproc/accounts/serialize.go\<close>

definition code_account_delete :: string where
  "code_account_delete = code_text
     [[],
      tabs 2 @ ''if ('create' == ctx.op) {'',
      tabs 3 @ ''ctx.op = 'noop'' @ [CHR 0x27],
      tabs 2 @ ''} else {'',
      tabs 3 @ ''if (ctx._source.containsKey('timestamp')) {'',
      tabs 4 @ ''if (ctx._source.timestamp <= params.timestamp) {'',
      tabs 5 @ ''ctx.op = 'delete'' @ [CHR 0x27],
      tabs 4 @ ''}'',
      tabs 3 @ ''} else {'',
      tabs 4 @ ''ctx.op = 'delete'' @ [CHR 0x27],
      tabs 3 @ ''}'',
      tabs 2 @ ''}'',
      []]"

definition code_account :: string where
  "code_account = code_text
     [[],
      tabs 2 @ ''if ('create' == ctx.op) {'',
      tabs 3 @ ''ctx._source = params.account'',
      tabs 2 @ ''} else {'',
      tabs 3 @ ''if ((!ctx._source.containsKey('timestamp')) || (ctx._source.timestamp <= params.account.timestamp) ) {'',
      tabs 4 @ ''params.account.forEach((key, value) -> {'',
      tabs 5 @ ''ctx._source[key] = value;'',
      tabs 4 @ ''});'',
      tabs 3 @ ''}'',
      tabs 2 @ ''}'',
      []]"

definition code_type :: string where
  "code_type = code_text
     [[],
      tabs 3 @ ''if ('create' == ctx.op) {'',
      tabs 4 @ ''ctx.op = 'noop'' @ [CHR 0x27],
      tabs 3 @ ''} else {'',
      tabs 4 @ ''ctx._source.type = params.type'',
      tabs 3 @ ''}'',
      []]"

subsection \<open>process/elasticproc/transactions/serialize.go\<close>

definition code_fee_refund :: string where
  "code_fee_refund = code_text
     [[],
      '' '' @ tabs 3 @ ''if ('create' == ctx.op) {'',
      '' '' @ tabs 4 @ ''ctx.op = 'noop'' @ [CHR 0x27],
      '' '' @ tabs 3 @ ''} else {'',
      tabs 4 @ ''boolean ok1 = ((ctx._source.containsKey('initialPaidFee')) && (ctx._source.initialPaidFee != null) && (!ctx._source.initialPaidFee.isEmpty()));'',
      tabs 4 @ ''boolean ok2 = ((ctx._source.containsKey('fee')) && (ctx._source.fee != null) && (!ctx._source.fee.isEmpty()));'',
      tabs 4 @ ''if (!ok1 || !ok2) {'',
      tabs 5 @ ''return'',
      tabs 4 @ ''}'',
      '' '' @ tabs 4 @ ''BigInteger feeFromSource;'',
      tabs 4 @ ''if ((ctx._source.containsKey('hadRefund')) && (ctx._source.hadRefund)) {'',
      tabs 5 @ ''feeFromSource = new BigInteger(ctx._source.fee);'',
      tabs 4 @ ''} else {'',
      tabs 5 @ ''feeFromSource = new BigInteger(ctx._source.initialPaidFee);'',
      tabs 5 @ ''ctx._source.hadRefund = true;'',
      tabs 4 @ ''}'',
      [],
      '' '' @ tabs 4 @ ''BigInteger fee = new BigInteger(params.fee);'',
      '' '' @ tabs 4 @ ''if (feeFromSource.compareTo(fee) > 0) {'',
      '' '' @ tabs 5 @ ''ctx._source.fee = feeFromSource.subtract(fee).toString();'' @ tabs 1,
      '' '' @ tabs 4 @ ''}'',
      '' '' @ tabs 4 @ ''if (ctx._source.feeNum > params.feeNum) {'',
      '' '' @ tabs 5 @ ''ctx._source.feeNum -= params.feeNum;'' @ tabs 1,
      '' '' @ tabs 4 @ ''}'',
      '' '' @ tabs 4 @ ''if (ctx._source.gasUsed > params.gasRefunded) {'',
      '' '' @ tabs 5 @ ''ctx._source.gasUsed -= params.gasRefunded;'' @ tabs 1,
      '' '' @ tabs 4 @ ''}'',
      '' '' @ tabs 3 @ ''}'',
      '' '']"

definition code_fee :: string where
  "code_fee = code_text
     [[],
      tabs 3 @ ''if ('create' == ctx.op) {'',
      tabs 4 @ ''ctx.op = 'noop'' @ [CHR 0x27],
      tabs 3 @ ''} else {'',
      tabs 4 @ ''ctx._source.fee = params.fee;'',
      tabs 4 @ ''ctx._source.feeNum = params.feeNum;'',
      tabs 4 @ ''ctx._source.gasUsed = params.gasUsed;'',
      tabs 3 @ ''}'',
      []]"

definition code_status :: string where
  "code_status = code_text
     [[],
      tabs 3 @ ''if (!params.statusInfo.status.isEmpty()) {'',
      tabs 4 @ ''ctx._source.status = params.statusInfo.status;'',
      tabs 3 @ ''}'',
      [],
      tabs 3 @ ''if (params.statusInfo.completedEvent) {'',
      tabs 4 @ ''ctx._source.completedEvent = params.statusInfo.completedEvent;'',
      tabs 3 @ ''}'',
      tabs 3,
      tabs 3 @ ''if (params.statusInfo.errorEvent) {'',
      tabs 4 @ ''ctx._source.errorEvent = params.statusInfo.errorEvent;'',
      tabs 3 @ ''}'',
      []]"

definition code_esdt_source :: string where
  "code_esdt_source = code_text
     [[],
      tabs 4 @ ''if ('create' == ctx.op) {'',
      tabs 5 @ ''ctx._source = params.tx;'',
      tabs 4 @ ''} else {'',
      tabs 5 @ ''ctx._source.gasUsed = params.tx.gasUsed;'',
      tabs 5 @ ''ctx._source.fee = params.tx.fee;'',
      tabs 5 @ ''ctx._source.feeNum = params.tx.feeNum;'',
      tabs 4 @ ''}'',
      tabs 3]"

definition code_esdt_destination :: string where
  "code_esdt_destination = code_text
     [[],
      tabs 2 @ ''if ('create' == ctx.op) {'',
      tabs 3 @ ''ctx._source = params.tx;'',
      tabs 2 @ ''} else {'',
      tabs 3 @ ''def gasUsed = ctx._source.gasUsed;'',
      tabs 3 @ ''def fee = ctx._source.fee;'',
      tabs 3 @ ''def feeNum = ctx._source.feeNum;'',
      tabs 3 @ ''ctx._source = params.tx;'',
      tabs 3 @ ''ctx._source.gasUsed = gasUsed;'',
      tabs 3 @ ''ctx._source.fee = fee;'',
      tabs 3 @ ''ctx._source.feeNum = feeNum;'',
      tabs 2 @ ''}'',
      []]"

definition code_nft_transfer :: string where
  "code_nft_transfer = code_text
     [[],
      tabs 2 @ ''if ('create' == ctx.op) {'',
      tabs 3 @ ''ctx._source = params.tx;'',
      tabs 2 @ ''} else {'',
      tabs 3 @ ''def status = ctx._source.status;'',
      tabs 3 @ ''def errorEvent = ctx._source.errorEvent;'',
      tabs 3 @ ''def completedEvent = ctx._source.completedEvent;'',
      [],
      tabs 3 @ ''ctx._source = params.tx;'',
      tabs 3 @ ''if (!status.isEmpty()) {'',
      tabs 4 @ ''ctx._source.status = status;'',
      tabs 3 @ ''}'',
      tabs 3 @ ''if (errorEvent != null) {'',
      tabs 4 @ ''ctx._source.errorEvent = errorEvent;'',
      tabs 3 @ ''}'',
      tabs 3 @ ''if (completedEvent != null) {'',
      tabs 4 @ ''ctx._source.completedEvent = completedEvent;'',
      tabs 3 @ ''}'',
      tabs 2 @ ''}'',
      []]"

subsection \<open>process/elasticproc/miniblocks/serialize.go\<close>

definition code_miniblock :: string where
  "code_miniblock = code_text
     [[],
      tabs 1 @ ''if ('create' == ctx.op) {'',
      tabs 3 @ ''ctx._source = params.mb'',
      tabs 1 @ ''} else {'',
      tabs 2 @ ''if (params.npos) {'',
      tabs 3 @ ''ctx._source.senderBlockHash = params.mb.senderBlockHash;'',
      tabs 3 @ ''ctx._source.procTypeS = params.mb.procTypeS;'',
      tabs 2 @ ''} else {'',
      tabs 3 @ ''ctx._source.receiverBlockHash = params.mb.receiverBlockHash;'',
      tabs 3 @ ''ctx._source.procTypeD = params.mb.procTypeD;'',
      tabs 2 @ ''}'',
      tabs 1 @ ''}'',
      []]"

subsection \<open>process/elasticproc/tags/serialize.go\<close>

definition code_tags :: string where
  "code_tags = code_text
     [[],
      tabs 3 @ ''ctx._source.count += params.count; '',
      tabs 3 @ ''ctx._source.tag = params.tag'',
      []]"

subsection \<open>process/elasticproc/converters/tokenMetaData.go\<close>

definition code_nft_attributes :: string where
  "code_nft_attributes = code_text
     [[],
      tabs 3 @ ''if (ctx._source.containsKey('data')) {'',
      tabs 4 @ ''ctx._source.data.attributes = params.attributes;'',
      tabs 4 @ ''if (!params.metadata.isEmpty() ) {'',
      tabs 5 @ ''ctx._source.data.metadata = params.metadata'',
      tabs 4 @ ''} else {'',
      tabs 5 @ ''if (ctx._source.data.containsKey('metadata')) {'',
      tabs 6 @ ''ctx._source.data.remove('metadata')'',
      tabs 5 @ ''}'',
      tabs 4 @ ''}'',
      tabs 4 @ ''if (params.tags != null) {'',
      tabs 5 @ ''ctx._source.data.tags = params.tags'',
      tabs 4 @ ''} else {'',
      tabs 5 @ ''if (ctx._source.data.containsKey('tags')) {'',
      tabs 6 @ ''ctx._source.data.remove('tags')'',
      tabs 5 @ ''}'',
      tabs 4 @ ''}'',
      tabs 3 @ ''}'',
      []]"

definition code_nft_uris :: string where
  "code_nft_uris = code_text
     [[],
      tabs 4 @ ''if (ctx._source.containsKey('data')) {'',
      tabs 5 @ ''if ((!ctx._source.data.containsKey('uris')) || (params.set)) {'',
      tabs 6 @ ''ctx._source.data.uris = params.uris;'',
      tabs 5 @ ''} else {'',
      tabs 6 @ ''int i;'',
      tabs 6 @ ''for ( i = 0; i < params.uris.length; i++) {'',
      tabs 7 @ ''boolean found = false;'',
      tabs 7 @ ''int j;'',
      tabs 7 @ ''for ( j = 0; j < ctx._source.data.uris.length; j++) {'',
      tabs 8 @ ''if ( params.uris.get(i) == ctx._source.data.uris.get(j) ) {'',
      tabs 9 @ ''found = true;'',
      tabs 9 @ ''break'',
      tabs 8 @ ''}'',
      tabs 7 @ ''}'',
      tabs 7 @ ''if ( !found ) {'',
      tabs 8 @ ''ctx._source.data.uris.add(params.uris.get(i))'',
      tabs 7 @ ''}'',
      tabs 6 @ ''}'',
      tabs 5 @ ''}'',
      tabs 5 @ ''ctx._source.data.nonEmptyURIs = true;'',
      tabs 4 @ ''}'',
      []]"

definition code_frozen :: string where
  "code_frozen = code_text
     [[],
      tabs 3 @ ''ctx._source.frozen = params.frozen'',
      []]"

definition code_paused :: string where
  "code_paused = code_text
     [[],
      tabs 3 @ ''ctx._source.paused = params.paused'',
      []]"

definition code_metadata :: string where
  "code_metadata = code_text
     [[],
      tabs 3 @ ''ctx._source.data = params.metaData;'',
      []]"

definition code_royalties :: string where
  "code_royalties = code_text
     [[],
      tabs 3 @ ''if (ctx._source.containsKey('data')) {'',
      tabs 4 @ ''ctx._source.data.royalties = params.royalties;'',
      tabs 3 @ ''}'',
      []]"

definition code_creator :: string where
  "code_creator = code_text
     [[],
      tabs 3 @ ''if (ctx._source.containsKey('data')) {'',
      tabs 4 @ ''ctx._source.data.creator = params.creator;'',
      tabs 3 @ ''}'',
      []]"

section \<open>Scripts in a request\<close>

definition script_char :: "char \<Rightarrow> bool" where
  "script_char c \<longleftrightarrow> printable c \<and> (of_char c :: nat) < 128 \<and> c \<noteq> CHR 0x22 \<and> c \<noteq> CHR 0x5C"

definition script_source_char :: "char \<Rightarrow> bool" where
  "script_source_char c \<longleftrightarrow> c = CHR 0x09 \<or> c = CHR 0x0A \<or> script_char c"

lemma script_char_literal [simp]:
  "script_char (Char b0 b1 b2 b3 b4 b5 b6 b7) \<longleftrightarrow> (b5 \<or> b6 \<or> b7) \<and> \<not> b7 \<and>
     Char b0 b1 b2 b3 b4 b5 b6 b7 \<noteq> CHR 0x22 \<and> Char b0 b1 b2 b3 b4 b5 b6 b7 \<noteq> CHR 0x5C"
  by (auto simp: script_char_def of_char_Char)

lemma script_source_tabs: "list_all script_source_char (tabs n)"
  by (simp add: tabs_def list_all_iff script_source_char_def)

lemma script_source_text: "list_all (list_all script_source_char) ls \<Longrightarrow> list_all script_source_char (code_text ls)"
proof -
  assume "list_all (list_all script_source_char) ls"
  then have "list_all script_source_char (join_char (CHR 0x0A) ls)"
    by (induction "CHR 0x0A" ls rule: join_char.induct) (auto simp: script_source_char_def)
  then show ?thesis by (simp add: code_text_def)
qed

lemma FormatPainlessSource_script:
  "list_all script_source_char code \<Longrightarrow> list_all script_char (FormatPainlessSource code)"
  by (auto simp: FormatPainlessSource_def list_all_iff script_source_char_def)

lemma script_char_printable: "list_all script_char s \<Longrightarrow> list_all printable s"
  by (auto simp: list_all_iff script_char_def)

lemma source_events: "list_all script_source_char code_events"
  unfolding code_events_def by (rule script_source_text) (simp add: script_source_tabs script_source_char_def)

lemma source_logs: "list_all script_source_char code_logs"
  unfolding code_logs_def by (rule script_source_text) (simp add: script_source_tabs script_source_char_def)

lemma source_change_owner: "list_all script_source_char code_change_owner"
  unfolding code_change_owner_def by (rule script_source_text) (simp add: script_source_tabs script_source_char_def)

lemma source_deploy: "list_all script_source_char code_deploy"
  unfolding code_deploy_def by (rule script_source_text) (simp add: script_source_tabs script_source_char_def)

lemma source_token: "list_all script_source_char code_token"
  unfolding code_token_def by (rule script_source_text) (simp add: script_source_tabs script_source_char_def)

lemma source_change_type: "list_all script_source_char code_change_type"
  unfolding code_change_type_def by (rule script_source_text) (simp add: script_source_tabs script_source_char_def)

lemma source_transfer_ownership: "list_all script_source_char code_transfer_ownership"
  unfolding code_transfer_ownership_def by (rule script_source_text) (simp add: script_source_tabs script_source_char_def)

lemma source_role_set: "list_all script_source_char code_role_set"
  unfolding code_role_set_def by (rule script_source_text) (simp add: script_source_tabs script_source_char_def)

lemma source_role_unset: "list_all script_source_char code_role_unset"
  unfolding code_role_unset_def by (rule script_source_text) (simp add: script_source_tabs script_source_char_def)

lemma source_properties: "list_all script_source_char code_properties"
  unfolding code_properties_def by (rule script_source_text) (simp add: script_source_tabs script_source_char_def)

lemma source_delegators_revert: "list_all script_source_char code_delegators_revert"
  unfolding code_delegators_revert_def by (rule script_source_text) (simp add: script_source_tabs script_source_char_def)

lemma source_delegator: "list_all script_source_char code_delegator"
  unfolding code_delegator_def by (rule script_source_text) (simp add: script_source_tabs script_source_char_def)

lemma source_undelegate: "list_all script_source_char code_undelegate"
  unfolding code_undelegate_def by (rule script_source_text) (simp add: script_source_tabs script_source_char_def)

lemma source_withdraw: "list_all script_source_char code_withdraw"
  unfolding code_withdraw_def by (rule script_source_text) (simp add: script_source_tabs script_source_char_def)

lemma source_account_delete: "list_all script_source_char code_account_delete"
  unfolding code_account_delete_def by (rule script_source_text) (simp add: script_source_tabs script_source_char_def)

lemma source_account: "list_all script_source_char code_account"
  unfolding code_account_def by (rule script_source_text) (simp add: script_source_tabs script_source_char_def)

lemma source_type: "list_all script_source_char code_type"
  unfolding code_type_def by (rule script_source_text) (simp add: script_source_tabs script_source_char_def)

lemma source_fee_refund: "list_all script_source_char code_fee_refund"
  unfolding code_fee_refund_def by (rule script_source_text) (simp add: script_source_tabs script_source_char_def)

lemma source_fee: "list_all script_source_char code_fee"
  unfolding code_fee_def by (rule script_source_text) (simp add: script_source_tabs script_source_char_def)

lemma source_status: "list_all script_source_char code_status"
  unfolding code_status_def by (rule script_source_text) (simp add: script_source_tabs script_source_char_def)

lemma source_esdt_source: "list_all script_source_char code_esdt_source"
  unfolding code_esdt_source_def by (rule script_source_text) (simp add: script_source_tabs script_source_char_def)

lemma source_esdt_destination: "list_all script_source_char code_esdt_destination"
  unfolding code_esdt_destination_def by (rule script_source_text) (simp add: script_source_tabs script_source_char_def)

lemma source_nft_transfer: "list_all script_source_char code_nft_transfer"
  unfolding code_nft_transfer_def by (rule script_source_text) (simp add: script_source_tabs script_source_char_def)

lemma source_miniblock: "list_all script_source_char code_miniblock"
  unfolding code_miniblock_def by (rule script_source_text) (simp add: script_source_tabs script_source_char_def)

lemma source_tags: "list_all script_source_char code_tags"
  unfolding code_tags_def by (rule script_source_text) (simp add: script_source_tabs script_source_char_def)

lemma source_nft_attributes: "list_all script_source_char code_nft_attributes"
  unfolding code_nft_attributes_def by (rule script_source_text) (simp add: script_source_tabs script_source_char_def)

lemma source_nft_uris: "list_all script_source_char code_nft_uris"
  unfolding code_nft_uris_def by (rule script_source_text) (simp add: script_source_tabs script_source_char_def)

lemma source_frozen: "list_all script_source_char code_frozen"
  unfolding code_frozen_def by (rule script_source_text) (simp add: script_source_tabs script_source_char_def)

lemma source_paused: "list_all script_source_char code_paused"
  unfolding code_paused_def by (rule script_source_text) (simp add: script_source_tabs script_source_char_def)

lemma source_metadata: "list_all script_source_char code_metadata"
  unfolding code_metadata_def by (rule script_source_text) (simp add: script_source_tabs script_source_char_def)

lemma source_royalties: "list_all script_source_char code_royalties"
  unfolding code_royalties_def by (rule script_source_text) (simp add: script_source_tabs script_source_char_def)

lemma source_creator: "list_all script_source_char code_creator"
  unfolding code_creator_def by (rule script_source_text) (simp add: script_source_tabs script_source_char_def)

lemmas script_sources = source_events source_logs source_change_owner source_deploy source_token source_change_type source_transfer_ownership source_role_set source_role_unset source_properties source_delegators_revert source_delegator source_undelegate source_withdraw source_account_delete source_account source_type source_fee_refund source_fee source_status source_esdt_source source_esdt_destination source_nft_transfer source_miniblock source_tags source_nft_attributes source_nft_uris source_frozen source_paused source_metadata source_royalties source_creator

lemmas printable_scripts [printable_intros] =
  script_sources [THEN FormatPainlessSource_script, THEN script_char_printable]

end
