(* ===== verification/Framing.thy ===== *)
theory Framing
  imports Buffer Json
begin

text \<open>
  The format of a bulk request: every action is a line of metadata, followed for all actions but a deletion by
  one line with the document or the script.  A request is \<open>framed\<close> when it consists of whole actions none of
  whose lines contains a control character, so that Elasticsearch reads back exactly the actions that were
  put.  The serializers keep this; the locale \<open>doc_writer\<close> is what the loops over documents rely on.
\<close>

definition meta_ok :: "bytes \<Rightarrow> bool" where
  "meta_ok m \<longleftrightarrow> m \<noteq> [] \<and> last m = CHR 0x0A \<and> list_all printable (butlast m)"

definition entry_ok :: "bytes \<times> bytes \<Rightarrow> bool" where
  "entry_ok e \<longleftrightarrow> meta_ok (fst e) \<and> list_all printable (snd e)"

definition framed_text :: "bytes \<Rightarrow> bool" where
  "framed_text buf \<longleftrightarrow> (\<exists>es. buf = concat (map entry_text es) \<and> list_all entry_ok es)"

definition framed :: "BufferSlice \<Rightarrow> bool" where
  "framed bs \<longleftrightarrow> buff_inv bs \<and> list_all framed_text (buffSlice bs)"

text \<open>The lines of an action.\<close>

definition entry_lines :: "bytes \<times> bytes \<Rightarrow> bytes list" where
  "entry_lines e = butlast (fst e) # (if snd e = [] then [] else [snd e])"

lemma split_char_line: "c \<notin> set s \<Longrightarrow> split_char c (s @ c # t) = s # split_char c t"
  by (induction s) auto

lemma entry_text_lines:
  assumes "entry_ok e"
  shows "split_char (CHR 0x0A) (entry_text e @ t) = entry_lines e @ split_char (CHR 0x0A) t"
proof -
  define l where "l = butlast (fst e)"
  have m: "fst e = l @ [CHR 0x0A]"
    using assms by (simp add: l_def entry_ok_def meta_ok_def) (metis append_butlast_last_id)
  have no: "CHR 0x0A \<notin> set l" "CHR 0x0A \<notin> set (snd e)"
    using assms by (auto simp: l_def entry_ok_def meta_ok_def dest!: printable_no_newline)
  have "entry_text e @ t = l @ CHR 0x0A # (if snd e = [] then t else snd e @ CHR 0x0A # t)"
    by (simp add: entry_text_def m)
  then show ?thesis by (simp add: split_char_line no entry_lines_def l_def [symmetric])
qed

text \<open>Reading a framed request line by line gives back its actions.\<close>

lemma framed_lines:
  "list_all entry_ok es \<Longrightarrow>
     split_char (CHR 0x0A) (concat (map entry_text es)) = concat (map entry_lines es) @ [[]]"
  by (induction es) (simp_all add: entry_text_lines)

lemma framed_New [simp]: "framed (NewBufferSlice t)"
  by (simp add: framed_def) (simp add: NewBufferSlice_def)

lemma framed_text_entry: "entry_ok (m, d) \<Longrightarrow> framed_text (entry_text (m, d))"
  unfolding framed_text_def by (rule exI [of _ "[(m, d)]"]) simp

lemma framed_text_append: "framed_text b \<Longrightarrow> entry_ok (m, d) \<Longrightarrow> framed_text (b @ entry_text (m, d))"
proof -
  assume "framed_text b" and ok: "entry_ok (m, d)"
  then obtain es where "b = concat (map entry_text es)" "list_all entry_ok es" by (auto simp: framed_text_def)
  with ok show ?thesis unfolding framed_text_def by (intro exI [of _ "es @ [(m, d)]"]) simp
qed

lemma PutData_framed:
  assumes "framed bs" and "entry_ok (m, d)"
  shows "\<exists>bs'. PutData m d bs = Inr bs' \<and> framed bs'"
proof -
  from assms(1) have inv: "buff_inv bs" and texts: "list_all framed_text (buffSlice bs)" by (auto simp: framed_def)
  from PutData_inv [OF inv, of m d] obtain bs' where run: "PutData m d bs = Inr bs'" "buff_inv bs'" by blast
  have "list_all framed_text (buffSlice bs')"
    using inv
  proof (cases bs rule: PutData_step [where m = m and d = d])
    case fresh
    with run framed_text_entry [OF assms(2)] show ?thesis by auto
  next
    case (append pre b)
    with run texts framed_text_append [OF _ assms(2), of b] show ?thesis by auto
  next
    case (new pre b)
    with run texts framed_text_entry [OF assms(2)] show ?thesis by auto
  qed
  with run show ?thesis by (auto simp: framed_def)
qed

section \<open>Writers that keep the format\<close>

text \<open>A writer adds actions to the buffers or fails; it is faithful to the format when the buffers stay framed.\<close>

definition keeps_framing :: "(BufferSlice \<Rightarrow> BufferSlice result) \<Rightarrow> bool" where
  "keeps_framing f \<longleftrightarrow> (\<forall>b b'. framed b \<longrightarrow> f b = Inr b' \<longrightarrow> framed b')"

named_theorems framing_intros \<open>writers that keep the bulk format\<close>

lemma keeps_framing_PutData [framing_intros]: "entry_ok (m, d) \<Longrightarrow> keeps_framing (PutData m d)"
  using PutData_framed by (fastforce simp: keeps_framing_def)

lemma keeps_framing_Inr [framing_intros]: "keeps_framing Inr" "keeps_framing (\<lambda>b. Inr b)"
  by (simp_all add: keeps_framing_def)

lemma keeps_framing_Inl [framing_intros]: "keeps_framing (\<lambda>b. Inl e)"
  by (simp add: keeps_framing_def)

lemma keeps_framing_bind_value [framing_intros]:
  "(\<And>x. r = Inr x \<Longrightarrow> keeps_framing (g x)) \<Longrightarrow> keeps_framing (\<lambda>b. bindr r (\<lambda>x. g x b))"
  by (cases r) (auto simp: keeps_framing_def)

lemma keeps_framing_seq [framing_intros]:
  "keeps_framing f \<Longrightarrow> keeps_framing g \<Longrightarrow> keeps_framing (\<lambda>b. bindr (f b) g)"
  unfolding keeps_framing_def bindr_Inr_iff by blast

lemma keeps_framing_fold_r [framing_intros]:
  "(\<And>x. x \<in> set xs \<Longrightarrow> keeps_framing (f x)) \<Longrightarrow> keeps_framing (fold_r f xs)"
proof (induction xs)
  case (Cons x xs)
  then have "keeps_framing (f x)" "keeps_framing (fold_r f xs)" by simp_all
  from keeps_framing_seq [OF this] show ?case by (simp add: keeps_framing_def)
qed (simp add: keeps_framing_def)

lemma keeps_framing_if [framing_intros]:
  "(c \<Longrightarrow> keeps_framing f) \<Longrightarrow> (\<not> c \<Longrightarrow> keeps_framing g) \<Longrightarrow> keeps_framing (\<lambda>b. if c then f b else g b)"
  by (cases c) simp_all

lemma keeps_framing_prod [framing_intros]:
  "(\<And>a c. x = (a, c) \<Longrightarrow> keeps_framing (f a c)) \<Longrightarrow> keeps_framing (case_prod f x)"
  "(\<And>a c. x = (a, c) \<Longrightarrow> keeps_framing (g a c)) \<Longrightarrow> keeps_framing (\<lambda>b. case x of (a, c) \<Rightarrow> g a c b)"
  by (cases x, simp)+

lemma keeps_framingD: "keeps_framing f \<Longrightarrow> framed b \<Longrightarrow> f b = Inr b' \<Longrightarrow> framed b'"
  by (auto simp: keeps_framing_def)

lemma framed_inv: "framed b \<Longrightarrow> buff_inv b"
  by (simp add: framed_def)

text \<open>
  The interface between a serializer and the code that prepares one action per document: what is prepared
  for a good document is a well-formed action.  Then the loop over the documents keeps the format, succeeds
  exactly when every document can be prepared, and adds exactly one action per document, in order.
\<close>

locale doc_writer =
  fixes prepare :: "'d \<Rightarrow> (bytes \<times> bytes) result"
    and doc_ok :: "'d \<Rightarrow> bool"
  assumes prepare_ok: "doc_ok x \<Longrightarrow> prepare x = Inr e \<Longrightarrow> entry_ok e"
begin

lemma put_docs_keeps:
  assumes "list_all doc_ok xs"
  shows "keeps_framing (fold_r (\<lambda>x b. bindr (prepare x) (\<lambda>(m, d). PutData m d b)) xs)"
  by (intro keeps_framing_fold_r keeps_framing_bind_value keeps_framing_prod keeps_framing_PutData prepare_ok)
    (use assms in \<open>auto simp: list_all_iff\<close>)

lemma put_docs_actions:
  assumes "buff_inv b"
    and "fold_r (\<lambda>x b. bindr (prepare x) (\<lambda>(m, d). PutData m d b)) xs b = Inr b'"
  shows "\<exists>es. map prepare xs = map Inr es \<and> concat (buffSlice b') = concat (buffSlice b) @ concat (map entry_text es) \<and> buff_inv b'"
  using assms
proof (induction xs arbitrary: b)
  case (Cons x xs)
  from Cons.prems(2) obtain m d b1 where x: "prepare x = Inr (m, d)" and b1: "PutData m d b = Inr b1"
    and rest: "fold_r (\<lambda>x b. bindr (prepare x) (\<lambda>(m, d). PutData m d b)) xs b1 = Inr b'"
    by (auto simp: bindr_Inr_iff)
  from PutData_inv [OF Cons.prems(1), of m d] b1 have inv: "buff_inv b1"
    and c: "concat (buffSlice b1) = concat (buffSlice b) @ entry_text (m, d)" by auto
  from Cons.IH [OF inv rest] obtain es where "map prepare xs = map Inr es"
    "concat (buffSlice b') = concat (buffSlice b1) @ concat (map entry_text es)" "buff_inv b'" by blast
  with x c show ?case by (intro exI [of _ "(m, d) # es"]) simp
qed simp

lemma put_docs_total:
  assumes "buff_inv b" and "list_all (\<lambda>x. \<exists>e. prepare x = Inr e) xs"
  shows "\<exists>b'. fold_r (\<lambda>x b. bindr (prepare x) (\<lambda>(m, d). PutData m d b)) xs b = Inr b'"
  using assms
proof (induction xs arbitrary: b)
  case (Cons x xs)
  from Cons.prems(2) obtain m d where x: "prepare x = Inr (m, d)" by auto
  from PutData_inv [OF Cons.prems(1), of m d] obtain b1 where "PutData m d b = Inr b1" "buff_inv b1" by blast
  with x Cons show ?case by simp
qed simp

end

lemma meta_okI: "list_all printable m \<Longrightarrow> meta_ok (m @ ''\<newline>'')"
  by (simp add: meta_ok_def)

lemma entry_okI: "list_all printable m \<Longrightarrow> list_all printable d \<Longrightarrow> entry_ok (m @ ''\<newline>'', d)"
  by (simp add: entry_ok_def meta_okI)

end
