(* ===== verification/Serialize_Logs.thy ===== *)
theory Serialize_Logs
  imports Framing Docs_Json Painless_Code Logs_Events
begin

text \<open>
  \<^verbatim>\<open>process/elasticproc/logsevents/serialize.go\<close> and \<^verbatim>\<open>serializeDelegators.go\<close>, and \<^verbatim>\<open>PrepareNFTUpdateData\<close> of
  \<^verbatim>\<open>converters/tokenMetaData.go\<close>: the text of the actions for logs, events, deployed contracts, tokens, roles,
  properties and delegators.  The arguments that stand for code outside the repository are the hash function
  of delegator identifiers and the JSON of a status record.
\<close>

section \<open>Templates\<close>

text \<open>A metadata line: the text around the index and the identifier is the one of each call.\<close>

definition meta_line :: "string \<Rightarrow> string \<Rightarrow> string \<Rightarrow> string \<Rightarrow> string \<Rightarrow> bytes" where
  "meta_line before index between id_text after = (before @ index @ between @ id_text @ after) @ ''\<newline>''"

definition update_meta :: "string \<Rightarrow> string \<Rightarrow> bytes" where
  "update_meta index i = meta_line ''{ \"update\" : { \"_index\":\"'' index ''\", \"_id\" : \"'' (JsonEscape i) ''\" } }''"

definition delete_meta :: "string \<Rightarrow> string \<Rightarrow> bytes" where
  "delete_meta index i = meta_line ''{ \"delete\" : { \"_index\": \"'' index ''\", \"_id\" : \"'' (JsonEscape i) ''\" } }''"

definition role_meta :: "string \<Rightarrow> string \<Rightarrow> bytes" where
  "role_meta index i = meta_line ''{ \"update\" : {\"_index\": \"'' index ''\", \"_id\" : \"'' (JsonEscape i) ''\" } }''"

text \<open>The identifier of these lines is not escaped.\<close>

definition raw_update_meta :: "string \<Rightarrow> string \<Rightarrow> bytes" where
  "raw_update_meta index i = meta_line ''{\"update\":{ \"_index\":\"'' index ''\",\"_id\":\"'' i ''\"}}''"

definition scripted_upsert :: "string \<Rightarrow> string \<Rightarrow> bytes" where
  "scripted_upsert code params =
     ''{\"scripted_upsert\": true, \"script\": {\"source\": \"'' @ FormatPainlessSource code @
     ''\",\"lang\": \"painless\",\"params\": '' @ params @ ''},\"upsert\": {}}''"

definition script_upsert :: "string \<Rightarrow> string \<Rightarrow> string \<Rightarrow> bytes" where
  "script_upsert code params upsert =
     ''{\"script\": {\"source\": \"'' @ FormatPainlessSource code @ ''\",\"lang\": \"painless\",\"params\": '' @ params @
     ''},\"upsert\": '' @ upsert @ ''}''"

text \<open>The requests of \<^verbatim>\<open>PrepareNFTUpdateData\<close> have a blank before the upsert.\<close>

definition nft_script :: "string \<Rightarrow> string \<Rightarrow> bytes" where
  "nft_script code params =
     ''{\"script\": {\"source\": \"'' @ FormatPainlessSource code @ ''\",\"lang\": \"painless\",\"params\": '' @ params @
     ''}, \"upsert\": {}}''"

section \<open>Logs and events\<close>

definition SerializeEvents :: "LogEvent list \<Rightarrow> string \<Rightarrow> BufferSlice \<Rightarrow> BufferSlice result" where
  "SerializeEvents events index =
     fold_r (\<lambda>event b. bindr (Marshal (LogEvent_json event)) (\<lambda>serializedData.
       PutData (update_meta index (le_ID event))
         (scripted_upsert code_events (''{ \"event\": '' @ serializedData @ '' }'')) b)) events"

definition SerializeLogs :: "Logs list \<Rightarrow> string \<Rightarrow> BufferSlice \<Rightarrow> BufferSlice result" where
  "SerializeLogs logs index =
     fold_r (\<lambda>lg b. bindr (Marshal (Logs_json lg)) (\<lambda>serializedData.
       PutData (update_meta index (lg_ID lg))
         (scripted_upsert code_logs (''{ \"log\": '' @ serializedData @ '' }'')) b)) logs"

definition SerializeChangeOwnerOperations ::
    "(string, OwnerData) gomap \<Rightarrow> string \<Rightarrow> BufferSlice \<Rightarrow> BufferSlice result" where
  "SerializeChangeOwnerOperations ops index =
     fold_r (\<lambda>(scAddr, ownerData) b. bindr (Marshal (OwnerData_json ownerData)) (\<lambda>ownerDataBytes.
       PutData (update_meta index scAddr)
         (scripted_upsert code_change_owner (''{ \"ownerData\": '' @ ownerDataBytes @ '' }'')) b)) ops"

definition serializeDeploy :: "ScDeployInfo \<Rightarrow> bytes result" where
  "serializeDeploy deployInfo =
     bindr (Marshal (ScDeployInfo_json (deployInfo\<lparr>sd_Upgrades := [], sd_OwnersHistory := []\<rparr>))) (\<lambda>serializedData.
     bindr (Marshal (Upgrade_json \<lparr>up_TxHash = sd_TxHash deployInfo, up_Upgrader = sd_Creator deployInfo,
       up_Timestamp = sd_Timestamp deployInfo, up_CodeHash = sd_CodeHash deployInfo\<rparr>)) (\<lambda>upgradeSerialized.
     Inr (script_upsert code_deploy (''{\"elem\": '' @ upgradeSerialized @ ''}'') serializedData)))"

definition SerializeSCDeploys :: "(string, ScDeployInfo) gomap \<Rightarrow> string \<Rightarrow> BufferSlice \<Rightarrow> BufferSlice result" where
  "SerializeSCDeploys deploys index =
     fold_r (\<lambda>(scAddr, deployInfo) b. bindr (serializeDeploy deployInfo) (\<lambda>serializedData.
       PutData (update_meta index scAddr) serializedData b)) deploys"

section \<open>Tokens\<close>

definition serializeTokenTransferOwnership :: "TokenInfo \<Rightarrow> string \<Rightarrow> (bytes \<times> bytes) result" where
  "serializeTokenTransferOwnership tokenData index =
     bindr (Marshal (TokenInfo_json tokenData)) (\<lambda>tokenDataSerialized.
     let currentOwnerData = (case ti_OwnersHistory tokenData of
           od # _ \<Rightarrow> od | [] \<Rightarrow> \<lparr>od_TxHash = [], od_Address = [], od_Timestamp = 0\<rparr>) in
     bindr (Marshal (OwnerData_json currentOwnerData)) (\<lambda>ownerDataSerialized.
     Inr (update_meta index (ti_Token tokenData),
       script_upsert code_transfer_ownership
         (''{\"elem\": '' @ ownerDataSerialized @ '', \"owner\": \"'' @ JsonEscape (ti_CurrentOwner tokenData) @ ''\"}'')
         tokenDataSerialized)))"

definition serializeTokenChangeType :: "TokenInfo \<Rightarrow> string \<Rightarrow> (bytes \<times> bytes) result" where
  "serializeTokenChangeType tokenData index =
     Inr (update_meta index (ti_Token tokenData),
       script_upsert code_change_type
         (''{\"type\": \"'' @ ti_Type tokenData @ ''\", \"timestamp\": '' @ dec_int (sint (ti_Timestamp tokenData)) @ '' }'') ''{}'')"

definition serializeToken :: "TokenInfo \<Rightarrow> string \<Rightarrow> (bytes \<times> bytes) result" where
  "serializeToken tokenData index =
     (if ti_TransferOwnership tokenData then serializeTokenTransferOwnership tokenData index
      else if ti_ChangeToDynamic tokenData then serializeTokenChangeType tokenData index
      else bindr (Marshal (TokenInfo_json tokenData)) (\<lambda>serializedTokenData.
        Inr (update_meta index (ti_Token tokenData),
          script_upsert code_token (''{\"token\": '' @ serializedTokenData @ ''}'') serializedTokenData)))"

section \<open>Updates of NFTs (converters/tokenMetaData.go)\<close>

definition prepareSerializeDataForFreezeAndUnFreeze :: "NFTDataUpdate \<Rightarrow> bytes" where
  "prepareSerializeDataForFreezeAndUnFreeze u = nft_script code_frozen (''{\"frozen\": '' @ bool_text (nu_Freeze u) @ ''}'')"

definition prepareSerializedDataForPauseAndUnPause :: "NFTDataUpdate \<Rightarrow> bytes" where
  "prepareSerializedDataForPauseAndUnPause u = nft_script code_paused (''{\"paused\": '' @ bool_text (nu_Pause u) @ ''}'')"

definition prepareSerializedDataForMetaDataRecreate :: "TokenMetaData \<Rightarrow> bytes result" where
  "prepareSerializedDataForMetaDataRecreate newMetaData =
     bindr (Marshal (TokenMetaData_json newMetaData)) (\<lambda>tokenMetaDataBytes.
       Inr (nft_script code_metadata (''{\"metaData\": '' @ tokenMetaDataBytes @ ''}'')))"

definition prepareSerializeDataForNewRoyalties :: "u32 \<Rightarrow> bytes" where
  "prepareSerializeDataForNewRoyalties v = nft_script code_royalties (''{\"royalties\": '' @ dec_nat (unat v) @ ''}'')"

definition prepareSerializeDataForNewCreator :: "NFTDataUpdate \<Rightarrow> bytes" where
  "prepareSerializeDataForNewCreator u = nft_script code_creator (''{\"creator\": \"'' @ nu_NewCreator u @ ''\"}'')"

definition nft_attributes_data :: "core_lib \<Rightarrow> NFTDataUpdate \<Rightarrow> bytes result" where
  "nft_attributes_data L u =
     (let base64Attr = base64_encode (TruncateFieldIfExceedsMaxLengthBase64 (nu_NewAttributes u));
          newTags = TruncateSliceElementsIfExceedsMaxLength (ExtractTagsFromAttributes L (nu_NewAttributes u));
          newMetadata = ExtractMetaDataFromAttributes L (nu_NewAttributes u) in
      bindr (Marshal (json_list JStr newTags)) (\<lambda>marshalizedTags.
      if nu_URIsToAdd u \<noteq> [] then
        bindr (Marshal (json_list JStr (TruncateSliceElementsIfExceedsMaxLength (map base64_encode (nu_URIsToAdd u))))) (\<lambda>marshalizedURIS.
        Inr (script_upsert code_nft_uris
          (''{\"uris\": '' @ marshalizedURIS @ '', \"set\":'' @ bool_text (nu_SetURIs u) @ ''}'') ''{}''))
      else Inr (nft_script code_nft_attributes
          (''{\"attributes\": \"'' @ base64Attr @ ''\", \"metadata\": \"'' @ newMetadata @ ''\", \"tags\": '' @ marshalizedTags @ ''}''))))"

definition nft_update_id :: "bool \<Rightarrow> NFTDataUpdate \<Rightarrow> string" where
  "nft_update_id isAccountsESDTIndex u =
     (if isAccountsESDTIndex then nu_Address u @ ''-'' @ nu_Identifier u else nu_Identifier u)"

definition nft_update_data :: "core_lib \<Rightarrow> bool \<Rightarrow> NFTDataUpdate \<Rightarrow> bytes result" where
  "nft_update_data L isAccountsESDTIndex u =
     (if (nu_Freeze u \<or> nu_UnFreeze u) \<and> \<not> isAccountsESDTIndex then Inr (prepareSerializeDataForFreezeAndUnFreeze u)
      else if (nu_Pause u \<or> nu_UnPause u) \<and> \<not> isAccountsESDTIndex then Inr (prepareSerializedDataForPauseAndUnPause u)
      else case nu_NewMetaData u of
        Some m \<Rightarrow> prepareSerializedDataForMetaDataRecreate m
      | None \<Rightarrow>
          (if nu_NewCreator u \<noteq> [] then Inr (prepareSerializeDataForNewCreator u)
           else case nu_NewRoyalties u of
             Some v \<Rightarrow> Inr (prepareSerializeDataForNewRoyalties v)
           | None \<Rightarrow> nft_attributes_data L u))"

definition PrepareNFTUpdateData ::
    "core_lib \<Rightarrow> NFTDataUpdate list \<Rightarrow> bool \<Rightarrow> string \<Rightarrow> BufferSlice \<Rightarrow> BufferSlice result" where
  "PrepareNFTUpdateData L updateNFTData isAccountsESDTIndex index =
     fold_r (\<lambda>u b. bindr (nft_update_data L isAccountsESDTIndex u) (\<lambda>serializedData.
       PutData (raw_update_meta index (nft_update_id isAccountsESDTIndex u)) serializedData b)) updateNFTData"

definition SerializeTokens ::
    "core_lib \<Rightarrow> TokenInfo list \<Rightarrow> NFTDataUpdate list \<Rightarrow> string \<Rightarrow> BufferSlice \<Rightarrow> BufferSlice result" where
  "SerializeTokens L toks updateNFTData index b =
     bindr (fold_r (\<lambda>tokenData b. bindr (serializeToken tokenData index) (\<lambda>(meta, serializedData).
              PutData meta serializedData b)) toks b)
       (PrepareNFTUpdateData L updateNFTData False index)"

definition SerializeSupplyData :: "core_consts \<Rightarrow> tokensInfo \<Rightarrow> string \<Rightarrow> BufferSlice \<Rightarrow> BufferSlice result" where
  "SerializeSupplyData K supply index =
     fold_r (\<lambda>supplyData b.
       if ti_Type supplyData \<noteq> k_NonFungibleESDT K \<and> ti_Type supplyData \<noteq> k_NonFungibleESDTv2 K \<and>
          ti_Type supplyData \<noteq> k_DynamicNFTESDT K then Inr b
       else PutData (delete_meta index (ti_Identifier supplyData)) [] b) (TokensGetAll supply)"

section \<open>Roles and properties\<close>

definition serializeRoleData :: "RoleData \<Rightarrow> string \<Rightarrow> string \<Rightarrow> BufferSlice \<Rightarrow> BufferSlice result" where
  "serializeRoleData rd role index =
     (let r = JsonEscape role; a = JsonEscape (rd_Address rd) in
      PutData (role_meta index (rd_Token rd))
        (if rd_Set rd
         then script_upsert code_role_set (''{ \"role\": \"'' @ r @ ''\", \"address\": \"'' @ a @ ''\"}'')
                (''{ \"roles\": {\"'' @ r @ ''\": [\"'' @ a @ ''\"]}}'')
         else script_upsert code_role_unset (''{ \"role\": \"'' @ r @ ''\", \"address\": \"'' @ a @ ''\" }'') ''{} ''))"

definition serializePropertiesData :: "string \<Rightarrow> PropertiesData \<Rightarrow> BufferSlice \<Rightarrow> BufferSlice result" where
  "serializePropertiesData index tokenProp b =
     bindr (Marshal (properties_json (pd_Properties tokenProp))) (\<lambda>propertiesBytes.
       PutData (role_meta index (pd_Token tokenProp))
         (script_upsert code_properties (''{ \"properties\": '' @ propertiesBytes @ ''}'') ''{}}'') b)"

definition SerializeRolesData :: "TokenRolesAndProperties \<Rightarrow> string \<Rightarrow> BufferSlice \<Rightarrow> BufferSlice result" where
  "SerializeRolesData tap index b =
     bindr (fold_r (\<lambda>(role, roleData). fold_r (\<lambda>rd. serializeRoleData rd role index) roleData)
              (GetRoles tap) b)
       (fold_r (serializePropertiesData index) (GetAllTokensWithProperties tap))"

section \<open>Delegators\<close>

definition computeDelegatorID :: "(string \<Rightarrow> bytes) \<Rightarrow> Delegator \<Rightarrow> string" where
  "computeDelegatorID compute delegator = base64_encode (compute (dg_Address delegator @ dg_Contract delegator))"

definition prepareSerializedDataForDelegator :: "bytes \<Rightarrow> bytes" where
  "prepareSerializedDataForDelegator delegatorSerialized =
     scripted_upsert code_delegator (''{ \"delegator\": '' @ delegatorSerialized @ '' }'')"

definition prepareSerializedDataForUnDelegate :: "UnDelegate \<Rightarrow> bytes \<Rightarrow> bytes result" where
  "prepareSerializedDataForUnDelegate unDelegateInfo delegatorSerialized =
     bindr (Marshal (UnDelegate_json unDelegateInfo)) (\<lambda>unDelegateInfoSerialized.
       Inr (scripted_upsert code_undelegate
         (''{ \"delegator\": '' @ delegatorSerialized @ '', \"unDelegate\": '' @ unDelegateInfoSerialized @ '' }'')))"

definition prepareSerializedDataForWithdrawal :: "string list \<Rightarrow> bytes \<Rightarrow> bytes result" where
  "prepareSerializedDataForWithdrawal withdrawFundIDs delegatorSerialized =
     bindr (Marshal (JArr (map JStr withdrawFundIDs))) (\<lambda>withdrawFundIDsSerialized.
       Inr (scripted_upsert code_withdraw
         (''{ \"delegator\": '' @ delegatorSerialized @ '', \"withdrawIds\": '' @ withdrawFundIDsSerialized @ '' }'')))"

definition prepareSerializedDelegator ::
    "(string \<Rightarrow> bytes) \<Rightarrow> Delegator \<Rightarrow> string \<Rightarrow> (bytes \<times> bytes) result" where
  "prepareSerializedDelegator compute delegator index =
     (let i = computeDelegatorID compute delegator in
      if dg_ShouldDelete delegator then Inr (delete_meta index i, [])
      else bindr (Marshal (Delegator_json delegator)) (\<lambda>delegatorSerialized.
        bindr (case dg_UnDelegateInfo delegator of
            Some info \<Rightarrow> prepareSerializedDataForUnDelegate info delegatorSerialized
          | None \<Rightarrow> (case dg_WithdrawFundIDs delegator of
              Some ids \<Rightarrow> prepareSerializedDataForWithdrawal ids delegatorSerialized
            | None \<Rightarrow> Inr (prepareSerializedDataForDelegator delegatorSerialized))) (\<lambda>serializedData.
        Inr (update_meta index i, serializedData))))"

definition SerializeDelegators ::
    "(string \<Rightarrow> bytes) \<Rightarrow> (string, Delegator) gomap \<Rightarrow> string \<Rightarrow> BufferSlice \<Rightarrow> BufferSlice result" where
  "SerializeDelegators compute dgs index =
     fold_r (\<lambda>delegator b. bindr (prepareSerializedDelegator compute delegator index) (\<lambda>(meta, serializedData).
       PutData meta serializedData b)) (gm_values dgs)"

text \<open>The query of a revert is a request of its own, with its line breaks.\<close>

definition PrepareDelegatorsQueryInCaseOfRevert :: "u64 \<Rightarrow> bytes" where
  "PrepareDelegatorsQueryInCaseOfRevert ts =
     code_text [[], tabs 1 @ ''{'', tabs 1 @ ''  \"query\": {'', tabs 2 @ ''\"match\": {'',
       tabs 2 @ ''  \"timestamp\": \"'' @ dec_nat (unat ts) @ ''\"'', tabs 2 @ ''}'', tabs 1 @ ''  },'',
       tabs 1 @ ''  \"script\": {'', tabs 2 @ ''\"source\": \"'' @ FormatPainlessSource code_delegators_revert @ ''\",'',
       tabs 2 @ ''\"lang\": \"painless\",'', tabs 2 @ ''\"params\": {\"timestamp\": '' @ dec_nat (unat ts) @ ''}'',
       tabs 1 @ ''  }'', tabs 1 @ ''}'']"

section \<open>The text keeps the bulk format\<close>

lemma meta_ok_line:
  "list_all printable a \<Longrightarrow> list_all printable index \<Longrightarrow> list_all printable c \<Longrightarrow> list_all printable i \<Longrightarrow>
   list_all printable d \<Longrightarrow> meta_ok (meta_line a index c i d)"
  unfolding meta_line_def by (rule meta_okI) simp

lemma meta_ok_metas [framing_intros]:
  assumes "list_all printable index"
  shows "meta_ok (update_meta index i)" "meta_ok (delete_meta index i)" "meta_ok (role_meta index i)"
    "list_all printable i \<Longrightarrow> meta_ok (raw_update_meta index i)"
  unfolding update_meta_def delete_meta_def role_meta_def raw_update_meta_def
  by (simp_all add: meta_ok_line assms printable_JsonEscape)

lemma printable_templates [printable_intros]:
  assumes "list_all printable (FormatPainlessSource code)" and "list_all printable params"
  shows "list_all printable (scripted_upsert code params)" "list_all printable (nft_script code params)"
    "list_all printable u \<Longrightarrow> list_all printable (script_upsert code params u)"
  using assms by (simp_all add: scripted_upsert_def nft_script_def script_upsert_def)

lemma printable_bool_text [printable_intros]: "list_all printable (bool_text b)"
  by (simp add: bool_text_def)

lemma entry_ok_pair [framing_intros]: "meta_ok m \<Longrightarrow> list_all printable d \<Longrightarrow> entry_ok (m, d)"
  by (simp add: entry_ok_def)

lemma SerializeEvents_framed [framing_intros]:
  "list_all printable index \<Longrightarrow> keeps_framing (SerializeEvents events index)"
  unfolding SerializeEvents_def 
  by (intro framing_intros printable_intros) (auto dest: printable_Marshal)

lemma SerializeLogs_framed [framing_intros]:
  "list_all printable index \<Longrightarrow> keeps_framing (SerializeLogs logs index)"
  unfolding SerializeLogs_def 
  by (intro framing_intros printable_intros) (auto dest: printable_Marshal)

lemma SerializeChangeOwnerOperations_framed [framing_intros]:
  "list_all printable index \<Longrightarrow> keeps_framing (SerializeChangeOwnerOperations ops index)"
  unfolding SerializeChangeOwnerOperations_def
  by (intro framing_intros printable_intros) (auto dest: printable_Marshal)

lemma serializeDeploy_printable: "serializeDeploy d = Inr t \<Longrightarrow> list_all printable t"
  by (auto simp: serializeDeploy_def bindr_Inr_iff dest!: printable_Marshal intro!: printable_intros)

lemma SerializeSCDeploys_framed [framing_intros]:
  "list_all printable index \<Longrightarrow> keeps_framing (SerializeSCDeploys deploys index)"
  unfolding SerializeSCDeploys_def
  by (intro framing_intros) (auto dest: serializeDeploy_printable)

text \<open>The values that are put into a request without being escaped.\<close>

definition token_plain :: "TokenInfo \<Rightarrow> bool" where
  "token_plain t \<longleftrightarrow> list_all printable (ti_Type t)"

definition nft_update_plain :: "core_lib \<Rightarrow> NFTDataUpdate \<Rightarrow> bool" where
  "nft_update_plain L u \<longleftrightarrow> list_all printable (nu_Address u) \<and> list_all printable (nu_Identifier u) \<and>
     list_all printable (nu_NewCreator u) \<and> list_all printable (ExtractMetaDataFromAttributes L (nu_NewAttributes u))"

lemma serializeToken_ok:
  assumes "list_all printable index" and "token_plain t" and "serializeToken t index = Inr (m, d)"
  shows "entry_ok (m, d)"
  using assms
  by (auto simp: serializeToken_def serializeTokenTransferOwnership_def serializeTokenChangeType_def Let_def bindr_Inr_iff
      token_plain_def dest!: printable_Marshal intro!: framing_intros printable_intros split: if_splits)

lemma nft_attributes_data_printable:
  assumes "nft_update_plain L u" and "nft_attributes_data L u = Inr t"
  shows "list_all printable t"
  using assms
  by (auto simp: nft_attributes_data_def nft_update_plain_def Let_def bindr_Inr_iff
      dest!: printable_Marshal intro!: printable_intros split: if_splits)

lemma nft_update_data_printable:
  assumes "nft_update_plain L u" and "nft_update_data L e u = Inr t"
  shows "list_all printable t"
  using assms nft_attributes_data_printable [OF assms(1)]
  by (auto simp: nft_update_data_def prepareSerializeDataForFreezeAndUnFreeze_def
      prepareSerializedDataForPauseAndUnPause_def prepareSerializedDataForMetaDataRecreate_def
      prepareSerializeDataForNewCreator_def prepareSerializeDataForNewRoyalties_def nft_update_plain_def bindr_Inr_iff
      dest!: printable_Marshal intro!: printable_intros split: if_splits option.splits)

lemma nft_update_id_printable: "nft_update_plain L u \<Longrightarrow> list_all printable (nft_update_id e u)"
  by (simp add: nft_update_id_def nft_update_plain_def)

lemma PrepareNFTUpdateData_framed [framing_intros]:
  assumes "list_all printable index" and "list_all (nft_update_plain L) us"
  shows "keeps_framing (PrepareNFTUpdateData L us e index)"
proof -
  have "nft_update_plain L u" if "u \<in> set us" for u using assms(2) that by (simp add: list_all_iff)
  then show ?thesis
    unfolding PrepareNFTUpdateData_def
    by (intro framing_intros assms(1)) (auto intro: nft_update_data_printable nft_update_id_printable)
qed

interpretation token_docs: doc_writer "\<lambda>t. serializeToken t index" "\<lambda>t. list_all printable index \<and> token_plain t" for index
  by unfold_locales (metis serializeToken_ok prod.collapse)

lemma SerializeTokens_framed [framing_intros]:
  assumes "list_all printable index" and "list_all token_plain ts" and "list_all (nft_update_plain L) us"
  shows "keeps_framing (SerializeTokens L ts us index)"
  unfolding SerializeTokens_def
  by (intro keeps_framing_seq token_docs.put_docs_keeps PrepareNFTUpdateData_framed assms)
    (use assms in \<open>simp add: list_all_iff\<close>)

lemma SerializeSupplyData_framed [framing_intros]:
  "list_all printable index \<Longrightarrow> keeps_framing (SerializeSupplyData K supply index)"
  unfolding SerializeSupplyData_def by (intro framing_intros) simp_all

lemma SerializeRolesData_framed [framing_intros]:
  "list_all printable index \<Longrightarrow> keeps_framing (SerializeRolesData tap index)"
proof -
  assume i: "list_all printable index"
  have "keeps_framing (serializeRoleData rd role index)" for rd role
    unfolding serializeRoleData_def Let_def
    by (intro framing_intros i) (auto intro!: printable_intros)
  moreover have "keeps_framing (serializePropertiesData index p)" for p
    unfolding serializePropertiesData_def
    by (intro framing_intros printable_intros i) (auto dest: printable_Marshal)
  ultimately show ?thesis unfolding SerializeRolesData_def by (intro framing_intros)
qed

lemma prepareSerializedDelegator_ok:
  assumes "list_all printable index" and "prepareSerializedDelegator compute d index = Inr (m, t)"
  shows "entry_ok (m, t)"
  using assms
  by (auto simp: prepareSerializedDelegator_def prepareSerializedDataForDelegator_def prepareSerializedDataForUnDelegate_def
      prepareSerializedDataForWithdrawal_def Let_def bindr_Inr_iff dest!: printable_Marshal
      intro!: framing_intros printable_intros split: if_splits option.splits)

interpretation delegator_docs: doc_writer "\<lambda>d. prepareSerializedDelegator compute d index" "\<lambda>_. list_all printable index"
  for compute index
  by unfold_locales (metis prepareSerializedDelegator_ok prod.collapse)

lemma SerializeDelegators_framed [framing_intros]:
  "list_all printable index \<Longrightarrow> keeps_framing (SerializeDelegators compute dgs index)"
  unfolding SerializeDelegators_def by (rule delegator_docs.put_docs_keeps) (simp add: list_all_iff)

end
