(* ===== verification/Serialize_Docs.thy ===== *)
theory Serialize_Docs
  imports Serialize_Logs Accounts Operations Miniblocks
begin

text \<open>
  The serializers of accounts, transactions, operations, blocks, miniblocks, tags, rounds and validators
  (\<^verbatim>\<open>serialize.go\<close> of each package, \<^verbatim>\<open>validators/validatorsProcessor.go\<close>).  A loop that only logs an error and goes
  on, or that ends without reporting the error, is written as such.
\<close>

section \<open>Accounts\<close>

definition index_meta :: "string \<Rightarrow> string \<Rightarrow> bytes" where
  "index_meta index i = meta_line ''{ \"index\" : { \"_index\":\"'' index ''\", \"_id\" : \"'' (JsonEscape i) ''\" } }''"

definition compact_update_meta :: "string \<Rightarrow> string \<Rightarrow> bytes" where
  "compact_update_meta index i = meta_line ''{ \"update\" : {\"_index\":\"'' index ''\", \"_id\" : \"'' (JsonEscape i) ''\" } }''"

definition SerializeNFTCreateInfo :: "TokenInfo list \<Rightarrow> string \<Rightarrow> BufferSlice \<Rightarrow> BufferSlice result" where
  "SerializeNFTCreateInfo tokensInfo index =
     fold_r (\<lambda>tokenData b. bindr (Marshal (TokenInfo_json tokenData)) (\<lambda>serializedData.
       PutData (index_meta index (ti_Identifier tokenData)) serializedData b)) tokensInfo"

definition account_id :: "AccountInfo \<Rightarrow> bool \<Rightarrow> string" where
  "account_id acct isESDT =
     (if isESDT then ai_Address acct @ ''-'' @ ai_TokenName acct @ ''-'' @ EncodeNonceToHex (ai_TokenNonce acct)
      else ai_Address acct)"

definition prepareDeleteAccountInfo :: "AccountInfo \<Rightarrow> bool \<Rightarrow> string \<Rightarrow> bytes \<times> bytes" where
  "prepareDeleteAccountInfo acct isESDT index =
     (compact_update_meta index (account_id acct isESDT),
      scripted_upsert code_account_delete (''{\"timestamp\": '' @ dec_int (sint (ai_Timestamp acct)) @ ''}''))"

definition prepareSerializedAccountInfo :: "AccountInfo \<Rightarrow> bool \<Rightarrow> string \<Rightarrow> (bytes \<times> bytes) result" where
  "prepareSerializedAccountInfo account isESDTAccount index =
     bindr (Marshal (AccountInfo_json account)) (\<lambda>serializedAccount.
       Inr (role_meta index (account_id account isESDTAccount),
            scripted_upsert code_account (''{ \"account\": '' @ serializedAccount @ '' }'')))"

definition prepareSerializedAccount :: "AccountInfo \<Rightarrow> bool \<Rightarrow> string \<Rightarrow> (bytes \<times> bytes) result" where
  "prepareSerializedAccount acc isESDT index =
     (if (ai_Balance acc = ''0'' \<or> ai_Balance acc = []) \<and> isESDT
      then Inr (prepareDeleteAccountInfo acc isESDT index)
      else prepareSerializedAccountInfo acc isESDT index)"

definition SerializeAccounts :: "(string, AccountInfo) gomap \<Rightarrow> string \<Rightarrow> BufferSlice \<Rightarrow> BufferSlice result" where
  "SerializeAccounts accounts index =
     fold_r (\<lambda>acc b. bindr (prepareSerializedAccount acc False index) (\<lambda>(meta, serializedData).
       PutData meta serializedData b)) (gm_values accounts)"

definition SerializeAccountsESDT ::
    "core_lib \<Rightarrow> (string, AccountInfo) gomap \<Rightarrow> NFTDataUpdate list \<Rightarrow> string \<Rightarrow> BufferSlice \<Rightarrow> BufferSlice result" where
  "SerializeAccountsESDT L accounts updateNFTData index b =
     bindr (fold_r (\<lambda>acc b. bindr (prepareSerializedAccount acc True index) (\<lambda>(meta, serializedData).
              PutData meta serializedData b)) (gm_values accounts) b)
       (PrepareNFTUpdateData L updateNFTData True index)"

definition prepareSerializedAccountBalanceHistory :: "AccountBalanceHistory \<Rightarrow> string \<Rightarrow> (bytes \<times> bytes) result" where
  "prepareSerializedAccountBalanceHistory account index =
     (let i0 = (if abh_Token account \<noteq> []
                then abh_Address account @ ''-'' @ abh_Token account @ ''-'' @ EncodeNonceToHex (abh_TokenNonce account)
                else abh_Address account);
          i = i0 @ ''-'' @ dec_int (sint (abh_Timestamp account)) in
      bindr (Marshal (AccountBalanceHistory_json account)) (\<lambda>serializedData. Inr (index_meta index i, serializedData)))"

text \<open>An error of the preparation ends the loop, but the error that is returned is the last one of \<^verbatim>\<open>PutData\<close>, nil.\<close>

fun accounts_history_loop :: "string \<Rightarrow> AccountBalanceHistory list \<Rightarrow> BufferSlice \<Rightarrow> BufferSlice result" where
  "accounts_history_loop index [] b = Inr b"
| "accounts_history_loop index (acc # rest) b =
     (case prepareSerializedAccountBalanceHistory acc index of
        Inl errPrepareAcc \<Rightarrow> Inr b
      | Inr (meta, serializedData) \<Rightarrow> bindr (PutData meta serializedData b) (accounts_history_loop index rest))"

definition SerializeAccountsHistory ::
    "(string, AccountBalanceHistory) gomap \<Rightarrow> string \<Rightarrow> BufferSlice \<Rightarrow> BufferSlice result" where
  "SerializeAccountsHistory accounts index = accounts_history_loop index (gm_values accounts)"

definition SerializeTypeForProvidedIDs :: "string list \<Rightarrow> string \<Rightarrow> string \<Rightarrow> BufferSlice \<Rightarrow> BufferSlice result" where
  "SerializeTypeForProvidedIDs ids tokenType index =
     fold_r (\<lambda>i. PutData (compact_update_meta index i)
       (scripted_upsert code_type (''{\"type\": \"'' @ JsonEscape tokenType @ ''\"}''))) ids"

section \<open>Transactions\<close>

definition spaced_index_meta :: "string \<Rightarrow> string \<Rightarrow> bytes" where
  "spaced_index_meta index i = meta_line ''{ \"index\" : { \"_index\": \"'' index ''\", \"_id\" : \"'' (JsonEscape i) ''\" } }''"

definition tx_update_meta :: "string \<Rightarrow> string \<Rightarrow> bytes" where
  "tx_update_meta index i = meta_line ''{\"update\":{ \"_index\":\"'' index ''\", \"_id\":\"'' (JsonEscape i) ''\"}}''"

definition SerializeScResults :: "ScResult list \<Rightarrow> string \<Rightarrow> BufferSlice \<Rightarrow> BufferSlice result" where
  "SerializeScResults scResults index =
     fold_r (\<lambda>sc b. bindr (Marshal (ScResult_json sc)) (\<lambda>serializedData.
       PutData (spaced_index_meta index (scr_Hash sc)) serializedData b)) scResults"

definition SerializeReceipts :: "Receipt list \<Rightarrow> string \<Rightarrow> BufferSlice \<Rightarrow> BufferSlice result" where
  "SerializeReceipts receipts index =
     fold_r (\<lambda>r b. bindr (Marshal (Receipt_json r)) (\<lambda>serializedData.
       PutData (spaced_index_meta index (rec_Hash r)) serializedData b)) receipts"

definition SerializeTransactionsFeeData :: "(string, FeeData) gomap \<Rightarrow> string \<Rightarrow> BufferSlice \<Rightarrow> BufferSlice result" where
  "SerializeTransactionsFeeData txHashRefund index =
     fold_r (\<lambda>(txHash, feeData). PutData (raw_update_meta index (JsonEscape txHash))
       (scripted_upsert (if fd_GasRefunded feeData \<noteq> 0 then code_fee_refund else code_fee)
         (''{\"fee\": \"'' @ fd_Fee feeData @ ''\", \"gasUsed\": '' @ dec_nat (unat (fd_GasUsed feeData)) @ '', \"feeNum\": '' @
          percent_g (fd_FeeNum feeData) @ '', \"gasRefunded\": '' @ dec_nat (unat (fd_GasRefunded feeData)) @ ''}''))) txHashRefund"

definition minNumOfArgumentsNFTTransferORMultiTransfer :: nat where
  "minNumOfArgumentsNFTTransferORMultiTransfer = 4"

definition isNFTTransferOrMultiTransfer :: "core_consts \<Rightarrow> Transaction \<Rightarrow> bool" where
  "isNFTTransferOrMultiTransfer K tx \<longleftrightarrow>
     tx_SenderShard tx = tx_ReceiverShard tx \<and>
     (let splitData = split_char (hd AtSeparator) (tx_Data tx) in
      minNumOfArgumentsNFTTransferORMultiTransfer \<le> length splitData \<and>
      (splitData ! 0 = k_ESDTNFTTransfer K \<or> splitData ! 0 = k_MultiESDTNFTTransfer K))"

definition isSimpleESDTTransfer :: "core_consts \<Rightarrow> Transaction \<Rightarrow> bool" where
  "isSimpleESDTTransfer K tx \<longleftrightarrow> tx_Operation tx = k_ESDTTransfer K \<and> tx_Function tx = []"

definition isSimpleESDTTransferCrossShardOnDestination :: "core_consts \<Rightarrow> Transaction \<Rightarrow> u32 \<Rightarrow> bool" where
  "isSimpleESDTTransferCrossShardOnDestination K tx selfShard \<longleftrightarrow>
     isSimpleESDTTransfer K tx \<and> tx_SenderShard tx \<noteq> tx_ReceiverShard tx \<and> tx_ReceiverShard tx = selfShard"

text \<open>The requests of a transaction have no blanks after the colons of \<^verbatim>\<open>script\<close>, \<^verbatim>\<open>source\<close>, \<^verbatim>\<open>params\<close> and \<^verbatim>\<open>upsert\<close>.\<close>

definition tx_script :: "string \<Rightarrow> bytes \<Rightarrow> bytes" where
  "tx_script code marshaledTx =
     ''{\"scripted_upsert\": true, \"script\":{\"source\":\"'' @ FormatPainlessSource code @
     ''\",\"lang\": \"painless\",\"params\":{\"tx\": '' @ marshaledTx @ ''}},\"upsert\":{}}''"

definition upsert_only :: "bytes \<Rightarrow> bytes" where
  "upsert_only marshaled = ''{\"script\":{\"source\":\"return\"},\"upsert\":'' @ marshaled @ ''}''"

definition prepareSerializedDataForESDTTransferOnDestination :: "bytes \<Rightarrow> bytes" where
  "prepareSerializedDataForESDTTransferOnDestination marshaledTx = tx_script code_esdt_destination marshaledTx"

definition prepareNFTESDTTransferOrMultiESDTTransfer :: "bytes \<Rightarrow> bytes" where
  "prepareNFTESDTTransferOrMultiESDTTransfer marshaledTx = tx_script code_nft_transfer marshaledTx"

definition prepareSerializedDataForATransaction ::
    "core_consts \<Rightarrow> Transaction \<Rightarrow> u32 \<Rightarrow> string \<Rightarrow> (bytes \<times> bytes) result" where
  "prepareSerializedDataForATransaction K tx selfShardID index =
     (let metaData = tx_update_meta index (tx_Hash tx) in
      bindr (Marshal (Transaction_json tx)) (\<lambda>marshaledTx.
      Inr (if isCrossShardOnSourceShard tx selfShardID
           then (metaData, if isSimpleESDTTransfer K tx then tx_script code_esdt_source marshaledTx else upsert_only marshaledTx)
           else if isNFTTransferOrMultiTransfer K tx then (metaData, prepareNFTESDTTransferOrMultiESDTTransfer marshaledTx)
           else if isSimpleESDTTransferCrossShardOnDestination K tx selfShardID
           then (metaData, prepareSerializedDataForESDTTransferOnDestination marshaledTx)
           else (index_meta index (tx_Hash tx), marshaledTx))))"

text \<open>The JSON of a status record is defined outside the repository.\<close>

definition serializeTxHashStatus ::
    "(StatusInfo \<Rightarrow> json) \<Rightarrow> (string, StatusInfo) gomap \<Rightarrow> string \<Rightarrow> BufferSlice \<Rightarrow> BufferSlice result" where
  "serializeTxHashStatus status_json txHashStatusInfo index =
     fold_r (\<lambda>(txHash, statusInfo) b.
       bindr (Marshal (Transaction_json (zeroTransaction\<lparr>tx_Status := si_Status statusInfo,
         tx_ErrorEvent := si_ErrorEvent statusInfo, tx_CompletedEvent := si_CompletedEvent statusInfo\<rparr>))) (\<lambda>marshaledTx.
       bindr (Marshal (status_json statusInfo)) (\<lambda>marshaledStatusInfo.
       PutData (raw_update_meta index txHash)
         (''{\"script\": {\"source\": \"'' @ FormatPainlessSource code_status @ ''\",\"lang\": \"painless\",\"params\": {\"statusInfo\": '' @
          marshaledStatusInfo @ ''}}, \"upsert\": '' @ marshaledTx @ '' }'') b))) txHashStatusInfo"

definition SerializeTransactions ::
    "core_consts \<Rightarrow> (StatusInfo \<Rightarrow> json) \<Rightarrow> Transaction list \<Rightarrow> (string, StatusInfo) gomap \<Rightarrow> u32 \<Rightarrow> string
     \<Rightarrow> BufferSlice \<Rightarrow> BufferSlice result" where
  "SerializeTransactions K status_json transactions txHashStatusInfo selfShardID index b =
     bindr (fold_r (\<lambda>tx b. bindr (prepareSerializedDataForATransaction K tx selfShardID index) (\<lambda>(meta, serializedData).
              PutData meta serializedData b)) transactions b)
       (serializeTxHashStatus status_json txHashStatusInfo index)"

section \<open>Operations\<close>

definition prepareSerializedDataForAScResult :: "ScResult \<Rightarrow> string \<Rightarrow> u32 \<Rightarrow> (bytes \<times> bytes) result" where
  "prepareSerializedDataForAScResult scr index selfShardID =
     bindr (Marshal (ScResult_json scr)) (\<lambda>marshaledSCR.
     Inr (if scr_SenderShard scr \<noteq> scr_ReceiverShard scr \<and> scr_SenderShard scr = selfShardID
          then (meta_line ''{\"update\":{\"_index\":\"'' index ''\",\"_id\":\"'' (JsonEscape (scr_Hash scr)) ''\"}}'', upsert_only marshaledSCR)
          else (meta_line ''{ \"index\" : { \"_index\":\"'' index ''\",\"_id\" : \"'' (JsonEscape (scr_Hash scr)) ''\" } }'', marshaledSCR)))"

definition SerializeSCRs :: "ScResult list \<Rightarrow> string \<Rightarrow> u32 \<Rightarrow> BufferSlice \<Rightarrow> BufferSlice result" where
  "SerializeSCRs results index selfShardID =
     fold_r (\<lambda>scr b. bindr (prepareSerializedDataForAScResult scr index selfShardID) (\<lambda>(meta, serializedData).
       PutData meta serializedData b)) results"

section \<open>Blocks and miniblocks\<close>

definition SerializeBlock :: "Block option \<Rightarrow> string \<Rightarrow> BufferSlice \<Rightarrow> BufferSlice result" where
  "SerializeBlock elasticBlock index b =
     (case elasticBlock of None \<Rightarrow> Inl ErrNilElasticBlock
      | Some bl \<Rightarrow> bindr (Marshal (Block_json bl)) (\<lambda>serializedData.
          PutData (index_meta index (bl_Hash bl)) serializedData b))"

text \<open>The fees of the epoch are fields of a metachain block only.\<close>

definition SerializeEpochInfoData ::
    "(HeaderFull \<Rightarrow> int \<times> int) \<Rightarrow> HeaderFull option \<Rightarrow> string \<Rightarrow> BufferSlice \<Rightarrow> BufferSlice result" where
  "SerializeEpochInfoData epoch_fees header index b =
     (case header of None \<Rightarrow> Inl ErrNilHeaderHandler
      | Some hdr \<Rightarrow>
          if \<not> h_IsMetaBlock hdr then Inl ErrHeaderTypeAssertion
          else let (accumulated, dev) = epoch_fees hdr in
            bindr (Marshal (EpochInfo_json \<lparr>epi_AccumulatedFees = dec_int accumulated, epi_DeveloperFees = dec_int dev\<rparr>)) (\<lambda>serializedData.
            PutData (meta_line ''{ \"index\" : { \"_index\":\"'' index ''\", \"_id\" : \"'' (dec_nat (unat (h_Epoch hdr))) ''\" } }'')
              serializedData b))"

definition prepareMiniblockData ::
    "(processing_type \<Rightarrow> string) \<Rightarrow> Miniblock \<Rightarrow> string \<Rightarrow> u32 \<Rightarrow> (bytes \<times> bytes) result" where
  "prepareMiniblockData pn miniblockDB index shardID =
     bindr (Marshal (Miniblock_json (miniblockDB\<lparr>mb_Hash := []\<rparr>))) (\<lambda>mbBytes.
     let notProcessedOnSource = (shardID = mb_SenderShardID miniblockDB \<and>
           mb_ProcessingTypeOnDestination miniblockDB \<noteq> pn Processed) in
     Inr (compact_update_meta index (mb_Hash miniblockDB),
       scripted_upsert code_miniblock (''{ \"mb\": '' @ mbBytes @ '', \"npos\": '' @ bool_text notProcessedOnSource @ '' }'')))"

definition SerializeBulkMiniBlocks ::
    "(processing_type \<Rightarrow> string) \<Rightarrow> Miniblock list \<Rightarrow> string \<Rightarrow> u32 \<Rightarrow> BufferSlice \<Rightarrow> BufferSlice" where
  "SerializeBulkMiniBlocks pn bulkMbs index shardID =
     fold (\<lambda>mb b. case bindr (prepareMiniblockData pn mb index shardID) (\<lambda>(meta, serializedData).
                    PutData meta serializedData b) of
            Inl err \<Rightarrow> b | Inr b' \<Rightarrow> b') bulkMbs"

section \<open>Tags, rounds and validators\<close>

definition MaxIDSize :: nat where "MaxIDSize = 512"

definition TagsSerialize :: "tagsCount \<Rightarrow> string \<Rightarrow> BufferSlice \<Rightarrow> BufferSlice result" where
  "TagsSerialize tc index =
     fold_r (\<lambda>(tag, count) b.
       if tag = [] then Inr b
       else let base64Tag = take MaxIDSize (base64_encode tag); t = JsonEscape tag; c = dec_int count in
         PutData (compact_update_meta index base64Tag)
           (script_upsert code_tags (''{\"count\": '' @ c @ '', \"tag\": \"'' @ t @ ''\"}'')
             (''{\"count\": '' @ c @ '', \"tag\":\"'' @ t @ ''\"}'')) b) tc"

text \<open>A round that cannot be marshalled adds nothing.\<close>

definition serializeRoundInfo :: "RoundInfo \<Rightarrow> bytes \<times> bytes" where
  "serializeRoundInfo info =
     (case Marshal (RoundInfo_json info) of
        Inl err \<Rightarrow> ([], [])
      | Inr serializedInfo \<Rightarrow> (serializedInfo @ ''\<newline>'',
          ''{ \"index\" : { \"_id\" : \"'' @ dec_nat (unat (ri_ShardId info)) @ ''_'' @ dec_nat (unat (ri_Round info)) @
          ''\" } }'' @ ''\<newline>''))"

definition SerializeRoundsInfo :: "RoundInfo list \<Rightarrow> bytes" where
  "SerializeRoundsInfo rounds =
     fold (\<lambda>info buff. let (serializedRoundInfo, meta) = serializeRoundInfo info in buff @ meta @ serializedRoundInfo) rounds []"

definition id_meta :: "string \<Rightarrow> bytes" where
  "id_meta i = meta_line ''{ \"index\" : { \"_id\" : \"'' [] [] i ''\" } }''"

definition NewValidatorsProcessor :: "bool \<Rightarrow> unit result" where
  "NewValidatorsProcessor has_converter = (if \<not> has_converter then Inl ErrNilPubkeyConverter else Inr ())"

text \<open>The key converter answers with the empty string beside an error, which the code does not read.\<close>

definition prepareAndSerializeValidatorsKeysForShard ::
    "core_lib \<Rightarrow> u32 \<Rightarrow> u32 \<Rightarrow> bytes list \<Rightarrow> BufferSlice \<Rightarrow> BufferSlice result" where
  "prepareAndSerializeValidatorsKeysForShard L shardID epoch ks b =
     (let preparedValidatorsPubKeys =
            \<lparr>vp_PublicKeys = map (\<lambda>key. case Encode L key of None \<Rightarrow> [] | Some strValidatorPk \<Rightarrow> strValidatorPk) ks\<rparr>;
          i = dec_nat (unat shardID) @ ''_'' @ dec_nat (unat epoch) in
      bindr (Marshal (ValidatorsPublicKeys_json preparedValidatorsPubKeys)) (\<lambda>serializedData.
        PutData (id_meta i) serializedData b))"

definition PrepareAnSerializeValidatorsPubKeys ::
    "core_lib \<Rightarrow> int \<Rightarrow> u32 \<Rightarrow> (u32, bytes list) gomap \<Rightarrow> bytes list result" where
  "PrepareAnSerializeValidatorsPubKeys L bulkSizeMaxSize epoch shardValidatorsPubKeys =
     bindr (fold_r (\<lambda>(shardID, ks). prepareAndSerializeValidatorsKeysForShard L shardID epoch ks) shardValidatorsPubKeys
              (NewBufferSlice bulkSizeMaxSize))
       (\<lambda>b. Inr (Buffers b))"

text \<open>A rating that cannot be marshalled is left out.\<close>

definition SerializeValidatorsRating :: "int \<Rightarrow> u32 \<Rightarrow> ValidatorRatingInfo list \<Rightarrow> bytes list result" where
  "SerializeValidatorsRating bulkSizeMaxSize epoch ratings =
     bindr (fold_r (\<lambda>ratingInfo b. case Marshal (ValidatorRatingInfo_json ratingInfo) of
                Inl err \<Rightarrow> Inr b
              | Inr serializedData \<Rightarrow> PutData (id_meta (vr_PublicKey ratingInfo @ ''_'' @ dec_nat (unat epoch))) serializedData b)
              ratings (NewBufferSlice bulkSizeMaxSize))
       (\<lambda>b. Inr (Buffers b))"

section \<open>The text keeps the bulk format\<close>

lemma meta_ok_doc_metas [framing_intros]:
  assumes "list_all printable index"
  shows "meta_ok (index_meta index i)" "meta_ok (compact_update_meta index i)" "meta_ok (spaced_index_meta index i)"
    "meta_ok (tx_update_meta index i)"
  unfolding index_meta_def compact_update_meta_def spaced_index_meta_def tx_update_meta_def
  by (simp_all add: meta_ok_line assms printable_JsonEscape)

lemma printable_tx_templates [printable_intros]:
  "list_all printable (FormatPainlessSource code) \<Longrightarrow> list_all printable t \<Longrightarrow> list_all printable (tx_script code t)"
  "list_all printable t \<Longrightarrow> list_all printable (upsert_only t)"
  by (simp_all add: tx_script_def upsert_only_def)

lemma SerializeNFTCreateInfo_framed [framing_intros]:
  "list_all printable index \<Longrightarrow> keeps_framing (SerializeNFTCreateInfo ts index)"
  unfolding SerializeNFTCreateInfo_def by (intro framing_intros) (auto dest: printable_Marshal)

lemma prepareSerializedAccount_ok:
  assumes "list_all printable index" and "prepareSerializedAccount acc e index = Inr (m, d)"
  shows "entry_ok (m, d)"
  using assms
  by (auto simp: prepareSerializedAccount_def prepareDeleteAccountInfo_def prepareSerializedAccountInfo_def bindr_Inr_iff
      dest!: printable_Marshal intro!: framing_intros printable_intros split: if_splits)

interpretation account_docs: doc_writer "\<lambda>acc. prepareSerializedAccount acc isESDT index" "\<lambda>_. list_all printable index"
  for isESDT index
  by unfold_locales (metis prepareSerializedAccount_ok prod.collapse)

lemma SerializeAccounts_framed [framing_intros]:
  "list_all printable index \<Longrightarrow> keeps_framing (SerializeAccounts accounts index)"
  unfolding SerializeAccounts_def by (rule account_docs.put_docs_keeps) (simp add: list_all_iff)

lemma SerializeAccountsESDT_framed [framing_intros]:
  assumes "list_all printable index" and "list_all (nft_update_plain L) us"
  shows "keeps_framing (SerializeAccountsESDT L accounts us index)"
  unfolding SerializeAccountsESDT_def
  by (intro keeps_framing_seq PrepareNFTUpdateData_framed assms account_docs.put_docs_keeps) (simp add: list.pred_True assms)

lemma SerializeAccountsHistory_framed [framing_intros]:
  assumes "list_all printable index"
  shows "keeps_framing (SerializeAccountsHistory accounts index)"
proof -
  have "entry_ok (m, d)" if "prepareSerializedAccountBalanceHistory a index = Inr (m, d)" for a m d
    using that assms
    by (auto simp: prepareSerializedAccountBalanceHistory_def Let_def bindr_Inr_iff
        dest!: printable_Marshal intro!: framing_intros)
  then have "keeps_framing (accounts_history_loop index as)" for as
  proof (induction as)
    case (Cons a as)
    show ?case
    proof (cases "prepareSerializedAccountBalanceHistory a index")
      case (Inr e)
      obtain m d where e: "e = (m, d)" by (cases e)
      with Inr Cons.prems have "keeps_framing (PutData m d)" by (intro keeps_framing_PutData) simp
      from keeps_framing_seq [OF this Cons.IH [OF Cons.prems]] Inr e show ?thesis by (simp add: keeps_framing_def)
    qed (simp add: keeps_framing_def)
  qed (simp add: keeps_framing_def)
  then show ?thesis by (simp add: SerializeAccountsHistory_def)
qed

lemma SerializeTypeForProvidedIDs_framed [framing_intros]:
  "list_all printable index \<Longrightarrow> keeps_framing (SerializeTypeForProvidedIDs ids t index)"
  unfolding SerializeTypeForProvidedIDs_def
  by (intro framing_intros printable_intros) (auto intro: printable_JsonEscape)

lemma SerializeScResults_framed [framing_intros]:
  "list_all printable index \<Longrightarrow> keeps_framing (SerializeScResults scs index)"
  unfolding SerializeScResults_def by (intro framing_intros) (auto dest: printable_Marshal)

lemma SerializeReceipts_framed [framing_intros]:
  "list_all printable index \<Longrightarrow> keeps_framing (SerializeReceipts rs index)"
  unfolding SerializeReceipts_def by (intro framing_intros) (auto dest: printable_Marshal)

definition fee_plain :: "string \<times> FeeData \<Rightarrow> bool" where
  "fee_plain e \<longleftrightarrow> list_all printable (fd_Fee (snd e))"

lemma SerializeTransactionsFeeData_framed [framing_intros]:
  assumes "list_all printable index" and "list_all fee_plain fees"
  shows "keeps_framing (SerializeTransactionsFeeData fees index)"
  unfolding SerializeTransactionsFeeData_def
proof (intro framing_intros assms(1))
  fix x h f assume "x \<in> set fees" and x: "x = (h, f)"
  then have "list_all printable (fd_Fee f)" using assms(2) by (auto simp: list_all_iff fee_plain_def)
  then show "list_all printable (scripted_upsert (if fd_GasRefunded f \<noteq> 0 then code_fee_refund else code_fee)
      (''{\"fee\": \"'' @ fd_Fee f @ ''\", \"gasUsed\": '' @ dec_nat (unat (fd_GasUsed f)) @ '', \"feeNum\": '' @
       percent_g (fd_FeeNum f) @ '', \"gasRefunded\": '' @ dec_nat (unat (fd_GasRefunded f)) @ ''}''))"
    by (intro printable_intros) (auto intro: printable_intros)
qed (rule printable_JsonEscape)

lemma prepareSerializedDataForATransaction_ok:
  assumes "list_all printable index" and "prepareSerializedDataForATransaction K tx s index = Inr (m, d)"
  shows "entry_ok (m, d)"
  using assms
  by (auto simp: prepareSerializedDataForATransaction_def prepareNFTESDTTransferOrMultiESDTTransfer_def
      prepareSerializedDataForESDTTransferOnDestination_def Let_def bindr_Inr_iff
      dest!: printable_Marshal intro!: framing_intros printable_intros split: if_splits)

interpretation tx_docs: doc_writer "\<lambda>tx. prepareSerializedDataForATransaction K tx s index" "\<lambda>_. list_all printable index"
  for K s index
  by unfold_locales (metis prepareSerializedDataForATransaction_ok prod.collapse)

lemma SerializeTransactions_framed [framing_intros]:
  assumes "list_all printable index" and "list_all (list_all printable \<circ> fst) st"
  shows "keeps_framing (SerializeTransactions K sj ts st s index)"
proof -
  have "list_all printable h" if "(h, i) \<in> set st" for h i using assms(2) that by (auto simp: list_all_iff)
  then have "keeps_framing (serializeTxHashStatus sj st index)"
    unfolding serializeTxHashStatus_def
    by (intro framing_intros assms(1)) (auto simp: printable_scripts dest!: printable_Marshal)
  then show ?thesis
    unfolding SerializeTransactions_def
    by (intro keeps_framing_seq tx_docs.put_docs_keeps) (simp_all add: list.pred_True assms)
qed

lemma prepareSerializedDataForAScResult_ok:
  assumes "list_all printable index" and "prepareSerializedDataForAScResult r index s = Inr (m, d)"
  shows "entry_ok (m, d)"
  using assms
  by (auto simp: prepareSerializedDataForAScResult_def bindr_Inr_iff meta_ok_line printable_JsonEscape
      dest!: printable_Marshal intro!: entry_ok_pair printable_intros split: if_splits)

interpretation scr_docs: doc_writer "\<lambda>r. prepareSerializedDataForAScResult r index s" "\<lambda>_. list_all printable index"
  for index s
  by unfold_locales (metis prepareSerializedDataForAScResult_ok prod.collapse)

lemma SerializeSCRs_framed [framing_intros]:
  "list_all printable index \<Longrightarrow> keeps_framing (SerializeSCRs rs index s)"
  unfolding SerializeSCRs_def by (rule scr_docs.put_docs_keeps) (simp add: list_all_iff)

lemma SerializeBlock_framed [framing_intros]:
  "list_all printable index \<Longrightarrow> keeps_framing (SerializeBlock bl index)"
  unfolding SerializeBlock_def
  by (cases bl) (auto intro!: framing_intros dest: printable_Marshal)

lemma SerializeEpochInfoData_framed [framing_intros]:
  assumes "list_all printable index"
  shows "keeps_framing (SerializeEpochInfoData fees hdr index)"
proof (cases hdr)
  case (Some h)
  obtain a d where "fees h = (a, d)" by (cases "fees h")
  then show ?thesis
    unfolding SerializeEpochInfoData_def Some
    by (auto simp: Let_def meta_ok_line assms printable_dec_nat intro!: framing_intros dest: printable_Marshal)
qed (simp add: SerializeEpochInfoData_def keeps_framing_def)

lemma prepareMiniblockData_ok:
  assumes "list_all printable index" and "prepareMiniblockData pn mb index s = Inr (m, d)"
  shows "entry_ok (m, d)"
  using assms
  by (auto simp: prepareMiniblockData_def Let_def bindr_Inr_iff dest!: printable_Marshal
      intro!: framing_intros printable_intros)

lemma SerializeBulkMiniBlocks_framed:
  assumes "list_all printable index"
  shows "framed b \<Longrightarrow> framed (SerializeBulkMiniBlocks pn mbs index s b)"
proof (induction mbs arbitrary: b)
  case (Cons mb mbs)
  have "framed b'" if "bindr (prepareMiniblockData pn mb index s) (\<lambda>(m, d). PutData m d b) = Inr b'" for b'
  proof -
    from that obtain m d where md: "prepareMiniblockData pn mb index s = Inr (m, d)" "PutData m d b = Inr b'"
      by (auto simp: bindr_Inr_iff)
    show ?thesis
      by (rule keeps_framingD [OF keeps_framing_PutData [OF prepareMiniblockData_ok [OF assms md(1)]] Cons.prems md(2)])
  qed
  with Cons show ?case
    by (auto simp: SerializeBulkMiniBlocks_def split: sum.split)
qed (simp add: SerializeBulkMiniBlocks_def)

lemma TagsSerialize_framed [framing_intros]:
  assumes "list_all printable index"
  shows "keeps_framing (TagsSerialize tc index)"
  unfolding TagsSerialize_def Let_def
  by (intro framing_intros assms) (auto intro!: printable_intros)

lemma framed_text_round: "framed_text b \<Longrightarrow> framed_text (b @ snd (serializeRoundInfo i) @ fst (serializeRoundInfo i))"
proof (cases "Marshal (RoundInfo_json i)")
  case (Inr t)
  let ?m = "snd (serializeRoundInfo i)"
  assume b: "framed_text b"
  have ok: "entry_ok (?m, t)" using printable_Marshal [OF Inr]
    by (simp add: serializeRoundInfo_def Inr entry_ok_def meta_ok_def printable_dec_nat butlast_append)
  have "t \<noteq> []" using Inr by (auto simp: Marshal_def RoundInfo_json_def simp del: json_finite.simps split: if_splits)
  then have "snd (serializeRoundInfo i) @ fst (serializeRoundInfo i) = entry_text (?m, t)"
    by (simp add: serializeRoundInfo_def Inr entry_text_def)
  with framed_text_append [OF b ok] show ?thesis by simp
qed (simp add: serializeRoundInfo_def)

lemma SerializeRoundsInfo_framed: "framed_text (SerializeRoundsInfo rounds)"
proof -
  have "framed_text b \<Longrightarrow> framed_text (fold (\<lambda>info buff. let (s, m) = serializeRoundInfo info in buff @ m @ s) rounds b)" for b
    by (induction rounds arbitrary: b) (simp_all add: Let_def case_prod_unfold framed_text_round)
  moreover have "framed_text []" unfolding framed_text_def by (rule exI [of _ "[]"]) simp
  ultimately show ?thesis by (simp add: SerializeRoundsInfo_def)
qed

lemma meta_ok_id_meta: "list_all printable i \<Longrightarrow> meta_ok (id_meta i)"
  unfolding id_meta_def by (rule meta_ok_line) simp_all

lemma buffers_framed:
  assumes "keeps_framing f" and "bindr (f (NewBufferSlice t)) (\<lambda>b. Inr (Buffers b)) = Inr bufs"
  shows "list_all framed_text bufs"
proof -
  from assms(2) obtain b where "f (NewBufferSlice t) = Inr b" "bufs = buffSlice b" by (auto simp: bindr_Inr_iff Buffers_def)
  with keeps_framingD [OF assms(1) framed_New] show ?thesis by (simp add: framed_def)
qed

lemma validators_keys_framed:
  assumes "PrepareAnSerializeValidatorsPubKeys L t epoch m = Inr bufs"
  shows "list_all framed_text bufs"
proof -
  have "keeps_framing (fold_r (\<lambda>(shardID, ks). prepareAndSerializeValidatorsKeysForShard L shardID epoch ks) m)"
    unfolding prepareAndSerializeValidatorsKeysForShard_def Let_def
    by (intro framing_intros meta_ok_id_meta) (auto intro: printable_dec_nat dest: printable_Marshal)
  from buffers_framed [OF this] assms show ?thesis unfolding PrepareAnSerializeValidatorsPubKeys_def .
qed

lemma validators_rating_framed:
  assumes "SerializeValidatorsRating t epoch rs = Inr bufs" and "list_all (list_all printable \<circ> vr_PublicKey) rs"
  shows "list_all framed_text bufs"
proof -
  have "list_all printable (vr_PublicKey r)" if "r \<in> set rs" for r using assms(2) that by (simp add: list_all_iff)
  then have "keeps_framing (\<lambda>b. case Marshal (ValidatorRatingInfo_json r) of Inl err \<Rightarrow> Inr b
      | Inr d \<Rightarrow> PutData (id_meta (vr_PublicKey r @ ''_'' @ dec_nat (unat epoch))) d b)" if "r \<in> set rs" for r
    using that by (cases "Marshal (ValidatorRatingInfo_json r)")
      (auto intro!: framing_intros meta_ok_id_meta printable_dec_nat dest: printable_Marshal)
  then have "keeps_framing (fold_r (\<lambda>r b. case Marshal (ValidatorRatingInfo_json r) of Inl err \<Rightarrow> Inr b
      | Inr d \<Rightarrow> PutData (id_meta (vr_PublicKey r @ ''_'' @ dec_nat (unat epoch))) d b) rs)"
    by (rule keeps_framing_fold_r)
  from buffers_framed [OF this] assms(1) show ?thesis unfolding SerializeValidatorsRating_def .
qed

end
