(* ===== verification/Json_Read.thy ===== *)
theory Json_Read
  imports Json
begin

text \<open>
  Reading JSON: the syntax that \<^verbatim>\<open>encoding/json\<close> and Elasticsearch accept, with the escapes, surrogate pairs
  and invalid bytes of strings as \<^verbatim>\<open>encoding/json\<close> decodes them.  A number is kept as its text, an object as
  the list of its fields in order.  The fuel of the readers is the length of the text, which is enough: a
  reader consumes a byte at each step.  The lemmas are the round trips of strings and values.
\<close>

section \<open>Strings\<close>

definition is_ws :: "char \<Rightarrow> bool" where
  "is_ws c \<longleftrightarrow> c \<in> {CHR '' '', CHR 0x09, CHR 0x0A, CHR 0x0D}"

definition skip_ws :: "string \<Rightarrow> string" where
  "skip_ws = dropWhile is_ws"

definition utf8_of :: "nat \<Rightarrow> bytes" where
  "utf8_of u =
     (if u < 128 then [char_of u]
      else if u < 2048 then [char_of (192 + u div 64), char_of (128 + u mod 64)]
      else if u < 65536 then [char_of (224 + u div 4096), char_of (128 + u div 64 mod 64), char_of (128 + u mod 64)]
      else [char_of (240 + u div 262144), char_of (128 + u div 4096 mod 64), char_of (128 + u div 64 mod 64),
            char_of (128 + u mod 64)])"

definition replacement_char :: bytes where
  "replacement_char = [CHR 0xEF, CHR 0xBF, CHR 0xBD]"

fun hex4 :: "string \<Rightarrow> nat option" where
  "hex4 (a # b # c # d # _) =
     (case (hex_value a, hex_value b, hex_value c, hex_value d) of
        (Some w, Some x, Some y, Some z) \<Rightarrow> Some (((w * 16 + x) * 16 + y) * 16 + z)
      | _ \<Rightarrow> None)"
| "hex4 _ = None"

text \<open>The code unit after \<^verbatim>\<open>\u\<close>, with a second one where the two are a surrogate pair.\<close>

definition low_surrogate :: "string \<Rightarrow> nat option" where
  "low_surrogate s =
     (case s of b # u # t \<Rightarrow> (if b = backslash \<and> u = CHR ''u''
        then (case hex4 t of Some v \<Rightarrow> if 56320 \<le> v \<and> v < 57344 then Some v else None | None \<Rightarrow> None) else None)
      | _ \<Rightarrow> None)"

definition read_unit :: "string \<Rightarrow> (bytes \<times> string) option" where
  "read_unit s =
     (case hex4 s of
        None \<Rightarrow> None
      | Some u \<Rightarrow>
          if u < 55296 \<or> 57344 \<le> u then Some (utf8_of u, drop 4 s)
          else (case low_surrogate (drop 4 s) of
              Some v \<Rightarrow> if u < 56320 then Some (utf8_of ((u - 55296) * 1024 + (v - 56320) + 65536), drop 10 s)
                        else Some (replacement_char, drop 4 s)
            | None \<Rightarrow> Some (replacement_char, drop 4 s)))"

definition simple_escape :: "char \<Rightarrow> char option" where
  "simple_escape c =
     (if c \<in> {CHR 0x22, backslash, CHR ''/''} then Some c
      else if c = CHR ''b'' then Some (CHR 0x08) else if c = CHR ''f'' then Some (CHR 0x0C)
      else if c = CHR ''n'' then Some (CHR 0x0A) else if c = CHR ''r'' then Some (CHR 0x0D)
      else if c = CHR ''t'' then Some (CHR 0x09) else None)"

abbreviation prepend :: "string \<Rightarrow> (string \<times> string) option \<Rightarrow> (string \<times> string) option" where
  "prepend r \<equiv> map_option (map_prod (append r) id)"

lemma read_unit_length: "read_unit s = Some (r, t) \<Longrightarrow> length t \<le> length s"
  by (auto simp: read_unit_def split: option.splits if_splits)

text \<open>The characters of a string up to its closing quote, and the text after it.\<close>

function read_chars :: "string \<Rightarrow> (string \<times> string) option" where
  "read_chars [] = None"
| "read_chars (c # s) =
     (if c = CHR 0x22 then Some ([], s)
      else if c = backslash then
        (case s of
           [] \<Rightarrow> None
         | e # t \<Rightarrow>
             if e = CHR ''u'' then (case read_unit t of None \<Rightarrow> None | Some (r, t') \<Rightarrow> prepend r (read_chars t'))
             else (case simple_escape e of None \<Rightarrow> None | Some x \<Rightarrow> prepend [x] (read_chars t)))
      else if (of_char c :: nat) < 32 then None
      else if (of_char c :: nat) < 128 then prepend [c] (read_chars s)
      else if rune_size (c # s) = 0 then prepend replacement_char (read_chars s)
      else prepend (take (rune_size (c # s)) (c # s)) (read_chars (drop (rune_size (c # s) - 1) s)))"
  by pat_completeness auto
termination
  by (relation "measure length") (auto dest!: read_unit_length)

declare read_chars.simps(2) [simp del]

section \<open>Numbers and values\<close>

datatype jv =
    VNull
  | VBool bool
  | VNum string
  | VStr string
  | VArr "jv list"
  | VObj "(string \<times> jv) list"

definition read_digits :: "string \<Rightarrow> (string \<times> string) option" where
  "read_digits s = (if takeWhile is_digit_char s = [] then None else Some (takeWhile is_digit_char s, dropWhile is_digit_char s))"

definition read_integer :: "string \<Rightarrow> (string \<times> string) option" where
  "read_integer s = (case s of c # t \<Rightarrow> (if c = CHR ''0'' then Some ([c], t) else read_digits s) | [] \<Rightarrow> None)"

definition read_fraction :: "string \<Rightarrow> (string \<times> string) option" where
  "read_fraction s = (case s of c # t \<Rightarrow> (if c = CHR ''.'' then prepend [c] (read_digits t) else Some ([], s)) | [] \<Rightarrow> Some ([], s))"

definition read_exponent :: "string \<Rightarrow> (string \<times> string) option" where
  "read_exponent s =
     (case s of
        c # t \<Rightarrow>
          (if c \<in> {CHR ''e'', CHR ''E''}
           then (case t of d # t' \<Rightarrow> (if d \<in> {CHR ''+'', CHR ''-''} then prepend [c, d] (read_digits t') else prepend [c] (read_digits t))
                 | [] \<Rightarrow> None)
           else Some ([], s))
      | [] \<Rightarrow> Some ([], s))"

definition read_number :: "string \<Rightarrow> (string \<times> string) option" where
  "read_number s =
     (let (sign, s1) = (case s of c # t \<Rightarrow> (if c = CHR ''-'' then ([c], t) else ([], s)) | [] \<Rightarrow> ([], s)) in
      case read_integer s1 of None \<Rightarrow> None
      | Some (i, s2) \<Rightarrow> (case read_fraction s2 of None \<Rightarrow> None
      | Some (f, s3) \<Rightarrow> (case read_exponent s3 of None \<Rightarrow> None
      | Some (e, s4) \<Rightarrow> Some (sign @ i @ f @ e, s4))))"

definition starts :: "string \<Rightarrow> string \<Rightarrow> bool" where
  "starts p s \<longleftrightarrow> take (length p) s = p"

fun read_value :: "nat \<Rightarrow> string \<Rightarrow> (jv \<times> string) option"
  and read_elems :: "nat \<Rightarrow> string \<Rightarrow> (jv list \<times> string) option"
  and read_members :: "nat \<Rightarrow> string \<Rightarrow> ((string \<times> jv) list \<times> string) option" where
  "read_value 0 s = None"
| "read_value (Suc n) s =
     (case s of
        [] \<Rightarrow> None
      | c # t \<Rightarrow>
          if c = CHR 0x22 then map_option (map_prod VStr id) (read_chars t)
          else if c = CHR ''['' then
            (if starts '']'' (skip_ws t) then Some (VArr [], tl (skip_ws t))
             else map_option (map_prod VArr id) (read_elems n (skip_ws t)))
          else if c = CHR ''{'' then
            (if starts ''}'' (skip_ws t) then Some (VObj [], tl (skip_ws t))
             else map_option (map_prod VObj id) (read_members n (skip_ws t)))
          else if starts ''null'' s then Some (VNull, drop 4 s)
          else if starts ''true'' s then Some (VBool True, drop 4 s)
          else if starts ''false'' s then Some (VBool False, drop 5 s)
          else map_option (map_prod VNum id) (read_number s))"
| "read_elems 0 s = None"
| "read_elems (Suc n) s =
     (case read_value n s of
        None \<Rightarrow> None
      | Some (v, r) \<Rightarrow>
          if starts '']'' (skip_ws r) then Some ([v], tl (skip_ws r))
          else if starts '','' (skip_ws r)
          then map_option (map_prod (Cons v) id) (read_elems n (skip_ws (tl (skip_ws r))))
          else None)"
| "read_members 0 s = None"
| "read_members (Suc n) s =
     (if \<not> starts [CHR 0x22] s then None
      else (case read_chars (tl s) of
        None \<Rightarrow> None
      | Some (k, r0) \<Rightarrow>
          if \<not> starts '':'' (skip_ws r0) then None
          else (case read_value n (skip_ws (tl (skip_ws r0))) of
            None \<Rightarrow> None
          | Some (v, r) \<Rightarrow>
              if starts ''}'' (skip_ws r) then Some ([(k, v)], tl (skip_ws r))
              else if starts '','' (skip_ws r)
              then map_option (map_prod (Cons (k, v)) id) (read_members n (skip_ws (tl (skip_ws r))))
              else None)))"

text \<open>\<^verbatim>\<open>json.Unmarshal\<close> reads one value and nothing after it; \<^verbatim>\<open>Decoder.Decode\<close> reads the first value.\<close>

definition json_first :: "bytes \<Rightarrow> (jv \<times> bytes) option" where
  "json_first s = read_value (Suc (length s)) (skip_ws s)"

definition json_decode :: "bytes \<Rightarrow> jv option" where
  "json_decode s = (case json_first s of Some (v, r) \<Rightarrow> if skip_ws r = [] then Some v else None | None \<Rightarrow> None)"

section \<open>Round trip of strings\<close>

text \<open>A string of valid UTF-8.\<close>

function utf8_ok :: "string \<Rightarrow> bool" where
  "utf8_ok [] = True"
| "utf8_ok (c # s) =
     (if (of_char c :: nat) < 128 then utf8_ok s
      else rune_size (c # s) \<noteq> 0 \<and> utf8_ok (drop (rune_size (c # s) - 1) s))"
  by pat_completeness auto
termination
  by (relation "measure length") auto

declare utf8_ok.simps(2) [simp del]

lemma utf8_ok_ascii: "list_all (\<lambda>c. (of_char c :: nat) < 128) s \<Longrightarrow> utf8_ok s"
  by (induction s) (simp_all add: utf8_ok.simps)

lemma hex_value_zero: "hex_value (CHR ''0'') = Some 0"
  by (simp add: hex_value_def)

lemma read_unit_byte:
  "n < 128 \<Longrightarrow> read_unit (CHR ''0'' # CHR ''0'' # hex_digit (n div 16) # hex_digit (n mod 16) # t) = Some ([char_of n], t)"
  by (simp add: read_unit_def hex_value_zero hex_value_hex_digit utf8_of_def)

lemma read_chars_plain:
  "32 \<le> (of_char c :: nat) \<Longrightarrow> (of_char c :: nat) < 128 \<Longrightarrow> c \<noteq> CHR 0x22 \<Longrightarrow> c \<noteq> backslash \<Longrightarrow>
   read_chars (c # t) = prepend [c] (read_chars t)"
  by (subst read_chars.simps(2)) simp

lemma read_chars_quote: "read_chars (CHR 0x22 # t) = Some ([], t)"
  by (subst read_chars.simps(2)) simp

lemma read_chars_simple:
  "simple_escape e = Some x \<Longrightarrow> read_chars (backslash # e # t) = prepend [x] (read_chars t)"
  by (subst read_chars.simps(2)) (auto simp: backslash_def simple_escape_def)

lemma read_chars_unit:
  "read_unit t = Some (r, t') \<Longrightarrow> read_chars (backslash # CHR ''u'' # t) = prepend r (read_chars t')"
  by (subst read_chars.simps(2)) (simp add: backslash_def)

lemma simple_escape_letters:
  "simple_escape (CHR ''n'') = Some (CHR 0x0A)" "simple_escape (CHR ''r'') = Some (CHR 0x0D)"
  "simple_escape (CHR ''t'') = Some (CHR 0x09)"
  by (simp_all add: simple_escape_def backslash_def)

lemma escape_ascii_letters:
  "escape_ascii (CHR 0x0A) = [backslash, CHR ''n'']" "escape_ascii (CHR 0x0D) = [backslash, CHR ''r'']"
  "escape_ascii (CHR 0x09) = [backslash, CHR ''t'']"
  by (simp_all add: escape_ascii_def, simp_all add: backslash_def)

lemma read_escape_ascii:
  assumes "(of_char c :: nat) < 128"
  shows "read_chars (escape_ascii c @ t) = prepend [c] (read_chars t)"
proof -
  let ?esc = "c = backslash \<or> c = CHR 0x22"
  let ?hex = "(of_char c :: nat) < 32 \<or> c \<in> {CHR ''<'', CHR ''>'', CHR ''&''}"
  consider "?esc" | "c = CHR 0x0A" | "c = CHR 0x0D" | "c = CHR 0x09" | "\<not> ?esc" "c \<noteq> CHR 0x0A" "c \<noteq> CHR 0x0D" "c \<noteq> CHR 0x09" "?hex"
    | "\<not> ?esc" "\<not> ?hex" by blast
  then show ?thesis
  proof cases
    case 1
    then have "escape_ascii c = [backslash, c]" "simple_escape c = Some c" by (auto simp: escape_ascii_def simple_escape_def)
    then show ?thesis by (simp add: read_chars_simple)
  next
    case 5
    then have "escape_ascii c @ t = backslash # CHR ''u'' # CHR ''0'' # CHR ''0'' # hex_digit (of_char c div 16) # hex_digit (of_char c mod 16) # t"
      by (simp only: escape_ascii_def if_True if_False) simp
    then show ?thesis by (simp only: read_chars_unit [OF read_unit_byte [OF assms]]) simp
  next
    case 6
    then have ge: "\<not> (of_char c :: nat) < 32" and neq: "c \<noteq> backslash" "c \<noteq> CHR 0x22" by blast+
    from ge have "c \<noteq> CHR 0x0A" "c \<noteq> CHR 0x0D" "c \<noteq> CHR 0x09" by (rule contrapos_nn, simp)+
    with 6 have "escape_ascii c = [c]" by (simp only: escape_ascii_def if_False)
    with read_chars_plain [OF _ assms neq(2) neq(1)] ge show ?thesis by (simp only: not_less append.simps)
  qed (simp_all add: escape_ascii_letters simple_escape_letters read_chars_simple)
qed

lemma read_unit_separators:
  "read_unit (''2028'' @ t) = Some ([CHR 0xE2, CHR 0x80, CHR 0xA8], t)"
  "read_unit (''2029'' @ t) = Some ([CHR 0xE2, CHR 0x80, CHR 0xA9], t)"
  by (simp_all add: read_unit_def hex_value_def utf8_of_def char_of_def bit_Suc bit_0)

lemma byte_in_take: "i < n \<Longrightarrow> n \<le> length s \<Longrightarrow> byte_in (take n s @ t) i lo hi = byte_in s i lo hi"
  by (auto simp: byte_in_def nth_append)

text \<open>The bytes of a rune say how long it is, whatever follows.\<close>

lemma rune_size_take:
  assumes "rune_size s \<noteq> 0"
  shows "rune_size (take (rune_size s) s @ t) = rune_size s"
proof -
  note le = rune_size_le [of s]
  from assms consider "rune_size s = 2" "rune2 s" | "rune_size s = 3" "\<not> rune2 s" "rune3 s"
    | "rune_size s = 4" "\<not> rune2 s" "\<not> rune3 s" "rune4 s" by (auto simp: rune_size_def split: if_splits)
  then show ?thesis
  proof cases
    case 1
    with le show ?thesis by (simp add: rune_size_def [of "_ @ _"] rune2_def byte_in_take)
  next
    case 2
    with le show ?thesis by (simp add: rune_size_def [of "_ @ _"] rune2_def rune3_def byte_in_take)
  next
    case 3
    with le show ?thesis by (simp add: rune_size_def [of "_ @ _"] rune2_def rune3_def rune4_def byte_in_take)
  qed
qed

lemma read_rune:
  assumes "rune_size s \<noteq> 0"
  shows "read_chars (take (rune_size s) s @ t) = prepend (take (rune_size s) s) (read_chars t)"
proof -
  let ?n = "rune_size s" and ?u = "take (rune_size s) s @ t"
  note le = rune_size_le [of s] and size = rune_size_take [OF assms, of t]
  obtain c u where cu: "?u = c # u" using assms le by (cases ?u) auto
  from assms rune_size_bytes [of 0 s] have "128 \<le> (of_char (s ! 0) :: nat)" by simp
  moreover have "c = s ! 0" using cu assms le by (cases s) (auto simp: take_Cons')
  ultimately have c: "128 \<le> (of_char c :: nat)" by simp
  have neq: "c \<noteq> CHR 0x22" "c \<noteq> backslash"
    using c by (auto simp: backslash_def)
  have "drop (?n - 1) u = drop ?n (c # u)" using assms by (cases ?n) auto
  also have "\<dots> = t" using le by (simp flip: cu)
  finally have d: "drop (?n - 1) u = t" .
  have tk: "take ?n (c # u) = take ?n s" using le by (simp flip: cu)
  show ?thesis unfolding cu using c neq size assms unfolding cu
    by (subst read_chars.simps(2)) (simp add: d [unfolded One_nat_def] tk)
qed

lemma read_escape_rune:
  assumes "rune_size s \<noteq> 0"
  shows "read_chars (escape_rune (take (rune_size s) s) @ t) = prepend (take (rune_size s) s) (read_chars t)"
proof (cases "take (rune_size s) s = [CHR 0xE2, CHR 0x80, CHR 0xA8] \<or> take (rune_size s) s = [CHR 0xE2, CHR 0x80, CHR 0xA9]")
  case True
  then show ?thesis
    using read_chars_unit [OF read_unit_separators(1), of t] read_chars_unit [OF read_unit_separators(2), of t]
    by (auto simp: escape_rune_def)
next
  case False
  then have "escape_rune (take (rune_size s) s) = take (rune_size s) s" by (simp add: escape_rune_def)
  with read_rune [OF assms] show ?thesis by simp
qed

lemma read_json_escape: "utf8_ok s \<Longrightarrow> read_chars (json_escape s @ CHR 0x22 # t) = Some (s, t)"
proof (induction s rule: json_escape.induct)
  case (2 c s)
  show ?case
  proof (cases "(of_char c :: nat) < 128")
    case True
    with 2 show ?thesis by (simp add: utf8_ok.simps(2) read_escape_ascii)
  next
    case False
    let ?n = "rune_size (c # s)"
    from False 2(4) have n: "?n \<noteq> 0" "utf8_ok (drop (?n - 1) s)" by (simp_all add: utf8_ok.simps(2))
    have "take ?n (c # s) @ drop (?n - 1) s = c # s" using n(1) by (cases ?n) auto
    with False n 2(3) [OF False n] read_escape_rune [OF n(1)] show ?thesis by simp
  qed
qed (simp add: read_chars_quote)

lemma read_JsonEscape: "utf8_ok s \<Longrightarrow> read_chars (JsonEscape s @ CHR 0x22 # t) = Some (s, t)"
  by (simp add: JsonEscape_eq read_json_escape)

section \<open>Round trip of numbers\<close>

definition digits :: "string \<Rightarrow> bool" where
  "digits s \<longleftrightarrow> s \<noteq> [] \<and> list_all is_digit_char s"

definition number_end :: "string \<Rightarrow> bool" where
  "number_end s \<longleftrightarrow> (case s of [] \<Rightarrow> True | c # _ \<Rightarrow> \<not> is_digit_char c \<and> c \<notin> {CHR ''.'', CHR ''e'', CHR ''E''})"

text \<open>A number without a redundant zero before its digits.\<close>

definition number_parts :: "string \<Rightarrow> string \<Rightarrow> string \<Rightarrow> string \<Rightarrow> bool" where
  "number_parts sg i f e \<longleftrightarrow>
     sg \<in> {[], ''-''} \<and> digits i \<and> (i = ''0'' \<or> hd i \<noteq> CHR ''0'') \<and>
     (f = [] \<or> (hd f = CHR ''.'' \<and> digits (tl f))) \<and>
     (e = [] \<or> (\<exists>c d. e = CHR ''e'' # c # d \<and> c \<in> {CHR ''+'', CHR ''-''} \<and> digits d))"

definition number_text :: "string \<Rightarrow> bool" where
  "number_text s \<longleftrightarrow> (\<exists>sg i f e. s = sg @ i @ f @ e \<and> number_parts sg i f e)"

lemma is_digit_marks [simp]:
  "\<not> is_digit_char (CHR ''.'')" "\<not> is_digit_char (CHR ''e'')" "\<not> is_digit_char (CHR ''E'')" "\<not> is_digit_char (CHR ''-'')"
  "\<not> is_digit_char (CHR ''+'')" "is_digit_char (CHR ''0'')"
  by (simp_all add: is_digit_char_def)

lemma read_digits_append:
  assumes "digits d" and "case r of [] \<Rightarrow> True | c # _ \<Rightarrow> \<not> is_digit_char c"
  shows "read_digits (d @ r) = Some (d, r)"
proof -
  have "takeWhile is_digit_char r = []" "dropWhile is_digit_char r = r" using assms(2) by (cases r; simp)+
  moreover have "\<forall>c\<in>set d. is_digit_char c" using assms(1) by (simp add: digits_def list_all_iff)
  ultimately show ?thesis using assms(1)
    by (simp add: read_digits_def digits_def takeWhile_append2 dropWhile_append2)
qed

lemma no_digit_number_end: "number_end r \<Longrightarrow> case r of [] \<Rightarrow> True | c # _ \<Rightarrow> \<not> is_digit_char c"
  by (cases r) (simp_all add: number_end_def)

lemma read_exponent_parts:
  assumes "e = [] \<or> (\<exists>c d. e = CHR ''e'' # c # d \<and> c \<in> {CHR ''+'', CHR ''-''} \<and> digits d)" and "number_end r"
  shows "read_exponent (e @ r) = Some (e, r)"
proof (cases "e = []")
  case True
  with assms(2) show ?thesis by (cases r) (simp_all add: read_exponent_def number_end_def)
next
  case False
  with assms(1) obtain c d where e: "e = CHR ''e'' # c # d" and c: "c \<in> {CHR ''+'', CHR ''-''}" and d: "digits d" by blast
  from read_digits_append [OF d no_digit_number_end [OF assms(2)]] c e show ?thesis by (simp add: read_exponent_def)
qed

lemma read_fraction_parts:
  assumes "f = [] \<or> (hd f = CHR ''.'' \<and> digits (tl f))" and "case r of [] \<Rightarrow> True | c # _ \<Rightarrow> \<not> is_digit_char c \<and> c \<noteq> CHR ''.''"
  shows "read_fraction (f @ r) = Some (f, r)"
proof (cases f)
  case Nil
  with assms(2) show ?thesis by (cases r) (simp_all add: read_fraction_def)
next
  case (Cons c d)
  with assms(1) have "c = CHR ''.''" "digits d" by simp_all
  moreover have "case r of [] \<Rightarrow> True | c # _ \<Rightarrow> \<not> is_digit_char c" using assms(2) by (cases r) simp_all
  ultimately show ?thesis using read_digits_append [of d r] by (simp add: Cons read_fraction_def)
qed

lemma read_integer_parts:
  assumes "digits i" and "i = ''0'' \<or> hd i \<noteq> CHR ''0''" and "case r of [] \<Rightarrow> True | c # _ \<Rightarrow> \<not> is_digit_char c"
  shows "read_integer (i @ r) = Some (i, r)"
proof (cases "i = ''0''")
  case False
  with assms(1,2) obtain c d where i: "i = c # d" "c \<noteq> CHR ''0''" by (cases i) (auto simp: digits_def)
  with read_digits_append [OF assms(1,3)] show ?thesis by (simp add: read_integer_def)
qed (simp add: read_integer_def)

lemma read_number_text:
  assumes "number_text s" and "number_end r"
  shows "read_number (s @ r) = Some (s, r)"
proof -
  from assms(1) obtain sg i f e where s: "s = sg @ i @ f @ e" and p: "number_parts sg i f e"
    by (auto simp: number_text_def)
  from p have sg: "sg \<in> {[], ''-''}" and i: "digits i" "i = ''0'' \<or> hd i \<noteq> CHR ''0''"
    and f: "f = [] \<or> (hd f = CHR ''.'' \<and> digits (tl f))"
    and e: "e = [] \<or> (\<exists>c d. e = CHR ''e'' # c # d \<and> c \<in> {CHR ''+'', CHR ''-''} \<and> digits d)"
    unfolding number_parts_def by blast+
  have eh: "case e @ r of [] \<Rightarrow> True | c # _ \<Rightarrow> \<not> is_digit_char c \<and> c \<noteq> CHR ''.''"
  proof (cases "e = []")
    case True
    with assms(2) show ?thesis by (cases r) (simp_all add: number_end_def)
  qed (use e in auto)
  have fh: "case f @ e @ r of [] \<Rightarrow> True | c # _ \<Rightarrow> \<not> is_digit_char c"
  proof (cases f)
    case Nil
    with eh show ?thesis by (cases "e @ r") simp_all
  qed (use f in simp)
  have "i \<noteq> [] \<and> hd i \<noteq> CHR ''-''" using i(1) by (cases i) (auto simp: digits_def)
  then have "(case sg @ i @ f @ e @ r of c # t \<Rightarrow> (if c = CHR ''-'' then ([c], t) else ([], sg @ i @ f @ e @ r))
      | [] \<Rightarrow> ([], sg @ i @ f @ e @ r)) = (sg, i @ f @ e @ r)"
    using sg by (cases i) auto
  then show ?thesis
    by (simp add: read_number_def s read_integer_parts [OF i fh] read_fraction_parts [OF f eh] read_exponent_parts [OF e assms(2)])
qed

lemma dec_nat_head: "0 < n \<Longrightarrow> hd (dec_nat n) \<noteq> CHR ''0''"
proof (induction n rule: dec_nat.induct)
  case (1 n)
  show ?case
  proof (cases "n < 10")
    case True
    have "(of_char (digit_char n) :: nat) \<noteq> 48" using True 1(2) by simp
    then have "digit_char n \<noteq> CHR ''0''" by auto
    with True show ?thesis by (subst dec_nat.simps) simp
  next
    case False
    with 1 show ?thesis by (subst dec_nat.simps) (simp add: hd_append)
  qed
qed

lemma digits_dec_nat: "digits (dec_nat n)"
  by (simp add: digits_def dec_nat_digits)

lemma dec_nat_zero: "dec_nat 0 = ''0''"
  by (simp add: dec_nat.simps digit_char_def char_of_def bit_Suc bit_0)

lemma number_text_dec_int: "number_text (dec_int i)"
proof -
  have n: "number_parts sg (dec_nat n) [] []" if "sg \<in> {[], ''-''}" for n sg
    using that dec_nat_head [of n] digits_dec_nat [of n] dec_nat_zero by (cases "n = 0") (auto simp: number_parts_def)
  have neg: "number_text (''-'' @ dec_nat n)" for n
    unfolding number_text_def by (rule exI [of _ "''-''"], rule exI [of _ "dec_nat n"], rule exI [of _ "[]"], rule exI [of _ "[]"])
      (use n [of "''-''" n] in simp)
  have pos: "number_text (dec_nat n)" for n
    unfolding number_text_def by (rule exI [of _ "[]"], rule exI [of _ "dec_nat n"], rule exI [of _ "[]"], rule exI [of _ "[]"])
      (use n [of "[]" n] in simp)
  show ?thesis using neg [of "nat (- i)"] pos [of "nat i"] by (simp add: dec_int_def)
qed

lemma dec_nat_bounds: "0 < n \<Longrightarrow> 10 ^ (length (dec_nat n) - 1) \<le> n \<and> n < 10 ^ length (dec_nat n)"
proof (induction n rule: dec_nat.induct)
  case (1 n)
  show ?case
  proof (cases "n < 10")
    case True
    with 1 show ?thesis by (subst (1 2) dec_nat.simps) simp
  next
    case False
    define l where "l = length (dec_nat (n div 10))"
    have l: "0 < l" by (simp add: l_def)
    from False 1 have "10 ^ (l - 1) \<le> n div 10" "n div 10 < 10 ^ l" by (simp_all add: l_def)
    then have "10 * 10 ^ (l - 1) \<le> n" "n < 10 * 10 ^ l" by (simp_all add: less_mult_imp_div_less div_less_iff_less_mult ac_simps less_eq_div_iff_mult_less_eq)
    moreover have "length (dec_nat n) = Suc l" using False by (subst dec_nat.simps) (simp add: l_def)
    ultimately show ?thesis using l by (simp flip: power_Suc)
  qed
qed

lemma ilog10_le:
  assumes "0 < x"
  shows "10 powi ilog10 x \<le> x"
proof -
  obtain p q where pq: "quotient_of x = (p, q)" by (cases "quotient_of x")
  from quotient_of_denom_pos [OF pq] have q: "0 < q" .
  have x: "x = of_int p / of_int q" by (rule quotient_of_div [OF pq])
  with assms q have p: "0 < p" by (simp add: zero_less_divide_iff)
  define lp lq where "lp = length (dec_nat (nat p))" and "lq = length (dec_nat (nat q))"
  have lp: "0 < lp" by (simp add: lp_def)
  from dec_nat_bounds [of "nat p"] p have "10 ^ (lp - 1) \<le> nat p" by (simp add: lp_def)
  then have P: "(10 :: rat) ^ (lp - 1) \<le> of_int p" using p by (metis of_nat_le_iff of_nat_numeral of_nat_power of_int_of_nat_eq int_nat_eq less_le)
  from dec_nat_bounds [of "nat q"] q have "nat q < 10 ^ lq" by (simp add: lq_def)
  then have Q: "of_int q \<le> (10 :: rat) ^ lq" using q by (metis of_nat_less_iff of_nat_numeral of_nat_power of_int_of_nat_eq int_nat_eq less_le)
  have d: "int lp - int lq - 1 = int (lp - 1) - int lq" using lp by linarith
  have "(10 :: rat) powi (int lp - int lq - 1) = 10 powi int (lp - 1) / 10 powi int lq"
    unfolding d by (rule power_int_diff) simp
  also have "\<dots> = 10 ^ (lp - 1) / 10 ^ lq" by (simp only: power_int_of_nat)
  also have "\<dots> \<le> x" unfolding x using P Q q p by (intro frac_le) simp_all
  finally have "(10 :: rat) powi (int lp - int lq - 1) \<le> x" .
  then show ?thesis by (simp add: ilog10_def pq Let_def flip: lp_def lq_def)
qed

lemma shortest_from_dec:
  assumes "0 < x" and "10 powi k \<le> x" and "1 \<le> n"
  shows "\<exists>c. 0 < c \<and> fst (shortest_from rd x k n m) = dec_nat c"
  using assms(3)
proof (induction m arbitrary: n)
  case 0
  let ?u = "10 powi (k - int n + 1) :: rat"
  have "?u \<le> 10 powi k" using 0 by (intro power_int_increasing) simp_all
  with assms(2) have "1 \<le> x / ?u" by simp
  then have "1 \<le> \<lfloor>x / ?u\<rfloor>" by linarith
  then show ?case by (intro exI [of _ "nat \<lfloor>x / ?u\<rfloor>"]) (simp add: Let_def)
next
  case (Suc m)
  let ?u = "10 powi (k - int n + 1) :: rat"
  have "0 \<le> \<lfloor>x / ?u\<rfloor>" using assms(1) by simp
  then have hi: "0 < nat (\<lfloor>x / ?u\<rfloor> + 1)" by simp
  show ?case
  proof (cases "\<lfloor>x / ?u\<rfloor> > 0 \<and> rd (of_int \<lfloor>x / ?u\<rfloor> * ?u) = Fin x \<and>
      (\<not> rd (of_int (\<lfloor>x / ?u\<rfloor> + 1) * ?u) = Fin x \<or> x - of_int \<lfloor>x / ?u\<rfloor> * ?u \<le> of_int (\<lfloor>x / ?u\<rfloor> + 1) * ?u - x)")
    case True
    then show ?thesis by (intro exI [of _ "nat \<lfloor>x / ?u\<rfloor>"]) (auto simp: Let_def)
  next
    case False
    show ?thesis
    proof (cases "rd (of_int (\<lfloor>x / ?u\<rfloor> + 1) * ?u) = Fin x")
      case True
      with False hi show ?thesis by (intro exI [of _ "nat (\<lfloor>x / ?u\<rfloor> + 1)"]) (auto simp: Let_def)
    next
      case no: False
      with False have "shortest_from rd x k n (Suc m) = shortest_from rd x k (Suc n) m" by (auto simp: Let_def)
      with Suc.IH [of "Suc n"] show ?thesis by simp
    qed
  qed
qed

lemma digits_strip_zeros:
  assumes "digits s" and "hd s \<noteq> CHR ''0''"
  shows "digits (strip_zeros s) \<and> hd (strip_zeros s) \<noteq> CHR ''0''"
proof -
  obtain c t where s: "s = c # t" "c \<noteq> CHR ''0''" using assms by (cases s) (auto simp: digits_def)
  have "strip_zeros s = c # strip_zeros t"
    using s(2) by (simp add: s strip_zeros_def dropWhile_append)
  moreover have "set (strip_zeros t) \<subseteq> set t" by (auto simp: strip_zeros_def dest: set_dropWhileD)
  ultimately show ?thesis using assms s by (auto simp: digits_def list_all_iff)
qed

lemma shortest_digits_ok:
  assumes "0 < x"
  shows "digits (fst (shortest_digits rd x)) \<and> hd (fst (shortest_digits rd x)) \<noteq> CHR ''0''"
proof -
  from shortest_from_dec [OF assms ilog10_le [OF assms], of 1 rd 17] obtain c
    where "0 < c" "fst (shortest_from rd x (ilog10 x) 1 17) = dec_nat c" by auto
  then show ?thesis
    using digits_strip_zeros [OF digits_dec_nat, of c] dec_nat_head [of c]
    by (simp add: shortest_digits_def case_prod_unfold Let_def)
qed

lemma number_textI: "number_parts sg i f e \<Longrightarrow> number_text (sg @ i @ f @ e)"
  unfolding number_text_def by blast

lemma digits_append: "digits a \<Longrightarrow> list_all is_digit_char b \<Longrightarrow> digits (a @ b)"
  by (simp add: digits_def)

lemma number_text_fmt_f:
  assumes "digits ds" and "hd ds \<noteq> CHR ''0''" and "sg \<in> {[], ''-''}"
  shows "number_text (sg @ fmt_f ds dp)"
proof -
  have z: "list_all is_digit_char (replicate k (CHR ''0''))" for k by (simp add: list_all_iff)
  have d: "digits (take n ds)" "hd (take n ds) \<noteq> CHR ''0''" if "0 < n" for n
    using assms(1,2) that by (auto simp: digits_def list_all_iff dest: in_set_takeD)
  consider "dp \<le> 0" | "0 < dp" "int (length ds) \<le> dp" | "0 < dp" "dp < int (length ds)" by linarith
  then show ?thesis
  proof cases
    case 1
    have "digits (replicate (nat (- dp)) (CHR ''0'') @ ds)" using assms(1) z by (simp add: digits_def)
    with assms(3) have "number_parts sg ''0'' (CHR ''.'' # replicate (nat (- dp)) (CHR ''0'') @ ds) []"
      by (simp add: number_parts_def digits_def)
    from number_textI [OF this] 1 show ?thesis by (simp add: fmt_f_def)
  next
    case 2
    have "number_parts sg (ds @ replicate (nat dp - length ds) (CHR ''0'')) [] []"
      using assms digits_append [OF assms(1) z] by (auto simp: number_parts_def digits_def)
    from number_textI [OF this] 2 show ?thesis by (simp add: fmt_f_def)
  next
    case 3
    have "digits (drop (nat dp) ds)" using 3 assms(1) by (auto simp: digits_def list_all_iff dest: in_set_dropD)
    with d [of "nat dp"] 3 assms(3) have "number_parts sg (take (nat dp) ds) (CHR ''.'' # drop (nat dp) ds) []"
      by (simp add: number_parts_def)
    from number_textI [OF this] 3 show ?thesis by (simp add: fmt_f_def)
  qed
qed

lemma number_text_fmt_e:
  assumes "digits ds" and "hd ds \<noteq> CHR ''0''" and "sg \<in> {[], ''-''}"
  shows "number_text (sg @ fmt_e clean ds dp)"
proof -
  obtain c t where ds: "ds = c # t" using assms(1) by (cases ds) (simp_all add: digits_def)
  define s where "s = dec_nat (nat \<bar>dp - 1\<bar>)"
  have "digits s" "digits (CHR ''0'' # s)" using digits_dec_nat by (simp_all add: s_def digits_def)
  then have "\<exists>c d. exp_text clean (dp - 1) = CHR ''e'' # c # d \<and> c \<in> {CHR ''+'', CHR ''-''} \<and> digits d"
    by (auto simp: exp_text_def Let_def s_def [symmetric])
  with assms ds have "number_parts sg [c] (if t = [] then [] else CHR ''.'' # t) (exp_text clean (dp - 1))"
    by (auto simp: number_parts_def digits_def)
  from number_textI [OF this] show ?thesis by (cases t) (simp_all add: fmt_e_def ds)
qed

lemma number_text_float: "f64_finite f \<Longrightarrow> number_text (float_text rd f)"
proof (cases f)
  case (Fin x)
  have zero: "number_text ''0''" using number_text_dec_int [of 0] by (simp add: dec_int_def dec_nat_zero)
  show ?thesis
  proof (cases "x = 0")
    case False
    then have "0 < \<bar>x\<bar>" by simp
    from shortest_digits_ok [OF this, of rd]
    have "digits (fst (shortest_digits rd \<bar>x\<bar>))" "hd (fst (shortest_digits rd \<bar>x\<bar>)) \<noteq> CHR ''0''" by simp_all
    moreover have "sign_text x \<in> {[], ''-''}" by (simp add: sign_text_def)
    ultimately show ?thesis using False Fin
      by (simp add: json_float_def Let_def case_prod_unfold number_text_fmt_e number_text_fmt_f)
  qed (simp add: Fin json_float_def zero)
qed simp_all

section \<open>Round trip of values\<close>

primrec jv_of :: "json \<Rightarrow> jv" where
  "jv_of JNull = VNull"
| "jv_of (JBool b) = VBool b"
| "jv_of (JInt i) = VNum (dec_int i)"
| "jv_of (JFloat f) = VNum (float_text rnd_pos f)"
| "jv_of (JFloat32 f) = VNum (float_text rnd32 f)"
| "jv_of (JStr s) = VStr s"
| "jv_of (JArr js) = VArr (map jv_of js)"
| "jv_of (JObj kvs) = VObj (map (map_prod id jv_of) kvs)"

primrec json_utf8 :: "json \<Rightarrow> bool" where
  "json_utf8 JNull = True"
| "json_utf8 (JBool b) = True"
| "json_utf8 (JInt i) = True"
| "json_utf8 (JFloat f) = True"
| "json_utf8 (JFloat32 f) = True"
| "json_utf8 (JStr s) = utf8_ok s"
| "json_utf8 (JArr js) = list_all id (map json_utf8 js)"
| "json_utf8 (JObj kvs) = list_all (\<lambda>(k, b). utf8_ok k \<and> b) (map (map_prod id json_utf8) kvs)"

lemma skip_ws_Cons: "\<not> is_ws c \<Longrightarrow> skip_ws (c # s) = c # s"
  by (simp add: skip_ws_def)

lemma not_ws [simp]:
  "\<not> is_ws (CHR 0x22)" "\<not> is_ws (CHR ''['')" "\<not> is_ws (CHR '']'')" "\<not> is_ws (CHR ''{'')" "\<not> is_ws (CHR ''}'')"
  "\<not> is_ws (CHR '':'')" "\<not> is_ws (CHR '','')" "\<not> is_ws (CHR ''-'')" "\<not> is_ws (CHR ''n'')" "\<not> is_ws (CHR ''t'')" "\<not> is_ws (CHR ''f'')"
  by (simp_all add: is_ws_def)

lemma not_ws_digit: "is_digit_char c \<Longrightarrow> \<not> is_ws c"
  by (auto simp: is_ws_def is_digit_char_def)

text \<open>The first character of a value: it is no blank and no closing bracket.\<close>

definition value_head :: "string \<Rightarrow> bool" where
  "value_head s \<longleftrightarrow> s \<noteq> [] \<and> \<not> is_ws (hd s) \<and> hd s \<noteq> CHR '']'' \<and> hd s \<noteq> CHR ''}''"

lemma number_text_head:
  assumes "number_text s"
  shows "s \<noteq> [] \<and> (is_digit_char (hd s) \<or> hd s = CHR ''-'')"
proof -
  from assms obtain sg i f e where s: "s = sg @ i @ f @ e" and p: "number_parts sg i f e" by (auto simp: number_text_def)
  from p have "i \<noteq> []" "is_digit_char (hd i)" "sg \<in> {[], ''-''}" by (auto simp: number_parts_def digits_def list_all_iff)
  then show ?thesis by (auto simp: s)
qed

lemma value_head_number: "number_text s \<Longrightarrow> value_head s"
  by (auto dest!: number_text_head simp: value_head_def is_digit_char_def dest: not_ws_digit)

lemma value_head_text: "json_finite j \<Longrightarrow> value_head (json_text j)"
  by (cases j) (simp_all add: value_head_number number_text_dec_int number_text_float, simp_all add: value_head_def bool_text_def json_string_def)

lemma read_value_number:
  assumes "number_text s" and "number_end r"
  shows "read_value (Suc n) (s @ r) = Some (VNum s, r)"
proof -
  from number_text_head [OF assms(1)] obtain c t where s: "s = c # t" and c: "is_digit_char c \<or> c = CHR ''-''"
    by (cases s) auto
  have "c \<notin> {CHR 0x22, CHR ''['', CHR ''{'', CHR ''n'', CHR ''t'', CHR ''f''}" using c by (auto simp: is_digit_char_def)
  then show ?thesis using read_number_text [OF assms] by (simp add: s starts_def)
qed

lemma read_value_string: "utf8_ok s \<Longrightarrow> read_value (Suc n) (json_string s @ r) = Some (VStr s, r)"
  by (simp add: json_string_def read_json_escape)

lemma number_end_marks [simp]: "number_end []" "number_end (CHR '','' # r)" "number_end (CHR '']'' # r)" "number_end (CHR ''}'' # r)"
  "number_end (CHR '' '' # r)"
  by (simp_all add: number_end_def is_digit_char_def)

text \<open>A text that is read as the value \<open>v\<close> with any fuel of at least its length.\<close>

definition reads :: "string \<Rightarrow> jv \<Rightarrow> bool" where
  "reads t v \<longleftrightarrow> value_head t \<and> (\<forall>n r. number_end r \<longrightarrow> length t \<le> n \<longrightarrow> read_value n (t @ r) = Some (v, r))"

lemma readsD: "reads t v \<Longrightarrow> number_end r \<Longrightarrow> length t \<le> n \<Longrightarrow> read_value n (t @ r) = Some (v, r)"
  by (simp add: reads_def)

lemma skip_ws_head: "value_head t \<Longrightarrow> skip_ws (t @ r) = t @ r"
  by (cases t) (simp_all add: value_head_def skip_ws_Cons)

lemma starts_single: "starts [c] (d # s) \<longleftrightarrow> d = c"
  by (auto simp: starts_def)

lemma read_elems_reads:
  assumes "list_all2 reads ts vs" and "ts \<noteq> []" and "Suc (length (join_char (CHR '','') ts)) \<le> n"
  shows "read_elems n (join_char (CHR '','') ts @ CHR '']'' # r) = Some (vs, r)"
  using assms
proof (induction ts arbitrary: vs n rule: induct_list012)
  case (2 t)
  then obtain v m where "vs = [v]" "reads t v" "n = Suc m" "length t \<le> m" by (cases n) (auto simp: list_all2_Cons1)
  then show ?case using readsD [of t v "CHR '']'' # r" m] by (simp add: skip_ws_Cons starts_single)
next
  case (3 t t' ts)
  from 3(3) obtain v ws where vs: "vs = v # ws" "reads t v" "list_all2 reads (t' # ts) ws" by (auto simp: list_all2_Cons1)
  from 3(5) obtain m where n: "n = Suc m" "length t \<le> m" "Suc (length (join_char (CHR '','') (t' # ts))) \<le> m"
    by (cases n) auto
  from 3(2) [OF vs(3) _ n(3)] have "read_elems m (join_char (CHR '','') (t' # ts) @ CHR '']'' # r) = Some (ws, r)" by simp
  moreover have "value_head (join_char (CHR '','') (t' # ts))"
    using vs(3) by (cases ts) (auto simp: list_all2_Cons1 reads_def value_head_def)
  ultimately show ?case using readsD [OF vs(2) _ n(2), of "CHR '','' # join_char (CHR '','') (t' # ts) @ CHR '']'' # r"]
    by (simp add: vs(1) n(1) skip_ws_Cons starts_single skip_ws_head)
qed simp

definition member_text :: "string \<times> string \<Rightarrow> string" where
  "member_text e = json_string (fst e) @ '':'' @ snd e"

definition reads_member :: "string \<times> string \<Rightarrow> string \<times> jv \<Rightarrow> bool" where
  "reads_member e m \<longleftrightarrow> fst e = fst m \<and> utf8_ok (fst e) \<and> reads (snd e) (snd m)"

lemma read_member:
  assumes "reads_member (k, t) (k, v)"
  shows "read_chars (json_escape k @ CHR 0x22 # CHR '':'' # t @ r) = Some (k, CHR '':'' # t @ r)"
    and "skip_ws (t @ r) = t @ r"
  using assms by (simp_all add: reads_member_def read_json_escape reads_def skip_ws_head)

lemma read_members_reads:
  assumes "list_all2 reads_member ts vs" and "ts \<noteq> []" and "Suc (length (join_char (CHR '','') (map member_text ts))) \<le> n"
  shows "read_members n (join_char (CHR '','') (map member_text ts) @ CHR ''}'' # r) = Some (vs, r)"
  using assms
proof (induction ts arbitrary: vs n rule: induct_list012)
  case (2 e)
  then obtain k t v m where e: "e = (k, t)" "vs = [(k, v)]" "reads_member (k, t) (k, v)" "n = Suc m" "length t \<le> m"
    by (cases n; cases e) (auto simp: list_all2_Cons1 reads_member_def member_text_def)
  have "read_value m (t @ CHR ''}'' # r) = Some (v, CHR ''}'' # r)"
    using e readsD [of t v _ m] by (simp add: reads_member_def)
  with e read_member [OF e(3), of "CHR ''}'' # r"] show ?case
    by (simp add: member_text_def json_string_def skip_ws_Cons starts_single)
next
  case (3 e e' ts)
  from 3(3) obtain w ws where w: "vs = w # ws" "reads_member e w" "list_all2 reads_member (e' # ts) ws"
    by (auto simp: list_all2_Cons1)
  then obtain k t v where e: "e = (k, t)" "vs = (k, v) # ws" "reads_member (k, t) (k, v)" "list_all2 reads_member (e' # ts) ws"
    by (cases e; cases w) (auto simp: reads_member_def [of "(_, _)" "(_, _)"])
  let ?rest = "join_char (CHR '','') (map member_text (e' # ts))"
  from 3(5) e(1) obtain m where n: "n = Suc m" "length t \<le> m" "Suc (length ?rest) \<le> m"
    by (cases n) (auto simp: member_text_def [of "(k, t)"])
  from 3(2) [OF e(4) _ n(3)] have ih: "read_members m (?rest @ CHR ''}'' # r) = Some (ws, r)" by simp
  have "skip_ws (?rest @ CHR ''}'' # r) = ?rest @ CHR ''}'' # r"
    by (cases ts) (simp_all add: member_text_def json_string_def skip_ws_Cons)
  moreover have "read_value m (t @ CHR '','' # ?rest @ CHR ''}'' # r) = Some (v, CHR '','' # ?rest @ CHR ''}'' # r)"
    using e n readsD [of t v _ m] by (simp add: reads_member_def)
  ultimately show ?case using e n ih read_member [OF e(3), of "CHR '','' # ?rest @ CHR ''}'' # r"]
    by (simp add: member_text_def [of "(k, t)"] json_string_def skip_ws_Cons starts_single)
qed simp

lemma readsI:
  assumes "value_head t" and "\<And>n r. number_end r \<Longrightarrow> length t \<le> n \<Longrightarrow> read_value n (t @ r) = Some (v, r)"
  shows "reads t v"
  using assms by (simp add: reads_def)

lemma reads_array:
  assumes l: "list_all2 reads ts vs"
  shows "reads (''['' @ join_char (CHR '','') ts @ '']'') (VArr vs)"
proof (rule readsI)
  fix n r assume len: "length (''['' @ join_char (CHR '','') ts @ '']'') \<le> n"
  from len obtain m where n: "n = Suc m" "Suc (length (join_char (CHR '','') ts)) \<le> m" by (cases n) auto
  show "read_value n ((''['' @ join_char (CHR '','') ts @ '']'') @ r) = Some (VArr vs, r)"
  proof (cases ts)
    case Nil
    with l n show ?thesis by (simp add: skip_ws_Cons starts_single)
  next
    case (Cons t us)
    have "value_head (join_char (CHR '','') ts)"
      using l Cons by (cases us) (auto simp: list_all2_Cons1 reads_def value_head_def)
    then have "skip_ws (join_char (CHR '','') ts @ CHR '']'' # r) = join_char (CHR '','') ts @ CHR '']'' # r"
      "\<not> starts '']'' (join_char (CHR '','') ts @ CHR '']'' # r)"
      by (rule skip_ws_head) (use \<open>value_head _\<close> in \<open>cases "join_char (CHR '','') ts"; simp add: value_head_def starts_single\<close>)
    with read_elems_reads [OF l _ n(2), of r] Cons show ?thesis by (simp add: n(1))
  qed
qed (simp add: value_head_def)

lemma reads_object:
  assumes l: "list_all2 reads_member ts vs"
  shows "reads (''{'' @ join_char (CHR '','') (map member_text ts) @ ''}'') (VObj vs)"
proof (rule readsI)
  fix n r assume len: "length (''{'' @ join_char (CHR '','') (map member_text ts) @ ''}'') \<le> n"
  let ?m = "join_char (CHR '','') (map member_text ts)"
  from len obtain m where n: "n = Suc m" "Suc (length ?m) \<le> m" by (cases n) auto
  show "read_value n ((''{'' @ ?m @ ''}'') @ r) = Some (VObj vs, r)"
  proof (cases ts)
    case Nil
    with l n show ?thesis by (simp add: skip_ws_Cons starts_single)
  next
    case (Cons t us)
    obtain u where u: "?m = CHR 0x22 # u" by (cases us) (auto simp: Cons member_text_def json_string_def)
    with read_members_reads [OF l _ n(2), of r] Cons show ?thesis by (simp add: n(1) skip_ws_Cons starts_single)
  qed
qed (simp add: value_head_def)

lemma reads_string: "utf8_ok s \<Longrightarrow> reads (json_string s) (VStr s)"
proof -
  assume u: "utf8_ok s"
  have "read_value n (json_string s @ r) = Some (VStr s, r)" if "length (json_string s) \<le> n" for n r
    using that read_value_string [OF u] by (cases n) (simp_all add: json_string_def)
  then show ?thesis by (simp add: reads_def value_head_def json_string_def)
qed

lemma reads_number: "number_text s \<Longrightarrow> reads s (VNum s)"
proof -
  assume s: "number_text s"
  have "read_value n (s @ r) = Some (VNum s, r)" if "length s \<le> n" "number_end r" for n r
    using that read_value_number [OF s] number_text_head [OF s] by (cases n) simp_all
  with value_head_number [OF s] show ?thesis by (simp add: reads_def)
qed

lemma reads_literals: "reads ''null'' VNull" "reads (bool_text b) (VBool b)"
proof -
  have "read_value n (''null'' @ r) = Some (VNull, r)" "read_value n (bool_text b @ r) = Some (VBool b, r)" if "4 \<le> n" for n r
    using that by (cases n; simp add: starts_def bool_text_def)+
  then show "reads ''null'' VNull" "reads (bool_text b) (VBool b)"
    unfolding reads_def by (auto simp: value_head_def bool_text_def)
qed

lemma reads_json_text: "json_finite j \<Longrightarrow> json_utf8 j \<Longrightarrow> reads (json_text j) (jv_of j)"
proof (induction j)
  case (JArr js)
  then have "list_all2 reads (map json_text js) (map jv_of js)"
    by (auto simp: list_all2_map1 list_all2_map2 list_all2_same list_all_iff)
  from reads_array [OF this] show ?case by simp
next
  case (JObj kvs)
  have "utf8_ok k \<and> reads (json_text v) (jv_of v)" if "(k, v) \<in> set kvs" for k v
    using JObj(2,3) that by (auto simp: list_all_iff dest!: bspec intro: JObj(1) [OF that])
  then have "list_all2 reads_member (map (map_prod id json_text) kvs) (map (map_prod id jv_of) kvs)"
    by (auto simp: list_all2_map1 list_all2_map2 list_all2_same reads_member_def)
  from reads_object [OF this] show ?case by (simp add: member_text_def case_prod_unfold comp_def)
qed (simp_all add: reads_literals reads_string reads_number number_text_dec_int number_text_float)

lemma json_decode_reads: "reads t v \<Longrightarrow> json_decode t = Some v"
  using readsD [of t v "[]" "Suc (length t)"] skip_ws_head [of t "[]"]
  by (simp add: json_decode_def json_first_def reads_def skip_ws_def)

text \<open>What \<^verbatim>\<open>json.Marshal\<close> writes is read back, up to the text of numbers.\<close>

lemma Marshal_roundtrip: "Marshal j = Inr t \<Longrightarrow> json_utf8 j \<Longrightarrow> json_decode t = Some (jv_of j)"
  by (auto simp: Marshal_def intro!: json_decode_reads reads_json_text split: if_splits)

end
