(* ===== verification/Actions_Read.thy ===== *)
theory Actions_Read
  imports Json_Read Serialize_Docs
begin

text \<open>
  What Elasticsearch reads: the lines of the actions as JSON values.  The metadata lines give back the index and
  the identifier of the document, and the lines of the transactions carry the document itself.
\<close>

section \<open>Text inside a JSON string\<close>

lemma read_script: "list_all script_char s \<Longrightarrow> read_chars (s @ CHR 0x22 # t) = Some (s, t)"
  by (induction s) (simp_all add: script_char_def printable_def read_chars_plain read_chars_quote backslash_def)

lemma read_chars_literal [simp]:
  "(b5 \<or> b6) \<Longrightarrow> Char b0 b1 b2 b3 b4 b5 b6 False \<noteq> CHR 0x22 \<Longrightarrow> Char b0 b1 b2 b3 b4 b5 b6 False \<noteq> CHR 0x5C \<Longrightarrow>
   read_chars (Char b0 b1 b2 b3 b4 b5 b6 False # t) = prepend [Char b0 b1 b2 b3 b4 b5 b6 False] (read_chars t)"
  by (rule read_chars_plain) (auto simp: backslash_def)

lemmas [simp] = read_chars_quote

lemma starts_literal [simp]: "starts [c] (d # s) \<longleftrightarrow> d = c"
  by (auto simp: starts_def)

lemma skip_ws_literal [simp]: "skip_ws (c # s) = (if is_ws c then skip_ws s else c # s)"
  by (simp add: skip_ws_def)

lemma skip_ws_Nil [simp]: "skip_ws [] = []"
  by (simp add: skip_ws_def)

lemma is_ws_blank [simp]: "is_ws (CHR '' '')" "is_ws (CHR 0x0A)"
  by (simp_all add: is_ws_def)

lemma read_value_literal [simp]:
  "read_value (Suc n) (CHR 0x22 # t) = map_option (map_prod VStr id) (read_chars t)"
  "read_value (Suc n) (CHR ''{'' # t) =
     (if starts ''}'' (skip_ws t) then Some (VObj [], tl (skip_ws t))
      else map_option (map_prod VObj id) (read_members n (skip_ws t)))"
  "read_value (Suc n) (CHR ''t'' # CHR ''r'' # CHR ''u'' # CHR ''e'' # t) = Some (VBool True, t)"
  by (simp_all add: starts_def)

declare read_value.simps(2) [simp del]

section \<open>Metadata lines\<close>

definition meta_value :: "string \<Rightarrow> string \<Rightarrow> string \<Rightarrow> jv" where
  "meta_value op index i = VObj [(op, VObj [(''_index'', VStr index), (''_id'', VStr i)])]"

lemmas meta_defs = json_decode_def json_first_def meta_line_def meta_value_def

lemma update_metas_read:
  assumes "list_all script_char index" and "utf8_ok i"
  shows "json_decode (update_meta index i) = Some (meta_value ''update'' index i)"
    and "json_decode (role_meta index i) = Some (meta_value ''update'' index i)"
    and "json_decode (compact_update_meta index i) = Some (meta_value ''update'' index i)"
    and "json_decode (tx_update_meta index i) = Some (meta_value ''update'' index i)"
  by (simp_all add: meta_defs update_meta_def role_meta_def compact_update_meta_def tx_update_meta_def
      read_script [OF assms(1)] read_JsonEscape [OF assms(2)])

lemma index_metas_read:
  assumes "list_all script_char index" and "utf8_ok i"
  shows "json_decode (index_meta index i) = Some (meta_value ''index'' index i)"
    and "json_decode (spaced_index_meta index i) = Some (meta_value ''index'' index i)"
    and "json_decode (delete_meta index i) = Some (meta_value ''delete'' index i)"
  by (simp_all add: meta_defs index_meta_def spaced_index_meta_def delete_meta_def
      read_script [OF assms(1)] read_JsonEscape [OF assms(2)])

text \<open>A line without escapes is read back where the identifier needs none.\<close>

lemma raw_meta_read:
  assumes "list_all script_char index" and "list_all script_char i"
  shows "json_decode (raw_update_meta index i) = Some (meta_value ''update'' index i)"
  by (simp add: meta_defs raw_update_meta_def read_script [OF assms(1)] read_script [OF assms(2)])

section \<open>Requests with a script\<close>

lemma Suc_le_ex: "Suc k \<le> n \<longleftrightarrow> (\<exists>m. n = Suc m \<and> k \<le> m)"
  by (cases n) auto

lemma reads_tx_script:
  assumes "list_all script_char (FormatPainlessSource code)" and "reads t v"
  shows "reads (tx_script code t)
    (VObj [(''scripted_upsert'', VBool True),
      (''script'', VObj [(''source'', VStr (FormatPainlessSource code)), (''lang'', VStr ''painless''), (''params'', VObj [(''tx'', v)])]),
      (''upsert'', VObj [])])"
proof (rule readsI)
  fix n r assume "length (tx_script code t) \<le> n"
  then obtain m where n: "n = Suc (Suc (Suc (Suc (Suc (Suc (Suc (Suc (Suc (Suc (Suc (Suc m)))))))))))" and m: "length t \<le> m"
    by (auto simp: tx_script_def Suc_le_ex)
  have sk: "skip_ws (t @ u) = t @ u" for u using assms(2) by (simp add: reads_def skip_ws_head)
  show "read_value n (tx_script code t @ r) = Some (VObj [(''scripted_upsert'', VBool True),
      (''script'', VObj [(''source'', VStr (FormatPainlessSource code)), (''lang'', VStr ''painless''), (''params'', VObj [(''tx'', v)])]),
      (''upsert'', VObj [])], r)"
    using m by (simp add: n tx_script_def starts_def read_script [OF assms(1)] sk readsD [OF assms(2)] le_SucI)
qed (simp add: value_head_def tx_script_def)

lemma reads_upsert_only:
  assumes "reads t v"
  shows "reads (upsert_only t) (VObj [(''script'', VObj [(''source'', VStr ''return'')]), (''upsert'', v)])"
proof (rule readsI)
  fix n r assume "length (upsert_only t) \<le> n"
  then obtain m where n: "n = Suc (Suc (Suc (Suc (Suc (Suc m)))))" and m: "length t \<le> m"
    by (auto simp: upsert_only_def Suc_le_ex)
  have sk: "skip_ws (t @ u) = t @ u" for u using assms by (simp add: reads_def skip_ws_head)
  show "read_value n (upsert_only t @ r) = Some (VObj [(''script'', VObj [(''source'', VStr ''return'')]), (''upsert'', v)], r)"
    using m by (simp add: n upsert_only_def sk readsD [OF assms] le_SucI)
qed (simp add: value_head_def upsert_only_def)

lemma reads_script_upsert:
  assumes "list_all script_char (FormatPainlessSource code)" and "reads params p" and "reads upsert u"
  shows "reads (script_upsert code params upsert)
    (VObj [(''script'', VObj [(''source'', VStr (FormatPainlessSource code)), (''lang'', VStr ''painless''), (''params'', p)]), (''upsert'', u)])"
proof (rule readsI)
  fix n r assume "length (script_upsert code params upsert) \<le> n"
  then obtain m where n: "n = Suc (Suc (Suc (Suc (Suc (Suc m)))))" and m: "length params \<le> m" "length upsert \<le> m"
    by (auto simp: script_upsert_def Suc_le_ex)
  have sk: "skip_ws (params @ w) = params @ w" "skip_ws (upsert @ w) = upsert @ w" for w
    using assms(2,3) by (simp_all add: reads_def skip_ws_head)
  show "read_value n (script_upsert code params upsert @ r) =
    Some (VObj [(''script'', VObj [(''source'', VStr (FormatPainlessSource code)), (''lang'', VStr ''painless''), (''params'', p)]), (''upsert'', u)], r)"
    using m by (simp add: n script_upsert_def read_script [OF assms(1)] sk readsD [OF assms(2)] readsD [OF assms(3)] le_SucI)
qed (simp add: value_head_def script_upsert_def)

text \<open>
  The request of \<^verbatim>\<open>serializePropertiesData\<close> has one closing brace more than it opens: it is no JSON text.
\<close>

lemma properties_request_not_json:
  assumes "Marshal (properties_json ps) = Inr t" and "json_utf8 (properties_json ps)"
  shows "json_decode (script_upsert code_properties (''{ \"properties\": '' @ t @ ''}'') ''{}}'') = None"
proof -
  let ?p = "''{ \"properties\": '' @ t @ ''}''" and ?u = "''{}''"
  from assms have t: "reads t (jv_of (properties_json ps))"
    by (auto simp: Marshal_def intro: reads_json_text split: if_splits)
  have p: "reads ?p (VObj [(''properties'', jv_of (properties_json ps))])"
  proof (rule readsI)
    fix n r assume "length ?p \<le> n"
    then obtain m where n: "n = Suc (Suc m)" and m: "length t \<le> m" by (auto simp: Suc_le_ex)
    have sk: "skip_ws (t @ u) = t @ u" for u using t by (simp add: reads_def skip_ws_head)
    show "read_value n (?p @ r) = Some (VObj [(''properties'', jv_of (properties_json ps))], r)"
      using m by (simp add: n sk readsD [OF t] le_SucI)
  qed (simp add: value_head_def)
  have u: "reads ?u (VObj [])"
    by (rule readsI) (auto simp: value_head_def Suc_le_ex)
  from reads_script_upsert [OF FormatPainlessSource_script [OF source_properties] p u]
  obtain v where v: "reads (script_upsert code_properties ?p ?u) v" by blast
  have split: "script_upsert code_properties ?p ''{}}'' = script_upsert code_properties ?p ?u @ ''}''"
    by (simp add: script_upsert_def)
  have "json_first (script_upsert code_properties ?p ''{}}'') = Some (v, ''}'')"
    unfolding json_first_def split
    using readsD [OF v, of "''}''"] skip_ws_head [of "script_upsert code_properties ?p ?u" "''}''"] v
    by (simp add: reads_def)
  then show ?thesis by (simp add: json_decode_def)
qed

section \<open>Properties\<close>



text \<open>
  C31. The line that follows the metadata of a transaction is JSON and carries the document of the transaction
  unchanged: as it is (index), as the upsert of a script that does nothing (a transaction whose destination
  shard stores it), or as the parameter of the script of a token transfer.
\<close>

theorem tx_action_document:
  assumes "prepareSerializedDataForATransaction K tx selfShard index = Inr (m, d)"
    and "json_utf8 (Transaction_json tx)" and "list_all script_char index" and "utf8_ok (tx_Hash tx)"
  shows "\<exists>code. list_all script_char (FormatPainlessSource code) \<and>
    (let doc = jv_of (Transaction_json tx);
         script = VObj [(''scripted_upsert'', VBool True),
           (''script'', VObj [(''source'', VStr (FormatPainlessSource code)), (''lang'', VStr ''painless''), (''params'', VObj [(''tx'', doc)])]),
           (''upsert'', VObj [])] in
     (json_decode m, json_decode d) =
       (if isCrossShardOnSourceShard tx selfShard \<and> \<not> isSimpleESDTTransfer K tx
        then (Some (meta_value ''update'' index (tx_Hash tx)),
              Some (VObj [(''script'', VObj [(''source'', VStr ''return'')]), (''upsert'', doc)]))
        else if isCrossShardOnSourceShard tx selfShard \<or> isNFTTransferOrMultiTransfer K tx \<or>
          isSimpleESDTTransferCrossShardOnDestination K tx selfShard
        then (Some (meta_value ''update'' index (tx_Hash tx)), Some script)
        else (Some (meta_value ''index'' index (tx_Hash tx)), Some doc)))"
proof -
  from assms(1) obtain t where t: "Marshal (Transaction_json tx) = Inr t"
    by (auto simp: prepareSerializedDataForATransaction_def Let_def bindr_Inr_iff)
  then have r: "reads t (jv_of (Transaction_json tx))"
    using assms(2) by (auto simp: Marshal_def intro: reads_json_text split: if_splits)
  have src: "list_all script_char (FormatPainlessSource c)" if "c \<in> {code_esdt_source, code_esdt_destination, code_nft_transfer}" for c
    using that script_sources by (auto intro: FormatPainlessSource_script)
  define code where "code = (if isCrossShardOnSourceShard tx selfShard then code_esdt_source
    else if isNFTTransferOrMultiTransfer K tx then code_nft_transfer else code_esdt_destination)"
  have c: "list_all script_char (FormatPainlessSource code)" by (rule src) (simp add: code_def)
  note dec = json_decode_reads [OF reads_tx_script [OF c r]] json_decode_reads [OF reads_upsert_only [OF r]] json_decode_reads [OF r]
  show ?thesis
    using assms(1) t dec
    by (intro exI [of _ code] conjI c)
      (auto simp: prepareSerializedDataForATransaction_def Let_def update_metas_read [OF assms(3,4)] index_metas_read [OF assms(3,4)]
        prepareNFTESDTTransferOrMultiESDTTransfer_def prepareSerializedDataForESDTTransferOnDestination_def code_def
        split: if_splits)
qed

theorem tx_action_document_witness:
  "\<exists>m d. prepareSerializedDataForATransaction demo_consts (zeroTransaction\<lparr>tx_Hash := ''ab''\<rparr>) 0 ''transactions'' = Inr (m, d) \<and>
     json_decode m = Some (meta_value ''index'' ''transactions'' ''ab'') \<and>
     json_decode d = Some (jv_of (Transaction_json (zeroTransaction\<lparr>tx_Hash := ''ab''\<rparr>)))"
proof -
  let ?tx = "zeroTransaction\<lparr>tx_Hash := ''ab''\<rparr>"
  have fin: "json_finite (Transaction_json ?tx)" and u: "json_utf8 (Transaction_json ?tx)" and h: "utf8_ok (tx_Hash ?tx)" by code_simp+
  have b: "\<not> isCrossShardOnSourceShard ?tx 0" "\<not> isNFTTransferOrMultiTransfer demo_consts ?tx"
    "\<not> isSimpleESDTTransferCrossShardOnDestination demo_consts ?tx 0" by code_simp+
  obtain m d where md: "prepareSerializedDataForATransaction demo_consts ?tx 0 ''transactions'' = Inr (m, d)"
    using fin b by (simp add: prepareSerializedDataForATransaction_def Marshal_def Let_def)
  from tx_action_document [OF md u _ h] b md show ?thesis by (auto simp: Let_def)
qed

end
