(* ===== verification/Docs_Read.thy ===== *)
theory Docs_Read
  imports Json_Read Docs_Json
begin

text \<open>
  \<^verbatim>\<open>json.Unmarshal\<close> into the structures of package \<^verbatim>\<open>data\<close> that the indexer reads back from the database: the tokens
  of a multi-get, whole token documents and the identifiers of a scroll page.  A field is found by its name
  without regard to case (of ASCII letters), the last one counts; a missing field or null gives the zero value; a value of
  another type is the error of \<^verbatim>\<open>json\<close>.  The theorem is the round trip of token documents.
\<close>

section \<open>Decoding of fields\<close>

definition lower_code :: "char \<Rightarrow> nat" where
  "lower_code c = (let n = of_char c in if 65 \<le> n \<and> n \<le> 90 then n + 32 else n)"

definition fold_eq :: "string \<Rightarrow> string \<Rightarrow> bool" where
  "fold_eq a b \<longleftrightarrow> map lower_code a = map lower_code b"

definition get_field :: "string \<Rightarrow> (string \<times> jv) list \<Rightarrow> jv option" where
  "get_field n kvs = (case filter (\<lambda>(k, _). fold_eq k n) (rev kvs) of [] \<Rightarrow> None | kv # _ \<Rightarrow> Some (snd kv))"

fun d_str :: "jv option \<Rightarrow> string option" where
  "d_str None = Some []"
| "d_str (Some VNull) = Some []"
| "d_str (Some (VStr s)) = Some s"
| "d_str (Some _) = None"

fun d_bool :: "jv option \<Rightarrow> bool option" where
  "d_bool None = Some False"
| "d_bool (Some VNull) = Some False"
| "d_bool (Some (VBool b)) = Some b"
| "d_bool (Some _) = None"

fun d_uint64 :: "jv option \<Rightarrow> u64 option" where
  "d_uint64 None = Some 0"
| "d_uint64 (Some VNull) = Some 0"
| "d_uint64 (Some (VNum t)) = map_option of_nat (parse_uint 64 t)"
| "d_uint64 (Some _) = None"

fun d_uint32 :: "jv option \<Rightarrow> u32 option" where
  "d_uint32 None = Some 0"
| "d_uint32 (Some VNull) = Some 0"
| "d_uint32 (Some (VNum t)) = map_option of_nat (parse_uint 32 t)"
| "d_uint32 (Some _) = None"

definition parse_int64 :: "string \<Rightarrow> int option" where
  "parse_int64 t =
     (case set_string10 t of Some i \<Rightarrow> if - (2 ^ 63) \<le> i \<and> i < 2 ^ 63 then Some i else None | None \<Rightarrow> None)"

fun d_int64 :: "jv option \<Rightarrow> int option" where
  "d_int64 None = Some 0"
| "d_int64 (Some VNull) = Some 0"
| "d_int64 (Some (VNum t)) = parse_int64 t"
| "d_int64 (Some _) = None"

text \<open>A \<^verbatim>\<open>time.Duration\<close> is a signed integer of 64 bits.\<close>

definition d_time :: "jv option \<Rightarrow> u64 option" where
  "d_time v = map_option of_int (d_int64 v)"

fun d_elems :: "(jv option \<Rightarrow> 'a option) \<Rightarrow> jv list \<Rightarrow> 'a list option" where
  "d_elems f [] = Some []"
| "d_elems f (v # vs) = (case (f (Some v), d_elems f vs) of (Some x, Some xs) \<Rightarrow> Some (x # xs) | _ \<Rightarrow> None)"

fun d_list :: "(jv option \<Rightarrow> 'a option) \<Rightarrow> jv option \<Rightarrow> 'a list option" where
  "d_list f None = Some []"
| "d_list f (Some VNull) = Some []"
| "d_list f (Some (VArr vs)) = d_elems f vs"
| "d_list f (Some _) = None"

fun d_struct :: "((string \<times> jv) list \<Rightarrow> 'a option) \<Rightarrow> jv option \<Rightarrow> 'a option" where
  "d_struct f None = f []"
| "d_struct f (Some VNull) = f []"
| "d_struct f (Some (VObj kvs)) = f kvs"
| "d_struct f (Some _) = None"

fun d_ptr :: "(jv option \<Rightarrow> 'a option) \<Rightarrow> jv option \<Rightarrow> 'a option option" where
  "d_ptr f None = Some None"
| "d_ptr f (Some VNull) = Some None"
| "d_ptr f (Some v) = map_option Some (f (Some v))"

text \<open>\<^verbatim>\<open>base64.StdEncoding\<close>, which skips line breaks and does not look at the unused bits of the last character.\<close>

definition base64_value :: "char \<Rightarrow> nat option" where
  "base64_value c =
     (let n = of_char c in
      if 65 \<le> n \<and> n \<le> 90 then Some (n - 65) else if 97 \<le> n \<and> n \<le> 122 then Some (n - 71)
      else if 48 \<le> n \<and> n \<le> 57 then Some (n + 4) else if c = CHR ''+'' then Some 62 else if c = CHR ''/'' then Some 63
      else None)"

fun base64_quads :: "string \<Rightarrow> bytes option" where
  "base64_quads [] = Some []"
| "base64_quads (a # b # c # d # s) =
     (case (base64_value a, base64_value b) of
        (Some w, Some x) \<Rightarrow>
          if s = [] \<and> c = CHR ''='' \<and> d = CHR ''='' then Some [char_of (w * 4 + x div 16)]
          else (case base64_value c of None \<Rightarrow> None | Some y \<Rightarrow>
            if s = [] \<and> d = CHR ''='' then Some [char_of (w * 4 + x div 16), char_of (x mod 16 * 16 + y div 4)]
            else (case base64_value d of None \<Rightarrow> None | Some z \<Rightarrow>
              map_option (\<lambda>r. char_of (w * 4 + x div 16) # char_of (x mod 16 * 16 + y div 4) # char_of (y mod 4 * 64 + z) # r)
                (base64_quads s)))
      | _ \<Rightarrow> None)"
| "base64_quads _ = None"

definition base64_decode :: "string \<Rightarrow> bytes option" where
  "base64_decode s = base64_quads (filter (\<lambda>c. c \<noteq> CHR 0x0A \<and> c \<noteq> CHR 0x0D) s)"

fun d_bytes :: "jv option \<Rightarrow> bytes option" where
  "d_bytes None = Some []"
| "d_bytes (Some VNull) = Some []"
| "d_bytes (Some (VStr s)) = base64_decode s"
| "d_bytes (Some _) = None"

section \<open>Structures\<close>

abbreviation bindo :: "'a option \<Rightarrow> ('a \<Rightarrow> 'b option) \<Rightarrow> 'b option" where
  "bindo \<equiv> Option.bind"

definition SourceToken_dec :: "(string \<times> jv) list \<Rightarrow> SourceToken option" where
  "SourceToken_dec o1 =
     bindo (d_str (get_field ''type'' o1)) (\<lambda>t. bindo (d_str (get_field ''currentOwner'' o1)) (\<lambda>c.
       Some \<lparr>st_Type = t, st_CurrentOwner = c\<rparr>))"

definition ResponseTokenDB_dec :: "(string \<times> jv) list \<Rightarrow> ResponseTokenDB option" where
  "ResponseTokenDB_dec o1 =
     bindo (d_bool (get_field ''found'' o1)) (\<lambda>f. bindo (d_str (get_field ''_id'' o1)) (\<lambda>i.
     bindo (d_struct SourceToken_dec (get_field ''_source'' o1)) (\<lambda>s.
       Some \<lparr>rt_Found = f, rt_ID = i, rt_Source = s\<rparr>)))"

definition ResponseTokens_dec :: "(string \<times> jv) list \<Rightarrow> ResponseTokens option" where
  "ResponseTokens_dec o1 = d_list (d_struct ResponseTokenDB_dec) (get_field ''docs'' o1)"

definition TokenMetaData_dec :: "(string \<times> jv) list \<Rightarrow> TokenMetaData option" where
  "TokenMetaData_dec o1 =
     bindo (d_str (get_field ''name'' o1)) (\<lambda>name. bindo (d_str (get_field ''creator'' o1)) (\<lambda>creator.
     bindo (d_uint32 (get_field ''royalties'' o1)) (\<lambda>royalties. bindo (d_bytes (get_field ''hash'' o1)) (\<lambda>hash.
     bindo (d_list d_bytes (get_field ''uris'' o1)) (\<lambda>uris. bindo (d_list d_str (get_field ''tags'' o1)) (\<lambda>tags.
     bindo (d_bytes (get_field ''attributes'' o1)) (\<lambda>attributes. bindo (d_str (get_field ''metadata'' o1)) (\<lambda>metadata.
     bindo (d_bool (get_field ''nonEmptyURIs'' o1)) (\<lambda>ne. bindo (d_bool (get_field ''whiteListedStorage'' o1)) (\<lambda>wl.
       Some \<lparr>md_Name = name, md_Creator = creator, md_Royalties = royalties, md_Hash = hash, md_URIs = uris, md_Tags = tags,
         md_Attributes = attributes, md_MetaData = metadata, md_NonEmptyURIs = ne, md_WhiteListedStorage = wl\<rparr>))))))))))"

definition OwnerData_dec :: "(string \<times> jv) list \<Rightarrow> OwnerData option" where
  "OwnerData_dec o1 =
     bindo (d_str (get_field ''txHash'' o1)) (\<lambda>h. bindo (d_str (get_field ''address'' o1)) (\<lambda>a.
     bindo (d_time (get_field ''timestamp'' o1)) (\<lambda>t. Some \<lparr>od_TxHash = h, od_Address = a, od_Timestamp = t\<rparr>)))"

definition TokenProperties_dec :: "(string \<times> jv) list \<Rightarrow> TokenProperties option" where
  "TokenProperties_dec o1 =
     bindo (d_bool (get_field ''canMint'' o1)) (\<lambda>p1. bindo (d_bool (get_field ''canBurn'' o1)) (\<lambda>p2.
     bindo (d_bool (get_field ''canUpgrade'' o1)) (\<lambda>p3. bindo (d_bool (get_field ''canTransferNFTCreateRole'' o1)) (\<lambda>p4.
     bindo (d_bool (get_field ''canAddSpecialRoles'' o1)) (\<lambda>p5. bindo (d_bool (get_field ''canPause'' o1)) (\<lambda>p6.
     bindo (d_bool (get_field ''canFreeze'' o1)) (\<lambda>p7. bindo (d_bool (get_field ''canWipe'' o1)) (\<lambda>p8.
     bindo (d_bool (get_field ''canChangeOwner'' o1)) (\<lambda>p9. bindo (d_bool (get_field ''canCreateMultiShard'' o1)) (\<lambda>p10.
       Some \<lparr>tp_Mintable = p1, tp_Burnable = p2, tp_Upgradable = p3, tp_CanTransferNFTCreateRole = p4,
         tp_CanAddSpecialRoles = p5, tp_CanPause = p6, tp_CanFreeze = p7, tp_CanWipe = p8, tp_CanChangeOwner = p9,
         tp_CanCreateMultiShard = p10\<rparr>))))))))))"

text \<open>An element of \<^verbatim>\<open>ownersHistory\<close> that is null is a nil pointer, which the sources do not look at; it is left out.\<close>

definition TokenInfo_dec :: "(string \<times> jv) list \<Rightarrow> TokenInfo option" where
  "TokenInfo_dec o1 =
     bindo (d_str (get_field ''name'' o1)) (\<lambda>name. bindo (d_str (get_field ''ticker'' o1)) (\<lambda>ticker.
     bindo (d_str (get_field ''identifier'' o1)) (\<lambda>identifier. bindo (d_str (get_field ''token'' o1)) (\<lambda>token.
     bindo (d_str (get_field ''issuer'' o1)) (\<lambda>issuer. bindo (d_str (get_field ''currentOwner'' o1)) (\<lambda>currentOwner.
     bindo (d_uint64 (get_field ''numDecimals'' o1)) (\<lambda>numDecimals. bindo (d_str (get_field ''type'' o1)) (\<lambda>ty.
     bindo (d_uint64 (get_field ''nonce'' o1)) (\<lambda>nonce. bindo (d_time (get_field ''timestamp'' o1)) (\<lambda>ts.
     bindo (d_ptr (d_struct TokenMetaData_dec) (get_field ''data'' o1)) (\<lambda>dt.
     bindo (d_list (d_ptr (d_struct OwnerData_dec)) (get_field ''ownersHistory'' o1)) (\<lambda>owners.
     bindo (d_ptr (d_struct TokenProperties_dec) (get_field ''properties'' o1)) (\<lambda>props.
       Some \<lparr>ti_Name = name, ti_Ticker = ticker, ti_Identifier = identifier, ti_Token = token, ti_Issuer = issuer,
         ti_CurrentOwner = currentOwner, ti_NumDecimals = numDecimals, ti_Type = ty, ti_Nonce = nonce, ti_Timestamp = ts,
         ti_Data = dt, ti_OwnersHistory = List.map_filter id owners, ti_TransferOwnership = False, ti_ChangeToDynamic = False,
         ti_Properties = props\<rparr>)))))))))))))"

definition ResponseTokenInfoDB_dec :: "(string \<times> jv) list \<Rightarrow> ResponseTokenInfoDB option" where
  "ResponseTokenInfoDB_dec o1 =
     bindo (d_bool (get_field ''found'' o1)) (\<lambda>f. bindo (d_str (get_field ''_id'' o1)) (\<lambda>i.
     bindo (d_struct TokenInfo_dec (get_field ''_source'' o1)) (\<lambda>s.
       Some \<lparr>rti_Found = f, rti_ID = i, rti_Source = s\<rparr>)))"

definition ResponseTokenInfo_dec :: "(string \<times> jv) list \<Rightarrow> ResponseTokenInfoDB list option" where
  "ResponseTokenInfo_dec o1 = d_list (d_struct ResponseTokenInfoDB_dec) (get_field ''docs'' o1)"

text \<open>The identifiers of a scroll page; the source of a hit is a raw message and is not read.\<close>

definition hit_dec :: "(string \<times> jv) list \<Rightarrow> string option" where
  "hit_dec o1 = d_str (get_field ''_id'' o1)"

definition ResponseScroll_dec :: "(string \<times> jv) list \<Rightarrow> string list option" where
  "ResponseScroll_dec o1 = d_struct (\<lambda>o2. d_list (d_struct hit_dec) (get_field ''hits'' o2)) (get_field ''hits'' o1)"

definition Unmarshal :: "((string \<times> jv) list \<Rightarrow> 'a option) \<Rightarrow> bytes \<Rightarrow> 'a result" where
  "Unmarshal dec b =
     (case json_decode b of None \<Rightarrow> Inl ErrUnmarshal
      | Some v \<Rightarrow> (case d_struct dec (Some v) of None \<Rightarrow> Inl ErrUnmarshal | Some x \<Rightarrow> Inr x))"

section \<open>Round trips\<close>

lemma base64_value_char: "n < 64 \<Longrightarrow> base64_value (base64_char n) = Some n"
  by (auto simp: base64_value_def base64_char_def Let_def)

lemma base64_char_not_pad: "base64_char n \<noteq> CHR ''=''" 
proof -
  have "(of_char (base64_char n) :: nat) \<noteq> 61" by (auto simp: base64_char_def)
  then show ?thesis by auto
qed

lemma base64_length_mod: "base64_encode s = [] \<longleftrightarrow> s = []"
  by (cases s rule: base64_encode.cases) (auto simp: Let_def)

text \<open>The groups of six bits of three bytes, and the bytes of four groups.\<close>

lemma six_bits:
  fixes x y z :: nat
  assumes "x < 256" "y < 256" "z < 256"
  shows "x div 4 < 64" "x mod 4 * 16 + y div 16 < 64" "y mod 16 * 4 + z div 64 < 64" "z mod 64 < 64"
    "x div 4 * 4 + (x mod 4 * 16 + y div 16) div 16 = x"
    "(x mod 4 * 16 + y div 16) mod 16 * 16 + (y mod 16 * 4 + z div 64) div 4 = y"
    "(y mod 16 * 4 + z div 64) mod 4 * 64 + z mod 64 = z"
proof -
  have d: "x div 4 < 64" "y div 16 < 16" "z div 64 < 4" using assms by (simp_all add: less_mult_imp_div_less)
  have m: "x mod 4 < 4" "y mod 16 < 16" by simp_all
  show "x div 4 < 64" "z mod 64 < 64" using d by simp_all
  show "x mod 4 * 16 + y div 16 < 64" using d(2) m(1) by linarith
  show "y mod 16 * 4 + z div 64 < 64" using d(3) m(2) by linarith
  have p: "(x mod 4 * 16 + y div 16) div 16 = x mod 4" "(x mod 4 * 16 + y div 16) mod 16 = y div 16"
    "(y mod 16 * 4 + z div 64) div 4 = y mod 16" "(y mod 16 * 4 + z div 64) mod 4 = z div 64" using d by simp_all
  show "x div 4 * 4 + (x mod 4 * 16 + y div 16) div 16 = x" unfolding p by (rule div_mult_mod_eq)
  show "(x mod 4 * 16 + y div 16) mod 16 * 16 + (y mod 16 * 4 + z div 64) div 4 = y" unfolding p by (rule div_mult_mod_eq)
  show "(y mod 16 * 4 + z div 64) mod 4 * 64 + z mod 64 = z" unfolding p by (rule div_mult_mod_eq)
qed

lemma base64_quads_encode: "base64_quads (base64_encode s) = Some s"
proof (induction s rule: base64_encode.induct)
  case (2 a)
  note six_bits [of "of_char a" 0 0, simplified]
  then show ?case by (simp add: Let_def base64_value_char)
next
  case (3 a b)
  note six_bits [of "of_char a" "of_char b" 0, simplified]
  then show ?case by (simp add: Let_def base64_value_char base64_char_not_pad)
next
  case (4 a b c s)
  have c: "(of_char a :: nat) < 256" "(of_char b :: nat) < 256" "(of_char c :: nat) < 256" by simp_all
  note bits = six_bits [OF c]
  have "base64_quads (base64_encode (a # b # c # s)) =
      map_option (\<lambda>r. char_of (of_char a :: nat) # char_of (of_char b :: nat) # char_of (of_char c :: nat) # r) (base64_quads (base64_encode s))"
    by (simp only: base64_encode.simps Let_def append.simps base64_quads.simps base64_value_char bits option.case prod.case
        base64_char_not_pad simp_thms if_False)
  with 4 show ?case by simp
qed simp

lemma base64_decode_encode: "base64_decode (base64_encode s) = Some s"
proof -
  have "list_all printable (base64_encode s)" by (rule printable_base64)
  then have "filter (\<lambda>c. c \<noteq> CHR 0x0A \<and> c \<noteq> CHR 0x0D) (base64_encode s) = base64_encode s"
    by (intro filter_True) (auto simp: list_all_iff printable_def)
  then show ?thesis by (simp add: base64_decode_def base64_quads_encode)
qed

named_theorems field_simps \<open>reading a field of an encoded structure\<close>

definition orelse :: "'a option \<Rightarrow> 'a option \<Rightarrow> 'a option" where
  "orelse x y = (case x of None \<Rightarrow> y | Some v \<Rightarrow> Some v)"

lemma orelse_simps [field_simps]: "orelse None y = y" "orelse x None = x" "orelse (Some v) y = Some v"
  by (simp_all add: orelse_def split: option.split)

lemma get_field_append [field_simps]: "get_field n (a @ b) = orelse (get_field n b) (get_field n a)"
  by (auto simp: get_field_def orelse_def split: list.splits)

lemma get_field_single [field_simps]: "get_field n [] = None" "get_field n [(m, v)] = (if fold_eq m n then Some v else None)"
  by (simp_all add: get_field_def)

lemma get_field_Cons [field_simps]:
  "get_field n ((m, v) # kvs) = orelse (get_field n kvs) (if fold_eq m n then Some v else None)"
  using get_field_append [of n "[(m, v)]" kvs] by (simp add: get_field_single)

abbreviation enc :: "json_fields \<Rightarrow> (string \<times> jv) list" where
  "enc \<equiv> map (map_prod id jv_of)"

lemma enc_fields [field_simps]:
  "enc (f_str n s) = [(n, VStr s)]" "enc (f_bool n b) = [(n, VBool b)]" "enc (f_uint n w) = [(n, VNum (dec_int (uint w)))]"
  "enc (f_time n t) = [(n, VNum (dec_int (sint t)))]"
  by (simp_all add: field_defs)

text \<open>Reading an optional field is reading the field itself: what is omitted has the zero value.\<close>

definition opt_when :: "bool \<Rightarrow> jv \<Rightarrow> jv option" where
  "opt_when p v = (if p then Some v else None)"

lemma get_optional [field_simps]:
  "get_field m (enc (o_str n s)) = (if fold_eq n m then opt_when (s \<noteq> []) (VStr s) else None)"
  "get_field m (enc (o_uint n w)) = (if fold_eq n m then opt_when (w \<noteq> 0) (VNum (dec_int (uint w))) else None)"
  "get_field m (enc (o_time n t)) = (if fold_eq n m then opt_when (t \<noteq> 0) (VNum (dec_int (sint t))) else None)"
  "get_field m (enc (o_bytes n b)) = (if fold_eq n m then opt_when (b \<noteq> []) (VStr (base64_encode b)) else None)"
  "get_field m (enc (o_list n f xs)) = (if fold_eq n m then opt_when (xs \<noteq> []) (VArr (map (jv_of \<circ> f) xs)) else None)"
  "get_field m (enc (o_ptr n g x)) = (if fold_eq n m then map_option (jv_of \<circ> g) x else None)"
  by (simp_all add: opt_when_def field_defs json_bytes_def o_ptr_def get_field_single split: option.split)

lemma d_scalars [field_simps]:
  "d_str (opt_when (s \<noteq> []) (VStr s)) = Some s"
  "d_bytes (opt_when (b \<noteq> []) (VStr (base64_encode b))) = Some b"
  by (simp_all add: opt_when_def base64_decode_encode)

lemma dec_int_uint: "dec_int (uint x) = dec_nat (unat x)"
  by (simp add: dec_int_def unsigned_of_nat)

lemma d_words [field_simps]:
  "d_uint64 (Some (VNum (dec_int (uint (w :: u64))))) = Some w"
  "d_uint32 (Some (VNum (dec_int (uint (v :: u32))))) = Some v"
  "d_time (Some (VNum (dec_int (sint t)))) = Some t"
proof -
  show "d_uint64 (Some (VNum (dec_int (uint w)))) = Some w" "d_uint32 (Some (VNum (dec_int (uint v)))) = Some v"
    using unsigned_less [of w, where 'a = nat] unsigned_less [of v, where 'a = nat] by (simp_all add: parse_uint_dec_nat dec_int_uint)
  have "- (2 ^ 63) \<le> sint t \<and> sint t < 2 ^ 63" using sint_range_size [of t] by (simp add: word_size)
  then show "d_time (Some (VNum (dec_int (sint t)))) = Some t"
    by (simp add: d_time_def parse_int64_def set_string10_dec_int)
qed

lemma d_words_optional [field_simps]:
  "d_uint64 (opt_when (w \<noteq> 0) (VNum (dec_int (uint (w :: u64))))) = Some w"
  "d_uint32 (opt_when (v \<noteq> 0) (VNum (dec_int (uint (v :: u32))))) = Some v"
  "d_time (opt_when (t \<noteq> 0) (VNum (dec_int (sint t)))) = Some t"
  using d_words by (auto simp: opt_when_def simp del: d_uint64.simps(3) d_uint32.simps(3)) (simp add: d_time_def)

lemma d_elems_map: "(\<And>x. x \<in> set xs \<Longrightarrow> f (Some (g x)) = Some (h x)) \<Longrightarrow> d_elems f (map g xs) = Some (map h xs)"
  by (induction xs) simp_all

lemma fold_eq_refl [simp]: "fold_eq a a"
  by (simp add: fold_eq_def)

lemma TokenProperties_roundtrip: "d_struct TokenProperties_dec (Some (jv_of (TokenProperties_json p))) = Some p"
  by (simp add: TokenProperties_json_def TokenProperties_dec_def field_simps fold_eq_def lower_code_def)

lemma OwnerData_roundtrip: "d_struct OwnerData_dec (Some (jv_of (OwnerData_json d))) = Some d"
  by (simp add: OwnerData_json_def OwnerData_dec_def field_simps fold_eq_def lower_code_def)

lemma d_bytes_json: "d_bytes (Some (jv_of (json_bytes b))) = Some b"
  by (simp add: json_bytes_def base64_decode_encode)

lemma d_lists [field_simps]:
  "d_list d_str (opt_when (xs \<noteq> []) (VArr (map (jv_of \<circ> JStr) xs))) = Some xs"
  "d_list d_bytes (opt_when (bs \<noteq> []) (VArr (map (jv_of \<circ> json_bytes) bs))) = Some bs"
  using d_elems_map [of xs d_str "jv_of \<circ> JStr" id] d_elems_map [of bs d_bytes "jv_of \<circ> json_bytes" id]
  by (simp_all add: opt_when_def d_bytes_json)

lemma TokenMetaData_roundtrip: "d_struct TokenMetaData_dec (Some (jv_of (TokenMetaData_json m))) = Some m"
  by (simp add: TokenMetaData_json_def TokenMetaData_dec_def field_simps fold_eq_def lower_code_def)

lemma d_pointers [field_simps]:
  "d_ptr (d_struct TokenMetaData_dec) (map_option (jv_of \<circ> TokenMetaData_json) x) = Some x"
  "d_ptr (d_struct TokenProperties_dec) (map_option (jv_of \<circ> TokenProperties_json) y) = Some y"
  using TokenMetaData_roundtrip [of "the x"] TokenProperties_roundtrip [of "the y"]
  by (cases x; cases y; simp add: TokenMetaData_json_def TokenProperties_json_def)+

lemma d_owners [field_simps]:
  "d_list (d_ptr (d_struct OwnerData_dec)) (opt_when (xs \<noteq> []) (VArr (map (jv_of \<circ> OwnerData_json) xs))) = Some (map Some xs)"
proof -
  have "d_ptr (d_struct OwnerData_dec) (Some (jv_of (OwnerData_json d))) = Some (Some d)" for d
    using OwnerData_roundtrip [of d] by (simp add: OwnerData_json_def)
  then show ?thesis using d_elems_map [of xs "d_ptr (d_struct OwnerData_dec)" "jv_of \<circ> OwnerData_json" Some]
    by (simp add: opt_when_def)
qed

lemma map_filter_Some: "List.map_filter id (map Some xs) = xs"
  by (induction xs) (simp_all add: List.map_filter_def)

text \<open>A token document that was written is read back, but for the two flags that are not stored.\<close>

lemma TokenInfo_roundtrip:
  "d_struct TokenInfo_dec (Some (jv_of (TokenInfo_json t))) = Some (t\<lparr>ti_TransferOwnership := False, ti_ChangeToDynamic := False\<rparr>)"
  by (simp add: TokenInfo_json_def TokenInfo_dec_def field_simps fold_eq_def lower_code_def map_filter_Some del: d_uint64.simps(3))

section \<open>Properties\<close>

text \<open>
  C32. A token document that the indexer writes to the database is read back as the same token, but for the two
  flags that only steer the writing: names, owners, decimals, nonce, timestamp, metadata with its binary
  fields, owners history and properties.
\<close>

theorem token_document_roundtrip:
  assumes "Marshal (TokenInfo_json t) = Inr b" and "json_utf8 (TokenInfo_json t)"
  shows "Unmarshal TokenInfo_dec b = Inr (t\<lparr>ti_TransferOwnership := False, ti_ChangeToDynamic := False\<rparr>)"
  by (simp only: Unmarshal_def Marshal_roundtrip [OF assms] option.case TokenInfo_roundtrip)

definition demo_token :: TokenInfo where
  "demo_token = \<lparr>ti_Name = ''Token'', ti_Ticker = ''TKN'', ti_Identifier = ''TKN-abcdef-01'', ti_Token = ''TKN-abcdef'',
     ti_Issuer = ''erd1'', ti_CurrentOwner = ''erd1'', ti_NumDecimals = 18, ti_Type = ''NonFungibleESDT'', ti_Nonce = 1,
     ti_Timestamp = 1000, ti_Data = Some \<lparr>md_Name = ''n'', md_Creator = ''c'', md_Royalties = 5, md_Hash = ''h'',
       md_URIs = [''uri''], md_Tags = [''a'', ''b''], md_Attributes = ''tags:a,b'', md_MetaData = [], md_NonEmptyURIs = True,
       md_WhiteListedStorage = False\<rparr>,
     ti_OwnersHistory = [\<lparr>od_TxHash = ''ff'', od_Address = ''erd1'', od_Timestamp = 1000\<rparr>], ti_TransferOwnership = True,
     ti_ChangeToDynamic = False, ti_Properties = None\<rparr>"

theorem token_document_roundtrip_witness:
  "\<exists>b. Marshal (TokenInfo_json demo_token) = Inr b \<and>
     Unmarshal TokenInfo_dec b = Inr (demo_token\<lparr>ti_TransferOwnership := False, ti_ChangeToDynamic := False\<rparr>)"
proof -
  have "json_finite (TokenInfo_json demo_token)" and u: "json_utf8 (TokenInfo_json demo_token)" by code_simp+
  then obtain b where b: "Marshal (TokenInfo_json demo_token) = Inr b" by (simp add: Marshal_def)
  from token_document_roundtrip [OF b u] b show ?thesis by blast
qed

end
