(* ===== verification/Effects.thy ===== *)
theory Effects
  imports Prelude
begin

text \<open>
  Calls with effects: an operation maps the state of the world (what was sent to the database and what the
  client remembers) to a result and the state after it.  \<open>keeps I m Q\<close> is the rule of reasoning used for the
  processors: whatever \<open>m\<close> does keeps the invariant \<open>I\<close> of the world, also when it ends with an error, and a
  value it returns satisfies \<open>Q\<close>.
\<close>

type_synonym ('w, 'a) io = "'w \<Rightarrow> 'a result \<times> 'w"

definition io_ok :: "'a \<Rightarrow> ('w, 'a) io" where
  "io_ok x w = (Inr x, w)"

definition io_fail :: "go_error \<Rightarrow> ('w, 'a) io" where
  "io_fail e w = (Inl e, w)"

definition io_of :: "'a result \<Rightarrow> ('w, 'a) io" where
  "io_of r w = (r, w)"

definition io_bind :: "('w, 'a) io \<Rightarrow> ('a \<Rightarrow> ('w, 'b) io) \<Rightarrow> ('w, 'b) io" where
  "io_bind m f w = (case m w of (Inl e, w') \<Rightarrow> (Inl e, w') | (Inr x, w') \<Rightarrow> f x w')"

text \<open>An error is replaced by one that wraps it (\<^verbatim>\<open>fmt.Errorf\<close> with \<^verbatim>\<open>%w\<close>); a panic is no error value.\<close>

fun wrap_error :: "string \<Rightarrow> go_error \<Rightarrow> go_error" where
  "wrap_error t PanicIndexOutOfRange = PanicIndexOutOfRange"
| "wrap_error t PanicNilDereference = PanicNilDereference"
| "wrap_error t LoopFuelExhausted = LoopFuelExhausted"
| "wrap_error t e = ErrWrapped t e"

definition is_panic :: "go_error \<Rightarrow> bool" where
  "is_panic e \<longleftrightarrow> e = PanicIndexOutOfRange \<or> e = PanicNilDereference"

definition io_wrap :: "string \<Rightarrow> ('w, 'a) io \<Rightarrow> ('w, 'a) io" where
  "io_wrap t m w = (case m w of (Inl e, w') \<Rightarrow> (Inl (wrap_error t e), w') | (Inr x, w') \<Rightarrow> (Inr x, w'))"

text \<open>A loop that leaves at the first error.\<close>

fun io_each :: "('a \<Rightarrow> ('w, unit) io) \<Rightarrow> 'a list \<Rightarrow> ('w, unit) io" where
  "io_each f [] = io_ok ()"
| "io_each f (x # xs) = io_bind (f x) (\<lambda>_. io_each f xs)"

section \<open>Rules\<close>

lemmas io_defs = io_ok_def io_fail_def io_of_def io_bind_def

lemma io_bind_ok [simp]: "io_bind (io_ok x) f = f x" "io_bind (io_of (Inr x)) f = f x"
  by (simp_all add: io_defs fun_eq_iff)

lemma io_bind_fail [simp]: "io_bind (io_fail e) f = io_fail e" "io_bind (io_of (Inl e)) f = io_fail e"
  by (simp_all add: io_defs fun_eq_iff)

lemma io_bind_Inr: "io_bind m f w = (Inr y, w') \<longleftrightarrow> (\<exists>x w1. m w = (Inr x, w1) \<and> f x w1 = (Inr y, w'))"
  by (auto simp: io_bind_def split: prod.splits sum.splits)

lemma io_bind_Inl:
  "io_bind m f w = (Inl e, w') \<longleftrightarrow> m w = (Inl e, w') \<or> (\<exists>x w1. m w = (Inr x, w1) \<and> f x w1 = (Inl e, w'))"
  by (auto simp: io_bind_def split: prod.splits sum.splits)

definition keeps :: "('w \<Rightarrow> bool) \<Rightarrow> ('w, 'a) io \<Rightarrow> ('a \<Rightarrow> bool) \<Rightarrow> bool" where
  "keeps I m Q \<longleftrightarrow> (\<forall>w. I w \<longrightarrow> I (snd (m w)) \<and> (\<forall>x. fst (m w) = Inr x \<longrightarrow> Q x))"

named_theorems keeps_intros \<open>operations that keep an invariant of the world\<close>

lemma keepsD: "keeps I m Q \<Longrightarrow> I w \<Longrightarrow> I (snd (m w))"
  by (simp add: keeps_def)

lemma keeps_result: "keeps I m Q \<Longrightarrow> I w \<Longrightarrow> m w = (Inr x, w') \<Longrightarrow> Q x"
  by (auto simp: keeps_def dest: spec [of _ w])

lemma keeps_weaken: "keeps I m Q \<Longrightarrow> (\<And>x. Q x \<Longrightarrow> R x) \<Longrightarrow> keeps I m R"
  by (auto simp: keeps_def)

lemma keeps_ok: "Q x \<Longrightarrow> keeps I (io_ok x) Q"
  by (simp add: keeps_def io_ok_def)

lemma keeps_fail: "keeps I (io_fail e) Q"
  by (simp add: keeps_def io_fail_def)

lemma keeps_of: "(\<And>x. r = Inr x \<Longrightarrow> Q x) \<Longrightarrow> keeps I (io_of r) Q"
  by (simp add: keeps_def io_of_def)

lemma keeps_bind:
  assumes "keeps I m Q" and "\<And>x. Q x \<Longrightarrow> keeps I (f x) R"
  shows "keeps I (io_bind m f) R"
  unfolding keeps_def
proof (intro allI impI)
  fix w assume w: "I w"
  show "I (snd (io_bind m f w)) \<and> (\<forall>x. fst (io_bind m f w) = Inr x \<longrightarrow> R x)"
  proof (cases "m w")
    case (Pair r w1)
    from assms(1) w Pair have w1: "I w1" by (auto simp: keeps_def dest: spec [of _ w])
    show ?thesis
    proof (cases r)
      case (Inl e)
      with Pair w1 show ?thesis by (simp add: io_bind_def)
    next
      case (Inr x)
      with assms(1) w Pair have "Q x" by (auto simp: keeps_def dest: spec [of _ w])
      from assms(2) [OF this] w1 Pair Inr show ?thesis by (simp add: io_bind_def keeps_def)
    qed
  qed
qed

lemma keeps_wrap: "keeps I m Q \<Longrightarrow> keeps I (io_wrap t m) Q"
  by (fastforce simp: keeps_def io_wrap_def split: prod.splits sum.splits)

lemma keeps_each: "(\<And>x. x \<in> set xs \<Longrightarrow> keeps I (f x) (\<lambda>_. True)) \<Longrightarrow> keeps I (io_each f xs) (\<lambda>_. True)"
proof (induction xs)
  case (Cons x xs)
  then have "keeps I (f x) (\<lambda>_. True)" "keeps I (io_each f xs) (\<lambda>_. True)" by simp_all
  then show ?case unfolding io_each.simps by (rule keeps_bind)
qed (simp add: keeps_ok)

lemma keeps_if: "(c \<Longrightarrow> keeps I m Q) \<Longrightarrow> (\<not> c \<Longrightarrow> keeps I n Q) \<Longrightarrow> keeps I (if c then m else n) Q"
  by simp

end
