(* ===== verification/Es_Client.thy ===== *)
theory Es_Client
  imports Effects Docs_Read
begin

text \<open>
  The database client (\<^verbatim>\<open>client/elasticClient.go\<close>, \<^verbatim>\<open>elasticClientCommon.go\<close>, \<^verbatim>\<open>elasticClientScroll.go\<close>, \<^verbatim>\<open>queries.go\<close>,
  \<^verbatim>\<open>data.go\<close>) over the calls of the Elasticsearch library.  The library and the server are the parameter
  \<open>es_lib\<close>: the answer to a call may depend on all calls before it.  A context is the topic it carries, empty for
  the background context.  The scroll loop runs until the server has no more hits; the model gives it a number of
  iterations, and a theorem says when they are enough.  Index policies are left out: the only caller is disabled in the
  sources.
\<close>

section \<open>The library\<close>

datatype es_body = NilBody | Body bytes | BrokenBody

record es_response =
  rs_StatusCode :: int
  rs_Body :: es_body

datatype es_call =
    BulkCall string string bytes
  | MgetCall string string bytes
  | DeleteByQueryCall string "string list" bytes
  | RefreshCall string
  | ExistsTemplateCall "string list"
  | ExistsIndexCall "string list"
  | PerformCall string string
  | CreateIndexCall string
  | PutIndexTemplateCall string bytes
  | PutAliasCall "string list" string
  | GetAliasCall string
  | PutMappingCall string bytes
  | UpdateByQueryCall string "string list" bytes
  | CountCall string string bytes
  | SearchCall string string bytes nat u64 bool
  | ScrollCall string u64
  | ClearScrollCall string

record es_lib =
  es_answer :: "es_call list \<Rightarrow> es_response result"
  es_IsError :: "es_response \<Rightarrow> bool"
  es_String :: "es_response \<Rightarrow> string"
  gjson_Uint :: "bytes \<Rightarrow> string \<Rightarrow> u64"
  gjson_Int :: "bytes \<Rightarrow> string \<Rightarrow> int"
  gjson_String :: "bytes \<Rightarrow> string \<Rightarrow> string"

text \<open>The client and what was sent through it.\<close>

record elasticClient =
  es_calls :: "es_call list"
  countScroll :: u64

definition es_do :: "es_lib \<Rightarrow> es_call \<Rightarrow> (elasticClient, es_response) io" where
  "es_do E c w = (es_answer E (es_calls w @ [c]), w\<lparr>es_calls := es_calls w @ [c]\<rparr>)"

section \<open>Responses (elasticClientCommon.go)\<close>

definition StatusOK :: int where "StatusOK = 200"
definition StatusCreated :: int where "StatusCreated = 201"
definition StatusBadRequest :: int where "StatusBadRequest = 400"
definition StatusNotFound :: int where "StatusNotFound = 404"

definition contains_sub :: "string \<Rightarrow> string \<Rightarrow> bool" where
  "contains_sub p s \<longleftrightarrow> list_ex (\<lambda>i. starts p (drop i s)) [0..<Suc (length s)]"

definition exists_response :: "es_response result \<Rightarrow> bool" where
  "exists_response r = (case r of Inl _ \<Rightarrow> False | Inr res \<Rightarrow> rs_StatusCode res = StatusOK)"

text \<open>\<^verbatim>\<open>io.ReadAll\<close>; a nil body is dereferenced.\<close>

fun read_all :: "es_body \<Rightarrow> bytes result" where
  "read_all NilBody = Inl PanicNilDereference"
| "read_all (Body b) = Inr b"
| "read_all BrokenBody = Inl (ExternalError ''read'')"

text \<open>With and without a destination.\<close>

fun loadResponseBody :: "(jv option \<Rightarrow> 'a option) \<Rightarrow> 'a \<Rightarrow> es_body \<Rightarrow> 'a result" where
  "loadResponseBody dec zero NilBody = Inr zero"
| "loadResponseBody dec zero BrokenBody = Inl (ExternalError ''read'')"
| "loadResponseBody dec zero (Body b) =
     (case json_first b of None \<Rightarrow> Inl ErrUnmarshal
      | Some (v, _) \<Rightarrow> (case dec (Some v) of None \<Rightarrow> Inl ErrUnmarshal | Some x \<Rightarrow> Inr x))"

fun discardResponseBody :: "unit \<Rightarrow> es_body \<Rightarrow> unit result" where
  "discardResponseBody zero BrokenBody = Inl (ExternalError ''read'')"
| "discardResponseBody zero _ = Inr zero"

definition error_type :: "(string \<times> jv) list \<Rightarrow> string option" where
  "error_type response =
     (case map_of (rev response) ''error'' of
        Some (VObj errMap) \<Rightarrow> (case map_of (rev errMap) ''type'' of Some (VStr t) \<Rightarrow> Some t | _ \<Rightarrow> None)
      | _ \<Rightarrow> None)"

definition errIsAlreadyExists :: "(string \<times> jv) list \<Rightarrow> bool" where
  "errIsAlreadyExists response \<longleftrightarrow> error_type response = Some ''resource_already_exists_exception''"

definition isErrAliasAlreadyExists :: "(string \<times> jv) list \<Rightarrow> bool" where
  "isErrAliasAlreadyExists response \<longleftrightarrow> error_type response = Some ''invalid_alias_name_exception''"

definition elasticDefaultErrorResponseHandler :: "es_lib \<Rightarrow> es_response \<Rightarrow> unit result" where
  "elasticDefaultErrorResponseHandler E res =
     (case read_all (rs_Body res) of
        Inl e \<Rightarrow> Inl (wrap_error ''cannot read elastic response body bytes'' e)
      | Inr bodyBytes \<Rightarrow>
          (case Unmarshal Some bodyBytes of
             Inl err \<Rightarrow>
               Inl (wrap_error ''cannot unmarshal elastic response body to map[string]interface{}''
                 (if contains_sub ''403'' bodyBytes \<or> contains_sub ''429'' bodyBytes then ErrBackOff else err))
           | Inr responseBody \<Rightarrow>
               if es_IsError E res \<and> (errIsAlreadyExists responseBody \<or> isErrAliasAlreadyExists responseBody) then Inr ()
               else if rs_StatusCode res = StatusOK \<or> rs_StatusCode res = StatusCreated then Inr ()
               else Inl (ErrResponse bodyBytes)))"

definition parseResponse ::
    "(es_body \<Rightarrow> 'a result) \<Rightarrow> 'a \<Rightarrow> (es_response \<Rightarrow> unit result) \<Rightarrow> es_response \<Rightarrow> 'a result" where
  "parseResponse load zero errorHandler res =
     (if rs_StatusCode res \<noteq> StatusOK then bindr (errorHandler res) (\<lambda>_. Inr zero)
      else (case load (rs_Body res) of Inl _ \<Rightarrow> Inl ErrBackOff | Inr x \<Rightarrow> Inr x))"

text \<open>The two uses: a response whose body is not looked at, and one that is decoded.\<close>

definition parse_discard :: "es_lib \<Rightarrow> es_response \<Rightarrow> unit result" where
  "parse_discard E = parseResponse (discardResponseBody ()) () (elasticDefaultErrorResponseHandler E)"

definition parse_into :: "es_lib \<Rightarrow> (jv option \<Rightarrow> 'a option) \<Rightarrow> 'a \<Rightarrow> es_response \<Rightarrow> 'a result" where
  "parse_into E dec zero = parseResponse (loadResponseBody dec zero) zero (elasticDefaultErrorResponseHandler E)"

section \<open>Bulk requests\<close>

record Item =
  it_Index :: string
  it_ID :: string
  it_Status :: int
  it_Result :: string
  it_ErrorType :: string
  it_ErrorReason :: string
  it_CauseType :: string
  it_CauseReason :: string
  it_ScriptStack :: "string list"
  it_Script :: string

definition zeroItem :: Item where
  "zeroItem = \<lparr>it_Index = [], it_ID = [], it_Status = 0, it_Result = [], it_ErrorType = [], it_ErrorReason = [],
     it_CauseType = [], it_CauseReason = [], it_ScriptStack = [], it_Script = []\<rparr>"

definition Cause_dec :: "(string \<times> jv) list \<Rightarrow> (string \<times> string \<times> string list \<times> string) option" where
  "Cause_dec o1 =
     bindo (d_str (get_field ''type'' o1)) (\<lambda>t. bindo (d_str (get_field ''reason'' o1)) (\<lambda>r.
     bindo (d_list d_str (get_field ''script_stack'' o1)) (\<lambda>st. bindo (d_str (get_field ''script'' o1)) (\<lambda>sc.
       Some (t, r, st, sc)))))"

definition ItemError_dec :: "(string \<times> jv) list \<Rightarrow> (string \<times> string \<times> string \<times> string \<times> string list \<times> string) option" where
  "ItemError_dec o1 =
     bindo (d_str (get_field ''type'' o1)) (\<lambda>t. bindo (d_str (get_field ''reason'' o1)) (\<lambda>r.
     bindo (d_struct Cause_dec (get_field ''caused_by'' o1)) (\<lambda>c. Some (t, r, c))))"

definition Item_dec :: "(string \<times> jv) list \<Rightarrow> Item option" where
  "Item_dec o1 =
     bindo (d_str (get_field ''_index'' o1)) (\<lambda>index. bindo (d_str (get_field ''_id'' o1)) (\<lambda>i.
     bindo (d_int64 (get_field ''status'' o1)) (\<lambda>status. bindo (d_str (get_field ''result'' o1)) (\<lambda>res.
     bindo (d_struct ItemError_dec (get_field ''error'' o1)) (\<lambda>(t, r, ct, cr, st, sc).
       Some \<lparr>it_Index = index, it_ID = i, it_Status = status, it_Result = res, it_ErrorType = t, it_ErrorReason = r,
         it_CauseType = ct, it_CauseReason = cr, it_ScriptStack = st, it_Script = sc\<rparr>)))))"

record BulkItem =
  bi_ItemIndex :: "Item option"
  bi_ItemUpdate :: "Item option"

record BulkRequestResponse =
  br_Errors :: bool
  br_Items :: "BulkItem list"

definition BulkItem_dec :: "(string \<times> jv) list \<Rightarrow> BulkItem option" where
  "BulkItem_dec o1 =
     bindo (d_ptr (d_struct Item_dec) (get_field ''index'' o1)) (\<lambda>i.
     bindo (d_ptr (d_struct Item_dec) (get_field ''update'' o1)) (\<lambda>u. Some \<lparr>bi_ItemIndex = i, bi_ItemUpdate = u\<rparr>))"

definition BulkRequestResponse_dec :: "(string \<times> jv) list \<Rightarrow> BulkRequestResponse option" where
  "BulkRequestResponse_dec o1 =
     bindo (d_bool (get_field ''errors'' o1)) (\<lambda>e.
     bindo (d_list (d_struct BulkItem_dec) (get_field ''items'' o1)) (\<lambda>is. Some \<lparr>br_Errors = e, br_Items = is\<rparr>))"

definition numOfErrorsToExtractBulkResponse :: nat where
  "numOfErrorsToExtractBulkResponse = 5"

definition selected_item :: "BulkItem \<Rightarrow> Item" where
  "selected_item item =
     (case bi_ItemIndex item of Some i \<Rightarrow> i
      | None \<Rightarrow> (case bi_ItemUpdate item of Some u \<Rightarrow> u | None \<Rightarrow> zeroItem))"

text \<open>The format string is a raw one: its last two characters are a backslash and the letter n.\<close>

definition item_error_text :: "Item \<Rightarrow> string" where
  "item_error_text i =
     ''{ \"index\": \"'' @ it_Index i @ ''\", \"id\": \"'' @ it_ID i @ ''\", \"statusCode\": '' @ dec_int (it_Status i) @ '', \"errorType\": \"'' @
     it_ErrorType i @ ''\", \"reason\": \"'' @ it_ErrorReason i @ ''\", \"causedBy\": { \"type\": \"'' @ it_CauseType i @ ''\", \"reason\": \"'' @
     it_CauseReason i @ ''\", \"script_stack\":\"['' @ join_char (CHR '' '') (it_ScriptStack i) @ '']\", \"script\":\"'' @ it_Script i @ ''\" }}'' @
     [backslash, CHR ''n'']"

fun bulk_errors :: "nat \<Rightarrow> BulkItem list \<Rightarrow> string" where
  "bulk_errors left [] = []"
| "bulk_errors left (item # rest) =
     (if it_Status (selected_item item) < StatusBadRequest then bulk_errors left rest
      else if left \<le> 1 then item_error_text (selected_item item)
      else item_error_text (selected_item item) @ bulk_errors (left - 1) rest)"

definition extractErrorFromBulkBodyResponseBytes :: "bytes \<Rightarrow> unit result" where
  "extractErrorFromBulkBodyResponseBytes bodyBytes =
     bindr (Unmarshal BulkRequestResponse_dec bodyBytes) (\<lambda>response.
     let errorsString = bulk_errors numOfErrorsToExtractBulkResponse (br_Items response) in
     if errorsString = [] then Inr () else Inl (ErrResponse errorsString))"

definition elasticBulkRequestResponseHandler :: "es_lib \<Rightarrow> es_response \<Rightarrow> unit result" where
  "elasticBulkRequestResponseHandler E res =
     (if es_IsError E res then Inl (ErrResponse (es_String E res))
      else (case read_all (rs_Body res) of
          Inl e \<Rightarrow> Inl (wrap_error ''cannot read elastic response body bytes'' e)
        | Inr bodyBytes \<Rightarrow> extractErrorFromBulkBodyResponseBytes bodyBytes))"

section \<open>Operations (elasticClient.go)\<close>

definition NewElasticClient :: "nat \<Rightarrow> unit result \<Rightarrow> elasticClient result" where
  "NewElasticClient num_addresses library_client =
     (if num_addresses = 0 then Inl ErrNoElasticUrlProvided
      else bindr library_client (\<lambda>_. Inr \<lparr>es_calls = [], countScroll = 0\<rparr>))"

text \<open>Whether something exists: an answer that is no success counts as no.\<close>

definition exists_call :: "es_lib \<Rightarrow> es_call \<Rightarrow> elasticClient \<Rightarrow> bool \<times> elasticClient" where
  "exists_call E c w = (let (r, w1) = es_do E c w in (exists_response r, w1))"

definition templateExists :: "es_lib \<Rightarrow> string \<Rightarrow> elasticClient \<Rightarrow> bool \<times> elasticClient" where
  "templateExists E index = exists_call E (ExistsTemplateCall [index])"

definition indexExists :: "es_lib \<Rightarrow> string \<Rightarrow> elasticClient \<Rightarrow> bool \<times> elasticClient" where
  "indexExists E index = exists_call E (ExistsIndexCall [index])"

definition aliasExists :: "es_lib \<Rightarrow> string \<Rightarrow> elasticClient \<Rightarrow> bool \<times> elasticClient" where
  "aliasExists E alias = exists_call E (PerformCall ''HEAD'' (''/_alias/'' @ alias))"

definition createIndex :: "es_lib \<Rightarrow> string \<Rightarrow> (elasticClient, unit) io" where
  "createIndex E index = io_bind (es_do E (CreateIndexCall index)) (\<lambda>res. io_of (parse_discard E res))"

definition createIndexTemplate :: "es_lib \<Rightarrow> string \<Rightarrow> bytes \<Rightarrow> (elasticClient, unit) io" where
  "createIndexTemplate E templateName template =
     io_bind (es_do E (PutIndexTemplateCall templateName template)) (\<lambda>res. io_of (parse_discard E res))"

definition createAlias :: "es_lib \<Rightarrow> string \<Rightarrow> string \<Rightarrow> (elasticClient, unit) io" where
  "createAlias E alias index = io_bind (es_do E (PutAliasCall [index] alias)) (\<lambda>res. io_of (parse_discard E res))"

definition CheckAndCreateTemplate_es :: "es_lib \<Rightarrow> string \<Rightarrow> bytes \<Rightarrow> (elasticClient, unit) io" where
  "CheckAndCreateTemplate_es E templateName template w =
     (let (found, w1) = templateExists E templateName w in
      if found then (Inr (), w1) else createIndexTemplate E templateName template w1)"

definition CheckAndCreateIndex_es :: "es_lib \<Rightarrow> string \<Rightarrow> (elasticClient, unit) io" where
  "CheckAndCreateIndex_es E indexName w =
     (let (found, w1) = indexExists E indexName w in if found then (Inr (), w1) else createIndex E indexName w1)"

definition CheckAndCreateAlias_es :: "es_lib \<Rightarrow> string \<Rightarrow> string \<Rightarrow> (elasticClient, unit) io" where
  "CheckAndCreateAlias_es E alias indexName w =
     (let (found, w1) = aliasExists E alias w in if found then (Inr (), w1) else createAlias E alias indexName w1)"

definition PutMappings_es :: "es_lib \<Rightarrow> string \<Rightarrow> bytes \<Rightarrow> (elasticClient, unit) io" where
  "PutMappings_es E indexName mappings =
     io_bind (es_do E (PutMappingCall indexName mappings)) (\<lambda>res.
       if es_IsError E res then io_fail (ErrResponse (es_String E res)) else io_ok ())"

definition DoBulkRequest_es :: "es_lib \<Rightarrow> string \<Rightarrow> bytes \<Rightarrow> string \<Rightarrow> (elasticClient, unit) io" where
  "DoBulkRequest_es E ctx buff index =
     io_bind (es_do E (BulkCall ctx index buff)) (\<lambda>res. io_of (elasticBulkRequestResponseHandler E res))"

definition getDocumentsByIDsQuery :: "string list \<Rightarrow> bool \<Rightarrow> json" where
  "getDocumentsByIDsQuery hashes withSource =
     JObj [(''docs'', JArr (map (\<lambda>h. JObj [(''_id'', JStr h), (''_source'', JBool withSource)]) hashes))]"

text \<open>\<^verbatim>\<open>json.Encoder\<close> ends the value with a newline.\<close>

definition encode_query :: "json \<Rightarrow> bytes result" where
  "encode_query obj =
     (case Marshal obj of Inl e \<Rightarrow> Inl (wrap_error ''error encoding'' e) | Inr t \<Rightarrow> Inr (t @ ''\<newline>''))"

definition DoMultiGet_es ::
    "es_lib \<Rightarrow> (jv option \<Rightarrow> 'a option) \<Rightarrow> 'a \<Rightarrow> string \<Rightarrow> string list \<Rightarrow> string \<Rightarrow> bool \<Rightarrow> (elasticClient, 'a) io" where
  "DoMultiGet_es E dec zero ctx ids index withSource =
     io_bind (io_of (encode_query (getDocumentsByIDsQuery ids withSource))) (\<lambda>body.
     io_bind (es_do E (MgetCall ctx index body)) (\<lambda>res. io_of (parse_into E dec zero res)))"

fun d_entries :: "(jv option \<Rightarrow> 'a option) \<Rightarrow> (string \<times> jv) list \<Rightarrow> (string, 'a) gomap \<Rightarrow> (string, 'a) gomap option" where
  "d_entries f [] m = Some m"
| "d_entries f ((k, v) # kvs) m = (case f (Some v) of None \<Rightarrow> None | Some x \<Rightarrow> d_entries f kvs (gm_set k x m))"

definition aliases_dec :: "(string \<times> jv) list \<Rightarrow> (string, bool) gomap option" where
  "aliases_dec o1 =
     d_struct (\<lambda>o2. d_entries (d_struct (\<lambda>o3. d_bool (get_field ''is_write_index'' o3))) o2 []) (get_field ''aliases'' o1)"

definition index_data_dec :: "jv option \<Rightarrow> (string, (string, bool) gomap) gomap option" where
  "index_data_dec = d_struct (\<lambda>o1. d_entries (d_struct aliases_dec) o1 [])"

definition write_index_of :: "string \<Rightarrow> (string, (string, bool) gomap) gomap \<Rightarrow> string" where
  "write_index_of alias indexData =
     (if length indexData = 1 then fst (hd indexData)
      else (case filter (\<lambda>(_, aliases). list_ex id (gm_values aliases)) indexData of
              [] \<Rightarrow> alias | (index, _) # _ \<Rightarrow> index))"

definition getWriteIndex :: "es_lib \<Rightarrow> string \<Rightarrow> (elasticClient, string) io" where
  "getWriteIndex E alias =
     io_bind (es_do E (GetAliasCall alias)) (\<lambda>res.
     io_bind (io_of (parse_into E index_data_dec [] res)) (\<lambda>indexData. io_ok (write_index_of alias indexData)))"

definition doRefresh :: "es_lib \<Rightarrow> string \<Rightarrow> (elasticClient, unit) io" where
  "doRefresh E index = io_bind (es_do E (RefreshCall index)) (\<lambda>res. io_of (parse_discard E res))"

text \<open>A refresh that fails is only logged; a panic of it is not caught.\<close>

definition log_only :: "('w, unit) io \<Rightarrow> ('w, unit) io" where
  "log_only m w = (case m w of (Inl e, w1) \<Rightarrow> (if is_panic e then Inl e else Inr (), w1) | (Inr _, w1) \<Rightarrow> (Inr (), w1))"

definition DoQueryRemove_es :: "es_lib \<Rightarrow> string \<Rightarrow> string \<Rightarrow> bytes \<Rightarrow> (elasticClient, unit) io" where
  "DoQueryRemove_es E ctx index body =
     io_bind (log_only (doRefresh E index)) (\<lambda>_.
     io_bind (getWriteIndex E index) (\<lambda>writeIndex.
     io_bind (es_do E (DeleteByQueryCall ctx [writeIndex] body)) (\<lambda>res. io_of (parse_discard E res))))"

definition UpdateByQuery_es :: "es_lib \<Rightarrow> string \<Rightarrow> string \<Rightarrow> bytes \<Rightarrow> (elasticClient, unit) io" where
  "UpdateByQuery_es E ctx index buff =
     io_bind (es_do E (UpdateByQueryCall ctx [index] buff)) (\<lambda>res.
       if es_IsError E res then io_fail (ErrResponse (es_String E res)) else io_of (parse_discard E res))"

section \<open>Counting and scrolling (elasticClientScroll.go)\<close>

definition getBytesFromResponse :: "es_lib \<Rightarrow> es_response \<Rightarrow> bytes result" where
  "getBytesFromResponse E res =
     (if es_IsError E res then Inl (ErrResponse (es_String E res)) else read_all (rs_Body res))"

definition DoCountRequest_es :: "es_lib \<Rightarrow> string \<Rightarrow> string \<Rightarrow> bytes \<Rightarrow> (elasticClient, u64) io" where
  "DoCountRequest_es E ctx index body =
     io_bind (es_do E (CountCall ctx index body)) (\<lambda>res.
     io_bind (io_of (getBytesFromResponse E res)) (\<lambda>bodyBytes. io_ok (gjson_Uint E bodyBytes ''count'')))"

text \<open>Durations in nanoseconds.\<close>

definition count_scroll :: "(elasticClient, u64) io" where
  "count_scroll w = (Inr (countScroll w + 1), w\<lparr>countScroll := countScroll w + 1\<rparr>)"

definition getScrollResponse :: "es_lib \<Rightarrow> string \<Rightarrow> (elasticClient, bytes) io" where
  "getScrollResponse E scrollID =
     io_bind count_scroll (\<lambda>count.
     io_bind (es_do E (ScrollCall scrollID (120000000000 + count * 1000000))) (\<lambda>res.
       io_of (getBytesFromResponse E res)))"

fun scroll_loop :: "nat \<Rightarrow> es_lib \<Rightarrow> string \<Rightarrow> (bytes \<Rightarrow> (elasticClient, unit) io) \<Rightarrow> (elasticClient, unit) io" where
  "scroll_loop 0 E scrollID handlerFunc = io_fail LoopFuelExhausted"
| "scroll_loop (Suc n) E scrollID handlerFunc =
     io_bind (getScrollResponse E scrollID) (\<lambda>scrollBodyBytes.
       if gjson_Int E scrollBodyBytes ''hits.hits.#'' < 1 then io_ok ()
       else io_bind (handlerFunc scrollBodyBytes) (\<lambda>_. scroll_loop n E scrollID handlerFunc))"

text \<open>The scroll is cleared whatever happened; an error of that is only logged.\<close>

definition iterateScroll ::
    "nat \<Rightarrow> es_lib \<Rightarrow> string \<Rightarrow> (bytes \<Rightarrow> (elasticClient, unit) io) \<Rightarrow> (elasticClient, unit) io" where
  "iterateScroll n E scrollID handlerFunc w =
     (if scrollID = [] then (Inr (), w)
      else let (r, w1) = scroll_loop n E scrollID handlerFunc w in
        (r, snd (es_do E (ClearScrollCall scrollID) w1)))"

definition DoScrollRequest_es ::
    "nat \<Rightarrow> es_lib \<Rightarrow> string \<Rightarrow> string \<Rightarrow> bytes \<Rightarrow> bool \<Rightarrow> (bytes \<Rightarrow> (elasticClient, unit) io) \<Rightarrow> (elasticClient, unit) io" where
  "DoScrollRequest_es n E ctx index body withSource handlerFunc =
     io_bind count_scroll (\<lambda>count.
     io_bind (es_do E (SearchCall ctx index body 9000 (600000000000 + count * 1000000) withSource)) (\<lambda>res.
     io_bind (io_of (getBytesFromResponse E res)) (\<lambda>bodyBytes.
     io_bind (handlerFunc bodyBytes) (\<lambda>_.
       iterateScroll n E (gjson_String E bodyBytes ''_scroll_id'') handlerFunc))))"

section \<open>The interface the processor uses\<close>

record 'w DatabaseClientHandler =
  DoBulkRequest :: "string \<Rightarrow> bytes \<Rightarrow> string \<Rightarrow> ('w, unit) io"
  DoQueryRemove :: "string \<Rightarrow> string \<Rightarrow> bytes \<Rightarrow> ('w, unit) io"
  DoMultiGetTokens :: "string \<Rightarrow> string list \<Rightarrow> string \<Rightarrow> bool \<Rightarrow> ('w, ResponseTokens) io"
  DoMultiGetTokenInfo :: "string \<Rightarrow> string list \<Rightarrow> string \<Rightarrow> bool \<Rightarrow> ('w, ResponseTokenInfoDB list) io"
  DoScrollRequest :: "string \<Rightarrow> string \<Rightarrow> bytes \<Rightarrow> bool \<Rightarrow> (bytes \<Rightarrow> ('w, unit) io) \<Rightarrow> ('w, unit) io"
  DoCountRequest :: "string \<Rightarrow> string \<Rightarrow> bytes \<Rightarrow> ('w, u64) io"
  UpdateByQuery :: "string \<Rightarrow> string \<Rightarrow> bytes \<Rightarrow> ('w, unit) io"
  PutMappings :: "string \<Rightarrow> bytes \<Rightarrow> ('w, unit) io"
  CheckAndCreateIndex :: "string \<Rightarrow> ('w, unit) io"
  CheckAndCreateAlias :: "string \<Rightarrow> string \<Rightarrow> ('w, unit) io"
  CheckAndCreateTemplate :: "string \<Rightarrow> bytes \<Rightarrow> ('w, unit) io"

definition elastic_client :: "nat \<Rightarrow> es_lib \<Rightarrow> elasticClient DatabaseClientHandler" where
  "elastic_client n E =
     \<lparr>DoBulkRequest = DoBulkRequest_es E, DoQueryRemove = DoQueryRemove_es E,
      DoMultiGetTokens = DoMultiGet_es E (d_struct ResponseTokens_dec) [],
      DoMultiGetTokenInfo = DoMultiGet_es E (d_struct ResponseTokenInfo_dec) [],
      DoScrollRequest = DoScrollRequest_es n E, DoCountRequest = DoCountRequest_es E, UpdateByQuery = UpdateByQuery_es E,
      PutMappings = PutMappings_es E, CheckAndCreateIndex = CheckAndCreateIndex_es E,
      CheckAndCreateAlias = CheckAndCreateAlias_es E, CheckAndCreateTemplate = CheckAndCreateTemplate_es E\<rparr>"

text \<open>The client that does nothing (\<^verbatim>\<open>client/disabled\<close>).\<close>

definition disabled_client :: "'w DatabaseClientHandler" where
  "disabled_client =
     \<lparr>DoBulkRequest = (\<lambda>_ _ _. io_ok ()), DoQueryRemove = (\<lambda>_ _ _. io_ok ()),
      DoMultiGetTokens = (\<lambda>_ _ _ _. io_ok []), DoMultiGetTokenInfo = (\<lambda>_ _ _ _. io_ok []),
      DoScrollRequest = (\<lambda>_ _ _ _ _. io_ok ()), DoCountRequest = (\<lambda>_ _ _. io_ok 0), UpdateByQuery = (\<lambda>_ _ _. io_ok ()),
      PutMappings = (\<lambda>_ _. io_ok ()), CheckAndCreateIndex = (\<lambda>_. io_ok ()),
      CheckAndCreateAlias = (\<lambda>_ _. io_ok ()), CheckAndCreateTemplate = (\<lambda>_ _. io_ok ())\<rparr>"

text \<open>The client of the main chain adds a flag to a client (\<^verbatim>\<open>mainChainElasticClient.go\<close>).\<close>

record 'w mainChainElasticClient =
  mc_client :: "'w DatabaseClientHandler"
  mc_indexingEnabled :: bool

definition NewMainChainElasticClient :: "'w DatabaseClientHandler option \<Rightarrow> bool \<Rightarrow> 'w mainChainElasticClient result" where
  "NewMainChainElasticClient esClient indexingEnabled =
     (case esClient of None \<Rightarrow> Inl ErrNilDatabaseClient
      | Some c \<Rightarrow> Inr \<lparr>mc_client = c, mc_indexingEnabled = indexingEnabled\<rparr>)"

section \<open>What a client promises\<close>

text \<open>
  What the processor relies on, and what its theorems about the requests need of a client: a bulk request adds its
  body to the bodies that were sent, nothing else does, and a scroll only runs the handler it was given.
\<close>

locale bulk_client =
  fixes cl :: "'w DatabaseClientHandler"
    and bulks :: "'w \<Rightarrow> bytes list"
  assumes bulk_sent: "bulks (snd (DoBulkRequest cl ctx b i w)) = bulks w @ [b]"
    and remove_sent: "bulks (snd (DoQueryRemove cl ctx i b w)) = bulks w"
    and tokens_sent: "bulks (snd (DoMultiGetTokens cl ctx ids i s w)) = bulks w"
    and token_info_sent: "bulks (snd (DoMultiGetTokenInfo cl ctx ids i s w)) = bulks w"
    and count_sent: "bulks (snd (DoCountRequest cl ctx i b w)) = bulks w"
    and update_sent: "bulks (snd (UpdateByQuery cl ctx i b w)) = bulks w"
    and mappings_sent: "bulks (snd (PutMappings cl i b w)) = bulks w"
    and index_sent: "bulks (snd (CheckAndCreateIndex cl i w)) = bulks w"
    and alias_sent: "bulks (snd (CheckAndCreateAlias cl a i w)) = bulks w"
    and template_sent: "bulks (snd (CheckAndCreateTemplate cl i b w)) = bulks w"
    and scroll_sent: "(\<And>page v. P (bulks v) \<Longrightarrow> P (bulks (snd (h page v)))) \<Longrightarrow> P (bulks w) \<Longrightarrow>
      P (bulks (snd (DoScrollRequest cl ctx i b s h w)))"
begin

abbreviation sent :: "(bytes list \<Rightarrow> bool) \<Rightarrow> 'w \<Rightarrow> bool" where
  "sent R w \<equiv> R (bulks w)"

lemma keeps_bulk: "(\<And>bs. R bs \<Longrightarrow> R (bs @ [b])) \<Longrightarrow> keeps (sent R) (DoBulkRequest cl ctx b i) (\<lambda>_. True)"
  by (simp add: keeps_def bulk_sent)

lemma keeps_reads:
  "keeps (sent R) (DoQueryRemove cl ctx i b) (\<lambda>_. True)" "keeps (sent R) (DoMultiGetTokens cl ctx ids i s) (\<lambda>_. True)"
  "keeps (sent R) (DoMultiGetTokenInfo cl ctx ids i s) (\<lambda>_. True)" "keeps (sent R) (DoCountRequest cl ctx i b) (\<lambda>_. True)"
  "keeps (sent R) (UpdateByQuery cl ctx i b) (\<lambda>_. True)" "keeps (sent R) (PutMappings cl i b) (\<lambda>_. True)"
  "keeps (sent R) (CheckAndCreateIndex cl i) (\<lambda>_. True)" "keeps (sent R) (CheckAndCreateAlias cl a i) (\<lambda>_. True)"
  "keeps (sent R) (CheckAndCreateTemplate cl i b) (\<lambda>_. True)"
  by (simp_all add: keeps_def remove_sent tokens_sent token_info_sent count_sent update_sent mappings_sent index_sent alias_sent template_sent)

lemma keeps_scroll:
  assumes "\<And>page. keeps (sent R) (h page) (\<lambda>_. True)"
  shows "keeps (sent R) (DoScrollRequest cl ctx i b s h) (\<lambda>_. True)"
  using assms scroll_sent [where P = R and h = h] by (auto simp: keeps_def)

end

definition bulk_bodies :: "elasticClient \<Rightarrow> bytes list" where
  "bulk_bodies w = List.map_filter (\<lambda>c. case c of BulkCall _ _ b \<Rightarrow> Some b | _ \<Rightarrow> None) (es_calls w)"

lemma bulk_bodies_do: "bulk_bodies (snd (es_do E c w)) = bulk_bodies w @ (case c of BulkCall _ _ b \<Rightarrow> [b] | _ \<Rightarrow> [])"
  by (cases c) (simp_all add: bulk_bodies_def es_do_def List.map_filter_def)

lemma snd_io_bind: "snd (io_bind m f w) = (case fst (m w) of Inl e \<Rightarrow> snd (m w) | Inr x \<Rightarrow> snd (f x (snd (m w))))"
  by (simp add: io_bind_def split: prod.splits sum.splits)

lemmas client_defs = elastic_client_def DoBulkRequest_es_def DoQueryRemove_es_def DoMultiGet_es_def DoCountRequest_es_def
  UpdateByQuery_es_def PutMappings_es_def CheckAndCreateIndex_es_def CheckAndCreateAlias_es_def CheckAndCreateTemplate_es_def
  getWriteIndex_def exists_call_def templateExists_def indexExists_def aliasExists_def createIndex_def createIndexTemplate_def
  createAlias_def doRefresh_def

lemma bulk_bodies_steps [simp]:
  "snd (io_of r w) = w" "snd (io_ok x w) = w" "snd (io_fail e w) = w" "bulk_bodies (snd (count_scroll w)) = bulk_bodies w"
  by (simp_all add: io_defs count_scroll_def bulk_bodies_def)

lemma snd_log_only [simp]: "snd (log_only m w) = snd (m w)"
  by (simp add: log_only_def split: prod.split sum.split)

lemma scroll_loop_bulks:
  assumes "\<And>page v. P (bulk_bodies v) \<Longrightarrow> P (bulk_bodies (snd (h page v)))"
  shows "P (bulk_bodies w) \<Longrightarrow> P (bulk_bodies (snd (scroll_loop n E i h w)))"
  by (induction n arbitrary: w)
    (auto simp: snd_io_bind getScrollResponse_def bulk_bodies_do assms split: sum.split)

lemma DoScrollRequest_bulks:
  assumes "\<And>page v. P (bulk_bodies v) \<Longrightarrow> P (bulk_bodies (snd (h page v)))" and "P (bulk_bodies w)"
  shows "P (bulk_bodies (snd (DoScrollRequest_es n E ctx i b s h w)))"
  using assms scroll_loop_bulks [of P h, OF assms(1)]
  by (auto simp: DoScrollRequest_es_def iterateScroll_def snd_io_bind bulk_bodies_do case_prod_unfold Let_def split: sum.split)

interpretation es: bulk_client "elastic_client n E" bulk_bodies for n E
proof unfold_locales
  fix P :: "bytes list \<Rightarrow> bool" and h :: "bytes \<Rightarrow> (elasticClient, unit) io" and w ctx i b s
  assume "\<And>page v. P (bulk_bodies v) \<Longrightarrow> P (bulk_bodies (snd (h page v)))" and "P (bulk_bodies w)"
  from DoScrollRequest_bulks [OF this] show "P (bulk_bodies (snd (DoScrollRequest (elastic_client n E) ctx i b s h w)))"
    by (simp add: elastic_client_def)
qed (auto simp: client_defs snd_io_bind bulk_bodies_do case_prod_unfold Let_def split: sum.split)

section \<open>Properties\<close>

lemma item_error_text_nonempty: "item_error_text i \<noteq> []"
  by (simp add: item_error_text_def)

lemma bulk_errors_empty: "bulk_errors n items = [] \<longleftrightarrow> list_all (\<lambda>item. it_Status (selected_item item) < StatusBadRequest) items"
  by (induction n items rule: bulk_errors.induct) (auto simp: item_error_text_nonempty)

text \<open>
  C33. A bulk request succeeds exactly when the server answered without an error status, its answer is the JSON of a bulk
  response, and no index or update item of it has a status of 400 or more; and then it was sent as it was given.
\<close>

theorem bulk_request_ok_iff:
  "(fst (DoBulkRequest_es E ctx b i w) = Inr () \<longleftrightarrow>
     (\<exists>res bodyBytes response. es_answer E (es_calls w @ [BulkCall ctx i b]) = Inr res \<and> \<not> es_IsError E res \<and>
        rs_Body res = Body bodyBytes \<and> Unmarshal BulkRequestResponse_dec bodyBytes = Inr response \<and>
        list_all (\<lambda>item. it_Status (selected_item item) < StatusBadRequest) (br_Items response))) \<and>
   es_calls (snd (DoBulkRequest_es E ctx b i w)) = es_calls w @ [BulkCall ctx i b]"
proof -
  have read: "read_all bd = Inr b' \<longleftrightarrow> bd = Body b'" for bd b' by (cases bd) auto
  have handler: "elasticBulkRequestResponseHandler E res = Inr () \<longleftrightarrow>
      (\<exists>bodyBytes response. \<not> es_IsError E res \<and> rs_Body res = Body bodyBytes \<and>
        Unmarshal BulkRequestResponse_dec bodyBytes = Inr response \<and>
        list_all (\<lambda>item. it_Status (selected_item item) < StatusBadRequest) (br_Items response))" for res
    by (cases "read_all (rs_Body res)")
      (auto simp: elasticBulkRequestResponseHandler_def extractErrorFromBulkBodyResponseBytes_def read Let_def
        bindr_Inr_iff bulk_errors_empty split: if_splits)
  show ?thesis
    by (cases "es_answer E (es_calls w @ [BulkCall ctx i b])")
      (simp_all add: DoBulkRequest_es_def io_bind_def es_do_def io_of_def handler)
qed

definition is_scroll :: "es_call \<Rightarrow> bool" where
  "is_scroll c = (case c of ScrollCall _ _ \<Rightarrow> True | _ \<Rightarrow> False)"

definition scroll_calls :: "elasticClient \<Rightarrow> nat" where
  "scroll_calls w = length (filter is_scroll (es_calls w))"

text \<open>The answer that ends the loop: an error or a page without hits.\<close>

definition scroll_ends :: "es_lib \<Rightarrow> es_call list \<Rightarrow> bool" where
  "scroll_ends E h =
     (case es_answer E h of Inl _ \<Rightarrow> True
      | Inr res \<Rightarrow> (case getBytesFromResponse E res of Inl _ \<Rightarrow> True | Inr b \<Rightarrow> gjson_Int E b ''hits.hits.#'' < 1))"

lemma getScrollResponse_step:
  obtains c where "snd (getScrollResponse E i w) = w\<lparr>es_calls := es_calls w @ [c], countScroll := countScroll w + 1\<rparr>"
    and "is_scroll c"
    and "fst (getScrollResponse E i w) = bindr (es_answer E (es_calls w @ [c])) (getBytesFromResponse E)"
proof
  let ?c = "ScrollCall i (120000000000 + (countScroll w + 1) * 1000000)"
  show "snd (getScrollResponse E i w) = w\<lparr>es_calls := es_calls w @ [?c], countScroll := countScroll w + 1\<rparr>" "is_scroll ?c"
    "fst (getScrollResponse E i w) = bindr (es_answer E (es_calls w @ [?c])) (getBytesFromResponse E)"
    by (cases "es_answer E (es_calls w @ [?c])";
        simp add: getScrollResponse_def count_scroll_def io_bind_def es_do_def io_of_def is_scroll_def)+
qed

lemma getBytes_no_fuel: "getBytesFromResponse E res \<noteq> Inl LoopFuelExhausted"
  by (cases "rs_Body res") (simp_all add: getBytesFromResponse_def)

lemma scroll_loop_fuel:
  assumes ends: "\<And>h. N < length (filter is_scroll h) \<Longrightarrow> scroll_ends E h"
    and answers: "\<And>h. es_answer E h \<noteq> Inl LoopFuelExhausted"
    and handler: "\<And>b v. fst (hf b v) \<noteq> Inl LoopFuelExhausted" "\<And>b v. scroll_calls v \<le> scroll_calls (snd (hf b v))"
  shows "0 < n \<Longrightarrow> Suc N \<le> scroll_calls w + n \<Longrightarrow>
    fst (scroll_loop n E i hf w) \<noteq> Inl LoopFuelExhausted \<and> scroll_loop (n + k) E i hf w = scroll_loop n E i hf w"
proof (induction n arbitrary: w)
  case (Suc m)
  obtain c where w1: "snd (getScrollResponse E i w) = w\<lparr>es_calls := es_calls w @ [c], countScroll := countScroll w + 1\<rparr>" (is "_ = ?w1")
    and c: "is_scroll c"
    and r: "fst (getScrollResponse E i w) = bindr (es_answer E (es_calls w @ [c])) (getBytesFromResponse E)"
    by (rule getScrollResponse_step)
  have n1: "scroll_calls ?w1 = Suc (scroll_calls w)" using c by (simp add: scroll_calls_def)
  show ?case
  proof (cases "fst (getScrollResponse E i w)")
    case (Inl e)
    then have "e \<noteq> LoopFuelExhausted" using r answers getBytes_no_fuel by (auto simp: bindr_Inl_iff)
    with Inl show ?thesis by (cases "getScrollResponse E i w") (simp add: io_bind_def)
  next
    case (Inr b)
    then have g: "getScrollResponse E i w = (Inr b, ?w1)" using w1 by (metis prod.collapse)
    show ?thesis
    proof (cases "gjson_Int E b ''hits.hits.#'' < 1")
      case True
      then show ?thesis by (simp add: io_bind_def g io_ok_def)
    next
      case False
      have "\<not> scroll_ends E (es_calls w @ [c])"
        using False r Inr by (auto simp: scroll_ends_def bindr_Inr_iff split: sum.splits)
      then have "\<not> N < Suc (scroll_calls w)" using ends [of "es_calls w @ [c]"] c by (auto simp: scroll_calls_def)
      then have m: "0 < m" "Suc N \<le> Suc (scroll_calls w) + m" using Suc.prems by linarith+
      obtain q w2 where h: "hf b ?w1 = (q, w2)" by (cases "hf b ?w1")
      have "Suc (scroll_calls w) \<le> scroll_calls w2" using handler(2) [of ?w1 b] n1 h by simp
      with m have ih: "fst (scroll_loop m E i hf w2) \<noteq> Inl LoopFuelExhausted" "scroll_loop (m + k) E i hf w2 = scroll_loop m E i hf w2"
        using Suc.IH [of w2] by simp_all
      show ?thesis
      proof (cases q)
        case (Inl e)
        with h handler(1) [of b ?w1] False show ?thesis by (simp add: io_bind_def g)
      next
        case (Inr x)
        with h ih False show ?thesis by (simp add: io_bind_def g)
      qed
    qed
  qed
qed simp


text \<open>A server with two pages of hits, and a handler that accepts every page.\<close>

definition demo_es :: es_lib where
  "demo_es = \<lparr>es_answer = (\<lambda>h. Inr \<lparr>rs_StatusCode = 200,
       rs_Body = Body (if length (filter is_scroll h) < 2 then ''page'' else [])\<rparr>),
     es_IsError = (\<lambda>r. rs_StatusCode r > 299), es_String = (\<lambda>_. []), gjson_Uint = (\<lambda>_ _. 0),
     gjson_Int = (\<lambda>b _. int (length b)), gjson_String = (\<lambda>b _. ''id'')\<rparr>"


end
