(* ===== verification/Requests.thy ===== *)
theory Requests
  imports Json
begin

text \<open>
  The topics of the requests (\<^verbatim>\<open>core/request/requests.go\<close>), the status metrics (\<^verbatim>\<open>metrics/statusMetrics.go\<close>,
  \<^verbatim>\<open>prometheusMetrics.go\<close>, \<^verbatim>\<open>dtos.go\<close>) and the transport that feeds them (\<^verbatim>\<open>client/transport/transport.go\<close>).
  Durations are 64-bit words of nanoseconds.  The tables of Unicode are a parameter: \<open>uc\<close> gives for a rune beyond
  ASCII its lower case when it is an upper case letter.  The writer of the Prometheus text format is a parameter too.
\<close>

section \<open>Topics\<close>

definition noShardID :: string where "noShardID = ''#''"
definition topic_separator :: char where "topic_separator = CHR ''_''"
definition RemoveTopic :: string where "RemoveTopic = ''req_remove''"
definition GetTopic :: string where "GetTopic = ''req_get''"
definition BulkTopic :: string where "BulkTopic = ''req_bulk''"
definition UpdateTopic :: string where "UpdateTopic = ''req_update''"
definition ScrollTopic :: string where "ScrollTopic = ''req_scroll''"

definition ExtendTopicWithShardID :: "string \<Rightarrow> u32 \<Rightarrow> string" where
  "ExtendTopicWithShardID topic shardID = topic @ [topic_separator] @ dec_nat (unat shardID)"

definition SplitTopicAndShardID :: "string \<Rightarrow> string \<times> string" where
  "SplitTopicAndShardID topicWithShardID =
     (let split = split_char topic_separator topicWithShardID in
      if length split < 2 then (topicWithShardID, noShardID)
      else let shardIDStr = split ! (length split - 1) in
        case parse_uint 32 shardIDStr of
          None \<Rightarrow> (topicWithShardID, noShardID)
        | Some _ \<Rightarrow> (join_char topic_separator (take (length split - 1) split), shardIDStr))"

section \<open>Names of the metrics\<close>

definition ascii_upper_letter :: "char \<Rightarrow> bool" where
  "ascii_upper_letter c \<longleftrightarrow> (let n = of_char c in 65 \<le> n \<and> n \<le> (90::nat))"

text \<open>\<^verbatim>\<open>unicode.IsLower\<close> of a byte taken as a rune: the lower case letters of Latin-1.\<close>

definition latin1_lower :: "char \<Rightarrow> bool" where
  "latin1_lower c \<longleftrightarrow>
     (let n = of_char c in 97 \<le> n \<and> n \<le> (122::nat) \<or> n = 181 \<or> 223 \<le> n \<and> n \<le> 246 \<or> 248 \<le> n \<and> n \<le> 255)"

definition rune_error :: string where
  "rune_error = [CHR 0xEF, CHR 0xBF, CHR 0xBD]"

text \<open>The loop over the runes; the byte before the rune is \<open>None\<close> at the start.\<close>

function camel_from :: "(string \<Rightarrow> string option) \<Rightarrow> char option \<Rightarrow> string \<Rightarrow> string" where
  "camel_from uc p [] = []"
| "camel_from uc p (c # s) =
     (let sep = (case p of None \<Rightarrow> [] | Some b \<Rightarrow> if latin1_lower b then ''_'' else []) in
      if (of_char c :: nat) < 128
      then (if ascii_upper_letter c then sep @ [ascii_lower c] else [c]) @ camel_from uc (Some c) s
      else if rune_size (c # s) = 0 then rune_error @ camel_from uc (Some c) s
      else let r = take (rune_size (c # s)) (c # s) in
        (case uc r of None \<Rightarrow> r | Some l \<Rightarrow> sep @ l) @ camel_from uc (Some (last r)) (drop (rune_size (c # s) - 1) s))"
  by pat_completeness auto
termination
  by (relation "measure (\<lambda>(_, _, s). length s)") auto

declare camel_from.simps(2) [simp del]

definition camelToSnake :: "(string \<Rightarrow> string option) \<Rightarrow> string \<Rightarrow> string" where
  "camelToSnake uc camelStr = camel_from uc None camelStr"

section \<open>Status metrics\<close>

record ArgsAddIndexingData =
  args_StatusCode :: int
  args_GotError :: bool
  args_MessageLen :: u64
  args_Topic :: string
  args_Duration :: u64

record MetricsResponse =
  mr_TotalData :: u64
  mr_OperationsCount :: u64
  mr_TotalErrorsCount :: u64
  mr_ErrorsCount :: "(int, u64) gomap"
  mr_TotalIndexingTime :: u64

type_synonym statusMetrics = "(string, MetricsResponse) gomap"

definition NewStatusMetrics :: statusMetrics where
  "NewStatusMetrics = []"

definition zeroMetrics :: MetricsResponse where
  "zeroMetrics = \<lparr>mr_TotalData = 0, mr_OperationsCount = 0, mr_TotalErrorsCount = 0, mr_ErrorsCount = [],
     mr_TotalIndexingTime = 0\<rparr>"

definition http_StatusBadRequest :: int where "http_StatusBadRequest = 400"

definition add_data :: "ArgsAddIndexingData \<Rightarrow> MetricsResponse \<Rightarrow> MetricsResponse" where
  "add_data args m =
     (let isErrorCode = (args_StatusCode args \<ge> http_StatusBadRequest);
          m1 = m\<lparr>mr_OperationsCount := mr_OperationsCount m + 1,
                 mr_TotalIndexingTime := mr_TotalIndexingTime m + args_Duration args,
                 mr_TotalData := mr_TotalData m + args_MessageLen args\<rparr>;
          m2 = (if args_GotError args \<or> isErrorCode then m1\<lparr>mr_TotalErrorsCount := mr_TotalErrorsCount m1 + 1\<rparr> else m1) in
      if isErrorCode
      then m2\<lparr>mr_ErrorsCount := gm_set (args_StatusCode args)
                (case map_of (mr_ErrorsCount m2) (args_StatusCode args) of None \<Rightarrow> 1 | Some n \<Rightarrow> n + 1) (mr_ErrorsCount m2)\<rparr>
      else m2)"

definition AddIndexingData ::
    "(string \<Rightarrow> string option) \<Rightarrow> ArgsAddIndexingData \<Rightarrow> statusMetrics \<Rightarrow> statusMetrics" where
  "AddIndexingData uc args sm =
     (let topic = camelToSnake uc (args_Topic args);
          m = (case map_of sm topic of None \<Rightarrow> zeroMetrics | Some m \<Rightarrow> m) in
      gm_set topic (add_data args m) sm)"

text \<open>A copy of the map; the records behind its pointers are the ones of the metrics at the time of the call.\<close>

definition getAllUnprotected :: "statusMetrics \<Rightarrow> (string, MetricsResponse) gomap" where
  "getAllUnprotected sm = fold (\<lambda>(key, v) newMap. gm_set key v newMap) sm []"

definition GetMetrics :: "statusMetrics \<Rightarrow> (string, MetricsResponse) gomap" where
  "GetMetrics sm = getAllUnprotected sm"

section \<open>The Prometheus text\<close>

datatype metric_type = COUNTER | GAUGE

record Metric =
  me_Label :: "(string \<times> string) list"
  me_Value :: f64

record MetricFamily =
  mf_Name :: string
  mf_Type :: metric_type
  mf_Metric :: "Metric list"

definition float_of_u64 :: "u64 \<Rightarrow> f64" where
  "float_of_u64 n = rnd (of_nat (unat n))"

definition promMetricAsString :: "(MetricFamily \<Rightarrow> string option) \<Rightarrow> MetricFamily \<Rightarrow> string" where
  "promMetricAsString MetricFamilyToText metric =
     (case MetricFamilyToText metric of None \<Rightarrow> [] | Some out \<Rightarrow> out @ ''\<newline>'')"

definition counterMetric :: "(MetricFamily \<Rightarrow> string option) \<Rightarrow> string \<Rightarrow> string \<Rightarrow> string \<Rightarrow> u64 \<Rightarrow> string" where
  "counterMetric tx metricName operation shardIDStr cnt =
     promMetricAsString tx \<lparr>mf_Name = metricName, mf_Type = COUNTER,
       mf_Metric = [\<lparr>me_Label = [(''operation'', operation), (''shardID'', shardIDStr)], me_Value = float_of_u64 cnt\<rparr>]\<rparr>"

definition errorsMetric ::
    "(MetricFamily \<Rightarrow> string option) \<Rightarrow> string \<Rightarrow> string \<Rightarrow> string \<Rightarrow> (int, u64) gomap \<Rightarrow> string" where
  "errorsMetric tx metricName operation shardIDStr errorsCount =
     promMetricAsString tx \<lparr>mf_Name = metricName, mf_Type = GAUGE,
       mf_Metric = map (\<lambda>(code, cnt).
         \<lparr>me_Label = [(''operation'', operation), (''shardID'', shardIDStr), (''errorCode'', dec_int code)],
          me_Value = float_of_u64 cnt\<rparr>) errorsCount\<rparr>"

text \<open>\<^verbatim>\<open>Duration.Milliseconds\<close> divides with truncation and the quotient is taken as unsigned.\<close>

definition milliseconds :: "u64 \<Rightarrow> u64" where
  "milliseconds d = of_int (if sint d < 0 then - ((- sint d) div 1000000) else sint d div 1000000)"

definition GetMetricsForPrometheus :: "(MetricFamily \<Rightarrow> string option) \<Rightarrow> statusMetrics \<Rightarrow> string" where
  "GetMetricsForPrometheus tx sm =
     concat (map (\<lambda>(topicWithShardID, metricsData).
       let (topic, shardIDStr) = SplitTopicAndShardID topicWithShardID in
       counterMetric tx topic ''total_data'' shardIDStr (mr_TotalData metricsData) @
       counterMetric tx topic ''errors_count'' shardIDStr (mr_TotalErrorsCount metricsData) @
       counterMetric tx topic ''operations_count'' shardIDStr (mr_OperationsCount metricsData) @
       counterMetric tx topic ''total_time'' shardIDStr (milliseconds (mr_TotalIndexingTime metricsData)) @
       errorsMetric tx topic ''requests_errors'' shardIDStr (mr_ErrorsCount metricsData)) (getAllUnprotected sm))"

section \<open>The transport\<close>

text \<open>A request is the topic of its context and its length; the wrapped transport answers with a status code and a time.\<close>

record http_Request =
  req_Topic :: "string option"
  req_ContentLength :: u64

definition NewMetricsTransport :: "'m option \<Rightarrow> 'm result" where
  "NewMetricsTransport statusMetrics = (case statusMetrics of None \<Rightarrow> Inl ErrNilMetricsHandler | Some m \<Rightarrow> Inr m)"

definition RoundTrip ::
    "(string \<Rightarrow> string option) \<Rightarrow> (http_Request \<Rightarrow> int result \<times> u64) \<Rightarrow> http_Request option \<Rightarrow> statusMetrics
     \<Rightarrow> int result \<times> statusMetrics" where
  "RoundTrip uc rtrip req sm =
     (case req of
        None \<Rightarrow> (Inl ErrNilRequest, sm)
      | Some r \<Rightarrow>
          let (resp, duration) = rtrip r;
              statusCode = (case resp of Inl _ \<Rightarrow> 0 | Inr code \<Rightarrow> code) in
          case req_Topic r of
            None \<Rightarrow> (resp, sm)
          | Some topic \<Rightarrow>
              (resp, AddIndexingData uc \<lparr>args_StatusCode = statusCode, args_GotError = isl resp,
                 args_MessageLen = req_ContentLength r, args_Topic = topic, args_Duration = duration\<rparr> sm))"

section \<open>Properties\<close>

lemma split_char_snoc: "sep \<notin> set w \<Longrightarrow> split_char sep (s @ sep # w) = split_char sep s @ [w]"
  by (induction s) (auto simp: split_char_word split: list.splits)

lemma shard_no_separator: "topic_separator \<notin> set (dec_nat n)"
  by (rule dec_nat_no_char) (simp add: topic_separator_def is_digit_char_def)

lemma Split_Extend: "SplitTopicAndShardID (ExtendTopicWithShardID t s) = (t, dec_nat (unat s))"
proof -
  have "parse_uint 32 (dec_nat (unat s)) = Some (unat s)"
    using unsigned_less [of s, where ?'a = nat] by (intro parse_uint_dec_nat) simp
  then show ?thesis
    by (simp add: SplitTopicAndShardID_def ExtendTopicWithShardID_def split_char_snoc shard_no_separator Let_def nth_append)
qed

text \<open>A byte of ASCII ends whatever rune was begun before it.\<close>

lemma byte_in_end:
  assumes "(of_char x :: nat) < 128" and "128 \<le> lo"
  shows "byte_in (s @ x # u) i lo hi \<Longrightarrow> byte_in s i lo hi \<or> length s < i"
  using assms by (auto simp: byte_in_def nth_append nth_Cons' split: if_splits)

lemma byte_in_append: "byte_in s i lo hi \<Longrightarrow> byte_in (s @ u) i lo hi"
  by (auto simp: byte_in_def nth_append)

lemma rune_size_end:
  assumes "(of_char x :: nat) < 128"
  shows "rune_size ((c # s) @ x # u) = rune_size (c # s)"
proof -
  note fin = byte_in_end [OF assms, of _ "c # s"]
  have 0: "byte_in ((c # s) @ x # u) 0 lo hi \<longleftrightarrow> byte_in (c # s) 0 lo hi" for lo hi by (simp add: byte_in_def)
  have 1: "byte_in ((c # s) @ x # u) 1 lo hi \<longleftrightarrow> byte_in (c # s) 1 lo hi" if "128 \<le> lo" for lo hi
    using fin [OF that, of u 1 hi] byte_in_append [of "c # s" 1 lo hi "x # u"] by auto
  have 2: "byte_in ((c # s) @ x # u) 2 lo hi \<longleftrightarrow> byte_in (c # s) 2 lo hi" if "128 \<le> lo" "s \<noteq> []" for lo hi
    using fin [OF that(1), of u 2 hi] byte_in_append [of "c # s" 2 lo hi "x # u"] that(2) by (cases s) auto
  have 3: "byte_in ((c # s) @ x # u) 3 lo hi \<longleftrightarrow> byte_in (c # s) 3 lo hi" if "128 \<le> lo" "1 < length s" for lo hi
    using fin [OF that(1), of u 3 hi] byte_in_append [of "c # s" 3 lo hi "x # u"] that(2) by auto
  have l1: "byte_in (c # s) 1 lo hi \<Longrightarrow> s \<noteq> []" for lo hi by (auto simp: byte_in_def)
  have l2: "byte_in (c # s) 2 lo hi \<Longrightarrow> 1 < length s" for lo hi by (simp add: byte_in_def)
  have "rune2 ((c # s) @ x # u) \<longleftrightarrow> rune2 (c # s)" unfolding rune2_def by (simp only: 0 1)
  moreover have "rune3 ((c # s) @ x # u) \<longleftrightarrow> rune3 (c # s)"
    unfolding rune3_def using 2 l1 by (simp only: 0 1) blast
  moreover have "rune4 ((c # s) @ x # u) \<longleftrightarrow> rune4 (c # s)"
    unfolding rune4_def using 2 3 l1 l2 by (simp only: 0 1) blast
  ultimately show ?thesis by (simp add: rune_size_def)
qed

lemma camel_from_append:
  assumes "(of_char x :: nat) < 128"
  shows "camel_from uc p (s @ x # u) = camel_from uc p s @ camel_from uc (if s = [] then p else Some (last s)) (x # u)"
proof (induction uc p s rule: camel_from.induct)
  case (2 uc p c s)
  let ?n = "rune_size (c # s)"
  show ?case
  proof (cases "(of_char c :: nat) < 128 \<or> ?n = 0")
    case True
    with 2 rune_size_end [OF assms, of c s u] show ?thesis by (auto simp: camel_from.simps(2) [of uc p c] Let_def)
  next
    case False
    then have n: "0 < ?n" "?n \<le> Suc (length s)" using rune_size_le [of "c # s"] by auto
    let ?r = "take ?n (c # s)" and ?t = "drop (?n - 1) s"
    have ih: "camel_from uc (Some (last ?r)) (?t @ x # u) =
        camel_from uc (Some (last ?r)) ?t @ camel_from uc (if ?t = [] then Some (last ?r) else Some (last ?t)) (x # u)"
      using 2 False by (simp add: Let_def)
    have parts: "take ?n (c # s @ x # u) = ?r" "drop (?n - 1) (s @ x # u) = ?t @ x # u"
      using n take_append [of ?n "c # s" "x # u"] by simp_all
    have last: "(if ?t = [] then Some (last ?r) else Some (last ?t)) = Some (last (c # s))"
      using n by (cases "?n = Suc (length s)") (auto simp: last_drop)
    define X where "X = (case uc ?r of None \<Rightarrow> ?r
      | Some l \<Rightarrow> (case p of None \<Rightarrow> [] | Some b \<Rightarrow> if latin1_lower b then ''_'' else []) @ l)"
    have "camel_from uc p (c # s) = X @ camel_from uc (Some (last ?r)) ?t"
      using False by (simp add: camel_from.simps(2) [of uc p c] Let_def X_def)
    moreover have "camel_from uc p (c # s @ x # u) = X @ camel_from uc (Some (last ?r)) (?t @ x # u)"
      using False parts rune_size_end [OF assms, of c s u]
      by (simp only: camel_from.simps(2) [of uc p c] Let_def X_def append_Cons if_False de_Morgan_disj)
    ultimately show ?thesis using ih last by simp
  qed
qed simp

lemma camel_from_plain:
  "list_all (\<lambda>c. (of_char c :: nat) < 128 \<and> \<not> ascii_upper_letter c) s \<Longrightarrow> camel_from uc p s = s"
  by (induction s arbitrary: p) (simp_all add: camel_from.simps)

lemma camelToSnake_Extend:
  "camelToSnake uc (ExtendTopicWithShardID t s) = ExtendTopicWithShardID (camelToSnake uc t) s"
proof -
  have "list_all (\<lambda>c. (of_char c :: nat) < 128 \<and> \<not> ascii_upper_letter c) (topic_separator # dec_nat (unat s))"
    using dec_nat_digits [of "unat s"]
    by (auto simp: topic_separator_def is_digit_char_def ascii_upper_letter_def Let_def list_all_iff)
  from camel_from_plain [OF this] camel_from_append [of topic_separator uc None t "dec_nat (unat s)"]
  show ?thesis by (simp add: camelToSnake_def ExtendTopicWithShardID_def topic_separator_def)
qed

text \<open>
  A topic that was extended with a shard is split into the same topic and shard, whatever the topic holds, and this
  is also so for the name under which the metrics keep it: the labels of the Prometheus text name the topic in snake case
  and the shard of the request.
\<close>

theorem topic_roundtrip:
  "SplitTopicAndShardID (ExtendTopicWithShardID t s) = (t, dec_nat (unat s)) \<and>
   SplitTopicAndShardID (camelToSnake uc (ExtendTopicWithShardID t s)) = (camelToSnake uc t, dec_nat (unat s))"
  by (simp add: camelToSnake_Extend Split_Extend)

text \<open>The specification of the metrics: what they hold follows from the list of all calls.\<close>

type_synonym totals = "u64 \<times> u64 \<times> u64 \<times> u64 \<times> (int \<Rightarrow> u64 option)"

definition totals_of :: "MetricsResponse \<Rightarrow> totals" where
  "totals_of m = (mr_OperationsCount m, mr_TotalErrorsCount m, mr_TotalData m, mr_TotalIndexingTime m, map_of (mr_ErrorsCount m))"

definition metrics_abs :: "statusMetrics \<Rightarrow> string \<Rightarrow> totals option" where
  "metrics_abs sm t = map_option totals_of (map_of sm t)"

definition calls_with_code :: "int \<Rightarrow> ArgsAddIndexingData list \<Rightarrow> ArgsAddIndexingData list" where
  "calls_with_code code calls = filter (\<lambda>a. args_StatusCode a = code \<and> 400 \<le> code) calls"

definition call_totals :: "ArgsAddIndexingData list \<Rightarrow> totals" where
  "call_totals calls =
     (of_nat (length calls), of_nat (length (filter (\<lambda>a. args_GotError a \<or> 400 \<le> args_StatusCode a) calls)),
      sum_list (map args_MessageLen calls), sum_list (map args_Duration calls),
      \<lambda>code. case length (calls_with_code code calls) of 0 \<Rightarrow> None | Suc n \<Rightarrow> Some (of_nat (Suc n)))"

definition metrics_spec :: "(string \<Rightarrow> string option) \<Rightarrow> ArgsAddIndexingData list \<Rightarrow> string \<Rightarrow> totals option" where
  "metrics_spec uc calls t =
     (case filter (\<lambda>a. camelToSnake uc (args_Topic a) = t) calls of [] \<Rightarrow> None | c # cs \<Rightarrow> Some (call_totals (c # cs)))"

lemma totals_zero: "totals_of zeroMetrics = call_totals []"
  by (simp add: totals_of_def zeroMetrics_def call_totals_def calls_with_code_def fun_eq_iff)

lemma totals_add: "totals_of m = call_totals calls \<Longrightarrow> totals_of (add_data a m) = call_totals (calls @ [a])"
  by (auto simp: totals_of_def call_totals_def add_data_def Let_def http_StatusBadRequest_def calls_with_code_def fun_eq_iff
      split: option.splits nat.splits)

lemma metrics_abs_add:
  "metrics_abs (AddIndexingData uc a sm) =
     (metrics_abs sm)(camelToSnake uc (args_Topic a) \<mapsto>
        totals_of (add_data a (case map_of sm (camelToSnake uc (args_Topic a)) of None \<Rightarrow> zeroMetrics | Some m \<Rightarrow> m)))"
  by (auto simp: metrics_abs_def AddIndexingData_def Let_def fun_eq_iff)

lemma totals_of_entry: "metrics_abs sm t = Some x \<Longrightarrow> totals_of (case map_of sm t of None \<Rightarrow> zeroMetrics | Some m \<Rightarrow> m) = x"
  by (auto simp: metrics_abs_def)

lemma abs_calls: "metrics_abs (fold (AddIndexingData uc) calls NewStatusMetrics) = metrics_spec uc calls"
proof (induction calls rule: rev_induct)
  case Nil
  show ?case by (simp add: metrics_abs_def NewStatusMetrics_def metrics_spec_def fun_eq_iff)
next
  case (snoc a calls)
  let ?sm = "fold (AddIndexingData uc) calls NewStatusMetrics" and ?t = "camelToSnake uc (args_Topic a)"
  let ?own = "filter (\<lambda>b. camelToSnake uc (args_Topic b) = ?t) calls"
  have "totals_of (case map_of ?sm ?t of None \<Rightarrow> zeroMetrics | Some m \<Rightarrow> m) = call_totals ?own"
  proof (cases ?own)
    case Nil
    then have "map_of ?sm ?t = None" using snoc by (simp add: metrics_abs_def metrics_spec_def fun_eq_iff split: list.splits)
    with Nil show ?thesis by (simp add: totals_zero)
  next
    case (Cons c cs)
    then have "metrics_abs ?sm ?t = Some (call_totals ?own)" using snoc by (simp add: metrics_spec_def)
    then show ?thesis by (rule totals_of_entry)
  qed
  from totals_add [OF this, of a] have "metrics_spec uc (calls @ [a]) ?t =
      Some (totals_of (add_data a (case map_of ?sm ?t of None \<Rightarrow> zeroMetrics | Some m \<Rightarrow> m)))"
    by (simp add: metrics_spec_def split: list.split)
  moreover have "metrics_spec uc (calls @ [a]) t = metrics_spec uc calls t" if "t \<noteq> ?t" for t
    using that by (simp add: metrics_spec_def)
  ultimately show ?case using snoc by (auto simp: metrics_abs_add fun_eq_iff)
qed

lemma wf_calls: "gm_wf (fold (AddIndexingData uc) calls NewStatusMetrics)"
proof (induction calls rule: rev_induct)
  case (snoc a calls)
  then show ?case by (simp add: AddIndexingData_def Let_def)
qed (simp add: NewStatusMetrics_def gm_wf_def)

lemma metrics_abs_copy: "gm_wf sm \<Longrightarrow> metrics_abs (GetMetrics sm) = metrics_abs sm"
proof -
  assume wf: "gm_wf sm"
  have "map_of (fold (\<lambda>(k, v) m. gm_set k v m) xs m0) = map_of m0 ++ map_of (rev xs)" for xs and m0 :: statusMetrics
    by (induction xs arbitrary: m0) (auto simp: map_add_def fun_eq_iff split: option.splits)
  then have "map_of (GetMetrics sm) = map_of (rev sm)" by (simp add: GetMetrics_def getAllUnprotected_def)
  also have "\<dots> = map_of sm" using wf map_of_inject_set [of "rev sm" sm] by (simp add: gm_wf_def rev_map [symmetric])
  finally show ?thesis by (simp add: metrics_abs_def fun_eq_iff)
qed

text \<open>
  C39. The metrics refine the specification that counts the recorded calls: for every topic the number of operations, of
  errors and of answers with each error code, the bytes and the time are those of the calls with that topic (modulo
  \<open>2 ^ 64\<close>), and a topic without calls has no entry.
\<close>

theorem metrics_refine_calls:
  "metrics_abs (GetMetrics (fold (AddIndexingData uc) calls NewStatusMetrics)) = metrics_spec uc calls"
  by (simp add: metrics_abs_copy wf_calls abs_calls)

end
