(* ===== verification/Cross_Chain_Tokens.thy ===== *)
theory Cross_Chain_Tokens
  imports Es_Client Serialize_Docs
begin

text \<open>
  The handlers of tokens that arrive from the main chain (\<^verbatim>\<open>tokens/disabledIndexTokensHandler.go\<close>,
  \<^verbatim>\<open>tokens/sovereignIndexTokensHandler.go\<close>): the tokens named by the results sent from the main chain that the
  database does not know are read from the database of the main chain and indexed without their history.  The check
  of a token ownPrefix belongs to the core library and is a parameter.
\<close>

definition TokensIndex :: string where "TokensIndex = ''tokens''"

datatype 'w IndexTokensHandler =
    DisabledIndexTokensHandler
  | SovereignIndexTokensHandler (mainChainElasticClient_of: "'w mainChainElasticClient") (esdtPrefix: string)

definition getTokenCollection :: "bool \<Rightarrow> string \<Rightarrow> string" where
  "getTokenCollection hasPrefix tokenIdentifier =
     (let tokenSplit = split_char (CHR ''-'') tokenIdentifier in
      if \<not> hasPrefix \<and> length tokenSplit = 3 then tokenSplit ! 0 @ ''-'' @ tokenSplit ! 1
      else if hasPrefix \<and> length tokenSplit = 4 then tokenSplit ! 1 @ ''-'' @ tokenSplit ! 2
      else [])"

definition extractNewSovereignTokens :: "(string \<Rightarrow> string \<times> bool) \<Rightarrow> string \<Rightarrow> string list \<Rightarrow> string list" where
  "extractNewSovereignTokens IsValidPrefixedToken ownPrefix toks =
     concat (map (\<lambda>token.
       let (tokenPrefix, hasPrefix) = IsValidPrefixedToken token;
           tokenCollection = getTokenCollection hasPrefix token in
       (if \<not> hasPrefix \<or> tokenPrefix \<noteq> ownPrefix then [token] else []) @
       (if tokenCollection \<noteq> [] then [tokenCollection] else [])) toks)"

definition getNewTokensFromSCRs ::
    "(string \<Rightarrow> string \<times> bool) \<Rightarrow> core_consts \<Rightarrow> string \<Rightarrow> 'w DatabaseClientHandler \<Rightarrow> ScResult list
     \<Rightarrow> ('w, string list) io" where
  "getNewTokensFromSCRs IsValidPrefixedToken K ownPrefix cl results =
     (let receivedTokensIDs = concat (map (\<lambda>scr.
            if scr_SenderShard scr = k_MainChainShardId K
            then extractNewSovereignTokens IsValidPrefixedToken ownPrefix (scr_Tokens scr) else []) results) in
      if receivedTokensIDs = [] then io_ok []
      else io_bind (DoMultiGetTokens cl [] receivedTokensIDs TokensIndex True) (\<lambda>responseTokens.
        io_ok (map rt_ID (filter (\<lambda>token. \<not> rt_Found token) responseTokens))))"

definition formatToken :: "ResponseTokenInfoDB \<Rightarrow> TokenInfo \<times> string" where
  "formatToken token =
     (let source = (rti_Source token)\<lparr>ti_OwnersHistory := [], ti_Properties := None\<rparr> in
      (source, if ti_Identifier source = [] then ti_Token source else ti_Identifier source))"

definition serializeNewTokens :: "ResponseTokenInfoDB list \<Rightarrow> BufferSlice \<Rightarrow> BufferSlice result" where
  "serializeNewTokens responseTokensInfo =
     fold_r (\<lambda>responseToken b. let (token, identifier) = formatToken responseToken in
       bindr (Marshal (TokenInfo_json token)) (\<lambda>serializedTokenData.
         PutData (index_meta TokensIndex identifier) serializedTokenData b)) responseTokensInfo"

definition IndexCrossChainTokens ::
    "(string \<Rightarrow> string \<times> bool) \<Rightarrow> core_consts \<Rightarrow> 'w IndexTokensHandler \<Rightarrow> 'w DatabaseClientHandler \<Rightarrow> ScResult list
     \<Rightarrow> BufferSlice \<Rightarrow> ('w, BufferSlice) io" where
  "IndexCrossChainTokens IsValidPrefixedToken K handler cl results b =
     (case handler of
        DisabledIndexTokensHandler \<Rightarrow> io_ok b
      | SovereignIndexTokensHandler mc ownPrefix \<Rightarrow>
          if \<not> mc_indexingEnabled mc then io_ok b
          else io_bind (getNewTokensFromSCRs IsValidPrefixedToken K ownPrefix cl results) (\<lambda>newTokens.
            if newTokens = [] then io_ok b
            else io_bind (DoMultiGetTokenInfo (mc_client mc) [] newTokens TokensIndex True) (\<lambda>mainChainTokens.
              io_of (serializeNewTokens mainChainTokens b))))"

section \<open>What is sent\<close>

lemma serializeNewTokens_framed: "keeps_framing (serializeNewTokens ts)"
  unfolding serializeNewTokens_def Let_def
  by (intro framing_intros) (auto simp: TokensIndex_def dest: printable_Marshal)

end
