(* ===== verification/Elastic_Processor.thy ===== *)
theory Elastic_Processor
  imports Cross_Chain_Tokens Requests Block_Proc Logs_Events Transactions
begin

text \<open>
  The Elasticsearch processor (\<^verbatim>\<open>process/elasticproc/elasticProcessor.go\<close>, \<^verbatim>\<open>updateTokenType.go\<close>, \<^verbatim>\<open>check.go\<close> and
  the names of the indexes of \<^verbatim>\<open>process/dataindexer/constants.go\<close>): it composes the processors of the other
  theories, fills the bulk buffers and sends them through a database client.  An operation is a function of the processor
  that runs on the world of its client.  What the processors were created with is the record \<open>processor_env\<close>.
\<close>

section \<open>Indexes\<close>

definition IndexSuffix :: string where "IndexSuffix = ''000001''"
definition BlockIndex :: string where "BlockIndex = ''blocks''"
definition MiniblocksIndex :: string where "MiniblocksIndex = ''miniblocks''"
definition TransactionsIndex :: string where "TransactionsIndex = ''transactions''"
definition ValidatorsIndex :: string where "ValidatorsIndex = ''validators''"
definition RoundsIndex :: string where "RoundsIndex = ''rounds''"
definition RatingIndex :: string where "RatingIndex = ''rating''"
definition AccountsIndex :: string where "AccountsIndex = ''accounts''"
definition AccountsHistoryIndex :: string where "AccountsHistoryIndex = ''accountshistory''"
definition ReceiptsIndex :: string where "ReceiptsIndex = ''receipts''"
definition ScResultsIndex :: string where "ScResultsIndex = ''scresults''"
definition AccountsESDTIndex :: string where "AccountsESDTIndex = ''accountsesdt''"
definition AccountsESDTHistoryIndex :: string where "AccountsESDTHistoryIndex = ''accountsesdthistory''"
definition EpochInfoIndex :: string where "EpochInfoIndex = ''epochinfo''"
definition OpenDistroIndex :: string where "OpenDistroIndex = ''opendistro''"
definition SCDeploysIndex :: string where "SCDeploysIndex = ''scdeploys''"
definition TagsIndex :: string where "TagsIndex = ''tags''"
definition LogsIndex :: string where "LogsIndex = ''logs''"
definition DelegatorsIndex :: string where "DelegatorsIndex = ''delegators''"
definition OperationsIndex :: string where "OperationsIndex = ''operations''"
definition ESDTsIndex :: string where "ESDTsIndex = ''esdts''"
definition ValuesIndex :: string where "ValuesIndex = ''values''"
definition EventsIndex :: string where "EventsIndex = ''events''"
definition versionStr :: string where "versionStr = ''indexer-version''"

lemmas index_names = BlockIndex_def MiniblocksIndex_def TransactionsIndex_def ValidatorsIndex_def RoundsIndex_def
  RatingIndex_def AccountsIndex_def AccountsHistoryIndex_def ReceiptsIndex_def ScResultsIndex_def AccountsESDTIndex_def
  AccountsESDTHistoryIndex_def EpochInfoIndex_def OpenDistroIndex_def SCDeploysIndex_def TokensIndex_def TagsIndex_def
  LogsIndex_def DelegatorsIndex_def OperationsIndex_def ESDTsIndex_def ValuesIndex_def EventsIndex_def

definition indexes :: "string list" where
  "indexes =
     [TransactionsIndex, BlockIndex, MiniblocksIndex, RatingIndex, RoundsIndex, ValidatorsIndex,
      AccountsIndex, AccountsHistoryIndex, ReceiptsIndex, ScResultsIndex, AccountsESDTHistoryIndex, AccountsESDTIndex,
      EpochInfoIndex, SCDeploysIndex, TokensIndex, TagsIndex, LogsIndex, DelegatorsIndex, OperationsIndex,
      ESDTsIndex, ValuesIndex, EventsIndex]"

section \<open>State\<close>

text \<open>
  The core library, block library and constants, the converters and keys of the processors, the JSON of a status record
  and the fees of a metachain block, which are defined outside the repository, the hash of a delegator, and the validators
  processor's own key converter and bulk size.
\<close>

record processor_env =
  pe_lib :: core_lib
  pe_blocks :: block_lib
  pe_consts :: core_consts
  pe_balance :: balanceConverter
  pe_rewardSender :: string
  pe_extractor :: hash_extractor
  pe_status_json :: "StatusInfo \<Rightarrow> json"
  pe_epoch_fees :: "HeaderFull \<Rightarrow> int \<times> int"
  pe_delegator_hash :: "string \<Rightarrow> bytes"
  pe_validators_lib :: core_lib
  pe_validators_bulk :: int
  pe_prefixed :: "string \<Rightarrow> string \<times> bool"

record 'w elasticProcessor =
  bulkRequestMaxSize :: int
  importDB :: bool
  enabledIndexes :: "string list"
  dbClient :: "'w DatabaseClientHandler"
  ep_env :: processor_env
  indexTokensHandler :: "'w IndexTokensHandler"

record OutportBlock = OutportBlockWithHeader +
  ob_ShardID :: u32
  ob_NumberOfShards :: u32
  ob_AlteredAccounts :: "(string, AlteredAccount) gomap"

record ValidatorsRating =
  vrs_ShardID :: u32
  vrs_Epoch :: u32
  vrs_Infos :: "ValidatorRatingInfo list"

record ValidatorsPubKeys =
  vpk_ShardID :: u32
  vpk_Epoch :: u32
  vpk_Keys :: "(u32, bytes list) gomap"

record RoundsInfo =
  rsi_ShardID :: u32
  rsi_Rounds :: "RoundInfo list"

record Accounts =
  acs_ShardID :: u32
  acs_BlockTimestamp :: u64
  acs_AlteredAccounts :: "(string, AlteredAccount) gomap"

definition isIndexEnabled :: "'w elasticProcessor \<Rightarrow> string \<Rightarrow> bool" where
  "isIndexEnabled ei index = List.member (enabledIndexes ei) index"

fun doBulkRequests :: "'w elasticProcessor \<Rightarrow> string \<Rightarrow> bytes list \<Rightarrow> u32 \<Rightarrow> ('w, unit) io" where
  "doBulkRequests ei index [] shardID = io_ok ()"
| "doBulkRequests ei index (buff # rest) shardID =
     io_bind (DoBulkRequest (dbClient ei) (ExtendTopicWithShardID BulkTopic shardID) buff index) (\<lambda>_.
       doBulkRequests ei index rest shardID)"

section \<open>Headers and miniblocks\<close>

text \<open>A header that is given to the processor is not nil, but for the one of \<open>SaveHeader\<close> and \<open>SaveTransactions\<close>.\<close>

definition indexEpochInfoData :: "'w elasticProcessor \<Rightarrow> HeaderFull option \<Rightarrow> BufferSlice \<Rightarrow> BufferSlice result" where
  "indexEpochInfoData ei header b =
     (if \<not> isIndexEnabled ei EpochInfoIndex then Inr b
      else (case header of None \<Rightarrow> Inl PanicNilDereference
        | Some hdr \<Rightarrow>
            if h_ShardID hdr \<noteq> k_MetachainShardId (pe_consts (ep_env ei)) then Inr b
            else SerializeEpochInfoData (pe_epoch_fees (ep_env ei)) header EpochInfoIndex b))"

definition SaveHeader :: "'w elasticProcessor \<Rightarrow> OutportBlock \<Rightarrow> ('w, unit) io" where
  "SaveHeader ei obh =
     (if \<not> isIndexEnabled ei BlockIndex then io_ok ()
      else let env = ep_env ei in
        io_bind (io_of (PrepareBlockForDB (pe_lib env) (pe_blocks env) (pe_consts env) (OutportBlockWithHeader.truncate obh)))
          (\<lambda>elasticBlock.
        io_bind (io_of (SerializeBlock (Some elasticBlock) BlockIndex (NewBufferSlice (bulkRequestMaxSize ei)))) (\<lambda>b1.
        io_bind (io_of (indexEpochInfoData ei (ob_Header obh) b1)) (\<lambda>b2.
          doBulkRequests ei [] (Buffers b2) (ob_ShardID obh)))))"

definition remove_topic :: "u32 \<Rightarrow> string" where
  "remove_topic shardID = ExtendTopicWithShardID RemoveTopic shardID"

definition RemoveHeader :: "'w elasticProcessor \<Rightarrow> HeaderFull \<Rightarrow> ('w, unit) io" where
  "RemoveHeader ei header =
     io_bind (io_of (ComputeHeaderHash (pe_lib (ep_env ei)) (Header.truncate header))) (\<lambda>headerHash.
       DoQueryRemove (dbClient ei) (remove_topic (h_ShardID header)) BlockIndex
         (PrepareHashesForQueryRemove [hex_encode headerHash]))"

definition RemoveMiniblocks :: "'w elasticProcessor \<Rightarrow> HeaderFull \<Rightarrow> MiniBlock list option \<Rightarrow> ('w, unit) io" where
  "RemoveMiniblocks ei header body =
     (let encodedMiniblocksHashes = GetMiniblocksHashesHexEncoded (pe_lib (ep_env ei)) (Header.truncate header) body in
      if encodedMiniblocksHashes = [] then io_ok ()
      else DoQueryRemove (dbClient ei) (remove_topic (h_ShardID header)) MiniblocksIndex
        (PrepareHashesForQueryRemove encodedMiniblocksHashes))"

definition SaveMiniblocks :: "'w elasticProcessor \<Rightarrow> HeaderFull \<Rightarrow> MiniBlock list \<Rightarrow> ('w, unit) io" where
  "SaveMiniblocks ei header miniBlocks =
     (if \<not> isIndexEnabled ei MiniblocksIndex then io_ok ()
      else let env = ep_env ei; pn = ProcessingTypeString (pe_blocks env);
          mbs = PrepareDBMiniblocks (pe_lib env) (pe_consts env) (TypeString (pe_blocks env)) pn
            (Header.truncate header) miniBlocks in
        if mbs = [] then io_ok ()
        else doBulkRequests ei [] (Buffers (SerializeBulkMiniBlocks pn mbs MiniblocksIndex (h_ShardID header)
               (NewBufferSlice (bulkRequestMaxSize ei)))) (h_ShardID header))"

section \<open>Removal of transactions and accounts\<close>

definition removeIfHashesNotEmpty :: "'w elasticProcessor \<Rightarrow> string \<Rightarrow> string list \<Rightarrow> u32 \<Rightarrow> ('w, unit) io" where
  "removeIfHashesNotEmpty ei index hashes shardID =
     (if hashes = [] then io_ok ()
      else DoQueryRemove (dbClient ei) (remove_topic shardID) index (PrepareHashesForQueryRemove hashes))"

definition timestamp_query :: "u64 \<Rightarrow> u32 \<Rightarrow> bytes" where
  "timestamp_query headerTimestamp shardID =
     ''{\"query\": {\"bool\": {\"must\": [{\"match\": {\"shardID\": {\"query\": '' @ dec_nat (unat shardID) @
     '',\"operator\": \"AND\"}}},{\"match\": {\"timestamp\": {\"query\": \"'' @ dec_nat (unat headerTimestamp) @
     ''\",\"operator\": \"AND\"}}}]}}}''"

definition removeFromIndexByTimestampAndShardID :: "'w elasticProcessor \<Rightarrow> u64 \<Rightarrow> u32 \<Rightarrow> string \<Rightarrow> ('w, unit) io" where
  "removeFromIndexByTimestampAndShardID ei headerTimestamp shardID index =
     DoQueryRemove (dbClient ei) (remove_topic shardID) index (timestamp_query headerTimestamp shardID)"

definition updateDelegatorsInCaseOfRevert ::
    "'w elasticProcessor \<Rightarrow> HeaderFull \<Rightarrow> MiniBlock list option \<Rightarrow> ('w, unit) io" where
  "updateDelegatorsInCaseOfRevert ei header body =
     (case body of
        None \<Rightarrow> io_fail PanicNilDereference
      | Some mbs \<Rightarrow>
          if \<not> (h_ShardID header = k_MetachainShardId (pe_consts (ep_env ei)) \<and> length mbs > 0) then io_ok ()
          else UpdateByQuery (dbClient ei) (ExtendTopicWithShardID UpdateTopic (h_ShardID header)) DelegatorsIndex
            (PrepareDelegatorsQueryInCaseOfRevert (h_TimeStamp header)))"

definition RemoveTransactions :: "'w elasticProcessor \<Rightarrow> HeaderFull \<Rightarrow> MiniBlock list option \<Rightarrow> ('w, unit) io" where
  "RemoveTransactions ei header body =
     (let (encodedTxsHashes, encodedScrsHashes) = GetHexEncodedHashesForRemove (Some (Header.truncate header)) body;
          shardID = h_ShardID header in
      io_bind (removeIfHashesNotEmpty ei TransactionsIndex encodedTxsHashes shardID) (\<lambda>_.
      io_bind (removeIfHashesNotEmpty ei ScResultsIndex encodedScrsHashes shardID) (\<lambda>_.
      io_bind (removeIfHashesNotEmpty ei OperationsIndex (encodedTxsHashes @ encodedScrsHashes) shardID) (\<lambda>_.
      io_bind (removeIfHashesNotEmpty ei LogsIndex (encodedTxsHashes @ encodedScrsHashes) shardID) (\<lambda>_.
      io_bind (removeFromIndexByTimestampAndShardID ei (h_TimeStamp header) shardID EventsIndex) (\<lambda>_.
        updateDelegatorsInCaseOfRevert ei header body))))))"

definition RemoveAccountsESDT :: "'w elasticProcessor \<Rightarrow> u64 \<Rightarrow> u32 \<Rightarrow> ('w, unit) io" where
  "RemoveAccountsESDT ei headerTimestamp shardID =
     io_bind (removeFromIndexByTimestampAndShardID ei headerTimestamp shardID AccountsESDTIndex) (\<lambda>_.
       removeFromIndexByTimestampAndShardID ei headerTimestamp shardID AccountsESDTHistoryIndex)"

section \<open>Parts of a block that are written to the buffers\<close>

definition indexTransactions ::
    "'w elasticProcessor \<Rightarrow> Transaction list \<Rightarrow> (string, StatusInfo) gomap \<Rightarrow> u32 \<Rightarrow> BufferSlice \<Rightarrow> BufferSlice result" where
  "indexTransactions ei transactions txHashStatusInfo shardID b =
     (if \<not> isIndexEnabled ei TransactionsIndex then Inr b
      else SerializeTransactions (pe_consts (ep_env ei)) (pe_status_json (ep_env ei)) transactions txHashStatusInfo shardID
        TransactionsIndex b)"

definition prepareAndIndexOperations ::
    "'w elasticProcessor \<Rightarrow> Transaction list \<Rightarrow> (string, StatusInfo) gomap \<Rightarrow> u32 \<Rightarrow> ScResult list \<Rightarrow> bool
     \<Rightarrow> BufferSlice \<Rightarrow> BufferSlice result" where
  "prepareAndIndexOperations ei transactions txHashStatusInfo shardID results isImportDB b =
     (if \<not> isIndexEnabled ei OperationsIndex then Inr b
      else let env = ep_env ei;
          (processedTxs, processedSCRs) =
            ProcessTransactionsAndSCRs (pe_lib env) (pe_consts env) transactions results isImportDB shardID in
        bindr (SerializeTransactions (pe_consts env) (pe_status_json env) processedTxs txHashStatusInfo shardID OperationsIndex b)
          (SerializeSCRs processedSCRs OperationsIndex shardID))"

text \<open>An error of the first call is not reported; the buffers of such a call are those before it.\<close>

definition indexTransactionsFeeData :: "(string, FeeData) gomap \<Rightarrow> BufferSlice \<Rightarrow> BufferSlice result" where
  "indexTransactionsFeeData txsHashFeeData b =
     (if txsHashFeeData = [] then Inr b
      else (case SerializeTransactionsFeeData txsHashFeeData TransactionsIndex b of
          Inl err \<Rightarrow> if is_panic err then Inl err else Inr b
        | Inr b1 \<Rightarrow> SerializeTransactionsFeeData txsHashFeeData OperationsIndex b1))"

definition indexLogs :: "'w elasticProcessor \<Rightarrow> Logs list \<Rightarrow> BufferSlice \<Rightarrow> BufferSlice result" where
  "indexLogs ei logsDB b = (if \<not> isIndexEnabled ei LogsIndex then Inr b else SerializeLogs logsDB LogsIndex b)"

definition indexEvents :: "'w elasticProcessor \<Rightarrow> LogEvent list \<Rightarrow> BufferSlice \<Rightarrow> BufferSlice result" where
  "indexEvents ei eventsDB b = (if \<not> isIndexEnabled ei EventsIndex then Inr b else SerializeEvents eventsDB EventsIndex b)"

definition indexScResults :: "'w elasticProcessor \<Rightarrow> ScResult list \<Rightarrow> BufferSlice \<Rightarrow> BufferSlice result" where
  "indexScResults ei results b =
     (if \<not> isIndexEnabled ei ScResultsIndex then Inr b else SerializeScResults results ScResultsIndex b)"

definition indexReceipts :: "'w elasticProcessor \<Rightarrow> Receipt list \<Rightarrow> BufferSlice \<Rightarrow> BufferSlice result" where
  "indexReceipts ei receipts b =
     (if \<not> isIndexEnabled ei ReceiptsIndex then Inr b else SerializeReceipts receipts ReceiptsIndex b)"

definition prepareAndIndexTagsCount :: "'w elasticProcessor \<Rightarrow> tagsCount \<Rightarrow> BufferSlice \<Rightarrow> BufferSlice result" where
  "prepareAndIndexTagsCount ei tc b =
     (if \<not> isIndexEnabled ei TagsIndex \<or> TagsLen tc = 0 then Inr b else TagsSerialize tc TagsIndex b)"

definition prepareAndIndexRolesData ::
    "'w elasticProcessor \<Rightarrow> TokenRolesAndProperties \<Rightarrow> string \<Rightarrow> BufferSlice \<Rightarrow> BufferSlice result" where
  "prepareAndIndexRolesData ei tokenRolesAndProps index b =
     (if \<not> isIndexEnabled ei index then Inr b else SerializeRolesData tokenRolesAndProps index b)"

definition prepareAndIndexDelegators ::
    "'w elasticProcessor \<Rightarrow> (string, Delegator) gomap \<Rightarrow> BufferSlice \<Rightarrow> BufferSlice result" where
  "prepareAndIndexDelegators ei dgs b =
     (if \<not> isIndexEnabled ei DelegatorsIndex then Inr b
      else SerializeDelegators (pe_delegator_hash (ep_env ei)) dgs DelegatorsIndex b)"

definition indexScDeploys ::
    "'w elasticProcessor \<Rightarrow> (string, ScDeployInfo) gomap \<Rightarrow> (string, OwnerData) gomap \<Rightarrow> BufferSlice \<Rightarrow> BufferSlice result" where
  "indexScDeploys ei deployData changeOwnerOperation b =
     (if \<not> isIndexEnabled ei SCDeploysIndex then Inr b
      else bindr (SerializeSCDeploys deployData SCDeploysIndex b)
        (SerializeChangeOwnerOperations changeOwnerOperation SCDeploysIndex))"

section \<open>Accounts\<close>

definition indexAccounts :: "'w elasticProcessor \<Rightarrow> (string, AccountInfo) gomap \<Rightarrow> string \<Rightarrow> BufferSlice \<Rightarrow> BufferSlice result" where
  "indexAccounts ei accountsMap index b =
     (if \<not> isIndexEnabled ei index then Inr b else SerializeAccounts accountsMap index b)"

definition saveAccountsHistory ::
    "'w elasticProcessor \<Rightarrow> u64 \<Rightarrow> (string, AccountInfo) gomap \<Rightarrow> u32 \<Rightarrow> BufferSlice \<Rightarrow> BufferSlice result" where
  "saveAccountsHistory ei ts accountsInfoMap shardID b =
     (if \<not> isIndexEnabled ei AccountsHistoryIndex then Inr b
      else SerializeAccountsHistory (PrepareAccountsHistory ts accountsInfoMap shardID) AccountsHistoryIndex b)"

definition saveAccounts :: "'w elasticProcessor \<Rightarrow> u64 \<Rightarrow> Account list \<Rightarrow> u32 \<Rightarrow> BufferSlice \<Rightarrow> BufferSlice result" where
  "saveAccounts ei ts accts shardID b =
     (let accountsMap = PrepareRegularAccountsMap (pe_lib (ep_env ei)) (pe_balance (ep_env ei)) ts accts shardID in
      bindr (indexAccounts ei accountsMap AccountsIndex b) (saveAccountsHistory ei ts accountsMap shardID))"

definition indexAccountsESDT ::
    "'w elasticProcessor \<Rightarrow> (string, AccountInfo) gomap \<Rightarrow> NFTDataUpdate list \<Rightarrow> BufferSlice \<Rightarrow> BufferSlice result" where
  "indexAccountsESDT ei accountsESDTMap updatesNFTsData b =
     (if \<not> isIndexEnabled ei AccountsESDTIndex then Inr b
      else SerializeAccountsESDT (pe_lib (ep_env ei)) accountsESDTMap updatesNFTsData AccountsESDTIndex b)"

definition saveAccountsESDTHistory ::
    "'w elasticProcessor \<Rightarrow> u64 \<Rightarrow> (string, AccountInfo) gomap \<Rightarrow> u32 \<Rightarrow> BufferSlice \<Rightarrow> BufferSlice result" where
  "saveAccountsESDTHistory ei ts accountsInfoMap shardID b =
     (if \<not> isIndexEnabled ei AccountsESDTHistoryIndex then Inr b
      else SerializeAccountsHistory (PrepareAccountsHistory ts accountsInfoMap shardID) AccountsESDTHistoryIndex b)"

definition get_topic :: "u32 \<Rightarrow> string" where
  "get_topic shardID = ExtendTopicWithShardID GetTopic shardID"

definition addTokenTypeAndCurrentOwnerInAccountsESDT ::
    "'w elasticProcessor \<Rightarrow> tokensInfo \<Rightarrow> (string, AccountInfo) gomap \<Rightarrow> u32 \<Rightarrow> ('w, (string, AccountInfo) gomap) io" where
  "addTokenTypeAndCurrentOwnerInAccountsESDT ei tokensData accountsESDTMap shardID =
     (if TokensLen tokensData = 0 then io_ok accountsESDTMap
      else io_bind (DoMultiGetTokens (dbClient ei) (get_topic shardID) (GetAllTokens tokensData) TokensIndex True)
        (\<lambda>responseTokens.
          io_ok (PutTypeAndOwnerInAccountsESDT (AddTypeAndOwnerFromResponse (Some responseTokens) tokensData) accountsESDTMap)))"

definition saveAccountsESDT ::
    "'w elasticProcessor \<Rightarrow> u64 \<Rightarrow> AccountESDT list \<Rightarrow> NFTDataUpdate list \<Rightarrow> tagsCount \<Rightarrow> u32 \<Rightarrow> BufferSlice
     \<Rightarrow> ('w, BufferSlice \<times> tagsCount) io" where
  "saveAccountsESDT ei ts wrappedAccounts updatesNFTsData tc shardID b =
     (let env = ep_env ei;
          (accountsESDTMap, tokensData, tc1) =
            PrepareAccountsMapESDT (pe_lib env) (pe_consts env) (pe_balance env) ts wrappedAccounts tc shardID in
      io_bind (addTokenTypeAndCurrentOwnerInAccountsESDT ei tokensData accountsESDTMap shardID) (\<lambda>accountsMap.
      io_bind (io_of (indexAccountsESDT ei accountsMap updatesNFTsData b)) (\<lambda>b1.
      io_bind (io_of (saveAccountsESDTHistory ei ts accountsMap shardID b1)) (\<lambda>b2. io_ok (b2, tc1)))))"

definition indexAlteredAccounts ::
    "'w elasticProcessor \<Rightarrow> u64 \<Rightarrow> NFTDataUpdate list \<Rightarrow> (string, AlteredAccount) gomap \<Rightarrow> tagsCount \<Rightarrow> u32 \<Rightarrow> BufferSlice
     \<Rightarrow> ('w, BufferSlice \<times> tagsCount) io" where
  "indexAlteredAccounts ei ts updatesNFTsData coreAlteredAccounts tc shardID b =
     (let (regularAccountsToIndex, accountsToIndexESDT) = GetAccounts coreAlteredAccounts in
      io_bind (io_of (saveAccounts ei ts regularAccountsToIndex shardID b))
        (saveAccountsESDT ei ts accountsToIndexESDT updatesNFTsData tc shardID))"

text \<open>The buffers that are filled here are not sent.\<close>

definition SaveAccounts :: "'w elasticProcessor \<Rightarrow> Accounts \<Rightarrow> ('w, unit) io" where
  "SaveAccounts ei accountsData =
     (let accts = map (\<lambda>account. \<lparr>ac_UserAccount = account, ac_IsSender = False\<rparr>) (gm_values (acs_AlteredAccounts accountsData)) in
      io_bind (io_of (saveAccounts ei (acs_BlockTimestamp accountsData) accts (acs_ShardID accountsData)
                 (NewBufferSlice (bulkRequestMaxSize ei)))) (\<lambda>_. io_ok ()))"

section \<open>Tokens\<close>

definition indexNFTCreateInfo ::
    "'w elasticProcessor \<Rightarrow> tokensInfo \<Rightarrow> (string, AlteredAccount) gomap \<Rightarrow> u32 \<Rightarrow> BufferSlice \<Rightarrow> ('w, BufferSlice) io" where
  "indexNFTCreateInfo ei tokensData coreAlteredAccounts shardID b =
     (if \<not> isIndexEnabled ei TokensIndex \<or> TokensLen tokensData = 0 then io_ok b
      else io_bind (DoMultiGetTokens (dbClient ei) (get_topic shardID) (GetAllTokens tokensData) TokensIndex True)
        (\<lambda>responseTokens.
          let toks = GetAllWithoutMetaESDT (AddTypeAndOwnerFromResponse (Some responseTokens) tokensData) in
          io_of (SerializeNFTCreateInfo (PutTokenMedataDataInTokens (pe_lib (ep_env ei)) toks coreAlteredAccounts)
            TokensIndex b)))"

definition indexNFTBurnInfo :: "'w elasticProcessor \<Rightarrow> tokensInfo \<Rightarrow> u32 \<Rightarrow> BufferSlice \<Rightarrow> ('w, BufferSlice) io" where
  "indexNFTBurnInfo ei tokensData shardID b =
     (if \<not> isIndexEnabled ei TokensIndex \<or> TokensLen tokensData = 0 then io_ok b
      else io_bind (DoMultiGetTokens (dbClient ei) (get_topic shardID) (GetAllTokens tokensData) TokensIndex True)
        (\<lambda>responseTokens.
          io_of (SerializeSupplyData (pe_consts (ep_env ei)) (AddTypeAndOwnerFromResponse (Some responseTokens) tokensData)
            TokensIndex b)))"

definition prepareAndAddSerializedDataForTokens ::
    "'w elasticProcessor \<Rightarrow> TokenInfo list \<Rightarrow> NFTDataUpdate list \<Rightarrow> string \<Rightarrow> BufferSlice \<Rightarrow> BufferSlice result" where
  "prepareAndAddSerializedDataForTokens ei tokensData updateNFTData index b =
     (if \<not> isIndexEnabled ei index then Inr b else SerializeTokens (pe_lib (ep_env ei)) tokensData updateNFTData index b)"

definition type_query :: "string \<Rightarrow> bytes" where
  "type_query token =
     ''{\"query\": {\"bool\": {\"must\": [{\"match\": {\"token\": {\"query\": \"'' @ token @
     ''\",\"operator\": \"AND\"}}}],\"must_not\":[{\"exists\": {\"field\": \"type\"}}]}}}''"

definition type_handler ::
    "'w elasticProcessor \<Rightarrow> string \<Rightarrow> string \<Rightarrow> u32 \<Rightarrow> bytes \<Rightarrow> ('w, unit) io" where
  "type_handler ei tokenType index shardID responseBytes =
     io_bind (io_of (Unmarshal ResponseScroll_dec responseBytes)) (\<lambda>ids.
     io_bind (io_of (SerializeTypeForProvidedIDs ids tokenType index (NewBufferSlice (bulkRequestMaxSize ei)))) (\<lambda>b.
       doBulkRequests ei index (Buffers b) shardID))"

text \<open>The loop returns, and leaves the remaining tokens, when there is nothing to update for a token.\<close>

fun addTokenType :: "'w elasticProcessor \<Rightarrow> TokenInfo list \<Rightarrow> string \<Rightarrow> u32 \<Rightarrow> ('w, unit) io" where
  "addTokenType ei [] index shardID = io_ok ()"
| "addTokenType ei (td # rest) index shardID =
     (if ti_Type td = k_FungibleESDT (pe_consts (ep_env ei)) then addTokenType ei rest index shardID
      else let query = type_query (ti_Token td) in
        io_bind (DoCountRequest (dbClient ei) (get_topic shardID) index query) (\<lambda>resultsCount.
          if resultsCount = 0 then io_ok ()
          else io_bind (DoScrollRequest (dbClient ei) (ExtendTopicWithShardID ScrollTopic shardID) index query False
                 (type_handler ei (ti_Type td) index shardID)) (\<lambda>_.
            addTokenType ei rest index shardID)))"

definition indexTokens ::
    "'w elasticProcessor \<Rightarrow> TokenInfo list \<Rightarrow> NFTDataUpdate list \<Rightarrow> u32 \<Rightarrow> BufferSlice \<Rightarrow> ('w, BufferSlice) io" where
  "indexTokens ei tokensData updateNFTData shardID b =
     io_bind (io_of (prepareAndAddSerializedDataForTokens ei tokensData updateNFTData ESDTsIndex b)) (\<lambda>b1.
     io_bind (io_of (prepareAndAddSerializedDataForTokens ei tokensData updateNFTData TokensIndex b1)) (\<lambda>b2.
     io_bind (addTokenType ei tokensData AccountsESDTIndex shardID) (\<lambda>_.
     io_bind (addTokenType ei tokensData TokensIndex shardID) (\<lambda>_. io_ok b2))))"

section \<open>Transactions\<close>

definition prepared_block ::
    "processor_env \<Rightarrow> bool \<Rightarrow> HeaderFull \<Rightarrow> MiniBlock list \<Rightarrow> TransactionPool option \<Rightarrow> u32
     \<Rightarrow> (PreparedLogsResults \<times> PreparedResults) result" where
  "prepared_block env isImportDB header miniBlocks pool numShards =
     (let preparedResults = PrepareTransactionsForDatabase (pe_lib env) (pe_consts env) (pe_balance env)
            (pe_rewardSender env) (pe_extractor env) miniBlocks (Some (Header.truncate header)) pool isImportDB numShards in
      case pool of
        None \<Rightarrow> Inl PanicNilDereference
      | Some p \<Rightarrow> ExtractDataFromLogs (pe_lib env) (pe_consts env) (pe_balance env) (tp_Logs p) preparedResults
          (h_TimeStamp header) (h_ShardID header) numShards)"

text \<open>The body of \<^verbatim>\<open>SaveTransactions\<close> in three runs of statements: the transactions and logs, the accounts, the tokens.\<close>

definition index_transactions_part ::
    "'w elasticProcessor \<Rightarrow> OutportBlock \<Rightarrow> HeaderFull \<Rightarrow> PreparedLogsResults \<Rightarrow> PreparedResults \<Rightarrow> BufferSlice
     \<Rightarrow> ('w, BufferSlice) io" where
  "index_transactions_part ei obh header ld pr b0 =
     io_bind (io_of (indexTransactions ei (pr_Transactions pr) (plr_TxHashStatusInfo ld) (h_ShardID header) b0)) (\<lambda>b1.
     io_bind (io_of (prepareAndIndexOperations ei (pr_Transactions pr) (plr_TxHashStatusInfo ld) (h_ShardID header)
                (pr_ScResults pr) (importDB ei) b1)) (\<lambda>b2.
     io_bind (io_of (indexTransactionsFeeData (pr_TxHashFee pr) b2)) (\<lambda>b3.
     io_bind (indexNFTCreateInfo ei (plr_Tokens ld) (ob_AlteredAccounts obh) (ob_ShardID obh) b3) (\<lambda>b4.
     io_bind (io_of (indexLogs ei (plr_DBLogs ld) b4)) (\<lambda>b5.
     io_bind (io_of (indexEvents ei (plr_DBEvents ld) b5)) (\<lambda>b6.
     io_bind (io_of (indexScResults ei (pr_ScResults pr) b6)) (\<lambda>b7.
       io_of (indexReceipts ei (pr_Receipts pr) b7))))))))"

definition index_accounts_part ::
    "'w elasticProcessor \<Rightarrow> OutportBlock \<Rightarrow> HeaderFull \<Rightarrow> PreparedLogsResults \<Rightarrow> BufferSlice \<Rightarrow> ('w, BufferSlice) io" where
  "index_accounts_part ei obh header ld b =
     io_bind (indexAlteredAccounts ei (h_TimeStamp header) (plr_NFTsDataUpdates ld) (ob_AlteredAccounts obh) NewTagsCount
                (h_ShardID header) b) (\<lambda>(b1, tc).
       io_of (prepareAndIndexTagsCount ei tc b1))"

definition index_tokens_part ::
    "'w elasticProcessor \<Rightarrow> OutportBlock \<Rightarrow> PreparedLogsResults \<Rightarrow> PreparedResults \<Rightarrow> BufferSlice \<Rightarrow> ('w, BufferSlice) io" where
  "index_tokens_part ei obh ld pr b0 =
     io_bind (indexTokens ei (plr_TokensInfo ld) (plr_NFTsDataUpdates ld) (ob_ShardID obh) b0) (\<lambda>b1.
     io_bind (io_of (prepareAndIndexDelegators ei (plr_Delegators ld) b1)) (\<lambda>b2.
     io_bind (indexNFTBurnInfo ei (plr_TokensSupply ld) (ob_ShardID obh) b2) (\<lambda>b3.
     io_bind (io_of (prepareAndIndexRolesData ei (plr_TokenRolesAndProperties ld) TokensIndex b3)) (\<lambda>b4.
     io_bind (io_of (prepareAndIndexRolesData ei (plr_TokenRolesAndProperties ld) ESDTsIndex b4)) (\<lambda>b5.
     io_bind (io_of (indexScDeploys ei (plr_ScDeploys ld) (plr_ChangeOwnerOperations ld) b5)) (\<lambda>b6.
       IndexCrossChainTokens (pe_prefixed (ep_env ei)) (pe_consts (ep_env ei)) (indexTokensHandler ei) (dbClient ei)
         (pr_ScResults pr) b6))))))"

definition SaveTransactions :: "'w elasticProcessor \<Rightarrow> OutportBlock \<Rightarrow> ('w, unit) io" where
  "SaveTransactions ei obh =
     (case (ob_Header obh, ob_BlockData obh) of
        (Some header, Some bd) \<Rightarrow>
          (case bd_Body bd of
             None \<Rightarrow> io_fail PanicNilDereference
           | Some body \<Rightarrow>
               io_bind (io_of (prepared_block (ep_env ei) (importDB ei) header (body @ bd_IntraShardMiniBlocks bd) (ob_TransactionPool obh)
                          (ob_NumberOfShards obh))) (\<lambda>(ld, pr).
               io_bind (index_transactions_part ei obh header ld pr (NewBufferSlice (bulkRequestMaxSize ei))) (\<lambda>b1.
               io_bind (index_accounts_part ei obh header ld b1) (\<lambda>b2.
               io_bind (index_tokens_part ei obh ld pr b2) (\<lambda>b3.
                 doBulkRequests ei [] (Buffers b3) (ob_ShardID obh))))))
      | _ \<Rightarrow> io_fail PanicNilDereference)"

section \<open>Validators and rounds\<close>

definition SaveValidatorsRating :: "'w elasticProcessor \<Rightarrow> ValidatorsRating \<Rightarrow> ('w, unit) io" where
  "SaveValidatorsRating ei ratingData =
     (if \<not> isIndexEnabled ei RatingIndex then io_ok ()
      else io_bind (io_of (SerializeValidatorsRating (pe_validators_bulk (ep_env ei)) (vrs_Epoch ratingData) (vrs_Infos ratingData)))
        (\<lambda>bufs. doBulkRequests ei RatingIndex bufs (vrs_ShardID ratingData)))"

definition SaveShardValidatorsPubKeys :: "'w elasticProcessor \<Rightarrow> ValidatorsPubKeys \<Rightarrow> ('w, unit) io" where
  "SaveShardValidatorsPubKeys ei validatorsPubKeys =
     (if \<not> isIndexEnabled ei ValidatorsIndex then io_ok ()
      else io_bind (io_of (PrepareAnSerializeValidatorsPubKeys (pe_validators_lib (ep_env ei)) (pe_validators_bulk (ep_env ei))
               (vpk_Epoch validatorsPubKeys) (vpk_Keys validatorsPubKeys)))
        (\<lambda>bufs. doBulkRequests ei ValidatorsIndex bufs (vpk_ShardID validatorsPubKeys)))"

definition SaveRoundsInfo :: "'w elasticProcessor \<Rightarrow> RoundsInfo \<Rightarrow> ('w, unit) io" where
  "SaveRoundsInfo ei rounds =
     (if \<not> isIndexEnabled ei RoundsIndex then io_ok ()
      else DoBulkRequest (dbClient ei) (ExtendTopicWithShardID BulkTopic (rsi_ShardID rounds))
        (SerializeRoundsInfo (rsi_Rounds rounds)) RoundsIndex)"

definition SetOutportConfig :: "bool \<Rightarrow> 'w elasticProcessor \<Rightarrow> 'w elasticProcessor" where
  "SetOutportConfig isInImportDBMode ei = ei\<lparr>importDB := isInImportDBMode\<rparr>"

section \<open>Creation\<close>

text \<open>The processors that were given are flags: they are built in; \<open>ar_env\<close> is what they were created with.\<close>

record 'w ArgElasticProcessor =
  ar_BulkRequestMaxSize :: int
  ar_UseKibana :: bool
  ar_ImportDB :: bool
  ar_IndexTemplates :: "(string, bytes option) gomap"
  ar_ExtraMappings :: "(string \<times> bytes) list"
  ar_EnabledIndexes :: "string list option"
  ar_TransactionsProc :: bool
  ar_AccountsProc :: bool
  ar_BlockProc :: bool
  ar_MiniblocksProc :: bool
  ar_StatisticsProc :: bool
  ar_ValidatorsProc :: bool
  ar_DBClient :: "'w DatabaseClientHandler option"
  ar_LogsAndEventsProc :: bool
  ar_OperationsProc :: bool
  ar_Version :: string
  ar_IndexTokensHandler :: "'w IndexTokensHandler option"
  ar_env :: processor_env

definition checkArguments ::
    "'w ArgElasticProcessor option
     \<Rightarrow> ('w ArgElasticProcessor \<times> string list \<times> 'w DatabaseClientHandler \<times> 'w IndexTokensHandler) result" where
  "checkArguments arguments =
     (case arguments of None \<Rightarrow> Inl ErrNilElasticProcessorArguments
      | Some a \<Rightarrow> (case ar_EnabledIndexes a of None \<Rightarrow> Inl ErrNilEnabledIndexesMap
      | Some enabled \<Rightarrow> (case ar_DBClient a of None \<Rightarrow> Inl ErrNilDatabaseClient
      | Some cl \<Rightarrow>
          if \<not> ar_StatisticsProc a then Inl ErrNilStatisticHandler
          else if \<not> ar_BlockProc a then Inl ErrNilBlockHandler
          else if \<not> ar_AccountsProc a then Inl ErrNilAccountsHandler
          else if \<not> ar_MiniblocksProc a then Inl ErrNilMiniblocksHandler
          else if \<not> ar_ValidatorsProc a then Inl ErrNilValidatorsHandler
          else if \<not> ar_TransactionsProc a then Inl ErrNilTransactionsHandler
          else if \<not> ar_LogsAndEventsProc a then Inl ErrNilLogsAndEventsHandler
          else if \<not> ar_OperationsProc a then Inl ErrNilOperationsHandler
          else (case ar_IndexTokensHandler a of None \<Rightarrow> Inl ErrNilIndexTokensHandler
            | Some h \<Rightarrow> Inr (a, enabled, cl, h)))))"

definition getTemplateByName :: "string \<Rightarrow> (string, bytes option) gomap \<Rightarrow> bytes option" where
  "getTemplateByName templateName templateList = (case map_of templateList templateName of None \<Rightarrow> None | Some t \<Rightarrow> t)"

definition createOpenDistroTemplates :: "'w elasticProcessor \<Rightarrow> (string, bytes option) gomap \<Rightarrow> ('w, unit) io" where
  "createOpenDistroTemplates ei indexTemplates =
     (case getTemplateByName OpenDistroIndex indexTemplates of
        None \<Rightarrow> io_ok ()
      | Some t \<Rightarrow> CheckAndCreateTemplate (dbClient ei) OpenDistroIndex t)"

definition index_error :: "string \<Rightarrow> string" where
  "index_error index = ''index: '' @ index @ '', error''"

definition createIndexTemplates :: "'w elasticProcessor \<Rightarrow> (string, bytes option) gomap \<Rightarrow> ('w, unit) io" where
  "createIndexTemplates ei indexTemplates =
     io_each (\<lambda>index. case getTemplateByName index indexTemplates of
         None \<Rightarrow> io_ok ()
       | Some t \<Rightarrow> io_wrap (index_error index) (CheckAndCreateTemplate (dbClient ei) index t)) indexes"

definition index_name :: "string \<Rightarrow> string" where
  "index_name index = index @ ''-'' @ IndexSuffix"

definition createIndexes :: "'w elasticProcessor \<Rightarrow> ('w, unit) io" where
  "createIndexes ei =
     io_each (\<lambda>index. io_wrap (index_error index) (CheckAndCreateIndex (dbClient ei) (index_name index))) indexes"

definition createAliases :: "'w elasticProcessor \<Rightarrow> ('w, unit) io" where
  "createAliases ei = io_each (\<lambda>index. CheckAndCreateAlias (dbClient ei) index (index_name index)) indexes"

definition addExtraMappings :: "'w elasticProcessor \<Rightarrow> (string \<times> bytes) list \<Rightarrow> ('w, unit) io" where
  "addExtraMappings ei = io_each (\<lambda>(index, mappings). PutMappings (dbClient ei) index mappings)"

definition init_indexes ::
    "'w elasticProcessor \<Rightarrow> (string, bytes option) gomap \<Rightarrow> (string \<times> bytes) list \<Rightarrow> ('w, unit) io" where
  "init_indexes ei indexTemplates extraMappings =
     io_bind (createOpenDistroTemplates ei indexTemplates) (\<lambda>_.
     io_bind (createIndexTemplates ei indexTemplates) (\<lambda>_.
     io_bind (createIndexes ei) (\<lambda>_.
     io_bind (createAliases ei) (\<lambda>_. addExtraMappings ei extraMappings))))"

definition version_meta :: bytes where
  "version_meta = meta_line ''{ \"index\" : { \"_index\":\"'' ValuesIndex ''\", \"_id\" : \"'' versionStr ''\" } }''"

definition indexVersion :: "'w elasticProcessor \<Rightarrow> string \<Rightarrow> ('w, unit) io" where
  "indexVersion ei version =
     (if version = [] then io_ok ()
      else io_bind (io_of (Marshal (KeyValueObj_json \<lparr>kv_Key = versionStr, kv_Value = version\<rparr>))) (\<lambda>keyValueObjBytes.
        io_bind (io_of (PutData version_meta keyValueObjBytes (NewBufferSlice 0))) (\<lambda>b.
        io_bind (io_of (index_r (Buffers b) 0)) (\<lambda>buff.
          DoBulkRequest (dbClient ei) [] buff []))))"

text \<open>The import flag of the arguments is not used; when the version cannot be indexed the error comes with the processor.\<close>

definition NewElasticProcessor :: "'w ArgElasticProcessor option \<Rightarrow> ('w, 'w elasticProcessor) io" where
  "NewElasticProcessor arguments =
     io_bind (io_of (checkArguments arguments)) (\<lambda>(a, enabled, cl, h).
       let ei = \<lparr>bulkRequestMaxSize = ar_BulkRequestMaxSize a, importDB = False, enabledIndexes = enabled, dbClient = cl,
                 ep_env = ar_env a, indexTokensHandler = h\<rparr> in
       io_bind (init_indexes ei (ar_IndexTemplates a) (ar_ExtraMappings a)) (\<lambda>_.
       io_bind (indexVersion ei (ar_Version a)) (\<lambda>_. io_ok ei)))"

end
