(* ===== verification/Processor_Requests.thy ===== *)
theory Processor_Requests
  imports Elastic_Processor
begin

text \<open>
  What the operations of the Elasticsearch processor send, proved over any client that keeps the contract \<open>bulk_client\<close>
  and then for the Elasticsearch client: every body of a bulk request is a sequence of whole actions, and what is
  prepared for a block is sent when the operation ends without an error.
\<close>

section \<open>Values that are written unescaped\<close>

text \<open>
  The serializers put a few values into their requests without escaping them: the type of a token, the parts of an update
  of an NFT, a fee, the hash of a status record and the key of a rated validator.  These have to be free of control characters.
\<close>

definition logs_plain :: "core_lib \<Rightarrow> PreparedLogsResults \<Rightarrow> PreparedResults \<Rightarrow> bool" where
  "logs_plain L ld pr \<longleftrightarrow>
     list_all token_plain (plr_TokensInfo ld) \<and> list_all (nft_update_plain L) (plr_NFTsDataUpdates ld) \<and>
     list_all fee_plain (pr_TxHashFee pr) \<and> list_all (list_all printable \<circ> fst) (plr_TxHashStatusInfo ld)"

definition block_plain :: "processor_env \<Rightarrow> bool \<Rightarrow> OutportBlock \<Rightarrow> bool" where
  "block_plain env isImportDB obh =
     (case (ob_Header obh, ob_BlockData obh) of
        (Some header, Some bd) \<Rightarrow>
          (case bd_Body bd of None \<Rightarrow> True
           | Some body \<Rightarrow>
               (case prepared_block env isImportDB header (body @ bd_IntraShardMiniBlocks bd) (ob_TransactionPool obh)
                       (ob_NumberOfShards obh) of
                  Inl _ \<Rightarrow> True
                | Inr (ld, pr) \<Rightarrow> logs_plain (pe_lib env) ld pr))
      | _ \<Rightarrow> True)"

definition rating_plain :: "ValidatorsRating \<Rightarrow> bool" where
  "rating_plain r = list_all (list_all printable \<circ> vr_PublicKey) (vrs_Infos r)"

section \<open>The writers keep the bulk format\<close>

lemma printable_indexes [simp]:
  "list_all printable BlockIndex" "list_all printable MiniblocksIndex" "list_all printable TransactionsIndex"
  "list_all printable AccountsIndex" "list_all printable AccountsHistoryIndex" "list_all printable ReceiptsIndex"
  "list_all printable ScResultsIndex" "list_all printable AccountsESDTIndex" "list_all printable AccountsESDTHistoryIndex"
  "list_all printable EpochInfoIndex" "list_all printable SCDeploysIndex" "list_all printable TokensIndex"
  "list_all printable TagsIndex" "list_all printable LogsIndex" "list_all printable DelegatorsIndex"
  "list_all printable OperationsIndex" "list_all printable ESDTsIndex" "list_all printable ValuesIndex"
  "list_all printable EventsIndex"
  by (simp_all add: index_names)

lemmas part_defs = indexEpochInfoData_def [abs_def] indexTransactions_def [abs_def] indexLogs_def [abs_def] indexEvents_def [abs_def]
  indexScResults_def [abs_def] indexReceipts_def [abs_def] prepareAndIndexTagsCount_def [abs_def]
  prepareAndIndexRolesData_def [abs_def] prepareAndIndexDelegators_def [abs_def] indexScDeploys_def [abs_def]
  indexAccounts_def [abs_def] saveAccountsHistory_def [abs_def] indexAccountsESDT_def [abs_def]
  saveAccountsESDTHistory_def [abs_def] prepareAndAddSerializedDataForTokens_def [abs_def]

lemma indexEpochInfoData_framed [framing_intros]: "keeps_framing (indexEpochInfoData ei header)"
proof (cases header)
  case (Some h)
  have "keeps_framing (SerializeEpochInfoData (pe_epoch_fees (ep_env ei)) (Some h) EpochInfoIndex)"
    by (rule SerializeEpochInfoData_framed) simp
  with Some show ?thesis by (simp add: part_defs keeps_framing_def)
qed (simp add: part_defs keeps_framing_def)

lemma parts_framed [framing_intros]:
  "keeps_framing (indexLogs ei l)" "keeps_framing (indexEvents ei ev)" "keeps_framing (indexScResults ei rs)"
  "keeps_framing (indexReceipts ei rc)" "keeps_framing (prepareAndIndexTagsCount ei tc)"
  "list_all printable index \<Longrightarrow> keeps_framing (prepareAndIndexRolesData ei tap index)"
  "keeps_framing (prepareAndIndexDelegators ei dgs)" "keeps_framing (indexScDeploys ei deploys ops)"
  "list_all printable index \<Longrightarrow> keeps_framing (indexAccounts ei am index)" "keeps_framing (saveAccountsHistory ei ts am s)"
  "keeps_framing (saveAccountsESDTHistory ei ts am s)"
  unfolding part_defs by (intro framing_intros printable_indexes; assumption)+

lemma indexTransactions_framed [framing_intros]:
  "list_all (list_all printable \<circ> fst) st \<Longrightarrow> keeps_framing (indexTransactions ei ts st s)"
  unfolding part_defs by (intro framing_intros printable_indexes)

lemma operations_framed [framing_intros]:
  "list_all (list_all printable \<circ> fst) st \<Longrightarrow> keeps_framing (prepareAndIndexOperations ei ts st s rs imp)"
  unfolding prepareAndIndexOperations_def [abs_def] Let_def case_prod_unfold by (intro framing_intros printable_indexes)

lemma fees_framed [framing_intros]:
  assumes "list_all fee_plain fees"
  shows "keeps_framing (indexTransactionsFeeData fees)"
proof -
  have t: "keeps_framing (SerializeTransactionsFeeData fees TransactionsIndex)"
    and o: "keeps_framing (SerializeTransactionsFeeData fees OperationsIndex)"
    using assms by (simp_all add: SerializeTransactionsFeeData_framed)
  show ?thesis
    unfolding keeps_framing_def
  proof (intro allI impI)
    fix b b' assume b: "framed b" and run: "indexTransactionsFeeData fees b = Inr b'"
    show "framed b'"
    proof (cases "SerializeTransactionsFeeData fees TransactionsIndex b")
      case (Inl e)
      with b run show ?thesis by (simp add: indexTransactionsFeeData_def split: if_splits)
    next
      case (Inr b1)
      with keeps_framingD [OF t b] keeps_framingD [OF o, of b1 b'] b run show ?thesis
        by (simp add: indexTransactionsFeeData_def split: if_splits)
    qed
  qed
qed

lemma saveAccounts_framed [framing_intros]: "keeps_framing (saveAccounts ei ts accts s)"
  unfolding saveAccounts_def [abs_def] Let_def by (intro framing_intros printable_indexes)

lemma accountsESDT_framed [framing_intros]:
  "list_all (nft_update_plain (pe_lib (ep_env ei))) us \<Longrightarrow> keeps_framing (indexAccountsESDT ei am us)"
  unfolding part_defs by (intro framing_intros printable_indexes)

lemma tokens_framed [framing_intros]:
  "list_all printable index \<Longrightarrow> list_all token_plain ts \<Longrightarrow> list_all (nft_update_plain (pe_lib (ep_env ei))) us \<Longrightarrow>
   keeps_framing (prepareAndAddSerializedDataForTokens ei ts us index)"
  unfolding part_defs by (intro framing_intros)

lemma keeps_writer: "keeps_framing f \<Longrightarrow> framed b \<Longrightarrow> keeps I (io_of (f b)) framed"
  by (rule keeps_of) (rule keeps_framingD)

lemma keeps_write:
  "keeps_framing f \<Longrightarrow> framed b \<Longrightarrow> (\<And>b'. framed b' \<Longrightarrow> keeps I (g b') R) \<Longrightarrow> keeps I (io_bind (io_of (f b)) g) R"
  by (rule keeps_bind [OF keeps_writer])

lemma keeps_pure: "(\<And>x. keeps I (g x) R) \<Longrightarrow> keeps I (io_bind (io_of r) g) R"
  by (rule keeps_bind [OF keeps_of [of _ "\<lambda>_. True"]]) simp_all

lemma framed_Buffers: "framed b \<Longrightarrow> list_all framed_text (Buffers b)"
  by (simp add: framed_def Buffers_def)

text \<open>The client of the main chain is only read.\<close>

definition handler_reads :: "('w \<Rightarrow> bytes list) \<Rightarrow> 'w IndexTokensHandler \<Rightarrow> bool" where
  "handler_reads bulks h \<longleftrightarrow>
     (case h of DisabledIndexTokensHandler \<Rightarrow> True
      | SovereignIndexTokensHandler mc p \<Rightarrow>
          (\<forall>ctx ids i s w. bulks (snd (DoMultiGetTokenInfo (mc_client mc) ctx ids i s w)) = bulks w))"

section \<open>The operations keep the bulk format\<close>

context bulk_client
begin

abbreviation all_framed :: "'w \<Rightarrow> bool" where
  "all_framed \<equiv> sent (list_all framed_text)"

lemma keeps_send: "framed_text b \<Longrightarrow> keeps all_framed (DoBulkRequest cl ctx b i) (\<lambda>_. True)"
  by (rule keeps_bulk) simp

lemma keeps_doBulkRequests:
  "dbClient ei = cl \<Longrightarrow> (\<And>b bs. b \<in> set bufs \<Longrightarrow> R bs \<Longrightarrow> R (bs @ [b])) \<Longrightarrow>
   keeps (sent R) (doBulkRequests ei index bufs s) (\<lambda>_. True)"
proof (induction bufs)
  case (Cons b bufs)
  have "keeps (sent R) (DoBulkRequest cl ctx b index) (\<lambda>_. True)" for ctx by (rule keeps_bulk) (simp add: Cons.prems)
  moreover have "keeps (sent R) (doBulkRequests ei index bufs s) (\<lambda>_. True)" using Cons by simp
  ultimately show ?case using Cons.prems(1) by (auto intro: keeps_bind)
qed (simp add: keeps_ok)

lemma keeps_bulks: "dbClient ei = cl \<Longrightarrow> list_all framed_text bufs \<Longrightarrow> keeps all_framed (doBulkRequests ei index bufs s) (\<lambda>_. True)"
  by (rule keeps_doBulkRequests) (auto simp: list_all_iff)

lemma keeps_SaveHeader:
  "dbClient ei = cl \<Longrightarrow> keeps all_framed (SaveHeader ei obh) (\<lambda>_. True)"
  unfolding SaveHeader_def Let_def
  by (intro keeps_if keeps_ok TrueI, rule keeps_pure, rule keeps_write [OF SerializeBlock_framed framed_New], simp)
    (rule keeps_write [OF indexEpochInfoData_framed], assumption, rule keeps_bulks [OF _ framed_Buffers])

lemma keeps_removals:
  assumes "dbClient ei = cl"
  shows "keeps (sent R) (RemoveHeader ei h) (\<lambda>_. True)" "keeps (sent R) (RemoveMiniblocks ei h body) (\<lambda>_. True)"
    "keeps (sent R) (RemoveTransactions ei h body) (\<lambda>_. True)" "keeps (sent R) (RemoveAccountsESDT ei ts s) (\<lambda>_. True)"
proof -
  show "keeps (sent R) (RemoveHeader ei h) (\<lambda>_. True)"
    unfolding RemoveHeader_def assms by (rule keeps_pure) (rule keeps_reads)
  show "keeps (sent R) (RemoveMiniblocks ei h body) (\<lambda>_. True)"
    unfolding RemoveMiniblocks_def assms Let_def by (intro keeps_if keeps_ok keeps_reads TrueI)
  have t: "keeps (sent R) (removeFromIndexByTimestampAndShardID ei ts s i) (\<lambda>_. True)" for ts s i
    unfolding removeFromIndexByTimestampAndShardID_def assms by (rule keeps_reads)
  have n: "keeps (sent R) (removeIfHashesNotEmpty ei i hs s) (\<lambda>_. True)" for i hs s
    unfolding removeIfHashesNotEmpty_def assms by (intro keeps_if keeps_ok keeps_reads TrueI)
  have u: "keeps (sent R) (updateDelegatorsInCaseOfRevert ei h body) (\<lambda>_. True)"
    unfolding updateDelegatorsInCaseOfRevert_def assms
    by (cases body) (simp_all add: keeps_fail keeps_ok keeps_reads)
  show "keeps (sent R) (RemoveTransactions ei h body) (\<lambda>_. True)"
    unfolding RemoveTransactions_def Let_def case_prod_unfold by (intro keeps_bind [OF n] keeps_bind [OF t] u)
  show "keeps (sent R) (RemoveAccountsESDT ei ts s) (\<lambda>_. True)"
    unfolding RemoveAccountsESDT_def by (intro keeps_bind [OF t] t)
qed

lemma keeps_SaveMiniblocks:
  "dbClient ei = cl \<Longrightarrow> keeps all_framed (SaveMiniblocks ei h mbs) (\<lambda>_. True)"
  unfolding SaveMiniblocks_def Let_def
  by (intro keeps_if keeps_ok keeps_bulks framed_Buffers SerializeBulkMiniBlocks_framed framed_New TrueI) simp_all

lemma keeps_validators:
  assumes "dbClient ei = cl"
  shows "rating_plain r \<Longrightarrow> keeps all_framed (SaveValidatorsRating ei r) (\<lambda>_. True)"
    "keeps all_framed (SaveShardValidatorsPubKeys ei ks) (\<lambda>_. True)" "keeps all_framed (SaveRoundsInfo ei rs) (\<lambda>_. True)"
proof -
  show "keeps all_framed (SaveValidatorsRating ei r) (\<lambda>_. True)" if "rating_plain r"
    unfolding SaveValidatorsRating_def
    by (intro keeps_if keeps_ok TrueI keeps_bind [OF keeps_of] keeps_bulks [OF assms])
      (use that in \<open>auto simp: rating_plain_def dest: validators_rating_framed\<close>)
  show "keeps all_framed (SaveShardValidatorsPubKeys ei ks) (\<lambda>_. True)"
    unfolding SaveShardValidatorsPubKeys_def
    by (intro keeps_if keeps_ok TrueI keeps_bind [OF keeps_of] keeps_bulks [OF assms]) (auto dest: validators_keys_framed)
  show "keeps all_framed (SaveRoundsInfo ei rs) (\<lambda>_. True)"
    unfolding SaveRoundsInfo_def assms by (intro keeps_if keeps_ok keeps_send SerializeRoundsInfo_framed TrueI)
qed

lemma keeps_SaveAccounts: "keeps (sent R) (SaveAccounts ei a) (\<lambda>_. True)"
  unfolding SaveAccounts_def Let_def by (intro keeps_pure keeps_ok TrueI)

lemma keeps_addTokenType:
  assumes cl: "dbClient ei = cl" and handler: "\<And>ty page. keeps (sent R) (type_handler ei ty index s page) (\<lambda>_. True)"
  shows "keeps (sent R) (addTokenType ei ts index s) (\<lambda>_. True)"
proof (induction ts)
  case (Cons t ts)
  show ?case unfolding addTokenType.simps Let_def cl
    by (intro keeps_if Cons.IH keeps_bind [OF keeps_reads(4)] keeps_ok keeps_bind [OF keeps_scroll [OF handler]] TrueI)
qed (simp add: keeps_ok)

lemma keeps_type_handler:
  "dbClient ei = cl \<Longrightarrow> list_all printable index \<Longrightarrow> keeps all_framed (type_handler ei ty index s page) (\<lambda>_. True)"
  unfolding type_handler_def
  by (rule keeps_pure, rule keeps_write [OF SerializeTypeForProvidedIDs_framed framed_New], assumption)
    (rule keeps_bulks [OF _ framed_Buffers])

lemma keeps_multiget: "dbClient ei = cl \<Longrightarrow> (\<And>x. keeps (sent R) (g x) Q) \<Longrightarrow> keeps (sent R) (io_bind (DoMultiGetTokens (dbClient ei) ctx ids i src) g) Q"
  by (simp, rule keeps_bind [OF keeps_reads(2)])

lemma keeps_nft_info:
  assumes "dbClient ei = cl" "framed b"
  shows "keeps all_framed (indexNFTCreateInfo ei ts altered s b) framed" "keeps all_framed (indexNFTBurnInfo ei ts s b) framed"
  unfolding indexNFTCreateInfo_def indexNFTBurnInfo_def Let_def
  by (intro keeps_if keeps_ok keeps_multiget keeps_writer SerializeNFTCreateInfo_framed SerializeSupplyData_framed assms printable_indexes)+

lemma keeps_cross_chain:
  assumes cl: "dbClient ei = cl" and h: "handler_reads bulks h" and b: "framed b"
  shows "keeps all_framed (IndexCrossChainTokens IsValid K h (dbClient ei) rs b) framed"
proof (cases h)
  case (SovereignIndexTokensHandler mc p)
  have new: "keeps all_framed (getNewTokensFromSCRs IsValid K p (dbClient ei) rs) (\<lambda>_. True)"
    unfolding getNewTokensFromSCRs_def Let_def by (intro keeps_if keeps_ok keeps_multiget cl TrueI)
  have get: "keeps all_framed (DoMultiGetTokenInfo (mc_client mc) ctx ids i s) (\<lambda>_. True)" for ctx ids i s
    using h SovereignIndexTokensHandler by (simp add: handler_reads_def keeps_def)
  show ?thesis unfolding IndexCrossChainTokens_def SovereignIndexTokensHandler IndexTokensHandler.case
    by (intro keeps_if keeps_ok b keeps_bind [OF new] keeps_bind [OF get] keeps_writer serializeNewTokens_framed)
qed (simp add: IndexCrossChainTokens_def keeps_ok b)

lemma keeps_transactions_part:
  assumes cl: "dbClient ei = cl" and plain: "logs_plain (pe_lib (ep_env ei)) ld pr" and b: "framed b"
  shows "keeps all_framed (index_transactions_part ei obh h ld pr b) framed"
  using plain unfolding index_transactions_part_def logs_plain_def
  by (intro keeps_write [OF indexTransactions_framed] keeps_write [OF operations_framed] keeps_write [OF fees_framed]
      keeps_bind [OF keeps_nft_info(1)] keeps_write [OF parts_framed(1)] keeps_write [OF parts_framed(2)]
      keeps_write [OF parts_framed(3)] keeps_writer parts_framed(4) cl b; simp)

lemma keeps_accounts_part:
  assumes cl: "dbClient ei = cl" and plain: "logs_plain (pe_lib (ep_env ei)) ld pr" and b: "framed b"
  shows "keeps all_framed (index_accounts_part ei obh h ld b) framed"
proof -
  have owner: "keeps all_framed (addTokenTypeAndCurrentOwnerInAccountsESDT ei td am s) (\<lambda>_. True)" for td am s
    unfolding addTokenTypeAndCurrentOwnerInAccountsESDT_def by (intro keeps_if keeps_ok keeps_multiget cl TrueI)
  have esdt: "keeps all_framed (saveAccountsESDT ei ts as (plr_NFTsDataUpdates ld) tc s b1) (framed \<circ> fst)" if "framed b1" for ts as tc s b1
    using plain that unfolding saveAccountsESDT_def Let_def case_prod_unfold logs_plain_def
    by (intro keeps_bind [OF owner] keeps_write [OF accountsESDT_framed] keeps_write [OF parts_framed(11)] keeps_ok; simp)
  have "keeps all_framed (indexAlteredAccounts ei ts (plr_NFTsDataUpdates ld) acs tc s b) (framed \<circ> fst)" for ts acs tc s
    unfolding indexAlteredAccounts_def Let_def case_prod_unfold by (intro keeps_write [OF saveAccounts_framed b] esdt)
  then show ?thesis unfolding index_accounts_part_def case_prod_unfold
    by (rule keeps_bind) (intro keeps_writer parts_framed(5), simp)
qed

lemma keeps_tokens_part:
  assumes cl: "dbClient ei = cl" and plain: "logs_plain (pe_lib (ep_env ei)) ld pr" and b: "framed b"
    and h: "handler_reads bulks (indexTokensHandler ei)"
  shows "keeps all_framed (index_tokens_part ei obh ld pr b) framed"
proof -
  have types: "keeps all_framed (addTokenType ei ts index s) (\<lambda>_. True)" if "list_all printable index" for ts index s
    using that by (intro keeps_addTokenType keeps_type_handler cl)
  have toks: "keeps all_framed (indexTokens ei (plr_TokensInfo ld) (plr_NFTsDataUpdates ld) s b) framed" for s
    using plain b unfolding indexTokens_def logs_plain_def
    by (intro keeps_write [OF tokens_framed] keeps_bind [OF types] keeps_ok; simp)
  show ?thesis unfolding index_tokens_part_def
    by (intro keeps_bind [OF toks] keeps_write [OF parts_framed(7)] keeps_bind [OF keeps_nft_info(2)] keeps_write [OF parts_framed(6)]
        keeps_write [OF parts_framed(8)] keeps_cross_chain cl h; simp)
qed

lemma keeps_SaveTransactions:
  assumes cl: "dbClient ei = cl" and plain: "block_plain (ep_env ei) (importDB ei) obh" and h: "handler_reads bulks (indexTokensHandler ei)"
  shows "keeps all_framed (SaveTransactions ei obh) (\<lambda>_. True)"
proof (cases "\<exists>hd bd body ld pr. ob_Header obh = Some hd \<and> ob_BlockData obh = Some bd \<and> bd_Body bd = Some body \<and>
    prepared_block (ep_env ei) (importDB ei) hd (body @ bd_IntraShardMiniBlocks bd) (ob_TransactionPool obh) (ob_NumberOfShards obh) = Inr (ld, pr)")
  case True
  then obtain hd bd body ld pr where eqs: "ob_Header obh = Some hd" "ob_BlockData obh = Some bd" "bd_Body bd = Some body"
    "prepared_block (ep_env ei) (importDB ei) hd (body @ bd_IntraShardMiniBlocks bd) (ob_TransactionPool obh) (ob_NumberOfShards obh) = Inr (ld, pr)" by blast
  then have p: "logs_plain (pe_lib (ep_env ei)) ld pr" using plain by (simp add: block_plain_def)
  show ?thesis unfolding SaveTransactions_def eqs option.case prod.case io_bind_ok
    by (intro keeps_bind [OF keeps_transactions_part [OF cl p framed_New]] keeps_bind [OF keeps_accounts_part [OF cl p]]
        keeps_bind [OF keeps_tokens_part [OF cl p _ h]] keeps_bulks [OF cl framed_Buffers])
next
  case False
  have *: "io_bind (io_of r) f = (case r of Inl e \<Rightarrow> io_fail e | Inr x \<Rightarrow> f x)" for r and f :: "'b \<Rightarrow> ('w, unit) io"
    by (cases r) simp_all
  from False show ?thesis
    by (auto simp: SaveTransactions_def * keeps_fail split: option.split sum.split)
qed

lemma keeps_indexVersion:
  assumes "dbClient ei = cl"
  shows "keeps all_framed (indexVersion ei version) (\<lambda>_. True)"
proof -
  have ok: "entry_ok (version_meta, d)" if "list_all printable d" for d
    using that by (intro entry_ok_pair) (simp_all add: version_meta_def meta_ok_line versionStr_def)
  have one: "framed_text buff" if "framed b" "index_r (Buffers b) 0 = Inr buff" for b buff
    using framed_Buffers [OF that(1)] that(2) by (auto simp: index_r_def list_all_length split: if_splits)
  show ?thesis unfolding indexVersion_def assms
    by (intro keeps_if keeps_ok TrueI keeps_bind [OF keeps_of [of _ "list_all printable"]] keeps_write [OF keeps_framing_PutData [OF ok]]
        keeps_bind [OF keeps_of [of _ framed_text]] keeps_send framed_New)
      (auto intro: printable_Marshal one)
qed

lemma keeps_init_indexes:
  assumes cl: "dbClient ei = cl"
  shows "keeps (sent R) (init_indexes ei ts ms) (\<lambda>_. True)"
proof -
  have "keeps (sent R) (createOpenDistroTemplates ei ts) (\<lambda>_. True)"
    unfolding createOpenDistroTemplates_def cl by (simp add: keeps_ok keeps_reads split: option.split)
  moreover have "keeps (sent R) (createIndexTemplates ei ts) (\<lambda>_. True)"
    unfolding createIndexTemplates_def cl by (rule keeps_each) (simp add: keeps_ok keeps_wrap keeps_reads split: option.split)
  moreover have "keeps (sent R) (createIndexes ei) (\<lambda>_. True)"
    unfolding createIndexes_def cl by (intro keeps_each keeps_wrap keeps_reads)
  moreover have "keeps (sent R) (createAliases ei) (\<lambda>_. True)"
    unfolding createAliases_def cl by (intro keeps_each keeps_reads)
  moreover have "keeps (sent R) (addExtraMappings ei ms) (\<lambda>_. True)"
    unfolding addExtraMappings_def cl by (intro keeps_each) (simp add: case_prod_unfold keeps_reads)
  ultimately show ?thesis unfolding init_indexes_def by (intro keeps_bind)
qed

lemma keeps_NewElasticProcessor:
  assumes "\<And>a. args = Some a \<Longrightarrow> ar_DBClient a = Some cl"
  shows "keeps all_framed (NewElasticProcessor args) (\<lambda>ei. dbClient ei = cl)"
proof -
  have "c = cl" if "checkArguments args = Inr (a, enabled, c, h)" for a enabled c h
    using that assms by (auto simp: checkArguments_def split: option.splits if_splits)
  then show ?thesis unfolding NewElasticProcessor_def Let_def
    by (intro keeps_bind [OF keeps_of [of _ "\<lambda>(a, enabled, c, h). c = cl"]])
      (auto intro!: keeps_bind [OF keeps_init_indexes] keeps_bind [OF keeps_indexVersion] keeps_ok)
qed

end

end
