(* ===== verification/Delivery.thy ===== *)
theory Delivery
  imports Processor_Requests
begin

text \<open>
  What is prepared for a block reaches the database: an action that was put into the buffers stays, whole, in one of the
  buffers until they are sent, and they are sent when no error ends the operation before.
\<close>

section \<open>Actions stay in the buffers\<close>

definition held :: "bytes \<Rightarrow> BufferSlice \<Rightarrow> bool" where
  "held t b \<longleftrightarrow> buff_inv b \<and> list_ex (sublist t) (buffSlice b)"

definition adds :: "(BufferSlice \<Rightarrow> BufferSlice result) \<Rightarrow> bool" where
  "adds f \<longleftrightarrow> (\<forall>b b'. buff_inv b \<longrightarrow> f b = Inr b' \<longrightarrow> buff_inv b' \<and> (\<forall>t. held t b \<longrightarrow> held t b'))"

named_theorems adds_intros \<open>writers that keep what the buffers hold\<close>

lemma PutData_held:
  assumes "buff_inv b" and "PutData m d b = Inr b'"
  shows "buff_inv b' \<and> held (entry_text (m, d)) b' \<and> (\<forall>t. held t b \<longrightarrow> held t b')"
proof -
  from PutData_inv [OF assms(1), of m d] assms(2) have inv: "buff_inv b'" by auto
  have app: "sublist t x \<Longrightarrow> sublist t (x @ y)" "sublist y (x @ y)" for t x y :: bytes
    unfolding sublist_def by (metis append.assoc, metis append_Nil2)
  from assms(1) have "held (entry_text (m, d)) b' \<and> (\<forall>t. held t b \<longrightarrow> held t b')"
    by (cases b rule: PutData_step [where m = m and d = d]) (use assms(2) inv app in \<open>auto simp: held_def\<close>)
  with inv show ?thesis by blast
qed

lemma adds_PutData [adds_intros]: "adds (PutData m d)"
  using PutData_held by (auto simp: adds_def)

lemma adds_Inr [adds_intros]: "adds Inr" "adds (\<lambda>b. Inr b)"
  by (simp_all add: adds_def)

lemma adds_Inl [adds_intros]: "adds (\<lambda>b. Inl e)"
  by (simp add: adds_def)

lemma adds_bind_value [adds_intros]: "(\<And>x. r = Inr x \<Longrightarrow> adds (g x)) \<Longrightarrow> adds (\<lambda>b. bindr r (\<lambda>x. g x b))"
  by (cases r) (simp_all add: adds_Inl)

lemma adds_seq [adds_intros]: "adds f \<Longrightarrow> adds g \<Longrightarrow> adds (\<lambda>b. bindr (f b) g)"
  unfolding adds_def bindr_Inr_iff by blast

lemma adds_fold_r [adds_intros]: "(\<And>x. x \<in> set xs \<Longrightarrow> adds (f x)) \<Longrightarrow> adds (fold_r f xs)"
proof (induction xs)
  case (Cons x xs)
  then have "adds (f x)" "adds (fold_r f xs)" by simp_all
  from adds_seq [OF this] show ?case by (simp add: adds_def)
qed (simp add: adds_def)

lemma adds_if [adds_intros]: "(c \<Longrightarrow> adds f) \<Longrightarrow> (\<not> c \<Longrightarrow> adds g) \<Longrightarrow> adds (\<lambda>b. if c then f b else g b)"
  by (cases c) simp_all

lemma adds_prod [adds_intros]:
  "(\<And>a c. x = (a, c) \<Longrightarrow> adds (f a c)) \<Longrightarrow> adds (case_prod f x)"
  "(\<And>a c. x = (a, c) \<Longrightarrow> adds (g a c)) \<Longrightarrow> adds (\<lambda>b. case x of (a, c) \<Rightarrow> g a c b)"
  by (cases x, simp)+

lemma held_inv: "held t b \<Longrightarrow> buff_inv b"
  by (simp add: held_def)

lemma addsD: "adds f \<Longrightarrow> held t b \<Longrightarrow> f b = Inr b' \<Longrightarrow> held t b'"
  unfolding adds_def by (blast dest: held_inv)

text \<open>The loop over documents: the action of every document is held in the end.\<close>

lemma put_docs_held:
  assumes "buff_inv b" and "fold_r (\<lambda>x b. bindr (prepare x) (\<lambda>(m, d). PutData m d b)) xs b = Inr b'" and "x \<in> set xs"
  shows "\<exists>e. prepare x = Inr e \<and> held (entry_text e) b'"
  using assms
proof (induction xs arbitrary: b)
  case (Cons y ys)
  let ?f = "\<lambda>x b. bindr (prepare x) (\<lambda>(m, d). PutData m d b)"
  from Cons.prems(2) obtain m d b1 where y: "prepare y = Inr (m, d)" and b1: "PutData m d b = Inr b1"
    and rest: "fold_r ?f ys b1 = Inr b'" by (auto simp: bindr_Inr_iff)
  have inv: "buff_inv b1" and h: "held (entry_text (m, d)) b1" using PutData_held [OF Cons.prems(1) b1] by auto
  have "adds (fold_r ?f ys)" by (intro adds_intros)
  from addsD [OF this h rest] y Cons.IH [OF inv rest] Cons.prems(3) show ?case by auto
qed simp

lemma adds_serializers [adds_intros]:
  "adds (SerializeEvents evs i)" "adds (SerializeLogs ls i)" "adds (SerializeChangeOwnerOperations ops i)" "adds (SerializeSCDeploys ds i)"
  "adds (PrepareNFTUpdateData L us e i)" "adds (SerializeTokens L ts us i)" "adds (SerializeSupplyData K toks i)"
  "adds (SerializeDelegators c dgs i)" "adds (SerializeNFTCreateInfo ts i)" "adds (SerializeAccounts am i)"
  "adds (SerializeAccountsESDT L am us i)" "adds (SerializeScResults rs i)" "adds (SerializeReceipts rc i)"
  "adds (SerializeTransactionsFeeData fees i)" "adds (serializeTxHashStatus sj st i)" "adds (SerializeTransactions K sj txl st s i)"
  "adds (SerializeSCRs rs i s)" "adds (TagsSerialize tc i)" "adds (serializeNewTokens nts)"
  unfolding SerializeEvents_def SerializeLogs_def SerializeChangeOwnerOperations_def SerializeSCDeploys_def PrepareNFTUpdateData_def
    SerializeTokens_def [abs_def] SerializeSupplyData_def SerializeDelegators_def SerializeNFTCreateInfo_def SerializeAccounts_def
    SerializeAccountsESDT_def [abs_def] SerializeScResults_def SerializeReceipts_def SerializeTransactionsFeeData_def
    serializeTxHashStatus_def SerializeTransactions_def [abs_def] SerializeSCRs_def TagsSerialize_def serializeNewTokens_def Let_def
  by (intro adds_intros)+

lemma adds_roles [adds_intros]: "adds (SerializeRolesData tap i)"
  unfolding SerializeRolesData_def [abs_def] serializeRoleData_def serializePropertiesData_def [abs_def] Let_def by (intro adds_intros)

lemma adds_history [adds_intros]: "adds (SerializeAccountsHistory am i)"
proof -
  have "adds (accounts_history_loop i as)" for as
  proof (induction as)
    case (Cons a as)
    show ?case
    proof (cases "prepareSerializedAccountBalanceHistory a i")
      case (Inr e)
      obtain m d where e: "e = (m, d)" by (cases e)
      from adds_seq [OF adds_PutData [of m d] Cons] Inr e show ?thesis by (simp add: adds_def)
    qed (simp add: adds_def)
  qed (simp add: adds_def)
  then show ?thesis by (simp add: SerializeAccountsHistory_def)
qed

lemma adds_parts [adds_intros]:
  "adds (indexTransactions ei ts st s)" "adds (indexLogs ei l)" "adds (indexEvents ei ev)" "adds (indexScResults ei rs)"
  "adds (indexReceipts ei rc)" "adds (prepareAndIndexTagsCount ei tc)" "adds (prepareAndIndexRolesData ei tap index)"
  "adds (prepareAndIndexDelegators ei dgs)" "adds (indexScDeploys ei deploys ops)" "adds (indexAccounts ei am index)"
  "adds (saveAccountsHistory ei ts' am s)" "adds (saveAccountsESDTHistory ei ts' am s)" "adds (indexAccountsESDT ei am us)"
  "adds (prepareAndAddSerializedDataForTokens ei tks us index)"
  unfolding part_defs by (intro adds_intros)+

lemma adds_more_parts [adds_intros]:
  "adds (prepareAndIndexOperations ei ts st s rs imp)" "adds (saveAccounts ei t accts s)"
  unfolding prepareAndIndexOperations_def [abs_def] saveAccounts_def [abs_def] Let_def case_prod_unfold by (intro adds_intros)+

lemma adds_fees [adds_intros]: "adds (indexTransactionsFeeData fees)"
proof (cases "fees = []")
  case False
  have *: "adds (\<lambda>b. case f b of Inl e \<Rightarrow> if is_panic e then Inl e else Inr b | Inr b1 \<Rightarrow> g b1)" if "adds f" "adds g" for f g
    unfolding adds_def
  proof (intro allI impI)
    fix b b' assume b: "buff_inv b" and run: "(case f b of Inl e \<Rightarrow> if is_panic e then Inl e else Inr b | Inr b1 \<Rightarrow> g b1) = Inr b'"
    show "buff_inv b' \<and> (\<forall>t. held t b \<longrightarrow> held t b')"
    proof (cases "f b")
      case (Inr b1)
      with that b run show ?thesis unfolding adds_def by (metis sum.simps(6))
    qed (use b run in \<open>simp split: if_splits\<close>)
  qed
  from False show ?thesis unfolding indexTransactionsFeeData_def [abs_def] by (simp add: * adds_serializers)
qed (simp add: indexTransactionsFeeData_def [abs_def] adds_Inr)

section \<open>They stay until they are sent\<close>

text \<open>A property of the buffers that no writer destroys.\<close>

definition lasting :: "(BufferSlice \<Rightarrow> bool) \<Rightarrow> bool" where
  "lasting H \<longleftrightarrow> (\<forall>f b b'. adds f \<longrightarrow> H b \<longrightarrow> f b = Inr b' \<longrightarrow> H b')"

definition all_held :: "('d \<Rightarrow> (bytes \<times> bytes) result) \<Rightarrow> 'd list \<Rightarrow> BufferSlice \<Rightarrow> bool" where
  "all_held prepare xs b \<longleftrightarrow> buff_inv b \<and> (\<forall>x \<in> set xs. \<exists>e. prepare x = Inr e \<and> held (entry_text e) b)"

lemma lasting_inv: "lasting buff_inv"
  unfolding lasting_def adds_def by blast

lemma lasting_all_held: "lasting (all_held prepare xs)"
  unfolding lasting_def all_held_def by (meson addsD adds_def)

lemma lasting_conj: "lasting G \<Longrightarrow> lasting H \<Longrightarrow> lasting (\<lambda>b. G b \<and> H b)"
  unfolding lasting_def by blast

lemma keeps_lasting: "lasting H \<Longrightarrow> adds f \<Longrightarrow> H b \<Longrightarrow> keeps I (io_of (f b)) H"
  by (rule keeps_of) (simp add: lasting_def)

lemma keeps_add:
  "lasting H \<Longrightarrow> adds f \<Longrightarrow> H b \<Longrightarrow> (\<And>b'. H b' \<Longrightarrow> keeps I (g b') R) \<Longrightarrow> keeps I (io_bind (io_of (f b)) g) R"
  by (rule keeps_bind [OF keeps_lasting])

context bulk_client
begin

abbreviation at_least :: "nat \<Rightarrow> 'w \<Rightarrow> bool" where
  "at_least n \<equiv> sent (\<lambda>bs. n \<le> length bs)"

lemma doBulkRequests_sent:
  "dbClient ei = cl \<Longrightarrow> doBulkRequests ei index bufs s w = (Inr (), w') \<Longrightarrow> bulks w' = bulks w @ bufs"
proof (induction bufs arbitrary: w)
  case (Cons b bufs)
  then obtain w1 where w1: "DoBulkRequest cl (ExtendTopicWithShardID BulkTopic s) b index w = (Inr (), w1)"
    and rest: "doBulkRequests ei index bufs s w1 = (Inr (), w')" by (auto simp: io_bind_Inr)
  from Cons.IH [OF Cons.prems(1) rest] bulk_sent [of "ExtendTopicWithShardID BulkTopic s" b index w] w1 show ?case by simp
qed (simp add: io_ok_def)

lemma keeps_nft_held:
  assumes "dbClient ei = cl" "lasting H" "H b"
  shows "keeps (at_least n) (indexNFTCreateInfo ei ts altered s b) H" "keeps (at_least n) (indexNFTBurnInfo ei ts s b) H"
  unfolding indexNFTCreateInfo_def indexNFTBurnInfo_def Let_def
  by (intro keeps_if keeps_ok keeps_multiget keeps_lasting adds_intros assms)+

lemma keeps_cross_held:
  assumes cl: "dbClient ei = cl" and h: "handler_reads bulks h" and H: "lasting H" "H b"
  shows "keeps (at_least n) (IndexCrossChainTokens IsValid K h (dbClient ei) rs b) H"
proof (cases h)
  case (SovereignIndexTokensHandler mc p)
  have new: "keeps (at_least n) (getNewTokensFromSCRs IsValid K p (dbClient ei) rs) (\<lambda>_. True)"
    unfolding getNewTokensFromSCRs_def Let_def by (intro keeps_if keeps_ok keeps_multiget cl TrueI)
  have get: "keeps (at_least n) (DoMultiGetTokenInfo (mc_client mc) ctx ids i s) (\<lambda>_. True)" for ctx ids i s
    using h SovereignIndexTokensHandler by (simp add: handler_reads_def keeps_def)
  show ?thesis unfolding IndexCrossChainTokens_def SovereignIndexTokensHandler IndexTokensHandler.case
    by (intro keeps_if keeps_ok H keeps_bind [OF new] keeps_bind [OF get] keeps_lasting adds_intros)
qed (simp add: IndexCrossChainTokens_def keeps_ok H)

lemma keeps_accounts_held:
  assumes cl: "dbClient ei = cl" and H: "lasting H" "H b"
  shows "keeps (at_least n) (index_accounts_part ei obh h ld b) H"
proof -
  have owner: "keeps (at_least n) (addTokenTypeAndCurrentOwnerInAccountsESDT ei td am s) (\<lambda>_. True)" for td am s
    unfolding addTokenTypeAndCurrentOwnerInAccountsESDT_def by (intro keeps_if keeps_ok keeps_multiget cl TrueI)
  have esdt: "keeps (at_least n) (saveAccountsESDT ei ts as us tc s b1) (H \<circ> fst)" if "H b1" for ts as us tc s b1
    unfolding saveAccountsESDT_def Let_def case_prod_unfold
    by (intro keeps_bind [OF owner] keeps_add [OF H(1) adds_parts(13)] keeps_add [OF H(1) adds_parts(12)] keeps_ok) (simp_all add: that)
  have "keeps (at_least n) (indexAlteredAccounts ei ts us acs tc s b) (H \<circ> fst)" for ts us acs tc s
    unfolding indexAlteredAccounts_def Let_def case_prod_unfold by (intro keeps_add [OF H(1) adds_more_parts(2) H(2)] esdt)
  then show ?thesis unfolding index_accounts_part_def case_prod_unfold
    by (rule keeps_bind) (intro keeps_lasting H(1) adds_intros, simp)
qed

lemma keeps_tokens_held:
  assumes cl: "dbClient ei = cl" and H: "lasting H" "H b" and h: "handler_reads bulks (indexTokensHandler ei)"
  shows "keeps (at_least n) (index_tokens_part ei obh ld pr b) H"
proof -
  have "keeps (at_least n) (type_handler ei ty index s page) (\<lambda>_. True)" for ty index s page
    unfolding type_handler_def by (intro keeps_pure keeps_doBulkRequests cl) simp
  then have types: "keeps (at_least n) (addTokenType ei ts index s) (\<lambda>_. True)" for ts index s
    by (intro keeps_addTokenType cl)
  have toks: "keeps (at_least n) (indexTokens ei ts us s b) H" for ts us s
    unfolding indexTokens_def by (intro keeps_add [OF H(1) adds_parts(14)] keeps_bind [OF types] keeps_ok H(2))
  show ?thesis unfolding index_tokens_part_def
    by (intro keeps_bind [OF toks] keeps_add [OF H(1) adds_parts(8)] keeps_bind [OF keeps_nft_held(2) [OF cl H(1)]] keeps_add [OF H(1) adds_parts(7)]
        keeps_add [OF H(1) adds_parts(9)] keeps_cross_held cl h H(1))
qed

end

text \<open>The action of a smart contract result.\<close>

definition scr_action :: "string \<Rightarrow> ScResult \<Rightarrow> (bytes \<times> bytes) result" where
  "scr_action index sc = bindr (Marshal (ScResult_json sc)) (\<lambda>d. Inr (spaced_index_meta index (scr_Hash sc), d))"

lemma SerializeScResults_actions:
  "SerializeScResults rs index = fold_r (\<lambda>x b. bindr (scr_action index x) (\<lambda>(m, d). PutData m d b)) rs"
proof -
  have "(\<lambda>b. bindr (Marshal (ScResult_json x)) (\<lambda>d. PutData (spaced_index_meta index (scr_Hash x)) d b)) =
      (\<lambda>b. bindr (scr_action index x) (\<lambda>(m, d). PutData m d b))" for x
    by (cases "Marshal (ScResult_json x)") (simp_all add: scr_action_def)
  then show ?thesis by (simp add: SerializeScResults_def)
qed

lemma scresults_held:
  assumes "isIndexEnabled ei ScResultsIndex" and "buff_inv b" and "indexScResults ei rs b = Inr b'"
  shows "all_held (scr_action ScResultsIndex) rs b'"
  using assms put_docs_held [OF assms(2), of "scr_action ScResultsIndex" rs b'] adds_parts(4) [of ei rs]
  by (auto simp: indexScResults_def SerializeScResults_actions all_held_def adds_def)

lemma transactions_held:
  assumes "isIndexEnabled ei TransactionsIndex" and b: "buff_inv b" and "indexTransactions ei ts st s b = Inr b'"
  shows "all_held (\<lambda>tx. prepareSerializedDataForATransaction (pe_consts (ep_env ei)) tx s TransactionsIndex) ts b'"
proof -
  let ?p = "\<lambda>tx. prepareSerializedDataForATransaction (pe_consts (ep_env ei)) tx s TransactionsIndex"
  from assms(1,3) obtain b1 where b1: "fold_r (\<lambda>x b. bindr (?p x) (\<lambda>(m, d). PutData m d b)) ts b = Inr b1"
    and st: "serializeTxHashStatus (pe_status_json (ep_env ei)) st TransactionsIndex b1 = Inr b'"
    by (auto simp: indexTransactions_def SerializeTransactions_def bindr_Inr_iff)
  have "adds (fold_r (\<lambda>x b. bindr (?p x) (\<lambda>(m, d). PutData m d b)) ts)" by (intro adds_intros)
  with b b1 put_docs_held [OF b b1] have "all_held ?p ts b1" by (auto simp: all_held_def adds_def)
  with lasting_all_held [of ?p ts] adds_serializers(15) st show ?thesis unfolding lasting_def by blast
qed

definition tx_action :: "'w elasticProcessor \<Rightarrow> u32 \<Rightarrow> Transaction \<Rightarrow> (bytes \<times> bytes) result" where
  "tx_action ei s tx = prepareSerializedDataForATransaction (pe_consts (ep_env ei)) tx s TransactionsIndex"

definition block_held :: "'w elasticProcessor \<Rightarrow> u32 \<Rightarrow> PreparedResults \<Rightarrow> BufferSlice \<Rightarrow> bool" where
  "block_held ei s pr b \<longleftrightarrow>
     all_held (tx_action ei s) (pr_Transactions pr) b \<and> all_held (scr_action ScResultsIndex) (pr_ScResults pr) b"

lemma lasting_block_held: "lasting (block_held ei s pr)"
  using lasting_conj [OF lasting_all_held lasting_all_held] by (simp add: block_held_def [abs_def])

context bulk_client
begin

lemma keeps_transactions_held:
  assumes cl: "dbClient ei = cl" and on: "isIndexEnabled ei TransactionsIndex" "isIndexEnabled ei ScResultsIndex"
  shows "keeps (at_least n) (index_transactions_part ei obh h ld pr (NewBufferSlice t)) (block_held ei (h_ShardID h) pr)"
proof -
  let ?A = "all_held (tx_action ei (h_ShardID h)) (pr_Transactions pr)"
  note tx = transactions_held [OF on(1), folded tx_action_def]
  have scr: "block_held ei (h_ShardID h) pr b'" if A: "?A b" and run: "indexScResults ei (pr_ScResults pr) b = Inr b'" for b b'
  proof -
    from A have "buff_inv b" by (simp add: all_held_def)
    from scresults_held [OF on(2) this run] have "all_held (scr_action ScResultsIndex) (pr_ScResults pr) b'" .
    moreover have "?A b'" using lasting_all_held A run adds_parts(4) unfolding lasting_def by blast
    ultimately show ?thesis by (simp add: block_held_def)
  qed
  show ?thesis
    unfolding index_transactions_part_def
    by (rule keeps_bind [OF keeps_of [of _ ?A]], erule tx [rotated], simp,
        rule keeps_add [OF lasting_all_held adds_more_parts(1)], assumption,
        rule keeps_add [OF lasting_all_held adds_fees], assumption,
        rule keeps_bind [OF keeps_nft_held(1) [OF cl lasting_all_held]], assumption,
        rule keeps_add [OF lasting_all_held adds_parts(2)], assumption,
        rule keeps_add [OF lasting_all_held adds_parts(3)], assumption,
        rule keeps_bind [OF keeps_of [of _ "block_held ei (h_ShardID h) pr"]], erule scr, assumption,
        rule keeps_lasting [OF lasting_block_held adds_parts(5)], assumption)
qed

lemma block_delivered:
  assumes cl: "dbClient ei = cl" and reads: "handler_reads bulks (indexTokensHandler ei)"
    and on: "isIndexEnabled ei TransactionsIndex" "isIndexEnabled ei ScResultsIndex"
    and obh: "ob_Header obh = Some h" "ob_BlockData obh = Some bd" "bd_Body bd = Some body"
    and prep: "prepared_block (ep_env ei) (importDB ei) h (body @ bd_IntraShardMiniBlocks bd) (ob_TransactionPool obh) (ob_NumberOfShards obh) = Inr (ld, pr)"
    and run: "SaveTransactions ei obh w = (Inr (), w')"
  shows "\<exists>b. block_held ei (h_ShardID h) pr b \<and> set (Buffers b) \<subseteq> set (drop (length (bulks w)) (bulks w'))"
proof -
  from run obtain b1 w1 b2 w2 b3 w3 where
    r1: "index_transactions_part ei obh h ld pr (NewBufferSlice (bulkRequestMaxSize ei)) w = (Inr b1, w1)" and
    r2: "index_accounts_part ei obh h ld b1 w1 = (Inr b2, w2)" and r3: "index_tokens_part ei obh ld pr b2 w2 = (Inr b3, w3)" and
    r4: "doBulkRequests ei [] (Buffers b3) (ob_ShardID obh) w3 = (Inr (), w')"
    by (auto simp: SaveTransactions_def obh prep io_bind_Inr)
  note k1 = keeps_transactions_held [OF cl on, where n = "length (bulks w)" and obh = obh and h = h and ld = ld and pr = pr
      and t = "bulkRequestMaxSize ei"]
  have h1: "block_held ei (h_ShardID h) pr b1" "length (bulks w) \<le> length (bulks w1)"
    using keeps_result [OF k1 _ r1] keepsD [OF k1, where w = w, unfolded r1] by simp_all
  note k2 = keeps_accounts_held [OF cl lasting_block_held h1(1), where n = "length (bulks w)" and obh = obh and h = h and ld = ld]
  have h2: "block_held ei (h_ShardID h) pr b2" "length (bulks w) \<le> length (bulks w2)"
    using keeps_result [OF k2 h1(2) r2] keepsD [OF k2 h1(2), unfolded r2] by simp_all
  note k3 = keeps_tokens_held [OF cl lasting_block_held h2(1) reads, where n = "length (bulks w)" and obh = obh and ld = ld and pr = pr]
  have h3: "block_held ei (h_ShardID h) pr b3" "length (bulks w) \<le> length (bulks w3)"
    using keeps_result [OF k3 h2(2) r3] keepsD [OF k3 h2(2), unfolded r3] by simp_all
  have "set (Buffers b3) \<subseteq> set (drop (length (bulks w)) (bulks w'))"
    using doBulkRequests_sent [OF cl r4] h3(2) by auto
  with h3(1) show ?thesis by blast
qed

end

section \<open>Properties\<close>

text \<open>
  C36. When saving the transactions of a block ends without an error, every transaction and every smart contract result that
  was prepared from the block was sent: the text of its action is, whole, in one of the bodies of the bulk requests that this
  call made.  This holds for any answers of the server and whatever else the block writes in between.
\<close>

theorem saved_transactions_sent:
  assumes "dbClient ei = elastic_client n E" and "handler_reads bulk_bodies (indexTokensHandler ei)"
    and "isIndexEnabled ei TransactionsIndex" "isIndexEnabled ei ScResultsIndex"
    and "ob_Header obh = Some h" "ob_BlockData obh = Some bd" "bd_Body bd = Some body"
    and "prepared_block (ep_env ei) (importDB ei) h (body @ bd_IntraShardMiniBlocks bd) (ob_TransactionPool obh) (ob_NumberOfShards obh) = Inr (ld, pr)"
    and "SaveTransactions ei obh w = (Inr (), w')"
  shows "(\<forall>tx \<in> set (pr_Transactions pr). \<exists>e sent_body.
      prepareSerializedDataForATransaction (pe_consts (ep_env ei)) tx (h_ShardID h) TransactionsIndex = Inr e \<and>
      sent_body \<in> set (drop (length (bulk_bodies w)) (bulk_bodies w')) \<and> sublist (entry_text e) sent_body) \<and>
    (\<forall>scr \<in> set (pr_ScResults pr). \<exists>d sent_body. Marshal (ScResult_json scr) = Inr d \<and>
      sent_body \<in> set (drop (length (bulk_bodies w)) (bulk_bodies w')) \<and>
      sublist (entry_text (spaced_index_meta ScResultsIndex (scr_Hash scr), d)) sent_body)"
proof -
  from es.block_delivered [OF assms] obtain b where b: "block_held ei (h_ShardID h) pr b"
    and sent: "set (Buffers b) \<subseteq> set (drop (length (bulk_bodies w)) (bulk_bodies w'))" by blast
  have "\<exists>sent_body \<in> set (drop (length (bulk_bodies w)) (bulk_bodies w')). sublist t sent_body" if "held t b" for t
    using that sent by (auto simp: held_def list_ex_iff Buffers_def)
  then show ?thesis
    using b by (fastforce simp: block_held_def all_held_def tx_action_def scr_action_def bindr_Inr_iff)
qed

text \<open>A block with one reward, indexed through a server that accepts every request.\<close>

definition accepting_es :: es_lib where
  "accepting_es = \<lparr>es_answer = (\<lambda>h. Inr \<lparr>rs_StatusCode = 200, rs_Body = Body ''{}''\<rparr>),
     es_IsError = (\<lambda>r. rs_StatusCode r > 299), es_String = (\<lambda>_. []), gjson_Uint = (\<lambda>_ _. 0),
     gjson_Int = (\<lambda>_ _. 0), gjson_String = (\<lambda>_ _. [])\<rparr>"

definition demo_env :: processor_env where
  "demo_env = \<lparr>pe_lib = demo_lib, pe_blocks = demo_block_lib, pe_consts = demo_consts, pe_balance = demo_converter,
     pe_rewardSender = ''4294967295'', pe_extractor = ExtractExecutedTxHashes, pe_status_json = (\<lambda>_. JObj []),
     pe_epoch_fees = (\<lambda>_. (0, 0)), pe_delegator_hash = (\<lambda>_. []), pe_validators_lib = demo_lib, pe_validators_bulk = 0,
     pe_prefixed = (\<lambda>_. ([], False))\<rparr>"

definition demo_processor :: "elasticClient elasticProcessor" where
  "demo_processor = \<lparr>bulkRequestMaxSize = 0, importDB = False, enabledIndexes = [BlockIndex, MiniblocksIndex, TransactionsIndex, ScResultsIndex],
     dbClient = elastic_client 1 accepting_es, ep_env = demo_env, indexTokensHandler = DisabledIndexTokensHandler\<rparr>"

definition demo_obh :: OutportBlock where
  "demo_obh = OutportBlockWithHeader.extend ((demo_block [])\<lparr>ob_BlockData := Some \<lparr>bd_HeaderBytes = ''h'', bd_HeaderType = ''H'', bd_HeaderHash = ''hh'',
       bd_Body = Some [demo_mb RewardsBlock [''a'', ''b'', ''c'']], bd_IntraShardMiniBlocks = []\<rparr>\<rparr>) (OutportBlock.fields 0 2 [])"

abbreviation new_client :: elasticClient where
  "new_client \<equiv> \<lparr>es_calls = [], countScroll = 0\<rparr>"

lemma demo_accepts: "DoBulkRequest (elastic_client n accepting_es) ctx b i w = (Inr (), w\<lparr>es_calls := es_calls w @ [BulkCall ctx i b]\<rparr>)"
proof -
  have "elasticBulkRequestResponseHandler accepting_es \<lparr>rs_StatusCode = 200, rs_Body = Body ''{}''\<rparr> = Inr ()" by code_simp
  then show ?thesis by (simp add: elastic_client_def DoBulkRequest_es_def es_do_def io_bind_def io_of_def accepting_es_def)
qed

lemma demo_bulks: "dbClient ei = elastic_client n accepting_es \<Longrightarrow> fst (doBulkRequests ei i bufs s w) = Inr ()"
  by (induction bufs arbitrary: w) (simp_all add: io_ok_def io_bind_def demo_accepts)

lemma finite_fields:
  "list_all (json_finite \<circ> snd) (f_str k s)" "list_all (json_finite \<circ> snd) (f_uint k n)" "list_all (json_finite \<circ> snd) (f_bytes k s)"
  "list_all (json_finite \<circ> snd) (f_time k t)" "list_all (json_finite \<circ> snd) (o_str k s)" "list_all (json_finite \<circ> snd) (o_bytes k s)"
  "list_all (json_finite \<circ> snd) (o_bool k b)" "list_all (json_finite \<circ> snd) (o_uint k n)"
  "list_all (json_finite \<circ> snd) (o_list k JStr ss)" "list_all (json_finite \<circ> snd) (o_list k (JInt \<circ> uint) ns)"
  by (simp_all add: f_str_def f_uint_def f_bytes_def f_bool_def f_time_def o_str_def o_bytes_def o_bool_def o_uint_def o_list_def
      omit_empty_def json_bytes_def json_list_def list_all_iff)

lemma Transaction_json_finite:
  assumes "f64_finite (tx_ValueNum t)" "f64_finite (tx_FeeNum t)" "tx_ESDTValuesNum t = []"
  shows "json_finite (Transaction_json t)"
proof -
  have o: "json_finite (JObj kvs) = list_all (json_finite \<circ> snd) kvs" for kvs by (simp add: list_all_iff comp_def)
  show ?thesis unfolding Transaction_json_def o list_all_append
    by (simp only: finite_fields simp_thms) (simp add: assms f_float_def o_list_def omit_empty_def)
qed

lemma demo_marshal: "\<exists>t. Marshal (Transaction_json demo_reward_doc) = Inr t"
proof -
  have "f64_finite (num_or_zero (ConvertBigValueToFloat demo_lib demo_converter (Some 5)))"
    using computeBalanceAsFloat_cases [of demo_converter 1 1 demo_lib 5]
    by (auto simp: num_or_zero_def ConvertBigValueToFloat_def demo_converter_def demo_lib_def split: if_splits)
  then have "json_finite (Transaction_json demo_reward_doc)"
    by (intro Transaction_json_finite)
      (simp_all add: demo_reward_doc_def prepareRewardTransaction_def zeroTransaction_def demo_reward_def Let_def)
  then show ?thesis by (simp add: Marshal_def)
qed

lemma demo_truncate: "Header.truncate demo_full_header = demo_header"
  by (simp add: Header.truncate_def demo_full_header_def demo_header_def)

lemma demo_block_prepared:
  obtains ld where "prepared_block demo_env False demo_full_header [demo_mb RewardsBlock [''a'', ''b'', ''c'']] (Some demo_pool) 2 =
     Inr (ld, demo_prepared)"
    and "plr_Tokens ld = []" "plr_TokensSupply ld = []" "plr_TxHashStatusInfo ld = []" "plr_TokensInfo ld = []"
    and "plr_NFTsDataUpdates ld = []"
proof -
  let ?lg = "newLogsData 7 (pr_Transactions demo_prepared) (pr_ScResults demo_prepared)"
  have "prepared_block demo_env False demo_full_header [demo_mb RewardsBlock [''a'', ''b'', ''c'']] (Some demo_pool) 2 =
      ExtractDataFromLogs demo_lib demo_consts demo_converter [] demo_prepared 7 0 2"
    by (simp add: prepared_block_def demo_truncate demo_env_def demo_pool_def [symmetric] Let_def)
      (simp add: demo_full_header_def demo_pool_def)
  then show thesis by (intro that) (auto simp: ExtractDataFromLogs_def newLogsData_def NewTokensInfo_def
      newTxHashStatusInfoProcessor_def getAllRecords_def)
qed

lemma demo_processor_simps:
  "dbClient demo_processor = elastic_client 1 accepting_es" "indexTokensHandler demo_processor = DisabledIndexTokensHandler"
  "isIndexEnabled demo_processor TransactionsIndex" "isIndexEnabled demo_processor ScResultsIndex"
  "ep_env demo_processor = demo_env" "importDB demo_processor = False" "bulkRequestMaxSize demo_processor = 0"
  "pe_consts demo_env = demo_consts"
  by (simp_all add: demo_processor_def isIndexEnabled_def demo_env_def)

lemma demo_processor_off:
  "i \<in> {OperationsIndex, TokensIndex, LogsIndex, EventsIndex, ReceiptsIndex, AccountsIndex, AccountsHistoryIndex, AccountsESDTIndex,
     AccountsESDTHistoryIndex, TagsIndex, ESDTsIndex, DelegatorsIndex, SCDeploysIndex} \<Longrightarrow> \<not> isIndexEnabled demo_processor i"
  by (auto simp: demo_processor_def isIndexEnabled_def index_names)

lemma demo_obh_simps:
  "ob_Header demo_obh = Some demo_full_header"
  "ob_BlockData demo_obh = Some \<lparr>bd_HeaderBytes = ''h'', bd_HeaderType = ''H'', bd_HeaderHash = ''hh'',
     bd_Body = Some [demo_mb RewardsBlock [''a'', ''b'', ''c'']], bd_IntraShardMiniBlocks = []\<rparr>"
  "ob_TransactionPool demo_obh = Some demo_pool" "ob_NumberOfShards demo_obh = 2" "ob_ShardID demo_obh = 0"
  "ob_AlteredAccounts demo_obh = []"
  by (simp_all add: demo_obh_def OutportBlockWithHeader.extend_def OutportBlock.fields_def demo_block_def)

lemma demo_prepared_rest: "pr_ScResults demo_prepared = []" "pr_TxHashFee demo_prepared = []"
proof -
  have scrs: "processSCRs demo_lib demo_converter [demo_mb RewardsBlock [''a'', ''b'', ''c'']] demo_header
      (tp_SmartContractResults demo_pool) 2 = []" by code_simp
  show "pr_ScResults demo_prepared = []" by (simp add: prepared_results(2) scrs)
  show "pr_TxHashFee demo_prepared = []"
    by (simp add: prepared_results(3) scrs attachSCRs_spec processSCRsWithoutTx_def)
qed

lemma demo_saved: "fst (SaveTransactions demo_processor demo_obh new_client) = Inr ()"
proof -
  obtain ld where ld: "prepared_block demo_env False demo_full_header [demo_mb RewardsBlock [''a'', ''b'', ''c'']] (Some demo_pool) 2 =
     Inr (ld, demo_prepared)" and empty: "plr_Tokens ld = []" "plr_TokensSupply ld = []" "plr_TxHashStatusInfo ld = []"
     "plr_TokensInfo ld = []" "plr_NFTsDataUpdates ld = []" by (rule demo_block_prepared)
  obtain m d where md: "prepareSerializedDataForATransaction demo_consts demo_reward_doc 0 TransactionsIndex = Inr (m, d)"
    using demo_marshal by (fastforce simp: prepareSerializedDataForATransaction_def Let_def)
  obtain b where b: "PutData m d (NewBufferSlice 0) = Inr b" using PutData_inv [of "NewBufferSlice 0" m d] by (auto)
  have h: "h_ShardID demo_full_header = 0" by (simp add: demo_full_header_def)
  have tx: "index_transactions_part demo_processor demo_obh demo_full_header ld demo_prepared (NewBufferSlice 0) w = (Inr b, w)" for w
    unfolding index_transactions_part_def
    by (simp add: part_defs demo_processor_simps demo_processor_off h SerializeTransactions_def demo_prepared_txs md b empty serializeTxHashStatus_def
        prepareAndIndexOperations_def indexTransactionsFeeData_def demo_prepared_rest indexNFTCreateInfo_def SerializeScResults_def
        io_of_def io_ok_def)
  have ac: "index_accounts_part demo_processor demo_obh demo_full_header ld b w = (Inr b, w)" for w
    unfolding index_accounts_part_def indexAlteredAccounts_def saveAccounts_def saveAccountsESDT_def
    by (simp add: part_defs demo_processor_simps demo_processor_off demo_obh_simps GetAccounts_def PrepareAccountsMapESDT_def
        addTokenTypeAndCurrentOwnerInAccountsESDT_def gm_values_def NewTokensInfo_def TokensLen_def Let_def io_of_def io_ok_def
        io_bind_def)
  have tk: "index_tokens_part demo_processor demo_obh ld demo_prepared b w = (Inr b, w)" for w
    unfolding index_tokens_part_def indexTokens_def
    by (simp add: part_defs demo_processor_simps demo_processor_off empty indexNFTBurnInfo_def IndexCrossChainTokens_def io_of_def io_ok_def io_bind_def)
  show ?thesis
    by (simp add: SaveTransactions_def demo_obh_simps ld demo_processor_simps io_bind_def io_of_def tx ac tk demo_bulks)
qed

theorem saved_transactions_sent_witness:
  "\<exists>e sent_body. prepareSerializedDataForATransaction demo_consts demo_reward_doc 0 TransactionsIndex = Inr e \<and>
     sent_body \<in> set (bulk_bodies (snd (SaveTransactions demo_processor demo_obh new_client))) \<and> sublist (entry_text e) sent_body"
proof -
  obtain ld where ld: "prepared_block demo_env False demo_full_header [demo_mb RewardsBlock [''a'', ''b'', ''c'']] (Some demo_pool) 2 =
     Inr (ld, demo_prepared)" by (rule demo_block_prepared)
  have run: "SaveTransactions demo_processor demo_obh new_client = (Inr (), snd (SaveTransactions demo_processor demo_obh new_client))"
    using demo_saved by (metis prod.collapse)
  have "h_ShardID demo_full_header = 0" "bulk_bodies new_client = []" by (simp_all add: demo_full_header_def bulk_bodies_def List.map_filter_def)
  moreover have "demo_reward_doc \<in> set (pr_Transactions demo_prepared)" by (simp add: demo_prepared_txs)
  ultimately show ?thesis
    using saved_transactions_sent [OF demo_processor_simps(1) _ demo_processor_simps(3,4) demo_obh_simps(1,2) _ _ run, of _ ld demo_prepared]
    by (fastforce simp: demo_processor_simps handler_reads_def demo_obh_simps ld)
qed

end
