(* ===== verification/Data_Indexer.thy ===== *)
theory Data_Indexer
  imports Delivery
begin

text \<open>
  The data indexer (\<^verbatim>\<open>process/dataindexer/dataIndexer.go\<close>) over the interface \<^verbatim>\<open>ElasticProcessor\<close> of
  \<^verbatim>\<open>process/dataindexer/interface.go\<close>: it decodes the header of a block, saves the header, the miniblocks and the
  transactions, and takes a block back by removing them.  The container of header creators and the decoding of a header
  belong to the core library and are parameters.  The interface is a record of operations; the locale
  \<open>processor_contract\<close> states what the data indexer relies on.
\<close>

section \<open>The interface\<close>

record 's ElasticProcessor =
  ep_SaveHeader :: "OutportBlock \<Rightarrow> ('s, unit) io"
  ep_RemoveHeader :: "HeaderFull \<Rightarrow> ('s, unit) io"
  ep_RemoveMiniblocks :: "HeaderFull \<Rightarrow> MiniBlock list option \<Rightarrow> ('s, unit) io"
  ep_RemoveTransactions :: "HeaderFull \<Rightarrow> MiniBlock list option \<Rightarrow> ('s, unit) io"
  ep_RemoveAccountsESDT :: "u64 \<Rightarrow> u32 \<Rightarrow> ('s, unit) io"
  ep_SaveMiniblocks :: "HeaderFull \<Rightarrow> MiniBlock list \<Rightarrow> ('s, unit) io"
  ep_SaveTransactions :: "OutportBlock \<Rightarrow> ('s, unit) io"
  ep_SaveValidatorsRating :: "ValidatorsRating \<Rightarrow> ('s, unit) io"
  ep_SaveRoundsInfo :: "RoundsInfo \<Rightarrow> ('s, unit) io"
  ep_SaveShardValidatorsPubKeys :: "ValidatorsPubKeys \<Rightarrow> ('s, unit) io"
  ep_SetOutportConfig :: "bool \<Rightarrow> ('s, unit) io"
  ep_SaveAccounts :: "Accounts \<Rightarrow> ('s, unit) io"

text \<open>The Elasticsearch processor as an instance: its state is the processor itself and the world of its client.\<close>

type_synonym 'w processor_state = "'w elasticProcessor \<times> 'w"

definition on_client :: "('w elasticProcessor \<Rightarrow> ('w, 'a) io) \<Rightarrow> ('w processor_state, 'a) io" where
  "on_client op = (\<lambda>(ei, w). case op ei w of (r, w1) \<Rightarrow> (r, (ei, w1)))"

definition elastic_processor :: "'w processor_state ElasticProcessor" where
  "elastic_processor =
     \<lparr>ep_SaveHeader = (\<lambda>obh. on_client (\<lambda>ei. SaveHeader ei obh)),
      ep_RemoveHeader = (\<lambda>header. on_client (\<lambda>ei. RemoveHeader ei header)),
      ep_RemoveMiniblocks = (\<lambda>header body. on_client (\<lambda>ei. RemoveMiniblocks ei header body)),
      ep_RemoveTransactions = (\<lambda>header body. on_client (\<lambda>ei. RemoveTransactions ei header body)),
      ep_RemoveAccountsESDT = (\<lambda>ts shardID. on_client (\<lambda>ei. RemoveAccountsESDT ei ts shardID)),
      ep_SaveMiniblocks = (\<lambda>header mbs. on_client (\<lambda>ei. SaveMiniblocks ei header mbs)),
      ep_SaveTransactions = (\<lambda>obh. on_client (\<lambda>ei. SaveTransactions ei obh)),
      ep_SaveValidatorsRating = (\<lambda>r. on_client (\<lambda>ei. SaveValidatorsRating ei r)),
      ep_SaveRoundsInfo = (\<lambda>r. on_client (\<lambda>ei. SaveRoundsInfo ei r)),
      ep_SaveShardValidatorsPubKeys = (\<lambda>ks. on_client (\<lambda>ei. SaveShardValidatorsPubKeys ei ks)),
      ep_SetOutportConfig = (\<lambda>isInImportDBMode (ei, w). (Inr (), (SetOutportConfig isInImportDBMode ei, w))),
      ep_SaveAccounts = (\<lambda>a. on_client (\<lambda>ei. SaveAccounts ei a))\<rparr>"

section \<open>Operations\<close>

record ('s, 'c) dataIndexer =
  di_elasticProcessor :: "'s ElasticProcessor"
  di_creator :: "string \<Rightarrow> 'c result"
  di_GetHeaderFromBytes :: "'c \<Rightarrow> bytes \<Rightarrow> HeaderFull result"

definition checkIndexerArgs :: "bool \<Rightarrow> bool \<Rightarrow> bool \<Rightarrow> unit result" where
  "checkIndexerArgs has_processor has_marshaller has_container =
     (if \<not> has_processor then Inl ErrNilElasticProcessor
      else if \<not> has_marshaller then Inl ErrNilMarshalizer
      else if \<not> has_container then Inl ErrNilBlockContainerHandler else Inr ())"

definition NewDataIndexer ::
    "'s ElasticProcessor option \<Rightarrow> ('c \<Rightarrow> bytes \<Rightarrow> HeaderFull result) option \<Rightarrow> (string \<Rightarrow> 'c result) option
     \<Rightarrow> ('s, 'c) dataIndexer result" where
  "NewDataIndexer proc marshaller container =
     bindr (checkIndexerArgs (proc \<noteq> None) (marshaller \<noteq> None) (container \<noteq> None)) (\<lambda>_.
       Inr \<lparr>di_elasticProcessor = the proc, di_creator = the container, di_GetHeaderFromBytes = the marshaller\<rparr>)"

definition getHeaderFromBytes :: "('s, 'c) dataIndexer \<Rightarrow> string \<Rightarrow> bytes \<Rightarrow> HeaderFull result" where
  "getHeaderFromBytes di headerType headerBytes =
     bindr (di_creator di headerType) (\<lambda>creator. di_GetHeaderFromBytes di creator headerBytes)"

definition saving_error :: "string \<Rightarrow> bytes \<Rightarrow> u64 \<Rightarrow> string" where
  "saving_error what headerHash headerNonce =
     ''when saving '' @ what @ '' hash '' @ hex_encode headerHash @ '', nonce '' @ dec_nat (unat headerNonce)"

definition saveBlockData :: "('s, 'c) dataIndexer \<Rightarrow> OutportBlock \<Rightarrow> BlockData \<Rightarrow> HeaderFull \<Rightarrow> ('s, unit) io" where
  "saveBlockData di outportBlock bd header =
     (let proc = di_elasticProcessor di; outportBlockWithHeader = outportBlock\<lparr>ob_Header := Some header\<rparr>;
          headerHash = bd_HeaderHash bd; headerNonce = h_Nonce header in
      io_bind (io_wrap (saving_error ''header block,'' headerHash headerNonce) (ep_SaveHeader proc outportBlockWithHeader)) (\<lambda>_.
      case bd_Body bd of
        None \<Rightarrow> io_fail PanicNilDereference
      | Some mbs \<Rightarrow>
          if mbs = [] then io_ok ()
          else
            io_bind (io_wrap (saving_error ''miniblocks, block'' headerHash headerNonce)
                       (ep_SaveMiniblocks proc header (mbs @ bd_IntraShardMiniBlocks bd))) (\<lambda>_.
            io_wrap (saving_error ''transactions, block'' headerHash headerNonce)
              (ep_SaveTransactions proc outportBlockWithHeader))))"

definition emptyPool :: TransactionPool where
  "emptyPool = \<lparr>tp_Transactions = [], tp_SmartContractResults = [], tp_Rewards = [], tp_InvalidTxs = [], tp_Receipts = [], tp_Logs = []\<rparr>"

definition with_pool :: "OutportBlock \<Rightarrow> OutportBlock" where
  "with_pool ob = (if ob_TransactionPool ob = None then ob\<lparr>ob_TransactionPool := Some emptyPool\<rparr> else ob)"

definition SaveBlock :: "('s, 'c) dataIndexer \<Rightarrow> OutportBlock \<Rightarrow> ('s, unit) io" where
  "SaveBlock di outportBlock =
     (case ob_BlockData outportBlock of
        None \<Rightarrow> io_fail PanicNilDereference
      | Some bd \<Rightarrow>
          io_bind (io_of (getHeaderFromBytes di (bd_HeaderType bd) (bd_HeaderBytes bd))) (\<lambda>header.
            saveBlockData di (with_pool outportBlock) bd header))"

definition RevertIndexedBlock :: "('s, 'c) dataIndexer \<Rightarrow> BlockData \<Rightarrow> ('s, unit) io" where
  "RevertIndexedBlock di blockData =
     (let proc = di_elasticProcessor di in
      io_bind (io_of (getHeaderFromBytes di (bd_HeaderType blockData) (bd_HeaderBytes blockData))) (\<lambda>header.
      io_bind (ep_RemoveHeader proc header) (\<lambda>_.
      io_bind (ep_RemoveMiniblocks proc header (bd_Body blockData)) (\<lambda>_.
      io_bind (ep_RemoveTransactions proc header (bd_Body blockData)) (\<lambda>_.
        ep_RemoveAccountsESDT proc (h_TimeStamp header) (h_ShardID header))))))"

definition di_SaveRoundsInfo :: "('s, 'c) dataIndexer \<Rightarrow> RoundsInfo \<Rightarrow> ('s, unit) io" where
  "di_SaveRoundsInfo di rounds = ep_SaveRoundsInfo (di_elasticProcessor di) rounds"

definition di_SaveValidatorsRating :: "('s, 'c) dataIndexer \<Rightarrow> ValidatorsRating \<Rightarrow> ('s, unit) io" where
  "di_SaveValidatorsRating di ratingData = ep_SaveValidatorsRating (di_elasticProcessor di) ratingData"

definition di_SaveValidatorsPubKeys :: "('s, 'c) dataIndexer \<Rightarrow> ValidatorsPubKeys \<Rightarrow> ('s, unit) io" where
  "di_SaveValidatorsPubKeys di validatorsPubKeys = ep_SaveShardValidatorsPubKeys (di_elasticProcessor di) validatorsPubKeys"

definition di_SaveAccounts :: "('s, 'c) dataIndexer \<Rightarrow> Accounts \<Rightarrow> ('s, unit) io" where
  "di_SaveAccounts di accounts = ep_SaveAccounts (di_elasticProcessor di) accounts"

definition FinalizedBlock :: "('s, 'c) dataIndexer \<Rightarrow> ('s, unit) io" where
  "FinalizedBlock di = io_ok ()"

definition SetCurrentSettings :: "('s, 'c) dataIndexer \<Rightarrow> bool \<Rightarrow> ('s, unit) io" where
  "SetCurrentSettings di isInImportDBMode = ep_SetOutportConfig (di_elasticProcessor di) isInImportDBMode"

section \<open>Sequences of operations\<close>

datatype di_op =
    OpSaveBlock OutportBlock
  | OpRevert BlockData
  | OpRounds RoundsInfo
  | OpRating ValidatorsRating
  | OpPubKeys ValidatorsPubKeys
  | OpAccounts Accounts
  | OpFinalized
  | OpSettings bool

fun di_run :: "('s, 'c) dataIndexer \<Rightarrow> di_op \<Rightarrow> ('s, unit) io" where
  "di_run di (OpSaveBlock b) = SaveBlock di b"
| "di_run di (OpRevert b) = RevertIndexedBlock di b"
| "di_run di (OpRounds r) = di_SaveRoundsInfo di r"
| "di_run di (OpRating r) = di_SaveValidatorsRating di r"
| "di_run di (OpPubKeys ks) = di_SaveValidatorsPubKeys di ks"
| "di_run di (OpAccounts a) = di_SaveAccounts di a"
| "di_run di OpFinalized = FinalizedBlock di"
| "di_run di (OpSettings i) = SetCurrentSettings di i"

text \<open>The states that operations with good arguments lead to; an operation may fail, the next one starts from what it left.\<close>

inductive di_reachable :: "('s, 'c) dataIndexer \<Rightarrow> (di_op \<Rightarrow> bool) \<Rightarrow> 's \<Rightarrow> 's \<Rightarrow> bool" for di ok s0 where
  start: "di_reachable di ok s0 s0"
| step: "di_reachable di ok s0 s \<Longrightarrow> ok op \<Longrightarrow> di_reachable di ok s0 (snd (di_run di op s))"

definition block_to_save :: "('s, 'c) dataIndexer \<Rightarrow> OutportBlock \<Rightarrow> OutportBlock option" where
  "block_to_save di ob =
     (case ob_BlockData ob of None \<Rightarrow> None
      | Some bd \<Rightarrow> (case getHeaderFromBytes di (bd_HeaderType bd) (bd_HeaderBytes bd) of
          Inl _ \<Rightarrow> None | Inr header \<Rightarrow> Some ((with_pool ob)\<lparr>ob_Header := Some header\<rparr>)))"

fun op_plain :: "('s, 'c) dataIndexer \<Rightarrow> (OutportBlock \<Rightarrow> bool) \<Rightarrow> di_op \<Rightarrow> bool" where
  "op_plain di block_ok (OpSaveBlock ob) = (case block_to_save di ob of None \<Rightarrow> True | Some obh \<Rightarrow> block_ok obh)"
| "op_plain di block_ok (OpRating r) = rating_plain r"
| "op_plain di block_ok _ = True"

section \<open>What the data indexer relies on\<close>

locale processor_contract =
  fixes proc :: "'s ElasticProcessor" and Inv :: "'s \<Rightarrow> bool" and block_ok :: "OutportBlock \<Rightarrow> bool"
  assumes header_kept: "keeps Inv (ep_SaveHeader proc obh) (\<lambda>_. True)"
    and miniblocks_kept: "keeps Inv (ep_SaveMiniblocks proc h mbs) (\<lambda>_. True)"
    and transactions_kept: "block_ok obh \<Longrightarrow> keeps Inv (ep_SaveTransactions proc obh) (\<lambda>_. True)"
    and removals_kept: "keeps Inv (ep_RemoveHeader proc h) (\<lambda>_. True)" "keeps Inv (ep_RemoveMiniblocks proc h body) (\<lambda>_. True)"
      "keeps Inv (ep_RemoveTransactions proc h body) (\<lambda>_. True)" "keeps Inv (ep_RemoveAccountsESDT proc ts s) (\<lambda>_. True)"
    and rating_kept: "rating_plain r \<Longrightarrow> keeps Inv (ep_SaveValidatorsRating proc r) (\<lambda>_. True)"
    and others_kept: "keeps Inv (ep_SaveRoundsInfo proc rs) (\<lambda>_. True)" "keeps Inv (ep_SaveShardValidatorsPubKeys proc ks) (\<lambda>_. True)"
      "keeps Inv (ep_SetOutportConfig proc imp) (\<lambda>_. True)" "keeps Inv (ep_SaveAccounts proc a) (\<lambda>_. True)"
begin

lemma keeps_SaveBlock:
  assumes "di_elasticProcessor di = proc" and "op_plain di block_ok (OpSaveBlock ob)"
  shows "keeps Inv (SaveBlock di ob) (\<lambda>_. True)"
proof (cases "block_to_save di ob")
  case None
  then show ?thesis by (auto simp: SaveBlock_def block_to_save_def keeps_fail split: option.splits sum.splits)
next
  case (Some obh)
  then obtain bd header where bd: "ob_BlockData ob = Some bd" "getHeaderFromBytes di (bd_HeaderType bd) (bd_HeaderBytes bd) = Inr header"
    and obh: "obh = (with_pool ob)\<lparr>ob_Header := Some header\<rparr>"
    by (auto simp: block_to_save_def split: option.splits sum.splits)
  have "block_ok obh" using assms(2) Some by simp
  note keep = keeps_wrap [OF transactions_kept [OF this]]
  have "keeps Inv (saveBlockData di (with_pool ob) bd header) (\<lambda>_. True)"
    unfolding saveBlockData_def Let_def assms(1) obh [symmetric]
    by (rule keeps_bind [OF keeps_wrap [OF header_kept]])
      (auto intro!: keeps_fail keeps_ok keeps_bind [OF keeps_wrap [OF miniblocks_kept]] keep split: option.split)
  then show ?thesis by (simp add: SaveBlock_def bd)
qed

lemma keeps_Revert:
  assumes "di_elasticProcessor di = proc"
  shows "keeps Inv (RevertIndexedBlock di bd) (\<lambda>_. True)"
  unfolding RevertIndexedBlock_def Let_def assms
  by (rule keeps_pure, rule keeps_bind [OF removals_kept(1)], rule keeps_bind [OF removals_kept(2)],
      rule keeps_bind [OF removals_kept(3)], rule removals_kept(4))

lemma keeps_run:
  assumes "di_elasticProcessor di = proc" and "op_plain di block_ok op"
  shows "keeps Inv (di_run di op) (\<lambda>_. True)"
  using assms keeps_SaveBlock [OF assms(1)] keeps_Revert [OF assms(1)]
  by (cases op) (auto simp: di_SaveRoundsInfo_def di_SaveValidatorsRating_def di_SaveValidatorsPubKeys_def di_SaveAccounts_def
      FinalizedBlock_def SetCurrentSettings_def others_kept rating_kept keeps_ok)

lemma reachable_Inv:
  assumes "di_elasticProcessor di = proc"
  shows "di_reachable di (op_plain di block_ok) s0 s \<Longrightarrow> Inv s0 \<Longrightarrow> Inv s"
  by (induction rule: di_reachable.induct) (auto dest: keepsD [OF keeps_run [OF assms]])

end

section \<open>The Elasticsearch processor keeps the contract\<close>

definition good_processor :: "nat \<Rightarrow> es_lib \<Rightarrow> processor_env \<Rightarrow> elasticClient elasticProcessor \<Rightarrow> bool" where
  "good_processor n E env ei \<longleftrightarrow>
     dbClient ei = elastic_client n E \<and> ep_env ei = env \<and> handler_reads bulk_bodies (indexTokensHandler ei)"

definition framed_state :: "nat \<Rightarrow> es_lib \<Rightarrow> processor_env \<Rightarrow> elasticClient processor_state \<Rightarrow> bool" where
  "framed_state n E env = (\<lambda>(ei, w). good_processor n E env ei \<and> list_all framed_text (bulk_bodies w))"

definition plain_for :: "processor_env \<Rightarrow> OutportBlock \<Rightarrow> bool" where
  "plain_for env obh \<longleftrightarrow> block_plain env False obh \<and> block_plain env True obh"

lemma keeps_op:
  assumes "\<And>ei. good_processor n E env ei \<Longrightarrow> keeps (\<lambda>w. list_all framed_text (bulk_bodies w)) (op ei) (\<lambda>_. True)"
  shows "keeps (framed_state n E env) (on_client op) (\<lambda>_. True)"
  using assms by (fastforce simp: keeps_def on_client_def framed_state_def split: prod.splits)

lemma keeps_settings: "keeps (framed_state n E env) (\<lambda>(ei, w). (Inr (), (SetOutportConfig b ei, w))) (\<lambda>_. True)"
  by (auto simp: keeps_def framed_state_def good_processor_def SetOutportConfig_def)

lemma plain_forD: "plain_for env obh \<Longrightarrow> block_plain env b obh"
  by (cases b) (simp_all add: plain_for_def)

interpretation framed: processor_contract elastic_processor "framed_state n E env" "plain_for env" for n E env
  by unfold_locales
    (auto simp: elastic_processor_def good_processor_def plain_forD
      intro!: keeps_op keeps_settings es.keeps_SaveHeader es.keeps_SaveMiniblocks es.keeps_SaveTransactions es.keeps_removals
        es.keeps_validators es.keeps_SaveAccounts)


definition demo_indexer :: "(elasticClient processor_state, unit) dataIndexer" where
  "demo_indexer = \<lparr>di_elasticProcessor = elastic_processor, di_creator = (\<lambda>_. Inr ()), di_GetHeaderFromBytes = (\<lambda>_ _. Inr demo_full_header)\<rparr>"

definition demo_rounds :: RoundsInfo where
  "demo_rounds = \<lparr>rsi_ShardID = 0, rsi_Rounds = [\<lparr>ri_Round = 7, ri_SignersIndexes = [1, 2], ri_BlockWasProposed = True, ri_ShardId = 0,
     ri_Epoch = 3, ri_Timestamp = 9\<rparr>]\<rparr>"

definition rounds_processor :: "elasticClient elasticProcessor" where
  "rounds_processor = demo_processor\<lparr>enabledIndexes := [RoundsIndex]\<rparr>"

definition demo_empty_obh :: OutportBlock where
  "demo_empty_obh = demo_obh\<lparr>ob_BlockData := Some \<lparr>bd_HeaderBytes = ''h'', bd_HeaderType = ''H'', bd_HeaderHash = ''hh'', bd_Body = Some [],
     bd_IntraShardMiniBlocks = []\<rparr>, ob_TransactionPool := None\<rparr>"

lemma demo_empty_plain: "op_plain demo_indexer (plain_for demo_env) (OpSaveBlock demo_empty_obh)"
proof -
  have scrs: "processSCRs L bc [] hdr [] m = []" for L bc hdr m by (simp add: processSCRs_def)
  have "logs_plain (pe_lib demo_env) ld pr" if "prepared_block demo_env imp demo_full_header [] (Some emptyPool) 2 = Inr (ld, pr)" for imp ld pr
    using that
    by (auto simp: prepared_block_def Let_def emptyPool_def ExtractDataFromLogs_def logs_plain_def newLogsData_def getAllRecords_def
        newTxHashStatusInfoProcessor_def prepared_results(3) scrs attachSCRs_spec processSCRsWithoutTx_def)
  then show ?thesis
    by (auto simp: block_to_save_def demo_empty_obh_def demo_indexer_def getHeaderFromBytes_def with_pool_def plain_for_def block_plain_def
        demo_obh_simps split: sum.split)
qed

lemma demo_rounds_run:
  "di_run demo_indexer (OpRounds demo_rounds) (rounds_processor, w) =
     (Inr (), (rounds_processor, w\<lparr>es_calls := es_calls w @
        [BulkCall (ExtendTopicWithShardID BulkTopic 0) RoundsIndex (SerializeRoundsInfo (rsi_Rounds demo_rounds))]\<rparr>))"
  by (simp add: di_SaveRoundsInfo_def demo_indexer_def elastic_processor_def on_client_def SaveRoundsInfo_def rounds_processor_def
      isIndexEnabled_def demo_processor_simps demo_accepts) (simp add: demo_rounds_def)


section \<open>Taking a block back\<close>

datatype change_request = Removed string string bytes | Updated string string bytes

text \<open>
  What a client has asked to be removed and updated, in order: the index, the topic of the request and the query.  Over
  the Elasticsearch client a removal is a request by query on the write index of the alias that was looked up before it.
\<close>

locale changing_client = bulk_client cl bulks for cl :: "'w DatabaseClientHandler" and bulks +
  fixes changes :: "'w \<Rightarrow> change_request list"
  assumes remove_changes: "DoQueryRemove cl ctx i b w = (Inr (), w') \<Longrightarrow> changes w' = changes w @ [Removed i ctx b]"
    and update_changes: "UpdateByQuery cl ctx i b w = (Inr (), w') \<Longrightarrow> changes w' = changes w @ [Updated i ctx b]"

definition hashes_request :: "string \<Rightarrow> u32 \<Rightarrow> string list \<Rightarrow> change_request list" where
  "hashes_request index shardID hashes =
     (if hashes = [] then [] else [Removed index (remove_topic shardID) (PrepareHashesForQueryRemove hashes)])"

definition block_request :: "string \<Rightarrow> HeaderFull \<Rightarrow> change_request" where
  "block_request index h = Removed index (remove_topic (h_ShardID h)) (timestamp_query (h_TimeStamp h) (h_ShardID h))"

text \<open>The requests that take a block back.\<close>

definition revert_requests :: "processor_env \<Rightarrow> HeaderFull \<Rightarrow> bytes \<Rightarrow> MiniBlock list \<Rightarrow> change_request list" where
  "revert_requests env h headerHash mbs =
     (let s = h_ShardID h;
          (txsHashes, scrsHashes) = GetHexEncodedHashesForRemove (Some (Header.truncate h)) (Some mbs) in
      hashes_request BlockIndex s [hex_encode headerHash] @
      hashes_request MiniblocksIndex s (GetMiniblocksHashesHexEncoded (pe_lib env) (Header.truncate h) (Some mbs)) @
      hashes_request TransactionsIndex s txsHashes @ hashes_request ScResultsIndex s scrsHashes @
      hashes_request OperationsIndex s (txsHashes @ scrsHashes) @ hashes_request LogsIndex s (txsHashes @ scrsHashes) @
      [block_request EventsIndex h] @
      (if s = k_MetachainShardId (pe_consts env) \<and> mbs \<noteq> []
       then [Updated DelegatorsIndex (ExtendTopicWithShardID UpdateTopic s) (PrepareDelegatorsQueryInCaseOfRevert (h_TimeStamp h))] else []) @
      [block_request AccountsESDTIndex h, block_request AccountsESDTHistoryIndex h])"

context changing_client
begin

lemma changes_removeIfHashesNotEmpty:
  assumes "dbClient ei = cl" and "removeIfHashesNotEmpty ei i hs s w = (Inr (), w')"
  shows "changes w' = changes w @ hashes_request i s hs"
  using assms remove_changes by (auto simp: removeIfHashesNotEmpty_def hashes_request_def io_ok_def split: if_splits)

lemma changes_by_timestamp:
  assumes "dbClient ei = cl" and "removeFromIndexByTimestampAndShardID ei (h_TimeStamp h) (h_ShardID h) i w = (Inr (), w')"
  shows "changes w' = changes w @ [block_request i h]"
  using assms remove_changes by (auto simp: removeFromIndexByTimestampAndShardID_def block_request_def)

lemma changes_RemoveTransactions:
  assumes cl: "dbClient ei = cl" and run: "RemoveTransactions ei h body w = (Inr (), w')"
  obtains mbs where "body = Some mbs"
    and "changes w' = changes w @ (let s = h_ShardID h; (ts, ss) = GetHexEncodedHashesForRemove (Some (Header.truncate h)) (Some mbs) in
      hashes_request TransactionsIndex s ts @ hashes_request ScResultsIndex s ss @
      hashes_request OperationsIndex s (ts @ ss) @ hashes_request LogsIndex s (ts @ ss) @ [block_request EventsIndex h] @
      (if s = k_MetachainShardId (pe_consts (ep_env ei)) \<and> mbs \<noteq> []
       then [Updated DelegatorsIndex (ExtendTopicWithShardID UpdateTopic s) (PrepareDelegatorsQueryInCaseOfRevert (h_TimeStamp h))] else []))"
proof -
  obtain ts ss where hs: "GetHexEncodedHashesForRemove (Some (Header.truncate h)) body = (ts, ss)" by fastforce
  let ?s = "h_ShardID h"
  from run hs obtain w1 w2 w3 w4 w5 where steps:
    "removeIfHashesNotEmpty ei TransactionsIndex ts ?s w = (Inr (), w1)" "removeIfHashesNotEmpty ei ScResultsIndex ss ?s w1 = (Inr (), w2)"
    "removeIfHashesNotEmpty ei OperationsIndex (ts @ ss) ?s w2 = (Inr (), w3)" "removeIfHashesNotEmpty ei LogsIndex (ts @ ss) ?s w3 = (Inr (), w4)"
    and ev: "removeFromIndexByTimestampAndShardID ei (h_TimeStamp h) ?s EventsIndex w4 = (Inr (), w5)"
    and up: "updateDelegatorsInCaseOfRevert ei h body w5 = (Inr (), w')"
    by (auto simp: RemoveTransactions_def Let_def io_bind_Inr)
  from up obtain mbs where mbs: "body = Some mbs" by (cases body) (auto simp: updateDelegatorsInCaseOfRevert_def io_fail_def)
  have "changes w' = changes w5 @ (if ?s = k_MetachainShardId (pe_consts (ep_env ei)) \<and> mbs \<noteq> []
       then [Updated DelegatorsIndex (ExtendTopicWithShardID UpdateTopic ?s) (PrepareDelegatorsQueryInCaseOfRevert (h_TimeStamp h))] else [])"
    using up update_changes by (auto simp: updateDelegatorsInCaseOfRevert_def mbs cl io_ok_def split: if_splits)
  with that [OF mbs] steps [THEN changes_removeIfHashesNotEmpty [OF cl]] changes_by_timestamp [OF cl ev] hs mbs
  show thesis by (simp add: Let_def)
qed

lemma changes_Revert:
  assumes p: "di_elasticProcessor di = elastic_processor" and cl: "dbClient ei = cl"
    and run: "RevertIndexedBlock di bd (ei, w) = (Inr (), (ei', w'))"
  shows "\<exists>h headerHash mbs. getHeaderFromBytes di (bd_HeaderType bd) (bd_HeaderBytes bd) = Inr h \<and>
    ComputeHeaderHash (pe_lib (ep_env ei)) (Header.truncate h) = Inr headerHash \<and> bd_Body bd = Some mbs \<and>
    changes w' = changes w @ revert_requests (ep_env ei) h headerHash mbs \<and> ei' = ei"
proof -
  have on: "on_client op (ei, v) = (Inr x, t) \<longleftrightarrow> (\<exists>v1. op ei v = (Inr x, v1) \<and> t = (ei, v1))"
    for op :: "'w elasticProcessor \<Rightarrow> ('w, unit) io" and v x t
    by (auto simp: on_client_def split: prod.splits)
  from run obtain h w1 w2 w3 where h: "getHeaderFromBytes di (bd_HeaderType bd) (bd_HeaderBytes bd) = Inr h"
    and r1: "RemoveHeader ei h w = (Inr (), w1)" and r2: "RemoveMiniblocks ei h (bd_Body bd) w1 = (Inr (), w2)"
    and r3: "RemoveTransactions ei h (bd_Body bd) w2 = (Inr (), w3)"
    and r4: "RemoveAccountsESDT ei (h_TimeStamp h) (h_ShardID h) w3 = (Inr (), w')" and ei: "ei' = ei"
    by (auto simp: RevertIndexedBlock_def p elastic_processor_def io_bind_Inr on io_of_def Let_def)
  from r1 obtain hh where hh: "ComputeHeaderHash (pe_lib (ep_env ei)) (Header.truncate h) = Inr hh"
    and c1: "changes w1 = changes w @ hashes_request BlockIndex (h_ShardID h) [hex_encode hh]"
    using remove_changes by (auto simp: RemoveHeader_def io_bind_Inr io_of_def cl hashes_request_def)
  have c2: "changes w2 = changes w1 @ hashes_request MiniblocksIndex (h_ShardID h)
      (GetMiniblocksHashesHexEncoded (pe_lib (ep_env ei)) (Header.truncate h) (bd_Body bd))"
    using r2 remove_changes by (auto simp: RemoveMiniblocks_def Let_def cl io_ok_def hashes_request_def split: if_splits)
  from r4 have c4: "changes w' = changes w3 @ [block_request AccountsESDTIndex h, block_request AccountsESDTHistoryIndex h]"
    using changes_by_timestamp [OF cl] by (fastforce simp: RemoveAccountsESDT_def io_bind_Inr)
  from changes_RemoveTransactions [OF cl r3] obtain mbs where mbs: "bd_Body bd = Some mbs"
    and c3: "changes w3 = changes w2 @ (let s = h_ShardID h; (ts, ss) = GetHexEncodedHashesForRemove (Some (Header.truncate h)) (Some mbs) in
      hashes_request TransactionsIndex s ts @ hashes_request ScResultsIndex s ss @
      hashes_request OperationsIndex s (ts @ ss) @ hashes_request LogsIndex s (ts @ ss) @ [block_request EventsIndex h] @
      (if s = k_MetachainShardId (pe_consts (ep_env ei)) \<and> mbs \<noteq> []
       then [Updated DelegatorsIndex (ExtendTopicWithShardID UpdateTopic s) (PrepareDelegatorsQueryInCaseOfRevert (h_TimeStamp h))] else []))" .
  have "changes w' = changes w @ revert_requests (ep_env ei) h hh mbs"
    unfolding c4 c3 c2 c1 revert_requests_def Let_def case_prod_unfold mbs by simp
  with h hh mbs ei show ?thesis by blast
qed

end

text \<open>The removals and updates in the calls of the Elasticsearch client.\<close>

definition alias_of :: "es_call \<Rightarrow> string option" where
  "alias_of c = (case c of GetAliasCall alias \<Rightarrow> Some alias | _ \<Rightarrow> None)"

definition change_of :: "string option \<Rightarrow> es_call \<Rightarrow> change_request list" where
  "change_of looked_up c =
     (case c of
        DeleteByQueryCall ctx is body \<Rightarrow> (case looked_up of None \<Rightarrow> [] | Some alias \<Rightarrow> [Removed alias ctx body])
      | UpdateByQueryCall ctx is body \<Rightarrow> [Updated (join_char (CHR '','') is) ctx body]
      | _ \<Rightarrow> [])"

primrec changes_from :: "string option \<Rightarrow> es_call list \<Rightarrow> change_request list" where
  "changes_from p [] = []"
| "changes_from p (c # cs) = change_of p c @ changes_from (alias_of c) cs"

definition es_changes :: "es_call list \<Rightarrow> change_request list" where
  "es_changes cs = changes_from None cs"

lemma changes_from_append: "\<exists>q. changes_from p (cs @ ds) = changes_from p cs @ changes_from q ds"
proof (induction cs arbitrary: p)
  case (Cons c cs)
  from Cons.IH [of "alias_of c"] show ?case by auto
qed auto

lemma es_changes_refresh:
  "es_changes (cs @ [RefreshCall i, GetAliasCall a, DeleteByQueryCall ctx is b]) = es_changes cs @ [Removed a ctx b]"
  using changes_from_append [of None cs "[RefreshCall i, GetAliasCall a, DeleteByQueryCall ctx is b]"]
  by (auto simp: es_changes_def change_of_def alias_of_def)

lemma es_changes_update: "es_changes (cs @ [UpdateByQueryCall ctx is body]) = es_changes cs @ [Updated (join_char (CHR '','') is) ctx body]"
  using changes_from_append [of None cs "[UpdateByQueryCall ctx is body]"] by (auto simp: es_changes_def change_of_def)

lemma log_only_Inr: "log_only m w = (Inr x, w') \<Longrightarrow> w' = snd (m w)"
  by (metis snd_log_only snd_conv)

interpretation es_ch: changing_client "elastic_client n E" bulk_bodies "\<lambda>w. es_changes (es_calls w)" for n E
proof unfold_locales
  fix ctx i b w w'
  assume "DoQueryRemove (elastic_client n E) ctx i b w = (Inr (), w')"
  then have "\<exists>is. es_calls w' = es_calls w @ [RefreshCall i, GetAliasCall i, DeleteByQueryCall ctx is b]"
    by (auto simp: elastic_client_def DoQueryRemove_es_def getWriteIndex_def doRefresh_def io_bind_Inr es_do_def io_of_def io_ok_def snd_io_bind
        dest!: log_only_Inr split: sum.splits)
  then show "es_changes (es_calls w') = es_changes (es_calls w) @ [Removed i ctx b]"
    by (auto simp: es_changes_refresh)
next
  fix ctx i b w w'
  assume "UpdateByQuery (elastic_client n E) ctx i b w = (Inr (), w')"
  then have "es_calls w' = es_calls w @ [UpdateByQueryCall ctx [i] b]"
    by (auto simp: elastic_client_def UpdateByQuery_es_def io_bind_Inr es_do_def io_of_def io_fail_def split: if_splits)
  then show "es_changes (es_calls w') = es_changes (es_calls w) @ [Updated i ctx b]"
    by (simp add: es_changes_update)
qed

text \<open>
  C37. When a block is taken back without an error, the client has asked exactly for these removals, in this order: the block,
  its miniblocks, its transactions, results, operations and logs by their hashes (a list without hashes is no request), the
  events of its time and shard, the token accounts and their history of its time and shard; and on the metachain, for a block
  with miniblocks, the update of the delegators of its time.
\<close>

theorem revert_changes:
  assumes "di_elasticProcessor di = elastic_processor" and "dbClient ei = elastic_client n E"
    and "RevertIndexedBlock di bd (ei, w) = (Inr (), (ei', w'))"
  shows "\<exists>h headerHash mbs. getHeaderFromBytes di (bd_HeaderType bd) (bd_HeaderBytes bd) = Inr h \<and>
    ComputeHeaderHash (pe_lib (ep_env ei)) (Header.truncate h) = Inr headerHash \<and> bd_Body bd = Some mbs \<and>
    es_changes (es_calls w') = es_changes (es_calls w) @ revert_requests (ep_env ei) h headerHash mbs \<and> ei' = ei"
  by (rule es_ch.changes_Revert [OF assms])

lemma demo_removes:
  "DoQueryRemove (elastic_client n accepting_es) ctx i b w =
     (Inr (), w\<lparr>es_calls := es_calls w @ [RefreshCall i, GetAliasCall i, DeleteByQueryCall ctx [i] b]\<rparr>)"
proof -
  let ?r = "\<lparr>rs_StatusCode = 200, rs_Body = Body ''{}''\<rparr>"
  have "parse_into accepting_es index_data_dec [] ?r = Inr []" "parse_discard accepting_es ?r = Inr ()" by code_simp+
  then show ?thesis
    by (simp add: elastic_client_def DoQueryRemove_es_def doRefresh_def getWriteIndex_def log_only_def io_bind_def es_do_def io_of_def
        io_ok_def accepting_es_def write_index_of_def)
qed

definition demo_blockdata :: BlockData where
  "demo_blockdata = \<lparr>bd_HeaderBytes = ''h'', bd_HeaderType = ''H'', bd_HeaderHash = ''hh'',
     bd_Body = Some [demo_mb RewardsBlock [''a'', ''b'', ''c'']], bd_IntraShardMiniBlocks = []\<rparr>"

lemma demo_revert: "\<exists>w'. RevertIndexedBlock demo_indexer demo_blockdata (demo_processor, w) = (Inr (), (demo_processor, w'))"
proof -
  have h: "h_ShardID demo_full_header = 0" by (simp add: demo_full_header_def)
  have K: "k_MetachainShardId demo_consts \<noteq> 0" by (simp add: demo_consts_def)
  have hash: "ComputeHeaderHash (pe_lib demo_env) v = Inr ''hdr''" for v by (simp add: ComputeHeaderHash_def demo_env_def demo_lib_def)
  show ?thesis
    by (simp add: RevertIndexedBlock_def demo_indexer_def demo_blockdata_def getHeaderFromBytes_def elastic_processor_def on_client_def
        RemoveHeader_def RemoveMiniblocks_def RemoveTransactions_def RemoveAccountsESDT_def removeIfHashesNotEmpty_def
        removeFromIndexByTimestampAndShardID_def updateDelegatorsInCaseOfRevert_def demo_processor_simps demo_removes hash h K
        io_bind_def io_of_def io_ok_def Let_def case_prod_unfold del: hex_encode_Cons)
qed

theorem revert_changes_witness:
  "es_changes (es_calls (snd (snd (RevertIndexedBlock demo_indexer demo_blockdata (demo_processor, new_client))))) =
     revert_requests demo_env demo_full_header ''hdr'' [demo_mb RewardsBlock [''a'', ''b'', ''c'']]"
proof -
  obtain w' where run: "RevertIndexedBlock demo_indexer demo_blockdata (demo_processor, new_client) = (Inr (), (demo_processor, w'))"
    using demo_revert by blast
  have "di_elasticProcessor demo_indexer = elastic_processor" by (simp add: demo_indexer_def)
  from revert_changes [OF this demo_processor_simps(1) run] show ?thesis unfolding run
    by (auto simp: demo_indexer_def getHeaderFromBytes_def demo_blockdata_def demo_processor_simps ComputeHeaderHash_def demo_env_def
        demo_lib_def es_changes_def)
qed

end
