(* ===== verification/Ws_Indexer.thy ===== *)
theory Ws_Indexer
  imports Data_Indexer
begin

text \<open>
  The indexer of the payloads that arrive on the websocket (\<^verbatim>\<open>process/wsindexer/indexer.go\<close>): a payload is decoded
  according to its topic, given to the data indexer and counted in the status metrics.  The marshaller and the topics
  belong to the core library and are parameters; the keys of a map literal are different constants in Go.  The time a
  payload takes is given with the payload.  A panic ends the program: it is the result, and nothing is counted after it.
\<close>

section \<open>State\<close>

record marshaller =
  um_OutportBlock :: "bytes \<Rightarrow> OutportBlock result"
  um_BlockData :: "bytes \<Rightarrow> BlockData result"
  um_RoundsInfo :: "bytes \<Rightarrow> RoundsInfo result"
  um_ValidatorsRating :: "bytes \<Rightarrow> ValidatorsRating result"
  um_ValidatorsPubKeys :: "bytes \<Rightarrow> ValidatorsPubKeys result"
  um_Accounts :: "bytes \<Rightarrow> Accounts result"
  um_OutportConfig :: "bytes \<Rightarrow> bool result"
  um_Shard :: "bytes \<Rightarrow> u32 result"

record outport_topics =
  TopicSaveBlock :: string
  TopicRevertIndexedBlock :: string
  TopicSaveRoundsInfo :: string
  TopicSaveValidatorsRating :: string
  TopicSaveValidatorsPubKeys :: string
  TopicSaveAccounts :: string
  TopicFinalizedBlock :: string
  TopicSettings :: string

record ('s, 'c) indexer =
  ix_marshaller :: marshaller
  ix_di :: "('s, 'c) dataIndexer"
  ix_actions :: "(string, bytes \<Rightarrow> ('s, unit) io) gomap"

section \<open>Actions\<close>

definition saveBlock :: "marshaller \<Rightarrow> ('s, 'c) dataIndexer \<Rightarrow> bytes \<Rightarrow> ('s, unit) io" where
  "saveBlock M di marshalledData = io_bind (io_of (um_OutportBlock M marshalledData)) (\<lambda>outportBlock. SaveBlock di outportBlock)"

definition revertIndexedBlock :: "marshaller \<Rightarrow> ('s, 'c) dataIndexer \<Rightarrow> bytes \<Rightarrow> ('s, unit) io" where
  "revertIndexedBlock M di marshalledData = io_bind (io_of (um_BlockData M marshalledData)) (\<lambda>blockData. RevertIndexedBlock di blockData)"

definition saveRounds :: "marshaller \<Rightarrow> ('s, 'c) dataIndexer \<Rightarrow> bytes \<Rightarrow> ('s, unit) io" where
  "saveRounds M di marshalledData = io_bind (io_of (um_RoundsInfo M marshalledData)) (\<lambda>roundsInfo. di_SaveRoundsInfo di roundsInfo)"

definition saveValidatorsRating :: "marshaller \<Rightarrow> ('s, 'c) dataIndexer \<Rightarrow> bytes \<Rightarrow> ('s, unit) io" where
  "saveValidatorsRating M di marshalledData =
     io_bind (io_of (um_ValidatorsRating M marshalledData)) (\<lambda>ratingData. di_SaveValidatorsRating di ratingData)"

definition saveValidatorsPubKeys :: "marshaller \<Rightarrow> ('s, 'c) dataIndexer \<Rightarrow> bytes \<Rightarrow> ('s, unit) io" where
  "saveValidatorsPubKeys M di marshalledData =
     io_bind (io_of (um_ValidatorsPubKeys M marshalledData)) (\<lambda>validatorsPubKeys. di_SaveValidatorsPubKeys di validatorsPubKeys)"

definition ws_saveAccounts :: "marshaller \<Rightarrow> ('s, 'c) dataIndexer \<Rightarrow> bytes \<Rightarrow> ('s, unit) io" where
  "ws_saveAccounts M di marshalledData = io_bind (io_of (um_Accounts M marshalledData)) (\<lambda>accounts. di_SaveAccounts di accounts)"

definition finalizedBlock :: "bytes \<Rightarrow> ('s, unit) io" where
  "finalizedBlock marshalledData = io_ok ()"

definition setSettings :: "marshaller \<Rightarrow> ('s, 'c) dataIndexer \<Rightarrow> bytes \<Rightarrow> ('s, unit) io" where
  "setSettings M di marshalledData = io_bind (io_of (um_OutportConfig M marshalledData)) (\<lambda>settings. SetCurrentSettings di settings)"

definition initActionsMap ::
    "outport_topics \<Rightarrow> marshaller \<Rightarrow> ('s, 'c) dataIndexer \<Rightarrow> (string, bytes \<Rightarrow> ('s, unit) io) gomap" where
  "initActionsMap T M di =
     [(TopicSaveBlock T, saveBlock M di), (TopicRevertIndexedBlock T, revertIndexedBlock M di),
      (TopicSaveRoundsInfo T, saveRounds M di), (TopicSaveValidatorsRating T, saveValidatorsRating M di),
      (TopicSaveValidatorsPubKeys T, saveValidatorsPubKeys M di), (TopicSaveAccounts T, ws_saveAccounts M di),
      (TopicFinalizedBlock T, finalizedBlock), (TopicSettings T, setSettings M di)]"

definition NewIndexer ::
    "outport_topics \<Rightarrow> marshaller option \<Rightarrow> ('s, 'c) dataIndexer option \<Rightarrow> statusMetrics option
     \<Rightarrow> (('s, 'c) indexer \<times> statusMetrics) result" where
  "NewIndexer T marsh dataIndexer metrics =
     (case marsh of None \<Rightarrow> Inl ErrNilMarshalizer
      | Some M \<Rightarrow> (case dataIndexer of None \<Rightarrow> Inl ErrNilDataIndexer
      | Some di \<Rightarrow> (case metrics of None \<Rightarrow> Inl ErrNilMetricsHandler
      | Some sm \<Rightarrow> Inr (\<lparr>ix_marshaller = M, ix_di = di, ix_actions = initActionsMap T M di\<rparr>, sm))))"

definition getShardID :: "marshaller \<Rightarrow> bytes \<Rightarrow> u32 result" where
  "getShardID M payload = um_Shard M payload"

section \<open>Payloads\<close>

record payload_msg =
  pm_payload :: bytes
  pm_topic :: string
  pm_version :: u32
  pm_duration :: u64

definition payload_args :: "marshaller \<Rightarrow> payload_msg \<Rightarrow> bool \<Rightarrow> ArgsAddIndexingData" where
  "payload_args M msg gotError =
     \<lparr>args_StatusCode = 0, args_GotError = gotError, args_MessageLen = of_nat (length (pm_payload msg)),
      args_Topic = pm_topic msg @ ''_'' @
        dec_nat (unat (case getShardID M (pm_payload msg) of Inl _ \<Rightarrow> 0 | Inr shardID \<Rightarrow> shardID)),
      args_Duration = pm_duration msg\<rparr>"

definition ProcessPayload ::
    "(string \<Rightarrow> string option) \<Rightarrow> ('s, 'c) indexer \<Rightarrow> payload_msg \<Rightarrow> ('s \<times> statusMetrics, unit) io" where
  "ProcessPayload uc ix msg = (\<lambda>(s, sm).
     case map_of (ix_actions ix) (pm_topic msg) of
       None \<Rightarrow> (Inr (), (s, sm))
     | Some payloadTypeAction \<Rightarrow>
         let (r, s1) = payloadTypeAction (pm_payload msg) s in
         case r of
           Inl e \<Rightarrow> if is_panic e then (r, (s1, sm)) else (r, (s1, AddIndexingData uc (payload_args (ix_marshaller ix) msg True) sm))
         | Inr _ \<Rightarrow> (r, (s1, AddIndexingData uc (payload_args (ix_marshaller ix) msg False) sm)))"

text \<open>The payloads of a connection, one after the other; an error is answered to the sender and the next payload follows.\<close>

fun process_all :: "(string \<Rightarrow> string option) \<Rightarrow> ('s, 'c) indexer \<Rightarrow> payload_msg list \<Rightarrow> ('s \<times> statusMetrics, unit) io" where
  "process_all uc ix [] st = (Inr (), st)"
| "process_all uc ix (m # ms) st =
     (let (r, st1) = ProcessPayload uc ix m st in
      case r of Inl e \<Rightarrow> if is_panic e then (Inl e, st1) else process_all uc ix ms st1 | Inr _ \<Rightarrow> process_all uc ix ms st1)"

section \<open>The specification: operations of the data indexer\<close>

text \<open>What a payload means: an operation, a payload that cannot be decoded, or nothing for an unknown topic.\<close>

datatype meaning = Op di_op | Undecodable go_error | Unknown

definition meaning_of :: "outport_topics \<Rightarrow> marshaller \<Rightarrow> payload_msg \<Rightarrow> meaning" where
  "meaning_of T M m =
     (let d = pm_payload m; t = pm_topic m; dec = (\<lambda>r. case r of Inl e \<Rightarrow> Undecodable e | Inr op \<Rightarrow> Op op) in
      if t = TopicSaveBlock T then dec (bindr (um_OutportBlock M d) (Inr \<circ> OpSaveBlock))
      else if t = TopicRevertIndexedBlock T then dec (bindr (um_BlockData M d) (Inr \<circ> OpRevert))
      else if t = TopicSaveRoundsInfo T then dec (bindr (um_RoundsInfo M d) (Inr \<circ> OpRounds))
      else if t = TopicSaveValidatorsRating T then dec (bindr (um_ValidatorsRating M d) (Inr \<circ> OpRating))
      else if t = TopicSaveValidatorsPubKeys T then dec (bindr (um_ValidatorsPubKeys M d) (Inr \<circ> OpPubKeys))
      else if t = TopicSaveAccounts T then dec (bindr (um_Accounts M d) (Inr \<circ> OpAccounts))
      else if t = TopicFinalizedBlock T then Op OpFinalized
      else if t = TopicSettings T then dec (bindr (um_OutportConfig M d) (Inr \<circ> OpSettings))
      else Unknown)"

fun run_meaning :: "('s, 'c) dataIndexer \<Rightarrow> meaning \<Rightarrow> ('s, unit) io" where
  "run_meaning di (Op op) = di_run di op"
| "run_meaning di (Undecodable e) = io_fail e"
| "run_meaning di Unknown = io_ok ()"

text \<open>The run of a list of meanings, with the calls that the metrics have to record.\<close>

fun run_all ::
    "('s, 'c) dataIndexer \<Rightarrow> marshaller \<Rightarrow> (payload_msg \<times> meaning) list \<Rightarrow> 's \<Rightarrow> unit result \<times> 's \<times> ArgsAddIndexingData list" where
  "run_all di M [] s = (Inr (), s, [])"
| "run_all di M ((msg, Unknown) # rest) s = run_all di M rest s"
| "run_all di M ((msg, mn) # rest) s =
     (let (r, s1) = run_meaning di mn s; failed = (case r of Inl _ \<Rightarrow> True | Inr _ \<Rightarrow> False) in
      if (\<exists>e. r = Inl e \<and> is_panic e) then (r, s1, [])
      else let (r2, s2, calls) = run_all di M rest s1 in (r2, s2, payload_args M msg failed # calls))"

section \<open>Properties\<close>

lemmas action_defs = saveBlock_def revertIndexedBlock_def saveRounds_def saveValidatorsRating_def saveValidatorsPubKeys_def
  ws_saveAccounts_def finalizedBlock_def setSettings_def

lemma decode_action:
  "run_meaning di (case bindr r (Inr \<circ> c) of Inl e \<Rightarrow> Undecodable e | Inr op \<Rightarrow> Op op) = io_bind (io_of r) (\<lambda>x. di_run di (c x))"
  by (cases r) simp_all

lemma decode_known: "(case bindr r (Inr \<circ> c) of Inl e \<Rightarrow> Undecodable e | Inr op \<Rightarrow> Op op) \<noteq> Unknown"
  by (cases r) simp_all

lemma actions_meaning:
  "map_of (initActionsMap T M di) (pm_topic m) =
     (if meaning_of T M m = Unknown then None else Some (the (map_of (initActionsMap T M di) (pm_topic m))))"
  "meaning_of T M m \<noteq> Unknown \<Longrightarrow>
     the (map_of (initActionsMap T M di) (pm_topic m)) (pm_payload m) = run_meaning di (meaning_of T M m)"
  by (auto simp: initActionsMap_def meaning_of_def Let_def action_defs decode_action decode_known FinalizedBlock_def split: if_splits)

lemma ProcessPayload_meaning:
  assumes "ix_actions ix = initActionsMap T M di" and "ix_marshaller ix = M"
  shows "ProcessPayload uc ix m (s, sm) =
    (if meaning_of T M m = Unknown then (Inr (), (s, sm))
     else case run_meaning di (meaning_of T M m) s of
       (Inl e, s1) \<Rightarrow> (Inl e, (s1, if is_panic e then sm else AddIndexingData uc (payload_args M m True) sm))
     | (Inr _, s1) \<Rightarrow> (Inr (), (s1, AddIndexingData uc (payload_args M m False) sm)))"
  using actions_meaning [where T = T and M = M and di = di and m = m] assms
  by (auto simp: ProcessPayload_def Let_def split: prod.splits sum.splits option.splits if_splits)

lemma run_all_known:
  "mn \<noteq> Unknown \<Longrightarrow> run_all di M ((msg, mn) # rest) s =
     (case run_meaning di mn s of
        (Inl e, s1) \<Rightarrow> if is_panic e then (Inl e, s1, [])
          else (case run_all di M rest s1 of (r2, s2, calls) \<Rightarrow> (r2, s2, payload_args M msg True # calls))
      | (Inr _, s1) \<Rightarrow> (case run_all di M rest s1 of (r2, s2, calls) \<Rightarrow> (r2, s2, payload_args M msg False # calls)))"
  by (cases mn) (auto simp: Let_def split: prod.splits sum.splits)

text \<open>
  C40. Processing a list of payloads is the same as running the operations they decode to on the data indexer: the same
  result and the same final state; a payload that cannot be decoded only fails, one with an unknown topic is ignored, and a
  panic stops the run.  The metrics receive exactly one call per payload with a known topic, in order, with its length,
  its time, its topic and shard, and whether it failed.
\<close>

theorem payloads_are_operations:
  "\<exists>ix. NewIndexer T (Some M) (Some di) (Some sm) = Inr (ix, sm) \<and>
     process_all uc ix ms (s, sm) =
       (let (r, s1, calls) = run_all di M (map (\<lambda>m. (m, meaning_of T M m)) ms) s in (r, (s1, fold (AddIndexingData uc) calls sm)))"
proof -
  let ?ix = "\<lparr>ix_marshaller = M, ix_di = di, ix_actions = initActionsMap T M di\<rparr>"
  have "process_all uc ?ix ms (s, sm) =
       (let (r, s1, calls) = run_all di M (map (\<lambda>m. (m, meaning_of T M m)) ms) s in (r, (s1, fold (AddIndexingData uc) calls sm)))"
  proof (induction ms arbitrary: s sm)
    case (Cons m ms)
    note step = ProcessPayload_meaning [where ix = ?ix and T = T and M = M and di = di and uc = uc and m = m and s = s and sm = sm, simplified]
    show ?case
    proof (cases "meaning_of T M m = Unknown")
      case True
      with step Cons show ?thesis by simp
    next
      case False
      with step Cons run_all_known [OF False, of di M m "map (\<lambda>m. (m, meaning_of T M m)) ms" s] show ?thesis
        by (auto simp: Let_def split: prod.splits sum.splits)
    qed
  qed simp
  then show ?thesis by (simp add: NewIndexer_def)
qed

end
