(* ===== verification/Templates.thy ===== *)
theory Templates
  imports Docs_Json
begin

text \<open>
  The values of the package \<^verbatim>\<open>templates\<close>: an \<^verbatim>\<open>Object\<close> is a map from names to values, written here with its entries in the
  order of the source, an \<^verbatim>\<open>Array\<close> a list of values.
\<close>

abbreviation Object :: "(string \<times> json) list \<Rightarrow> json" where "Object \<equiv> JObj"
abbreviation Array :: "json list \<Rightarrow> json" where "Array \<equiv> JArr"

text \<open>\<^verbatim>\<open>json.Marshal\<close> writes the entries of a map in the order of their names.\<close>

primrec sort_keys :: "json \<Rightarrow> json" where
  "sort_keys JNull = JNull"
| "sort_keys (JBool b) = JBool b"
| "sort_keys (JInt i) = JInt i"
| "sort_keys (JFloat f) = JFloat f"
| "sort_keys (JFloat32 f) = JFloat32 f"
| "sort_keys (JStr s) = JStr s"
| "sort_keys (JArr js) = JArr (map sort_keys js)"
| "sort_keys (JObj kvs) = JObj (sort_key fst (map (map_prod id sort_keys) kvs))"

text \<open>The error of \<^verbatim>\<open>json.Marshal\<close> is dropped: a value that cannot be written gives an empty buffer.\<close>

definition ToBuffer :: "json \<Rightarrow> bytes" where
  "ToBuffer o1 = (case Marshal (sort_keys o1) of Inr objectBytes \<Rightarrow> objectBytes | Inl _ \<Rightarrow> [])"

end
