(* ===== verification/Templates_With_Kibana.thy ===== *)
theory Templates_With_Kibana
  imports Templates
begin

text \<open>
  The index templates and index policies of a cluster with Kibana (\<^verbatim>\<open>templates/withKibana\<close>), one definition per file, with the names of the
  sources after the name of the package.
\<close>

definition withKibana_Accounts :: json where
  "withKibana_Accounts = Object [
    (''index_patterns'', Array [JStr ''accounts-*'']),
    (''settings'', Object [
      (''number_of_shards'', JInt 3), (''number_of_replicas'', JInt 0),
      (''opendistro.index_state_management.rollover_alias'', JStr ''accounts'')]),
    (''mappings'', Object [
      (''properties'', Object [
        (''balanceNum'', Object [(''type'', JStr ''double'')]),
        (''totalBalanceWithStakeNum'', Object [(''type'', JStr ''double'')]),
        (''nonce'', Object [(''type'', JStr ''double'')]), (''address'', Object [(''type'', JStr ''keyword'')]),
        (''balance'', Object [(''type'', JStr ''keyword'')]),
        (''totalBalanceWithStake'', Object [(''type'', JStr ''keyword'')]),
        (''shardID'', Object [(''type'', JStr ''long'')]),
        (''timestamp'', Object [(''type'', JStr ''date''), (''format'', JStr ''epoch_second'')]),
        (''userName'', Object [(''type'', JStr ''keyword'')]), (''owner'', Object [(''type'', JStr ''keyword'')]),
        (''developerRewards'', Object [(''type'', JStr ''keyword'')]),
        (''developerRewardsNum'', Object [(''type'', JStr ''double'')])])])]"

definition withKibana_AccountsESDT :: json where
  "withKibana_AccountsESDT = Object [
    (''index_patterns'', Array [JStr ''accountsesdt-*'']),
    (''settings'', Object [(''number_of_shards'', JInt 3), (''number_of_replicas'', JInt 0)]),
    (''mappings'', Object [
      (''properties'', Object [
        (''address'', Object [(''type'', JStr ''keyword'')]), (''balance'', Object [(''type'', JStr ''keyword'')]),
        (''balanceNum'', Object [(''type'', JStr ''double'')]),
        (''currentOwner'', Object [(''type'', JStr ''keyword'')]),
        (''data'', Object [
          (''type'', JStr ''nested''),
          (''properties'', Object [
            (''attributes'', Object [(''index'', JStr ''false''), (''type'', JStr ''keyword'')]),
            (''creator'', Object [(''type'', JStr ''keyword'')]),
            (''hash'', Object [(''index'', JStr ''false''), (''type'', JStr ''keyword'')]),
            (''metadata'', Object [(''index'', JStr ''false''), (''type'', JStr ''keyword'')]),
            (''name'', Object [(''type'', JStr ''keyword'')]),
            (''nonEmptyURIs'', Object [(''type'', JStr ''boolean'')]),
            (''royalties'', Object [(''index'', JStr ''false''), (''type'', JStr ''long'')]),
            (''tags'', Object [(''type'', JStr ''text'')]), (''uris'', Object [(''type'', JStr ''text'')])])]),
        (''identifier'', Object [(''type'', JStr ''text'')]),
        (''properties'', Object [(''type'', JStr ''keyword'')]), (''shardID'', Object [(''type'', JStr ''long'')]),
        (''timestamp'', Object [(''type'', JStr ''date''), (''format'', JStr ''epoch_second'')]),
        (''token'', Object [(''type'', JStr ''text'')]), (''tokenNonce'', Object [(''type'', JStr ''double'')]),
        (''type'', Object [(''type'', JStr ''keyword'')])])])]"

definition withKibana_AccountsESDTHistory :: json where
  "withKibana_AccountsESDTHistory = Object [
    (''index_patterns'', Array [JStr ''accountsesdthistory-*'']),
    (''settings'', Object [
      (''number_of_shards'', JInt 5), (''number_of_replicas'', JInt 0),
      (''opendistro.index_state_management.rollover_alias'', JStr ''accountsesdthistory'')]),
    (''mappings'', Object [
      (''properties'', Object [
        (''address'', Object [(''type'', JStr ''keyword'')]), (''balance'', Object [(''type'', JStr ''keyword'')]),
        (''identifier'', Object [(''type'', JStr ''text'')]), (''isSender'', Object [(''type'', JStr ''boolean'')]),
        (''isSmartContract'', Object [(''type'', JStr ''boolean'')]),
        (''shardID'', Object [(''type'', JStr ''long'')]),
        (''timestamp'', Object [(''type'', JStr ''date''), (''format'', JStr ''epoch_second'')]),
        (''token'', Object [(''type'', JStr ''text'')]),
        (''tokenNonce'', Object [(''type'', JStr ''double'')])])])]"

definition withKibana_AccountsESDTHistoryPolicy :: json where
  "withKibana_AccountsESDTHistoryPolicy = Object [
    (''policy'', Object [
      (''description'', JStr ''Open distro policy for the accountsesdthistory elastic index.''),
      (''default_state'', JStr ''hot''),
      (''states'', Array [
        Object [
          (''name'', JStr ''hot''),
          (''actions'', Array [Object [(''rollover'', Object [(''min_size'', JStr ''85gb'')])]]),
          (''transitions'', Array [
            Object [(''state_name'', JStr ''warm''), (''conditions'', Object [(''min_size'', JStr ''85gb'')])]])],
        Object [
          (''name'', JStr ''warm''),
          (''actions'', Array [Object [(''replica_count'', Object [(''number_of_replicas'', JInt 1)])]]),
          (''transitions'', Array [])]]),
      (''ism_template'', Object [
        (''index_patterns'', Array [JStr ''accountsesdthistory-*'']), (''priority'', JInt 100)])])]"

definition withKibana_AccountsESDTPolicy :: json where
  "withKibana_AccountsESDTPolicy = Object [
    (''policy'', Object [
      (''description'', JStr ''Open distro policy for the accountsesdt elastic index.''),
      (''default_state'', JStr ''hot''),
      (''states'', Array [
        Object [
          (''name'', JStr ''hot''),
          (''actions'', Array [Object [(''rollover'', Object [(''min_size'', JStr ''85gb'')])]]),
          (''transitions'', Array [
            Object [(''state_name'', JStr ''warm''), (''conditions'', Object [(''min_size'', JStr ''85gb'')])]])],
        Object [
          (''name'', JStr ''warm''),
          (''actions'', Array [Object [(''replica_count'', Object [(''number_of_replicas'', JInt 1)])]]),
          (''transitions'', Array [])]]),
      (''ism_template'', Object [
        (''index_patterns'', Array [JStr ''accountsesdt-*'']), (''priority'', JInt 100)])])]"

definition withKibana_AccountsHistory :: json where
  "withKibana_AccountsHistory = Object [
    (''index_patterns'', Array [JStr ''accountshistory-*'']),
    (''settings'', Object [
      (''number_of_shards'', JInt 5), (''number_of_replicas'', JInt 0),
      (''opendistro.index_state_management.rollover_alias'', JStr ''accountshistory'')]),
    (''mappings'', Object [
      (''properties'', Object [
        (''address'', Object [(''type'', JStr ''keyword'')]), (''balance'', Object [(''type'', JStr ''keyword'')]),
        (''isSender'', Object [(''type'', JStr ''boolean'')]),
        (''isSmartContract'', Object [(''type'', JStr ''boolean'')]),
        (''shardID'', Object [(''type'', JStr ''long'')]),
        (''timestamp'', Object [(''type'', JStr ''date''), (''format'', JStr ''epoch_second'')])])])]"

definition withKibana_AccountsHistoryPolicy :: json where
  "withKibana_AccountsHistoryPolicy = Object [
    (''policy'', Object [
      (''description'', JStr ''Open distro policy for the accountshistory elastic index.''),
      (''default_state'', JStr ''hot''),
      (''states'', Array [
        Object [
          (''name'', JStr ''hot''),
          (''actions'', Array [Object [(''rollover'', Object [(''min_size'', JStr ''85gb'')])]]),
          (''transitions'', Array [
            Object [(''state_name'', JStr ''warm''), (''conditions'', Object [(''min_size'', JStr ''85gb'')])]])],
        Object [
          (''name'', JStr ''warm''),
          (''actions'', Array [Object [(''replica_count'', Object [(''number_of_replicas'', JInt 1)])]]),
          (''transitions'', Array [])]]),
      (''ism_template'', Object [
        (''index_patterns'', Array [JStr ''accountshistory-*'']), (''priority'', JInt 100)])])]"

definition withKibana_AccountsPolicy :: json where
  "withKibana_AccountsPolicy = Object [
    (''policy'', Object [
      (''description'', JStr ''Open distro policy for the accounts elastic index.''),
      (''default_state'', JStr ''hot''),
      (''states'', Array [
        Object [
          (''name'', JStr ''hot''),
          (''actions'', Array [Object [(''rollover'', Object [(''min_size'', JStr ''85gb'')])]]),
          (''transitions'', Array [
            Object [(''state_name'', JStr ''warm''), (''conditions'', Object [(''min_size'', JStr ''85gb'')])]])],
        Object [
          (''name'', JStr ''warm''),
          (''actions'', Array [Object [(''replica_count'', Object [(''number_of_replicas'', JInt 1)])]]),
          (''transitions'', Array [])]]),
      (''ism_template'', Object [(''index_patterns'', Array [JStr ''accounts-*'']), (''priority'', JInt 100)])])]"

definition withKibana_Blocks :: json where
  "withKibana_Blocks = Object [
    (''index_patterns'', Array [JStr ''blocks-*'']),
    (''settings'', Object [
      (''number_of_shards'', JInt 3), (''number_of_replicas'', JInt 0),
      (''opendistro.index_state_management.rollover_alias'', JStr ''blocks''),
      (''index'', Object [
        (''sort.field'', Array [JStr ''timestamp'', JStr ''nonce'']),
        (''sort.order'', Array [JStr ''desc'', JStr ''desc''])])]),
    (''mappings'', Object [
      (''properties'', Object [
        (''accumulatedFees'', Object [(''index'', JStr ''false''), (''type'', JStr ''keyword'')]),
        (''developerFees'', Object [(''index'', JStr ''false''), (''type'', JStr ''keyword'')]),
        (''epoch'', Object [(''type'', JStr ''long'')]),
        (''epochStartBlock'', Object [(''type'', JStr ''boolean'')]),
        (''epochStartInfo'', Object [
          (''properties'', Object [
            (''nodePrice'', Object [(''index'', JStr ''false''), (''type'', JStr ''keyword'')]),
            (''prevEpochStartHash'', Object [(''index'', JStr ''false''), (''type'', JStr ''keyword'')]),
            (''prevEpochStartRound'', Object [(''index'', JStr ''false''), (''type'', JStr ''double'')]),
            (''rewardsForProtocolSustainability'', Object [
              (''index'', JStr ''false''), (''type'', JStr ''keyword'')]),
            (''rewardsPerBlock'', Object [(''index'', JStr ''false''), (''type'', JStr ''keyword'')]),
            (''totalNewlyMinted'', Object [(''index'', JStr ''false''), (''type'', JStr ''keyword'')]),
            (''totalSupply'', Object [(''index'', JStr ''false''), (''type'', JStr ''keyword'')]),
            (''totalToDistribute'', Object [(''index'', JStr ''false''), (''type'', JStr ''keyword'')])])]),
        (''epochStartShardsData'', Object [
          (''properties'', Object [
            (''epoch'', Object [(''index'', JStr ''false''), (''type'', JStr ''long'')]),
            (''firstPendingMetaBlock'', Object [(''index'', JStr ''false''), (''type'', JStr ''keyword'')]),
            (''headerHash'', Object [(''index'', JStr ''false''), (''type'', JStr ''keyword'')]),
            (''lastFinishedMetaBlock'', Object [(''index'', JStr ''false''), (''type'', JStr ''keyword'')]),
            (''nonce'', Object [(''index'', JStr ''false''), (''type'', JStr ''double'')]),
            (''pendingMiniBlockHeaders'', Object [
              (''properties'', Object [
                (''hash'', Object [(''index'', JStr ''false''), (''type'', JStr ''keyword'')]),
                (''receiverShard'', Object [(''index'', JStr ''false''), (''type'', JStr ''long'')]),
                (''senderShard'', Object [(''index'', JStr ''false''), (''type'', JStr ''long'')]),
                (''timestamp'', Object [
                  (''index'', JStr ''false''), (''type'', JStr ''date''), (''format'', JStr ''epoch_second'')]),
                (''type'', Object [(''index'', JStr ''false''), (''type'', JStr ''keyword'')])])]),
            (''rootHash'', Object [(''index'', JStr ''false''), (''type'', JStr ''keyword'')]),
            (''round'', Object [(''index'', JStr ''false''), (''type'', JStr ''double'')]),
            (''scheduledRootHash'', Object [(''index'', JStr ''false''), (''type'', JStr ''keyword'')]),
            (''shardID'', Object [(''index'', JStr ''false''), (''type'', JStr ''long'')])])]),
        (''gasPenalized'', Object [(''type'', JStr ''double'')]),
        (''gasProvided'', Object [(''type'', JStr ''double'')]),
        (''gasRefunded'', Object [(''type'', JStr ''double'')]),
        (''maxGasLimit'', Object [(''type'', JStr ''double'')]),
        (''miniBlocksDetails'', Object [
          (''properties'', Object [
            (''firstProcessedTx'', Object [(''index'', JStr ''false''), (''type'', JStr ''long'')]),
            (''lastProcessedTx'', Object [(''index'', JStr ''false''), (''type'', JStr ''long'')]),
            (''mbIndex'', Object [(''index'', JStr ''false''), (''type'', JStr ''long'')])])]),
        (''miniBlocksHashes'', Object [(''type'', JStr ''keyword'')]),
        (''nonce'', Object [(''type'', JStr ''double'')]),
        (''notarizedBlocksHashes'', Object [(''type'', JStr ''keyword'')]),
        (''notarizedTxsCount'', Object [(''index'', JStr ''false''), (''type'', JStr ''long'')]),
        (''prevHash'', Object [(''type'', JStr ''keyword'')]), (''proposer'', Object [(''type'', JStr ''long'')]),
        (''pubKeyBitmap'', Object [(''index'', JStr ''false''), (''type'', JStr ''keyword'')]),
        (''round'', Object [(''type'', JStr ''double'')]),
        (''scheduledData'', Object [
          (''properties'', Object [
            (''accumulatedFees'', Object [(''index'', JStr ''false''), (''type'', JStr ''keyword'')]),
            (''developerFees'', Object [(''index'', JStr ''false''), (''type'', JStr ''keyword'')]),
            (''gasProvided'', Object [(''index'', JStr ''false''), (''type'', JStr ''double'')]),
            (''gasRefunded'', Object [(''index'', JStr ''false''), (''type'', JStr ''double'')]),
            (''penalized'', Object [(''index'', JStr ''false''), (''type'', JStr ''double'')]),
            (''rootHash'', Object [(''index'', JStr ''false''), (''type'', JStr ''keyword'')])])]),
        (''searchOrder'', Object [(''type'', JStr ''long'')]), (''shardId'', Object [(''type'', JStr ''long'')]),
        (''size'', Object [(''index'', JStr ''false''), (''type'', JStr ''long'')]),
        (''sizeTxs'', Object [(''index'', JStr ''false''), (''type'', JStr ''long'')]),
        (''stateRootHash'', Object [(''type'', JStr ''keyword'')]),
        (''timestamp'', Object [(''type'', JStr ''date''), (''format'', JStr ''epoch_second'')]),
        (''txCount'', Object [(''index'', JStr ''false''), (''type'', JStr ''long'')]),
        (''validators'', Object [(''index'', JStr ''false''), (''type'', JStr ''long'')])])])]"

definition withKibana_BlocksPolicy :: json where
  "withKibana_BlocksPolicy = Object [
    (''policy'', Object [
      (''description'', JStr ''Open distro policy for the blocks elastic index.''),
      (''default_state'', JStr ''hot''),
      (''states'', Array [
        Object [
          (''name'', JStr ''hot''),
          (''actions'', Array [Object [(''rollover'', Object [(''min_size'', JStr ''60gb'')])]]),
          (''transitions'', Array [
            Object [(''state_name'', JStr ''warm''), (''conditions'', Object [(''min_size'', JStr ''60gb'')])]])],
        Object [
          (''name'', JStr ''warm''),
          (''actions'', Array [Object [(''replica_count'', Object [(''number_of_replicas'', JInt 1)])]]),
          (''transitions'', Array [])]]),
      (''ism_template'', Object [(''index_patterns'', Array [JStr ''blocks-*'']), (''priority'', JInt 100)])])]"

definition withKibana_Delegators :: json where
  "withKibana_Delegators = Object [
    (''index_patterns'', Array [JStr ''delegators-*'']),
    (''settings'', Object [(''number_of_shards'', JInt 3), (''number_of_replicas'', JInt 0)]),
    (''mappings'', Object [
      (''properties'', Object [
        (''activeStake'', Object [(''type'', JStr ''keyword'')]),
        (''activeStakeNum'', Object [(''type'', JStr ''double'')]),
        (''address'', Object [(''type'', JStr ''keyword'')]), (''contract'', Object [(''type'', JStr ''keyword'')]),
        (''timestamp'', Object [(''type'', JStr ''date''), (''format'', JStr ''epoch_second'')]),
        (''unDelegateInfo'', Object [
          (''properties'', Object [
            (''id'', Object [(''index'', JStr ''false''), (''type'', JStr ''keyword'')]),
            (''value'', Object [(''index'', JStr ''false''), (''type'', JStr ''keyword'')]),
            (''valueNum'', Object [(''index'', JStr ''false''), (''type'', JStr ''double'')]),
            (''timestamp'', Object [
              (''index'', JStr ''false''), (''type'', JStr ''date''),
              (''format'', JStr ''epoch_second'')])])])])])]"

definition withKibana_SCDeploys :: json where
  "withKibana_SCDeploys = Object [
    (''index_patterns'', Array [JStr ''scdeploys-*'']),
    (''settings'', Object [(''number_of_shards'', JInt 3), (''number_of_replicas'', JInt 0)]),
    (''mappings'', Object [
      (''properties'', Object [
        (''deployTxHash'', Object [(''type'', JStr ''keyword'')]),
        (''deployer'', Object [(''type'', JStr ''keyword'')]),
        (''timestamp'', Object [(''type'', JStr ''date''), (''format'', JStr ''epoch_second'')]),
        (''currentOwner'', Object [(''type'', JStr ''keyword'')]),
        (''initialCodeHash'', Object [(''type'', JStr ''keyword'')]),
        (''upgrades'', Object [
          (''type'', JStr ''nested''),
          (''properties'', Object [
            (''timestamp'', Object [(''type'', JStr ''date''), (''format'', JStr ''epoch_second'')]),
            (''upgradeTxHash'', Object [(''type'', JStr ''keyword'')]),
            (''upgrader'', Object [(''type'', JStr ''keyword'')]),
            (''codeHash'', Object [(''type'', JStr ''keyword'')])])]),
        (''owners'', Object [
          (''type'', JStr ''nested''),
          (''properties'', Object [
            (''timestamp'', Object [(''type'', JStr ''date''), (''format'', JStr ''epoch_second'')]),
            (''txHash'', Object [(''type'', JStr ''keyword'')]),
            (''address'', Object [(''type'', JStr ''keyword'')])])])])])]"

definition withKibana_EpochInfo :: json where
  "withKibana_EpochInfo = Object [
    (''index_patterns'', Array [JStr ''epochinfo-*'']),
    (''settings'', Object [(''number_of_shards'', JInt 3), (''number_of_replicas'', JInt 0)]),
    (''mappings'', Object [
      (''properties'', Object [
        (''accumulatedFees'', Object [(''type'', JStr ''keyword'')]),
        (''developerFees'', Object [(''type'', JStr ''keyword'')])])])]"

definition withKibana_ESDTs :: json where
  "withKibana_ESDTs = Object [
    (''index_patterns'', Array [JStr ''esdts-*'']),
    (''settings'', Object [(''number_of_shards'', JInt 3), (''number_of_replicas'', JInt 0)]),
    (''mappings'', Object [
      (''properties'', Object [
        (''name'', Object [(''type'', JStr ''keyword'')]), (''ticker'', Object [(''type'', JStr ''keyword'')]),
        (''token'', Object [(''type'', JStr ''text'')]), (''issuer'', Object [(''type'', JStr ''keyword'')]),
        (''currentOwner'', Object [(''type'', JStr ''keyword'')]),
        (''numDecimals'', Object [(''type'', JStr ''long'')]), (''type'', Object [(''type'', JStr ''keyword'')]),
        (''timestamp'', Object [(''type'', JStr ''date''), (''format'', JStr ''epoch_second'')]),
        (''ownersHistory'', Object [
          (''type'', JStr ''nested''),
          (''properties'', Object [
            (''timestamp'', Object [
              (''index'', JStr ''false''), (''type'', JStr ''date''), (''format'', JStr ''epoch_second'')]),
            (''address'', Object [(''type'', JStr ''keyword'')])])]),
        (''paused'', Object [(''type'', JStr ''boolean'')]),
        (''properties'', Object [
          (''properties'', Object [
            (''canMint'', Object [(''index'', JStr ''false''), (''type'', JStr ''boolean'')]),
            (''canBurn'', Object [(''index'', JStr ''false''), (''type'', JStr ''boolean'')]),
            (''canUpgrade'', Object [(''index'', JStr ''false''), (''type'', JStr ''boolean'')]),
            (''canTransferNFTCreateRole'', Object [(''index'', JStr ''false''), (''type'', JStr ''boolean'')]),
            (''canAddSpecialRoles'', Object [(''index'', JStr ''false''), (''type'', JStr ''boolean'')]),
            (''canPause'', Object [(''index'', JStr ''false''), (''type'', JStr ''boolean'')]),
            (''canFreeze'', Object [(''index'', JStr ''false''), (''type'', JStr ''boolean'')]),
            (''canWipe'', Object [(''index'', JStr ''false''), (''type'', JStr ''boolean'')]),
            (''canChangeOwner'', Object [(''index'', JStr ''false''), (''type'', JStr ''boolean'')]),
            (''canCreateMultiShard'', Object [(''index'', JStr ''false''), (''type'', JStr ''boolean'')])])]),
        (''roles'', Object [
          (''type'', JStr ''nested''),
          (''properties'', Object [
            (''ESDTRoleLocalBurn'', Object [(''type'', JStr ''keyword'')]),
            (''ESDTRoleLocalMint'', Object [(''type'', JStr ''keyword'')]),
            (''ESDTRoleNFTAddQuantity'', Object [(''type'', JStr ''keyword'')]),
            (''ESDTRoleNFTAddURI'', Object [(''type'', JStr ''keyword'')]),
            (''ESDTRoleNFTBurn'', Object [(''type'', JStr ''keyword'')]),
            (''ESDTRoleNFTCreate'', Object [(''type'', JStr ''keyword'')]),
            (''ESDTRoleNFTUpdateAttributes'', Object [(''type'', JStr ''keyword'')]),
            (''ESDTTransferRole'', Object [(''type'', JStr ''keyword'')])])])])])]"

definition withKibana_Logs :: json where
  "withKibana_Logs = Object [
    (''index_patterns'', Array [JStr ''logs-*'']),
    (''settings'', Object [(''number_of_shards'', JInt 3), (''number_of_replicas'', JInt 0)]),
    (''mappings'', Object [
      (''properties'', Object [
        (''address'', Object [(''type'', JStr ''keyword'')]),
        (''events'', Object [
          (''type'', JStr ''nested''),
          (''properties'', Object [
            (''address'', Object [(''type'', JStr ''keyword'')]),
            (''data'', Object [(''index'', JStr ''false''), (''type'', JStr ''text'')]),
            (''identifier'', Object [(''type'', JStr ''keyword'')]),
            (''topics'', Object [(''type'', JStr ''text'')])])]),
        (''originalTxHash'', Object [(''type'', JStr ''keyword'')]),
        (''timestamp'', Object [(''type'', JStr ''date''), (''format'', JStr ''epoch_second'')])])])]"

definition withKibana_Miniblocks :: json where
  "withKibana_Miniblocks = Object [
    (''index_patterns'', Array [JStr ''miniblocks-*'']),
    (''settings'', Object [(''number_of_shards'', JInt 3), (''number_of_replicas'', JInt 0)]),
    (''mappings'', Object [
      (''properties'', Object [
        (''procTypeD'', Object [(''type'', JStr ''keyword'')]),
        (''procTypeS'', Object [(''type'', JStr ''keyword'')]),
        (''receiverBlockHash'', Object [(''type'', JStr ''keyword'')]),
        (''receiverShard'', Object [(''type'', JStr ''long'')]),
        (''reserved'', Object [(''index'', JStr ''false''), (''type'', JStr ''keyword'')]),
        (''senderBlockHash'', Object [(''type'', JStr ''keyword'')]),
        (''senderShard'', Object [(''type'', JStr ''long'')]),
        (''timestamp'', Object [(''type'', JStr ''date''), (''format'', JStr ''epoch_second'')]),
        (''type'', Object [(''type'', JStr ''keyword'')])])])]"

definition withKibana_MiniblocksPolicy :: json where
  "withKibana_MiniblocksPolicy = Object [
    (''policy'', Object [
      (''description'', JStr ''Open distro policy for the miniblocks elastic index.''),
      (''default_state'', JStr ''hot''),
      (''states'', Array [
        Object [
          (''name'', JStr ''hot''),
          (''actions'', Array [Object [(''rollover'', Object [(''min_size'', JStr ''60gb'')])]]),
          (''transitions'', Array [
            Object [(''state_name'', JStr ''warm''), (''conditions'', Object [(''min_size'', JStr ''60gb'')])]])],
        Object [
          (''name'', JStr ''warm''),
          (''actions'', Array [Object [(''replica_count'', Object [(''number_of_replicas'', JInt 1)])]]),
          (''transitions'', Array [])]]),
      (''ism_template'', Object [(''index_patterns'', Array [JStr ''miniblocks-*'']), (''priority'', JInt 100)])])]"

definition withKibana_OpenDistro :: json where
  "withKibana_OpenDistro = Object [
    (''index_patterns'', Array [JStr ''.opendistro-*'']),
    (''settings'', Object [(''number_of_shards'', JInt 1), (''number_of_replicas'', JInt 0)])]"

definition withKibana_Operations :: json where
  "withKibana_Operations = Object [
    (''index_patterns'', Array [JStr ''operations-*'']),
    (''settings'', Object [
      (''number_of_shards'', JInt 5), (''number_of_replicas'', JInt 0),
      (''index'', Object [
        (''sort.field'', Array [JStr ''timestamp'', JStr ''nonce'']),
        (''sort.order'', Array [JStr ''desc'', JStr ''desc''])])]),
    (''mappings'', Object [
      (''properties'', Object [
        (''callType'', Object [(''index'', JStr ''false''), (''type'', JStr ''keyword'')]),
        (''canBeIgnored'', Object [(''type'', JStr ''boolean'')]),
        (''code'', Object [(''index'', JStr ''false''), (''type'', JStr ''text'')]),
        (''data'', Object [(''type'', JStr ''text'')]), (''esdtValues'', Object [(''type'', JStr ''keyword'')]),
        (''esdtValuesNum'', Object [(''type'', JStr ''double'')]),
        (''fee'', Object [(''index'', JStr ''false''), (''type'', JStr ''keyword'')]),
        (''feeNum'', Object [(''type'', JStr ''double'')]), (''function'', Object [(''type'', JStr ''keyword'')]),
        (''gasLimit'', Object [(''index'', JStr ''false''), (''type'', JStr ''double'')]),
        (''gasPrice'', Object [(''index'', JStr ''false''), (''type'', JStr ''double'')]),
        (''gasUsed'', Object [(''index'', JStr ''false''), (''type'', JStr ''double'')]),
        (''hasOperations'', Object [(''type'', JStr ''boolean'')]),
        (''hasScResults'', Object [(''type'', JStr ''boolean'')]),
        (''hasLogs'', Object [(''type'', JStr ''boolean'')]),
        (''initialPaidFee'', Object [(''index'', JStr ''false''), (''type'', JStr ''keyword'')]),
        (''isRelayed'', Object [(''type'', JStr ''boolean'')]),
        (''isScCall'', Object [(''type'', JStr ''boolean'')]),
        (''miniBlockHash'', Object [(''type'', JStr ''keyword'')]),
        (''nonce'', Object [(''type'', JStr ''double'')]), (''operation'', Object [(''type'', JStr ''keyword'')]),
        (''originalSender'', Object [(''type'', JStr ''keyword'')]),
        (''originalTxHash'', Object [(''type'', JStr ''keyword'')]),
        (''prevTxHash'', Object [(''type'', JStr ''keyword'')]),
        (''receiver'', Object [(''type'', JStr ''keyword'')]),
        (''receiverShard'', Object [(''type'', JStr ''long'')]),
        (''receivers'', Object [(''type'', JStr ''keyword'')]),
        (''receiversShardIDs'', Object [(''type'', JStr ''long'')]),
        (''relayedValue'', Object [(''index'', JStr ''false''), (''type'', JStr ''keyword'')]),
        (''relayerAddr'', Object [(''type'', JStr ''keyword'')]),
        (''returnMessage'', Object [(''type'', JStr ''text'')]), (''round'', Object [(''type'', JStr ''double'')]),
        (''searchOrder'', Object [(''type'', JStr ''long'')]), (''sender'', Object [(''type'', JStr ''keyword'')]),
        (''senderShard'', Object [(''type'', JStr ''long'')]),
        (''senderUserName'', Object [(''type'', JStr ''keyword'')]),
        (''signature'', Object [(''index'', JStr ''false''), (''type'', JStr ''keyword'')]),
        (''status'', Object [(''type'', JStr ''keyword'')]),
        (''timestamp'', Object [(''type'', JStr ''date''), (''format'', JStr ''epoch_second'')]),
        (''tokens'', Object [(''type'', JStr ''text'')]), (''type'', Object [(''type'', JStr ''keyword'')]),
        (''value'', Object [(''type'', JStr ''keyword'')]), (''valueNum'', Object [(''type'', JStr ''double'')]),
        (''version'', Object [(''type'', JStr ''long'')]), (''guardian'', Object [(''type'', JStr ''keyword'')]),
        (''guardianSignature'', Object [(''index'', JStr ''false''), (''type'', JStr ''keyword'')])])])]"

definition withKibana_Rating :: json where
  "withKibana_Rating = Object [
    (''index_patterns'', Array [JStr ''rating-*'']),
    (''settings'', Object [
      (''number_of_shards'', JInt 1), (''number_of_replicas'', JInt 0),
      (''opendistro.index_state_management.rollover_alias'', JStr ''rating'')]),
    (''mappings'', Object [(''properties'', Object [(''rating'', Object [(''type'', JStr ''double'')])])])]"

definition withKibana_RatingPolicy :: json where
  "withKibana_RatingPolicy = Object [
    (''policy'', Object [
      (''description'', JStr ''Open distro policy for the ratings elastic index.''),
      (''default_state'', JStr ''hot''),
      (''states'', Array [
        Object [
          (''name'', JStr ''hot''),
          (''actions'', Array [Object [(''rollover'', Object [(''min_size'', JStr ''20gb'')])]]),
          (''transitions'', Array [
            Object [(''state_name'', JStr ''warm''), (''conditions'', Object [(''min_size'', JStr ''20gb'')])]])],
        Object [
          (''name'', JStr ''warm''),
          (''actions'', Array [Object [(''replica_count'', Object [(''number_of_replicas'', JInt 1)])]]),
          (''transitions'', Array [])]]),
      (''ism_template'', Object [(''index_patterns'', Array [JStr ''rating-*'']), (''priority'', JInt 100)])])]"

definition withKibana_Receipts :: json where
  "withKibana_Receipts = Object [
    (''index_patterns'', Array [JStr ''receipts-*'']),
    (''settings'', Object [
      (''number_of_shards'', JInt 3), (''number_of_replicas'', JInt 0),
      (''index'', Object [(''sort.field'', Array [JStr ''timestamp'']), (''sort.order'', Array [JStr ''desc''])]),
      (''opendistro.index_state_management.rollover_alias'', JStr ''receipts'')]),
    (''mappings'', Object [
      (''properties'', Object [
        (''data'', Object [(''type'', JStr ''keyword'')]), (''sender'', Object [(''type'', JStr ''keyword'')]),
        (''timestamp'', Object [(''type'', JStr ''date''), (''format'', JStr ''epoch_second'')]),
        (''txHash'', Object [(''type'', JStr ''keyword'')]),
        (''value'', Object [(''index'', JStr ''false''), (''type'', JStr ''keyword'')])])])]"

definition withKibana_ReceiptsPolicy :: json where
  "withKibana_ReceiptsPolicy = Object [
    (''policy'', Object [
      (''description'', JStr ''Open distro policy for the receipts elastic index.''),
      (''default_state'', JStr ''hot''),
      (''states'', Array [
        Object [
          (''name'', JStr ''hot''),
          (''actions'', Array [Object [(''rollover'', Object [(''min_size'', JStr ''85gb'')])]]),
          (''transitions'', Array [
            Object [(''state_name'', JStr ''warm''), (''conditions'', Object [(''min_size'', JStr ''85gb'')])]])],
        Object [
          (''name'', JStr ''warm''),
          (''actions'', Array [Object [(''replica_count'', Object [(''number_of_replicas'', JInt 1)])]]),
          (''transitions'', Array [])]]),
      (''ism_template'', Object [(''index_patterns'', Array [JStr ''receipts-*'']), (''priority'', JInt 100)])])]"

definition withKibana_Rounds :: json where
  "withKibana_Rounds = Object [
    (''index_patterns'', Array [JStr ''rounds-*'']),
    (''settings'', Object [
      (''number_of_shards'', JInt 3), (''number_of_replicas'', JInt 0),
      (''opendistro.index_state_management.rollover_alias'', JStr ''rounds''),
      (''index'', Object [(''sort.field'', Array [JStr ''timestamp'']), (''sort.order'', Array [JStr ''desc''])])]),
    (''mappings'', Object [
      (''properties'', Object [
        (''blockWasProposed'', Object [(''type'', JStr ''boolean'')]),
        (''epoch'', Object [(''type'', JStr ''long'')]), (''round'', Object [(''type'', JStr ''double'')]),
        (''shardId'', Object [(''type'', JStr ''long'')]), (''signersIndexes'', Object [(''type'', JStr ''long'')]),
        (''timestamp'', Object [(''type'', JStr ''date''), (''format'', JStr ''epoch_second'')])])])]"

definition withKibana_RoundsPolicy :: json where
  "withKibana_RoundsPolicy = Object [
    (''policy'', Object [
      (''description'', JStr ''Open distro policy for the rounds elastic index.''),
      (''default_state'', JStr ''hot''),
      (''states'', Array [
        Object [
          (''name'', JStr ''hot''),
          (''actions'', Array [Object [(''rollover'', Object [(''min_size'', JStr ''60gb'')])]]),
          (''transitions'', Array [
            Object [(''state_name'', JStr ''warm''), (''conditions'', Object [(''min_size'', JStr ''60gb'')])]])],
        Object [
          (''name'', JStr ''warm''),
          (''actions'', Array [Object [(''replica_count'', Object [(''number_of_replicas'', JInt 1)])]]),
          (''transitions'', Array [])]]),
      (''ism_template'', Object [(''index_patterns'', Array [JStr ''rounds-*'']), (''priority'', JInt 100)])])]"

definition withKibana_SCResults :: json where
  "withKibana_SCResults = Object [
    (''index_patterns'', Array [JStr ''scresults-*'']),
    (''settings'', Object [
      (''number_of_shards'', JInt 3), (''number_of_replicas'', JInt 0),
      (''index'', Object [(''sort.field'', Array [JStr ''timestamp'']), (''sort.order'', Array [JStr ''desc''])]),
      (''opendistro.index_state_management.rollover_alias'', JStr ''scresults'')]),
    (''mappings'', Object [
      (''properties'', Object [
        (''callType'', Object [(''type'', JStr ''keyword'')]),
        (''code'', Object [(''index'', JStr ''false''), (''type'', JStr ''text'')]),
        (''data'', Object [(''type'', JStr ''text'')]), (''esdtValues'', Object [(''type'', JStr ''keyword'')]),
        (''esdtValuesNum'', Object [(''type'', JStr ''double'')]),
        (''function'', Object [(''type'', JStr ''keyword'')]),
        (''gasLimit'', Object [(''index'', JStr ''false''), (''type'', JStr ''double'')]),
        (''gasPrice'', Object [(''index'', JStr ''false''), (''type'', JStr ''double'')]),
        (''hasOperations'', Object [(''type'', JStr ''boolean'')]),
        (''miniBlockHash'', Object [(''type'', JStr ''keyword'')]),
        (''nonce'', Object [(''type'', JStr ''double'')]), (''operation'', Object [(''type'', JStr ''keyword'')]),
        (''originalSender'', Object [(''type'', JStr ''keyword'')]),
        (''originalTxHash'', Object [(''type'', JStr ''keyword'')]),
        (''prevTxHash'', Object [(''type'', JStr ''keyword'')]),
        (''receiver'', Object [(''type'', JStr ''keyword'')]),
        (''receiverShard'', Object [(''type'', JStr ''long'')]),
        (''receivers'', Object [(''type'', JStr ''keyword'')]),
        (''receiversShardIDs'', Object [(''type'', JStr ''long'')]),
        (''relayedValue'', Object [(''index'', JStr ''false''), (''type'', JStr ''keyword'')]),
        (''relayerAddr'', Object [(''type'', JStr ''keyword'')]),
        (''returnMessage'', Object [(''type'', JStr ''text'')]),
        (''sender'', Object [(''type'', JStr ''keyword'')]), (''senderShard'', Object [(''type'', JStr ''long'')]),
        (''timestamp'', Object [(''type'', JStr ''date''), (''format'', JStr ''epoch_second'')]),
        (''tokens'', Object [(''type'', JStr ''text'')]), (''value'', Object [(''type'', JStr ''keyword'')]),
        (''valueNum'', Object [(''type'', JStr ''double'')])])])]"

definition withKibana_ScResultsPolicy :: json where
  "withKibana_ScResultsPolicy = Object [
    (''policy'', Object [
      (''description'', JStr ''Open distro policy for the scresults elastic index.''),
      (''default_state'', JStr ''hot''),
      (''states'', Array [
        Object [
          (''name'', JStr ''hot''),
          (''actions'', Array [Object [(''rollover'', Object [(''min_size'', JStr ''85gb'')])]]),
          (''transitions'', Array [
            Object [(''state_name'', JStr ''warm''), (''conditions'', Object [(''min_size'', JStr ''85gb'')])]])],
        Object [
          (''name'', JStr ''warm''),
          (''actions'', Array [Object [(''replica_count'', Object [(''number_of_replicas'', JInt 1)])]]),
          (''transitions'', Array [])]]),
      (''ism_template'', Object [(''index_patterns'', Array [JStr ''scresults-*'']), (''priority'', JInt 100)])])]"

definition withKibana_Tags :: json where
  "withKibana_Tags = Object [
    (''index_patterns'', Array [JStr ''tags-*'']),
    (''settings'', Object [(''number_of_shards'', JInt 3), (''number_of_replicas'', JInt 0)]),
    (''mappings'', Object [
      (''properties'', Object [
        (''count'', Object [(''type'', JStr ''long'')]), (''tag'', Object [(''type'', JStr ''keyword'')])])])]"

definition withKibana_Tokens :: json where
  "withKibana_Tokens = Object [
    (''index_patterns'', Array [JStr ''tokens-*'']),
    (''settings'', Object [(''number_of_shards'', JInt 3), (''number_of_replicas'', JInt 0)]),
    (''mappings'', Object [
      (''properties'', Object [
        (''currentOwner'', Object [(''type'', JStr ''keyword'')]),
        (''data'', Object [
          (''type'', JStr ''nested''),
          (''properties'', Object [
            (''attributes'', Object [(''index'', JStr ''false''), (''type'', JStr ''keyword'')]),
            (''creator'', Object [(''type'', JStr ''keyword'')]),
            (''hash'', Object [(''index'', JStr ''false''), (''type'', JStr ''keyword'')]),
            (''metadata'', Object [(''index'', JStr ''false''), (''type'', JStr ''keyword'')]),
            (''name'', Object [(''type'', JStr ''keyword'')]),
            (''nonEmptyURIs'', Object [(''type'', JStr ''boolean'')]),
            (''royalties'', Object [(''type'', JStr ''long'')]), (''tags'', Object [(''type'', JStr ''keyword'')]),
            (''uris'', Object [(''type'', JStr ''keyword'')]),
            (''whiteListedStorage'', Object [(''type'', JStr ''boolean'')])])]),
        (''identifier'', Object [(''type'', JStr ''text'')]), (''issuer'', Object [(''type'', JStr ''keyword'')]),
        (''name'', Object [(''type'', JStr ''keyword'')]), (''nonce'', Object [(''type'', JStr ''double'')]),
        (''numDecimals'', Object [(''type'', JStr ''long'')]),
        (''ownersHistory'', Object [
          (''type'', JStr ''nested''),
          (''properties'', Object [
            (''address'', Object [(''type'', JStr ''keyword'')]),
            (''timestamp'', Object [
              (''index'', JStr ''false''), (''type'', JStr ''date''), (''format'', JStr ''epoch_second'')])])]),
        (''properties'', Object [
          (''properties'', Object [
            (''canAddSpecialRoles'', Object [(''index'', JStr ''false''), (''type'', JStr ''boolean'')]),
            (''canBurn'', Object [(''index'', JStr ''false''), (''type'', JStr ''boolean'')]),
            (''canChangeOwner'', Object [(''index'', JStr ''false''), (''type'', JStr ''boolean'')]),
            (''canCreateMultiShard'', Object [(''index'', JStr ''false''), (''type'', JStr ''boolean'')]),
            (''canFreeze'', Object [(''index'', JStr ''false''), (''type'', JStr ''boolean'')]),
            (''canMint'', Object [(''index'', JStr ''false''), (''type'', JStr ''boolean'')]),
            (''canPause'', Object [(''index'', JStr ''false''), (''type'', JStr ''boolean'')]),
            (''canTransferNFTCreateRole'', Object [(''index'', JStr ''false''), (''type'', JStr ''boolean'')]),
            (''canUpgrade'', Object [(''index'', JStr ''false''), (''type'', JStr ''boolean'')]),
            (''canWipe'', Object [(''index'', JStr ''false''), (''type'', JStr ''boolean'')])])]),
        (''roles'', Object [
          (''type'', JStr ''nested''),
          (''properties'', Object [
            (''ESDTRoleLocalBurn'', Object [(''type'', JStr ''keyword'')]),
            (''ESDTRoleLocalMint'', Object [(''type'', JStr ''keyword'')]),
            (''ESDTRoleNFTAddQuantity'', Object [(''type'', JStr ''keyword'')]),
            (''ESDTRoleNFTAddURI'', Object [(''type'', JStr ''keyword'')]),
            (''ESDTRoleNFTBurn'', Object [(''type'', JStr ''keyword'')]),
            (''ESDTRoleNFTCreate'', Object [(''type'', JStr ''keyword'')]),
            (''ESDTRoleNFTUpdateAttributes'', Object [(''type'', JStr ''keyword'')]),
            (''ESDTTransferRole'', Object [(''type'', JStr ''keyword'')])])]),
        (''ticker'', Object [(''type'', JStr ''keyword'')]),
        (''timestamp'', Object [(''type'', JStr ''date''), (''format'', JStr ''epoch_second'')]),
        (''token'', Object [(''type'', JStr ''text'')]), (''type'', Object [(''type'', JStr ''keyword'')])])])]"

definition withKibana_Transactions :: json where
  "withKibana_Transactions = Object [
    (''index_patterns'', Array [JStr ''transactions-*'']),
    (''settings'', Object [
      (''number_of_shards'', JInt 5), (''number_of_replicas'', JInt 0),
      (''opendistro.index_state_management.rollover_alias'', JStr ''transactions''),
      (''index'', Object [
        (''sort.field'', Array [JStr ''timestamp'', JStr ''nonce'']),
        (''sort.order'', Array [JStr ''desc'', JStr ''desc''])])]),
    (''mappings'', Object [
      (''properties'', Object [
        (''data'', Object [(''type'', JStr ''text'')]), (''esdtValues'', Object [(''type'', JStr ''keyword'')]),
        (''esdtValuesNum'', Object [(''type'', JStr ''double'')]),
        (''fee'', Object [(''index'', JStr ''false''), (''type'', JStr ''keyword'')]),
        (''feeNum'', Object [(''type'', JStr ''double'')]), (''function'', Object [(''type'', JStr ''keyword'')]),
        (''gasLimit'', Object [(''index'', JStr ''false''), (''type'', JStr ''double'')]),
        (''gasPrice'', Object [(''index'', JStr ''false''), (''type'', JStr ''double'')]),
        (''gasUsed'', Object [(''index'', JStr ''false''), (''type'', JStr ''double'')]),
        (''hasOperations'', Object [(''type'', JStr ''boolean'')]),
        (''hasScResults'', Object [(''type'', JStr ''boolean'')]),
        (''hasLogs'', Object [(''type'', JStr ''boolean'')]),
        (''initialPaidFee'', Object [(''index'', JStr ''false''), (''type'', JStr ''keyword'')]),
        (''isRelayed'', Object [(''type'', JStr ''boolean'')]),
        (''isScCall'', Object [(''type'', JStr ''boolean'')]),
        (''miniBlockHash'', Object [(''type'', JStr ''keyword'')]),
        (''nonce'', Object [(''type'', JStr ''double'')]), (''operation'', Object [(''type'', JStr ''keyword'')]),
        (''receiver'', Object [(''type'', JStr ''keyword'')]),
        (''receiverShard'', Object [(''type'', JStr ''long'')]),
        (''receivers'', Object [(''type'', JStr ''keyword'')]),
        (''receiversShardIDs'', Object [(''type'', JStr ''long'')]),
        (''round'', Object [(''type'', JStr ''double'')]), (''searchOrder'', Object [(''type'', JStr ''long'')]),
        (''sender'', Object [(''type'', JStr ''keyword'')]), (''senderShard'', Object [(''type'', JStr ''long'')]),
        (''senderUserName'', Object [(''type'', JStr ''keyword'')]),
        (''signature'', Object [(''index'', JStr ''false''), (''type'', JStr ''keyword'')]),
        (''status'', Object [(''type'', JStr ''keyword'')]),
        (''timestamp'', Object [(''type'', JStr ''date''), (''format'', JStr ''epoch_second'')]),
        (''tokens'', Object [(''type'', JStr ''text'')]), (''value'', Object [(''type'', JStr ''keyword'')]),
        (''valueNum'', Object [(''type'', JStr ''double'')]), (''version'', Object [(''type'', JStr ''long'')]),
        (''guardian'', Object [(''type'', JStr ''keyword'')]),
        (''guardianSignature'', Object [(''index'', JStr ''false''), (''type'', JStr ''keyword'')])])])]"

definition withKibana_TransactionsPolicy :: json where
  "withKibana_TransactionsPolicy = Object [
    (''policy'', Object [
      (''description'', JStr ''Open distro policy for the transactions elastic index.''),
      (''default_state'', JStr ''hot''),
      (''states'', Array [
        Object [
          (''name'', JStr ''hot''),
          (''actions'', Array [Object [(''rollover'', Object [(''min_size'', JStr ''85gb'')])]]),
          (''transitions'', Array [
            Object [(''state_name'', JStr ''warm''), (''conditions'', Object [(''min_size'', JStr ''85gb'')])]])],
        Object [
          (''name'', JStr ''warm''),
          (''actions'', Array [Object [(''replica_count'', Object [(''number_of_replicas'', JInt 1)])]]),
          (''transitions'', Array [])]]),
      (''ism_template'', Object [
        (''index_patterns'', Array [JStr ''transactions-*'']), (''priority'', JInt 100)])])]"

definition withKibana_Validators :: json where
  "withKibana_Validators = Object [
    (''index_patterns'', Array [JStr ''validators-*'']),
    (''settings'', Object [(''number_of_shards'', JInt 1), (''number_of_replicas'', JInt 0)]),
    (''mappings'', Object [(''properties'', Object [(''publicKeys'', Object [(''type'', JStr ''keyword'')])])])]"

definition withKibana_ValidatorsPolicy :: json where
  "withKibana_ValidatorsPolicy = Object [
    (''policy'', Object [
      (''description'', JStr ''Open distro policy for the validators elastic index.''),
      (''default_state'', JStr ''hot''),
      (''states'', Array [
        Object [
          (''name'', JStr ''hot''),
          (''actions'', Array [Object [(''rollover'', Object [(''min_size'', JStr ''20gb'')])]]),
          (''transitions'', Array [
            Object [(''state_name'', JStr ''warm''), (''conditions'', Object [(''min_size'', JStr ''20gb'')])]])],
        Object [
          (''name'', JStr ''warm''),
          (''actions'', Array [Object [(''replica_count'', Object [(''number_of_replicas'', JInt 1)])]]),
          (''transitions'', Array [])]]),
      (''ism_template'', Object [(''index_patterns'', Array [JStr ''validators-*'']), (''priority'', JInt 100)])])]"

end
