(* ===== verification/Templates_Reader.thy ===== *)
theory Templates_Reader
  imports Templates_No_Kibana Templates_With_Kibana Elastic_Processor
begin

text \<open>
  The readers of \<^verbatim>\<open>process/elasticproc/templatesAndPolicies\<close>: the maps from index names to the text of their templates and
  from policy names to the text of the policies that the factory passes to the processor.
\<close>

section \<open>Names of the policies\<close>

definition TransactionsPolicy :: string where "TransactionsPolicy = ''transactions_policy''"
definition BlockPolicy :: string where "BlockPolicy = ''blocks_policy''"
definition MiniblocksPolicy :: string where "MiniblocksPolicy = ''miniblocks_policy''"
definition ValidatorsPolicy :: string where "ValidatorsPolicy = ''validators_policy''"
definition RoundsPolicy :: string where "RoundsPolicy = ''rounds_policy''"
definition RatingPolicy :: string where "RatingPolicy = ''rating_policy''"
definition AccountsPolicy :: string where "AccountsPolicy = ''accounts_policy''"
definition AccountsHistoryPolicy :: string where "AccountsHistoryPolicy = ''accountshistory_policy''"
definition AccountsESDTPolicy :: string where "AccountsESDTPolicy = ''accountsesdt_policy''"
definition AccountsESDTHistoryPolicy :: string where "AccountsESDTHistoryPolicy = ''accountsesdthistory_policy''"
definition ScResultsPolicy :: string where "ScResultsPolicy = ''scresults_policy''"
definition ReceiptsPolicy :: string where "ReceiptsPolicy = ''receipts_policy''"

section \<open>The readers\<close>

type_synonym buffers_map = "(string, bytes option) gomap"

text \<open>The assignments \<^verbatim>\<open>m[k] = object.ToBuffer()\<close>, in order.\<close>

definition put_objects :: "(string \<times> json) list \<Rightarrow> buffers_map \<Rightarrow> buffers_map" where
  "put_objects kos m = fold (\<lambda>(k, o1) m. gm_set k (Some (ToBuffer o1)) m) kos m"

definition noKibana_templates :: "(string \<times> json) list" where
  "noKibana_templates =
     [(''opendistro'', noKibana_OpenDistro), (TransactionsIndex, noKibana_Transactions), (BlockIndex, noKibana_Blocks),
      (MiniblocksIndex, noKibana_Miniblocks), (RatingIndex, noKibana_Rating), (RoundsIndex, noKibana_Rounds),
      (ValidatorsIndex, noKibana_Validators), (AccountsIndex, noKibana_Accounts),
      (AccountsHistoryIndex, noKibana_AccountsHistory), (AccountsESDTIndex, noKibana_AccountsESDT),
      (AccountsESDTHistoryIndex, noKibana_AccountsESDTHistory), (EpochInfoIndex, noKibana_EpochInfo),
      (ReceiptsIndex, noKibana_Receipts), (ScResultsIndex, noKibana_SCResults), (SCDeploysIndex, noKibana_SCDeploys),
      (TokensIndex, noKibana_Tokens), (TagsIndex, noKibana_Tags), (LogsIndex, noKibana_Logs),
      (DelegatorsIndex, noKibana_Delegators), (OperationsIndex, noKibana_Operations), (ESDTsIndex, noKibana_ESDTs),
      (ValuesIndex, noKibana_Values), (EventsIndex, noKibana_Events)]"

definition withKibana_templates :: "(string \<times> json) list" where
  "withKibana_templates =
     [(''opendistro'', withKibana_OpenDistro), (TransactionsIndex, withKibana_Transactions), (BlockIndex, withKibana_Blocks),
      (MiniblocksIndex, withKibana_Miniblocks), (RatingIndex, withKibana_Rating), (RoundsIndex, withKibana_Rounds),
      (ValidatorsIndex, withKibana_Validators), (AccountsIndex, withKibana_Accounts),
      (AccountsHistoryIndex, withKibana_AccountsHistory), (AccountsESDTIndex, withKibana_AccountsESDT),
      (AccountsESDTHistoryIndex, withKibana_AccountsESDTHistory), (EpochInfoIndex, withKibana_EpochInfo),
      (ReceiptsIndex, withKibana_Receipts), (ScResultsIndex, withKibana_SCResults), (SCDeploysIndex, withKibana_SCDeploys),
      (TokensIndex, withKibana_Tokens), (TagsIndex, withKibana_Tags), (LogsIndex, withKibana_Logs),
      (DelegatorsIndex, withKibana_Delegators), (OperationsIndex, withKibana_Operations), (ESDTsIndex, withKibana_ESDTs)]"

definition getTemplatesKibana :: buffers_map where
  "getTemplatesKibana = put_objects withKibana_templates []"

definition getPolicies :: buffers_map where
  "getPolicies = put_objects
     [(TransactionsPolicy, withKibana_TransactionsPolicy), (BlockPolicy, withKibana_BlocksPolicy),
      (MiniblocksPolicy, withKibana_MiniblocksPolicy), (RatingPolicy, withKibana_RatingPolicy),
      (RoundsPolicy, withKibana_RoundsPolicy), (ValidatorsPolicy, withKibana_ValidatorsPolicy),
      (AccountsHistoryPolicy, withKibana_AccountsHistoryPolicy), (AccountsPolicy, withKibana_AccountsPolicy),
      (AccountsESDTPolicy, withKibana_AccountsESDTPolicy), (AccountsESDTHistoryPolicy, withKibana_AccountsESDTHistoryPolicy),
      (AccountsHistoryPolicy, withKibana_AccountsHistoryPolicy), (ReceiptsPolicy, withKibana_ReceiptsPolicy),
      (ScResultsPolicy, withKibana_ScResultsPolicy)] []"

record TemplatesAndPoliciesHandler =
  GetElasticTemplatesAndPolicies :: "(buffers_map \<times> buffers_map) result"
  GetExtraMappings :: "(string \<times> bytes) list result"

definition NewTemplatesAndPolicyReaderNoKibana :: TemplatesAndPoliciesHandler where
  "NewTemplatesAndPolicyReaderNoKibana =
     \<lparr>GetElasticTemplatesAndPolicies = Inr (put_objects noKibana_templates [], []), GetExtraMappings = Inr []\<rparr>"

definition NewTemplatesAndPolicyReaderWithKibana :: TemplatesAndPoliciesHandler where
  "NewTemplatesAndPolicyReaderWithKibana =
     \<lparr>GetElasticTemplatesAndPolicies = Inr (getTemplatesKibana, getPolicies), GetExtraMappings = Inr []\<rparr>"

definition CreateTemplatesAndPoliciesReader :: "bool \<Rightarrow> TemplatesAndPoliciesHandler" where
  "CreateTemplatesAndPoliciesReader useKibana =
     (if useKibana then NewTemplatesAndPolicyReaderWithKibana else NewTemplatesAndPolicyReaderNoKibana)"

section \<open>What the readers give\<close>

definition the_templates :: "bool \<Rightarrow> (string \<times> json) list" where
  "the_templates useKibana = (if useKibana then withKibana_templates else noKibana_templates)"

lemma the_templates_distinct: "distinct (map fst (the_templates useKibana))"
proof -
  have "distinct (map fst withKibana_templates)" "distinct (map fst noKibana_templates)" by code_simp+
  then show ?thesis by (simp add: the_templates_def)
qed

lemma map_of_put_objects:
  "map_of (put_objects kos m) k = (case map_of (rev kos) k of Some o1 \<Rightarrow> Some (Some (ToBuffer o1)) | None \<Rightarrow> map_of m k)"
  by (induction kos rule: rev_induct) (auto simp: put_objects_def map_of_gm_set)

lemma reader_lookup:
  assumes "GetElasticTemplatesAndPolicies (CreateTemplatesAndPoliciesReader useKibana) = Inr (ts, ps)"
  shows "map_of ts index = map_option (\<lambda>t. Some (ToBuffer t)) (map_of (the_templates useKibana) index)"
proof -
  have "map_of (rev (the_templates useKibana)) = map_of (the_templates useKibana)"
    using the_templates_distinct [of useKibana] map_of_inject_set [of "rev (the_templates useKibana)" "the_templates useKibana"]
    by (simp add: rev_map [symmetric])
  moreover have "ts = put_objects (the_templates useKibana) []"
    using assms by (auto simp: CreateTemplatesAndPoliciesReader_def NewTemplatesAndPolicyReaderNoKibana_def
        NewTemplatesAndPolicyReaderWithKibana_def getTemplatesKibana_def the_templates_def split: if_splits)
  ultimately show ?thesis by (simp add: map_of_put_objects split: option.split)
qed

end
