(* ===== verification/Index_Types.thy ===== *)
theory Index_Types
  imports Templates_Reader Json_Read
begin

text \<open>
  Documents against the mappings of their indexes.  A shape is the type of a document, read off the fields of its struct; a
  mapping of Elasticsearch accepts or refuses a value.  The check of a shape against a mapping is a computation, and it is
  sound: every value of the shape is accepted by the mapping.
\<close>

section \<open>Shapes of documents\<close>

datatype shape = SBool | SInt64 | SUint32 | SUint64 | SFloat | SStr | SList shape | SObj "(string \<times> shape) list"

fun int_in_shape :: "int \<Rightarrow> shape \<Rightarrow> bool" where
  "int_in_shape i SInt64 = (- (2 ^ 63) \<le> i \<and> i < 2 ^ 63)"
| "int_in_shape i SUint32 = (0 \<le> i \<and> i < 2 ^ 32)"
| "int_in_shape i SUint64 = (0 \<le> i \<and> i < 2 ^ 64)"
| "int_in_shape i _ = False"

text \<open>A nil slice or pointer is written as null, which every shape allows.  A field of an object may be left out.\<close>

primrec has_shape :: "json \<Rightarrow> shape \<Rightarrow> bool" where
  "has_shape JNull = (\<lambda>s. True)"
| "has_shape (JBool b) = (\<lambda>s. s = SBool)"
| "has_shape (JInt i) = int_in_shape i"
| "has_shape (JFloat f) = (\<lambda>s. s = SFloat)"
| "has_shape (JFloat32 f) = (\<lambda>s. s = SFloat)"
| "has_shape (JStr t) = (\<lambda>s. s = SStr)"
| "has_shape (JArr js) = (\<lambda>s. case s of SList s1 \<Rightarrow> list_all (\<lambda>p. p s1) (map has_shape js) | _ \<Rightarrow> False)"
| "has_shape (JObj kvs) = (\<lambda>s. case s of
     SObj fs \<Rightarrow> list_all (\<lambda>(k, p). list_ex (\<lambda>(k1, s1). k1 = k \<and> p s1) fs) (map (map_prod id has_shape) kvs)
   | _ \<Rightarrow> False)"

section \<open>Mappings\<close>

definition mapping_entry :: "string \<Rightarrow> json \<Rightarrow> json option" where
  "mapping_entry n m = (case m of JObj kvs \<Rightarrow> map_of kvs n | _ \<Rightarrow> None)"

definition mapping_type :: "json \<Rightarrow> string option" where
  "mapping_type m = (case mapping_entry ''type'' m of Some (JStr t) \<Rightarrow> Some t | _ \<Rightarrow> None)"

definition mapping_properties :: "json \<Rightarrow> (string \<times> json) list option" where
  "mapping_properties m = (case mapping_entry ''properties'' m of Some (JObj ps) \<Rightarrow> Some ps | _ \<Rightarrow> None)"

text \<open>
  The documented behaviour of Elasticsearch for the field types the templates use: keywords and texts take any scalar,
  booleans a boolean, doubles a number, longs and dates in seconds an integer of 64 bits with sign; an object or nested field
  takes an object whose declared fields are accepted; null is accepted everywhere, and an array where each element is.  A
  field that the mapping does not declare is mapped dynamically.
\<close>

definition type_in :: "json \<Rightarrow> string list \<Rightarrow> bool" where
  "type_in m ts = (case mapping_type m of Some t \<Rightarrow> t \<in> set ts | None \<Rightarrow> False)"

primrec accepts :: "json \<Rightarrow> json \<Rightarrow> bool" where
  "accepts JNull = (\<lambda>m. True)"
| "accepts (JBool b) = (\<lambda>m. type_in m [''boolean'', ''keyword'', ''text''])"
| "accepts (JInt i) = (\<lambda>m. type_in m [''double'', ''keyword'', ''text''] \<or>
     type_in m [''long'', ''date''] \<and> - (2 ^ 63) \<le> i \<and> i < 2 ^ 63)"
| "accepts (JFloat f) = (\<lambda>m. type_in m [''double'', ''keyword'', ''text''] \<and> f64_finite f)"
| "accepts (JFloat32 f) = (\<lambda>m. type_in m [''double'', ''keyword'', ''text''] \<and> f64_finite f)"
| "accepts (JStr s) = (\<lambda>m. type_in m [''keyword'', ''text''])"
| "accepts (JArr js) = (\<lambda>m. list_all (\<lambda>p. p m) (map accepts js))"
| "accepts (JObj kvs) = (\<lambda>m. case mapping_properties m of
     Some ps \<Rightarrow> list_all (\<lambda>(k, p). case map_of ps k of Some m1 \<Rightarrow> p m1 | None \<Rightarrow> True) (map (map_prod id accepts) kvs)
   | None \<Rightarrow> False)"

text \<open>The check of a shape.\<close>

primrec fits :: "shape \<Rightarrow> json \<Rightarrow> bool" where
  "fits SBool = (\<lambda>m. type_in m [''boolean'', ''keyword'', ''text''])"
| "fits SInt64 = (\<lambda>m. type_in m [''double'', ''keyword'', ''text'', ''long'', ''date''])"
| "fits SUint32 = (\<lambda>m. type_in m [''double'', ''keyword'', ''text'', ''long'', ''date''])"
| "fits SUint64 = (\<lambda>m. type_in m [''double'', ''keyword'', ''text''])"
| "fits SFloat = (\<lambda>m. type_in m [''double'', ''keyword'', ''text''])"
| "fits SStr = (\<lambda>m. type_in m [''keyword'', ''text''])"
| "fits (SList s) = fits s"
| "fits (SObj fs) = (\<lambda>m. case mapping_properties m of
     Some ps \<Rightarrow> list_all (\<lambda>(k, p). case map_of ps k of Some m1 \<Rightarrow> p m1 | None \<Rightarrow> True) (map (map_prod id fits) fs)
   | None \<Rightarrow> False)"

lemma type_in_mono: "type_in m ts \<Longrightarrow> set ts \<subseteq> set us \<Longrightarrow> type_in m us"
  by (auto simp: type_in_def split: option.splits)

lemma accepts_int:
  assumes "int_in_shape i s" "fits s m"
  shows "accepts (JInt i) m"
  using assms by (cases s) (auto simp: type_in_def split: option.splits)

theorem fits_sound:
  assumes "has_shape v s" "json_finite v" "fits s m"
  shows "accepts v m"
  using assms
proof (induction v arbitrary: s m)
  case (JInt i)
  then show ?case using accepts_int [of i s m] by simp
next
  case (JArr js)
  from JArr(2) obtain s1 where s: "s = SList s1" "\<forall>j \<in> set js. has_shape j s1"
    by (cases s) (auto simp: list_all_iff)
  with JArr(1) [of _ s1 m] JArr(3,4) show ?case by (auto simp: list_all_iff)
next
  case (JObj kvs)
  from JObj(2) obtain fs where s: "s = SObj fs" by (cases s) auto
  have fs: "\<exists>s1. (k, s1) \<in> set fs \<and> has_shape v s1" if "(k, v) \<in> set kvs" for k v
    using JObj(2) that by (fastforce simp: s list_all_iff list_ex_iff)
  from JObj(4) s obtain ps where ps: "mapping_properties m = Some ps" by (auto split: option.splits)
  have "accepts v m1" if kv: "(k, v) \<in> set kvs" and m1: "map_of ps k = Some m1" for k v m1
  proof -
    from fs [OF kv] obtain s1 where "(k, s1) \<in> set fs" and sh: "has_shape v s1" by blast
    with JObj(4) s ps m1 have ft: "fits s1 m1" by (auto simp: list_all_iff dest!: bspec)
    from JObj(3) kv have "json_finite v" by (auto simp: list_all_iff)
    from JObj(1) [OF kv _ sh this ft] show ?thesis by simp
  qed
  then show ?case by (auto simp: ps list_all_iff split: option.splits)
qed (auto simp: type_in_def split: option.splits)

section \<open>The shapes of the documents\<close>

definition TokenMetaData_shape :: shape where
  "TokenMetaData_shape = SObj [(''name'', SStr), (''creator'', SStr), (''royalties'', SUint32), (''hash'', SStr),
    (''uris'', SList SStr), (''tags'', SList SStr), (''attributes'', SStr), (''metadata'', SStr),
    (''nonEmptyURIs'', SBool), (''whiteListedStorage'', SBool)]"

definition AccountInfo_shape :: shape where
  "AccountInfo_shape = SObj [(''address'', SStr), (''nonce'', SUint64), (''balance'', SStr), (''balanceNum'', SFloat),
    (''token'', SStr), (''identifier'', SStr), (''tokenNonce'', SUint64), (''properties'', SStr), (''frozen'', SBool),
    (''owner'', SStr), (''userName'', SStr), (''developerRewards'', SStr), (''developerRewardsNum'', SFloat),
    (''data'', TokenMetaData_shape), (''timestamp'', SInt64), (''type'', SStr), (''currentOwner'', SStr),
    (''shardID'', SUint32), (''rootHash'', SStr), (''codeHash'', SStr), (''codeMetadata'', SStr)]"

definition AccountBalanceHistory_shape :: shape where
  "AccountBalanceHistory_shape = SObj [(''address'', SStr), (''timestamp'', SInt64), (''balance'', SStr),
    (''token'', SStr), (''identifier'', SStr), (''tokenNonce'', SUint64), (''isSender'', SBool),
    (''isSmartContract'', SBool), (''shardID'', SUint32)]"

definition TokenProperties_shape :: shape where
  "TokenProperties_shape = SObj [(''canMint'', SBool), (''canBurn'', SBool), (''canUpgrade'', SBool),
    (''canTransferNFTCreateRole'', SBool), (''canAddSpecialRoles'', SBool), (''canPause'', SBool),
    (''canFreeze'', SBool), (''canWipe'', SBool), (''canChangeOwner'', SBool), (''canCreateMultiShard'', SBool)]"

definition OwnerData_shape :: shape where
  "OwnerData_shape = SObj [(''txHash'', SStr), (''address'', SStr), (''timestamp'', SInt64)]"

definition TokenInfo_shape :: shape where
  "TokenInfo_shape = SObj [(''name'', SStr), (''ticker'', SStr), (''identifier'', SStr), (''token'', SStr),
    (''issuer'', SStr), (''currentOwner'', SStr), (''numDecimals'', SInt64), (''type'', SStr), (''nonce'', SUint64),
    (''timestamp'', SInt64), (''data'', TokenMetaData_shape), (''ownersHistory'', SList OwnerData_shape),
    (''properties'', TokenProperties_shape)]"

definition ScResult_shape :: shape where
  "ScResult_shape = SObj [(''uuid'', SStr), (''miniBlockHash'', SStr), (''nonce'', SUint64), (''gasLimit'', SUint64),
    (''gasPrice'', SUint64), (''value'', SStr), (''valueNum'', SFloat), (''sender'', SStr), (''receiver'', SStr),
    (''senderShard'', SUint32), (''receiverShard'', SUint32), (''relayerAddr'', SStr), (''relayedValue'', SStr),
    (''code'', SStr), (''data'', SStr), (''prevTxHash'', SStr), (''originalTxHash'', SStr), (''callType'', SStr),
    (''codeMetaData'', SStr), (''returnMessage'', SStr), (''timestamp'', SInt64), (''hasOperations'', SBool),
    (''type'', SStr), (''status'', SStr), (''tokens'', SList SStr), (''esdtValues'', SList SStr),
    (''esdtValuesNum'', SList SFloat), (''receivers'', SList SStr), (''receiversShardIDs'', SList SUint32),
    (''operation'', SStr), (''function'', SStr), (''isRelayed'', SBool), (''canBeIgnored'', SBool),
    (''originalSender'', SStr), (''hasLogs'', SBool), (''epoch'', SUint32)]"

definition Transaction_shape :: shape where
  "Transaction_shape = SObj [(''uuid'', SStr), (''miniBlockHash'', SStr), (''nonce'', SUint64), (''round'', SUint64),
    (''value'', SStr), (''valueNum'', SFloat), (''receiver'', SStr), (''sender'', SStr), (''receiverShard'', SUint32),
    (''senderShard'', SUint32), (''gasPrice'', SUint64), (''gasLimit'', SUint64), (''gasUsed'', SUint64),
    (''fee'', SStr), (''feeNum'', SFloat), (''initialPaidFee'', SStr), (''data'', SStr), (''signature'', SStr),
    (''timestamp'', SInt64), (''status'', SStr), (''searchOrder'', SUint32), (''senderUserName'', SStr),
    (''receiverUserName'', SStr), (''hasScResults'', SBool), (''isScCall'', SBool), (''hasOperations'', SBool),
    (''hasLogs'', SBool), (''tokens'', SList SStr), (''esdtValues'', SList SStr), (''esdtValuesNum'', SList SFloat),
    (''receivers'', SList SStr), (''receiversShardIDs'', SList SUint32), (''type'', SStr), (''operation'', SStr),
    (''function'', SStr), (''isRelayed'', SBool), (''version'', SUint32), (''guardian'', SStr),
    (''guardianSignature'', SStr), (''errorEvent'', SBool), (''completedEvent'', SBool), (''relayer'', SStr),
    (''relayerSignature'', SStr), (''hadRefund'', SBool), (''epoch'', SUint32)]"

definition Receipt_shape :: shape where
  "Receipt_shape = SObj [(''value'', SStr), (''sender'', SStr), (''data'', SStr), (''txHash'', SStr),
    (''timestamp'', SInt64)]"

definition Upgrade_shape :: shape where
  "Upgrade_shape = SObj [(''upgradeTxHash'', SStr), (''upgrader'', SStr), (''timestamp'', SInt64),
    (''codeHash'', SStr)]"

definition ScDeployInfo_shape :: shape where
  "ScDeployInfo_shape = SObj [(''deployTxHash'', SStr), (''deployer'', SStr), (''currentOwner'', SStr),
    (''initialCodeHash'', SStr), (''timestamp'', SInt64), (''upgrades'', SList Upgrade_shape),
    (''owners'', SList OwnerData_shape)]"

definition UnDelegate_shape :: shape where
  "UnDelegate_shape = SObj [(''timestamp'', SInt64), (''id'', SStr), (''value'', SStr), (''valueNum'', SFloat)]"

definition Delegator_shape :: shape where
  "Delegator_shape = SObj [(''address'', SStr), (''contract'', SStr), (''timestamp'', SInt64),
    (''activeStake'', SStr), (''activeStakeNum'', SFloat)]"

definition LogEvent_shape :: shape where
  "LogEvent_shape = SObj [(''uuid'', SStr), (''txHash'', SStr), (''originalTxHash'', SStr), (''logAddress'', SStr),
    (''address'', SStr), (''identifier'', SStr), (''data'', SStr), (''additionalData'', SList SStr),
    (''topics'', SList SStr), (''order'', SInt64), (''txOrder'', SInt64), (''shardID'', SUint32),
    (''timestamp'', SInt64)]"

definition Event_shape :: shape where
  "Event_shape = SObj [(''address'', SStr), (''identifier'', SStr), (''topics'', SList SStr), (''data'', SStr),
    (''additionalData'', SList SStr), (''order'', SInt64)]"

definition Logs_shape :: shape where
  "Logs_shape = SObj [(''uuid'', SStr), (''originalTxHash'', SStr), (''address'', SStr),
    (''events'', SList Event_shape), (''timestamp'', SInt64)]"

definition Miniblock_shape :: shape where
  "Miniblock_shape = SObj [(''hash'', SStr), (''senderShard'', SUint32), (''receiverShard'', SUint32),
    (''senderBlockHash'', SStr), (''receiverBlockHash'', SStr), (''type'', SStr), (''procTypeS'', SStr),
    (''procTypeD'', SStr), (''timestamp'', SInt64), (''reserved'', SStr)]"

definition MiniBlocksDetails_shape :: shape where
  "MiniBlocksDetails_shape = SObj [(''firstProcessedTx'', SInt64), (''lastProcessedTx'', SInt64),
    (''senderShard'', SUint32), (''receiverShard'', SUint32), (''mbIndex'', SInt64), (''type'', SStr),
    (''procType'', SStr), (''txsHashes'', SList SStr), (''executionOrderTxsIndices'', SList SInt64)]"

definition ScheduledData_shape :: shape where
  "ScheduledData_shape = SObj [(''rootHash'', SStr), (''accumulatedFees'', SStr), (''developerFees'', SStr),
    (''gasProvided'', SUint64), (''penalized'', SUint64), (''gasRefunded'', SUint64)]"

definition EpochStartInfo_shape :: shape where
  "EpochStartInfo_shape = SObj [(''totalSupply'', SStr), (''totalToDistribute'', SStr), (''totalNewlyMinted'', SStr),
    (''rewardsPerBlock'', SStr), (''rewardsForProtocolSustainability'', SStr), (''nodePrice'', SStr),
    (''prevEpochStartRound'', SUint64), (''prevEpochStartHash'', SStr)]"

definition EpochStartShardData_shape :: shape where
  "EpochStartShardData_shape = SObj [(''shardID'', SUint32), (''epoch'', SUint32), (''round'', SUint64),
    (''nonce'', SUint64), (''headerHash'', SStr), (''rootHash'', SStr), (''scheduledRootHash'', SStr),
    (''firstPendingMetaBlock'', SStr), (''lastFinishedMetaBlock'', SStr),
    (''pendingMiniBlockHeaders'', SList Miniblock_shape)]"

definition Block_shape :: shape where
  "Block_shape = SObj [(''uuid'', SStr), (''nonce'', SUint64), (''round'', SUint64), (''epoch'', SUint32),
    (''miniBlocksHashes'', SList SStr), (''miniBlocksDetails'', SList MiniBlocksDetails_shape),
    (''notarizedBlocksHashes'', SList SStr), (''proposer'', SInt64), (''validators'', SList SInt64),
    (''pubKeyBitmap'', SStr), (''size'', SInt64), (''sizeTxs'', SInt64), (''timestamp'', SInt64),
    (''stateRootHash'', SStr), (''prevHash'', SStr), (''shardId'', SUint32), (''txCount'', SUint32),
    (''notarizedTxsCount'', SUint32), (''accumulatedFees'', SStr), (''developerFees'', SStr),
    (''epochStartBlock'', SBool), (''searchOrder'', SInt64), (''epochStartInfo'', EpochStartInfo_shape),
    (''gasProvided'', SUint64), (''gasRefunded'', SUint64), (''gasPenalized'', SUint64), (''maxGasLimit'', SUint64),
    (''scheduledData'', ScheduledData_shape), (''epochStartShardsData'', SList EpochStartShardData_shape),
    (''randSeed'', SStr), (''prevRandSeed'', SStr), (''signature'', SStr), (''leaderSignature'', SStr),
    (''chainID'', SStr), (''softwareVersion'', SStr), (''receiptsHash'', SStr), (''reserved'', SStr)]"

definition ValidatorsPublicKeys_shape :: shape where
  "ValidatorsPublicKeys_shape = SObj [(''publicKeys'', SList SStr)]"

definition ValidatorRatingInfo_shape :: shape where
  "ValidatorRatingInfo_shape = SObj [(''rating'', SFloat)]"

definition RoundInfo_shape :: shape where
  "RoundInfo_shape = SObj [(''round'', SUint64), (''signersIndexes'', SList SInt64), (''blockWasProposed'', SBool),
    (''shardId'', SUint32), (''epoch'', SUint32), (''timestamp'', SInt64)]"

definition EpochInfo_shape :: shape where
  "EpochInfo_shape = SObj [(''accumulatedFees'', SStr), (''developerFees'', SStr)]"

definition KeyValueObj_shape :: shape where
  "KeyValueObj_shape = SObj [(''key'', SStr), (''value'', SStr)]"

section \<open>Typing rules\<close>

definition typed :: "json_fields \<Rightarrow> (string \<times> shape) list \<Rightarrow> bool" where
  "typed kvs fs \<longleftrightarrow> (\<forall>k v. (k, v) \<in> set kvs \<longrightarrow> (\<exists>s. (k, s) \<in> set fs \<and> has_shape v s))"

text \<open>The values of the 64-bit fields that the templates map as longs.\<close>

definition small :: "u64 \<Rightarrow> bool" where "small w \<longleftrightarrow> uint w < 2 ^ 63"

definition int64 :: "int \<Rightarrow> bool" where "int64 i \<longleftrightarrow> - (2 ^ 63) \<le> i \<and> i < 2 ^ 63"

named_theorems typing

lemma typed_object [typing]: "typed kvs fs \<Longrightarrow> has_shape (JObj kvs) (SObj fs)"
  by (fastforce simp: typed_def list_all_iff list_ex_iff)

lemma typed_append [typing]: "typed a [x] \<Longrightarrow> typed b fs \<Longrightarrow> typed (a @ b) (x # fs)"
  by (force simp: typed_def)

lemma typed_value [typing]: "has_shape v s \<Longrightarrow> typed [(n, v)] [(n, s)]"
  by (simp add: typed_def)

lemma typed_two [typing]: "has_shape v s \<Longrightarrow> has_shape v1 s1 \<Longrightarrow> typed [(n, v), (n1, v1)] [(n, s), (n1, s1)]"
  by (auto simp: typed_def)

lemma shape_u32: "has_shape (JInt (uint (w :: u32))) SUint32"
  using uint_lt2p [of w] by simp

lemma shape_u64: "has_shape (JInt (uint (w :: u64))) SUint64"
  using uint_lt2p [of w] by simp

lemma shape_small: "small w \<Longrightarrow> has_shape (JInt (uint w)) SInt64"
  by (auto simp: small_def intro: order_trans [OF _ uint_ge_0])

lemma shape_int64: "int64 i \<Longrightarrow> has_shape (JInt i) SInt64"
  by (simp add: int64_def)

lemma shape_sint: "has_shape (JInt (sint (w :: u64))) SInt64"
  using sint_lt [of w] sint_ge [of w] by simp

lemma shape_bytes: "has_shape (json_bytes b) SStr"
  by (simp add: json_bytes_def)

lemma typed_scalars [typing]:
  "typed (f_str n t) [(n, SStr)]" "typed (f_bool n b) [(n, SBool)]" "typed (f_float n f) [(n, SFloat)]"
  "typed (f_time n w) [(n, SInt64)]" "typed (f_bytes n bs) [(n, SStr)]" "typed (f_uint n w32) [(n, SUint32)]"
  "typed (f_uint n w) [(n, SUint64)]" "small w \<Longrightarrow> typed (f_uint n w) [(n, SInt64)]" "int64 i \<Longrightarrow> typed (f_int n i) [(n, SInt64)]"
  for w :: u64 and w32 :: u32
  unfolding f_str_def f_bool_def f_float_def f_time_def f_bytes_def f_uint_def f_int_def
  by (simp_all add: typed_value shape_u32 shape_u64 shape_small shape_int64 shape_sint shape_bytes del: has_shape.simps(3))

lemma typed_omit: "typed kvs fs \<Longrightarrow> typed (omit_empty c kvs) fs"
  by (simp add: omit_empty_def typed_def)

lemma typed_optional [typing]:
  "typed (o_str n t) [(n, SStr)]" "typed (o_bool n b) [(n, SBool)]" "typed (o_float n f) [(n, SFloat)]"
  "typed (o_time n w) [(n, SInt64)]" "typed (o_bytes n bs) [(n, SStr)]" "typed (o_uint n w32) [(n, SUint32)]"
  "typed (o_uint n w) [(n, SUint64)]"
  for w :: u64 and w32 :: u32
  unfolding o_str_def o_bool_def o_float_def o_time_def o_bytes_def o_uint_def
  by (intro typed_omit typed_scalars)+

lemma shape_list [typing]:
  "(\<And>x. x \<in> set xs \<Longrightarrow> has_shape (f x) s) \<Longrightarrow> has_shape (JArr (map f xs)) (SList s)"
  "(\<And>x. x \<in> set xs \<Longrightarrow> has_shape (f x) s) \<Longrightarrow> has_shape (json_list f xs) (SList s)"
  by (auto simp: list_all_iff json_list_def)

lemma typed_list [typing]: "(\<And>x. x \<in> set xs \<Longrightarrow> has_shape (f x) s) \<Longrightarrow> typed (o_list n f xs) [(n, SList s)]"
  unfolding o_list_def by (intro typed_omit typed_value shape_list)

lemma typed_pointer [typing]: "(\<And>v. x = Some v \<Longrightarrow> has_shape (f v) s) \<Longrightarrow> typed (o_ptr n f x) [(n, s)]"
  by (auto simp: o_ptr_def typed_def split: option.splits)

lemma shape_elems [typing]:
  "has_shape (JStr t) SStr" "has_shape (JFloat f) SFloat" "has_shape (JFloat32 f) SFloat" "has_shape (json_bytes b) SStr"
  "has_shape ((JInt \<circ> uint) w32) SUint32" "small w \<Longrightarrow> has_shape ((JInt \<circ> uint) w) SInt64"
  "int64 i \<Longrightarrow> has_shape (JInt i) SInt64"
  for w32 :: u32
  using shape_u32 shape_small shape_int64 shape_bytes by simp_all

section \<open>The documents have their shapes\<close>

lemma shape_TokenMetaData [typing]: "has_shape (TokenMetaData_json m) TokenMetaData_shape"
  unfolding TokenMetaData_json_def TokenMetaData_shape_def by (intro typing)

lemma shape_AccountInfo: "has_shape (AccountInfo_json a) AccountInfo_shape"
  unfolding AccountInfo_json_def AccountInfo_shape_def by (intro typing)

lemma shape_AccountBalanceHistory: "has_shape (AccountBalanceHistory_json a) AccountBalanceHistory_shape"
  unfolding AccountBalanceHistory_json_def AccountBalanceHistory_shape_def by (intro typing)

lemma shape_TokenProperties [typing]: "has_shape (TokenProperties_json p) TokenProperties_shape"
  unfolding TokenProperties_json_def TokenProperties_shape_def by (intro typing)

lemma shape_OwnerData [typing]: "has_shape (OwnerData_json d) OwnerData_shape"
  unfolding OwnerData_json_def OwnerData_shape_def by (intro typing)

lemma shape_TokenInfo: "small (ti_NumDecimals t) \<Longrightarrow> has_shape (TokenInfo_json t) TokenInfo_shape"
  unfolding TokenInfo_json_def TokenInfo_shape_def by (intro typing)

lemma shape_ScResult: "has_shape (ScResult_json s) ScResult_shape"
  unfolding ScResult_json_def ScResult_shape_def by (intro typing)

lemma shape_Transaction: "has_shape (Transaction_json t) Transaction_shape"
  unfolding Transaction_json_def Transaction_shape_def by (intro typing)

lemma shape_Receipt: "has_shape (Receipt_json r) Receipt_shape"
  unfolding Receipt_json_def Receipt_shape_def by (intro typing)

lemma shape_Upgrade [typing]: "small (up_Timestamp u) \<Longrightarrow> has_shape (Upgrade_json u) Upgrade_shape"
  unfolding Upgrade_json_def Upgrade_shape_def by (intro typing)

lemma shape_ScDeployInfo:
  "small (sd_Timestamp d) \<Longrightarrow> list_all (\<lambda>u. small (up_Timestamp u)) (sd_Upgrades d) \<Longrightarrow> has_shape (ScDeployInfo_json d) ScDeployInfo_shape"
  unfolding ScDeployInfo_json_def ScDeployInfo_shape_def by (intro typing) (auto simp: list_all_iff)

lemma shape_Delegator: "has_shape (Delegator_json d) Delegator_shape"
  unfolding Delegator_json_def Delegator_shape_def by (intro typing)

lemma shape_LogEvent: "int64 (le_Order e) \<Longrightarrow> int64 (le_TxOrder e) \<Longrightarrow> has_shape (LogEvent_json e) LogEvent_shape"
  unfolding LogEvent_json_def LogEvent_shape_def by (intro typing)

lemma shape_Event [typing]: "int64 (ev_Order e) \<Longrightarrow> has_shape (Event_json e) Event_shape"
  unfolding Event_json_def Event_shape_def by (intro typing)

lemma shape_Logs: "list_all (\<lambda>e. int64 (ev_Order e)) (lg_Events l) \<Longrightarrow> has_shape (Logs_json l) Logs_shape"
  unfolding Logs_json_def Logs_shape_def by (intro typing) (auto simp: list_all_iff)

lemma shape_Miniblock [typing]: "has_shape (Miniblock_json m) Miniblock_shape"
  unfolding Miniblock_json_def Miniblock_shape_def by (intro typing)

definition details_in_range :: "MiniBlocksDetails \<Rightarrow> bool" where
  "details_in_range d \<longleftrightarrow> int64 (mbd_IndexFirstProcessedTx d) \<and> int64 (mbd_IndexLastProcessedTx d) \<and>
     int64 (int (mbd_MBIndex d)) \<and> list_all int64 (mbd_ExecutionOrderTxsIndices d)"

lemma shape_MiniBlocksDetails [typing]: "details_in_range d \<Longrightarrow> has_shape (MiniBlocksDetails_json d) MiniBlocksDetails_shape"
  unfolding MiniBlocksDetails_json_def MiniBlocksDetails_shape_def
  by (intro typing) (auto simp: details_in_range_def list_all_iff)

lemma shape_ScheduledData [typing]: "has_shape (ScheduledData_json d) ScheduledData_shape"
  unfolding ScheduledData_json_def ScheduledData_shape_def by (intro typing)

lemma shape_EpochStartInfo [typing]: "has_shape (EpochStartInfo_json e) EpochStartInfo_shape"
  unfolding EpochStartInfo_json_def EpochStartInfo_shape_def by (intro typing)

lemma shape_EpochStartShardData [typing]: "has_shape (EpochStartShardData_json d) EpochStartShardData_shape"
  unfolding EpochStartShardData_json_def EpochStartShardData_shape_def by (intro typing)

definition block_in_range :: "Block \<Rightarrow> bool" where
  "block_in_range b \<longleftrightarrow> list_all details_in_range (bl_MiniBlocksDetails b) \<and> small (bl_Proposer b) \<and>
     list_all small (bl_Validators b) \<and> int64 (bl_Size b) \<and> int64 (bl_SizeTxs b) \<and> small (bl_SearchOrder b)"

lemma shape_Block: "block_in_range b \<Longrightarrow> has_shape (Block_json b) Block_shape"
  unfolding Block_json_def Block_shape_def by (intro typing) (auto simp: block_in_range_def list_all_iff)

lemma shape_ValidatorsPublicKeys: "has_shape (ValidatorsPublicKeys_json v) ValidatorsPublicKeys_shape"
  unfolding ValidatorsPublicKeys_json_def ValidatorsPublicKeys_shape_def by (intro typing)

lemma shape_ValidatorRatingInfo: "has_shape (ValidatorRatingInfo_json v) ValidatorRatingInfo_shape"
  unfolding ValidatorRatingInfo_json_def ValidatorRatingInfo_shape_def by (intro typing)

lemma shape_RoundInfo: "list_all small (ri_SignersIndexes r) \<Longrightarrow> has_shape (RoundInfo_json r) RoundInfo_shape"
  unfolding RoundInfo_json_def RoundInfo_shape_def by (intro typing) (auto simp: list_all_iff)

lemma shape_EpochInfo: "has_shape (EpochInfo_json e) EpochInfo_shape"
  unfolding EpochInfo_json_def EpochInfo_shape_def by (intro typing)

lemma shape_KeyValueObj: "has_shape (KeyValueObj_json kv) KeyValueObj_shape"
  unfolding KeyValueObj_json_def KeyValueObj_shape_def by (intro typing)

end
