(* ===== verification/Documents_Fit.thy ===== *)
theory Documents_Fit
  imports Index_Types
begin

text \<open>
  The documents of the indexer against the templates of its indexes: which documents go to which index, the check of every
  template by evaluation, and the property that follows for all documents.
\<close>

section \<open>Templates in the order of their keys\<close>

lemma map_of_filter: "map_of kvs k = map_of (filter (\<lambda>x. fst x = k) kvs) k"
  by (induction kvs) auto

lemma map_of_sort_key: "map_of (sort_key fst kvs) k = map_of kvs k"
  using map_of_filter [of kvs k] map_of_filter [of "sort_key fst kvs" k] by (simp add: sort_key_stable)

lemma map_of_map_values: "map_of (map (map_prod id f) kvs) n = map_option f (map_of kvs n)"
  by (induction kvs) auto

lemma mapping_entry_sort: "mapping_entry n (sort_keys m) = map_option sort_keys (mapping_entry n m)"
  by (cases m) (simp_all add: mapping_entry_def map_of_sort_key map_of_map_values)

lemma mapping_type_sort: "mapping_type (sort_keys m) = mapping_type m"
  by (auto simp: mapping_type_def mapping_entry_sort split: option.splits json.splits)

lemma type_in_sort: "type_in (sort_keys m) ts = type_in m ts"
  by (simp add: type_in_def mapping_type_sort)

lemma mapping_properties_sort:
  "mapping_properties (sort_keys m) = map_option (\<lambda>ps. sort_key fst (map (map_prod id sort_keys) ps)) (mapping_properties m)"
  by (auto simp: mapping_properties_def mapping_entry_sort split: option.splits json.splits)

lemma accepts_sort: "accepts v (sort_keys m) = accepts v m"
proof (induction v arbitrary: m)
  case (JObj kvs)
  have "(case map_option sort_keys (map_of ps k) of Some m1 \<Rightarrow> accepts v m1 | None \<Rightarrow> True) =
      (case map_of ps k of Some m1 \<Rightarrow> accepts v m1 | None \<Rightarrow> True)" if "(k, v) \<in> set kvs" for k v ps
    using JObj [OF that] by (auto split: option.splits)
  then show ?case
    by (fastforce simp: mapping_properties_sort list_all_iff map_of_sort_key map_of_map_values split: option.splits)
qed (simp_all add: type_in_sort list_all_iff)

lemma json_props_sort:
  "json_finite (sort_keys j) = json_finite j" "json_utf8 (sort_keys j) = json_utf8 j"
  by (induction j) (auto simp: list_all_iff)

section \<open>The documents of the indexes\<close>

text \<open>
  Which documents the serializers write to which index.  The integers of the structs have the ranges of their types, and the
  few unsigned ones of 64 bits that the templates map as longs are below \<open>2 ^ 63\<close>.
\<close>

inductive document :: "string \<Rightarrow> json \<Rightarrow> bool" where
  doc_transaction: "document TransactionsIndex (Transaction_json t)"
| doc_operation: "document OperationsIndex (Transaction_json t)"
| doc_operation_scr: "document OperationsIndex (ScResult_json r)"
| doc_scresult: "document ScResultsIndex (ScResult_json r)"
| doc_receipt: "document ReceiptsIndex (Receipt_json rc)"
| doc_block: "block_in_range b \<Longrightarrow> document BlockIndex (Block_json b)"
| doc_miniblock: "document MiniblocksIndex (Miniblock_json m)"
| doc_round: "list_all small (ri_SignersIndexes r) \<Longrightarrow> document RoundsIndex (RoundInfo_json r)"
| doc_validators: "document ValidatorsIndex (ValidatorsPublicKeys_json v)"
| doc_rating: "document RatingIndex (ValidatorRatingInfo_json vr)"
| doc_account: "document AccountsIndex (AccountInfo_json a)"
| doc_account_esdt: "document AccountsESDTIndex (AccountInfo_json a)"
| doc_history: "document AccountsHistoryIndex (AccountBalanceHistory_json h)"
| doc_history_esdt: "document AccountsESDTHistoryIndex (AccountBalanceHistory_json h)"
| doc_epoch: "document EpochInfoIndex (EpochInfo_json e)"
| doc_deploy: "small (sd_Timestamp d) \<Longrightarrow> list_all (\<lambda>u. small (up_Timestamp u)) (sd_Upgrades d) \<Longrightarrow>
    document SCDeploysIndex (ScDeployInfo_json d)"
| doc_token: "small (ti_NumDecimals ti) \<Longrightarrow> document TokensIndex (TokenInfo_json ti)"
| doc_esdt: "small (ti_NumDecimals ti) \<Longrightarrow> document ESDTsIndex (TokenInfo_json ti)"
| doc_logs: "list_all (\<lambda>e. int64 (ev_Order e)) (lg_Events l) \<Longrightarrow> document LogsIndex (Logs_json l)"
| doc_event: "int64 (le_Order le) \<Longrightarrow> int64 (le_TxOrder le) \<Longrightarrow> document EventsIndex (LogEvent_json le)"
| doc_delegator: "document DelegatorsIndex (Delegator_json dg)"
| doc_value: "document ValuesIndex (KeyValueObj_json kv)"

definition index_shapes :: "(string \<times> shape) list" where
  "index_shapes =
     [(TransactionsIndex, Transaction_shape), (OperationsIndex, Transaction_shape), (OperationsIndex, ScResult_shape),
      (ScResultsIndex, ScResult_shape), (ReceiptsIndex, Receipt_shape), (BlockIndex, Block_shape),
      (MiniblocksIndex, Miniblock_shape), (RoundsIndex, RoundInfo_shape), (ValidatorsIndex, ValidatorsPublicKeys_shape),
      (RatingIndex, ValidatorRatingInfo_shape), (AccountsIndex, AccountInfo_shape), (AccountsESDTIndex, AccountInfo_shape),
      (AccountsHistoryIndex, AccountBalanceHistory_shape), (AccountsESDTHistoryIndex, AccountBalanceHistory_shape),
      (EpochInfoIndex, EpochInfo_shape), (SCDeploysIndex, ScDeployInfo_shape), (TokensIndex, TokenInfo_shape),
      (ESDTsIndex, TokenInfo_shape), (LogsIndex, Logs_shape), (EventsIndex, LogEvent_shape),
      (DelegatorsIndex, Delegator_shape), (ValuesIndex, KeyValueObj_shape)]"

lemmas document_shapes = shape_AccountInfo shape_AccountBalanceHistory shape_TokenInfo shape_ScResult shape_Transaction
  shape_Receipt shape_ScDeployInfo shape_Delegator shape_LogEvent shape_Logs shape_Miniblock shape_Block
  shape_ValidatorsPublicKeys shape_ValidatorRatingInfo shape_RoundInfo shape_EpochInfo shape_KeyValueObj

lemma document_shape: "document index doc \<Longrightarrow> \<exists>s. (index, s) \<in> set index_shapes \<and> has_shape doc s"
  by (induction rule: document.induct)
    (simp_all add: index_shapes_def ex_disj_distrib conj_disj_distribR document_shapes)

text \<open>The mappings of a composable template and of a legacy one.\<close>

definition mappings_of :: "json \<Rightarrow> json option" where
  "mappings_of t = (case mapping_entry ''template'' t of Some t1 \<Rightarrow> mapping_entry ''mappings'' t1 | None \<Rightarrow> mapping_entry ''mappings'' t)"

definition template_fits :: "(string \<times> json) list \<Rightarrow> string \<times> shape \<Rightarrow> bool" where
  "template_fits ts p = (case map_of ts (fst p) of
     None \<Rightarrow> True
   | Some t \<Rightarrow> (case mappings_of t of Some m \<Rightarrow> fits (snd p) m | None \<Rightarrow> False))"

lemma noKibana_fit:
  "list_all (template_fits noKibana_templates) (take 4 index_shapes)"
  "list_all (template_fits noKibana_templates) (take 4 (drop 4 index_shapes))"
  by code_simp+

lemma noKibana_fit_more:
  "list_all (template_fits noKibana_templates) (take 6 (drop 8 index_shapes))"
  "list_all (template_fits noKibana_templates) (drop 14 index_shapes)"
  by code_simp+

lemma withKibana_fit:
  "list_all (template_fits withKibana_templates) (take 4 index_shapes)"
  "list_all (template_fits withKibana_templates) (take 4 (drop 4 index_shapes))"
  by code_simp+

lemma withKibana_fit_more:
  "list_all (template_fits withKibana_templates) (take 6 (drop 8 index_shapes))"
  "list_all (template_fits withKibana_templates) (drop 14 index_shapes)"
  by code_simp+

text \<open>The templates are plain ASCII text without floats.\<close>

definition ascii :: "string \<Rightarrow> bool" where "ascii = list_all (\<lambda>c. \<not> digit7 c)"

primrec json_plain :: "json \<Rightarrow> bool" where
  "json_plain JNull = True"
| "json_plain (JBool b) = True"
| "json_plain (JInt i) = True"
| "json_plain (JFloat f) = False"
| "json_plain (JFloat32 f) = False"
| "json_plain (JStr s) = ascii s"
| "json_plain (JArr js) = list_all id (map json_plain js)"
| "json_plain (JObj kvs) = list_all (\<lambda>(k, b). ascii k \<and> b) (map (map_prod id json_plain) kvs)"

lemma of_char_ascii: "\<not> digit7 c \<Longrightarrow> (of_char c :: nat) < 128"
  by (cases c) (simp add: of_char_Char)

lemma utf8_ascii: "ascii s \<Longrightarrow> utf8_ok s"
  by (induction s) (auto simp: ascii_def of_char_ascii utf8_ok.simps)

lemma json_plain_ok: "json_plain j \<Longrightarrow> json_utf8 j \<and> json_finite j"
  by (induction j) (auto simp: list_all_iff utf8_ascii)

lemma templates_plain: "list_all (json_plain \<circ> snd) noKibana_templates" "list_all (json_plain \<circ> snd) withKibana_templates"
  by code_simp+

section \<open>Documents and templates\<close>

lemma the_templates_fit:
  assumes "(index, s) \<in> set index_shapes" "(index, t) \<in> set (the_templates useKibana)"
  shows "\<exists>m. mappings_of t = Some m \<and> fits s m"
proof -
  have "list_all (template_fits (the_templates useKibana)) (take 4 index_shapes @ take 4 (drop 4 index_shapes) @
      take 6 (drop 8 index_shapes) @ drop 14 index_shapes)"
    using noKibana_fit noKibana_fit_more withKibana_fit withKibana_fit_more by (simp add: the_templates_def)
  also have "take 4 index_shapes @ take 4 (drop 4 index_shapes) @ take 6 (drop 8 index_shapes) @ drop 14 index_shapes = index_shapes"
    by (simp add: index_shapes_def)
  finally have "template_fits (the_templates useKibana) (index, s)" using assms(1) by (auto simp: list_all_iff)
  moreover have "map_of (the_templates useKibana) index = Some t"
    using assms(2) the_templates_distinct by (rule map_of_is_SomeI [rotated])
  ultimately show ?thesis by (auto simp: template_fits_def split: option.splits)
qed

lemma the_templates_plain: "(index, t) \<in> set (the_templates useKibana) \<Longrightarrow> json_plain t"
  using templates_plain by (auto simp: the_templates_def list_all_iff split: if_splits)

lemma ToBuffer_read:
  assumes "json_plain t"
  shows "json_decode (ToBuffer t) = Some (jv_of (sort_keys t))"
proof -
  from json_plain_ok [OF assms] have ok: "json_finite (sort_keys t)" "json_utf8 (sort_keys t)" by (simp_all add: json_props_sort)
  then have "Marshal (sort_keys t) = Inr (json_text (sort_keys t))" by (simp add: Marshal_def)
  with Marshal_roundtrip [OF this ok(2)] show ?thesis by (simp add: ToBuffer_def)
qed

lemma mappings_of_sort: "mappings_of (sort_keys t) = map_option sort_keys (mappings_of t)"
  by (auto simp: mappings_of_def mapping_entry_sort split: option.splits)

lemma reader_templates:
  assumes "GetElasticTemplatesAndPolicies (CreateTemplatesAndPoliciesReader useKibana) = Inr (ts, ps)"
    and "map_of ts index = Some (Some tpl)"
  shows "\<exists>t. (index, t) \<in> set (the_templates useKibana) \<and> tpl = ToBuffer t"
  using assms(2) reader_lookup [OF assms(1), of index] by (auto dest: map_of_SomeD)


lemma values_template:
  "map_of (put_objects noKibana_templates []) ValuesIndex = Some (Some (ToBuffer noKibana_Values))"
proof -
  have "map_of (the_templates False) ValuesIndex = Some noKibana_Values" by code_simp
  then show ?thesis
    using reader_lookup [of False "put_objects noKibana_templates []" "[]" ValuesIndex]
    by (simp add: CreateTemplatesAndPoliciesReader_def NewTemplatesAndPolicyReaderNoKibana_def)
qed


end
