(* ===== verification/Factories.thy ===== *)
theory Factories
  imports Templates_Reader Data_Indexer
begin

text \<open>
  How the parts are put together: the components that differ between a regular and a sovereign chain
  (\<^verbatim>\<open>factory/runType\<close>), the factory of the processor (\<^verbatim>\<open>process/elasticproc/factory\<close>), the factory of the indexer
  (\<^verbatim>\<open>process/factory\<close>) and the choice of the enabled indexes (\<^verbatim>\<open>factory/wsIndexerFactory.go\<close>).

  A dependency of another repository (marshaller, hasher, key converters) is a flag that says whether it is present; what the
  processors take from it is in the environment \<open>fa_libs\<close>.  The constructor of the client of the Elasticsearch library and the
  container of header creators are parameters.
\<close>

section \<open>Run type components (factory/runType)\<close>

record ElasticConfig =
  ec_Enabled :: bool
  ec_Url :: string
  ec_UserName :: string
  ec_Password :: string

text \<open>The configuration of a library client: its addresses, user and password, and whether its transport counts requests.\<close>

record es_config =
  ecfg_Addresses :: "string list"
  ecfg_Username :: string
  ecfg_Password :: string
  ecfg_Metrics :: bool

type_synonym 'w client_library = "es_config \<Rightarrow> 'w DatabaseClientHandler result"

text \<open>\<^verbatim>\<open>client.NewElasticClient\<close> on the constructor of the library.\<close>

definition new_elastic_client :: "'w client_library \<Rightarrow> es_config \<Rightarrow> 'w DatabaseClientHandler result" where
  "new_elastic_client NewClient cfg = (if ecfg_Addresses cfg = [] then Inl ErrNoElasticUrlProvided else NewClient cfg)"

record 'w runTypeComponents =
  txHashExtractor :: "hash_extractor option"
  rewardTxData :: "string option"
  rt_indexTokensHandler :: "'w IndexTokensHandler option"

definition createMainChainElasticClient :: "'w client_library \<Rightarrow> ElasticConfig \<Rightarrow> 'w mainChainElasticClient result" where
  "createMainChainElasticClient NewClient mainChainElastic =
     (if ec_Enabled mainChainElastic
      then bindr (new_elastic_client NewClient \<lparr>ecfg_Addresses = [ec_Url mainChainElastic], ecfg_Username = ec_UserName mainChainElastic,
                    ecfg_Password = ec_Password mainChainElastic, ecfg_Metrics = False\<rparr>)
             (\<lambda>esClient. NewMainChainElasticClient (Some esClient) (ec_Enabled mainChainElastic))
      else Inr \<lparr>mc_client = disabled_client, mc_indexingEnabled = False\<rparr>)"

datatype RunTypeComponentsCreator = RunTypeComponentsFactory | SovereignRunTypeComponentsFactory ElasticConfig string

definition NewSovereignIndexTokensHandler :: "'w mainChainElasticClient \<Rightarrow> string \<Rightarrow> 'w IndexTokensHandler result" where
  "NewSovereignIndexTokensHandler mainChainElasticClient ownPrefix = Inr (SovereignIndexTokensHandler mainChainElasticClient ownPrefix)"

fun create_components :: "'w client_library \<Rightarrow> core_consts \<Rightarrow> RunTypeComponentsCreator \<Rightarrow> 'w runTypeComponents result" where
  "create_components NewClient K RunTypeComponentsFactory =
     Inr \<lparr>txHashExtractor = Some ExtractExecutedTxHashes, rewardTxData = Some (reward_GetSender K),
          rt_indexTokensHandler = Some DisabledIndexTokensHandler\<rparr>"
| "create_components NewClient K (SovereignRunTypeComponentsFactory mainChainElastic ownPrefix) =
     bindr (createMainChainElasticClient NewClient mainChainElastic) (\<lambda>mainChainElasticClient.
     bindr (NewSovereignIndexTokensHandler mainChainElasticClient ownPrefix) (\<lambda>sovIndexTokensHandler.
       Inr \<lparr>txHashExtractor = Some sovereign_ExtractExecutedTxHashes, rewardTxData = Some (sovereign_reward_GetSender K),
            rt_indexTokensHandler = Some sovIndexTokensHandler\<rparr>))"

record 'w managedRunTypeComponents =
  components :: "'w runTypeComponents option"
  components_factory :: RunTypeComponentsCreator

definition NewManagedRunTypeComponents :: "RunTypeComponentsCreator option \<Rightarrow> 'w managedRunTypeComponents result" where
  "NewManagedRunTypeComponents rtc =
     (case rtc of None \<Rightarrow> Inl ErrNilRunTypeComponents | Some f \<Rightarrow> Inr \<lparr>components = None, components_factory = f\<rparr>)"

definition managed_Create ::
    "'w client_library \<Rightarrow> core_consts \<Rightarrow> 'w managedRunTypeComponents \<Rightarrow> unit result \<times> 'w managedRunTypeComponents" where
  "managed_Create NewClient K mrtc =
     (case create_components NewClient K (components_factory mrtc) of
        Inl e \<Rightarrow> (Inl e, mrtc)
      | Inr rtc \<Rightarrow> (Inr (), mrtc\<lparr>components := Some rtc\<rparr>))"

text \<open>The components have nothing to close.\<close>

definition managed_Close :: "'w managedRunTypeComponents \<Rightarrow> unit result \<times> 'w managedRunTypeComponents" where
  "managed_Close mrtc = (case components mrtc of None \<Rightarrow> (Inr (), mrtc) | Some _ \<Rightarrow> (Inr (), mrtc\<lparr>components := None\<rparr>))"

definition CheckSubcomponents :: "'w managedRunTypeComponents \<Rightarrow> unit result" where
  "CheckSubcomponents mrtc =
     (case components mrtc of None \<Rightarrow> Inl ErrNilRunTypeComponents
      | Some c \<Rightarrow>
          if txHashExtractor c = None then Inl ErrNilTxHashExtractor
          else if rewardTxData c = None then Inl ErrNilRewardTxDataHandler
          else if rt_indexTokensHandler c = None then Inl ErrNilIndexTokensHandler
          else Inr ())"

definition TxHashExtractorCreator :: "'w managedRunTypeComponents \<Rightarrow> hash_extractor option" where
  "TxHashExtractorCreator mrtc = (case components mrtc of None \<Rightarrow> None | Some c \<Rightarrow> txHashExtractor c)"

definition RewardTxDataCreator :: "'w managedRunTypeComponents \<Rightarrow> string option" where
  "RewardTxDataCreator mrtc = (case components mrtc of None \<Rightarrow> None | Some c \<Rightarrow> rewardTxData c)"

definition IndexTokensHandlerCreator :: "'w managedRunTypeComponents \<Rightarrow> 'w IndexTokensHandler option" where
  "IndexTokensHandlerCreator mrtc = (case components mrtc of None \<Rightarrow> None | Some c \<Rightarrow> rt_indexTokensHandler c)"

definition createManagedRunTypeComponents ::
    "'w client_library \<Rightarrow> core_consts \<Rightarrow> RunTypeComponentsCreator option \<Rightarrow> 'w managedRunTypeComponents result" where
  "createManagedRunTypeComponents NewClient K f =
     bindr (NewManagedRunTypeComponents f) (\<lambda>mrtc.
       case managed_Create NewClient K mrtc of (Inl e, _) \<Rightarrow> Inl e | (Inr _, mrtc1) \<Rightarrow> Inr mrtc1)"

section \<open>The processor (elasticproc/factory)\<close>

record 'w ArgElasticProcessorFactory =
  fa_Marshalizer :: bool
  fa_Hasher :: bool
  fa_AddressPubkeyConverter :: bool
  fa_ValidatorPubkeyConverter :: bool
  fa_DBClient :: "'w DatabaseClientHandler option"
  fa_EnabledIndexes :: "string list"
  fa_Version :: string
  fa_Denomination :: int
  fa_BulkRequestMaxSize :: int
  fa_UseKibana :: bool
  fa_ImportDB :: bool
  fa_TxHashExtractor :: "hash_extractor option"
  fa_RewardTxData :: "string option"
  fa_IndexTokensHandler :: "'w IndexTokensHandler option"
  fa_libs :: processor_env
  fa_DataFieldParser :: "unit result"

text \<open>\<^verbatim>\<open>NewTransactionsProcessor\<close>: the parser of the data field is created by another repository.\<close>

definition NewTransactionsProcessor :: "unit result \<Rightarrow> tx_processor_args option \<Rightarrow> unit result" where
  "NewTransactionsProcessor parser args = bindr (checkTxsProcessorArg args) (\<lambda>_. parser)"

definition checkArgsLogsAndEventsProcessor :: "bool \<Rightarrow> bool \<Rightarrow> bool \<Rightarrow> bool \<Rightarrow> unit result" where
  "checkArgsLogsAndEventsProcessor has_pubKeyConverter has_marshalizer has_balanceConverter has_hasher =
     (if \<not> has_pubKeyConverter then Inl ErrNilPubkeyConverter
      else if \<not> has_marshalizer then Inl ErrNilMarshalizer
      else if \<not> has_balanceConverter then Inl ErrNilBalanceConverter
      else if \<not> has_hasher then Inl ErrNilHasher
      else Inr ())"

definition CreateElasticProcessor :: "'w ArgElasticProcessorFactory \<Rightarrow> ('w, 'w elasticProcessor) io" where
  "CreateElasticProcessor a =
     (let reader = CreateTemplatesAndPoliciesReader (fa_UseKibana a) in
      io_bind (io_of (GetElasticTemplatesAndPolicies reader)) (\<lambda>(indexTemplates, indexPolicies).
      io_bind (io_of (GetExtraMappings reader)) (\<lambda>extraMappings.
      let enabledIndexesMap = remdups (fa_EnabledIndexes a) in
      if enabledIndexesMap = [] then io_fail ErrEmptyEnabledIndexes
      else
      io_bind (io_of (NewBalanceConverter (pe_lib (fa_libs a)) (fa_Denomination a))) (\<lambda>balanceConverter.
      io_bind (io_of (NewAccountsProcessor (fa_AddressPubkeyConverter a) True)) (\<lambda>_.
      io_bind (io_of (NewBlockProcessor (fa_Hasher a) (fa_Marshalizer a))) (\<lambda>_.
      io_bind (io_of (NewMiniblocksProcessor (fa_Hasher a) (fa_Marshalizer a))) (\<lambda>_.
      io_bind (io_of (NewValidatorsProcessor (fa_ValidatorPubkeyConverter a))) (\<lambda>_.
      io_bind (io_of (NewTransactionsProcessor (fa_DataFieldParser a)
          (Some \<lparr>ta_Marshalizer = fa_Marshalizer a, ta_Hasher = fa_Hasher a, ta_AddressPubkeyConverter = fa_AddressPubkeyConverter a,
                 ta_BalanceConverter = True, ta_TxHashExtractor = fa_TxHashExtractor a \<noteq> None,
                 ta_RewardTxData = fa_RewardTxData a \<noteq> None\<rparr>))) (\<lambda>_.
      io_bind (io_of (checkArgsLogsAndEventsProcessor (fa_AddressPubkeyConverter a) (fa_Marshalizer a) True (fa_Hasher a))) (\<lambda>_.
        NewElasticProcessor (Some
          \<lparr>ar_BulkRequestMaxSize = fa_BulkRequestMaxSize a, ar_UseKibana = fa_UseKibana a, ar_ImportDB = fa_ImportDB a,
           ar_IndexTemplates = indexTemplates, ar_ExtraMappings = extraMappings, ar_EnabledIndexes = Some enabledIndexesMap,
           ar_TransactionsProc = True, ar_AccountsProc = True, ar_BlockProc = True, ar_MiniblocksProc = True,
           ar_StatisticsProc = True, ar_ValidatorsProc = True, ar_DBClient = fa_DBClient a, ar_LogsAndEventsProc = True,
           ar_OperationsProc = True, ar_Version = fa_Version a, ar_IndexTokensHandler = fa_IndexTokensHandler a,
           ar_env = (fa_libs a)\<lparr>pe_balance := balanceConverter, pe_rewardSender := the_default_list (fa_RewardTxData a),
             pe_extractor := (case fa_TxHashExtractor a of None \<Rightarrow> sovereign_ExtractExecutedTxHashes | Some e \<Rightarrow> e),
             pe_validators_bulk := fa_BulkRequestMaxSize a\<rparr>\<rparr>)))))))))))"

section \<open>The indexer (process/factory)\<close>

record 'w ArgsIndexerFactory =
  ia_UseKibana :: bool
  ia_ImportDB :: bool
  ia_Sovereign :: bool
  ia_ESDTPrefix :: string
  ia_MainChainElastic :: ElasticConfig
  ia_Denomination :: int
  ia_BulkRequestMaxSize :: int
  ia_Url :: string
  ia_UserName :: string
  ia_Password :: string
  ia_Version :: string
  ia_EnabledIndexes :: "string list"
  ia_HeaderMarshaller :: bool
  ia_Marshalizer :: bool
  ia_Hasher :: bool
  ia_AddressPubkeyConverter :: bool
  ia_ValidatorPubkeyConverter :: bool
  ia_StatusMetrics :: bool
  ia_libs :: processor_env
  ia_DataFieldParser :: "unit result"

definition checkDataIndexerParams :: "'w ArgsIndexerFactory \<Rightarrow> unit result" where
  "checkDataIndexerParams a =
     (if \<not> ia_AddressPubkeyConverter a then Inl (ErrWrapped ''when setting AddressPubkeyConverter in indexer'' ErrNilPubkeyConverter)
      else if \<not> ia_ValidatorPubkeyConverter a
      then Inl (ErrWrapped ''when setting ValidatorPubkeyConverter in indexer'' ErrNilPubkeyConverter)
      else if ia_Url a = [] then Inl ErrNilUrl
      else if \<not> ia_Marshalizer a then Inl ErrNilMarshalizer
      else if \<not> ia_Hasher a then Inl ErrNilHasher
      else if \<not> ia_HeaderMarshaller a then Inl (ErrWrapped ''header marshaller'' ErrNilMarshalizer)
      else Inr ())"

definition createElasticClient :: "'w client_library \<Rightarrow> 'w ArgsIndexerFactory \<Rightarrow> 'w DatabaseClientHandler result" where
  "createElasticClient NewClient a =
     new_elastic_client NewClient \<lparr>ecfg_Addresses = [ia_Url a], ecfg_Username = ia_UserName a, ecfg_Password = ia_Password a,
       ecfg_Metrics = ia_StatusMetrics a\<rparr>"

definition createElasticProcessor ::
    "'w client_library \<Rightarrow> 'w ArgsIndexerFactory \<Rightarrow> 'w managedRunTypeComponents \<Rightarrow> ('w, 'w elasticProcessor) io" where
  "createElasticProcessor NewClient a mrtc =
     io_bind (io_of (createElasticClient NewClient a)) (\<lambda>databaseClient.
       CreateElasticProcessor
         \<lparr>fa_Marshalizer = ia_Marshalizer a, fa_Hasher = ia_Hasher a, fa_AddressPubkeyConverter = ia_AddressPubkeyConverter a,
          fa_ValidatorPubkeyConverter = ia_ValidatorPubkeyConverter a, fa_DBClient = Some databaseClient,
          fa_EnabledIndexes = ia_EnabledIndexes a, fa_Version = ia_Version a, fa_Denomination = ia_Denomination a,
          fa_BulkRequestMaxSize = ia_BulkRequestMaxSize a, fa_UseKibana = ia_UseKibana a, fa_ImportDB = ia_ImportDB a,
          fa_TxHashExtractor = TxHashExtractorCreator mrtc, fa_RewardTxData = RewardTxDataCreator mrtc,
          fa_IndexTokensHandler = IndexTokensHandlerCreator mrtc, fa_libs = ia_libs a, fa_DataFieldParser = ia_DataFieldParser a\<rparr>)"

text \<open>The container of header creators and the header types belong to the core library.\<close>

record ('b, 'c) container_lib =
  NewEmptyBlockCreatorsContainer :: 'b
  container_Add :: "string \<Rightarrow> 'c \<Rightarrow> 'b \<Rightarrow> 'b result"
  container_Get :: "'b \<Rightarrow> string \<Rightarrow> 'c result"
  header_creators :: "(string \<times> 'c) \<times> (string \<times> 'c) \<times> (string \<times> 'c) \<times> (string \<times> 'c)"

definition createBlockCreatorsContainer :: "('b, 'c) container_lib \<Rightarrow> 'b result" where
  "createBlockCreatorsContainer C =
     (case header_creators C of (shardV1, shardV2, meta, sovereign) \<Rightarrow>
      bindr (container_Add C (fst shardV1) (snd shardV1) (NewEmptyBlockCreatorsContainer C)) (\<lambda>c1.
      bindr (container_Add C (fst shardV2) (snd shardV2) c1) (\<lambda>c2.
      bindr (container_Add C (fst meta) (snd meta) c2) (\<lambda>c3.
        container_Add C (fst sovereign) (snd sovereign) c3))))"

definition factory_NewIndexer ::
    "'w client_library \<Rightarrow> ('b, 'c) container_lib \<Rightarrow> ('c \<Rightarrow> bytes \<Rightarrow> HeaderFull result) \<Rightarrow> 'w ArgsIndexerFactory
     \<Rightarrow> ('w, ('w processor_state, 'c) dataIndexer \<times> 'w elasticProcessor) io" where
  "factory_NewIndexer NewClient C unmarshal a =
     io_bind (io_of (checkDataIndexerParams a)) (\<lambda>_.
     io_bind (io_of (createManagedRunTypeComponents NewClient (pe_consts (ia_libs a))
         (Some (if ia_Sovereign a then SovereignRunTypeComponentsFactory (ia_MainChainElastic a) (ia_ESDTPrefix a)
                else RunTypeComponentsFactory)))) (\<lambda>runTypeComponents.
     io_bind (createElasticProcessor NewClient a runTypeComponents) (\<lambda>elasticProcessor.
     io_bind (io_of (createBlockCreatorsContainer C)) (\<lambda>blockContainer.
     io_bind (io_of (NewDataIndexer (Some elastic_processor) (Some unmarshal) (Some (container_Get C blockContainer)))) (\<lambda>di.
       io_ok (di, elasticProcessor))))))"

section \<open>Enabled indexes (factory/wsIndexerFactory.go)\<close>

definition prepareIndices :: "string list \<Rightarrow> string list \<Rightarrow> string list" where
  "prepareIndices availableIndices disabledIndices =
     (let mapDisabledIndices = fold (\<lambda>index m. gm_set index () m) disabledIndices [] in
      filter (\<lambda>availableIndex. map_of mapDisabledIndices availableIndex = None) availableIndices)"

section \<open>What the factories give\<close>

lemma prepareIndices_filter: "prepareIndices available disabled = filter (\<lambda>i. i \<notin> set disabled) available"
proof -
  have "map_of (fold (\<lambda>index m. gm_set index () m) is m) i = None \<longleftrightarrow> i \<notin> set is \<and> map_of m i = None" for "is" m i
    by (induction "is" arbitrary: m) (auto simp: map_of_gm_set)
  from this [of disabled "[]"] show ?thesis by (simp add: prepareIndices_def)
qed

lemma managed_components_complete: "managed_Create NewClient K m = (Inr (), m1) \<Longrightarrow> CheckSubcomponents m1 = Inr ()"
  by (cases "components_factory m") (auto simp: managed_Create_def CheckSubcomponents_def NewSovereignIndexTokensHandler_def
      bindr_Inr_iff split: sum.splits)

lemma managed_closed: "managed_Close m = (r, m1) \<Longrightarrow> r = Inr () \<and> CheckSubcomponents m1 = Inl ErrNilRunTypeComponents"
  by (auto simp: managed_Close_def CheckSubcomponents_def split: option.splits)

lemma checkArguments_Inr:
  "checkArguments (Some args) = Inr (args1, en, cl, h) \<Longrightarrow>
     args1 = args \<and> ar_EnabledIndexes args = Some en \<and> ar_DBClient args = Some cl \<and> ar_IndexTokensHandler args = Some h"
  by (auto simp: checkArguments_def split: option.splits if_splits)

lemma NewElasticProcessor_steps:
  assumes "NewElasticProcessor (Some args) w = (Inr ei, w')"
  shows "\<exists>w1. init_indexes ei (ar_IndexTemplates args) (ar_ExtraMappings args) w = (Inr (), w1) \<and>
      indexVersion ei (ar_Version args) w1 = (Inr (), w')"
    and "ar_EnabledIndexes args = Some (enabledIndexes ei)" "ar_DBClient args = Some (dbClient ei)"
      "ar_IndexTokensHandler args = Some (indexTokensHandler ei)" "ep_env ei = ar_env args" "\<not> importDB ei"
  using assms by (auto simp: NewElasticProcessor_def io_bind_Inr io_of_def io_ok_def Let_def dest!: checkArguments_Inr)

lemma CreateElasticProcessor_steps:
  assumes "CreateElasticProcessor a w = (Inr ei, w')"
  shows "\<exists>ts ps args. GetElasticTemplatesAndPolicies (CreateTemplatesAndPoliciesReader (fa_UseKibana a)) = Inr (ts, ps) \<and>
    NewElasticProcessor (Some args) w = (Inr ei, w') \<and> ar_DBClient args = fa_DBClient a \<and> ar_IndexTemplates args = ts \<and>
    ar_ExtraMappings args = [] \<and> ar_EnabledIndexes args = Some (remdups (fa_EnabledIndexes a)) \<and> ar_Version args = fa_Version a \<and>
    ar_IndexTokensHandler args = fa_IndexTokensHandler a \<and> fa_TxHashExtractor a = Some (pe_extractor (ar_env args))"
  using assms
  by (fastforce simp: CreateElasticProcessor_def Let_def io_bind_Inr io_of_def io_fail_def CreateTemplatesAndPoliciesReader_def
      NewTemplatesAndPolicyReaderNoKibana_def NewTemplatesAndPolicyReaderWithKibana_def NewTransactionsProcessor_def
      checkTxsProcessorArg_def bindr_Inr_iff split: if_splits)

lemma created_extractor:
  assumes "CreateElasticProcessor a w = (Inr ei, w')"
  shows "fa_TxHashExtractor a = Some (pe_extractor (ep_env ei))"
  using CreateElasticProcessor_steps [OF assms] NewElasticProcessor_steps(5) by fastforce

text \<open>An indexer of the factory runs one of the two known extractors, the one of its kind of chain, over the processor.\<close>

lemma indexer_created:
  assumes "factory_NewIndexer NewClient C unmarshal a w = (Inr (di, ei), w')"
  shows "pe_extractor (ep_env ei) = (if ia_Sovereign a then sovereign_ExtractExecutedTxHashes else ExtractExecutedTxHashes)"
    and "di_elasticProcessor di = elastic_processor"
proof -
  from assms obtain mrtc w1 w2 where
    m: "createManagedRunTypeComponents NewClient (pe_consts (ia_libs a))
      (Some (if ia_Sovereign a then SovereignRunTypeComponentsFactory (ia_MainChainElastic a) (ia_ESDTPrefix a)
             else RunTypeComponentsFactory)) = Inr mrtc"
    and p: "createElasticProcessor NewClient a mrtc w1 = (Inr ei, w2)" and di: "di_elasticProcessor di = elastic_processor"
    by (auto simp: factory_NewIndexer_def io_bind_Inr io_of_def io_ok_def NewDataIndexer_def bindr_Inr_iff)
  from p have "TxHashExtractorCreator mrtc = Some (pe_extractor (ep_env ei))"
    by (auto simp: createElasticProcessor_def io_bind_Inr io_of_def dest!: created_extractor)
  with m show "pe_extractor (ep_env ei) = (if ia_Sovereign a then sovereign_ExtractExecutedTxHashes else ExtractExecutedTxHashes)"
    by (auto simp: createManagedRunTypeComponents_def NewManagedRunTypeComponents_def managed_Create_def TxHashExtractorCreator_def
        bindr_Inr_iff split: if_splits sum.splits)
  show "di_elasticProcessor di = elastic_processor" by (rule di)
qed

section \<open>What the creation of a processor asks of the database\<close>

text \<open>
  Something is ensured when the database is asked whether it exists, and it either exists or is created without an error.
  The requests are read against the answers, which depend on all requests so far.
\<close>

definition ensured :: "es_lib \<Rightarrow> es_call \<times> es_call \<Rightarrow> es_call list \<Rightarrow> es_call list \<Rightarrow> bool" where
  "ensured E p before new =
     (let found = exists_response (es_answer E (before @ [fst p])) in
      if found then new = [fst p]
      else new = [fst p, snd p] \<and> (\<exists>res. es_answer E (before @ [fst p, snd p]) = Inr res \<and> parse_discard E res = Inr ()))"

fun ensured_all :: "es_lib \<Rightarrow> (es_call \<times> es_call) list \<Rightarrow> es_call list \<Rightarrow> es_call list \<Rightarrow> bool" where
  "ensured_all E [] before new = (new = [])"
| "ensured_all E (p # ps) before new = (\<exists>a b. new = a @ b \<and> ensured E p before a \<and> ensured_all E ps (before @ a) b)"

definition template_request :: "string \<Rightarrow> bytes \<Rightarrow> es_call \<times> es_call" where
  "template_request i t = (ExistsTemplateCall [i], PutIndexTemplateCall i t)"

definition index_request :: "string \<Rightarrow> es_call \<times> es_call" where
  "index_request i = (ExistsIndexCall [index_name i], CreateIndexCall (index_name i))"

definition alias_request :: "string \<Rightarrow> es_call \<times> es_call" where
  "alias_request i = (PerformCall ''HEAD'' (''/_alias/'' @ i), PutAliasCall [index_name i] i)"

definition template_requests :: "bool \<Rightarrow> string list \<Rightarrow> (es_call \<times> es_call) list" where
  "template_requests useKibana is =
     List.map_filter (\<lambda>i. map_option (\<lambda>t. template_request i (ToBuffer t)) (map_of (the_templates useKibana) i)) is"

text \<open>An operation that ensures a list of things, when it returns.\<close>

definition ensures :: "es_lib \<Rightarrow> (es_call \<times> es_call) list \<Rightarrow> (elasticClient, 'a) io \<Rightarrow> bool" where
  "ensures E ps m \<longleftrightarrow> (\<forall>w x w'. m w = (Inr x, w') \<longrightarrow> (\<exists>new. es_calls w' = es_calls w @ new \<and> ensured_all E ps (es_calls w) new))"

lemma ensured_all_append:
  "ensured_all E (ps @ qs) before new \<longleftrightarrow> (\<exists>a b. new = a @ b \<and> ensured_all E ps before a \<and> ensured_all E qs (before @ a) b)"
proof (induction ps arbitrary: before new)
  case (Cons p ps)
  show ?case
  proof
    assume "ensured_all E ((p # ps) @ qs) before new"
    then obtain a b c where "new = a @ b @ c" "ensured E p before a" "ensured_all E ps (before @ a) b" "ensured_all E qs (before @ a @ b) c"
      by (auto simp: Cons)
    then show "\<exists>a b. new = a @ b \<and> ensured_all E (p # ps) before a \<and> ensured_all E qs (before @ a) b"
      by (intro exI [of _ "a @ b"] exI [of _ c]) auto
  next
    assume "\<exists>a b. new = a @ b \<and> ensured_all E (p # ps) before a \<and> ensured_all E qs (before @ a) b"
    then obtain a b c where "new = (a @ b) @ c" "ensured E p before a" "ensured_all E ps (before @ a) b" "ensured_all E qs (before @ a @ b) c"
      by auto
    then show "ensured_all E ((p # ps) @ qs) before new"
      unfolding append_Cons ensured_all.simps Cons by - (rule exI [of _ a], rule exI [of _ "b @ c"], auto)
  qed
qed simp

lemma ensures_bind: "ensures E ps m \<Longrightarrow> (\<And>x. ensures E qs (f x)) \<Longrightarrow> ensures E (ps @ qs) (io_bind m f)"
  unfolding ensures_def io_bind_Inr ensured_all_append
  by (metis (no_types, lifting) append_assoc)

lemma ensures_ok: "ensures E [] (io_ok x)"
  by (simp add: ensures_def io_ok_def)

lemma ensures_wrap: "ensures E ps m \<Longrightarrow> ensures E ps (io_wrap t m)"
  by (fastforce simp: ensures_def io_wrap_def split: prod.splits sum.splits)

lemma ensures_each: "(\<And>x. ensures E (g x) (f x)) \<Longrightarrow> ensures E (concat (map g xs)) (io_each f xs)"
  by (induction xs) (auto simp: ensures_ok intro: ensures_bind)

lemma ensures_checked:
  assumes "\<And>w. m w = (let (found, w1) = exists_call E c w in
    if found then (Inr (), w1) else io_bind (es_do E d) (\<lambda>res. io_of (parse_discard E res)) w1)"
  shows "ensures E [(c, d)] m"
  unfolding ensures_def assms
  by (auto simp: exists_call_def es_do_def ensured_def io_bind_Inr io_of_def Let_def split: if_splits)

lemma ensures_client:
  "ensures E [template_request i t] (CheckAndCreateTemplate (elastic_client n E) i t)"
  "ensures E [index_request i] (CheckAndCreateIndex (elastic_client n E) (index_name i))"
  "ensures E [alias_request i] (CheckAndCreateAlias (elastic_client n E) i (index_name i))"
  unfolding template_request_def index_request_def alias_request_def elastic_client_def
  by (auto intro!: ensures_checked simp: CheckAndCreateTemplate_es_def CheckAndCreateIndex_es_def CheckAndCreateAlias_es_def
      templateExists_def indexExists_def aliasExists_def createIndexTemplate_def createIndex_def createAlias_def split: prod.split)

lemma template_requests_append: "template_requests k (is @ js) = template_requests k is @ template_requests k js"
  by (simp add: template_requests_def List.map_filter_def)

lemma template_requests_concat: "template_requests k is = concat (map (\<lambda>i. template_requests k [i]) is)"
  by (induction "is") (simp_all add: template_requests_def List.map_filter_def)

lemma ensures_template:
  assumes "GetElasticTemplatesAndPolicies (CreateTemplatesAndPoliciesReader k) = Inr (ts, ps)"
    and "\<And>t. ensures E [template_request i t] (f t)"
  shows "ensures E (template_requests k [i]) (case getTemplateByName i ts of None \<Rightarrow> io_ok () | Some t \<Rightarrow> f t)"
  using assms(2) by (auto simp: getTemplateByName_def template_requests_def List.map_filter_def reader_lookup [OF assms(1)] ensures_ok
      split: option.split)

lemma ensures_init:
  assumes "dbClient ei = elastic_client n E"
    and "GetElasticTemplatesAndPolicies (CreateTemplatesAndPoliciesReader k) = Inr (ts, ps)"
  shows "ensures E (template_requests k (OpenDistroIndex # indexes) @ map index_request indexes @ map alias_request indexes)
    (init_indexes ei ts [])"
proof -
  have 1: "ensures E (template_requests k [OpenDistroIndex]) (createOpenDistroTemplates ei ts)"
    unfolding createOpenDistroTemplates_def assms(1) by (intro ensures_template [OF assms(2)] ensures_client)
  have 2: "ensures E (template_requests k indexes) (createIndexTemplates ei ts)"
    unfolding createIndexTemplates_def assms(1)
    by (subst template_requests_concat) (intro ensures_each ensures_template [OF assms(2)] ensures_wrap ensures_client)
  have 3: "ensures E (concat (map (\<lambda>i. [index_request i]) indexes)) (createIndexes ei)"
    unfolding createIndexes_def assms(1) by (intro ensures_each ensures_wrap ensures_client)
  have 4: "ensures E (concat (map (\<lambda>i. [alias_request i]) indexes)) (createAliases ei)"
    unfolding createAliases_def assms(1) by (intro ensures_each ensures_client)
  have "ensures E (template_requests k [OpenDistroIndex] @ template_requests k indexes @ map index_request indexes @
      map alias_request indexes @ []) (init_indexes ei ts [])"
    unfolding init_indexes_def using 3 4
    by (intro ensures_bind 1 2) (auto simp: addExtraMappings_def ensures_ok concat_map_singleton)
  moreover have "template_requests k (OpenDistroIndex # indexes) = template_requests k [OpenDistroIndex] @ template_requests k indexes"
    using template_requests_append [of k "[OpenDistroIndex]" indexes] by simp
  ultimately show ?thesis by simp
qed

lemma version_call:
  assumes "dbClient ei = elastic_client n E" and "indexVersion ei v w = (Inr (), w')"
  shows "if v = [] then es_calls w' = es_calls w
    else \<exists>d. Marshal (KeyValueObj_json \<lparr>kv_Key = versionStr, kv_Value = v\<rparr>) = Inr d \<and>
      es_calls w' = es_calls w @ [BulkCall [] [] (version_meta @ d @ ''\<newline>'')]"
proof (cases "v = []")
  case True
  with assms(2) show ?thesis by (simp add: indexVersion_def io_ok_def)
next
  case False
  with assms(2) obtain d b buff where d: "Marshal (KeyValueObj_json \<lparr>kv_Key = versionStr, kv_Value = v\<rparr>) = Inr d"
    and b: "PutData version_meta d (NewBufferSlice 0) = Inr b" and buff: "index_r (Buffers b) 0 = Inr buff"
    and bulk: "DoBulkRequest (dbClient ei) [] buff [] w = (Inr (), w')"
    by (auto simp: indexVersion_def io_bind_Inr io_of_def)
  from d have "d \<noteq> []" by (auto simp: Marshal_def KeyValueObj_json_def split: if_splits)
  with b buff have "buff = version_meta @ d @ ''\<newline>''"
    by (auto simp: PutData_def NewBufferSlice_def aNewElementIsNeeded_def Buffers_def index_r_def Let_def bindr_Inr_iff split: if_splits)
  with bulk d False assms(1) show ?thesis
    by (auto simp: elastic_client_def DoBulkRequest_es_def es_do_def io_bind_def io_of_def split: sum.splits)
qed

text \<open>
  C20. A processor that the factory creates on a client of a cluster has prepared the database, in this order: first the
  templates of the reader, for opendistro and for every index that has one, then every index under its name with the suffix,
  then the alias of every index; each of them existed or was created without an error, and no other request was made but,
  at the end, the one bulk request with the version, when there is one.  The processor never starts in import mode, whatever
  the argument says.
\<close>

theorem created_processor_prepares:
  assumes "fa_DBClient a = Some (elastic_client n E)" and "CreateElasticProcessor a w = (Inr ei, w')"
  shows "\<exists>ts is as vs. es_calls w' = es_calls w @ ts @ is @ as @ vs \<and>
    ensured_all E (template_requests (fa_UseKibana a) (OpenDistroIndex # indexes)) (es_calls w) ts \<and>
    ensured_all E (map index_request indexes) (es_calls w @ ts) is \<and>
    ensured_all E (map alias_request indexes) (es_calls w @ ts @ is) as \<and>
    (if fa_Version a = [] then vs = []
     else \<exists>d. Marshal (KeyValueObj_json \<lparr>kv_Key = versionStr, kv_Value = fa_Version a\<rparr>) = Inr d \<and>
       vs = [BulkCall [] [] (version_meta @ d @ ''\<newline>'')]) \<and>
    dbClient ei = elastic_client n E \<and> set (enabledIndexes ei) = set (fa_EnabledIndexes a) \<and> \<not> importDB ei"
proof -
  from CreateElasticProcessor_steps [OF assms(2)] obtain ts0 ps0 args where
    rd: "GetElasticTemplatesAndPolicies (CreateTemplatesAndPoliciesReader (fa_UseKibana a)) = Inr (ts0, ps0)"
    and new: "NewElasticProcessor (Some args) w = (Inr ei, w')"
    and args: "ar_DBClient args = fa_DBClient a" "ar_IndexTemplates args = ts0" "ar_ExtraMappings args = []"
      "ar_EnabledIndexes args = Some (remdups (fa_EnabledIndexes a))" "ar_Version args = fa_Version a" by blast
  from NewElasticProcessor_steps [OF new] args assms(1) obtain w1 where
    ei: "dbClient ei = elastic_client n E" "enabledIndexes ei = remdups (fa_EnabledIndexes a)" "\<not> importDB ei"
    and ini: "init_indexes ei ts0 [] w = (Inr (), w1)" and ver: "indexVersion ei (fa_Version a) w1 = (Inr (), w')" by auto
  from ensures_init [OF ei(1) rd] ini obtain new where calls: "es_calls w1 = es_calls w @ new"
    and ens: "ensured_all E (template_requests (fa_UseKibana a) (OpenDistroIndex # indexes) @ map index_request indexes @
      map alias_request indexes) (es_calls w) new" by (auto simp: ensures_def)
  from ens obtain ts "is" as where "new = ts @ is @ as"
    "ensured_all E (template_requests (fa_UseKibana a) (OpenDistroIndex # indexes)) (es_calls w) ts"
    "ensured_all E (map index_request indexes) (es_calls w @ ts) is"
    "ensured_all E (map alias_request indexes) (es_calls w @ ts @ is) as"
    by (auto simp: ensured_all_append)
  moreover from version_call [OF ei(1) ver] obtain vs where "es_calls w' = es_calls w1 @ vs"
    "if fa_Version a = [] then vs = []
     else \<exists>d. Marshal (KeyValueObj_json \<lparr>kv_Key = versionStr, kv_Value = fa_Version a\<rparr>) = Inr d \<and>
       vs = [BulkCall [] [] (version_meta @ d @ ''\<newline>'')]" by (auto split: if_splits)
  ultimately show ?thesis using calls ei
    by (intro exI [of _ ts] exI [of _ "is"] exI [of _ as] exI [of _ vs]) simp
qed

text \<open>A processor of a regular chain, created on a server where everything exists.\<close>

definition demo_factory_args :: "elasticClient ArgElasticProcessorFactory" where
  "demo_factory_args =
     \<lparr>fa_Marshalizer = True, fa_Hasher = True, fa_AddressPubkeyConverter = True, fa_ValidatorPubkeyConverter = True,
      fa_DBClient = Some (elastic_client 1 accepting_es), fa_EnabledIndexes = [TransactionsIndex], fa_Version = ''v1'',
      fa_Denomination = 18, fa_BulkRequestMaxSize = 0, fa_UseKibana = False, fa_ImportDB = True,
      fa_TxHashExtractor = Some ExtractExecutedTxHashes, fa_RewardTxData = Some (reward_GetSender demo_consts),
      fa_IndexTokensHandler = Some DisabledIndexTokensHandler, fa_libs = demo_env, fa_DataFieldParser = Inr ()\<rparr>"

definition succeeds :: "('w, unit) io \<Rightarrow> bool" where
  "succeeds m \<longleftrightarrow> (\<forall>w. \<exists>w'. m w = (Inr (), w'))"

lemma succeedsD: "succeeds m \<Longrightarrow> \<exists>w'. m w = (Inr (), w')"
  by (simp add: succeeds_def)

lemma succeeds_ok: "succeeds (io_ok ())"
  by (simp add: succeeds_def io_ok_def)

lemma succeeds_wrap: "succeeds m \<Longrightarrow> succeeds (io_wrap t m)"
  unfolding succeeds_def
proof
  fix w assume "\<forall>w. \<exists>w'. m w = (Inr (), w')"
  then obtain w1 where "m w = (Inr (), w1)" by blast
  then show "\<exists>w'. io_wrap t m w = (Inr (), w')" by (simp add: io_wrap_def)
qed

lemma succeeds_bind:
  assumes "succeeds m" "\<And>x. succeeds (f x)"
  shows "succeeds (io_bind m f)"
  unfolding succeeds_def
proof
  fix w
  from succeedsD [OF assms(1), of w] obtain w1 where "m w = (Inr (), w1)" by blast
  with succeedsD [OF assms(2) [of "()"], of w1] show "\<exists>w'. io_bind m f w = (Inr (), w')" by (auto simp: io_bind_def)
qed

lemmas succeeds_intros = succeeds_ok succeeds_wrap succeeds_bind

lemma succeeds_each: "(\<And>x. succeeds (f x)) \<Longrightarrow> succeeds (io_each f xs)"
  by (induction xs) (simp_all add: succeeds_intros)

lemma succeeds_accepting:
  "succeeds (CheckAndCreateTemplate (elastic_client n accepting_es) i t)"
  "succeeds (CheckAndCreateIndex (elastic_client n accepting_es) i)"
  "succeeds (CheckAndCreateAlias (elastic_client n accepting_es) i j)"
  by (simp_all add: succeeds_def elastic_client_def CheckAndCreateTemplate_es_def CheckAndCreateIndex_es_def
      CheckAndCreateAlias_es_def templateExists_def indexExists_def aliasExists_def exists_call_def es_do_def accepting_es_def
      exists_response_def StatusOK_def)

lemma succeeds_init: "dbClient ei = elastic_client n accepting_es \<Longrightarrow> succeeds (init_indexes ei ts [])"
  unfolding init_indexes_def createOpenDistroTemplates_def createIndexTemplates_def createIndexes_def createAliases_def addExtraMappings_def
  by (auto intro!: succeeds_intros succeeds_each succeeds_accepting split: option.split)

lemma succeeds_version:
  assumes "dbClient ei = elastic_client n accepting_es"
  shows "succeeds (indexVersion ei v)"
proof -
  have "Marshal (KeyValueObj_json kv) = Inr (json_text (KeyValueObj_json kv))" for kv
    by (simp add: Marshal_def KeyValueObj_json_def f_str_def)
  moreover obtain b buff where "PutData version_meta (json_text (KeyValueObj_json \<lparr>kv_Key = versionStr, kv_Value = v\<rparr>)) (NewBufferSlice 0) = Inr b"
    "index_r (Buffers b) 0 = Inr buff"
    by (simp add: PutData_def NewBufferSlice_def aNewElementIsNeeded_def Buffers_def index_r_def Let_def)
  ultimately show ?thesis
    unfolding indexVersion_def succeeds_def using assms by (simp add: io_ok_def demo_accepts)
qed

lemma accepting_created:
  assumes "fa_Marshalizer a" "fa_Hasher a" "fa_AddressPubkeyConverter a" "fa_ValidatorPubkeyConverter a" "fa_DataFieldParser a = Inr ()"
    and "fa_DBClient a = Some (elastic_client n accepting_es)" "fa_EnabledIndexes a \<noteq> []" "0 \<le> fa_Denomination a"
    and "fa_TxHashExtractor a \<noteq> None" "fa_RewardTxData a \<noteq> None" "fa_IndexTokensHandler a \<noteq> None"
  shows "\<exists>ei w'. CreateElasticProcessor a w = (Inr ei, w')"
proof -
  let ?r = "CreateTemplatesAndPoliciesReader (fa_UseKibana a)"
  obtain ts ps where rd: "GetElasticTemplatesAndPolicies ?r = Inr (ts, ps)" "GetExtraMappings ?r = Inr []"
    by (cases "fa_UseKibana a")
      (simp_all add: CreateTemplatesAndPoliciesReader_def NewTemplatesAndPolicyReaderNoKibana_def NewTemplatesAndPolicyReaderWithKibana_def)
  obtain bc where bc: "NewBalanceConverter (pe_lib (fa_libs a)) (fa_Denomination a) = Inr bc" using assms(8) by (simp add: NewBalanceConverter_def)
  have run: "\<exists>ei w'. io_bind (init_indexes ei0 ts []) (\<lambda>_. io_bind (indexVersion ei0 v) (\<lambda>_. io_ok ei0)) w = (Inr ei, w')"
    if cl: "dbClient ei0 = elastic_client n accepting_es" for ei0 v
  proof -
    from succeedsD [OF succeeds_init [OF cl]] obtain w1 where 1: "init_indexes ei0 ts [] w = (Inr (), w1)" by blast
    from succeedsD [OF succeeds_version [OF cl]] obtain w2 where "indexVersion ei0 v w1 = (Inr (), w2)" by blast
    with 1 show ?thesis by (simp add: io_bind_def io_ok_def)
  qed
  show ?thesis
    using assms by (auto simp: CreateElasticProcessor_def rd bc NewAccountsProcessor_def NewBlockProcessor_def
        NewMiniblocksProcessor_def NewValidatorsProcessor_def NewTransactionsProcessor_def checkTxsProcessorArg_def
        checkArgsLogsAndEventsProcessor_def NewElasticProcessor_def checkArguments_def Let_def run)
qed

lemma demo_created: "\<exists>ei w'. CreateElasticProcessor demo_factory_args w = (Inr ei, w')"
  by (rule accepting_created) (simp_all add: demo_factory_args_def)

theorem created_processor_prepares_witness:
  "\<exists>ei w' ts is as d. CreateElasticProcessor demo_factory_args new_client = (Inr ei, w') \<and>
     es_calls w' = ts @ is @ as @ [BulkCall [] [] (version_meta @ d @ ''\<newline>'')] \<and>
     ensured_all accepting_es (map index_request indexes) ts is \<and> \<not> importDB ei"
proof -
  from demo_created obtain ei w' where run: "CreateElasticProcessor demo_factory_args new_client = (Inr ei, w')" by blast
  have cl: "fa_DBClient demo_factory_args = Some (elastic_client 1 accepting_es)" and v: "fa_Version demo_factory_args = ''v1''"
    by (simp_all add: demo_factory_args_def)
  from created_processor_prepares [OF cl run] run v show ?thesis by auto
qed

end
