(* ===== verification/Application.thy ===== *)
theory Application
  imports Factories Ws_Indexer
begin

text \<open>
  The program around the indexer: the configuration (\<^verbatim>\<open>config\<close>), the factory that connects the configured indexer to the websocket host
  (\<^verbatim>\<open>factory/wsIndexerFactory.go\<close>), the HTTP interface with its routes (\<^verbatim>\<open>api\<close>, \<^verbatim>\<open>facade\<close>) and the command
  (\<^verbatim>\<open>cmd/elasticindexer\<close>).  The websocket host, the web framework, the constructors of marshallers, hashers and key converters, and
  the reading of files and flags are parameters.
\<close>

section \<open>Configuration\<close>

record Config =
  cf_AvailableIndices :: "string list"
  cf_ESDTPrefix :: string
  cf_AddressConverterLength :: int
  cf_AddressConverterPrefix :: string
  cf_ValidatorKeysConverterLength :: int
  cf_HasherType :: string
  cf_MarshallerType :: string
  cf_Denomination :: int
  cf_Sovereign :: bool

record WebSocketConfig =
  wsc_URL :: string
  wsc_WithAcknowledge :: bool
  wsc_Mode :: string
  wsc_RetryDurationInSec :: int
  wsc_AcknowledgeTimeoutInSec :: int
  wsc_BlockingAckOnError :: bool

record ClusterConfig =
  ccf_DisabledIndices :: "string list"
  ccf_WsURL :: string
  ccf_WsMode :: string
  ccf_WsDataMarshallerType :: string
  ccf_WsRetryDurationInSec :: u32
  ccf_WsBlockingAckOnError :: bool
  ccf_WsWithAcknowledge :: bool
  ccf_WsAckTimeoutInSec :: u32
  ccf_UseKibana :: bool
  ccf_URL :: string
  ccf_UserName :: string
  ccf_Password :: string
  ccf_BulkRequestMaxSizeInBytes :: int
  ccf_MainChainCluster :: ElasticConfig

record RouteConfig =
  rc_Name :: string
  rc_Open :: bool

record ApiRoutesConfig =
  RestApiInterface :: string
  APIPackages :: "(string, RouteConfig list) gomap"

section \<open>The indexer behind the websocket (factory/wsIndexerFactory.go)\<close>

record ('w, 'b, 'c) start_lib =
  sl_NewWsMarshaller :: "string \<Rightarrow> marshaller result"
  sl_NewMarshaller :: "string \<Rightarrow> unit result"
  sl_NewHasher :: "string \<Rightarrow> unit result"
  sl_NewBech32PubkeyConverter :: "int \<Rightarrow> string \<Rightarrow> unit result"
  sl_NewHexPubkeyConverter :: "int \<Rightarrow> unit result"
  sl_NewClient :: "'w client_library"
  sl_container :: "('b, 'c) container_lib"
  sl_unmarshal :: "'c \<Rightarrow> bytes \<Rightarrow> HeaderFull result"
  sl_libs :: processor_env
  sl_DataFieldParser :: "unit result"
  sl_topics :: outport_topics
  sl_CreateWebSocketHost :: "WebSocketConfig \<Rightarrow> unit result"
  sl_SetPayloadHandler :: "unit result"

definition createDataIndexer ::
    "('w, 'b, 'c) start_lib \<Rightarrow> Config \<Rightarrow> ClusterConfig \<Rightarrow> string \<Rightarrow> ('w, ('w processor_state, 'c) dataIndexer \<times> 'w elasticProcessor) io" where
  "createDataIndexer S cfg clusterCfg vers =
     io_bind (io_of (sl_NewMarshaller S (cf_MarshallerType cfg))) (\<lambda>_.
     io_bind (io_of (sl_NewHasher S (cf_HasherType cfg))) (\<lambda>_.
     io_bind (io_of (sl_NewBech32PubkeyConverter S (cf_AddressConverterLength cfg) (cf_AddressConverterPrefix cfg))) (\<lambda>_.
     io_bind (io_of (sl_NewHexPubkeyConverter S (cf_ValidatorKeysConverterLength cfg))) (\<lambda>_.
       factory_NewIndexer (sl_NewClient S) (sl_container S) (sl_unmarshal S)
         \<lparr>ia_UseKibana = ccf_UseKibana clusterCfg, ia_ImportDB = False, ia_Sovereign = cf_Sovereign cfg, ia_ESDTPrefix = [],
          ia_MainChainElastic = ccf_MainChainCluster clusterCfg, ia_Denomination = cf_Denomination cfg,
          ia_BulkRequestMaxSize = ccf_BulkRequestMaxSizeInBytes clusterCfg, ia_Url = ccf_URL clusterCfg,
          ia_UserName = ccf_UserName clusterCfg, ia_Password = ccf_Password clusterCfg, ia_Version = vers,
          ia_EnabledIndexes = prepareIndices (cf_AvailableIndices cfg) (ccf_DisabledIndices clusterCfg),
          ia_HeaderMarshaller = True, ia_Marshalizer = True, ia_Hasher = True, ia_AddressPubkeyConverter = True,
          ia_ValidatorPubkeyConverter = True, ia_StatusMetrics = True, ia_libs = sl_libs S, ia_DataFieldParser = sl_DataFieldParser S\<rparr>))))"

definition ws_host_config :: "ClusterConfig \<Rightarrow> WebSocketConfig" where
  "ws_host_config clusterCfg =
     \<lparr>wsc_URL = ccf_WsURL clusterCfg, wsc_WithAcknowledge = ccf_WsWithAcknowledge clusterCfg, wsc_Mode = ccf_WsMode clusterCfg,
      wsc_RetryDurationInSec = uint (ccf_WsRetryDurationInSec clusterCfg),
      wsc_AcknowledgeTimeoutInSec = uint (ccf_WsAckTimeoutInSec clusterCfg),
      wsc_BlockingAckOnError = ccf_WsBlockingAckOnError clusterCfg\<rparr>"

definition createWsHost :: "('w, 'b, 'c) start_lib \<Rightarrow> ClusterConfig \<Rightarrow> WebSocketConfig result" where
  "createWsHost S clusterCfg =
     bindr (sl_CreateWebSocketHost S (ws_host_config clusterCfg)) (\<lambda>_. Inr (ws_host_config clusterCfg))"

text \<open>The host, and the indexer that handles its payloads with the metrics and the processor it works on.\<close>

record ('w, 'c) ws_host =
  wh_config :: WebSocketConfig
  wh_indexer :: "('w processor_state, 'c) indexer"
  wh_metrics :: statusMetrics
  wh_processor :: "'w elasticProcessor"

definition CreateWsIndexer ::
    "('w, 'b, 'c) start_lib \<Rightarrow> Config \<Rightarrow> ClusterConfig \<Rightarrow> statusMetrics \<Rightarrow> string \<Rightarrow> ('w, ('w, 'c) ws_host) io" where
  "CreateWsIndexer S cfg clusterCfg metrics vers =
     io_bind (io_of (sl_NewWsMarshaller S (ccf_WsDataMarshallerType clusterCfg))) (\<lambda>wsMarshaller.
     io_bind (createDataIndexer S cfg clusterCfg vers) (\<lambda>(di, ei).
     io_bind (io_of (NewIndexer (sl_topics S) (Some wsMarshaller) (Some di) (Some metrics))) (\<lambda>(ix, sm).
     io_bind (io_of (createWsHost S clusterCfg)) (\<lambda>host.
     io_bind (io_of (sl_SetPayloadHandler S)) (\<lambda>_.
       io_ok \<lparr>wh_config = host, wh_indexer = ix, wh_metrics = sm, wh_processor = ei\<rparr>)))))"

section \<open>The HTTP interface (api, facade)\<close>

datatype endpoint_handler = GetMetricsHandler | GetPrometheusMetricsHandler

record EndpointHandlerData =
  ep_Path :: string
  ep_Method :: string
  ep_Handler :: endpoint_handler

definition NewMetricsFacade :: "statusMetrics option \<Rightarrow> statusMetrics result" where
  "NewMetricsFacade sm = (case sm of None \<Rightarrow> Inl ErrNilMetricsHandler | Some m \<Rightarrow> Inr m)"

definition facade_GetMetrics :: "statusMetrics \<Rightarrow> (string, MetricsResponse) gomap" where
  "facade_GetMetrics mf = GetMetrics mf"

definition facade_GetMetricsForPrometheus :: "(MetricFamily \<Rightarrow> string option) \<Rightarrow> statusMetrics \<Rightarrow> string" where
  "facade_GetMetricsForPrometheus asText mf = GetMetricsForPrometheus asText mf"

definition metricsPath :: string where "metricsPath = ''/metrics''"
definition prometheusMetricsPath :: string where "prometheusMetricsPath = ''/prometheus-metrics''"

definition NewStatusGroup :: "statusMetrics option \<Rightarrow> EndpointHandlerData list result" where
  "NewStatusGroup fac =
     (case fac of None \<Rightarrow> Inl (ErrWrapped ''for status group'' (ExternalError ''nil facade handler''))
      | Some _ \<Rightarrow> Inr [\<lparr>ep_Path = metricsPath, ep_Method = ''GET'', ep_Handler = GetMetricsHandler\<rparr>,
                       \<lparr>ep_Path = prometheusMetricsPath, ep_Method = ''GET'', ep_Handler = GetPrometheusMetricsHandler\<rparr>])"

text \<open>The last part of the path of the group names its configuration; the first route of that name decides.\<close>

definition getEndpointProperties :: "string \<Rightarrow> string \<Rightarrow> ApiRoutesConfig \<Rightarrow> bool" where
  "getEndpointProperties basePath path apiConfig =
     (case map_of (APIPackages apiConfig) (last (split_char (CHR ''/'') basePath)) of
        None \<Rightarrow> False
      | Some routes \<Rightarrow> (case filter (\<lambda>route. rc_Name route = path) routes of [] \<Rightarrow> False | route # _ \<Rightarrow> rc_Open route))"

definition RegisterRoutes :: "EndpointHandlerData list \<Rightarrow> string \<Rightarrow> ApiRoutesConfig \<Rightarrow> (string \<times> string \<times> endpoint_handler) list" where
  "RegisterRoutes endpoints basePath apiConfig =
     map (\<lambda>e. (ep_Method e, basePath @ ep_Path e, ep_Handler e)) (filter (\<lambda>e. getEndpointProperties basePath (ep_Path e) apiConfig) endpoints)"

record webServer =
  ws_facade :: "statusMetrics option"
  ws_apiConfig :: ApiRoutesConfig
  ws_groups :: "(string, EndpointHandlerData list) gomap"
  ws_routes :: "(string \<times> string \<times> endpoint_handler) list"
  ws_httpServer :: "string option"

definition NewWebServer :: "statusMetrics option \<Rightarrow> ApiRoutesConfig \<Rightarrow> webServer" where
  "NewWebServer fac apiConfig = \<lparr>ws_facade = fac, ws_apiConfig = apiConfig, ws_groups = [], ws_routes = [], ws_httpServer = None\<rparr>"

definition CreateWebServer :: "ApiRoutesConfig \<Rightarrow> statusMetrics option \<Rightarrow> webServer result" where
  "CreateWebServer apiConfig sm = bindr (NewMetricsFacade sm) (\<lambda>mf. Inr (NewWebServer (Some mf) apiConfig))"

definition createGroups :: "webServer \<Rightarrow> webServer result" where
  "createGroups ws = bindr (NewStatusGroup (ws_facade ws)) (\<lambda>g. Inr (ws\<lparr>ws_groups := [(''status'', g)]\<rparr>))"

definition registerRoutes :: "webServer \<Rightarrow> webServer" where
  "registerRoutes ws =
     ws\<lparr>ws_routes := concat (map (\<lambda>(groupName, group). RegisterRoutes group (''/'' @ groupName) (ws_apiConfig ws)) (ws_groups ws))\<rparr>"

definition StartHttpServer :: "webServer \<Rightarrow> webServer result" where
  "StartHttpServer ws =
     (if RestApiInterface (ws_apiConfig ws) = ''off'' then Inr ws
      else bindr (createGroups ws) (\<lambda>ws1. Inr ((registerRoutes ws1)\<lparr>ws_httpServer := Some (RestApiInterface (ws_apiConfig ws))\<rparr>)))"

definition webServer_Close :: "unit result \<Rightarrow> webServer \<Rightarrow> unit result" where
  "webServer_Close shutdown ws =
     (case ws_httpServer ws of None \<Rightarrow> Inr ()
      | Some _ \<Rightarrow> (case shutdown of Inl e \<Rightarrow> Inl (wrap_error ''while closing the http server in gin/webServer'' e) | Inr _ \<Rightarrow> Inr ()))"

text \<open>The body of an answer; the time is a signed number of nanoseconds.\<close>

definition MetricsResponse_json :: "MetricsResponse \<Rightarrow> json" where
  "MetricsResponse_json m =
     JObj ([(''total_data'', JInt (uint (mr_TotalData m))), (''operations_count'', JInt (uint (mr_OperationsCount m))),
            (''total_errors_count'', JInt (uint (mr_TotalErrorsCount m)))] @
           (if mr_ErrorsCount m = [] then []
            else [(''errors_count'', JObj (sort_key fst (map (\<lambda>(k, n). (dec_int k, JInt (uint n))) (mr_ErrorsCount m))))]) @
           [(''total_time'', JInt (sint (mr_TotalIndexingTime m)))])"

definition returnStatus :: "json \<Rightarrow> string \<Rightarrow> string \<Rightarrow> bytes result" where
  "returnStatus d err code = Marshal (JObj [(''data'', d), (''error'', JStr err), (''code'', JStr code)])"

definition getMetrics :: "statusMetrics \<Rightarrow> bytes result" where
  "getMetrics fac =
     returnStatus (JObj [(''metrics'', JObj (sort_key fst (map (\<lambda>(topic, m). (topic, MetricsResponse_json m)) (facade_GetMetrics fac))))]) [] ''successful''"

definition getPrometheusMetrics :: "(MetricFamily \<Rightarrow> string option) \<Rightarrow> statusMetrics \<Rightarrow> bytes result" where
  "getPrometheusMetrics asText fac = Inr (facade_GetMetricsForPrometheus asText fac)"

definition http_answer :: "(MetricFamily \<Rightarrow> string option) \<Rightarrow> webServer \<Rightarrow> statusMetrics \<Rightarrow> string \<Rightarrow> string \<Rightarrow> bytes result option" where
  "http_answer asText ws sm httpMethod path =
     (case filter (\<lambda>(m, p, _). m = httpMethod \<and> p = path) (ws_routes ws) of
        [] \<Rightarrow> None
      | (_, _, GetMetricsHandler) # _ \<Rightarrow> Some (getMetrics sm)
      | (_, _, GetPrometheusMetricsHandler) # _ \<Rightarrow> Some (getPrometheusMetrics asText sm))"

section \<open>The command (cmd/elasticindexer/main.go)\<close>

text \<open>
  What the command waits for: the timer, with the outcome of the request that is then sent, or the user's signal.  \<open>None\<close> says that it
  still waits after the given events.
\<close>

datatype app_event = TimerFires "unit result" | Interrupted

fun requestSettings :: "app_event list \<Rightarrow> (bool \<times> app_event list) option" where
  "requestSettings [] = None"
| "requestSettings (TimerFires (Inr _) # evs) = Some (False, evs)"
| "requestSettings (TimerFires (Inl _) # evs) = requestSettings evs"
| "requestSettings (Interrupted # evs) = Some (True, evs)"

datatype app_line = ClosingApp | CannotCloseIndexer go_error | CannotCloseWebServer go_error | CannotCloseLog go_error

record app_env =
  ae_config :: "Config result"
  ae_sovereign :: bool
  ae_cluster :: "ClusterConfig result"
  ae_logger :: "bool result"
  ae_version :: string
  ae_api :: "ApiRoutesConfig result"
  ae_host_close :: "unit result"
  ae_shutdown :: "unit result"
  ae_log_close :: "unit result"

definition close_app :: "app_env \<Rightarrow> bool \<Rightarrow> webServer \<Rightarrow> app_line list" where
  "close_app ae hasFile ws =
     [ClosingApp] @
     (case ae_host_close ae of Inl e \<Rightarrow> [CannotCloseIndexer e] | Inr _ \<Rightarrow> []) @
     (case webServer_Close (ae_shutdown ae) ws of Inl e \<Rightarrow> [CannotCloseWebServer e] | Inr _ \<Rightarrow> []) @
     (if hasFile then (case ae_log_close ae of Inl e \<Rightarrow> [CannotCloseLog e] | Inr _ \<Rightarrow> []) else [])"

text \<open>
  The outcome is the running program (\<open>None\<close>: the events have not closed it yet) with its host and web server, and the lines it logs
  when it ends.
\<close>

definition startIndexer ::
    "('w, 'b, 'c) start_lib \<Rightarrow> app_env \<Rightarrow> app_event list \<Rightarrow> ('w, ('w, 'c) ws_host \<times> webServer \<times> app_line list option) io" where
  "startIndexer S ae evs =
     io_bind (io_wrap ''while loading the config file'' (io_of (ae_config ae))) (\<lambda>cfg.
     io_bind (io_wrap ''while loading the preferences config file'' (io_of (ae_cluster ae))) (\<lambda>clusterCfg.
     io_bind (io_wrap ''while initializing the logger'' (io_of (ae_logger ae))) (\<lambda>hasFile.
     io_bind (io_wrap ''while creating the indexer''
         (CreateWsIndexer S (cfg\<lparr>cf_Sovereign := ae_sovereign ae\<rparr>) clusterCfg NewStatusMetrics (ae_version ae))) (\<lambda>wsHost.
     io_bind (io_wrap ''while loading the api config file'' (io_of (ae_api ae))) (\<lambda>apiConfig.
     io_bind (io_wrap ''while creating the web server'' (io_of (CreateWebServer apiConfig (Some NewStatusMetrics)))) (\<lambda>ws.
     io_bind (io_wrap ''while starting the web server'' (io_of (StartHttpServer ws))) (\<lambda>ws1.
       io_ok (wsHost, ws1,
         (case requestSettings evs of
            None \<Rightarrow> None
          | Some (isClosed, rest) \<Rightarrow>
              if isClosed \<or> Interrupted \<in> set rest then Some (close_app ae hasFile ws1) else None)))))))))"

section \<open>What is served\<close>

text \<open>
  The HTTP interface serves exactly the endpoints of the status group whose first route in the configuration of that group is
  open, and nothing when it is switched off.
\<close>

theorem served_routes:
  "map_option (\<lambda>ws. set (ws_routes ws))
     (case bindr (CreateWebServer apiConfig (Some sm)) StartHttpServer of Inl _ \<Rightarrow> None | Inr ws \<Rightarrow> Some ws) =
   Some (if RestApiInterface apiConfig = ''off'' then {}
     else (if getEndpointProperties ''/status'' ''/metrics'' apiConfig then {(''GET'', ''/status/metrics'', GetMetricsHandler)} else {}) \<union>
          (if getEndpointProperties ''/status'' ''/prometheus-metrics'' apiConfig
           then {(''GET'', ''/status/prometheus-metrics'', GetPrometheusMetricsHandler)} else {}))"
  by (simp add: CreateWebServer_def NewMetricsFacade_def NewWebServer_def StartHttpServer_def createGroups_def NewStatusGroup_def
      registerRoutes_def RegisterRoutes_def metricsPath_def prometheusMetricsPath_def insert_commute)

lemma requestSettings_retry:
  "requestSettings (map (\<lambda>e. TimerFires (Inl e)) es @ evs) = requestSettings evs"
  by (induction es) simp_all

lemma requestSettings_sent:
  "requestSettings evs = Some (False, rest) \<longleftrightarrow> (\<exists>es. evs = map (\<lambda>e. TimerFires (Inl e)) es @ TimerFires (Inr ()) # rest)"
proof
  assume "requestSettings evs = Some (False, rest)"
  then show "\<exists>es. evs = map (\<lambda>e. TimerFires (Inl e)) es @ TimerFires (Inr ()) # rest"
  proof (induction evs rule: requestSettings.induct)
    case (2 u evs)
    then show ?case by (intro exI [of _ "[]"]) simp
  next
    case (3 e evs)
    then obtain es where "evs = map (\<lambda>e. TimerFires (Inl e)) es @ TimerFires (Inr ()) # rest" by auto
    then show ?case by (intro exI [of _ "e # es"]) simp
  qed simp_all
qed (auto simp: requestSettings_retry)

section \<open>What the configuration decides\<close>

text \<open>The prefix of the tokens of a sovereign chain is read from the configuration file and has no effect.\<close>

theorem esdt_prefix_is_not_used:
  "createDataIndexer S (cfg\<lparr>cf_ESDTPrefix := p\<rparr>) clusterCfg vers = createDataIndexer S cfg clusterCfg vers"
  by (simp add: createDataIndexer_def)

lemma io_wrap_Inr: "io_wrap t m w = (Inr x, w') \<longleftrightarrow> m w = (Inr x, w')"
  by (auto simp: io_wrap_def split: prod.splits sum.splits)

lemma createDataIndexer_created:
  assumes "createDataIndexer S cfg clusterCfg vers w = (Inr (di, ei), w')"
  shows "di_elasticProcessor di = elastic_processor \<and>
    pe_extractor (ep_env ei) = (if cf_Sovereign cfg then sovereign_ExtractExecutedTxHashes else ExtractExecutedTxHashes)"
proof -
  from assms obtain a w1 where "factory_NewIndexer (sl_NewClient S) (sl_container S) (sl_unmarshal S) a w1 = (Inr (di, ei), w')"
    "ia_Sovereign a = cf_Sovereign cfg"
    by (auto simp: createDataIndexer_def io_bind_Inr io_of_def)
  with indexer_created [OF this(1)] show ?thesis by simp
qed

text \<open>A host is only handed out with the handler of all topics and a processor for the kind of chain it was started for.\<close>

lemma CreateWsIndexer_connects:
  assumes "CreateWsIndexer S cfg clusterCfg sm vers w = (Inr h, w')"
  shows "wh_config h = ws_host_config clusterCfg" "wh_metrics h = sm"
    "ix_actions (wh_indexer h) = initActionsMap (sl_topics S) (ix_marshaller (wh_indexer h)) (ix_di (wh_indexer h))"
    "sl_NewWsMarshaller S (ccf_WsDataMarshallerType clusterCfg) = Inr (ix_marshaller (wh_indexer h))"
    "di_elasticProcessor (ix_di (wh_indexer h)) = elastic_processor"
    "pe_extractor (ep_env (wh_processor h)) = (if cf_Sovereign cfg then sovereign_ExtractExecutedTxHashes else ExtractExecutedTxHashes)"
  using assms by (auto simp: CreateWsIndexer_def createWsHost_def NewIndexer_def io_bind_Inr io_of_def io_ok_def bindr_Inr_iff
      dest!: createDataIndexer_created)


section \<open>A program that starts\<close>

text \<open>A sovereign chain on a server where everything exists, with one of the two endpoints open.\<close>

definition demo_start_lib :: "(elasticClient, string list, string) start_lib" where
  "demo_start_lib =
     \<lparr>sl_NewWsMarshaller = (\<lambda>_. Inr \<lparr>um_OutportBlock = (\<lambda>_. Inl ErrUnmarshal), um_BlockData = (\<lambda>_. Inl ErrUnmarshal),
        um_RoundsInfo = (\<lambda>_. Inl ErrUnmarshal), um_ValidatorsRating = (\<lambda>_. Inl ErrUnmarshal),
        um_ValidatorsPubKeys = (\<lambda>_. Inl ErrUnmarshal), um_Accounts = (\<lambda>_. Inl ErrUnmarshal),
        um_OutportConfig = (\<lambda>_. Inl ErrUnmarshal), um_Shard = (\<lambda>_. Inl ErrUnmarshal)\<rparr>),
      sl_NewMarshaller = (\<lambda>_. Inr ()), sl_NewHasher = (\<lambda>_. Inr ()), sl_NewBech32PubkeyConverter = (\<lambda>_ _. Inr ()),
      sl_NewHexPubkeyConverter = (\<lambda>_. Inr ()), sl_NewClient = (\<lambda>_. Inr (elastic_client 1 accepting_es)),
      sl_container = \<lparr>NewEmptyBlockCreatorsContainer = [], container_Add = (\<lambda>k _ c. Inr (k # c)), container_Get = (\<lambda>_ k. Inr k),
        header_creators = ((''a'', ''a''), (''b'', ''b''), (''c'', ''c''), (''d'', ''d''))\<rparr>,
      sl_unmarshal = (\<lambda>_ _. Inl ErrUnmarshal), sl_libs = demo_env, sl_DataFieldParser = Inr (),
      sl_topics = \<lparr>TopicSaveBlock = ''b'', TopicRevertIndexedBlock = ''r'', TopicSaveRoundsInfo = ''o'', TopicSaveValidatorsRating = ''v'',
        TopicSaveValidatorsPubKeys = ''k'', TopicSaveAccounts = ''a'', TopicFinalizedBlock = ''f'', TopicSettings = ''s''\<rparr>,
      sl_CreateWebSocketHost = (\<lambda>_. Inr ()), sl_SetPayloadHandler = Inr ()\<rparr>"

definition demo_app :: app_env where
  "demo_app =
     \<lparr>ae_config = Inr \<lparr>cf_AvailableIndices = [''blocks'', ''rounds''], cf_ESDTPrefix = ''sov'', cf_AddressConverterLength = 32,
        cf_AddressConverterPrefix = ''erd'', cf_ValidatorKeysConverterLength = 96, cf_HasherType = ''blake2b'', cf_MarshallerType = ''gogo'',
        cf_Denomination = 18, cf_Sovereign = False\<rparr>,
      ae_sovereign = True,
      ae_cluster = Inr \<lparr>ccf_DisabledIndices = [''rounds''], ccf_WsURL = ''localhost:22111'', ccf_WsMode = ''server'',
        ccf_WsDataMarshallerType = ''json'', ccf_WsRetryDurationInSec = 5, ccf_WsBlockingAckOnError = True, ccf_WsWithAcknowledge = True,
        ccf_WsAckTimeoutInSec = 50, ccf_UseKibana = False, ccf_URL = ''http://localhost:9200'', ccf_UserName = [], ccf_Password = [],
        ccf_BulkRequestMaxSizeInBytes = 4194304,
        ccf_MainChainCluster = \<lparr>ec_Enabled = False, ec_Url = [], ec_UserName = [], ec_Password = []\<rparr>\<rparr>,
      ae_logger = Inr False, ae_version = ''v1'',
      ae_api = Inr \<lparr>RestApiInterface = '':8080'', APIPackages = [(''status'', [\<lparr>rc_Name = ''/metrics'', rc_Open = True\<rparr>])]\<rparr>,
      ae_host_close = Inr (), ae_shutdown = Inr (), ae_log_close = Inr ()\<rparr>"

lemma demo_starts: "\<exists>h ws ended w'. startIndexer demo_start_lib demo_app [TimerFires (Inr ())] new_client = (Inr (h, ws, ended), w')"
proof -
  obtain cfg clusterCfg apiConfig where c: "ae_config demo_app = Inr cfg" "ae_cluster demo_app = Inr clusterCfg" "ae_api demo_app = Inr apiConfig"
    "cf_Denomination cfg = 18" "prepareIndices (cf_AvailableIndices cfg) (ccf_DisabledIndices clusterCfg) = [''blocks'']"
    "ccf_URL clusterCfg \<noteq> []" "\<not> ec_Enabled (ccf_MainChainCluster clusterCfg)"
    by (simp add: demo_app_def prepareIndices_filter)
  have p: "\<exists>ei w'. createElasticProcessor (sl_NewClient demo_start_lib) a m w = (Inr ei, w')"
    if "ia_Marshalizer a" "ia_Hasher a" "ia_AddressPubkeyConverter a" "ia_ValidatorPubkeyConverter a" "ia_DataFieldParser a = Inr ()"
      "ia_EnabledIndexes a \<noteq> []" "0 \<le> ia_Denomination a"
      "TxHashExtractorCreator m \<noteq> None" "RewardTxDataCreator m \<noteq> None" "IndexTokensHandlerCreator m \<noteq> None" for a m w
    using that unfolding createElasticProcessor_def createElasticClient_def new_elastic_client_def
    by (simp add: demo_start_lib_def) (rule accepting_created; simp)
  obtain m where m: "createManagedRunTypeComponents (sl_NewClient demo_start_lib) (pe_consts demo_env)
      (Some (SovereignRunTypeComponentsFactory (ccf_MainChainCluster clusterCfg) [])) = Inr m"
    "TxHashExtractorCreator m \<noteq> None" "RewardTxDataCreator m \<noteq> None" "IndexTokensHandlerCreator m \<noteq> None"
    using c(7) by (simp add: createManagedRunTypeComponents_def NewManagedRunTypeComponents_def managed_Create_def createMainChainElasticClient_def
        NewSovereignIndexTokensHandler_def TxHashExtractorCreator_def RewardTxDataCreator_def IndexTokensHandlerCreator_def)
  have libs: "sl_NewMarshaller demo_start_lib t = Inr ()" "sl_NewHasher demo_start_lib t = Inr ()" "sl_NewBech32PubkeyConverter demo_start_lib n t = Inr ()"
    "sl_NewHexPubkeyConverter demo_start_lib n = Inr ()" "sl_CreateWebSocketHost demo_start_lib wc = Inr ()" "sl_SetPayloadHandler demo_start_lib = Inr ()"
    "sl_DataFieldParser demo_start_lib = Inr ()" "\<exists>b. createBlockCreatorsContainer (sl_container demo_start_lib) = Inr b"
    "\<exists>M. sl_NewWsMarshaller demo_start_lib t = Inr M" for t n wc
    by (simp_all add: demo_start_lib_def createBlockCreatorsContainer_def)
  obtain b where b: "createBlockCreatorsContainer (sl_container demo_start_lib) = Inr b" using libs(8) by blast
  have d: "\<exists>di ei w'. createDataIndexer demo_start_lib (cfg\<lparr>cf_Sovereign := True\<rparr>) clusterCfg v w = (Inr (di, ei), w')" for v w
  proof -
    have "\<exists>a. createDataIndexer demo_start_lib (cfg\<lparr>cf_Sovereign := True\<rparr>) clusterCfg v w =
        factory_NewIndexer (sl_NewClient demo_start_lib) (sl_container demo_start_lib) (sl_unmarshal demo_start_lib) a w \<and>
        ia_Marshalizer a \<and> ia_Hasher a \<and> ia_AddressPubkeyConverter a \<and> ia_ValidatorPubkeyConverter a \<and> ia_DataFieldParser a = Inr () \<and>
        ia_EnabledIndexes a \<noteq> [] \<and> 0 \<le> ia_Denomination a \<and> ia_HeaderMarshaller a \<and> ia_Url a \<noteq> [] \<and> ia_Sovereign a \<and>
        ia_MainChainElastic a = ccf_MainChainCluster clusterCfg \<and> ia_ESDTPrefix a = [] \<and> ia_libs a = demo_env"
      unfolding createDataIndexer_def libs io_bind_ok
      by (intro exI conjI, rule refl) (simp_all add: c demo_start_lib_def)
    then obtain a where a: "createDataIndexer demo_start_lib (cfg\<lparr>cf_Sovereign := True\<rparr>) clusterCfg v w =
        factory_NewIndexer (sl_NewClient demo_start_lib) (sl_container demo_start_lib) (sl_unmarshal demo_start_lib) a w"
      "ia_Marshalizer a" "ia_Hasher a" "ia_AddressPubkeyConverter a" "ia_ValidatorPubkeyConverter a" "ia_DataFieldParser a = Inr ()"
      "ia_EnabledIndexes a \<noteq> []" "0 \<le> ia_Denomination a" "ia_HeaderMarshaller a" "ia_Url a \<noteq> []" "ia_Sovereign a"
      "ia_MainChainElastic a = ccf_MainChainCluster clusterCfg" "ia_ESDTPrefix a = []" "ia_libs a = demo_env" by blast
    from p [OF a(2-8) m(2-4), of w] obtain ei w' where "createElasticProcessor (sl_NewClient demo_start_lib) a m w = (Inr ei, w')" by blast
    with a b m(1) show ?thesis
      by (simp add: factory_NewIndexer_def checkDataIndexerParams_def io_bind_def io_of_def NewDataIndexer_def checkIndexerArgs_def io_ok_def)
  qed
  obtain M where M: "sl_NewWsMarshaller demo_start_lib (ccf_WsDataMarshallerType clusterCfg) = Inr M" using libs(9) by blast
  from d obtain di ei w' where
    "createDataIndexer demo_start_lib (cfg\<lparr>cf_Sovereign := True\<rparr>) clusterCfg (ae_version demo_app) new_client = (Inr (di, ei), w')" by blast
  with M have "\<exists>h. CreateWsIndexer demo_start_lib (cfg\<lparr>cf_Sovereign := True\<rparr>) clusterCfg NewStatusMetrics (ae_version demo_app) new_client = (Inr h, w')"
    by (simp add: CreateWsIndexer_def io_bind_def io_of_def NewIndexer_def createWsHost_def libs io_ok_def)
  then obtain h where "CreateWsIndexer demo_start_lib (cfg\<lparr>cf_Sovereign := True\<rparr>) clusterCfg NewStatusMetrics (ae_version demo_app) new_client = (Inr h, w')"
    by blast
  moreover have "ae_sovereign demo_app" "ae_logger demo_app = Inr False" by (simp_all add: demo_app_def)
  ultimately show ?thesis
    using c by (simp add: startIndexer_def io_bind_def io_wrap_def io_of_def io_ok_def CreateWebServer_def NewMetricsFacade_def NewWebServer_def
        StartHttpServer_def createGroups_def NewStatusGroup_def)
qed


end
