(* ===== verification/Tools_Client.thy ===== *)
theory Tools_Client
  imports Es_Client
begin

text \<open>
  The database clients of the tools.  The client of the cluster comparison (\<^verbatim>\<open>tools/clusters-checker/pkg/client\<close>) has a scroll that
  is read page by page (\<^verbatim>\<open>InitializeScroll\<close>, \<^verbatim>\<open>DoScrollRequestV2\<close>), a scroll that hands every page to a handler, a search and
  a count; the clients of the balance checker (\<^verbatim>\<open>tools/accounts-balance-checker/pkg/esclient\<close>) and of the index modifier
  (\<^verbatim>\<open>tools/index-modifier/pkg/client\<close>) have the handler scroll, and the first of them a search and a bulk request.
  The Elasticsearch library, \<^verbatim>\<open>gjson\<close> and the random numbers are the parameter \<open>ck_lib\<close>; the answer to a call may depend on
  all calls before it.  A raw message is its decoded value, \<open>None\<close> when the field is absent: the code only hands it back to
  \<^verbatim>\<open>json.Unmarshal\<close>.
\<close>

section \<open>Pages\<close>

type_synonym raw = "jv option"
type_synonym page = "(string \<times> raw) list"

text \<open>
  \<^verbatim>\<open>json.Unmarshal\<close> into \<^verbatim>\<open>generalElasticResponse\<close>: a value of another type is left out and makes the call return an error, after
  the rest has been read.
\<close>

fun fill_list :: "jv option \<Rightarrow> jv list" where
  "fill_list (Some (VArr vs)) = vs"
| "fill_list _ = []"

fun fill_obj :: "jv option \<Rightarrow> (string \<times> jv) list" where
  "fill_obj (Some (VObj kvs)) = kvs"
| "fill_obj _ = []"

definition fill_hit :: "jv \<Rightarrow> string \<times> raw" where
  "fill_hit v =
     (case d_str (get_field ''_id'' (fill_obj (Some v))) of Some i \<Rightarrow> i | None \<Rightarrow> [], get_field ''_source'' (fill_obj (Some v)))"

definition generalElasticResponse :: "jv \<Rightarrow> page" where
  "generalElasticResponse v = map fill_hit (fill_list (get_field ''hits'' (fill_obj (get_field ''hits'' (fill_obj (Some v))))))"

definition hit_ok :: "(string \<times> jv) list \<Rightarrow> (string \<times> raw) option" where
  "hit_ok o1 = map_option (\<lambda>i. (i, get_field ''_source'' o1)) (d_str (get_field ''_id'' o1))"

definition response_ok :: "jv \<Rightarrow> bool" where
  "response_ok v \<longleftrightarrow>
     d_struct (\<lambda>o1. d_struct (\<lambda>o2. d_list (d_struct hit_ok) (get_field ''hits'' o2)) (get_field ''hits'' o1)) (Some v) \<noteq> None"

text \<open>What the response holds afterwards, and the error; a text that is no JSON leaves it empty.\<close>

definition unmarshal_page :: "bytes \<Rightarrow> page \<times> unit result" where
  "unmarshal_page b =
     (case json_decode b of None \<Rightarrow> ([], Inl ErrUnmarshal)
      | Some v \<Rightarrow> (generalElasticResponse v, if response_ok v then Inr () else Inl ErrUnmarshal))"

section \<open>The library and the client\<close>

datatype ck_call =
    CkSearch string bytes int "u64 option" "u64 option"
  | CkScroll string u64
  | CkClearScroll string
  | CkCount string bytes
  | CkBulk string bytes

record ck_lib =
  ck_answer :: "ck_call list \<Rightarrow> es_response result"
  ck_IsError :: "es_response \<Rightarrow> bool"
  ck_String :: "es_response \<Rightarrow> string"
  ck_gjson_Uint :: "bytes \<Rightarrow> string \<Rightarrow> u64"
  ck_gjson_Int :: "bytes \<Rightarrow> string \<Rightarrow> int"
  ck_gjson_String :: "bytes \<Rightarrow> string \<Rightarrow> string"
  ck_Intn10 :: "nat \<Rightarrow> u64"

record ck_esClient =
  ck_calls :: "ck_call list"
  ck_countScroll :: u64
  ck_countSearch :: u64
  ck_draws :: nat

definition ck_do :: "ck_lib \<Rightarrow> ck_call \<Rightarrow> (ck_esClient, es_response) io" where
  "ck_do L c w = (ck_answer L (ck_calls w @ [c]), w\<lparr>ck_calls := ck_calls w @ [c]\<rparr>)"

definition NewElasticClient_ck :: "unit result \<Rightarrow> ck_esClient result" where
  "NewElasticClient_ck created =
     bindr created (\<lambda>_. Inr \<lparr>ck_calls = [], ck_countScroll = 0, ck_countSearch = 0, ck_draws = 0\<rparr>)"

definition updateAndGetCountScroll :: "ck_lib \<Rightarrow> (ck_esClient, u64) io" where
  "updateAndGetCountScroll L w =
     (let c = ck_countScroll w + (1 + ck_Intn10 L (ck_draws w)) in
      (Inr c, w\<lparr>ck_countScroll := c, ck_draws := Suc (ck_draws w)\<rparr>))"

definition updateAndGetCount :: "(ck_esClient, u64) io" where
  "updateAndGetCount w = (Inr (ck_countSearch w + 1), w\<lparr>ck_countSearch := ck_countSearch w + 1\<rparr>)"

definition getBytesFromResponse_ck :: "ck_lib \<Rightarrow> es_response \<Rightarrow> bytes result" where
  "getBytesFromResponse_ck L res =
     (if ck_IsError L res then Inl (ErrResponse (ck_String L res)) else read_all (rs_Body res))"

definition clearScroll_ck :: "ck_lib \<Rightarrow> string \<Rightarrow> (ck_esClient, unit) io" where
  "clearScroll_ck L scrollID =
     io_bind (ck_do L (CkClearScroll scrollID)) (\<lambda>resp.
       if ck_IsError L resp \<and> rs_StatusCode resp \<noteq> StatusNotFound then io_fail (ErrResponse (ck_String L resp)) else io_ok ())"

text \<open>Durations in nanoseconds.\<close>

definition scroll_minutes :: "u64 \<Rightarrow> u64 \<Rightarrow> u64" where
  "scroll_minutes m k = m * 60000000000 + k * 1000000"

text \<open>The scroll is cleared when its page is empty; an error of that is only logged.\<close>

definition clear_if_done :: "ck_lib \<Rightarrow> bool \<Rightarrow> string \<Rightarrow> ck_esClient \<Rightarrow> ck_esClient" where
  "clear_if_done L isDone scrollID w = (if isDone then snd (clearScroll_ck L scrollID w) else w)"

definition page_done :: "ck_lib \<Rightarrow> bytes \<Rightarrow> bool" where
  "page_done L b \<longleftrightarrow> ck_gjson_Int L b ''hits.hits.#'' = 0"

definition InitializeScroll_ck :: "ck_lib \<Rightarrow> string \<Rightarrow> bytes \<Rightarrow> (ck_esClient, page \<times> string \<times> bool) io" where
  "InitializeScroll_ck L index body =
     io_bind (updateAndGetCountScroll L) (\<lambda>count.
     io_bind (ck_do L (CkSearch index body 9000 (Some (scroll_minutes 10 count)) None)) (\<lambda>res.
       if ck_IsError L res \<or> rs_StatusCode res \<ge> StatusBadRequest then io_fail (ErrResponse (ck_String L res))
       else io_bind (io_of (getBytesFromResponse_ck L res)) (\<lambda>bodyBytes w.
         let scrollID = ck_gjson_String L bodyBytes ''_scroll_id'';
             w1 = clear_if_done L (page_done L bodyBytes) scrollID w in
         case unmarshal_page bodyBytes of
           (_, Inl e) \<Rightarrow> (Inl e, w1)
         | (response, Inr _) \<Rightarrow> (Inr (response, scrollID, page_done L bodyBytes), w1))))"

text \<open>The response is handed to the caller also when an error is returned.\<close>

definition DoScrollRequestV2_ck :: "ck_lib \<Rightarrow> string \<Rightarrow> ck_esClient \<Rightarrow> (page \<times> (string \<times> bool) result) \<times> ck_esClient" where
  "DoScrollRequestV2_ck L scrollID w =
     (case io_bind (updateAndGetCountScroll L) (\<lambda>count.
        io_bind (ck_do L (CkScroll scrollID (scroll_minutes 2 count))) (\<lambda>res. io_of (getBytesFromResponse_ck L res))) w of
        (Inl e, w1) \<Rightarrow> (([], Inl e), w1)
      | (Inr bodyBytes, w1) \<Rightarrow>
          let nextScrollID = ck_gjson_String L bodyBytes ''_scroll_id'';
              (response, err) = unmarshal_page bodyBytes in
          ((response, bindr err (\<lambda>_. Inr (nextScrollID, page_done L bodyBytes))),
           clear_if_done L (page_done L bodyBytes) scrollID w1))"

definition getScrollResponse_ck :: "ck_lib \<Rightarrow> string \<Rightarrow> (ck_esClient, bytes) io" where
  "getScrollResponse_ck L scrollID =
     io_bind (updateAndGetCountScroll L) (\<lambda>count.
     io_bind (ck_do L (CkScroll scrollID (scroll_minutes 2 count))) (\<lambda>res. io_of (getBytesFromResponse_ck L res)))"

text \<open>The loop over the pages of a scroll; the handler of the pages works on a state that holds the client.\<close>

fun scroll_pages :: "nat \<Rightarrow> ck_lib \<Rightarrow> ('s, bytes) io \<Rightarrow> (bytes \<Rightarrow> ('s, unit) io) \<Rightarrow> ('s, unit) io" where
  "scroll_pages 0 L next handlerFunc = io_fail LoopFuelExhausted"
| "scroll_pages (Suc n) L next handlerFunc =
     io_bind next (\<lambda>scrollBodyBytes.
       if ck_gjson_Int L scrollBodyBytes ''hits.hits.#'' < 1 then io_ok ()
       else io_bind (handlerFunc scrollBodyBytes) (\<lambda>_. scroll_pages n L next handlerFunc))"

text \<open>In the cluster comparison the handler has a state of its own beside the client.\<close>

definition on_cluster_client :: "(ck_esClient, 'a) io \<Rightarrow> ('h \<times> ck_esClient, 'a) io" where
  "on_cluster_client m s = (case m (snd s) of (r, w) \<Rightarrow> (r, (fst s, w)))"

definition on_handler :: "('h, 'a) io \<Rightarrow> ('h \<times> ck_esClient, 'a) io" where
  "on_handler m s = (case m (fst s) of (r, h) \<Rightarrow> (r, (h, snd s)))"

definition iterateScroll_ck :: "nat \<Rightarrow> ck_lib \<Rightarrow> string \<Rightarrow> (bytes \<Rightarrow> ('h, unit) io) \<Rightarrow> ('h \<times> ck_esClient, unit) io" where
  "iterateScroll_ck n L scrollID handlerFunc s =
     (if scrollID = [] then (Inr (), s)
      else (case scroll_pages n L (on_cluster_client (getScrollResponse_ck L scrollID)) (\<lambda>b. on_handler (handlerFunc b)) s of (r, s1) \<Rightarrow> (r, snd (on_cluster_client (clearScroll_ck L scrollID) s1))))"

definition DoScrollRequestAllDocuments_ck ::
    "nat \<Rightarrow> ck_lib \<Rightarrow> string \<Rightarrow> bytes \<Rightarrow> (bytes \<Rightarrow> ('h, unit) io) \<Rightarrow> int \<Rightarrow> ('h \<times> ck_esClient, unit) io" where
  "DoScrollRequestAllDocuments_ck n L index body handlerFunc sz =
     io_bind (on_cluster_client (updateAndGetCountScroll L)) (\<lambda>count.
     io_bind (on_cluster_client (ck_do L (CkSearch index body sz (Some (scroll_minutes 10 count)) None))) (\<lambda>res.
     io_bind (io_of (getBytesFromResponse_ck L res)) (\<lambda>bodyBytes.
     io_bind (on_handler (handlerFunc bodyBytes)) (\<lambda>_.
       iterateScroll_ck n L (ck_gjson_String L bodyBytes ''_scroll_id'') handlerFunc))))"

definition DoGetRequest_ck :: "ck_lib \<Rightarrow> string \<Rightarrow> bytes \<Rightarrow> int \<Rightarrow> (ck_esClient, page) io" where
  "DoGetRequest_ck L index body sz =
     io_bind updateAndGetCount (\<lambda>count.
     io_bind (ck_do L (CkSearch index body sz None (Some (scroll_minutes 10 count)))) (\<lambda>res.
       if ck_IsError L res \<or> rs_StatusCode res \<ge> StatusBadRequest then io_fail (ErrResponse (ck_String L res))
       else io_bind (io_of (read_all (rs_Body res))) (\<lambda>bodyBytes.
         case unmarshal_page bodyBytes of (_, Inl e) \<Rightarrow> io_fail e | (response, Inr _) \<Rightarrow> io_ok response)))"

definition DoCountRequest_ck :: "ck_lib \<Rightarrow> string \<Rightarrow> bytes \<Rightarrow> (ck_esClient, u64) io" where
  "DoCountRequest_ck L index body =
     io_bind (ck_do L (CkCount index body)) (\<lambda>res.
     io_bind (io_of (getBytesFromResponse_ck L res)) (\<lambda>bodyBytes. io_ok (ck_gjson_Uint L bodyBytes ''count'')))"

text \<open>The interface the comparison uses (\<^verbatim>\<open>checkers/interface.go\<close>); the scroll of all documents runs beside a handler state.\<close>

record ('w, 'h) ESClient =
  InitializeScroll :: "string \<Rightarrow> bytes \<Rightarrow> ('w, page \<times> string \<times> bool) io"
  DoScrollRequestV2 :: "string \<Rightarrow> 'w \<Rightarrow> (page \<times> (string \<times> bool) result) \<times> 'w"
  DoCountRequest_c :: "string \<Rightarrow> bytes \<Rightarrow> ('w, u64) io"
  DoGetRequest :: "string \<Rightarrow> bytes \<Rightarrow> int \<Rightarrow> ('w, page) io"
  DoScrollRequestAllDocuments :: "string \<Rightarrow> bytes \<Rightarrow> (bytes \<Rightarrow> ('h, unit) io) \<Rightarrow> int \<Rightarrow> ('h \<times> 'w, unit) io"

definition cluster_client :: "nat \<Rightarrow> ck_lib \<Rightarrow> (ck_esClient, 'h) ESClient" where
  "cluster_client n L =
     \<lparr>InitializeScroll = InitializeScroll_ck L, DoScrollRequestV2 = DoScrollRequestV2_ck L,
      DoCountRequest_c = DoCountRequest_ck L, DoGetRequest = DoGetRequest_ck L,
      DoScrollRequestAllDocuments = DoScrollRequestAllDocuments_ck n L\<rparr>"

section \<open>The clients of the balance checker and of the index modifier\<close>

text \<open>The handler of the pages may use the client itself: \<open>get\<close> and \<open>put\<close> read and write it in the state of the handler.\<close>

definition with_client :: "('s \<Rightarrow> ck_esClient) \<Rightarrow> (ck_esClient \<Rightarrow> 's \<Rightarrow> 's) \<Rightarrow> (ck_esClient, 'a) io \<Rightarrow> ('s, 'a) io" where
  "with_client get put m s = (case m (get s) of (r, w) \<Rightarrow> (r, put w s))"

definition next_countScroll :: "(ck_esClient, u64) io" where
  "next_countScroll w = (Inr (ck_countScroll w + 1), w\<lparr>ck_countScroll := ck_countScroll w + 1\<rparr>)"

definition getScrollResponse_tool :: "ck_lib \<Rightarrow> string \<Rightarrow> (ck_esClient, bytes) io" where
  "getScrollResponse_tool L scrollID =
     io_bind next_countScroll (\<lambda>k.
     io_bind (ck_do L (CkScroll scrollID (scroll_minutes 2 k))) (\<lambda>res. io_of (getBytesFromResponse_ck L res)))"

definition iterateScroll_tool ::
    "nat \<Rightarrow> ck_lib \<Rightarrow> ('s \<Rightarrow> ck_esClient) \<Rightarrow> (ck_esClient \<Rightarrow> 's \<Rightarrow> 's) \<Rightarrow> string \<Rightarrow> (bytes \<Rightarrow> ('s, unit) io) \<Rightarrow> ('s, unit) io" where
  "iterateScroll_tool n L get put scrollID handlerFunc s =
     (if scrollID = [] then (Inr (), s)
      else (case scroll_pages n L (with_client get put (getScrollResponse_tool L scrollID)) handlerFunc s of
              (r, s1) \<Rightarrow> (r, snd (with_client get put (clearScroll_ck L scrollID) s1))))"

definition DoScrollRequestAllDocuments_tool ::
    "nat \<Rightarrow> ck_lib \<Rightarrow> ('s \<Rightarrow> ck_esClient) \<Rightarrow> (ck_esClient \<Rightarrow> 's \<Rightarrow> 's) \<Rightarrow> string \<Rightarrow> bytes \<Rightarrow> (bytes \<Rightarrow> ('s, unit) io) \<Rightarrow> ('s, unit) io" where
  "DoScrollRequestAllDocuments_tool n L get put index body handlerFunc =
     io_bind (with_client get put next_countScroll) (\<lambda>k.
     io_bind (with_client get put (ck_do L (CkSearch index body 9000 (Some (scroll_minutes 10 k)) None))) (\<lambda>res.
     io_bind (io_of (getBytesFromResponse_ck L res)) (\<lambda>bodyBytes.
     io_bind (handlerFunc bodyBytes) (\<lambda>_.
       iterateScroll_tool n L get put (ck_gjson_String L bodyBytes ''_scroll_id'') handlerFunc))))"

text \<open>The client of the balance checker looks at the status itself before the body is read.\<close>

definition DoScrollRequestAllDocuments_bal ::
    "nat \<Rightarrow> ck_lib \<Rightarrow> ('s \<Rightarrow> ck_esClient) \<Rightarrow> (ck_esClient \<Rightarrow> 's \<Rightarrow> 's) \<Rightarrow> string \<Rightarrow> bytes \<Rightarrow> (bytes \<Rightarrow> ('s, unit) io) \<Rightarrow> ('s, unit) io" where
  "DoScrollRequestAllDocuments_bal n L get put index body handlerFunc =
     io_bind (with_client get put next_countScroll) (\<lambda>k.
     io_bind (with_client get put (ck_do L (CkSearch index body 9000 (Some (scroll_minutes 10 k)) None))) (\<lambda>res.
       if ck_IsError L res then io_fail (ErrResponse (''error DoScrollRequestAllDocuments: '' @ ck_String L res))
       else io_bind (io_of (getBytesFromResponse_ck L res)) (\<lambda>bodyBytes.
            io_bind (handlerFunc bodyBytes) (\<lambda>_.
              iterateScroll_tool n L get put (ck_gjson_String L bodyBytes ''_scroll_id'') handlerFunc))))"

text \<open>The body of the answer; the caller decodes it into its response.\<close>

definition DoGetRequest_tool :: "ck_lib \<Rightarrow> bytes \<Rightarrow> string \<Rightarrow> int \<Rightarrow> (ck_esClient, bytes) io" where
  "DoGetRequest_tool L buff index sz =
     io_bind updateAndGetCount (\<lambda>k.
     io_bind (ck_do L (CkSearch index buff sz None (Some (scroll_minutes 10 k)))) (\<lambda>res.
       if ck_IsError L res then io_fail (ErrResponse (ck_String L res)) else io_of (read_all (rs_Body res))))"

text \<open>The bulk request of the balance checker: every item that failed is put into the error.\<close>

record tool_item =
  tit_Index :: string
  tit_ID :: string
  tit_Status :: int
  tit_Result :: string
  tit_Error :: "string \<times> string \<times> string \<times> string"

definition zero_tool_item :: tool_item where
  "zero_tool_item = \<lparr>tit_Index = [], tit_ID = [], tit_Status = 0, tit_Result = [], tit_Error = ([], [], [], [])\<rparr>"

definition tool_item_dec :: "(string \<times> jv) list \<Rightarrow> tool_item option" where
  "tool_item_dec o1 =
     bindo (d_str (get_field ''_index'' o1)) (\<lambda>i.
     bindo (d_str (get_field ''_id'' o1)) (\<lambda>d.
     bindo (d_int64 (get_field ''status'' o1)) (\<lambda>s.
     bindo (d_str (get_field ''result'' o1)) (\<lambda>r.
     bindo (d_struct (\<lambda>o2.
       bindo (d_str (get_field ''type'' o2)) (\<lambda>t.
       bindo (d_str (get_field ''reason'' o2)) (\<lambda>re.
       bindo (d_struct (\<lambda>o3. bindo (d_str (get_field ''type'' o3)) (\<lambda>ct. bindo (d_str (get_field ''reason'' o3)) (\<lambda>cr. Some (ct, cr))))
         (get_field ''caused_by'' o2)) (\<lambda>(ct, cr). Some (t, re, ct, cr))))) (get_field ''error'' o1)) (\<lambda>e.
       Some \<lparr>tit_Index = i, tit_ID = d, tit_Status = s, tit_Result = r, tit_Error = e\<rparr>)))))"

definition bulk_items_dec :: "(string \<times> jv) list \<Rightarrow> (tool_item option \<times> tool_item option) list option" where
  "bulk_items_dec o1 =
     bindo (d_bool (get_field ''errors'' o1)) (\<lambda>_.
       d_list (d_struct (\<lambda>o2.
         bindo (d_ptr (d_struct tool_item_dec) (get_field ''index'' o2)) (\<lambda>a.
         bindo (d_ptr (d_struct tool_item_dec) (get_field ''update'' o2)) (\<lambda>b. Some (a, b))))) (get_field ''items'' o1))"

definition selected_tool_item :: "tool_item option \<times> tool_item option \<Rightarrow> tool_item" where
  "selected_tool_item p =
     (case p of (Some i, _) \<Rightarrow> i | (None, Some i) \<Rightarrow> i | (None, None) \<Rightarrow> zero_tool_item)"

definition tool_item_text :: "tool_item \<Rightarrow> string" where
  "tool_item_text i =
     (case tit_Error i of (t, r, ct, cr) \<Rightarrow>
       ''{ \"index\": \"'' @ tit_Index i @ ''\", \"id\": \"'' @ tit_ID i @ ''\", \"statusCode\": '' @ dec_int (tit_Status i) @
       '', \"errorType\": \"'' @ t @ ''\", \"reason\": \"'' @ r @ ''\", \"causedBy\": { \"type\": \"'' @ ct @
       ''\", \"reason\": \"'' @ cr @ ''\" }}'' @ [CHR 0x5C, CHR ''n''])"

definition extractErrorFromResponseBytes :: "bytes \<Rightarrow> unit result" where
  "extractErrorFromResponseBytes responseBytes =
     bindr (Unmarshal bulk_items_dec responseBytes) (\<lambda>items.
       let errorsString = concat (map tool_item_text (filter (\<lambda>i. StatusBadRequest \<le> tit_Status i) (map selected_tool_item items))) in
       if errorsString = [] then Inr () else Inl (ErrResponse errorsString))"

definition DoBulkRequest_tool :: "ck_lib \<Rightarrow> bytes \<Rightarrow> string \<Rightarrow> (ck_esClient, unit) io" where
  "DoBulkRequest_tool L buff index =
     io_bind (ck_do L (CkBulk index buff)) (\<lambda>res.
       if ck_IsError L res then io_fail (ErrResponse (ck_String L res))
       else io_bind (io_of (read_all (rs_Body res))) (\<lambda>bodyBytes. io_of (extractErrorFromResponseBytes bodyBytes)))"

lemma tool_item_text_nonempty: "tool_item_text i \<noteq> []"
  by (simp add: tool_item_text_def split: prod.split)

text \<open>A bulk answer that decodes is accepted exactly when no item has a status of 400 or more.\<close>

lemma extractErrorFromResponseBytes_ok:
  "extractErrorFromResponseBytes b = Inr () \<longleftrightarrow>
    (\<exists>items. Unmarshal bulk_items_dec b = Inr items \<and> (\<forall>p \<in> set items. tit_Status (selected_tool_item p) < StatusBadRequest))"
  by (auto simp: extractErrorFromResponseBytes_def bindr_Inr_iff Let_def filter_empty_conv tool_item_text_nonempty not_le)

section \<open>The contract of a scroll\<close>

text \<open>The rules for sequences of calls, for an invariant that does not depend on the results.\<close>

lemma keeps_seq [keeps_intros]: "keeps I m (\<lambda>_. True) \<Longrightarrow> (\<And>x. keeps I (f x) (\<lambda>_. True)) \<Longrightarrow> keeps I (io_bind m f) (\<lambda>_. True)"
  by (rule keeps_bind)

lemma keeps_unit [keeps_intros]: "keeps I (io_ok x) (\<lambda>_. True)" "keeps I (io_of r) (\<lambda>_. True)"
  by (simp_all add: keeps_ok keeps_of)

declare keeps_fail [keeps_intros] keeps_wrap [keeps_intros] keeps_each [keeps_intros] keeps_if [keeps_intros]

text \<open>The bulk requests sent so far, and a step of the client that sends none.\<close>

definition bulk_calls :: "ck_esClient \<Rightarrow> ck_call list" where
  "bulk_calls w = filter (\<lambda>c. case c of CkBulk _ _ \<Rightarrow> True | _ \<Rightarrow> False) (ck_calls w)"

definition reads :: "('s \<Rightarrow> ck_esClient) \<Rightarrow> (ck_esClient \<Rightarrow> 's \<Rightarrow> 's) \<Rightarrow> 's \<Rightarrow> 's \<Rightarrow> bool" where
  "reads get put s t \<longleftrightarrow> (\<exists>w. t = put w s \<and> bulk_calls w = bulk_calls (get s))"

lemma bulk_calls_simps [simp]:
  "bulk_calls (w\<lparr>ck_countScroll := k\<rparr>) = bulk_calls w" "bulk_calls (w\<lparr>ck_countSearch := k\<rparr>) = bulk_calls w"
  "bulk_calls (snd (ck_do L (CkSearch i b n x y) w)) = bulk_calls w" "bulk_calls (snd (ck_do L (CkScroll i d) w)) = bulk_calls w"
  "bulk_calls (snd (ck_do L (CkClearScroll i) w)) = bulk_calls w" "bulk_calls (snd (next_countScroll w)) = bulk_calls w"
  by (simp_all add: bulk_calls_def ck_do_def next_countScroll_def)

text \<open>Whoever reads pages relies on this: beside what the handler of the pages does, a scroll only reads.\<close>

locale page_scroll =
  fixes scroll :: "string \<Rightarrow> bytes \<Rightarrow> (bytes \<Rightarrow> ('s, unit) io) \<Rightarrow> ('s, unit) io"
    and only_reads :: "'s \<Rightarrow> 's \<Rightarrow> bool"
  assumes scroll_keeps: "(\<And>s t. only_reads s t \<Longrightarrow> I s \<Longrightarrow> I t) \<Longrightarrow> (\<And>b. keeps I (handler b) (\<lambda>_. True)) \<Longrightarrow>
    keeps I (scroll index body handler) (\<lambda>_. True)"
begin

lemma scroll_observed:
  assumes "\<And>s t. only_reads s t \<Longrightarrow> f t = f s" "\<And>b s. f (snd (handler b s)) = f s"
  shows "f (snd (scroll index body handler s)) = f s"
proof -
  have "keeps (\<lambda>t. f t = f s) (scroll index body handler) (\<lambda>_. True)"
    using assms by (intro scroll_keeps) (simp_all add: keeps_def)
  then show ?thesis by (simp add: keeps_def)
qed

text \<open>A property of everything written so far holds afterwards, when every page keeps it.\<close>

lemma scroll_all:
  assumes "\<And>s t. only_reads s t \<Longrightarrow> written t = written s"
    and "\<And>b s. \<exists>new. written (snd (handler b s)) = written s @ new \<and> list_all P new"
  shows "\<exists>new. written (snd (scroll index body handler s)) = written s @ new \<and> list_all P new"
proof -
  let ?I = "\<lambda>t. \<exists>new. written t = written s @ new \<and> list_all P new"
  have "keeps ?I (handler b) (\<lambda>_. True)" for b
    unfolding keeps_def
  proof (intro allI impI conjI TrueI)
    fix t assume "?I t"
    then obtain n where "written t = written s @ n" "list_all P n" by blast
    with assms(2) [of b t] show "?I (snd (handler b t))" by (metis append.assoc list_all_append)
  qed
  then have "keeps ?I (scroll index body handler) (\<lambda>_. True)" using assms(1) by (intro scroll_keeps) simp_all
  then show ?thesis by (simp add: keeps_def)
qed

end

lemma keeps_scroll_pages:
  "keeps I next (\<lambda>_. True) \<Longrightarrow> (\<And>b. keeps I (handler b) (\<lambda>_. True)) \<Longrightarrow> keeps I (scroll_pages n L next handler) (\<lambda>_. True)"
  by (induction n) (auto intro!: keeps_intros)

lemma keeps_with_client:
  assumes "\<And>s t. reads get put s t \<Longrightarrow> I s \<Longrightarrow> I t" "\<And>w. bulk_calls (snd (m w)) = bulk_calls w"
  shows "keeps I (with_client get put m) (\<lambda>_. True)"
proof -
  have "reads get put s (snd (with_client get put m s))" for s
    using assms(2) [of "get s"] by (auto simp: reads_def with_client_def split: prod.split)
  with assms(1) show ?thesis by (auto simp: keeps_def)
qed

lemma getScrollResponse_tool_reads: "bulk_calls (snd (getScrollResponse_tool L i w)) = bulk_calls w"
  by (simp add: getScrollResponse_tool_def io_bind_def next_countScroll_def ck_do_def io_of_def bulk_calls_def split: sum.split)

lemma clearScroll_reads: "bulk_calls (snd (clearScroll_ck L i w)) = bulk_calls w"
  by (simp add: clearScroll_ck_def io_bind_def ck_do_def io_ok_def io_fail_def bulk_calls_def split: sum.split)

lemma keeps_iterateScroll_tool:
  assumes "\<And>s t. reads get put s t \<Longrightarrow> I s \<Longrightarrow> I t" "\<And>b. keeps I (handler b) (\<lambda>_. True)"
  shows "keeps I (iterateScroll_tool n L get put i handler) (\<lambda>_. True)"
proof -
  have "keeps I (scroll_pages n L (with_client get put (getScrollResponse_tool L i)) handler) (\<lambda>_. True)"
    using assms by (intro keeps_scroll_pages keeps_with_client) (simp_all add: getScrollResponse_tool_reads)
  moreover have "keeps I (with_client get put (clearScroll_ck L i)) (\<lambda>_. True)"
    using assms by (intro keeps_with_client) (simp_all add: clearScroll_reads)
  ultimately show ?thesis by (fastforce simp: keeps_def iterateScroll_tool_def split: prod.split)
qed

lemmas scroll_client_intros = keeps_intros keeps_with_client keeps_iterateScroll_tool

interpretation tool_pages: page_scroll "DoScrollRequestAllDocuments_tool n L get put" "reads get put" for n L get put
  by unfold_locales (simp add: DoScrollRequestAllDocuments_tool_def scroll_client_intros)

interpretation bal_pages: page_scroll "DoScrollRequestAllDocuments_bal n L get put" "reads get put" for n L get put
  by unfold_locales (simp add: DoScrollRequestAllDocuments_bal_def scroll_client_intros)

section \<open>A scroll that is served\<close>

text \<open>
  The server answers the first search with the body of page 0 and each scroll request with the body of the next page; page \<open>N\<close> is the
  first one without hits.
\<close>

definition ck_scrolls :: "ck_call list \<Rightarrow> nat" where
  "ck_scrolls h = length (filter (\<lambda>c. case c of CkScroll _ _ \<Rightarrow> True | _ \<Rightarrow> False) h)"

definition serves_pages :: "ck_lib \<Rightarrow> (nat \<Rightarrow> bytes) \<Rightarrow> nat \<Rightarrow> bool" where
  "serves_pages L body N \<longleftrightarrow>
     (\<forall>h i d. \<exists>resp. ck_answer L (h @ [CkScroll i d]) = Inr resp \<and> \<not> ck_IsError L resp \<and> rs_Body resp = Body (body (Suc (ck_scrolls h)))) \<and>
     (\<forall>h i b n x y. \<exists>resp. ck_answer L (h @ [CkSearch i b n x y]) = Inr resp \<and> \<not> ck_IsError L resp \<and> rs_Body resp = Body (body 0)) \<and>
     (\<forall>k<N. 0 < ck_gjson_Int L (body k) ''hits.hits.#'') \<and> ck_gjson_Int L (body N) ''hits.hits.#'' < 1 \<and>
     ck_gjson_String L (body 0) ''_scroll_id'' \<noteq> []"

text \<open>A handler that always succeeds, does not touch the client and adds \<open>out b\<close> to what is observed.\<close>

definition page_handler :: "('s \<Rightarrow> ck_esClient) \<Rightarrow> ('s \<Rightarrow> 'o list) \<Rightarrow> (bytes \<Rightarrow> 'o list) \<Rightarrow> (bytes \<Rightarrow> ('s, unit) io) \<Rightarrow> bool" where
  "page_handler get obs out handler \<longleftrightarrow>
     (\<forall>b s. \<exists>s'. handler b s = (Inr (), s') \<and> get s' = get s \<and> obs s' = obs s @ out b)"

lemma scroll_pages_served:
  assumes serves: "serves_pages L body N"
    and state: "\<And>w s. get (put w s) = w" "\<And>w s. obs (put w s) = obs s"
    and handler: "page_handler get obs out handler"
  shows "ck_scrolls (ck_calls (get s)) = k \<Longrightarrow> k < N \<Longrightarrow> N - k \<le> n \<Longrightarrow>
    \<exists>s'. scroll_pages n L (with_client get put (getScrollResponse_tool L i)) handler s = (Inr (), s') \<and>
      obs s' = obs s @ concat (map (\<lambda>j. out (body j)) [Suc k..<N])"
proof (induction n arbitrary: k s)
  case (Suc n)
  obtain w where next_page: "getScrollResponse_tool L i (get s) = (Inr (body (Suc k)), w)" "ck_scrolls (ck_calls w) = Suc k"
    using serves [unfolded serves_pages_def, THEN conjunct1, rule_format, of "ck_calls (get s)" i
        "scroll_minutes 2 (ck_countScroll (get s) + 1)"] Suc.prems(1)
    by (auto simp: getScrollResponse_tool_def io_bind_def next_countScroll_def ck_do_def io_of_def getBytesFromResponse_ck_def ck_scrolls_def)
  then have read: "with_client get put (getScrollResponse_tool L i) s = (Inr (body (Suc k)), put w s)" by (simp add: with_client_def)
  show ?case
  proof (cases "Suc k < N")
    case False
    with Suc.prems have "N = Suc k" by simp
    with serves have "ck_gjson_Int L (body (Suc k)) ''hits.hits.#'' < 1" by (simp add: serves_pages_def)
    with read \<open>N = Suc k\<close> show ?thesis by (simp add: io_bind_def io_ok_def state)
  next
    case True
    with serves have "0 < ck_gjson_Int L (body (Suc k)) ''hits.hits.#''" by (simp add: serves_pages_def)
    then have hits: "\<not> ck_gjson_Int L (body (Suc k)) ''hits.hits.#'' < 1" by simp
    obtain s1 where s1: "handler (body (Suc k)) (put w s) = (Inr (), s1)" "get s1 = w" "obs s1 = obs s @ out (body (Suc k))"
      using handler [unfolded page_handler_def, rule_format, of "body (Suc k)" "put w s"] by (auto simp: state)
    have "[Suc k..<N] = Suc k # [Suc (Suc k)..<N]" using True by (simp add: upt_conv_Cons)
    with Suc.IH [of s1 "Suc k"] Suc.prems True read next_page hits s1 show ?thesis by (auto simp: io_bind_def)
  qed
qed simp

text \<open>
  Such a server is read to the end: with one iteration per page the scroll ends without an error, and what is observed are the
  pages with hits, each once and in order.
\<close>

lemma scroll_served:
  assumes serves: "serves_pages L body N" and N: "0 < N" "N \<le> n"
    and state: "\<And>w s. get (put w s) = w" "\<And>w s. obs (put w s) = obs s"
    and handler: "page_handler get obs out handler"
    and start: "ck_scrolls (ck_calls (get s)) = 0"
  shows "\<exists>s'. DoScrollRequestAllDocuments_tool n L get put index query handler s = (Inr (), s') \<and>
    obs s' = obs s @ concat (map (\<lambda>j. out (body j)) [0..<N])"
proof -
  let ?d = "Some (scroll_minutes 10 (ck_countScroll (get s) + 1))"
  let ?w = "(get s)\<lparr>ck_countScroll := ck_countScroll (get s) + 1, ck_calls := ck_calls (get s) @ [CkSearch index query 9000 ?d None]\<rparr>"
  obtain resp where resp: "ck_answer L (ck_calls (get s) @ [CkSearch index query 9000 ?d None]) = Inr resp"
    "\<not> ck_IsError L resp" "rs_Body resp = Body (body 0)"
    using serves unfolding serves_pages_def by blast
  let ?s = "put ?w (put ((get s)\<lparr>ck_countScroll := ck_countScroll (get s) + 1\<rparr>) s)"
  obtain s1 where s1: "handler (body 0) ?s = (Inr (), s1)" "get s1 = ?w" "obs s1 = obs s @ out (body 0)"
    using handler [unfolded page_handler_def, rule_format, of "body 0" ?s] by (auto simp: state)
  have "ck_scrolls (ck_calls (get s1)) = 0" using start s1(2) by (simp add: ck_scrolls_def)
  from scroll_pages_served [OF serves state handler this N(1), of n] N(2) obtain s2 where
    "scroll_pages n L (with_client get put (getScrollResponse_tool L (ck_gjson_String L (body 0) ''_scroll_id''))) handler s1 = (Inr (), s2)"
    "obs s2 = obs s1 @ concat (map (\<lambda>j. out (body j)) [Suc 0..<N])" by auto
  moreover have "obs (snd (with_client get put m t)) = obs t" for m :: "(ck_esClient, unit) io" and t
    by (simp add: with_client_def state split: prod.split)
  moreover have "[0..<N] = 0 # [Suc 0..<N]" using N(1) by (simp add: upt_conv_Cons)
  moreover have "ck_gjson_String L (body 0) ''_scroll_id'' \<noteq> []" using serves by (simp add: serves_pages_def)
  ultimately show ?thesis
    using resp s1 by (simp add: DoScrollRequestAllDocuments_tool_def iterateScroll_tool_def io_bind_def with_client_def [of _ _ next_countScroll]
        with_client_def [of _ _ "ck_do L c" for c] next_countScroll_def ck_do_def state io_of_def getBytesFromResponse_ck_def)
qed

end
