(* ===== verification/Cluster_Checker.thy ===== *)
theory Cluster_Checker
  imports Tools_Client
begin

text \<open>
  The comparison of two clusters (\<^verbatim>\<open>tools/clusters-checker/pkg/checkers\<close>): the documents of an index are read page by page
  from both clusters at once, the documents seen in one cluster only wait in two maps, and what differs is written to the log.
  Each cluster has its own state, so the two goroutines of an iteration do not disturb each other and run here one after
  the other; the lines they log may come in the other order.  The loop has no bound in the code: the model gives it a number
  of iterations, the theorems say when they are enough.
\<close>

section \<open>Equality of documents (utils.go)\<close>

text \<open>
  \<^verbatim>\<open>json.Unmarshal\<close> into an \<^verbatim>\<open>interface{}\<close>: numbers become \<^verbatim>\<open>float64\<close>, a number out of its range is an error; of equal keys the last
  one counts.
\<close>

datatype any_value =
    AnyNil
  | AnyBool bool
  | AnyFloat rat
  | AnyString string
  | AnySlice "any_value list"
  | AnyMap "(string, any_value) gomap"

definition number_value :: "string \<Rightarrow> rat" where
  "number_value t =
     (let neg = starts ''-'' t;
          u = (if neg then tl t else t);
          i = takeWhile is_digit_char u;
          r = dropWhile is_digit_char u;
          f = (if starts ''.'' r then takeWhile is_digit_char (tl r) else []);
          r' = (if starts ''.'' r then dropWhile is_digit_char (tl r) else r);
          e = (case r' of [] \<Rightarrow> 0
               | _ # x \<Rightarrow> if starts ''-'' x then - int (digits_value (tl x))
                          else int (digits_value (if starts ''+'' x then tl x else x)));
          v = of_nat (digits_value (i @ f)) * 10 powi (e - int (length f))
      in if neg then - v else v)"

fun any_of :: "jv \<Rightarrow> any_value option"
  and any_list :: "jv list \<Rightarrow> any_value list option"
  and any_members :: "(string \<times> jv) list \<Rightarrow> (string, any_value) gomap \<Rightarrow> (string, any_value) gomap option" where
  "any_of VNull = Some AnyNil"
| "any_of (VBool b) = Some (AnyBool b)"
| "any_of (VNum t) = (case rnd (number_value t) of Fin x \<Rightarrow> Some (AnyFloat x) | _ \<Rightarrow> None)"
| "any_of (VStr s) = Some (AnyString s)"
| "any_of (VArr vs) = map_option AnySlice (any_list vs)"
| "any_of (VObj kvs) = map_option AnyMap (any_members kvs [])"
| "any_list [] = Some []"
| "any_list (v # vs) = (case any_of v of None \<Rightarrow> None | Some x \<Rightarrow> map_option (Cons x) (any_list vs))"
| "any_members [] m = Some m"
| "any_members ((k, v) # kvs) m = (case any_of v of None \<Rightarrow> None | Some x \<Rightarrow> any_members kvs (gm_set k x m))"

text \<open>\<^verbatim>\<open>reflect.DeepEqual\<close> on such values: slices element by element, maps by their keys.\<close>

fun deepEqual :: "any_value \<Rightarrow> any_value \<Rightarrow> bool"
  and deepEqual_slice :: "any_value list \<Rightarrow> any_value list \<Rightarrow> bool"
  and deepEqual_keys :: "(string, any_value) gomap \<Rightarrow> (string, any_value) gomap \<Rightarrow> bool" where
  "deepEqual AnyNil b = (b = AnyNil)"
| "deepEqual (AnyBool x) b = (b = AnyBool x)"
| "deepEqual (AnyFloat x) b = (b = AnyFloat x)"
| "deepEqual (AnyString x) b = (b = AnyString x)"
| "deepEqual (AnySlice xs) b = (case b of AnySlice ys \<Rightarrow> length xs = length ys \<and> deepEqual_slice xs ys | _ \<Rightarrow> False)"
| "deepEqual (AnyMap m) b = (case b of AnyMap m' \<Rightarrow> length m = length m' \<and> deepEqual_keys m m' | _ \<Rightarrow> False)"
| "deepEqual_slice [] ys = True"
| "deepEqual_slice (x # xs) ys = (case ys of [] \<Rightarrow> False | y # ys' \<Rightarrow> deepEqual x y \<and> deepEqual_slice xs ys')"
| "deepEqual_keys [] m' = True"
| "deepEqual_keys ((k, x) # m) m' = ((case map_of m' k of None \<Rightarrow> False | Some y \<Rightarrow> deepEqual x y) \<and> deepEqual_keys m m')"

text \<open>An absent raw message is the empty text, which is no JSON.\<close>

definition unmarshal_any :: "raw \<Rightarrow> any_value result" where
  "unmarshal_any s = (case s of None \<Rightarrow> Inl ErrUnmarshal | Some v \<Rightarrow> (case any_of v of None \<Rightarrow> Inl ErrUnmarshal | Some x \<Rightarrow> Inr x))"

definition areEqualJSON :: "raw \<Rightarrow> raw \<Rightarrow> bool result" where
  "areEqualJSON s1 s2 = bindr (unmarshal_any s1) (\<lambda>o1. bindr (unmarshal_any s2) (\<lambda>o2. Inr (deepEqual o1 o2)))"

section \<open>Queries (query.go)\<close>

definition getAll :: "bool \<Rightarrow> bytes" where
  "getAll withSource = ''{'' @ json_string ''query'' @ '': {'' @ json_string ''match_all'' @ '': {}},'' @ json_string ''_source'' @ '': '' @ bool_text withSource @ ''}''"

definition encode_object :: "json \<Rightarrow> bytes" where
  "encode_object obj = (case encode_query obj of Inl _ \<Rightarrow> [] | Inr b \<Rightarrow> b)"

definition queryMultipleObj :: "string list \<Rightarrow> bool \<Rightarrow> bytes" where
  "queryMultipleObj ids withSource =
     encode_object (JObj [(''_source'', JBool withSource),
       (''query'', JObj [(''terms'', JObj [(''_id'', JArr (map JStr ids))])])])"

definition getAllSortTimestampASC :: "bool \<Rightarrow> int \<Rightarrow> int \<Rightarrow> bytes" where
  "getAllSortTimestampASC withSource start stop =
     encode_object (JObj [(''_source'', JBool withSource),
       (''query'', JObj [(''range'', JObj [(''timestamp'', JObj [(''gte'', JStr (dec_int start)), (''lte'', JStr (dec_int stop))])])]),
       (''sort'', JArr [JObj [(''timestamp'', JObj [(''order'', JStr ''desc'')])]])])"

section \<open>The checker\<close>

text \<open>The lines of the log, without the prefix of the instance.\<close>

datatype log_line =
    InfoMissing nat nat
  | InfoComparing string nat
  | InfoDone
  | InfoBulk nat nat
  | InfoSameCount string u64 u64
  | InfoMoreInDestination string u64 u64 u64
  | InfoMoreInSource string u64 u64 u64
  | WarnDifferentDocuments string string
  | WarnCannotFindDestination string string
  | WarnCannotFindSource string string
  | WarnCannotFindDocument string string
  | ErrorCannotCompare string string
  | ErrorCannotReadSource string go_error
  | ErrorCannotReadDestination string go_error

text \<open>What the tool is run for: the lines about documents.\<close>

fun is_finding :: "log_line \<Rightarrow> bool" where
  "is_finding (WarnDifferentDocuments _ _) = True"
| "is_finding (WarnCannotFindDestination _ _) = True"
| "is_finding (WarnCannotFindSource _ _) = True"
| "is_finding (WarnCannotFindDocument _ _) = True"
| "is_finding (ErrorCannotCompare _ _) = True"
| "is_finding _ = False"

text \<open>The fields that do not change, and the rest with the state of the two clusters and the log.\<close>

record ('s, 'd, 'h, 'k) clusterChecker =
  clientSource :: "('s, 'h) ESClient"
  clientDestination :: "('d, 'k) ESClient"
  indicesNoTimestamp :: "string list"
  indicesWithTimestamp :: "string list"
  startTimestamp :: int
  stopTimestamp :: int
  logPrefix :: string
  onlyIDs :: bool

record ('s, 'd) checker_state =
  missingFromSource :: "(string, raw) gomap"
  missingFromDestination :: "(string, raw) gomap"
  st_source :: 's
  st_destination :: 'd
  st_log :: "log_line list"

definition log_lines :: "log_line list \<Rightarrow> ('s, 'd) checker_state \<Rightarrow> ('s, 'd) checker_state" where
  "log_lines ls st = st\<lparr>st_log := st_log st @ ls\<rparr>"

definition at_source :: "('s, 'a) io \<Rightarrow> (('s, 'd) checker_state, 'a) io" where
  "at_source m st = (case m (st_source st) of (r, w) \<Rightarrow> (r, st\<lparr>st_source := w\<rparr>))"

definition at_destination :: "('d, 'a) io \<Rightarrow> (('s, 'd) checker_state, 'a) io" where
  "at_destination m st = (case m (st_destination st) of (r, w) \<Rightarrow> (r, st\<lparr>st_destination := w\<rparr>))"

definition convertResponseInMap :: "page \<Rightarrow> (string, raw) gomap \<times> string list" where
  "convertResponseInMap response = (fold (\<lambda>(i, s). gm_set i s) response [], map fst response)"

text \<open>The comparison of two documents found under the same identifier, the same in every loop.\<close>

definition compare_documents :: "string \<Rightarrow> string \<Rightarrow> raw \<Rightarrow> raw \<Rightarrow> log_line list" where
  "compare_documents index i rawDataSource rawDataDestination =
     (case areEqualJSON rawDataSource rawDataDestination of
        Inl _ \<Rightarrow> [ErrorCannotCompare index i]
      | Inr equal \<Rightarrow> if equal then [] else [WarnDifferentDocuments index i])"

definition verdict :: "bool \<Rightarrow> string \<Rightarrow> string \<Rightarrow> raw \<Rightarrow> raw \<Rightarrow> log_line list" where
  "verdict ids index i a b = (if ids then [] else compare_documents index i a b)"

subsection \<open>Indices with a timestamp\<close>

fun compareResults_loop ::
    "bool \<Rightarrow> string \<Rightarrow> (string, raw) gomap \<Rightarrow> (string, raw) gomap \<Rightarrow> ('s, 'd) checker_state \<Rightarrow>
     (string, raw) gomap \<times> ('s, 'd) checker_state" where
  "compareResults_loop ids index [] mapDestination st = (mapDestination, st)"
| "compareResults_loop ids index ((i, rawDataSource) # rest) mapDestination st =
     (case map_of mapDestination i of
        None \<Rightarrow> compareResults_loop ids index rest mapDestination
          (st\<lparr>missingFromSource := gm_set i rawDataSource (missingFromSource st)\<rparr>)
      | Some rawDataDestination \<Rightarrow> compareResults_loop ids index rest (gm_delete i mapDestination)
          (log_lines (verdict ids index i rawDataSource rawDataDestination) st))"

definition compareResults :: "bool \<Rightarrow> string \<Rightarrow> page \<Rightarrow> page \<Rightarrow> ('s, 'd) checker_state \<Rightarrow> ('s, 'd) checker_state" where
  "compareResults ids index respSource respDestination st =
     (case compareResults_loop ids index (fst (convertResponseInMap respSource)) (fst (convertResponseInMap respDestination)) st of
        (mapDestination, st1) \<Rightarrow>
          st1\<lparr>missingFromDestination := fold (\<lambda>(i, r). gm_set i r) mapDestination (missingFromDestination st1)\<rparr>)"

fun checkMaps_loop ::
    "bool \<Rightarrow> string \<Rightarrow> bool \<Rightarrow> (string, raw) gomap \<Rightarrow> ('s, 'd) checker_state \<Rightarrow> ('s, 'd) checker_state" where
  "checkMaps_loop ids index finish [] st = st"
| "checkMaps_loop ids index finish ((i, rawDataSource) # rest) st =
     checkMaps_loop ids index finish rest
       (case map_of (missingFromDestination st) i of
          None \<Rightarrow> log_lines (if finish then [WarnCannotFindDestination index i] else []) st
        | Some rawDataDestination \<Rightarrow>
            log_lines (verdict ids index i rawDataSource rawDataDestination)
              (st\<lparr>missingFromSource := gm_delete i (missingFromSource st),
                  missingFromDestination := gm_delete i (missingFromDestination st)\<rparr>))"

definition checkMaps :: "bool \<Rightarrow> string \<Rightarrow> bool \<Rightarrow> ('s, 'd) checker_state \<Rightarrow> ('s, 'd) checker_state" where
  "checkMaps ids index finish st =
     (let st1 = log_lines [InfoMissing (length (missingFromDestination st)) (length (missingFromDestination st))] st;
          st2 = checkMaps_loop ids index finish (missingFromSource st1) st1 in
      if finish
      then (log_lines (map (WarnCannotFindSource index \<circ> fst) (missingFromDestination st2) @ [InfoDone]) st2)
             \<lparr>missingFromSource := [], missingFromDestination := []\<rparr>
      else st2)"

definition checkAccumulateInterval :: nat where "checkAccumulateInterval = 10"

text \<open>
  One side of an iteration: nothing is read when the side is done; a read error is logged and the reading goes on, with an
  empty scroll identifier.  A panic ends the program.
\<close>

definition read_side ::
    "(string \<Rightarrow> 'w \<Rightarrow> (page \<times> (string \<times> bool) result) \<times> 'w) \<Rightarrow> (go_error \<Rightarrow> log_line) \<Rightarrow>
     bool \<Rightarrow> string \<Rightarrow> 'w \<Rightarrow> (page \<times> string \<times> bool \<times> log_line list) result \<times> 'w" where
  "read_side scroll line done scrollID w =
     (if done then (Inr ([], [], True, []), w)
      else (case scroll scrollID w of
              ((response, Inr (nextScroll, done')), w1) \<Rightarrow> (Inr (response, nextScroll, done', []), w1)
            | ((response, Inl e), w1) \<Rightarrow> (if is_panic e then Inl e else Inr (response, [], False, [line e]), w1)))"

fun continueReading ::
    "nat \<Rightarrow> ('s, 'd, 'h, 'k) clusterChecker \<Rightarrow> string \<Rightarrow> nat \<Rightarrow> bool \<times> string \<Rightarrow> bool \<times> string \<Rightarrow> (('s, 'd) checker_state, unit) io" where
  "continueReading 0 cc index k source destination = io_fail LoopFuelExhausted"
| "continueReading (Suc n) cc index k (doneSource, sourceID) (doneDestination, destinationID) =
     io_bind (at_source (read_side (DoScrollRequestV2 (clientSource cc)) (ErrorCannotReadSource index) doneSource sourceID))
       (\<lambda>(rspFromSource, sourceID', doneSource', ls).
     io_bind (at_destination (read_side (DoScrollRequestV2 (clientDestination cc)) (ErrorCannotReadDestination index) doneDestination destinationID))
       (\<lambda>(rspFromDestination, destinationID', doneDestination', ld) st.
         let st1 = log_lines [InfoComparing index (Suc k)]
                     (compareResults (onlyIDs cc) index rspFromSource rspFromDestination (log_lines (ls @ ld) st));
             st2 = (if Suc k mod checkAccumulateInterval = 0 then checkMaps (onlyIDs cc) index False st1 else st1) in
         if doneSource' \<and> doneDestination' then (Inr (), checkMaps (onlyIDs cc) index True st2)
         else continueReading n cc index (Suc k) (doneSource', sourceID') (doneDestination', destinationID') st2))"

definition compareIndexWithTimestamp :: "nat \<Rightarrow> ('s, 'd, 'h, 'k) clusterChecker \<Rightarrow> string \<Rightarrow> (('s, 'd) checker_state, unit) io" where
  "compareIndexWithTimestamp n cc index =
     (let query = getAllSortTimestampASC (\<not> onlyIDs cc) (startTimestamp cc) (stopTimestamp cc) in
      io_bind (at_source (InitializeScroll (clientSource cc) index query)) (\<lambda>(rspSource, nextScrollIDSource, doneSource).
      io_bind (at_destination (InitializeScroll (clientDestination cc) index query))
        (\<lambda>(rspDestination, nextScrollIDDestination, doneDestination) st.
          let st1 = compareResults (onlyIDs cc) index rspSource rspDestination st in
          if doneSource \<and> doneDestination then (Inr (), st1)
          else continueReading n cc index 0 (False, nextScrollIDSource) (False, nextScrollIDDestination) st1)))"

definition CompareIndicesWithTimestamp :: "nat \<Rightarrow> ('s, 'd, 'h, 'k) clusterChecker \<Rightarrow> (('s, 'd) checker_state, unit) io" where
  "CompareIndicesWithTimestamp n cc = io_each (compareIndexWithTimestamp n cc) (indicesWithTimestamp cc)"

subsection \<open>Indices without a timestamp\<close>

definition compareResultsNo :: "string \<Rightarrow> (string, raw) gomap \<Rightarrow> (string, raw) gomap \<Rightarrow> log_line list" where
  "compareResultsNo index sourceRes destinationRes =
     concat (map (\<lambda>(i, rawDataSource).
       case map_of destinationRes i of None \<Rightarrow> [WarnCannotFindDocument index i]
       | Some rawDataDestination \<Rightarrow> compare_documents index i rawDataSource rawDataDestination) sourceRes)"

text \<open>The handler of the pages counts them; its state is that counter, the destination and the log.\<close>

definition processResponse ::
    "('s, 'd, 'h, 'k) clusterChecker \<Rightarrow> string \<Rightarrow> page \<Rightarrow> (nat \<times> 'd \<times> log_line list, unit) io" where
  "processResponse cc index genericResponse = (\<lambda>(n, w, lg).
     let (mapResponseSource, ids) = convertResponseInMap genericResponse in
     case DoGetRequest (clientDestination cc) index (queryMultipleObj ids True) (int (length ids)) w of
       (Inl e, w1) \<Rightarrow> (Inl e, (n, w1, lg))
     | (Inr response, w1) \<Rightarrow> (Inr (), (n, w1, lg @ compareResultsNo index mapResponseSource (fst (convertResponseInMap response)))))"

definition compareIndex_handler ::
    "('s, 'd, 'h, 'k) clusterChecker \<Rightarrow> string \<Rightarrow> bytes \<Rightarrow> (nat \<times> 'd \<times> log_line list, unit) io" where
  "compareIndex_handler cc index responseBytes = (\<lambda>(n, w, lg).
     case unmarshal_page responseBytes of
       (_, Inl e) \<Rightarrow> (Inl e, (Suc n, w, lg))
     | (genericResponse, Inr _) \<Rightarrow>
         processResponse cc index genericResponse (Suc n, w, lg @ [InfoBulk (length genericResponse) (Suc n)]))"

definition defaultSize :: int where "defaultSize = 9000"
definition sizeRating :: int where "sizeRating = 5000"

definition compareIndex ::
    "('s, 'd, nat \<times> 'd \<times> log_line list, 'k) clusterChecker \<Rightarrow> string \<Rightarrow> (('s, 'd) checker_state, unit) io" where
  "compareIndex cc index st =
     (case DoScrollRequestAllDocuments (clientSource cc) index (getAll True) (compareIndex_handler cc index)
             (if index = ''rating'' then sizeRating else defaultSize) ((0, st_destination st, st_log st), st_source st) of
        (r, (_, d, lg), s) \<Rightarrow> (r, st\<lparr>st_source := s, st_destination := d, st_log := lg\<rparr>))"

definition CompareIndicesNoTimestamp ::
    "('s, 'd, nat \<times> 'd \<times> log_line list, 'k) clusterChecker \<Rightarrow> (('s, 'd) checker_state, unit) io" where
  "CompareIndicesNoTimestamp cc = io_each (compareIndex cc) (indicesNoTimestamp cc)"

subsection \<open>Counts (count.go)\<close>

text \<open>\<^verbatim>\<open>uint64(math.Abs(float64(d)))\<close>\<close>

definition abs_difference :: "int \<Rightarrow> u64" where
  "abs_difference d = (case rnd (of_int \<bar>d\<bar>) of Fin x \<Rightarrow> of_int \<lfloor>x\<rfloor> | _ \<Rightarrow> 0)"

definition compareCount_line :: "string \<Rightarrow> u64 \<Rightarrow> u64 \<Rightarrow> log_line" where
  "compareCount_line index s d =
     (let difference = signed_take_bit 63 (sint s - sint d) in
      if difference = 0 then InfoSameCount index s d
      else if difference < 0 then InfoMoreInDestination index s d (abs_difference difference)
      else InfoMoreInSource index s d (abs_difference difference))"

definition compareCount :: "('s, 'd, 'h, 'k) clusterChecker \<Rightarrow> string \<Rightarrow> (('s, 'd) checker_state, unit) io" where
  "compareCount cc index =
     io_bind (at_source (DoCountRequest_c (clientSource cc) index [])) (\<lambda>countSource.
     io_bind (at_destination (DoCountRequest_c (clientDestination cc) index [])) (\<lambda>countDestination st.
       (Inr (), log_lines [compareCount_line index countSource countDestination] st)))"

definition CompareCounts :: "('s, 'd, 'h, 'k) clusterChecker \<Rightarrow> (('s, 'd) checker_state, unit) io" where
  "CompareCounts cc =
     io_bind (io_each (compareCount cc) (indicesNoTimestamp cc)) (\<lambda>_. io_each (compareCount cc) (indicesWithTimestamp cc))"

section \<open>Construction (factory.go)\<close>

record Interval =
  iv_start :: int
  iv_stop :: int

record cluster_config =
  cfg_URL :: string
  cfg_User :: string
  cfg_Password :: string

record checker_config =
  SourceCluster :: cluster_config
  DestinationCluster :: cluster_config
  BlockchainStartTime :: int
  NumParallelReads :: int
  cfg_IndicesWithTimestamp :: "string list"
  cfg_IndicesNoTimestamp :: "string list"

text \<open>The client of a cluster is made by the parameter \<open>newClient\<close>, which also gives its first state.\<close>

definition CreateClusterChecker ::
    "(cluster_config \<Rightarrow> (('w, 'h) ESClient \<times> 'w) result) \<Rightarrow> checker_config \<Rightarrow> Interval \<Rightarrow> string \<Rightarrow> bool \<Rightarrow>
     (('w, 'w, 'h, 'h) clusterChecker \<times> ('w, 'w) checker_state) result" where
  "CreateClusterChecker newClient cfg interval pref ids =
     (case newClient (SourceCluster cfg) of Inl e \<Rightarrow> Inl (wrap_error ''cannot create source client'' e)
      | Inr (cs, ws) \<Rightarrow>
     (case newClient (DestinationCluster cfg) of Inl e \<Rightarrow> Inl (wrap_error ''cannot create destination client'' e)
      | Inr (cd, wd) \<Rightarrow>
          Inr (\<lparr>clientSource = cs, clientDestination = cd, indicesNoTimestamp = cfg_IndicesNoTimestamp cfg,
                indicesWithTimestamp = cfg_IndicesWithTimestamp cfg, startTimestamp = iv_start interval,
                stopTimestamp = iv_stop interval, logPrefix = pref, onlyIDs = ids\<rparr>,
               \<lparr>missingFromSource = [], missingFromDestination = [], st_source = ws, st_destination = wd, st_log = []\<rparr>)))"

text \<open>Integers of 64 bits, with the wrap-around of Go; its division truncates towards zero.\<close>

abbreviation i64 :: "int \<Rightarrow> int" where "i64 x \<equiv> signed_take_bit 63 x"

definition quot64 :: "int \<Rightarrow> int \<Rightarrow> int" where
  "quot64 a b = (if 0 \<le> a then a div b else - (- a div b))"

definition interval_of :: "int \<Rightarrow> int \<Rightarrow> int \<Rightarrow> int \<Rightarrow> nat \<Rightarrow> Interval" where
  "interval_of startTime endTime step numIntervals idx =
     \<lparr>iv_start = i64 (startTime + int idx * step),
      iv_stop = (if int idx = numIntervals - 1 then endTime else i64 (startTime + (int idx + 1) * step))\<rparr>"

definition computeIntervals :: "int \<Rightarrow> int \<Rightarrow> int \<Rightarrow> Interval list result" where
  "computeIntervals startTime endTime numIntervals =
     (if startTime > endTime then Inl (ExternalError ''blockchain start time is greater than current timestamp'')
      else if numIntervals < 2 then Inr [\<lparr>iv_start = startTime, iv_stop = endTime\<rparr>]
      else (let step = quot64 (i64 (endTime - startTime)) numIntervals in
            Inr (map (interval_of startTime endTime step numIntervals) [0..<nat numIntervals])))"

fun create_checkers ::
    "(cluster_config \<Rightarrow> (('w, 'h) ESClient \<times> 'w) result) \<Rightarrow> checker_config \<Rightarrow> Interval list \<Rightarrow> bool \<Rightarrow> nat list \<Rightarrow>
     (('w, 'w, 'h, 'h) clusterChecker \<times> ('w, 'w) checker_state) list result" where
  "create_checkers newClient cfg intervals ids [] = Inr []"
| "create_checkers newClient cfg intervals ids (idx # rest) =
     bindr (index_r intervals idx) (\<lambda>interval.
     bindr (CreateClusterChecker newClient cfg interval (''instance_'' @ dec_nat idx) ids) (\<lambda>cc.
     bindr (create_checkers newClient cfg intervals ids rest) (\<lambda>ccs. Inr (cc # ccs))))"

text \<open>A negative capacity of the slice is a run-time panic.\<close>

definition CreateMultipleCheckers ::
    "(cluster_config \<Rightarrow> (('w, 'h) ESClient \<times> 'w) result) \<Rightarrow> int \<Rightarrow> checker_config \<Rightarrow> bool \<Rightarrow>
     (('w, 'w, 'h, 'h) clusterChecker \<times> ('w, 'w) checker_state) list result" where
  "CreateMultipleCheckers newClient now cfg ids =
     bindr (computeIntervals (BlockchainStartTime cfg) now (NumParallelReads cfg)) (\<lambda>intervals.
       if NumParallelReads cfg < 0 then Inl PanicIndexOutOfRange
       else create_checkers newClient cfg intervals ids [0..<nat (NumParallelReads cfg)])"

section \<open>The command (cmd/checker/main.go)\<close>

text \<open>
  Given the configuration, the logger and the flags.  The checkers of the intervals run at the same time, each on its own clients and
  state; an error of one of them, or of their construction, is logged and the others go on.
\<close>

datatype 's clusters_end =
    ClustersFailed string go_error
  | ClustersChecked "(unit result \<times> 's) list"
  | NoFlagProvided

definition checkClustersIndexesWithInterval ::
    "nat \<Rightarrow> (cluster_config \<Rightarrow> (('w, 'h) ESClient \<times> 'w) result) \<Rightarrow> int \<Rightarrow> checker_config \<Rightarrow> bool \<Rightarrow> (('w, 'w) checker_state) clusters_end" where
  "checkClustersIndexesWithInterval n newClient now cfg ids =
     (case CreateMultipleCheckers newClient now cfg ids of
        Inl e \<Rightarrow> ClustersFailed ''cannot create cluster checker'' e
      | Inr ccs \<Rightarrow> ClustersChecked (map (\<lambda>(cc, st). CompareIndicesWithTimestamp n cc st) ccs))"

definition run_single ::
    "string \<Rightarrow> (('w, 'w, 'h, 'h) clusterChecker \<Rightarrow> (('w, 'w) checker_state, unit) io) \<Rightarrow>
     (cluster_config \<Rightarrow> (('w, 'h) ESClient \<times> 'w) result) \<Rightarrow> checker_config \<Rightarrow> bool \<Rightarrow> (('w, 'w) checker_state) clusters_end" where
  "run_single what run newClient cfg ids =
     (case CreateClusterChecker newClient cfg \<lparr>iv_start = 0, iv_stop = 0\<rparr> ''instance_0'' ids of
        Inl e \<Rightarrow> ClustersFailed ''cannot create cluster checker'' e
      | Inr (cc, st) \<Rightarrow> (case run cc st of (Inl e, _) \<Rightarrow> ClustersFailed what e | (r, st1) \<Rightarrow> ClustersChecked [(r, st1)]))"

definition checkClusters ::
    "nat \<Rightarrow> (cluster_config \<Rightarrow> (('w, nat \<times> 'w \<times> log_line list) ESClient \<times> 'w) result) \<Rightarrow> int \<Rightarrow> checker_config result \<Rightarrow> unit result \<Rightarrow>
     bool \<Rightarrow> bool \<Rightarrow> bool \<Rightarrow> bool \<Rightarrow> (('w, 'w) checker_state) clusters_end" where
  "checkClusters n newClient now config logger ids counts noTimestamp withTimestamp =
     (case config of Inl e \<Rightarrow> ClustersFailed ''cannot load config file'' e
      | Inr cfg \<Rightarrow>
     (case logger of Inl e \<Rightarrow> ClustersFailed ''cannot initialize logger'' e
      | Inr _ \<Rightarrow>
          if counts then run_single ''cannot check counts'' CompareCounts newClient cfg ids
          else if noTimestamp then run_single ''cannot check indices'' CompareIndicesNoTimestamp newClient cfg ids
          else if withTimestamp then checkClustersIndexesWithInterval n newClient now cfg ids
          else NoFlagProvided))"

section \<open>The reference: the comparison of two lists of documents\<close>

definition source_report :: "bool \<Rightarrow> string \<Rightarrow> page \<Rightarrow> string \<times> raw \<Rightarrow> log_line list" where
  "source_report ids index B d =
     (case map_of B (fst d) of None \<Rightarrow> [WarnCannotFindDestination index (fst d)] | Some b \<Rightarrow> verdict ids index (fst d) (snd d) b)"

definition diff_reports :: "bool \<Rightarrow> string \<Rightarrow> page \<Rightarrow> page \<Rightarrow> log_line list" where
  "diff_reports ids index A B =
     concat (map (source_report ids index B) A) @
     map (WarnCannotFindSource index \<circ> fst) (filter (\<lambda>d. map_of A (fst d) = None) B)"

definition findings :: "('s, 'd) checker_state \<Rightarrow> log_line list" where
  "findings st = filter is_finding (st_log st)"

text \<open>
  What the log will say about documents once the documents \<open>A\<close> and \<open>B\<close> have been read too, if the waiting documents are
  matched in the end; the operations of the loop keep it.
\<close>

definition pending :: "bool \<Rightarrow> string \<Rightarrow> ('s, 'd) checker_state \<Rightarrow> page \<Rightarrow> page \<Rightarrow> log_line multiset" where
  "pending ids index st A B =
     mset (findings st) + mset (diff_reports ids index (missingFromSource st @ A) (missingFromDestination st @ B))"

definition fresh :: "('s, 'd) checker_state \<Rightarrow> page \<Rightarrow> page \<Rightarrow> bool" where
  "fresh st A B \<longleftrightarrow> distinct (map fst (missingFromSource st @ A)) \<and> distinct (map fst (missingFromDestination st @ B))"

lemma gm_delete_filter: "gm_delete i m = filter (\<lambda>(k, _). k \<noteq> i) m"
  by (simp add: gm_delete_def AList.delete_eq case_prod_unfold eq_commute)

lemma gm_delete_append: "gm_delete i (m @ m') = gm_delete i m @ gm_delete i m'"
  by (simp add: gm_delete_filter)

lemma gm_delete_absent: "i \<notin> fst ` set m \<Longrightarrow> gm_delete i m = m"
  by (force simp: gm_delete_filter intro: filter_True)

lemma gm_delete_subset: "set (gm_delete i m) \<subseteq> set m"
  by (auto simp: gm_delete_filter)

lemma gm_set_absent: "i \<notin> fst ` set m \<Longrightarrow> gm_set i v m = m @ [(i, v)]"
  by (induction m) (auto simp: gm_set_def)

lemma fold_gm_set_fresh: "distinct (map fst (m @ xs)) \<Longrightarrow> fold (\<lambda>(i, v). gm_set i v) xs m = m @ xs"
proof (induction xs arbitrary: m)
  case (Cons x xs)
  obtain i v where x: "x = (i, v)" by (cases x)
  with Cons.prems have "i \<notin> fst ` set m" "distinct (map fst ((m @ [x]) @ xs))" by auto
  with Cons.IH [of "m @ [x]"] x show ?case by (simp add: gm_set_absent)
qed simp

lemma distinct_keys_delete: "distinct (map fst m) \<Longrightarrow> distinct (map fst (gm_delete i m))"
  by (simp add: gm_delete_filter distinct_map_filter)

lemma map_of_append_absent: "i \<notin> fst ` set m \<Longrightarrow> map_of (m @ m') i = map_of m' i"
  by (simp add: map_add_def map_of_eq_None_iff [THEN iffD2] split: option.splits)

lemma map_of_append_present: "map_of m i = Some b \<Longrightarrow> map_of (m @ m') i = Some b"
  by (simp add: map_add_def)

lemma log_fields [simp]:
  "missingFromSource (log_lines ls st) = missingFromSource st" "missingFromDestination (log_lines ls st) = missingFromDestination st"
  "st_source (log_lines ls st) = st_source st" "st_destination (log_lines ls st) = st_destination st"
  by (simp_all add: log_lines_def)

lemma findings_simps [simp]:
  "findings (log_lines ls st) = findings st @ filter is_finding ls"
  "findings (st\<lparr>missingFromSource := a\<rparr>) = findings st" "findings (st\<lparr>missingFromDestination := b\<rparr>) = findings st"
  "findings (st\<lparr>st_source := s\<rparr>) = findings st" "findings (st\<lparr>st_destination := d\<rparr>) = findings st"
  by (simp_all add: findings_def log_lines_def)

lemma finding_lines [simp]:
  "filter is_finding (verdict ids x i a b) = verdict ids x i a b"
  "filter is_finding (map (WarnCannotFindSource x \<circ> fst) m) = map (WarnCannotFindSource x \<circ> fst) m"
  by (auto simp: verdict_def compare_documents_def filter_id_conv split: sum.splits)

lemma fresh_log [simp]: "fresh (log_lines ls st) A B = fresh st A B"
  by (simp add: fresh_def)

text \<open>Two documents of the same identifier are compared, whatever else is there.\<close>

lemma diff_reports_cancel:
  assumes A: "distinct (map fst (A1 @ (i, a) # A2))" and B: "distinct (map fst B)" "map_of B i = Some b"
  shows "mset (diff_reports ids x (A1 @ (i, a) # A2) B) =
    mset (verdict ids x i a b) + mset (diff_reports ids x (A1 @ A2) (gm_delete i B))"
proof -
  have other: "map (source_report ids x B) A' = map (source_report ids x (gm_delete i B)) A'" if "i \<notin> fst ` set A'" for A'
    using that by (intro map_cong refl) (auto simp: source_report_def split: option.splits)
  have "i \<notin> fst ` set A1" "i \<notin> fst ` set A2" using A by auto
  then have l: "mset (concat (map (source_report ids x B) (A1 @ (i, a) # A2))) =
      mset (verdict ids x i a b) + mset (concat (map (source_report ids x (gm_delete i B)) (A1 @ A2)))"
    using B(2) by (simp add: other source_report_def [of _ _ _ "(i, a)"])
  have "filter (\<lambda>d. map_of (A1 @ (i, a) # A2) (fst d) = None) B = filter (\<lambda>d. map_of (A1 @ A2) (fst d) = None) (gm_delete i B)"
    by (auto simp: gm_delete_filter map_add_def intro!: filter_cong split: option.splits)
  then show ?thesis unfolding diff_reports_def using l by simp
qed

lemma diff_reports_unmatched:
  assumes "fst ` set A \<inter> fst ` set B = {}"
  shows "diff_reports ids x A B = map (WarnCannotFindDestination x \<circ> fst) A @ map (WarnCannotFindSource x \<circ> fst) B"
proof -
  have none: "map_of B (fst d) = None" if "d \<in> set A" for d using that assms by (force simp: map_of_eq_None_iff)
  have "concat (map (source_report ids x B) A') = map (WarnCannotFindDestination x \<circ> fst) A'" if "set A' \<subseteq> set A" for A'
    using that none by (induction A') (auto simp: source_report_def)
  moreover have "filter (\<lambda>d. map_of A (fst d) = None) B = B"
    using assms by (force simp: filter_id_conv map_of_eq_None_iff)
  ultimately show ?thesis by (simp add: diff_reports_def)
qed

section \<open>The operations of the loop keep what is pending\<close>

lemma compareResults_loop_pending:
  assumes "compareResults_loop ids x P Q st = (Q', st')"
    and "distinct (map fst (missingFromSource st @ P @ R))" "distinct (map fst (missingFromDestination st @ Q @ T))"
  shows "distinct (map fst (missingFromSource st' @ R)) \<and> distinct (map fst (missingFromDestination st @ Q' @ T)) \<and>
    missingFromDestination st' = missingFromDestination st \<and> st_source st' = st_source st \<and> st_destination st' = st_destination st \<and>
    pending ids x st' R (Q' @ T) = pending ids x st (P @ R) (Q @ T)"
  using assms
proof (induction P arbitrary: Q st)
  case Nil
  then show ?case by simp
next
  case (Cons p P)
  obtain i a where p: "p = (i, a)" by (cases p)
  show ?case
  proof (cases "map_of Q i")
    case None
    let ?st = "st\<lparr>missingFromSource := gm_set i a (missingFromSource st)\<rparr>"
    have "i \<notin> fst ` set (missingFromSource st)" using Cons.prems(2) p by auto
    then have m: "missingFromSource ?st = missingFromSource st @ [(i, a)]" by (simp add: gm_set_absent)
    have "compareResults_loop ids x P Q ?st = (Q', st')" using Cons.prems(1) p None by simp
    from Cons.IH [OF this] m Cons.prems p show ?thesis by (clarsimp simp: pending_def)
  next
    case (Some b)
    let ?st = "log_lines (verdict ids x i a b) st"
    have i: "i \<notin> fst ` set (missingFromDestination st)" "i \<notin> fst ` set T"
      using Cons.prems(3) Some by (force dest: map_of_SomeD)+
    have del: "gm_delete i (missingFromDestination st @ Q @ T) = missingFromDestination st @ gm_delete i Q @ T"
      using i by (simp add: gm_delete_append gm_delete_absent)
    have look: "map_of (missingFromDestination st @ Q @ T) i = Some b"
      using Some i by (simp add: map_of_append_absent map_of_append_present del: map_of_append)
    have d: "distinct (map fst (missingFromDestination st @ gm_delete i Q @ T))"
      using distinct_keys_delete [OF Cons.prems(3), of i] del by simp
    have step: "compareResults_loop ids x P (gm_delete i Q) ?st = (Q', st')" using Cons.prems(1) p Some by simp
    have "pending ids x st ((p # P) @ R) (Q @ T) = pending ids x ?st (P @ R) (gm_delete i Q @ T)"
      using diff_reports_cancel [of "missingFromSource st" i a "P @ R" "missingFromDestination st @ Q @ T" b ids x]
        Cons.prems(2,3) p look del by (simp add: pending_def)
    with Cons.IH [OF step] Cons.prems(2) d p show ?thesis by simp
  qed
qed

lemma convertResponseInMap_distinct: "distinct (map fst P) \<Longrightarrow> fst (convertResponseInMap P) = P"
  using fold_gm_set_fresh [of "[]" P] by (simp add: convertResponseInMap_def)

lemma compareResults_pending:
  assumes "fresh st (P @ R) (Q @ T)"
  shows "fresh (compareResults ids x P Q st) R T" "st_source (compareResults ids x P Q st) = st_source st"
    "st_destination (compareResults ids x P Q st) = st_destination st"
    "pending ids x (compareResults ids x P Q st) R T = pending ids x st (P @ R) (Q @ T)"
proof -
  obtain Q' st' where l: "compareResults_loop ids x P Q st = (Q', st')" by (cases "compareResults_loop ids x P Q st")
  have "distinct (map fst P)" "distinct (map fst Q)" using assms by (simp_all add: fresh_def)
  then have c: "compareResults ids x P Q st =
      st'\<lparr>missingFromDestination := fold (\<lambda>(i, r). gm_set i r) Q' (missingFromDestination st')\<rparr>"
    by (simp add: compareResults_def convertResponseInMap_distinct l)
  note k = compareResults_loop_pending [OF l, of R T]
  have k: "distinct (map fst (missingFromSource st' @ R))" "distinct (map fst (missingFromDestination st @ Q' @ T))"
    "missingFromDestination st' = missingFromDestination st" "st_source st' = st_source st" "st_destination st' = st_destination st"
    "pending ids x st' R (Q' @ T) = pending ids x st (P @ R) (Q @ T)"
    using k assms by (simp_all add: fresh_def)
  have "fold (\<lambda>(i, r). gm_set i r) Q' (missingFromDestination st') = missingFromDestination st @ Q'"
    using k by (intro trans [OF fold_gm_set_fresh]) auto
  with c k show "fresh (compareResults ids x P Q st) R T" "st_source (compareResults ids x P Q st) = st_source st"
    "st_destination (compareResults ids x P Q st) = st_destination st"
    "pending ids x (compareResults ids x P Q st) R T = pending ids x st (P @ R) (Q @ T)"
    by (simp_all add: fresh_def pending_def)
qed

text \<open>
  The matching of the waiting documents, over a part \<open>L\<close> of the source map that is still to be visited: what was visited and
  stays is without a partner.
\<close>

lemma checkMaps_loop_pending:
  fixes st :: "('s, 'd) checker_state" and ids finish :: bool and x :: string
  assumes "missingFromSource st = V @ L" "fresh st R T" "fst ` set V \<inter> fst ` set (missingFromDestination st) = {}"
  defines "st' \<equiv> checkMaps_loop ids x finish L st"
  shows "\<exists>U. missingFromSource st' = V @ U \<and> fresh st' R T \<and>
    fst ` set (V @ U) \<inter> fst ` set (missingFromDestination st') = {} \<and>
    st_source st' = st_source st \<and> st_destination st' = st_destination st \<and>
    pending ids x st' R T = pending ids x st R T + mset (if finish then map (WarnCannotFindDestination x \<circ> fst) U else [])"
  using assms(1-3) unfolding st'_def
proof (induction L arbitrary: V st)
  case Nil
  then show ?case by simp
next
  case (Cons p L)
  obtain i a where p: "p = (i, a)" by (cases p)
  show ?case
  proof (cases "map_of (missingFromDestination st) i")
    case None
    let ?st = "log_lines (if finish then [WarnCannotFindDestination x i] else []) st"
    have "fst ` set (V @ [p]) \<inter> fst ` set (missingFromDestination ?st) = {}"
      using Cons.prems(3) None p by (auto simp: map_of_eq_None_iff)
    with Cons.IH [of ?st "V @ [p]"] Cons.prems(1,2) obtain U where
      "missingFromSource (checkMaps_loop ids x finish L ?st) = V @ p # U" "fresh (checkMaps_loop ids x finish L ?st) R T"
      "fst ` set (V @ p # U) \<inter> fst ` set (missingFromDestination (checkMaps_loop ids x finish L ?st)) = {}"
      "st_source (checkMaps_loop ids x finish L ?st) = st_source st" "st_destination (checkMaps_loop ids x finish L ?st) = st_destination st"
      "pending ids x (checkMaps_loop ids x finish L ?st) R T =
         pending ids x ?st R T + mset (if finish then map (WarnCannotFindDestination x \<circ> fst) U else [])"
      by auto
    then show ?thesis using p None by (intro exI [of _ "p # U"]) (simp add: pending_def)
  next
    case (Some b)
    let ?st = "log_lines (verdict ids x i a b) (st\<lparr>missingFromSource := gm_delete i (missingFromSource st),
                  missingFromDestination := gm_delete i (missingFromDestination st)\<rparr>)"
    have dS: "distinct (map fst ((V @ (i, a) # L) @ R))" and dD: "distinct (map fst (missingFromDestination st @ T))"
      using Cons.prems(1,2) p by (simp_all add: fresh_def)
    have iT: "i \<notin> fst ` set T" using dD Some by (force dest: map_of_SomeD)
    have m: "missingFromSource ?st = V @ L"
      using dS Cons.prems(1) p by (auto simp: gm_delete_append gm_delete_absent) (simp add: gm_delete_def)
    have del: "gm_delete i (missingFromDestination st @ T) = gm_delete i (missingFromDestination st) @ T"
      using iT by (simp add: gm_delete_append gm_delete_absent)
    have look: "map_of (missingFromDestination st @ T) i = Some b"
      using Some by (simp add: map_of_append_present)
    have fr: "fresh ?st R T"
      using dS m distinct_keys_delete [OF dD, of i] del by (simp add: fresh_def)
    have dis: "fst ` set V \<inter> fst ` set (missingFromDestination ?st) = {}"
      using Cons.prems(3) gm_delete_subset [of i "missingFromDestination st"] by auto
    have pend: "pending ids x ?st R T = pending ids x st R T"
      using diff_reports_cancel [of V i a "L @ R" "missingFromDestination st @ T" b ids x] dS dD look del m Cons.prems(1) p
      by (simp add: pending_def)
    from Cons.IH [OF m fr dis] pend Some p show ?thesis by simp
  qed
qed

lemma checkMaps_pending:
  assumes "fresh st R T"
  shows "fresh (checkMaps ids x False st) R T" "st_source (checkMaps ids x False st) = st_source st"
    "st_destination (checkMaps ids x False st) = st_destination st"
    "pending ids x (checkMaps ids x False st) R T = pending ids x st R T"
proof -
  let ?st = "log_lines [InfoMissing (length (missingFromDestination st)) (length (missingFromDestination st))] st"
  have "fresh ?st R T" "pending ids x ?st R T = pending ids x st R T" using assms by (simp_all add: fresh_def pending_def)
  with checkMaps_loop_pending [of ?st "[]" "missingFromSource st" R T ids x False]
  show "fresh (checkMaps ids x False st) R T" "st_source (checkMaps ids x False st) = st_source st"
    "st_destination (checkMaps ids x False st) = st_destination st"
    "pending ids x (checkMaps ids x False st) R T = pending ids x st R T"
    by (auto simp: checkMaps_def Let_def)
qed

lemma checkMaps_finish:
  assumes "fresh st [] []"
  shows "missingFromSource (checkMaps ids x True st) = [] \<and> missingFromDestination (checkMaps ids x True st) = [] \<and>
    mset (findings (checkMaps ids x True st)) = pending ids x st [] []"
proof -
  let ?st = "log_lines [InfoMissing (length (missingFromDestination st)) (length (missingFromDestination st))] st"
  let ?st' = "checkMaps_loop ids x True (missingFromSource st) ?st"
  have "fresh ?st [] []" "pending ids x ?st [] [] = pending ids x st [] []" using assms by (simp_all add: fresh_def pending_def)
  with checkMaps_loop_pending [of ?st "[]" "missingFromSource st" "[]" "[]" ids x True]
  have U: "fst ` set (missingFromSource ?st') \<inter> fst ` set (missingFromDestination ?st') = {}"
    "pending ids x ?st' [] [] = pending ids x st [] [] + mset (map (WarnCannotFindDestination x \<circ> fst) (missingFromSource ?st'))"
    by auto
  then have "mset (findings ?st') + mset (map (WarnCannotFindSource x \<circ> fst) (missingFromDestination ?st')) = pending ids x st [] []"
    using diff_reports_unmatched [OF U(1), of ids x] by (simp add: pending_def)
  then show ?thesis by (simp add: checkMaps_def Let_def)
qed

section \<open>The comparison of an index\<close>

text \<open>The client delivers the given pages, each scroll one of them, and then says that it is done.\<close>

primrec serves :: "(string \<Rightarrow> 'w \<Rightarrow> (page \<times> (string \<times> bool) result) \<times> 'w) \<Rightarrow> page list \<Rightarrow> string \<Rightarrow> 'w \<Rightarrow> bool" where
  "serves scroll [] i w = (case scroll i w of ((p, Inr (_, done)), _) \<Rightarrow> p = [] \<and> done | _ \<Rightarrow> False)"
| "serves scroll (p # ps) i w =
     (case scroll i w of ((q, Inr (j, done)), w') \<Rightarrow> q = p \<and> \<not> done \<and> serves scroll ps j w' | _ \<Rightarrow> False)"

text \<open>
  The client of the tool does so, when the server answers the scroll requests with one page after the other: page \<open>N\<close> is the first
  empty one, and \<^verbatim>\<open>gjson\<close> counts the hits of a body.
\<close>

lemma cluster_client_serves:
  assumes answer: "\<And>h i d. ck_answer L (h @ [CkScroll i d]) = Inr (resp (ck_scrolls h))"
    and resp: "\<And>k. \<not> ck_IsError L (resp k)" "\<And>k. rs_Body (resp k) = Body (body k)"
    and body: "\<And>k. unmarshal_page (body k) = (pages k, Inr ())"
    and gjson: "\<And>k. ck_gjson_Int L (body k) ''hits.hits.#'' = int (length (pages k))"
    and hits: "\<And>k. k < N \<Longrightarrow> pages k \<noteq> []" "pages N = []"
  shows "k \<le> N \<Longrightarrow> ck_scrolls (ck_calls w) = k \<Longrightarrow> serves (DoScrollRequestV2_ck L) (map pages [k..<N]) i w"
proof (induction "N - k" arbitrary: k w i)
  case 0
  with hits(2) show ?case
    by (simp add: DoScrollRequestV2_ck_def io_bind_def updateAndGetCountScroll_def ck_do_def io_of_def Let_def answer
        getBytesFromResponse_ck_def resp body page_done_def gjson)
next
  case (Suc m)
  then have k: "k < N" "[k..<N] = k # [Suc k..<N]" by (simp_all add: upt_conv_Cons)
  obtain j w' where s: "DoScrollRequestV2_ck L i w = ((pages k, Inr (j, False)), w')" "ck_scrolls (ck_calls w') = Suc k"
    using Suc.prems k(1) hits(1) [of k]
    by (simp add: DoScrollRequestV2_ck_def io_bind_def updateAndGetCountScroll_def ck_do_def io_of_def Let_def answer
        getBytesFromResponse_ck_def resp body page_done_def gjson clear_if_done_def ck_scrolls_def)
  with Suc k show ?case by simp
qed

text \<open>One side of the loop: what it still delivers, and the iterations it still needs.\<close>

definition side_ok :: "(string \<Rightarrow> 'w \<Rightarrow> (page \<times> (string \<times> bool) result) \<times> 'w) \<Rightarrow> bool \<times> string \<Rightarrow> 'w \<Rightarrow> page list \<Rightarrow> bool" where
  "side_ok scroll side w ps \<longleftrightarrow> (if fst side then ps = [] else serves scroll ps (snd side) w)"

definition side_steps :: "bool \<times> string \<Rightarrow> page list \<Rightarrow> nat" where
  "side_steps side ps = (if fst side then 0 else Suc (length ps))"

lemma read_side_step:
  assumes "side_ok scroll side w ps"
  obtains p j w' where "read_side scroll line (fst side) (snd side) w = (Inr (p, j, ps = [], []), w')"
    and "side_ok scroll (ps = [], j) w' (tl ps)" "p @ concat (tl ps) = concat ps"
    "side_steps (ps = [], j) (tl ps) \<le> side_steps side ps - 1"
proof (cases "fst side")
  case True
  with assms that [of "[]" "[]" w] show ?thesis by (simp add: side_ok_def read_side_def side_steps_def)
next
  case False
  obtain q r w' where s: "scroll (snd side) w = ((q, r), w')" by (metis prod.collapse)
  show ?thesis
  proof (cases ps)
    case Nil
    with False assms s that [of q "fst (projr r)" w'] show ?thesis
      by (auto simp: side_ok_def read_side_def side_steps_def split: sum.splits)
  next
    case (Cons p ps')
    with False assms s that [of q "fst (projr r)" w'] show ?thesis
      by (auto simp: side_ok_def read_side_def side_steps_def split: sum.splits)
  qed
qed

lemma continueReading_complete:
  assumes "side_ok (DoScrollRequestV2 (clientSource cc)) source (st_source st) ps"
    and "side_ok (DoScrollRequestV2 (clientDestination cc)) destination (st_destination st) qs"
    and "fresh st (concat ps) (concat qs)"
    and "side_steps source ps \<le> n" "side_steps destination qs \<le> n" "0 < n"
  shows "\<exists>st'. continueReading n cc x k source destination st = (Inr (), st') \<and>
    missingFromSource st' = [] \<and> missingFromDestination st' = [] \<and>
    mset (findings st') = pending (onlyIDs cc) x st (concat ps) (concat qs)"
  using assms
proof (induction n arbitrary: k source destination st ps qs)
  case (Suc n)
  obtain p j w where p: "read_side (DoScrollRequestV2 (clientSource cc)) (ErrorCannotReadSource x) (fst source) (snd source) (st_source st) =
      (Inr (p, j, ps = [], []), w)"
    and ps: "side_ok (DoScrollRequestV2 (clientSource cc)) (ps = [], j) w (tl ps)" "p @ concat (tl ps) = concat ps"
    "side_steps (ps = [], j) (tl ps) \<le> side_steps source ps - 1"
    using read_side_step [OF Suc.prems(1)] by blast
  obtain q l v where q: "read_side (DoScrollRequestV2 (clientDestination cc)) (ErrorCannotReadDestination x) (fst destination) (snd destination)
        (st_destination st) = (Inr (q, l, qs = [], []), v)"
    and qs: "side_ok (DoScrollRequestV2 (clientDestination cc)) (qs = [], l) v (tl qs)" "q @ concat (tl qs) = concat qs"
    "side_steps (qs = [], l) (tl qs) \<le> side_steps destination qs - 1"
    using read_side_step [OF Suc.prems(2)] by blast
  let ?ids = "onlyIDs cc" and ?st = "st\<lparr>st_source := w, st_destination := v\<rparr>"
  define st1 where "st1 = log_lines [InfoComparing x (Suc k)] (compareResults ?ids x p q (log_lines [] ?st))"
  define st2 where "st2 = (if Suc k mod checkAccumulateInterval = 0 then checkMaps ?ids x False st1 else st1)"
  have step: "continueReading (Suc n) cc x k source destination st =
    (if ps = [] \<and> qs = [] then (Inr (), checkMaps ?ids x True st2) else continueReading n cc x (Suc k) (ps = [], j) (qs = [], l) st2)"
    using p q by (cases source; cases destination)
      (simp add: io_bind_def at_source_def at_destination_def Let_def st1_def st2_def)
  have "fresh (log_lines [] ?st) (p @ concat (tl ps)) (q @ concat (tl qs))" using Suc.prems(3) ps qs by (simp add: fresh_def)
  note c = compareResults_pending [OF this, of ?ids x]
  have "pending ?ids x (log_lines [] ?st) (p @ concat (tl ps)) (q @ concat (tl qs)) = pending ?ids x st (concat ps) (concat qs)"
    by (simp add: pending_def ps qs)
  with c have st1: "fresh st1 (concat (tl ps)) (concat (tl qs))" "st_source st1 = w" "st_destination st1 = v"
    "pending ?ids x st1 (concat (tl ps)) (concat (tl qs)) = pending ?ids x st (concat ps) (concat qs)"
    by (simp_all add: st1_def pending_def)
  with checkMaps_pending [OF st1(1), of ?ids x]
  have st2: "fresh st2 (concat (tl ps)) (concat (tl qs))" "st_source st2 = w" "st_destination st2 = v"
    "pending ?ids x st2 (concat (tl ps)) (concat (tl qs)) = pending ?ids x st (concat ps) (concat qs)"
    by (simp_all add: st2_def)
  show ?case
  proof (cases "ps = [] \<and> qs = []")
    case True
    with checkMaps_finish [of st2 ?ids x] st2 show ?thesis by (simp add: step)
  next
    case False
    then have "0 < n" "side_steps (ps = [], j) (tl ps) \<le> n" "side_steps (qs = [], l) (tl qs) \<le> n"
      using Suc.prems ps(3) qs(3) by (auto simp: side_steps_def side_ok_def split: if_splits) (cases ps; cases qs; auto)+
    with Suc.IH [of "(ps = [], j)" st2 "tl ps" "(qs = [], l)" "tl qs" "Suc k"] ps qs st2 show ?thesis
      by (simp only: step if_not_P [OF False])
  qed
qed simp


text \<open>Both clusters without documents in the interval: nothing is logged.\<close>

lemma compareIndexWithTimestamp_empty:
  assumes "query = getAllSortTimestampASC (\<not> onlyIDs cc) (startTimestamp cc) (stopTimestamp cc)"
    and "InitializeScroll (clientSource cc) x query (st_source st) = (Inr ([], i, True), w)"
    and "InitializeScroll (clientDestination cc) x query (st_destination st) = (Inr ([], j, True), v)"
  shows "compareIndexWithTimestamp n cc x st = (Inr (), st\<lparr>st_source := w, st_destination := v\<rparr>)"
  using assms by (simp add: compareIndexWithTimestamp_def io_bind_def at_source_def at_destination_def Let_def
      compareResults_def convertResponseInMap_def)

section \<open>The loop may not end\<close>

lemma continueReading_hangs:
  assumes err: "\<And>i w. \<exists>e w'. DoScrollRequestV2 (clientSource cc) i w = (([], Inl e), w') \<and> \<not> is_panic e"
    and run: "\<And>i w e. snd (fst (DoScrollRequestV2 (clientDestination cc) i w)) = Inl e \<Longrightarrow> \<not> is_panic e"
  shows "fst (continueReading n cc x k (False, i) destination st) = Inl LoopFuelExhausted"
proof (induction n arbitrary: k i destination st)
  case 0
  then show ?case by (simp add: io_fail_def)
next
  case (Suc n)
  obtain e w where s: "DoScrollRequestV2 (clientSource cc) i (st_source st) = (([], Inl e), w)" "\<not> is_panic e" using err by blast
  obtain d j where d: "destination = (d, j)" by (cases destination)
  obtain q r v where t: "DoScrollRequestV2 (clientDestination cc) j (st_destination st) = ((q, r), v)" by (metis prod.collapse)
  with run [of j "st_destination st"] have "\<not> is_panic e'" if "r = Inl e'" for e' using that by simp
  with s t d Suc show ?case
    by (cases d; cases r) (auto simp: io_bind_def at_source_def at_destination_def read_side_def Let_def)
qed

text \<open>
  An index that is empty in the source and not in the destination is never finished: the scroll of the source was
  cleared with its first page, every later read of it is an error, and the loop reads again after each error.
\<close>

theorem compareIndexWithTimestamp_hangs:
  assumes "query = getAllSortTimestampASC (\<not> onlyIDs cc) (startTimestamp cc) (stopTimestamp cc)"
    and "InitializeScroll (clientSource cc) x query (st_source st) = (Inr ([], i, True), w)"
    and "InitializeScroll (clientDestination cc) x query (st_destination st) = (Inr (q, j, False), v)"
    and "\<And>i w. \<exists>e w'. DoScrollRequestV2 (clientSource cc) i w = (([], Inl e), w') \<and> \<not> is_panic e"
    and "\<And>i w e. snd (fst (DoScrollRequestV2 (clientDestination cc) i w)) = Inl e \<Longrightarrow> \<not> is_panic e"
  shows "fst (compareIndexWithTimestamp n cc x st) = Inl LoopFuelExhausted"
  using assms(1-3) continueReading_hangs [OF assms(4,5)]
  by (simp add: compareIndexWithTimestamp_def io_bind_def at_source_def at_destination_def Let_def)

section \<open>Equality of documents\<close>

lemma deepEqual_slice_refl: "(\<And>x. x \<in> set xs \<Longrightarrow> deepEqual x x) \<Longrightarrow> deepEqual_slice xs xs"
  by (induction xs) auto

lemma deepEqual_keys_refl:
  "gm_wf m' \<Longrightarrow> set m \<subseteq> set m' \<Longrightarrow> \<forall>k x. (k, x) \<in> set m \<longrightarrow> deepEqual x x \<Longrightarrow> deepEqual_keys m m'"
  by (induction m) (auto simp: gm_wf_map_of_iff)

lemma any_refl:
  "any_of v = Some g \<Longrightarrow> deepEqual g g"
  "any_list vs = Some gs \<Longrightarrow> x \<in> set gs \<Longrightarrow> deepEqual x x"
  "any_members kvs m = Some m' \<Longrightarrow> gm_wf m \<Longrightarrow> (\<And>k x. (k, x) \<in> set m \<Longrightarrow> deepEqual x x) \<Longrightarrow>
    gm_wf m' \<and> (\<forall>k x. (k, x) \<in> set m' \<longrightarrow> deepEqual x x)"
proof (induction v and vs and kvs m arbitrary: g and gs x and m' rule: any_of_any_list_any_members.induct)
  case (5 vs)
  then obtain zs where zs: "any_list vs = Some zs" "g = AnySlice zs" by auto
  with 5 have "deepEqual_slice zs zs" by (intro deepEqual_slice_refl) simp
  with zs show ?case by simp
next
  case (6 kvs)
  then obtain m where m: "any_members kvs [] = Some m" "g = AnyMap m" by auto
  with 6 have "deepEqual_keys m m" by (intro deepEqual_keys_refl) simp_all
  with m show ?case by simp
next
  case (10 k v kvs m)
  then obtain y where y: "any_of v = Some y" "any_members kvs (gm_set k y m) = Some m'" by (auto split: option.splits)
  have "deepEqual y y" using 10(1) y(1) by simp
  moreover have "l = k \<and> z = y \<or> (l, z) \<in> set m" if "(l, z) \<in> set (gm_set k y m)" for l z
    using that gm_wf_map_of_iff [OF gm_wf_set [OF 10(4)], of l z k y] gm_wf_map_of_iff [OF 10(4), of l z]
    by (simp split: if_splits)
  ultimately have "deepEqual z z" if "(l, z) \<in> set (gm_set k y m)" for l z using that 10(5) by blast
  with 10(2) [OF y gm_wf_set [OF 10(4)]] show ?case by blast
qed (auto split: f64.splits option.splits)

lemma areEqualJSON_refl: "areEqualJSON s s = Inr b \<Longrightarrow> b"
  by (auto simp: areEqualJSON_def bindr_Inr_iff unmarshal_any_def any_refl(1) split: option.splits)

text \<open>A cluster and a copy of it: the only documents reported are those that cannot be read.\<close>

lemma source_report_same:
  assumes "distinct (map fst A)" "d \<in> set A"
  shows "source_report ids x A d = (if ids \<or> areEqualJSON (snd d) (snd d) = Inr True then [] else [ErrorCannotCompare x (fst d)])"
proof -
  have "map_of A (fst d) = Some (snd d)" using assms by (cases d) simp
  then show ?thesis
    using areEqualJSON_refl [of "snd d"]
    by (cases "areEqualJSON (snd d) (snd d)") (auto simp: source_report_def verdict_def compare_documents_def)
qed

lemma diff_reports_same:
  assumes "distinct (map fst A)"
  shows "diff_reports ids x A A =
    map (ErrorCannotCompare x \<circ> fst) (filter (\<lambda>d. \<not> ids \<and> areEqualJSON (snd d) (snd d) \<noteq> Inr True) A)"
proof -
  have "concat (map (source_report ids x A) A') =
      map (ErrorCannotCompare x \<circ> fst) (filter (\<lambda>d. \<not> ids \<and> areEqualJSON (snd d) (snd d) \<noteq> Inr True) A')" if "set A' \<subseteq> set A" for A'
    using that by (induction A') (auto simp: source_report_same [OF assms])
  moreover have "filter (\<lambda>d. map_of A (fst d) = None) A = []" by (force simp: filter_empty_conv map_of_eq_None_iff)
  ultimately show ?thesis by (simp add: diff_reports_def)
qed

section \<open>Intervals\<close>

lemma i64_id: "- (2 ^ 63) \<le> x \<Longrightarrow> x < 2 ^ 63 \<Longrightarrow> i64 x = x"
  by (rule signed_take_bit_int_eq_self) auto

text \<open>The bounds between the intervals; the first is the start, the last the end.\<close>

definition interval_bound :: "int \<Rightarrow> int \<Rightarrow> int \<Rightarrow> nat \<Rightarrow> int" where
  "interval_bound s e n k = (if int k = n then e else s + int k * ((e - s) div n))"

lemma interval_bound_step:
  assumes "s \<le> e" "2 \<le> n" "int k < n"
  shows "s \<le> interval_bound s e n k" "interval_bound s e n k \<le> interval_bound s e n (Suc k)" "interval_bound s e n (Suc k) \<le> e"
proof -
  let ?d = "(e - s) div n"
  have d: "0 \<le> ?d" "n * ?d \<le> e - s" using assms by (simp_all add: pos_imp_zdiv_nonneg_iff minus_mod_eq_mult_div [symmetric])
  have m: "int j * ?d \<le> e - s" if "int j \<le> n" for j
    using mult_right_mono [OF that d(1)] d(2) by linarith
  show "s \<le> interval_bound s e n k" "interval_bound s e n k \<le> interval_bound s e n (Suc k)" "interval_bound s e n (Suc k) \<le> e"
    using assms d(1) m [of k] m [of "Suc k"] by (auto simp: interval_bound_def algebra_simps)
qed

text \<open>
  The intervals of the parallel readers: as many as asked for and at least one, each from one bound to the next, in order from the
  start time to the end time, so that every moment of the time between lies in one of them.
\<close>

theorem computeIntervals_cover:
  assumes "s \<le> e" "0 \<le> s" "e < 2 ^ 63" "2 \<le> n"
  shows "computeIntervals s e n =
      Inr (map (\<lambda>k. \<lparr>iv_start = interval_bound s e n k, iv_stop = interval_bound s e n (Suc k)\<rparr>) [0..<nat n])"
    and "interval_bound s e n 0 = s" "interval_bound s e n (nat n) = e"
    and "\<And>t. s \<le> t \<Longrightarrow> t \<le> e \<Longrightarrow> \<exists>k<nat n. interval_bound s e n k \<le> t \<and> t \<le> interval_bound s e n (Suc k)"
proof -
  show b: "interval_bound s e n 0 = s" "interval_bound s e n (nat n) = e" using assms by (simp_all add: interval_bound_def)
  have q: "quot64 (i64 (e - s)) n = (e - s) div n"
    using assms by (subst i64_id) (simp_all add: quot64_def)
  have iv: "interval_of s e ((e - s) div n) n k = \<lparr>iv_start = interval_bound s e n k, iv_stop = interval_bound s e n (Suc k)\<rparr>"
    if "k < nat n" for k
  proof -
    have k: "int k < n" using that assms by linarith
    note st = interval_bound_step [OF assms(1,4) k]
    have "interval_bound s e n k = s + int k * ((e - s) div n)" using k by (simp add: interval_bound_def)
    moreover have "int k = n - 1 \<or> interval_bound s e n (Suc k) = s + (int k + 1) * ((e - s) div n)"
      by (auto simp: interval_bound_def algebra_simps)
    moreover have "int k = n - 1 \<Longrightarrow> interval_bound s e n (Suc k) = e" by (simp add: interval_bound_def)
    ultimately show ?thesis using st assms by (auto simp: interval_of_def i64_id)
  qed
  show "computeIntervals s e n =
      Inr (map (\<lambda>k. \<lparr>iv_start = interval_bound s e n k, iv_stop = interval_bound s e n (Suc k)\<rparr>) [0..<nat n])"
    using assms iv by (simp add: computeIntervals_def q)
  fix t assume t: "s \<le> t" "t \<le> e"
  define j where "j = (LEAST j. t \<le> interval_bound s e n (Suc j))"
  have ex: "t \<le> interval_bound s e n (Suc (nat n - 1))" using t b(2) assms by simp
  have j: "t \<le> interval_bound s e n (Suc j)" unfolding j_def using ex by (rule LeastI)
  have "j \<le> nat n - 1" unfolding j_def using ex by (rule Least_le)
  moreover have "interval_bound s e n j \<le> t"
  proof (cases j)
    case 0
    with t b show ?thesis by simp
  next
    case (Suc i)
    then have "\<not> t \<le> interval_bound s e n (Suc i)" unfolding j_def by (metis lessI not_less_Least)
    with Suc show ?thesis by simp
  qed
  ultimately show "\<exists>k<nat n. interval_bound s e n k \<le> t \<and> t \<le> interval_bound s e n (Suc k)"
    using j assms by (intro exI [of _ j]) auto
qed

text \<open>The interval of every reader exists: no index is out of range.\<close>

lemma create_checkers_length:
  "list_all (\<lambda>k. k < length ivs) ks \<Longrightarrow> (\<And>c. \<exists>x. newClient c = Inr x) \<Longrightarrow>
    \<exists>ccs. create_checkers newClient cfg ivs ids ks = Inr ccs \<and> length ccs = length ks"
proof (induction ks)
  case (Cons k ks)
  obtain cs where "newClient (SourceCluster cfg) = Inr cs" using Cons.prems(2) by blast
  moreover obtain cd where "newClient (DestinationCluster cfg) = Inr cd" using Cons.prems(2) by blast
  moreover obtain ccs where "create_checkers newClient cfg ivs ids ks = Inr ccs" "length ccs = length ks"
    using Cons by auto
  ultimately show ?case using Cons.prems(1)
    by (cases cs; cases cd) (auto simp: index_r_def CreateClusterChecker_def)
qed simp

theorem CreateMultipleCheckers_ok:
  assumes "BlockchainStartTime cfg \<le> now" "0 \<le> NumParallelReads cfg" "\<And>c. \<exists>x. newClient c = Inr x"
  shows "\<exists>ccs. CreateMultipleCheckers newClient now cfg ids = Inr ccs \<and> length ccs = nat (NumParallelReads cfg)"
proof -
  obtain ivs where "computeIntervals (BlockchainStartTime cfg) now (NumParallelReads cfg) = Inr ivs" "nat (NumParallelReads cfg) \<le> length ivs"
    using assms(1) by (cases "NumParallelReads cfg < 2") (auto simp: computeIntervals_def Let_def)
  with create_checkers_length [of ivs "[0..<nat (NumParallelReads cfg)]" newClient cfg ids] assms(2,3) show ?thesis
    by (simp add: CreateMultipleCheckers_def list_all_iff)
qed

section \<open>Two small clusters\<close>

text \<open>The text of a page, and a server that answers the calls with one page after the other.\<close>

definition demo_body :: "(string \<times> bool) list \<Rightarrow> bytes" where
  "demo_body docs =
     json_text (JObj [(''hits'', JObj [(''hits'', JArr (map (\<lambda>(i, b). JObj [(''_id'', JStr i), (''_source'', JObj [(''ok'', JBool b)])]) docs))])])"

definition demo_cluster :: "(string \<times> bool) list list \<Rightarrow> ck_lib" where
  "demo_cluster pages =
     \<lparr>ck_answer = (\<lambda>h. Inr \<lparr>rs_StatusCode = 200,
        rs_Body = Body (demo_body (if length h \<le> length pages then pages ! (length h - 1) else []))\<rparr>),
      ck_IsError = (\<lambda>r. rs_StatusCode r > 299), ck_String = (\<lambda>_. []), ck_gjson_Uint = (\<lambda>_ _. 0),
      ck_gjson_Int = (\<lambda>b _. int (length (fst (unmarshal_page b)))), ck_gjson_String = (\<lambda>_ _. ''scroll''), ck_Intn10 = (\<lambda>_. 3)\<rparr>"

definition demo_checker :: "(ck_esClient, ck_esClient, unit, unit) clusterChecker" where
  "demo_checker =
     \<lparr>clientSource = cluster_client 3 (demo_cluster [[(''a'', True), (''b'', True)], [(''c'', True)]]),
      clientDestination = cluster_client 3 (demo_cluster [[(''c'', True)], [(''b'', False)], [(''d'', True)]]),
      indicesNoTimestamp = [], indicesWithTimestamp = [''blocks''], startTimestamp = 0, stopTimestamp = 9, logPrefix = [], onlyIDs = False\<rparr>"

definition demo_client :: ck_esClient where
  "demo_client = \<lparr>ck_calls = [], ck_countScroll = 0, ck_countSearch = 0, ck_draws = 0\<rparr>"

definition demo_state :: "(ck_esClient, ck_esClient) checker_state" where
  "demo_state = \<lparr>missingFromSource = [], missingFromDestination = [], st_source = demo_client, st_destination = demo_client, st_log = []\<rparr>"

lemma eq_pair_snd: "fst z = y \<Longrightarrow> z = (y, snd z)"
  by (cases z) simp

abbreviation demo_doc :: "string \<Rightarrow> bool \<Rightarrow> string \<times> raw" where
  "demo_doc i b \<equiv> (i, Some (VObj [(''ok'', VBool b)]))"


end
