(* ===== verification/Balance_Checker.thy ===== *)
theory Balance_Checker
  imports Tools_Client Serialize_Docs Requests
begin

text \<open>
  The balance checker (\<^verbatim>\<open>tools/accounts-balance-checker/pkg/check\<close>, \<^verbatim>\<open>pkg/rest\<close>): the balances of the accounts in the database are
  compared with those of the gateway, a difference is looked at a second time before it is logged, and repaired when asked to.
  The tool is built against an earlier release of the indexer: the structures it decodes, the conversion of balances and the
  bulk buffer of that release, as well as the address converter, are the parameter \<open>bal_lib\<close>.  Goroutines run one after the
  other, in the order they are started; each works on an address of its own.
\<close>

section \<open>The gateway client (pkg/rest)\<close>

text \<open>
  The answers may depend on all requests before.  A request that fails is tried again ten times; an answer
  with the status 429 or 408 is tried again without a bound, here within the iterations \<open>n\<close>.
\<close>

record rest_lib =
  rest_NewRequest :: "string \<Rightarrow> unit result"
  rest_Do :: "string list \<Rightarrow> es_response result"

definition maxNumOfRetries :: nat where "maxNumOfRetries = 10"

fun rest_try :: "nat \<Rightarrow> rest_lib \<Rightarrow> string \<Rightarrow> nat \<Rightarrow> (string list, es_response) io" where
  "rest_try 0 R url k = io_fail LoopFuelExhausted"
| "rest_try (Suc n) R url k = (\<lambda>sent.
     case rest_Do R (sent @ [url]) of
       Inl e \<Rightarrow> (if k < maxNumOfRetries then rest_try n R url (Suc k) (sent @ [url])
                 else (Inl (wrap_error ''too many retries'' e), sent @ [url]))
     | Inr resp \<Rightarrow> (if rs_StatusCode resp = 429 \<or> rs_StatusCode resp = 408 then rest_try n R url (Suc k) (sent @ [url])
                    else (Inr resp, sent @ [url])))"

definition CallGetRestEndPoint :: "nat \<Rightarrow> rest_lib \<Rightarrow> string \<Rightarrow> string \<Rightarrow> (string list, bytes) io" where
  "CallGetRestEndPoint n R url pathEndpoint =
     io_bind (io_of (rest_NewRequest R (url @ pathEndpoint))) (\<lambda>_.
     io_bind (rest_try n R (url @ pathEndpoint) 0) (\<lambda>resp. io_of (read_all (rs_Body resp))))"

section \<open>Data (data.go, balances.go)\<close>

type_synonym balancesESDT = "(string, (string, string) gomap) gomap"

record bal_account =
  ba_Address :: string
  ba_Balance :: string
  ba_TokenName :: string
  ba_TokenIdentifier :: string

record bal_lib =
  bl_AccountInfo :: "(string \<times> jv) list \<Rightarrow> bal_account option"
  bl_TransactionTimestamp :: "(string \<times> jv) list \<Rightarrow> int option"
  bl_ComputeESDTBalanceAsFloat :: "int option \<Rightarrow> f64"
  bl_ComputeBalanceAsFloat :: "int option \<Rightarrow> f64"
  bl_Buffers :: "bytes \<Rightarrow> bytes \<Rightarrow> bytes list"
  bl_Decode :: "string \<Rightarrow> bytes result"
  bl_IsSmartContractAddress :: "bytes \<Rightarrow> bool"

definition hits_dec :: "((string \<times> jv) list \<Rightarrow> 'a option) \<Rightarrow> (string \<times> jv) list \<Rightarrow> (string \<times> 'a) list option" where
  "hits_dec dec o1 =
     d_struct (\<lambda>o2. d_list (d_struct (\<lambda>o3.
       bindo (d_str (get_field ''_id'' o3)) (\<lambda>i. bindo (d_struct dec (get_field ''_source'' o3)) (\<lambda>s. Some (i, s)))))
       (get_field ''hits'' o2)) (get_field ''hits'' o1)"

definition ResponseAccounts_dec :: "bal_lib \<Rightarrow> (string \<times> jv) list \<Rightarrow> (string \<times> bal_account) list option" where
  "ResponseAccounts_dec L = hits_dec (bl_AccountInfo L)"

definition ResponseTransactions_dec :: "bal_lib \<Rightarrow> (string \<times> jv) list \<Rightarrow> (string \<times> int) list option" where
  "ResponseTransactions_dec L = hits_dec (bl_TransactionTimestamp L)"

record AccountResponse =
  ar_Balance :: string
  ar_Error :: string
  ar_Code :: string

definition AccountResponse_dec :: "(string \<times> jv) list \<Rightarrow> AccountResponse option" where
  "AccountResponse_dec o1 =
     bindo (d_struct (\<lambda>o2. d_str (get_field ''balance'' o2)) (get_field ''data'' o1)) (\<lambda>b.
     bindo (d_str (get_field ''error'' o1)) (\<lambda>e.
     bindo (d_str (get_field ''code'' o1)) (\<lambda>c. Some \<lparr>ar_Balance = b, ar_Error = e, ar_Code = c\<rparr>)))"

record esdtNFTTokenData =
  nft_TokenIdentifier :: string
  nft_Balance :: string
  nft_Properties :: string
  nft_Name :: string
  nft_Nonce :: u64
  nft_Creator :: string
  nft_Royalties :: string
  nft_Hash :: bytes
  nft_URIs :: "bytes list"
  nft_Attributes :: bytes

definition esdtNFTTokenData_dec :: "(string \<times> jv) list \<Rightarrow> esdtNFTTokenData option" where
  "esdtNFTTokenData_dec o1 =
     bindo (d_str (get_field ''tokenIdentifier'' o1)) (\<lambda>i.
     bindo (d_str (get_field ''balance'' o1)) (\<lambda>b.
     bindo (d_str (get_field ''properties'' o1)) (\<lambda>p.
     bindo (d_str (get_field ''name'' o1)) (\<lambda>n.
     bindo (d_uint64 (get_field ''nonce'' o1)) (\<lambda>c.
     bindo (d_str (get_field ''creator'' o1)) (\<lambda>cr.
     bindo (d_str (get_field ''royalties'' o1)) (\<lambda>r.
     bindo (d_bytes (get_field ''hash'' o1)) (\<lambda>h.
     bindo (d_list d_bytes (get_field ''uris'' o1)) (\<lambda>u.
     bindo (d_bytes (get_field ''attributes'' o1)) (\<lambda>a.
       Some \<lparr>nft_TokenIdentifier = i, nft_Balance = b, nft_Properties = p, nft_Name = n, nft_Nonce = c, nft_Creator = cr,
         nft_Royalties = r, nft_Hash = h, nft_URIs = u, nft_Attributes = a\<rparr>))))))))))"

record BalancesESDTResponse =
  br_ESDTS :: "(string, esdtNFTTokenData option) gomap"
  br_TokenData :: "esdtNFTTokenData option"
  br_Error :: string
  br_Code :: string

definition BalancesESDTResponse_dec :: "(string \<times> jv) list \<Rightarrow> BalancesESDTResponse option" where
  "BalancesESDTResponse_dec o1 =
     bindo (d_struct (\<lambda>o2.
       bindo (d_struct (\<lambda>o3. d_entries (d_ptr (d_struct esdtNFTTokenData_dec)) o3 []) (get_field ''esdts'' o2)) (\<lambda>m.
       bindo (d_ptr (d_struct esdtNFTTokenData_dec) (get_field ''tokenData'' o2)) (\<lambda>t. Some (m, t)))) (get_field ''data'' o1)) (\<lambda>(m, t).
     bindo (d_str (get_field ''error'' o1)) (\<lambda>e.
     bindo (d_str (get_field ''code'' o1)) (\<lambda>c. Some \<lparr>br_ESDTS = m, br_TokenData = t, br_Error = e, br_Code = c\<rparr>)))"

definition newBalancesESDT :: balancesESDT where
  "newBalancesESDT = []"

definition add_balance :: "string \<Rightarrow> string \<Rightarrow> string \<Rightarrow> balancesESDT \<Rightarrow> balancesESDT" where
  "add_balance address tokenIdentifier v be =
     gm_set address (gm_set tokenIdentifier v (case map_of be address of None \<Rightarrow> [] | Some m \<Rightarrow> m)) be"

definition extractBalancesFromResponse :: "(string \<times> bal_account) list \<Rightarrow> balancesESDT \<Rightarrow> balancesESDT" where
  "extractBalancesFromResponse hits be =
     fold (\<lambda>(_, a). add_balance (ba_Address a) (if ba_TokenIdentifier a = [] then ba_TokenName a else ba_TokenIdentifier a) (ba_Balance a)) hits be"

definition getBalancesForAddress :: "string \<Rightarrow> balancesESDT \<Rightarrow> (string, string) gomap" where
  "getBalancesForAddress address be = (case map_of be address of None \<Rightarrow> [] | Some m \<Rightarrow> m)"

definition getBalance :: "string \<Rightarrow> string \<Rightarrow> balancesESDT \<Rightarrow> string" where
  "getBalance address tokenIdentifier be = (case map_of (getBalancesForAddress address be) tokenIdentifier of None \<Rightarrow> [] | Some v \<Rightarrow> v)"

section \<open>Queries (query.go)\<close>

definition encodeQuery :: "json \<Rightarrow> bytes result" where
  "encodeQuery query = encode_query query"

definition matchAllQuery :: bytes where
  "matchAllQuery = ''{ \"query\": { \"match_all\": { } } }''"

definition getDocumentsByIDsQuery_bal :: "string list \<Rightarrow> bool \<Rightarrow> json" where
  "getDocumentsByIDsQuery_bal hashes withSource =
     JObj [(''_source'', JBool withSource), (''query'', JObj [(''ids'', JObj [(''values'', JArr (map JStr hashes))])])]"

definition getBalancesByAddress :: "string \<Rightarrow> json" where
  "getBalancesByAddress addr = JObj [(''query'', JObj [(''match'', JObj [(''address'', JStr addr)])])]"

definition tab_line :: "nat \<Rightarrow> string \<Rightarrow> string" where
  "tab_line n s = CHR 0x0A # replicate n (CHR 0x09) @ s"

definition match_clause :: "string \<Rightarrow> string \<Rightarrow> string" where
  "match_clause field v =
     tab_line 4 ''{'' @ tab_line 5 ''\"match\": {'' @ tab_line 6 (''\"'' @ field @ ''\": {'') @ tab_line 7 (''\"query\":\"'' @ v @ ''\",'') @
     tab_line 7 ''\"operator\":\"AND\"'' @ tab_line 6 ''}'' @ tab_line 5 ''}''"

definition sorted_query :: "string \<Rightarrow> string \<Rightarrow> bytes" where
  "sorted_query kind clauses =
     ''{'' @ tab_line 1 ''\"query\": {'' @ tab_line 2 ''\"bool\": {'' @ tab_line 3 (''\"'' @ kind @ ''\": ['') @ clauses @ tab_line 3 '']'' @ tab_line 2 ''}'' @ tab_line 1 ''},'' @
     tab_line 1 ''\"sort\": ['' @ tab_line 2 ''{'' @ tab_line 3 ''\"timestamp\": {'' @ tab_line 4 ''\"order\":\"desc\"'' @ tab_line 3 ''}'' @ tab_line 2 ''}'' @ tab_line 1 '']'' @ tab_line 0 ''}''"

definition queryGetLastTxForToken :: "string \<Rightarrow> string \<Rightarrow> bytes" where
  "queryGetLastTxForToken identifier addr =
     sorted_query ''must'' (match_clause ''tokens'' identifier @ tab_line 4 ''},'' @ match_clause ''sender'' addr @ tab_line 4 ''}'')"

definition queryGetLastOperationForAddress :: "string \<Rightarrow> bytes" where
  "queryGetLastOperationForAddress addr =
     sorted_query ''should'' (match_clause ''sender'' addr @ tab_line 4 ''},'' @ match_clause ''receiver'' addr @ tab_line 4 ''}'')"

section \<open>The checker\<close>

text \<open>The lines of the log; a formatted time is the time itself.\<close>

datatype bal_line =
    CannotGetBalance string go_error
  | SomethingWentWrong string go_error
  | BalanceMismatch string string string int
  | CannotUpdateBalance string string
  | InfoTotalAccounts nat
  | InfoTotalCompared nat
  | CannotDecodeAddress string go_error
  | CannotGetBalancesFromProxy string go_error
  | CannotCompareSecondTime string go_error
  | InfoSecondCompare string nat
  | InfoManyBalances nat string
  | ExtraBalance string string int string
  | CannotRemoveBalance string string go_error
  | DifferentBalance string string string string int string
  | MissingBalance string string string
  | CannotGetLastTime string string go_error
  | InfoReadAccounts nat
  | InfoBulkOfAccounts nat
  | CannotCallEndpoint go_error
  | ErrorFromGateway string
  | InfoDeleted string
  | InfoUpdated string

text \<open>The state: that of the clients, the balances a scroll collects and the counters, the log.\<close>

record 'w bal_state =
  bs_world :: 'w
  bs_balances :: balancesESDT
  bs_countPages :: nat
  bs_countCheck :: nat
  bs_countTotalCompared :: nat
  bs_log :: "bal_line list"

record 'w bal_clients =
  bc_DoScroll :: "string \<Rightarrow> bytes \<Rightarrow> (bytes \<Rightarrow> ('w bal_state, unit) io) \<Rightarrow> ('w bal_state, unit) io"
  bc_DoGet :: "bytes \<Rightarrow> string \<Rightarrow> int \<Rightarrow> ('w, bytes) io"
  bc_DoBulk :: "bytes \<Rightarrow> string \<Rightarrow> ('w, unit) io"
  bc_CallGet :: "string \<Rightarrow> ('w, bytes) io"

record 'w balanceChecker =
  bc_lib :: bal_lib
  bc_clients :: "'w bal_clients"
  maxNumberOfParallelRequests :: int
  doRepair :: bool

definition NewBalanceChecker ::
    "bool \<Rightarrow> bool \<Rightarrow> bool \<Rightarrow> bool \<Rightarrow> bal_lib \<Rightarrow> 'w bal_clients \<Rightarrow> bool \<Rightarrow> int \<Rightarrow> 'w balanceChecker result" where
  "NewBalanceChecker nilEs nilRest nilConverter nilBalance L C repair maxRequests =
     (if nilEs then Inl (ExternalError ''nil elastic client'')
      else if nilRest then Inl (ExternalError ''nil rest client'')
      else if nilConverter then Inl (ExternalError ''nil pub key converter'')
      else if nilBalance then Inl (ExternalError ''nil balance converter'')
      else Inr \<lparr>bc_lib = L, bc_clients = C, maxNumberOfParallelRequests = maxRequests, doRepair = repair\<rparr>)"

definition say :: "bal_line \<Rightarrow> ('w bal_state, unit) io" where
  "say l st = (Inr (), st\<lparr>bs_log := bs_log st @ [l]\<rparr>)"

definition at_world :: "('w, 'a) io \<Rightarrow> ('w bal_state, 'a) io" where
  "at_world m st = (case m (bs_world st) of (r, w) \<Rightarrow> (r, st\<lparr>bs_world := w\<rparr>))"

text \<open>An error that the code looks at and goes on; a panic ends the program, and a loop that does not end does not return.\<close>

definition io_try :: "('w, 'a) io \<Rightarrow> ('w, 'a result) io" where
  "io_try m w = (case m w of
     (Inl e, w') \<Rightarrow> (if is_panic e \<or> e = LoopFuelExhausted then Inl e else Inr (Inl e), w')
   | (Inr x, w') \<Rightarrow> (Inr (Inr x), w'))"

definition on_error :: "('w, 'a) io \<Rightarrow> (go_error \<Rightarrow> ('w, unit) io) \<Rightarrow> ('w, unit) io" where
  "on_error m h = io_bind (io_try m) (\<lambda>r. case r of Inl e \<Rightarrow> h e | Inr _ \<Rightarrow> io_ok ())"

definition DoGetRequest_bal :: "'w balanceChecker \<Rightarrow> ((string \<times> jv) list \<Rightarrow> 'a option) \<Rightarrow> bytes \<Rightarrow> string \<Rightarrow> int \<Rightarrow> ('w bal_state, 'a) io" where
  "DoGetRequest_bal bc dec buff index sz =
     io_bind (at_world (bc_DoGet (bc_clients bc) buff index sz)) (\<lambda>b. io_of (Unmarshal dec b))"

text \<open>The decoder of the gateway client reads the first value of the answer.\<close>

definition rest_call :: "'w balanceChecker \<Rightarrow> ((string \<times> jv) list \<Rightarrow> 'a option) \<Rightarrow> string \<Rightarrow> ('w bal_state, 'a) io" where
  "rest_call bc dec endpoint =
     io_bind (at_world (bc_CallGet (bc_clients bc) endpoint)) (\<lambda>b.
       case json_first b of None \<Rightarrow> io_fail ErrUnmarshal
       | Some (v, _) \<Rightarrow> (case d_struct dec (Some v) of None \<Rightarrow> io_fail ErrUnmarshal | Some x \<Rightarrow> io_ok x))"

subsection \<open>Repair (repair.go)\<close>

definition prepareID :: "string \<Rightarrow> string \<Rightarrow> string" where
  "prepareID addr identifier =
     (if identifier = [] then addr
      else addr @ ''-'' @ identifier @ (if length (split_char (CHR ''-'') identifier) = 2 then ''-00'' else []))"

definition repair_meta :: "string \<Rightarrow> string \<Rightarrow> bytes" where
  "repair_meta index i = ''{ \"update\" : {\"_index\":\"'' @ index @ ''\", \"_id\" : \"'' @ i @ ''\" } }\<newline>''"

definition send_repair :: "'w balanceChecker \<Rightarrow> bytes \<Rightarrow> bytes \<Rightarrow> string \<Rightarrow> ('w bal_state, unit) io" where
  "send_repair bc meta serializedData index =
     io_bind (io_of (index_r (bl_Buffers (bc_lib bc) meta serializedData) 0)) (\<lambda>buff.
       at_world (bc_DoBulk (bc_clients bc) buff index))"

definition delete_script :: "u64 \<Rightarrow> bytes" where
  "delete_script ts =
     (if ts = 0
      then ''{\"scripted_upsert\": true, \"script\": {\"source\": \"if ( ctx.op == '' @ [CHR 0x27] @ ''create'' @ [CHR 0x27] @ '' )  { ctx.op = '' @
           [CHR 0x27] @ ''noop'' @ [CHR 0x27] @ '' } else { ctx.op = '' @ [CHR 0x27] @ ''delete'' @ [CHR 0x27] @
           '' }\",\"lang\": \"painless\"},\"upsert\": {}}''
      else ''{\"scripted_upsert\": true, \"script\": {\"source\": \"if ( ctx.op == '' @ [CHR 0x27] @ ''create'' @ [CHR 0x27] @ '' )  { ctx.op = '' @
           [CHR 0x27] @ ''noop'' @ [CHR 0x27] @ '' } else { if (ctx._source.containsKey('' @ [CHR 0x27] @ ''timestamp'' @ [CHR 0x27] @
           '')) { if (ctx._source.timestamp < params.timestamp ) { ctx.op = '' @ [CHR 0x27] @ ''delete'' @ [CHR 0x27] @
           ''  } } else {  ctx.op = '' @ [CHR 0x27] @ ''delete'' @ [CHR 0x27] @ '' } }\",\"lang\": \"painless\",\"params\": {\"timestamp\": '' @
           dec_nat (unat ts) @ ''}},\"upsert\": {}}'')"

definition deleteExtraBalance :: "'w balanceChecker \<Rightarrow> string \<Rightarrow> string \<Rightarrow> u64 \<Rightarrow> string \<Rightarrow> ('w bal_state, unit) io" where
  "deleteExtraBalance bc addr identifier ts index =
     (if \<not> doRepair bc then io_ok ()
      else let i = prepareID addr identifier in
        io_bind (send_repair bc (repair_meta index i) (delete_script ts) index) (\<lambda>_. say (InfoDeleted i)))"

text \<open>The format \<^verbatim>\<open>%.10f\<close>.\<close>

fun fixed10 :: "f64 \<Rightarrow> string" where
  "fixed10 (Fin x) =
     (let k = round_half_even (\<bar>x\<bar> * 10 ^ 10);
          f = dec_nat (nat (k mod 10 ^ 10)) in
      (if x < 0 then ''-'' else []) @ dec_nat (nat (k div 10 ^ 10)) @ ''.'' @ replicate (10 - length f) (CHR ''0'') @ f)"
| "fixed10 PosInf = ''+Inf''"
| "fixed10 NegInf = ''-Inf''"
| "fixed10 NaN = ''NaN''"

definition fix_script :: "u64 \<Rightarrow> string \<Rightarrow> f64 \<Rightarrow> bytes" where
  "fix_script ts balanceStr balanceFloat =
     ''{\"scripted_upsert\": true, \"script\": {\"source\": \"if (ctx.op == '' @ [CHR 0x27] @ ''create'' @ [CHR 0x27] @ '') { ctx.op = '' @
     [CHR 0x27] @ ''noop'' @ [CHR 0x27] @ ''} else { if (ctx._source.containsKey('' @ [CHR 0x27] @ ''timestamp'' @ [CHR 0x27] @
     '')) { if (ctx._source.timestamp < params.timestamp) {ctx._source.timestamp = params.timestamp;ctx._source.balance = params.balanceStr;ctx._source.balanceNum = params.balanceFloat;}} else {ctx._source.timestamp = params.timestamp; ctx._source.balance = params.balanceStr; ctx._source.balanceNum = params.balanceFloat;}}\",\"lang\": \"painless\",\"params\": {\"timestamp\": '' @
     dec_nat (unat ts) @ '', \"balanceStr\": \"'' @ balanceStr @ ''\", \"balanceFloat\": '' @ fixed10 balanceFloat @ ''}},\"upsert\": {}}''"

definition fixWrongBalance :: "'w balanceChecker \<Rightarrow> string \<Rightarrow> string \<Rightarrow> u64 \<Rightarrow> string \<Rightarrow> string \<Rightarrow> ('w bal_state, unit) io" where
  "fixWrongBalance bc addr identifier ts balanceFromProxy index =
     (if \<not> doRepair bc then io_ok ()
      else let balanceBig = set_string10 balanceFromProxy;
               balanceFloat = (if identifier = [] then bl_ComputeBalanceAsFloat (bc_lib bc) balanceBig
                               else bl_ComputeESDTBalanceAsFloat (bc_lib bc) balanceBig);
               i = prepareID addr identifier in
        io_bind (send_repair bc (repair_meta index i) (fix_script ts balanceFromProxy balanceFloat) index) (\<lambda>_. say (InfoUpdated i)))"

definition accountsIndex :: string where "accountsIndex = ''accounts''"
definition accountsesdtIndex :: string where "accountsesdtIndex = ''accountsesdt''"
definition operationsIndex :: string where "operationsIndex = ''operations''"
definition maxDocumentsFromES :: int where "maxDocumentsFromES = 9999"

definition getLasTimeWhenBalanceWasChanged :: "'w balanceChecker \<Rightarrow> string \<Rightarrow> string \<Rightarrow> ('w bal_state, int \<times> string) io" where
  "getLasTimeWhenBalanceWasChanged bc identifier address =
     (let query = (if identifier = [] then queryGetLastOperationForAddress address else queryGetLastTxForToken identifier address) in
      io_bind (io_try (DoGetRequest_bal bc (ResponseTransactions_dec (bc_lib bc)) query operationsIndex 1)) (\<lambda>r.
        case r of
          Inl e \<Rightarrow> io_bind (say (CannotGetLastTime identifier address e)) (\<lambda>_. io_ok (0, []))
        | Inr [] \<Rightarrow> io_ok (0, [])
        | Inr ((i, ts) # _) \<Rightarrow> io_ok (ts, i)))"

text \<open>The slots for parallel requests: a negative number is a panic; with none, the first request waits for ever.\<close>

definition with_slots :: "'w balanceChecker \<Rightarrow> bool \<Rightarrow> ('w bal_state, 'a) io \<Rightarrow> ('w bal_state, 'a) io" where
  "with_slots bc used m =
     (if maxNumberOfParallelRequests bc < 0 then io_fail PanicIndexOutOfRange
      else if maxNumberOfParallelRequests bc = 0 \<and> used then io_fail LoopFuelExhausted else m)"

subsection \<open>EGLD balances (checker.go)\<close>

definition getAccountBalance :: "'w balanceChecker \<Rightarrow> string \<Rightarrow> ('w bal_state, string) io" where
  "getAccountBalance bc address =
     io_bind (rest_call bc AccountResponse_dec (''/address/'' @ address @ ''/balance'')) (\<lambda>accountResponse.
       if ar_Error accountResponse \<noteq> [] then io_fail (ExternalError (ar_Error accountResponse)) else io_ok (ar_Balance accountResponse))"

definition getBalanceFromES :: "'w balanceChecker \<Rightarrow> string \<Rightarrow> ('w bal_state, string) io" where
  "getBalanceFromES bc address =
     io_bind (DoGetRequest_bal bc (ResponseAccounts_dec (bc_lib bc))
         (case encodeQuery (getDocumentsByIDsQuery_bal [address] True) of Inl _ \<Rightarrow> [] | Inr b \<Rightarrow> b) accountsIndex 1) (\<lambda>hits.
       case hits of [] \<Rightarrow> io_fail (ExternalError (''cannot find accounts with address: '' @ address))
       | (_, a) # _ \<Rightarrow> io_ok (ba_Balance a))"

definition checkBalance :: "'w balanceChecker \<Rightarrow> bal_account \<Rightarrow> ('w bal_state, unit) io" where
  "checkBalance bc acct =
     io_bind (io_try (getAccountBalance bc (ba_Address acct))) (\<lambda>r. case r of
       Inl e \<Rightarrow> say (CannotGetBalance (ba_Address acct) e)
     | Inr gatewayBalance \<Rightarrow>
         if gatewayBalance = ba_Balance acct then io_ok ()
         else io_bind (io_try (getBalanceFromES bc (ba_Address acct))) (\<lambda>r. case r of
           Inl e \<Rightarrow> say (SomethingWentWrong (ba_Address acct) e)
         | Inr newBalance \<Rightarrow>
             if newBalance = gatewayBalance then io_ok ()
             else io_bind (getLasTimeWhenBalanceWasChanged bc [] (ba_Address acct)) (\<lambda>(timestampLast, _).
               io_bind (on_error (fixWrongBalance bc (ba_Address acct) [] (of_int timestampLast) gatewayBalance accountsIndex)
                 (\<lambda>_. say (CannotUpdateBalance (ba_Address acct) []))) (\<lambda>_.
               say (BalanceMismatch (ba_Address acct) newBalance gatewayBalance timestampLast)))))"

definition handlerFuncScrollAccountEGLD :: "'w balanceChecker \<Rightarrow> bytes \<Rightarrow> ('w bal_state, unit) io" where
  "handlerFuncScrollAccountEGLD bc responseBytes =
     io_bind (io_of (Unmarshal (ResponseAccounts_dec (bc_lib bc)) responseBytes)) (\<lambda>hits.
     io_bind (\<lambda>st. (Inr (), st\<lparr>bs_countCheck := Suc (bs_countCheck st)\<rparr>)) (\<lambda>_.
     io_bind (with_slots bc (hits \<noteq> []) (io_each (\<lambda>(_, a). checkBalance bc a) hits)) (\<lambda>_.
     \<lambda>st. say (InfoBulkOfAccounts (bs_countCheck st)) st)))"

definition CheckEGLDBalances :: "'w balanceChecker \<Rightarrow> ('w bal_state, unit) io" where
  "CheckEGLDBalances bc = bc_DoScroll (bc_clients bc) accountsIndex matchAllQuery (handlerFuncScrollAccountEGLD bc)"

subsection \<open>ESDT balances (checker\_balance\_esdt.go, checker\_balance\_esdt\_sc.go)\<close>

fun compareBalances_loop ::
    "'w balanceChecker \<Rightarrow> string \<Rightarrow> bool \<Rightarrow> (string, string) gomap \<Rightarrow> (string, string) gomap \<Rightarrow>
     ('w bal_state, bool \<times> (string, string) gomap) io" where
  "compareBalances_loop bc address firstCompare [] copyBalancesProxy = io_ok (False, copyBalancesProxy)"
| "compareBalances_loop bc address firstCompare ((tokenIdentifier, balanceES) # rest) copyBalancesProxy =
     (case map_of copyBalancesProxy tokenIdentifier of
        None \<Rightarrow>
          if firstCompare then io_ok (True, copyBalancesProxy)
          else io_bind (getLasTimeWhenBalanceWasChanged bc tokenIdentifier address) (\<lambda>(timestampLast, i).
            io_bind (say (ExtraBalance address tokenIdentifier timestampLast i)) (\<lambda>_.
            io_bind (on_error (deleteExtraBalance bc address tokenIdentifier (of_int timestampLast) accountsesdtIndex)
              (\<lambda>e. say (CannotRemoveBalance address tokenIdentifier e))) (\<lambda>_.
            compareBalances_loop bc address firstCompare rest copyBalancesProxy)))
      | Some balanceProxy \<Rightarrow>
          let copy' = gm_delete tokenIdentifier copyBalancesProxy in
          if balanceES \<noteq> balanceProxy \<and> firstCompare then io_ok (True, copy')
          else if balanceES \<noteq> balanceProxy
          then io_bind (getLasTimeWhenBalanceWasChanged bc tokenIdentifier address) (\<lambda>(timestampLast, i).
            io_bind (on_error (fixWrongBalance bc address tokenIdentifier (of_int timestampLast) balanceProxy accountsesdtIndex)
              (\<lambda>_. say (CannotUpdateBalance address tokenIdentifier))) (\<lambda>_.
            io_bind (say (DifferentBalance address tokenIdentifier balanceES balanceProxy timestampLast i)) (\<lambda>_.
            compareBalances_loop bc address firstCompare rest copy')))
          else compareBalances_loop bc address firstCompare rest copy')"

definition compareBalances ::
    "'w balanceChecker \<Rightarrow> (string, string) gomap \<Rightarrow> (string, string) gomap \<Rightarrow> string \<Rightarrow> bool \<Rightarrow> ('w bal_state, bool) io" where
  "compareBalances bc balancesFromES balancesFromProxy address firstCompare =
     io_bind (compareBalances_loop bc address firstCompare balancesFromES balancesFromProxy) (\<lambda>(tryAgain, copyBalancesProxy).
       if tryAgain then io_ok True
       else if copyBalancesProxy \<noteq> [] \<and> firstCompare then io_ok True
       else io_bind (io_each (\<lambda>(tokenIdentifier, balance). say (MissingBalance address tokenIdentifier balance))
              (filter (\<lambda>(_, balance). balance \<noteq> ''0'') copyBalancesProxy)) (\<lambda>_. io_ok False))"

definition getBalancesFromProxy :: "'w balanceChecker \<Rightarrow> string \<Rightarrow> ('w bal_state, (string, string) gomap) io" where
  "getBalancesFromProxy bc address =
     io_bind (rest_call bc BalancesESDTResponse_dec (''/address/'' @ address @ ''/esdt'')) (\<lambda>response.
       if br_Error response \<noteq> [] then io_fail (ExternalError (br_Error response))
       else io_of (fold_r (\<lambda>(tokenIdentifier, tokenData) m.
         case tokenData of None \<Rightarrow> Inl PanicNilDereference | Some t \<Rightarrow> Inr (gm_set tokenIdentifier (nft_Balance t) m)) (br_ESDTS response) []))"

definition getAccountsByQuery_handler :: "'w balanceChecker \<Rightarrow> bytes \<Rightarrow> ('w bal_state, unit) io" where
  "getAccountsByQuery_handler bc responseBytes =
     io_bind (io_of (Unmarshal (ResponseAccounts_dec (bc_lib bc)) responseBytes)) (\<lambda>hits st.
       say (InfoReadAccounts (Suc (bs_countPages st)))
         (st\<lparr>bs_balances := extractBalancesFromResponse hits (bs_balances st), bs_countPages := Suc (bs_countPages st)\<rparr>))"

definition getAccountsByQuery :: "'w balanceChecker \<Rightarrow> bytes \<Rightarrow> ('w bal_state, balancesESDT) io" where
  "getAccountsByQuery bc query st =
     io_bind (bc_DoScroll (bc_clients bc) accountsesdtIndex query (getAccountsByQuery_handler bc)) (\<lambda>_ st. (Inr (bs_balances st), st))
       (st\<lparr>bs_balances := newBalancesESDT, bs_countPages := 0\<rparr>)"

definition getESDTBalancesFromES :: "'w balanceChecker \<Rightarrow> string \<Rightarrow> nat \<Rightarrow> ('w bal_state, balancesESDT) io" where
  "getESDTBalancesFromES bc address numOfBalances =
     (let encoded = (case encodeQuery (getBalancesByAddress address) of Inl _ \<Rightarrow> [] | Inr b \<Rightarrow> b) in
      if maxDocumentsFromES < int numOfBalances
      then io_bind (say (InfoManyBalances numOfBalances address)) (\<lambda>_. getAccountsByQuery bc encoded)
      else io_bind (DoGetRequest_bal bc (ResponseAccounts_dec (bc_lib bc)) encoded accountsesdtIndex maxDocumentsFromES) (\<lambda>hits.
        io_ok (extractBalancesFromResponse hits newBalancesESDT)))"

definition getFromESAndCompare :: "'w balanceChecker \<Rightarrow> string \<Rightarrow> (string, string) gomap \<Rightarrow> nat \<Rightarrow> ('w bal_state, unit) io" where
  "getFromESAndCompare bc address balancesFromProxy numBalancesFromEs =
     io_bind (\<lambda>st. say (InfoSecondCompare address (bs_countTotalCompared st)) st) (\<lambda>_.
     io_bind (getESDTBalancesFromES bc address numBalancesFromEs) (\<lambda>balancesES.
     io_bind (compareBalances bc (getBalancesForAddress address balancesES) balancesFromProxy address False) (\<lambda>_. io_ok ())))"

text \<open>The two comparisons, the same for accounts and contracts.\<close>

definition compare_twice :: "'w balanceChecker \<Rightarrow> string \<Rightarrow> (string, string) gomap \<Rightarrow> (string, string) gomap \<Rightarrow> ('w bal_state, unit) io" where
  "compare_twice bc addr balancesFromES balancesFromProxy =
     io_bind (compareBalances bc balancesFromES balancesFromProxy addr True) (\<lambda>tryAgain.
       if tryAgain
       then on_error (getFromESAndCompare bc addr balancesFromProxy (length balancesFromES)) (\<lambda>e. say (CannotCompareSecondTime addr e))
       else io_ok ())"

text \<open>\<^verbatim>\<open>hex.DecodeString\<close> with its error ignored: what was decoded before it.\<close>

fun hex_prefix :: "string \<Rightarrow> bytes" where
  "hex_prefix (c # d # s) =
     (case (hex_value c, hex_value d) of (Some a, Some b) \<Rightarrow> char_of (16 * a + b) # hex_prefix s | _ \<Rightarrow> [])"
| "hex_prefix _ = []"

definition computeEndpoint :: "string \<Rightarrow> string \<Rightarrow> string" where
  "computeEndpoint tokenIdentifier addr =
     (case split_char (CHR ''-'') tokenIdentifier of
        [a, b, nonceStr] \<Rightarrow>
          ''/address/'' @ addr @ ''/nft/'' @ a @ ''-'' @ b @ ''/nonce/'' @ dec_nat (unat (be_u64 (hex_prefix nonceStr)))
      | _ \<Rightarrow> ''/address/'' @ addr @ ''/esdt/'' @ tokenIdentifier)"

definition getBalanceFromProxy :: "'w balanceChecker \<Rightarrow> string \<Rightarrow> ('w bal_state, string option) io" where
  "getBalanceFromProxy bc endpoint =
     io_bind (io_try (rest_call bc BalancesESDTResponse_dec endpoint)) (\<lambda>r. case r of
       Inl e \<Rightarrow> io_bind (say (CannotCallEndpoint e)) (\<lambda>_. io_ok None)
     | Inr response \<Rightarrow>
         if br_Error response \<noteq> [] then io_bind (say (ErrorFromGateway (br_Error response))) (\<lambda>_. io_ok None)
         else (case br_TokenData response of
                 None \<Rightarrow> io_fail PanicNilDereference
               | Some t \<Rightarrow> io_ok (if nft_Balance t = ''0'' then None else Some (nft_Balance t))))"

fun checkBalancesSC_loop ::
    "'w balanceChecker \<Rightarrow> string \<Rightarrow> string list \<Rightarrow> (string, string) gomap \<Rightarrow> ('w bal_state, (string, string) gomap) io" where
  "checkBalancesSC_loop bc addr [] tokenBalanceProxy = io_ok tokenBalanceProxy"
| "checkBalancesSC_loop bc addr (identifier # rest) tokenBalanceProxy =
     io_bind (getBalanceFromProxy bc (computeEndpoint identifier addr)) (\<lambda>r.
       checkBalancesSC_loop bc addr rest
         (case r of None \<Rightarrow> tokenBalanceProxy | Some balanceProxy \<Rightarrow> gm_set identifier balanceProxy tokenBalanceProxy))"

definition checkBalancesSC :: "'w balanceChecker \<Rightarrow> string \<Rightarrow> (string, string) gomap \<Rightarrow> ('w bal_state, unit) io" where
  "checkBalancesSC bc addr balancesFromES =
     io_bind (with_slots bc (balancesFromES \<noteq> []) (checkBalancesSC_loop bc addr (gm_keys balancesFromES) [])) (\<lambda>tokenBalanceProxy.
       compare_twice bc addr balancesFromES tokenBalanceProxy)"

text \<open>An error of the gateway is logged, and the comparison goes on with no balances.\<close>

definition compareBalancesFromES :: "'w balanceChecker \<Rightarrow> string \<Rightarrow> (string, string) gomap \<Rightarrow> ('w bal_state, unit) io" where
  "compareBalancesFromES bc addr tokenBalanceMap =
     (case bl_Decode (bc_lib bc) addr of
        Inl e \<Rightarrow> say (CannotDecodeAddress addr e)
      | Inr decoded \<Rightarrow>
          if bl_IsSmartContractAddress (bc_lib bc) decoded then checkBalancesSC bc addr tokenBalanceMap
          else io_bind (io_try (getBalancesFromProxy bc addr)) (\<lambda>r.
            case r of
              Inl e \<Rightarrow> io_bind (say (CannotGetBalancesFromProxy addr e)) (\<lambda>_. compare_twice bc addr tokenBalanceMap [])
            | Inr balancesFromProxy \<Rightarrow> compare_twice bc addr tokenBalanceMap balancesFromProxy))"

definition CheckESDTBalances :: "'w balanceChecker \<Rightarrow> ('w bal_state, unit) io" where
  "CheckESDTBalances bc =
     io_bind (getAccountsByQuery bc matchAllQuery) (\<lambda>balancesFromEs.
     io_bind (say (InfoTotalAccounts (length balancesFromEs))) (\<lambda>_.
     io_bind (with_slots bc (balancesFromEs \<noteq> []) (io_each (\<lambda>(addr, tokenBalanceMap).
       io_bind (\<lambda>st. (Inr (), st\<lparr>bs_countTotalCompared := Suc (bs_countTotalCompared st)\<rparr>)) (\<lambda>_.
         compareBalancesFromES bc addr tokenBalanceMap)) balancesFromEs)) (\<lambda>_.
     \<lambda>st. say (InfoTotalCompared (bs_countTotalCompared st)) st)))"

text \<open>The clients of the tool.\<close>

record bal_world =
  bw_es :: ck_esClient
  bw_sent :: "string list"

definition at_es :: "(ck_esClient, 'a) io \<Rightarrow> (bal_world, 'a) io" where
  "at_es m w = (case m (bw_es w) of (r, e) \<Rightarrow> (r, w\<lparr>bw_es := e\<rparr>))"

definition at_rest :: "(string list, 'a) io \<Rightarrow> (bal_world, 'a) io" where
  "at_rest m w = (case m (bw_sent w) of (r, s) \<Rightarrow> (r, w\<lparr>bw_sent := s\<rparr>))"

definition tool_clients :: "nat \<Rightarrow> ck_lib \<Rightarrow> rest_lib \<Rightarrow> string \<Rightarrow> bal_world bal_clients" where
  "tool_clients n L R url =
     \<lparr>bc_DoScroll = DoScrollRequestAllDocuments_bal n L (\<lambda>st. bw_es (bs_world st)) (\<lambda>e st. st\<lparr>bs_world := (bs_world st)\<lparr>bw_es := e\<rparr>\<rparr>),
      bc_DoGet = (\<lambda>buff index sz. at_es (DoGetRequest_tool L buff index sz)),
      bc_DoBulk = (\<lambda>buff index. at_es (DoBulkRequest_tool L buff index)),
      bc_CallGet = (\<lambda>endpoint. at_rest (CallGetRestEndPoint n R url endpoint))\<rparr>"

text \<open>The creation of each part may fail; the gateway client is always made.\<close>

definition CreateBalanceChecker ::
    "unit result \<Rightarrow> unit result \<Rightarrow> unit result \<Rightarrow> bal_lib \<Rightarrow> bal_world bal_clients \<Rightarrow> bool \<Rightarrow> int \<Rightarrow> bal_world balanceChecker result" where
  "CreateBalanceChecker esClient pubKeyConverter balanceToFloat L C repair maxRequests =
     bindr esClient (\<lambda>_. bindr pubKeyConverter (\<lambda>_. bindr balanceToFloat (\<lambda>_.
       NewBalanceChecker False False False False L C repair maxRequests)))"

text \<open>
  The command (\<^verbatim>\<open>cmd/balance-checker\<close>), given its flags and the outcome of the logger, of the configuration and of the construction; \<open>hasFile\<close>
  says that the log goes to a file.  At the end the code closes the log exactly when there is none.
\<close>

datatype start_end = StartFailed string go_error | StartPanics | StartDone "string list"

definition startCheck :: "bool result \<Rightarrow> unit result \<Rightarrow> 'w balanceChecker result \<Rightarrow> bool \<Rightarrow> bool \<Rightarrow> 'w bal_state \<Rightarrow> start_end \<times> 'w bal_state" where
  "startCheck logger cfg checker egld esdt st =
     (case logger of Inl e \<Rightarrow> (StartFailed ''cannot initialize logger'' e, st)
      | Inr hasFile \<Rightarrow>
     (case cfg of Inl e \<Rightarrow> (StartFailed ''cannot read config file'' e, st)
      | Inr _ \<Rightarrow>
     (case checker of Inl e \<Rightarrow> (StartFailed ''cannot create balance checker'' e, st)
      | Inr bc \<Rightarrow>
     (case (if egld then CheckEGLDBalances bc st else (Inr (), st)) of
        (Inl e, st1) \<Rightarrow> (StartFailed ''cannot check balance EGLD'' e, st1)
      | (Inr _, st1) \<Rightarrow>
     (case (if esdt then CheckESDTBalances bc st1 else (Inr (), st1)) of
        (Inl e, st2) \<Rightarrow> (StartFailed ''cannot check balance ESDT'' e, st2)
      | (Inr _, st2) \<Rightarrow>
          (if \<not> hasFile then StartPanics
           else StartDone ((if egld then [''done''] else []) @ (if \<not> egld \<and> \<not> esdt then [''no flag has been provided''] else [])), st2))))))"

section \<open>Balances\<close>

lemma getBalance_add:
  "getBalance a t (add_balance a' t' v be) = (if a = a' \<and> t = t' then v else getBalance a t be)"
  by (auto simp: getBalance_def getBalancesForAddress_def add_balance_def split: option.splits)

lemma add_balance_wf: "gm_wf be \<Longrightarrow> gm_wf (add_balance a t v be)"
  by (simp add: add_balance_def)

section \<open>The first comparison\<close>

lemma compareBalances_loop_first:
  assumes "gm_wf es" "gm_wf px"
  shows "\<exists>t c. compareBalances_loop bc addr True es px st = (Inr (t, c), st) \<and>
    (if t then map_of es \<noteq> map_of px
     else c = filter (\<lambda>(k, _). k \<notin> fst ` set es) px \<and> (\<forall>k v. map_of es k = Some v \<longrightarrow> map_of px k = Some v))"
  using assms
proof (induction es arbitrary: px)
  case Nil
  then show ?case by (auto simp: io_ok_def)
next
  case (Cons e es)
  obtain k v where e: "e = (k, v)" by (cases e)
  then have k: "k \<notin> fst ` set es" and es: "gm_wf es" using Cons.prems(1) by (auto simp: gm_wf_def)
  then have none: "map_of es k = None" by (simp add: map_of_eq_None_iff)
  show ?case
  proof (cases "map_of px k = Some v")
    case False
    have "map_of (e # es) \<noteq> map_of px" using False e by (auto dest: fun_cong [where x = k])
    with False e show ?thesis by (auto simp: io_ok_def Let_def split: option.splits)
  next
    case True
    obtain t c where ih: "compareBalances_loop bc addr True es (gm_delete k px) st = (Inr (t, c), st)"
      "if t then map_of es \<noteq> map_of (gm_delete k px)
       else c = filter (\<lambda>(j, _). j \<notin> fst ` set es) (gm_delete k px) \<and> (\<forall>j u. map_of es j = Some u \<longrightarrow> map_of (gm_delete k px) j = Some u)"
      using Cons.IH [OF es gm_wf_delete [OF Cons.prems(2)], of k] by blast
    have run: "compareBalances_loop bc addr True (e # es) px st = (Inr (t, c), st)" using True e ih(1) by (simp add: Let_def)
    show ?thesis
    proof (cases t)
      case t: True
      have "map_of es \<noteq> (map_of px)(k := None)" using ih(2) t by simp
      then obtain y where "map_of es y \<noteq> ((map_of px)(k := None)) y" by blast
      with e none have "map_of (e # es) y \<noteq> map_of px y" by (auto split: if_splits)
      then have "map_of (e # es) \<noteq> map_of px" by metis
      with run t show ?thesis by auto
    next
      case t: False
      have "filter (\<lambda>(j, _). j \<notin> fst ` set es) (gm_delete k px) = filter (\<lambda>(j, _). j \<notin> fst ` set (e # es)) px"
        using e by (auto simp: gm_delete_def AList.delete_eq intro!: filter_cong)
      moreover have "\<forall>j u. map_of (e # es) j = Some u \<longrightarrow> map_of px j = Some u"
        using ih(2) t True e by (auto split: if_splits)
      ultimately show ?thesis using run ih(2) t by (intro exI [of _ t] exI [of _ c]) simp
    qed
  qed
qed

text \<open>
  The first comparison has no effect and asks for the second one exactly when the balances of the database and of
  the gateway are not the same.
\<close>

theorem compareBalances_first:
  assumes "gm_wf es" "gm_wf px"
  shows "compareBalances bc es px addr True st = (Inr (map_of es \<noteq> map_of px), st)"
proof -
  obtain t c where l: "compareBalances_loop bc addr True es px st = (Inr (t, c), st)"
    and c: "if t then map_of es \<noteq> map_of px
     else c = filter (\<lambda>(k, _). k \<notin> fst ` set es) px \<and> (\<forall>k v. map_of es k = Some v \<longrightarrow> map_of px k = Some v)"
    using compareBalances_loop_first [OF assms] by blast
  show ?thesis
  proof (cases t)
    case True
    with l c show ?thesis by (simp add: compareBalances_def io_bind_def io_ok_def)
  next
    case False
    have "c = [] \<longleftrightarrow> map_of es = map_of px"
    proof
      assume "c = []"
      then have sub: "fst ` set px \<subseteq> fst ` set es" using c False by (auto simp: filter_empty_conv)
      show "map_of es = map_of px"
      proof
        fix k
        show "map_of es k = map_of px k"
          using c False sub map_of_eq_None_iff [of px k] map_of_eq_None_iff [of es k] by (cases "map_of es k") auto
      qed
    next
      assume "map_of es = map_of px"
      then have "dom (map_of es) = dom (map_of px)" by simp
      then have "fst ` set es = fst ` set px" by (simp add: dom_map_of_conv_image_fst)
      then show "c = []" using c False by (force simp: filter_empty_conv)
    qed
    with l False show ?thesis by (cases "c = []") (simp_all add: compareBalances_def io_bind_def io_ok_def)
  qed
qed

section \<open>The second comparison\<close>

text \<open>What is reported: the lines about balances, without the time and the operation they carry.\<close>

fun bal_report :: "bal_line \<Rightarrow> bal_line list" where
  "bal_report (ExtraBalance a t _ _) = [ExtraBalance a t 0 []]"
| "bal_report (DifferentBalance a t e p _ _) = [DifferentBalance a t e p 0 []]"
| "bal_report (MissingBalance a t b) = [MissingBalance a t b]"
| "bal_report _ = []"

definition bal_reports :: "'w bal_state \<Rightarrow> bal_line list" where
  "bal_reports st = concat (map bal_report (bs_log st))"

text \<open>The clients neither panic nor hang.\<close>

definition no_crash :: "('w, 'a) io \<Rightarrow> bool" where
  "no_crash m \<longleftrightarrow> (\<forall>w e. fst (m w) = Inl e \<longrightarrow> \<not> is_panic e \<and> e \<noteq> LoopFuelExhausted)"

definition calm :: "'w balanceChecker \<Rightarrow> bool" where
  "calm bc \<longleftrightarrow> (\<forall>q i n. no_crash (bc_DoGet (bc_clients bc) q i n)) \<and> (\<forall>b i. no_crash (bc_DoBulk (bc_clients bc) b i)) \<and>
     (\<forall>m d. bl_Buffers (bc_lib bc) m d \<noteq> [])"

text \<open>An operation that returns a value with the property \<open>Q\<close> and adds the given reports.\<close>

definition reports :: "('a \<Rightarrow> bool) \<Rightarrow> ('w bal_state, 'a) io \<Rightarrow> bal_line list \<Rightarrow> bool" where
  "reports Q m ls \<longleftrightarrow> (\<forall>st. \<exists>x st'. m st = (Inr x, st') \<and> Q x \<and> bal_reports st' = bal_reports st @ ls)"

named_theorems report_intros \<open>operations and what they report\<close>

lemma reports_ok [report_intros]: "Q x \<Longrightarrow> reports Q (io_ok x) []"
  by (simp add: reports_def io_ok_def)

lemma reports_say [report_intros]: "bal_report l = ls \<Longrightarrow> reports (\<lambda>_. True) (say l) ls"
  by (auto simp: reports_def say_def bal_reports_def)

lemma reports_bind:
  assumes m: "reports Q m as" and f: "\<And>x. Q x \<Longrightarrow> reports R (f x) bs"
  shows "reports R (io_bind m f) (as @ bs)"
  unfolding reports_def
proof
  fix st
  obtain x st1 where 1: "m st = (Inr x, st1)" "Q x" "bal_reports st1 = bal_reports st @ as" using m unfolding reports_def by blast
  from f [OF 1(2)] obtain y st2 where "f x st1 = (Inr y, st2)" "R y" "bal_reports st2 = bal_reports st1 @ bs"
    unfolding reports_def by blast
  with 1 show "\<exists>y st'. io_bind m f st = (Inr y, st') \<and> R y \<and> bal_reports st' = bal_reports st @ as @ bs" by (simp add: io_bind_def)
qed

lemma no_crash_at_world: "no_crash m \<Longrightarrow> no_crash (at_world m)"
  by (simp add: no_crash_def at_world_def case_prod_unfold)

lemma no_crash_bind: "no_crash m \<Longrightarrow> (\<And>x. no_crash (f x)) \<Longrightarrow> no_crash (io_bind m f)"
  by (auto simp: no_crash_def io_bind_def case_prod_unfold split: sum.splits)

lemma no_crash_of: "(\<And>e. r = Inl e \<Longrightarrow> \<not> is_panic e \<and> e \<noteq> LoopFuelExhausted) \<Longrightarrow> no_crash (io_of r)"
  by (simp add: no_crash_def io_of_def)

text \<open>Operations that do not touch the log.\<close>

definition quiet :: "('w bal_state, 'a) io \<Rightarrow> bool" where
  "quiet m \<longleftrightarrow> (\<forall>st. bal_reports (snd (m st)) = bal_reports st)"

lemma quiet_at_world: "quiet (at_world m)"
  by (auto simp: quiet_def at_world_def bal_reports_def split: prod.splits)

lemma quiet_of: "quiet (io_of r)"
  by (simp add: quiet_def io_of_def)

lemma quiet_fail: "quiet (io_fail e)"
  by (simp add: quiet_def io_fail_def)

lemma quiet_bind: "quiet m \<Longrightarrow> (\<And>x. quiet (f x)) \<Longrightarrow> quiet (io_bind m f)"
  by (auto simp: quiet_def io_bind_def case_prod_unfold split: sum.splits)

lemma quiet_say: "bal_report l = [] \<Longrightarrow> quiet (say l)"
  by (simp add: quiet_def say_def bal_reports_def)

lemma reports_try: "no_crash m \<Longrightarrow> quiet m \<Longrightarrow> reports (\<lambda>_. True) (io_try m) []"
  by (auto simp: reports_def io_try_def no_crash_def quiet_def case_prod_unfold split: sum.splits)

lemma no_crash_get: "calm bc \<Longrightarrow> no_crash (DoGetRequest_bal bc dec q i n)"
  by (auto simp: DoGetRequest_bal_def calm_def Unmarshal_def is_panic_def intro!: no_crash_bind no_crash_at_world no_crash_of
      split: option.splits)

lemma quiet_get: "quiet (DoGetRequest_bal bc dec q i n)"
  by (simp add: DoGetRequest_bal_def quiet_bind quiet_at_world quiet_of)

lemma reports_cases [report_intros]:
  "(\<And>e. r = Inl e \<Longrightarrow> reports Q (f e) ls) \<Longrightarrow> (\<And>x. r = Inr x \<Longrightarrow> reports Q (g x) ls) \<Longrightarrow>
    reports Q (case r of Inl e \<Rightarrow> f e | Inr x \<Rightarrow> g x) ls"
  by (cases r) simp_all

lemma reports_bind_nil: "reports (\<lambda>_. True) m [] \<Longrightarrow> (\<And>x. reports R (f x) bs) \<Longrightarrow> reports R (io_bind m f) bs"
  using reports_bind [of "\<lambda>_. True" m "[]" R f bs] by simp

lemma reports_bind_one: "reports (\<lambda>_. True) m [l] \<Longrightarrow> (\<And>x. reports R (f x) bs) \<Longrightarrow> reports R (io_bind m f) (l # bs)"
  using reports_bind [of "\<lambda>_. True" m "[l]" R f bs] by simp

lemma reports_last_time: "calm bc \<Longrightarrow> reports (\<lambda>_. True) (getLasTimeWhenBalanceWasChanged bc t a) []"
  unfolding getLasTimeWhenBalanceWasChanged_def Let_def
proof (rule reports_bind_nil [OF reports_try [OF no_crash_get quiet_get]])
  fix r :: "(string \<times> int) list result"
  show "reports (\<lambda>_. True) (case r of Inl e \<Rightarrow> io_bind (say (CannotGetLastTime t a e)) (\<lambda>_. io_ok (0, [])) | Inr [] \<Rightarrow> io_ok (0, [])
      | Inr ((i, ts) # _) \<Rightarrow> io_ok (ts, i)) []"
    by (cases r) (auto intro!: reports_bind_nil report_intros split: list.splits prod.splits)
qed

lemma send_repair_calm: "calm bc \<Longrightarrow> no_crash (send_repair bc m d i)" "quiet (send_repair bc m d i)"
  by (auto simp: send_repair_def calm_def index_r_def intro!: no_crash_bind no_crash_at_world no_crash_of quiet_bind quiet_at_world quiet_of quiet_fail)

lemma no_crash_say: "no_crash (say l)"
  by (simp add: no_crash_def say_def)

lemma no_crash_ok: "no_crash (io_ok x)" and quiet_ok: "quiet (io_ok x)"
  by (simp_all add: no_crash_def quiet_def io_ok_def)

lemma repairs_calm:
  "calm bc \<Longrightarrow> no_crash (deleteExtraBalance bc a t ts i)" "quiet (deleteExtraBalance bc a t ts i)"
  "calm bc \<Longrightarrow> no_crash (fixWrongBalance bc a t ts b i)" "quiet (fixWrongBalance bc a t ts b i)"
  by (auto simp: deleteExtraBalance_def fixWrongBalance_def Let_def
      intro!: no_crash_ok quiet_ok no_crash_bind quiet_bind send_repair_calm no_crash_say quiet_say)

lemma reports_on_error: "no_crash m \<Longrightarrow> quiet m \<Longrightarrow> (\<And>e. reports (\<lambda>_. True) (h e) []) \<Longrightarrow> reports (\<lambda>_. True) (on_error m h) []"
  unfolding on_error_def by (intro reports_bind_nil reports_try) (auto intro: reports_cases reports_ok)

lemma reports_extra: "calm bc \<Longrightarrow> reports Q m ls \<Longrightarrow>
  reports Q (io_bind (getLasTimeWhenBalanceWasChanged bc t a) (\<lambda>(ts, i).
    io_bind (say (ExtraBalance a t ts i)) (\<lambda>_.
    io_bind (on_error (deleteExtraBalance bc a t (of_int ts) accountsesdtIndex) (\<lambda>e. say (CannotRemoveBalance a t e))) (\<lambda>_. m))))
  (ExtraBalance a t 0 [] # ls)"
  by (intro reports_bind_nil reports_last_time)
    (auto intro!: reports_bind_one reports_say reports_bind_nil [of "on_error _ _"] reports_on_error repairs_calm)

lemma reports_different: "calm bc \<Longrightarrow> reports Q m ls \<Longrightarrow>
  reports Q (io_bind (getLasTimeWhenBalanceWasChanged bc t a) (\<lambda>(ts, i).
    io_bind (on_error (fixWrongBalance bc a t (of_int ts) p accountsesdtIndex) (\<lambda>_. say (CannotUpdateBalance a t))) (\<lambda>_.
    io_bind (say (DifferentBalance a t e p ts i)) (\<lambda>_. m))))
  (DifferentBalance a t e p 0 [] # ls)"
  by (intro reports_bind_nil reports_last_time)
    (auto intro!: reports_bind_nil [of "on_error _ _"] reports_bind_one [of "say _"] reports_say reports_on_error repairs_calm)

text \<open>The loop over the balances of the database leaves those of the gateway that were not met.\<close>

definition es_reports :: "string \<Rightarrow> (string, string) gomap \<Rightarrow> (string, string) gomap \<Rightarrow> bal_line list" where
  "es_reports addr es px =
     concat (map (\<lambda>d. case map_of px (fst d) of None \<Rightarrow> [ExtraBalance addr (fst d) 0 []]
       | Some p \<Rightarrow> if snd d = p then [] else [DifferentBalance addr (fst d) (snd d) p 0 []]) es)"

lemma es_reports_delete: "t \<notin> fst ` set es \<Longrightarrow> es_reports a es (gm_delete t px) = es_reports a es px"
  unfolding es_reports_def by (intro arg_cong [where f = concat] map_cong refl) (auto split: option.splits)

lemma compareBalances_loop_second:
  assumes calm: "calm bc" and "gm_wf es" "gm_wf px"
  shows "reports (\<lambda>r. r = (False, filter (\<lambda>(k, _). k \<notin> fst ` set es) px)) (compareBalances_loop bc a False es px) (es_reports a es px)"
  using assms(2,3)
proof (induction es arbitrary: px)
  case Nil
  then show ?case by (simp add: es_reports_def reports_ok)
next
  case (Cons e es)
  obtain k v where e: "e = (k, v)" by (cases e)
  then have k: "k \<notin> fst ` set es" and es: "gm_wf es" using Cons.prems(1) by (auto simp: gm_wf_def)
  show ?case
  proof (cases "map_of px k")
    case None
    then have "k \<notin> fst ` set px" by (simp add: map_of_eq_None_iff)
    then have "filter (\<lambda>(j, _). j \<notin> fst ` set es) px = filter (\<lambda>(j, _). j \<notin> fst ` set (e # es)) px"
      using e by (force intro!: filter_cong)
    with reports_extra [OF calm Cons.IH [OF es Cons.prems(2)], of k a] None e show ?thesis by (simp add: es_reports_def)
  next
    case (Some p)
    have f: "filter (\<lambda>(j, _). j \<notin> fst ` set es) (gm_delete k px) = filter (\<lambda>(j, _). j \<notin> fst ` set (e # es)) px"
      using e by (auto simp: gm_delete_def AList.delete_eq intro!: filter_cong)
    note ih = Cons.IH [OF es gm_wf_delete [OF Cons.prems(2)], of k, unfolded es_reports_delete [OF k] f]
    have "es_reports a (e # es) px = (if v = p then [] else [DifferentBalance a k v p 0 []]) @ es_reports a es px"
      using e Some by (simp add: es_reports_def)
    with ih reports_different [OF calm ih, of k a p v] Some e show ?thesis by (cases "v = p") (simp_all add: Let_def)
  qed
qed

lemma reports_each_say: "(\<And>x. x \<in> set xs \<Longrightarrow> bal_report (f x) = [f x]) \<Longrightarrow> reports (\<lambda>_. True) (io_each (\<lambda>x. say (f x)) xs) (map f xs)"
  by (induction xs) (auto intro!: reports_ok reports_bind_one reports_say)

text \<open>
  C18. The second comparison reports exactly what differs: a balance of the database that the gateway does not have, one that the gateway
  has with another value, and one of the gateway, other than zero, that the database does not have; with or without
  repair, and also when requests fail.
\<close>

theorem compareBalances_second:
  assumes "calm bc" "gm_wf es" "gm_wf px"
  shows "\<exists>st'. compareBalances bc es px addr False st = (Inr False, st') \<and>
    bal_reports st' = bal_reports st @ es_reports addr es px @
      map (\<lambda>(t, b). MissingBalance addr t b) (filter (\<lambda>(t, b). t \<notin> fst ` set es \<and> b \<noteq> ''0'') px)"
proof -
  let ?c = "filter (\<lambda>(k, _). k \<notin> fst ` set es) px"
  have f: "filter (\<lambda>(_, b). b \<noteq> ''0'') ?c = filter (\<lambda>(t, b). t \<notin> fst ` set es \<and> b \<noteq> ''0'') px"
    by (auto intro!: filter_cong)
  have "reports (\<lambda>_. True) (io_each (\<lambda>x. say (case x of (t, b) \<Rightarrow> MissingBalance addr t b)) xs)
      (map (\<lambda>x. case x of (t, b) \<Rightarrow> MissingBalance addr t b) xs)" for xs
    by (rule reports_each_say) (simp split: prod.split)
  then have m: "reports (\<lambda>_. True) (io_each (\<lambda>(t, b). say (MissingBalance addr t b)) xs) (map (\<lambda>(t, b). MissingBalance addr t b) xs)" for xs
    by (simp add: case_prod_unfold)
  have "reports (\<lambda>r. r = False) (compareBalances bc es px addr False)
      (es_reports addr es px @ map (\<lambda>(t, b). MissingBalance addr t b) (filter (\<lambda>(_, b). b \<noteq> ''0'') ?c) @ [])"
    unfolding compareBalances_def
  proof (rule reports_bind [OF compareBalances_loop_second [OF assms]])
    fix r :: "bool \<times> (string, string) gomap"
    assume r: "r = (False, ?c)"
    show "reports (\<lambda>r. r = False) (case r of (tryAgain, copyBalancesProxy) \<Rightarrow>
        if tryAgain then io_ok True
        else if copyBalancesProxy \<noteq> [] \<and> False then io_ok True
        else io_bind (io_each (\<lambda>(t, b). say (MissingBalance addr t b)) (filter (\<lambda>(_, b). b \<noteq> ''0'') copyBalancesProxy)) (\<lambda>_. io_ok False))
      (map (\<lambda>(t, b). MissingBalance addr t b) (filter (\<lambda>(_, b). b \<noteq> ''0'') ?c) @ [])"
      unfolding r prod.case if_False simp_thms by (intro reports_bind [OF m] reports_ok) simp
  qed
  then show ?thesis unfolding reports_def f by fastforce
qed

section \<open>Without repair nothing is written\<close>

text \<open>The same checker with another way to send bulk requests.\<close>

definition with_bulk :: "(bytes \<Rightarrow> string \<Rightarrow> ('w, unit) io) \<Rightarrow> 'w balanceChecker \<Rightarrow> 'w balanceChecker" where
  "with_bulk b bc = bc\<lparr>bc_clients := (bc_clients bc)\<lparr>bc_DoBulk := b\<rparr>\<rparr>"

lemma with_bulk_fields [simp]:
  "bc_lib (with_bulk b bc) = bc_lib bc" "doRepair (with_bulk b bc) = doRepair bc"
  "maxNumberOfParallelRequests (with_bulk b bc) = maxNumberOfParallelRequests bc"
  "bc_DoScroll (bc_clients (with_bulk b bc)) = bc_DoScroll (bc_clients bc)"
  "bc_DoGet (bc_clients (with_bulk b bc)) = bc_DoGet (bc_clients bc)"
  "bc_CallGet (bc_clients (with_bulk b bc)) = bc_CallGet (bc_clients bc)"
  by (simp_all add: with_bulk_def)

lemma with_bulk_reads [simp]:
  "DoGetRequest_bal (with_bulk b bc) dec = DoGetRequest_bal bc dec" "rest_call (with_bulk b bc) rdec = rest_call bc rdec"
  "getLasTimeWhenBalanceWasChanged (with_bulk b bc) = getLasTimeWhenBalanceWasChanged bc"
  "with_slots (with_bulk b bc) u m = with_slots bc u m"
  by (simp_all add: fun_eq_iff DoGetRequest_bal_def rest_call_def getLasTimeWhenBalanceWasChanged_def with_slots_def)

lemma with_bulk_reads2 [simp]:
  "getAccountBalance (with_bulk b bc) = getAccountBalance bc" "getBalanceFromES (with_bulk b bc) = getBalanceFromES bc"
  "getBalancesFromProxy (with_bulk b bc) = getBalancesFromProxy bc" "getBalanceFromProxy (with_bulk b bc) = getBalanceFromProxy bc"
  "getAccountsByQuery_handler (with_bulk b bc) = getAccountsByQuery_handler bc"
  by (simp_all add: fun_eq_iff getAccountBalance_def getBalanceFromES_def getBalancesFromProxy_def getBalanceFromProxy_def
      getAccountsByQuery_handler_def)

lemma with_bulk_reads3 [simp]:
  "getAccountsByQuery (with_bulk b bc) = getAccountsByQuery bc"
  "getESDTBalancesFromES (with_bulk b bc) = getESDTBalancesFromES bc"
  "checkBalancesSC_loop (with_bulk b bc) a ids m = checkBalancesSC_loop bc a ids m"
proof -
  show q: "getAccountsByQuery (with_bulk b bc) = getAccountsByQuery bc" by (simp add: fun_eq_iff getAccountsByQuery_def)
  show "getESDTBalancesFromES (with_bulk b bc) = getESDTBalancesFromES bc" by (simp add: fun_eq_iff getESDTBalancesFromES_def q Let_def)
  show "checkBalancesSC_loop (with_bulk b bc) a ids m = checkBalancesSC_loop bc a ids m"
    by (induction ids arbitrary: m) simp_all
qed

lemma no_repair: "\<not> doRepair bc \<Longrightarrow> deleteExtraBalance bc = (\<lambda>_ _ _ _. io_ok ())" "\<not> doRepair bc \<Longrightarrow> fixWrongBalance bc = (\<lambda>_ _ _ _ _. io_ok ())"
  by (simp_all add: fun_eq_iff deleteExtraBalance_def fixWrongBalance_def)

lemma with_bulk_compare:
  assumes "\<not> doRepair bc"
  shows "compareBalances (with_bulk b bc) es px a f = compareBalances bc es px a f"
proof -
  have "compareBalances_loop (with_bulk b bc) a f es px = compareBalances_loop bc a f es px" for px
    using assms by (induction es arbitrary: px) (auto simp: no_repair Let_def split: option.splits)
  then show ?thesis by (simp add: compareBalances_def)
qed

lemma with_bulk_checks:
  assumes "\<not> doRepair bc"
  shows "compareBalancesFromES (with_bulk b bc) a m = compareBalancesFromES bc a m" "checkBalance (with_bulk b bc) acct = checkBalance bc acct"
  using assms by (simp_all add: compareBalancesFromES_def checkBalancesSC_def compare_twice_def getFromESAndCompare_def with_bulk_compare
      checkBalance_def no_repair cong: sum.case_cong if_cong)

text \<open>
  Without the repair option the checker does not depend on the bulk requests: whatever a bulk request would do, both checks run the
  same way, to the same result, state and log.
\<close>

theorem check_only_never_writes:
  assumes "\<not> doRepair bc"
  shows "CheckESDTBalances (with_bulk b bc) = CheckESDTBalances bc \<and> CheckEGLDBalances (with_bulk b bc) = CheckEGLDBalances bc"
  using assms by (simp add: CheckESDTBalances_def CheckEGLDBalances_def handlerFuncScrollAccountEGLD_def [abs_def] with_bulk_checks case_prod_unfold)

section \<open>The requests of a check\<close>

text \<open>
  An invariant of the clients that every read keeps, and a scroll with a handler that keeps it; the bulk requests do not occur here.
\<close>

abbreviation world_inv :: "('w \<Rightarrow> bool) \<Rightarrow> 'w bal_state \<Rightarrow> bool" where
  "world_inv J st \<equiv> J (bs_world st)"

definition reading :: "('w \<Rightarrow> bool) \<Rightarrow> 'w balanceChecker \<Rightarrow> bool" where
  "reading J bc \<longleftrightarrow>
     (\<forall>b i n. keeps J (bc_DoGet (bc_clients bc) b i n) (\<lambda>_. True)) \<and> (\<forall>e. keeps J (bc_CallGet (bc_clients bc) e) (\<lambda>_. True)) \<and>
     (\<forall>i q h. (\<forall>b. keeps (world_inv J) (h b) (\<lambda>_. True)) \<longrightarrow> keeps (world_inv J) (bc_DoScroll (bc_clients bc) i q h) (\<lambda>_. True))"

lemma keeps_at_world: "keeps J m (\<lambda>_. True) \<Longrightarrow> keeps (world_inv J) (at_world m) (\<lambda>_. True)"
  by (simp add: keeps_def at_world_def split: prod.split) (metis snd_conv)

lemma keeps_say [keeps_intros]: "keeps (world_inv J) (say l) (\<lambda>_. True)" "keeps (world_inv J) (\<lambda>st. say (f st) st) (\<lambda>_. True)"
  by (simp_all add: keeps_def say_def)

lemma keeps_counts [keeps_intros]:
  "keeps (world_inv J) (\<lambda>st. (Inr (), st\<lparr>bs_countCheck := f st\<rparr>)) (\<lambda>_. True)"
  "keeps (world_inv J) (\<lambda>st. (Inr (), st\<lparr>bs_countTotalCompared := f st\<rparr>)) (\<lambda>_. True)"
  "keeps (world_inv J) (\<lambda>st. (Inr (bs_balances st), st)) (\<lambda>_. True)"
  by (simp_all add: keeps_def)

lemma keeps_try [keeps_intros]: "keeps I m (\<lambda>_. True) \<Longrightarrow> keeps I (io_try m) (\<lambda>_. True)"
  by (simp add: keeps_def io_try_def split: prod.split sum.split) (metis snd_conv)

lemma keeps_on_error [keeps_intros]: "keeps I m (\<lambda>_. True) \<Longrightarrow> (\<And>e. keeps I (h e) (\<lambda>_. True)) \<Longrightarrow> keeps I (on_error m h) (\<lambda>_. True)"
  unfolding on_error_def by (intro keeps_intros) (auto intro: keeps_intros split: sum.split)

lemma keeps_slots [keeps_intros]: "keeps I m (\<lambda>_. True) \<Longrightarrow> keeps I (with_slots bc u m) (\<lambda>_. True)"
  by (simp add: with_slots_def keeps_fail)

lemma reading_calls:
  assumes "reading J bc"
  shows "keeps (world_inv J) (DoGetRequest_bal bc dec b i n) (\<lambda>_. True)" "keeps (world_inv J) (rest_call bc rdec e) (\<lambda>_. True)"
  using assms unfolding DoGetRequest_bal_def rest_call_def reading_def
  by (auto intro!: keeps_intros keeps_at_world split: option.split)

lemma reading_balances:
  assumes "reading J bc"
  shows "keeps (world_inv J) (getLasTimeWhenBalanceWasChanged bc i a) (\<lambda>_. True)" "keeps (world_inv J) (getAccountBalance bc a) (\<lambda>_. True)"
    "keeps (world_inv J) (getBalanceFromES bc a) (\<lambda>_. True)" "keeps (world_inv J) (getBalancesFromProxy bc a) (\<lambda>_. True)"
    "keeps (world_inv J) (getBalanceFromProxy bc e) (\<lambda>_. True)"
  unfolding getLasTimeWhenBalanceWasChanged_def getAccountBalance_def getBalanceFromES_def getBalancesFromProxy_def getBalanceFromProxy_def Let_def
  by (auto intro!: keeps_intros reading_calls [OF assms] split: sum.split list.split option.split)

lemma reading_accounts:
  assumes "reading J bc"
  shows "keeps (world_inv J) (getAccountsByQuery bc q) (\<lambda>_. True)" "keeps (world_inv J) (getESDTBalancesFromES bc a k) (\<lambda>_. True)"
proof -
  have "keeps (world_inv J) (getAccountsByQuery_handler bc b) (\<lambda>_. True)" for b
    unfolding getAccountsByQuery_handler_def by (intro keeps_intros) (simp add: keeps_def say_def)
  with assms have "keeps (world_inv J) (io_bind (bc_DoScroll (bc_clients bc) accountsesdtIndex q (getAccountsByQuery_handler bc))
      (\<lambda>_ st. (Inr (bs_balances st), st))) (\<lambda>_. True)" for q
    by (intro keeps_intros) (simp add: reading_def)
  then show q: "keeps (world_inv J) (getAccountsByQuery bc q) (\<lambda>_. True)" for q
    by (simp add: keeps_def getAccountsByQuery_def)
  show "keeps (world_inv J) (getESDTBalancesFromES bc a k) (\<lambda>_. True)"
    unfolding getESDTBalancesFromES_def Let_def by (intro keeps_intros q reading_calls [OF assms])
qed

lemma reading_compare:
  assumes "reading J bc" "\<not> doRepair bc"
  shows "keeps (world_inv J) (compareBalances bc es px a f) (\<lambda>_. True)" "keeps (world_inv J) (compare_twice bc a es px) (\<lambda>_. True)"
proof -
  have "keeps (world_inv J) (compareBalances_loop bc a f es px) (\<lambda>_. True)" for es px f
    by (induction es arbitrary: px)
      (auto simp: no_repair [OF assms(2)] Let_def intro!: keeps_intros reading_balances [OF assms(1)] split: option.split)
  then show c: "keeps (world_inv J) (compareBalances bc es px a f) (\<lambda>_. True)" for es px f
    unfolding compareBalances_def by (auto intro!: keeps_intros)
  show "keeps (world_inv J) (compare_twice bc a es px) (\<lambda>_. True)"
    unfolding compare_twice_def getFromESAndCompare_def by (intro keeps_intros c reading_accounts [OF assms(1)])
qed

lemma reading_checks:
  assumes "reading J bc" "\<not> doRepair bc"
  shows "keeps (world_inv J) (CheckESDTBalances bc) (\<lambda>_. True)" "keeps (world_inv J) (CheckEGLDBalances bc) (\<lambda>_. True)"
proof -
  have "keeps (world_inv J) (checkBalancesSC_loop bc a is m) (\<lambda>_. True)" for a "is" m
    by (induction "is" arbitrary: m) (auto intro!: keeps_intros reading_balances [OF assms(1)])
  then have "keeps (world_inv J) (compareBalancesFromES bc a m) (\<lambda>_. True)" for a m
    unfolding compareBalancesFromES_def checkBalancesSC_def
    by (auto intro!: keeps_intros reading_compare [OF assms] reading_balances [OF assms(1)] split: sum.split)
  then show "keeps (world_inv J) (CheckESDTBalances bc) (\<lambda>_. True)"
    unfolding CheckESDTBalances_def by (auto intro!: keeps_intros reading_accounts [OF assms(1)])
  have "keeps (world_inv J) (checkBalance bc acct) (\<lambda>_. True)" for acct
    unfolding checkBalance_def
    by (auto simp: no_repair [OF assms(2)] intro!: keeps_intros reading_balances [OF assms(1)] split: sum.split)
  then have "keeps (world_inv J) (handlerFuncScrollAccountEGLD bc b) (\<lambda>_. True)" for b
    unfolding handlerFuncScrollAccountEGLD_def by (auto intro!: keeps_intros)
  with assms(1) show "keeps (world_inv J) (CheckEGLDBalances bc) (\<lambda>_. True)" by (simp add: CheckEGLDBalances_def reading_def)
qed

lemma keeps_reading_steps:
  "(\<And>w. bulk_calls (snd (m w)) = bulk_calls w) \<Longrightarrow> keeps (\<lambda>w. bulk_calls (bw_es w) = X) (at_es m) (\<lambda>_. True)"
  "keeps (\<lambda>w. bulk_calls (bw_es w) = X) (at_rest r) (\<lambda>_. True)"
  by (simp_all add: keeps_def at_es_def at_rest_def case_prod_unfold)

lemma tool_clients_reading:
  assumes "bc_clients bc = tool_clients n L R url"
  shows "reading (\<lambda>w. bulk_calls (bw_es w) = X) bc"
proof -
  have g: "bulk_calls (snd (DoGetRequest_tool L b i k w)) = bulk_calls w" for b i k w
    by (simp add: DoGetRequest_tool_def io_bind_def updateAndGetCount_def ck_do_def io_fail_def io_of_def bulk_calls_def split: sum.split)
  have "keeps (world_inv (\<lambda>w. bulk_calls (bw_es w) = X)) (DoScrollRequestAllDocuments_bal n L (\<lambda>st. bw_es (bs_world st))
      (\<lambda>e st. st\<lparr>bs_world := (bs_world st)\<lparr>bw_es := e\<rparr>\<rparr>) i q h) (\<lambda>_. True)"
    if "\<And>b. keeps (world_inv (\<lambda>w. bulk_calls (bw_es w) = X)) (h b) (\<lambda>_. True)" for i q h
    using that by (intro bal_pages.scroll_keeps) (auto simp: reads_def)
  then show ?thesis
    using g by (simp add: reading_def assms tool_clients_def keeps_reading_steps) blast
qed

text \<open>
  C3. Without the repair option the checker never writes: with the clients of the tool, whatever the database and the gateway
  answer, a check of either kind sends no bulk request.
\<close>

theorem check_only_sends_no_bulk:
  assumes "bc_clients bc = tool_clients n L R url" "\<not> doRepair bc"
  shows "bulk_calls (bw_es (bs_world (snd (CheckESDTBalances bc st)))) = bulk_calls (bw_es (bs_world st)) \<and>
    bulk_calls (bw_es (bs_world (snd (CheckEGLDBalances bc st)))) = bulk_calls (bw_es (bs_world st))"
  using reading_checks [OF tool_clients_reading [OF assms(1), where X = "bulk_calls (bw_es (bs_world st))"] assms(2)]
  by (simp add: keeps_def)

section \<open>The documents that are repaired\<close>

lemma length_split_snoc: "sep \<notin> set w \<Longrightarrow> length (split_char sep (s @ sep # w)) = Suc (length (split_char sep s))"
  by (simp add: split_char_snoc)

text \<open>
  The identifier that the repair uses is the one under which the indexer keeps the document of the account and the token, for a
  token of two parts (\<^verbatim>\<open>ticker-random\<close>) and any nonce.
\<close>

theorem prepareID_document:
  assumes "ai_TokenIdentifier acct = ComputeTokenIdentifier (ai_TokenName acct) (ai_TokenNonce acct)"
    and "length (split_char (CHR ''-'') (ai_TokenName acct)) = 2"
  shows "prepareID (ai_Address acct) (if ai_TokenIdentifier acct = [] then ai_TokenName acct else ai_TokenIdentifier acct) = account_id acct True"
    and "prepareID (ai_Address acct) [] = account_id acct False"
proof -
  have t: "ai_TokenName acct \<noteq> []" using assms(2) by auto
  have d: "CHR ''-'' \<notin> set (hex_encode x)" for x by (rule hex_encode_no_dash)
  show "prepareID (ai_Address acct) (if ai_TokenIdentifier acct = [] then ai_TokenName acct else ai_TokenIdentifier acct) = account_id acct True"
    using t assms length_split_snoc [OF d, of "ai_TokenName acct"]
    by (auto simp: prepareID_def account_id_def ComputeTokenIdentifier_def EncodeNonceToHex_def)
  show "prepareID (ai_Address acct) [] = account_id acct False" by (simp add: prepareID_def account_id_def)
qed

text \<open>A fungible token whose identifier carries a chain prefix has three parts, and its document is not found.\<close>

theorem prepareID_prefixed_token:
  assumes "ai_TokenNonce acct = 0" "length (split_char (CHR ''-'') (ai_TokenName acct)) = 3"
  shows "prepareID (ai_Address acct) (ai_TokenName acct) \<noteq> account_id acct True"
  using assms by (auto simp: prepareID_def account_id_def EncodeNonceToHex_def)

section \<open>The gateway client\<close>

text \<open>A gateway that cannot be reached is tried eleven times.\<close>

lemma rest_try_errors:
  assumes "\<And>h. rest_Do R h = Inl e" "maxNumOfRetries - k < n" "k \<le> maxNumOfRetries"
  shows "rest_try n R url k sent = (Inl (wrap_error ''too many retries'' e), sent @ replicate (Suc (maxNumOfRetries - k)) url)"
  using assms(2,3)
proof (induction n arbitrary: k sent)
  case (Suc n)
  show ?case
  proof (cases "k < maxNumOfRetries")
    case True
    then have "Suc (maxNumOfRetries - Suc k) = maxNumOfRetries - k" by simp
    with True Suc.IH [of "Suc k" "sent @ [url]"] Suc.prems assms(1) show ?thesis
      by (simp add: replicate_append_same [symmetric] replicate_Suc [symmetric] del: replicate_Suc) (simp add: replicate_app_Cons_same)
  next
    case False
    with Suc.prems assms(1) show ?thesis by simp
  qed
qed simp

text \<open>A gateway that keeps answering 429 is asked for ever.\<close>

theorem rest_try_hangs:
  assumes "\<And>h. \<exists>resp. rest_Do R h = Inr resp \<and> rs_StatusCode resp = 429"
  shows "fst (rest_try n R url k sent) = Inl LoopFuelExhausted"
proof (induction n arbitrary: k sent)
  case (Suc n)
  obtain resp where "rest_Do R (sent @ [url]) = Inr resp" "rs_StatusCode resp = 429" using assms by blast
  with Suc show ?case by simp
qed (simp add: io_fail_def)

text \<open>The command without a log file never ends well.\<close>

lemma startCheck_no_file: "fst (startCheck (Inr False) cfg checker egld esdt st) \<noteq> StartDone ms"
  by (auto simp: startCheck_def split: sum.splits prod.splits)

section \<open>A small database\<close>

text \<open>One account with a token, a gateway that cannot be reached, and a record of the bulk requests.\<close>

definition demo_bal_lib :: bal_lib where
  "demo_bal_lib =
     \<lparr>bl_AccountInfo = (\<lambda>o1. bindo (d_str (get_field ''address'' o1)) (\<lambda>a. bindo (d_str (get_field ''balance'' o1)) (\<lambda>b.
        bindo (d_str (get_field ''token'' o1)) (\<lambda>t. Some \<lparr>ba_Address = a, ba_Balance = b, ba_TokenName = t, ba_TokenIdentifier = []\<rparr>)))),
      bl_TransactionTimestamp = (\<lambda>_. Some 5), bl_ComputeESDTBalanceAsFloat = (\<lambda>_. Fin 1), bl_ComputeBalanceAsFloat = (\<lambda>_. Fin 1),
      bl_Buffers = (\<lambda>m d. [m @ d]), bl_Decode = Inr, bl_IsSmartContractAddress = (\<lambda>_. False)\<rparr>"

definition demo_accounts :: bytes where
  "demo_accounts = json_text (JObj [(''hits'', JObj [(''hits'', JArr (map (\<lambda>(t, b).
     JObj [(''_source'', JObj [(''address'', JStr ''erd1''), (''balance'', JStr b), (''token'', JStr t)])]) [(''T-1'', ''7'')]))])])"

definition demo_clients :: "(string, bytes result) gomap \<Rightarrow> string list bal_clients" where
  "demo_clients gateway =
     \<lparr>bc_DoScroll = (\<lambda>_ _ handler. handler demo_accounts),
      bc_DoGet = (\<lambda>_ index _. io_ok (if index = accountsesdtIndex then demo_accounts else json_text (JObj []))),
      bc_DoBulk = (\<lambda>b _ w. (Inr (), w @ [b])),
      bc_CallGet = (\<lambda>endpoint. io_of (case map_of gateway endpoint of None \<Rightarrow> Inl (ExternalError ''unreachable'') | Some r \<Rightarrow> r))\<rparr>"

definition demo_bal_state :: "string list bal_state" where
  "demo_bal_state = \<lparr>bs_world = [], bs_balances = [], bs_countPages = 0, bs_countCheck = 0, bs_countTotalCompared = 0, bs_log = []\<rparr>"

definition demo_balance_checker :: "(string, bytes result) gomap \<Rightarrow> bool \<Rightarrow> string list balanceChecker" where
  "demo_balance_checker gateway repair =
     \<lparr>bc_lib = demo_bal_lib, bc_clients = demo_clients gateway, maxNumberOfParallelRequests = 2, doRepair = repair\<rparr>"

text \<open>
  When the gateway cannot be reached, a run with repair deletes every balance of the account from the database: the error is only logged, and
  the balances are compared with none.
\<close>

theorem gateway_error_deletes_balances:
  "filter (\<lambda>l. case l of InfoDeleted _ \<Rightarrow> True | _ \<Rightarrow> False) (bs_log (snd (CheckESDTBalances (demo_balance_checker [] True) demo_bal_state))) =
     [InfoDeleted ''erd1-T-1-00'']"
  by code_simp

theorem check_only_never_writes_witness:
  "\<not> doRepair (demo_balance_checker [] False) \<and>
   CheckESDTBalances (with_bulk (\<lambda>_ _. io_fail ErrBackOff) (demo_balance_checker [] False)) demo_bal_state =
     CheckESDTBalances (demo_balance_checker [] False) demo_bal_state"
proof -
  have r: "\<not> doRepair (demo_balance_checker [] False)" by (simp add: demo_balance_checker_def)
  with check_only_never_writes [OF r, of "\<lambda>_ _. io_fail ErrBackOff"] show ?thesis by simp
qed

text \<open>The clients of the tool on a database that always answers with this page, and the same gateway.\<close>

definition demo_tool_checker :: "bal_world balanceChecker" where
  "demo_tool_checker =
     \<lparr>bc_lib = demo_bal_lib,
      bc_clients = tool_clients 11
        \<lparr>ck_answer = (\<lambda>_. Inr \<lparr>rs_StatusCode = 200, rs_Body = Body demo_accounts\<rparr>), ck_IsError = (\<lambda>_. False), ck_String = (\<lambda>_. []),
         ck_gjson_Uint = (\<lambda>_ _. 0), ck_gjson_Int = (\<lambda>_ _. 0), ck_gjson_String = (\<lambda>_ _. ''scroll''), ck_Intn10 = (\<lambda>_. 0)\<rparr>
        \<lparr>rest_NewRequest = (\<lambda>_. Inr ()), rest_Do = (\<lambda>_. Inl (ExternalError ''unreachable''))\<rparr> ''gateway'',
      maxNumberOfParallelRequests = 2, doRepair = False\<rparr>"

definition demo_tool_state :: "bal_world bal_state" where
  "demo_tool_state =
     \<lparr>bs_world = \<lparr>bw_es = \<lparr>ck_calls = [], ck_countScroll = 0, ck_countSearch = 0, ck_draws = 0\<rparr>, bw_sent = []\<rparr>,
      bs_balances = [], bs_countPages = 0, bs_countCheck = 0, bs_countTotalCompared = 0, bs_log = []\<rparr>"

theorem check_only_sends_no_bulk_witness:
  "\<not> doRepair demo_tool_checker \<and>
   bulk_calls (bw_es (bs_world (snd (CheckESDTBalances demo_tool_checker demo_tool_state)))) = [] \<and>
   bulk_calls (bw_es (bs_world (snd (CheckEGLDBalances demo_tool_checker demo_tool_state)))) = []"
proof -
  have "\<not> doRepair demo_tool_checker" "bulk_calls (bw_es (bs_world demo_tool_state)) = []"
    by (simp_all add: demo_tool_checker_def demo_tool_state_def bulk_calls_def)
  moreover have "\<exists>L R url. bc_clients demo_tool_checker = tool_clients 11 L R url" by (auto simp: demo_tool_checker_def)
  ultimately show ?thesis using check_only_sends_no_bulk [of demo_tool_checker 11 _ _ _ demo_tool_state] by auto
qed

lemma demo_calm: "calm (demo_balance_checker g r)"
  by (auto simp: calm_def demo_balance_checker_def demo_clients_def demo_bal_lib_def no_crash_def io_ok_def)

theorem compareBalances_second_witness:
  "\<exists>st'. compareBalances (demo_balance_checker [] True) [(''T-1'', ''7''), (''U-2'', ''9'')] [(''T-1'', ''8''), (''V-3'', ''4''), (''W-4'', ''0'')] ''erd1'' False demo_bal_state =
     (Inr False, st') \<and>
   bal_reports st' = [DifferentBalance ''erd1'' ''T-1'' ''7'' ''8'' 0 [], ExtraBalance ''erd1'' ''U-2'' 0 [], MissingBalance ''erd1'' ''V-3'' ''4'']"
  using compareBalances_second [OF demo_calm, of "[(''T-1'', ''7''), (''U-2'', ''9'')]" "[(''T-1'', ''8''), (''V-3'', ''4''), (''W-4'', ''0'')]" "[]" True "''erd1''" demo_bal_state]
  by (simp add: gm_wf_def es_reports_def bal_reports_def demo_bal_state_def)

end
