(* ===== verification/Index_Tools.thy ===== *)
theory Index_Tools
  imports Tools_Client Core_Lib
begin

text \<open>
  The tools that rewrite and create indices: the index modifier (\<^verbatim>\<open>tools/index-modifier\<close>), which reads every document of an index, parses
  its data field again and writes it back, with its shard coordinator, and the creator of indices
  (\<^verbatim>\<open>tools/indices-creator\<close>).  Both are built against an earlier release of the indexer: its documents, bulk buffer and client are
  parameters, as are the data field parser and the address converter.
\<close>

section \<open>Index modifier (modifiers/txsModifier.go, scrsModifier.go)\<close>

text \<open>A document type \<open>'t\<close> of that release, with the fields the modifiers use, and its bulk buffer \<open>'b\<close>.\<close>

record ('t, 'b) mod_lib =
  ml_dec :: "(string \<times> jv) list \<Rightarrow> 't option"
  ml_Marshal :: "'t \<Rightarrow> bytes result"
  ml_Status :: "'t \<Rightarrow> string"
  ml_Sender :: "'t \<Rightarrow> string"
  ml_Receiver :: "'t \<Rightarrow> string"
  ml_Data :: "'t \<Rightarrow> bytes"
  ml_set_parsed :: "ResponseParseData \<Rightarrow> 't \<Rightarrow> 't"
  ml_Decode :: "string \<Rightarrow> bytes result"
  ml_Parse :: "bytes \<Rightarrow> bytes \<Rightarrow> bytes \<Rightarrow> u32 \<Rightarrow> ResponseParseData"
  ml_NewBufferSlice :: 'b
  ml_PutData :: "bytes \<Rightarrow> bytes \<Rightarrow> 'b \<Rightarrow> unit result \<times> 'b"
  ml_Buffers :: "'b \<Rightarrow> bytes list"

text \<open>The hits of a page; an absent source is a nil pointer.\<close>

definition response_bulk_dec :: "('t, 'b) mod_lib \<Rightarrow> (string \<times> jv) list \<Rightarrow> (string \<times> 't option) list option" where
  "response_bulk_dec L o1 =
     d_struct (\<lambda>o2. d_list (d_struct (\<lambda>o3.
       bindo (d_str (get_field ''_id'' o3)) (\<lambda>i. bindo (d_ptr (d_struct (ml_dec L)) (get_field ''_source'' o3)) (\<lambda>s. Some (i, s)))))
       (get_field ''hits'' o2)) (get_field ''hits'' o1)"

definition shouldIgnoreTx :: "('t, 'b) mod_lib \<Rightarrow> 't \<Rightarrow> bool" where
  "shouldIgnoreTx L tx \<longleftrightarrow> ml_Status L tx = ''pending''"

definition shouldIgnoreSCR :: "('t, 'b) mod_lib \<Rightarrow> 't \<Rightarrow> bool" where
  "shouldIgnoreSCR L scr \<longleftrightarrow> ml_Status L scr = ''pending''"

definition document_meta :: "string \<Rightarrow> bytes" where
  "document_meta hash = ''{ \"index\" : { \"_id\" : \"'' @ hash @ ''\" } }\<newline>''"

definition serializeTx :: "('t, 'b) mod_lib \<Rightarrow> string \<Rightarrow> 't \<Rightarrow> (bytes \<times> bytes) result" where
  "serializeTx L hash tx = bindr (ml_Marshal L tx) (\<lambda>serializedData. Inr (document_meta hash, serializedData))"

definition serializeSCR :: "('t, 'b) mod_lib \<Rightarrow> string \<Rightarrow> 't \<Rightarrow> (bytes \<times> bytes) result" where
  "serializeSCR L hash scr = bindr (ml_Marshal L scr) (\<lambda>serializedData. Inr (document_meta hash, serializedData))"

definition prepareSCRForIndexing :: "('t, 'b) mod_lib \<Rightarrow> 't \<Rightarrow> 't result" where
  "prepareSCRForIndexing L scr =
     bindr (ml_Decode L (ml_Sender L scr)) (\<lambda>sndAddr.
     bindr (ml_Decode L (ml_Receiver L scr)) (\<lambda>rcvAddr.
       Inr (ml_set_parsed L (ml_Parse L (ml_Data L scr) sndAddr rcvAddr 3) scr)))"

text \<open>The sender of a reward is the number of the metachain.\<close>

definition prepareTxForIndexing :: "('t, 'b) mod_lib \<Rightarrow> 't \<Rightarrow> 't result" where
  "prepareTxForIndexing L tx =
     (if ml_Sender L tx = ''4294967295'' then Inr tx
      else bindr (ml_Decode L (ml_Sender L tx)) (\<lambda>sndAddr.
           bindr (ml_Decode L (ml_Receiver L tx)) (\<lambda>rcvAddr.
             Inr (ml_set_parsed L (ml_Parse L (ml_Data L tx) sndAddr rcvAddr 3) tx))))"

datatype mod_warning = CannotPrepare string go_error | CannotSerialize string go_error | CannotPut string go_error

text \<open>The loop over the hits, the same in both modifiers: a document that fails is logged and left out.\<close>

fun modify_hits ::
    "('t, 'b) mod_lib \<Rightarrow> ('t \<Rightarrow> bool) \<Rightarrow> ('t \<Rightarrow> 't result) \<Rightarrow> (string \<Rightarrow> 't \<Rightarrow> (bytes \<times> bytes) result) \<Rightarrow>
     (string \<times> 't option) list \<Rightarrow> 'b \<times> mod_warning list \<Rightarrow> ('b \<times> mod_warning list) result" where
  "modify_hits L ignore prepare serialize [] s = Inr s"
| "modify_hits L ignore prepare serialize ((hash, source) # hits) (b, ws) =
     (case source of
        None \<Rightarrow> Inl PanicNilDereference
      | Some d \<Rightarrow>
          modify_hits L ignore prepare serialize hits
            (if ignore d then (b, ws)
             else (case prepare d of
                     Inl e \<Rightarrow> (b, ws @ [CannotPrepare hash e])
                   | Inr d' \<Rightarrow>
                       (case serialize hash d' of
                          Inl e \<Rightarrow> (b, ws @ [CannotSerialize hash e])
                        | Inr (meta, serializedData) \<Rightarrow>
                            (case ml_PutData L meta serializedData b of
                               (Inl e, b') \<Rightarrow> (b', ws @ [CannotPut hash e])
                             | (Inr _, b') \<Rightarrow> (b', ws))))))"

definition Modify_txs :: "('t, 'b) mod_lib \<Rightarrow> bytes \<Rightarrow> (bytes list \<times> mod_warning list) result" where
  "Modify_txs L responseBody =
     bindr (Unmarshal (response_bulk_dec L) responseBody) (\<lambda>hits.
     bindr (modify_hits L (shouldIgnoreTx L) (prepareTxForIndexing L) (serializeTx L) hits (ml_NewBufferSlice L, [])) (\<lambda>(b, ws).
       Inr (ml_Buffers L b, ws)))"

definition Modify_scrs :: "('t, 'b) mod_lib \<Rightarrow> bytes \<Rightarrow> (bytes list \<times> mod_warning list) result" where
  "Modify_scrs L responseBody =
     bindr (Unmarshal (response_bulk_dec L) responseBody) (\<lambda>hits.
     bindr (modify_hits L (shouldIgnoreSCR L) (prepareSCRForIndexing L) (serializeSCR L) hits (ml_NewBufferSlice L, [])) (\<lambda>(b, ws).
       Inr (ml_Buffers L b, ws)))"

text \<open>
  The constructors: the address converter \<open>'k\<close> and the parser \<open>'p\<close> come from other packages; a modifier uses the converter to decode an
  address and the parser on the data field.
\<close>

definition createOperationParser :: "(string \<Rightarrow> 'm result) \<Rightarrow> ('m \<Rightarrow> 'p result) \<Rightarrow> string \<Rightarrow> 'p result" where
  "createOperationParser newMarshalizer newParser gogoProtobuf =
     bindr (newMarshalizer gogoProtobuf) (\<lambda>marshalizer. newParser marshalizer)"

definition createPubKeyConverterAndParser :: "(int \<Rightarrow> 'k result) \<Rightarrow> 'p result \<Rightarrow> ('k \<times> 'p) result" where
  "createPubKeyConverterAndParser newBech32 operationParser =
     bindr (newBech32 32) (\<lambda>pubKeyConverter. bindr operationParser (\<lambda>parser. Inr (pubKeyConverter, parser)))"

type_synonym address_converter = "string \<Rightarrow> bytes result"
type_synonym data_field_parser = "bytes \<Rightarrow> bytes \<Rightarrow> bytes \<Rightarrow> u32 \<Rightarrow> ResponseParseData"

definition NewTxsModifier :: "('t, 'b) mod_lib \<Rightarrow> (address_converter \<times> data_field_parser) result \<Rightarrow> ('t, 'b) mod_lib result" where
  "NewTxsModifier L created =
     bindr created (\<lambda>(pubKeyConverter, parser). Inr (L\<lparr>ml_Decode := pubKeyConverter, ml_Parse := parser\<rparr>))"

definition NewSCRsModifier :: "('t, 'b) mod_lib \<Rightarrow> (address_converter \<times> data_field_parser) result \<Rightarrow> ('t, 'b) mod_lib result" where
  "NewSCRsModifier L created =
     bindr created (\<lambda>(pubKeyConverter, parser). Inr (L\<lparr>ml_Decode := pubKeyConverter, ml_Parse := parser\<rparr>))"

section \<open>The index that is altered (alterindex/reindex.go)\<close>

definition queryMatchAll :: bytes where
  "queryMatchAll = ''{\"query\":{\"match_all\": {}}}''"

record 's indexModifier =
  im_scroll :: "string \<Rightarrow> bytes \<Rightarrow> (bytes \<Rightarrow> ('s, unit) io) \<Rightarrow> ('s, unit) io"
  im_bulk :: "bytes \<Rightarrow> string \<Rightarrow> ('s, unit) io"

definition AlterIndex_handler :: "'s indexModifier \<Rightarrow> string \<Rightarrow> (bytes \<Rightarrow> bytes list result) \<Rightarrow> bytes \<Rightarrow> ('s, unit) io" where
  "AlterIndex_handler im indexWrite modifier responseBytes =
     io_bind (io_wrap ''while preparing data for indexing'' (io_of (modifier responseBytes))) (\<lambda>dataBuffers.
       io_each (\<lambda>b. io_wrap ''while r.destinationElastic.DoBulkRequest'' (im_bulk im b indexWrite)) dataBuffers)"

definition AlterIndex :: "'s indexModifier \<Rightarrow> string \<Rightarrow> string \<Rightarrow> (bytes \<Rightarrow> bytes list result) \<Rightarrow> ('s, unit) io" where
  "AlterIndex im indexRead indexWrite modifier =
     io_wrap ''while r.sourceElastic.DoScrollRequestAllDocuments''
       (im_scroll im indexRead queryMatchAll (AlterIndex_handler im indexWrite modifier))"

text \<open>The scroll goes through the client of the tool; the bulk requests through that of the earlier release.\<close>

definition CreateIndexModifier ::
    "unit result \<Rightarrow> unit result \<Rightarrow> nat \<Rightarrow> ck_lib \<Rightarrow> (bytes \<Rightarrow> string \<Rightarrow> ('v, unit) io) \<Rightarrow> (ck_esClient \<times> 'v) indexModifier result" where
  "CreateIndexModifier scrollClient bulkClient n L bulk =
     bindr scrollClient (\<lambda>_. bindr bulkClient (\<lambda>_.
       Inr \<lparr>im_scroll = DoScrollRequestAllDocuments_tool n L fst (\<lambda>w s. (w, snd s)),
            im_bulk = (\<lambda>b index s. case bulk b index (snd s) of (r, v) \<Rightarrow> (r, (fst s, v)))\<rparr>))"

text \<open>The two commands (\<^verbatim>\<open>cmd\<close>): every error ends them with a panic that names it; the warnings of a modifier go to the log.\<close>

datatype modifier_end = ModifierPanics string go_error | ModifierDone

definition modifier_main ::
    "'s indexModifier result \<Rightarrow> string \<Rightarrow> string \<Rightarrow> ('t, 'b) mod_lib result \<Rightarrow>
     (('t, 'b) mod_lib \<Rightarrow> bytes \<Rightarrow> (bytes list \<times> mod_warning list) result) \<Rightarrow> 's \<Rightarrow> modifier_end \<times> 's" where
  "modifier_main created kind index modifier modify w =
     (case created of
        Inl e \<Rightarrow> (ModifierPanics ''cannot create index modifier: '' e, w)
      | Inr im \<Rightarrow>
     (case modifier of
        Inl e \<Rightarrow> (ModifierPanics (''cannot create '' @ kind @ '' modifier: '') e, w)
      | Inr L \<Rightarrow>
     (case AlterIndex im index index (\<lambda>b. bindr (modify L b) (\<lambda>r. Inr (fst r))) w of
        (Inl e, w1) \<Rightarrow> (ModifierPanics ''cannot modify index: '' e, w1)
      | (Inr _, w1) \<Rightarrow> (ModifierDone, w1))))"

definition main_transactions_modifier :: "'s indexModifier result \<Rightarrow> ('t, 'b) mod_lib result \<Rightarrow> 's \<Rightarrow> modifier_end \<times> 's" where
  "main_transactions_modifier created modifier = modifier_main created ''transactions'' ''transactions'' modifier Modify_txs"

definition main_scrs_modifier :: "'s indexModifier result \<Rightarrow> ('t, 'b) mod_lib result \<Rightarrow> 's \<Rightarrow> modifier_end \<times> 's" where
  "main_scrs_modifier created modifier = modifier_main created ''smart contract results'' ''scresults'' modifier Modify_scrs"

section \<open>The shard coordinator (modifiers/utils)\<close>

record multiShardCoordinator =
  maskHigh :: u32
  maskLow :: u32
  selfId :: u32
  numberOfShards :: u32

text \<open>
  \<^verbatim>\<open>math.Ceil(math.Log2(n))\<close>, exact for the numbers of 32 bits, is the number of binary digits of \<open>n - 1\<close>.  For a single shard
  the lower mask would come from a negative shift; it is never used then.
\<close>

definition calculateMasks :: "u32 \<Rightarrow> u32 \<times> u32" where
  "calculateMasks shards =
     (let n = bitlen_nat (unat shards - 1) in (push_bit n 1 - 1, push_bit (n - 1) 1 - 1))"

definition NewMultiShardCoordinator :: "u32 \<Rightarrow> u32 \<Rightarrow> multiShardCoordinator" where
  "NewMultiShardCoordinator shards self =
     (let (high, low) = calculateMasks shards in \<lparr>maskHigh = high, maskLow = low, selfId = self, numberOfShards = shards\<rparr>)"

definition bytesNeed :: "u32 \<Rightarrow> nat" where
  "bytesNeed shards = (if shards \<le> 256 then 1 else if shards \<le> 65536 then 2 else if shards \<le> 16777216 then 3 else 4)"

definition ComputeIdFromBytes :: "(bytes \<Rightarrow> bytes \<Rightarrow> bool) \<Rightarrow> u32 \<Rightarrow> multiShardCoordinator \<Rightarrow> bytes \<Rightarrow> u32" where
  "ComputeIdFromBytes isSmartContractOnMetachain metachainShardId msc address =
     (let need = bytesNeed (numberOfShards msc);
          buffNeeded = drop (length address - need) address in
      if isSmartContractOnMetachain buffNeeded address then metachainShardId
      else let addr = foldl (\<lambda>a c. push_bit 8 a + of_nat (of_char c)) 0 buffNeeded;
               shard = and addr (maskHigh msc) in
        if shard > numberOfShards msc - 1 then and addr (maskLow msc) else shard)"

section \<open>The creator of indices (tools/indices-creator)\<close>

definition getTemplateByIndex :: "(string \<Rightarrow> bytes result) \<Rightarrow> string \<Rightarrow> string \<Rightarrow> bytes result" where
  "getTemplateByIndex readFile path index =
     (case readFile (path @ ''/'' @ index @ ''.json'') of
        Inl e \<Rightarrow> Inl (wrap_error ''getTemplateByIndex'' e) | Inr fileBytes \<Rightarrow> Inr fileBytes)"

definition GetElasticTemplatesAndPolicies_tool :: "(string \<Rightarrow> bytes result) \<Rightarrow> string \<Rightarrow> string list \<Rightarrow> (string, bytes) gomap result" where
  "GetElasticTemplatesAndPolicies_tool readFile path indexes =
     fold_r (\<lambda>index m. bindr (getTemplateByIndex readFile path index) (\<lambda>b. Inr (gm_set index b m))) indexes []"

record 'w creator_client =
  cl_CheckAndCreateTemplate :: "string \<Rightarrow> bytes \<Rightarrow> ('w, unit) io"
  cl_CheckAndCreateIndex :: "string \<Rightarrow> ('w, unit) io"
  cl_CheckAndCreateAlias :: "string \<Rightarrow> string \<Rightarrow> ('w, unit) io"

text \<open>The error of the alias is looked up in another variable, which is nil here: it is dropped.\<close>

definition create_one :: "'w creator_client \<Rightarrow> string \<times> bytes \<Rightarrow> ('w, unit) io" where
  "create_one C d =
     (let (index, indexData) = d; indexName = index @ ''-000001'' in
      io_bind (io_wrap (''index: '' @ index) (cl_CheckAndCreateTemplate C index indexData)) (\<lambda>_.
      io_bind (io_wrap (''index: '' @ index) (cl_CheckAndCreateIndex C indexName)) (\<lambda>_.
        log_only (cl_CheckAndCreateAlias C index indexName))))"

definition createTemplates_tool :: "'w creator_client result \<Rightarrow> (string, bytes) gomap \<Rightarrow> ('w, unit) io" where
  "createTemplates_tool databaseClient indexesMappings =
     io_bind (io_of databaseClient) (\<lambda>C. io_each (create_one C) indexesMappings)"

record creator_config =
  cr_UseKibana :: bool
  cr_EnabledIndices :: "string list"

datatype create_end = CreatePanics | CreateFailed string go_error | CreateDone

text \<open>An error of the configuration file is logged, and its nil result is used.\<close>

definition createIndexesAndMappings ::
    "(string \<Rightarrow> bytes result) \<Rightarrow> creator_config result \<Rightarrow> (creator_config \<Rightarrow> 'w creator_client result) \<Rightarrow> string \<Rightarrow> 'w \<Rightarrow> create_end \<times> 'w" where
  "createIndexesAndMappings readFile config newClient cfgPath w =
     (case config of Inl e \<Rightarrow> (CreatePanics, w)
      | Inr cfg \<Rightarrow>
     (case GetElasticTemplatesAndPolicies_tool readFile (cfgPath @ (if cr_UseKibana cfg then ''/withKibana'' else ''/noKibana'')) (cr_EnabledIndices cfg) of
        Inl e \<Rightarrow> (CreateFailed ''cannot load templates'' e, w)
      | Inr indexesMappings \<Rightarrow>
     (case createTemplates_tool (newClient cfg) indexesMappings w of
        (Inl e, w1) \<Rightarrow> (if is_panic e then CreatePanics else CreateFailed ''cannot create templates'' e, w1)
      | (Inr _, w1) \<Rightarrow> (CreateDone, w1))))"

section \<open>What the modifiers write\<close>

text \<open>The entry of a hit: none for a pending document or one that cannot be prepared or encoded.\<close>

definition hit_entry :: "('t \<Rightarrow> bool) \<Rightarrow> ('t \<Rightarrow> 't result) \<Rightarrow> (string \<Rightarrow> 't \<Rightarrow> (bytes \<times> bytes) result) \<Rightarrow> string \<times> 't \<Rightarrow> (bytes \<times> bytes) list" where
  "hit_entry ignore prepare serialize hit =
     (if ignore (snd hit) then []
      else (case bindr (prepare (snd hit)) (serialize (fst hit)) of Inl _ \<Rightarrow> [] | Inr e \<Rightarrow> [e]))"

lemma modify_hits_entries:
  "\<exists>ws'. modify_hits L ignore prepare serialize (map (map_prod id Some) hits) (b, ws) =
    Inr (fold (\<lambda>(m, d) b. snd (ml_PutData L m d b)) (concat (map (hit_entry ignore prepare serialize) hits)) b, ws')"
proof (induction hits arbitrary: b ws)
  case (Cons hit hits)
  obtain h d where hit: "hit = (h, d)" by (cases hit)
  show ?case
  proof (cases "ignore d")
    case True
    with Cons hit show ?thesis by (simp add: hit_entry_def)
  next
    case False
    then show ?thesis
      using Cons hit by (cases "prepare d"; cases "serialize h (projr (prepare d))"; simp add: hit_entry_def; fastforce split: prod.splits sum.splits)
  qed
qed simp

text \<open>
  A page of documents is rewritten document by document: the buffers hold the entries of the documents that are not
  pending and can be prepared and encoded, in the order of the page, each under its own identifier.
\<close>

theorem Modify_entries:
  assumes "Unmarshal (response_bulk_dec L) body = Inr (map (map_prod id Some) hits)"
  shows "\<exists>ws. Modify_txs L body = Inr (ml_Buffers L (fold (\<lambda>(m, d) b. snd (ml_PutData L m d b))
      (concat (map (hit_entry (shouldIgnoreTx L) (prepareTxForIndexing L) (serializeTx L)) hits)) (ml_NewBufferSlice L)), ws)"
    and "\<exists>ws. Modify_scrs L body = Inr (ml_Buffers L (fold (\<lambda>(m, d) b. snd (ml_PutData L m d b))
      (concat (map (hit_entry (shouldIgnoreSCR L) (prepareSCRForIndexing L) (serializeSCR L)) hits)) (ml_NewBufferSlice L)), ws)"
proof -
  obtain ws where "modify_hits L (shouldIgnoreTx L) (prepareTxForIndexing L) (serializeTx L) (map (map_prod id Some) hits) (ml_NewBufferSlice L, []) =
      Inr (fold (\<lambda>(m, d) b. snd (ml_PutData L m d b)) (concat (map (hit_entry (shouldIgnoreTx L) (prepareTxForIndexing L) (serializeTx L)) hits))
        (ml_NewBufferSlice L), ws)"
    using modify_hits_entries [of L] by blast
  then show "\<exists>ws. Modify_txs L body = Inr (ml_Buffers L (fold (\<lambda>(m, d) b. snd (ml_PutData L m d b))
      (concat (map (hit_entry (shouldIgnoreTx L) (prepareTxForIndexing L) (serializeTx L)) hits)) (ml_NewBufferSlice L)), ws)"
    by (simp add: Modify_txs_def assms)
  obtain ws where "modify_hits L (shouldIgnoreSCR L) (prepareSCRForIndexing L) (serializeSCR L) (map (map_prod id Some) hits) (ml_NewBufferSlice L, []) =
      Inr (fold (\<lambda>(m, d) b. snd (ml_PutData L m d b)) (concat (map (hit_entry (shouldIgnoreSCR L) (prepareSCRForIndexing L) (serializeSCR L)) hits))
        (ml_NewBufferSlice L), ws)"
    using modify_hits_entries [of L] by blast
  then show "\<exists>ws. Modify_scrs L body = Inr (ml_Buffers L (fold (\<lambda>(m, d) b. snd (ml_PutData L m d b))
      (concat (map (hit_entry (shouldIgnoreSCR L) (prepareSCRForIndexing L) (serializeSCR L)) hits)) (ml_NewBufferSlice L)), ws)"
    by (simp add: Modify_scrs_def assms)
qed

section \<open>What is written to the index\<close>

text \<open>
  The bulk client is that of the earlier release; \<open>sent\<close> are the requests it has been asked for, each a body and an index, whatever
  their outcome.
\<close>

lemma CreateIndexModifier_clients:
  assumes "CreateIndexModifier scrollClient bulkClient n L bulk = Inr im"
  shows "im_scroll im = DoScrollRequestAllDocuments_tool n L fst (\<lambda>w s. (w, snd s))"
    "im_bulk im = (\<lambda>b index s. case bulk b index (snd s) of (r, v) \<Rightarrow> (r, (fst s, v)))"
  using assms by (auto simp: CreateIndexModifier_def bindr_Inr_iff)

lemma AlterIndex_handler_sends:
  "modifier body = Inr bs \<Longrightarrow> AlterIndex_handler im index modifier body t =
    io_each (\<lambda>b. io_wrap ''while r.destinationElastic.DoBulkRequest'' (im_bulk im b index)) bs t"
  by (simp add: AlterIndex_handler_def io_bind_def io_wrap_def [of _ "io_of _"] io_of_def)

lemma io_each_writes:
  assumes "\<And>b v. sent (snd (m b v)) = sent v @ [(b, i)]"
  shows "\<exists>new. sent (snd (io_each m bs v)) = sent v @ new \<and> list_all (\<lambda>x. snd x = i \<and> fst x \<in> set bs) new"
proof (induction bs arbitrary: v)
  case (Cons b bs)
  obtain r v1 where r: "m b v = (r, v1)" "sent v1 = sent v @ [(b, i)]" using assms [of b v] by (cases "m b v") simp
  obtain new where "sent (snd (io_each m bs v1)) = sent v1 @ new" "list_all (\<lambda>x. snd x = i \<and> fst x \<in> set bs) new" using Cons.IH by blast
  moreover from this(2) have "list_all (\<lambda>x. snd x = i \<and> fst x \<in> set (b # bs)) new" by (auto elim: list.pred_mono_strong)
  ultimately show ?case using r by (cases r) (auto simp: io_bind_def)
qed (simp add: io_ok_def)

text \<open>
  The index modifier writes nothing but what the modifier made of a page, and only to the index it was told to write: also when
  requests fail, and for any server.
\<close>

theorem AlterIndex_writes:
  assumes im: "CreateIndexModifier scrollClient bulkClient n L bulk = Inr im"
    and sent: "\<And>b i v. sent (snd (bulk b i v)) = sent v @ [(b, i)]"
  shows "\<exists>new. sent (snd (snd (AlterIndex im indexRead indexWrite modifier s))) = sent (snd s) @ new \<and>
    list_all (\<lambda>x. snd x = indexWrite \<and> (\<exists>body bs. modifier body = Inr bs \<and> fst x \<in> set bs)) new"
proof -
  have handler: "\<exists>new. sent (snd (snd (AlterIndex_handler im indexWrite modifier body t))) = sent (snd t) @ new \<and>
      list_all (\<lambda>x. snd x = indexWrite \<and> (\<exists>body bs. modifier body = Inr bs \<and> fst x \<in> set bs)) new" for body t
  proof (cases "modifier body")
    case (Inl e)
    then show ?thesis by (simp add: AlterIndex_handler_def io_bind_def io_wrap_def io_of_def)
  next
    case (Inr bs)
    have one: "sent (snd (snd (io_wrap ''while r.destinationElastic.DoBulkRequest'' (im_bulk im b indexWrite) v))) = sent (snd v) @ [(b, indexWrite)]" for b v
      using sent [of b indexWrite "snd v"]
      by (cases "bulk b indexWrite (snd v)") (simp add: CreateIndexModifier_clients [OF im] io_wrap_def split: sum.split)
    obtain new where "sent (snd (snd (AlterIndex_handler im indexWrite modifier body t))) = sent (snd t) @ new"
      "list_all (\<lambda>x. snd x = indexWrite \<and> fst x \<in> set bs) new"
      using io_each_writes [of "\<lambda>v. sent (snd v)", OF one, where bs = bs and v = t] unfolding AlterIndex_handler_sends [of modifier body, OF Inr] by blast
    with Inr show ?thesis by (auto elim!: list.pred_mono_strong)
  qed
  have "snd (AlterIndex im indexRead indexWrite modifier s) =
      snd (DoScrollRequestAllDocuments_tool n L fst (\<lambda>w s. (w, snd s)) indexRead queryMatchAll (AlterIndex_handler im indexWrite modifier) s)"
    by (simp add: AlterIndex_def CreateIndexModifier_clients [OF im] io_wrap_def split: prod.split sum.split)
  moreover have "sent (snd t) = sent (snd u)" if "reads fst (\<lambda>w s. (w, snd s)) u t" for u t :: "ck_esClient \<times> _"
    using that by (auto simp: reads_def)
  note tool_pages.scroll_all [where written = "\<lambda>t. sent (snd t)" and handler = "AlterIndex_handler im indexWrite modifier", OF this handler]
  ultimately show ?thesis by simp
qed

text \<open>
  And it writes all of it: when the server serves the pages of the index, every page can be modified and every bulk request
  succeeds, the run ends without an error and the buffers of all pages have been sent, in order.
\<close>

lemma io_each_sends:
  "(\<And>b t. \<exists>u. m b t = (Inr (), u) \<and> get u = get t \<and> obs u = obs t @ [f b]) \<Longrightarrow>
    \<exists>u. io_each m bs t = (Inr (), u) \<and> get u = get t \<and> obs u = obs t @ map f bs"
proof (induction bs arbitrary: t)
  case (Cons b bs)
  obtain u where u: "m b t = (Inr (), u)" "get u = get t" "obs u = obs t @ [f b]" using Cons.prems by blast
  with Cons.IH [OF Cons.prems, of u] show ?case by (auto simp: io_bind_def)
qed (simp add: io_ok_def)

theorem AlterIndex_complete:
  assumes im: "CreateIndexModifier scrollClient bulkClient n L bulk = Inr im"
    and serves: "serves_pages L body N" "0 < N" "N \<le> n" "ck_scrolls (ck_calls (fst s)) = 0"
    and modifier: "\<And>b. modifier b = Inr (buffers b)"
    and sent: "\<And>b i v. fst (bulk b i v) = Inr () \<and> sent (snd (bulk b i v)) = sent v @ [(b, i)]"
  shows "\<exists>s'. AlterIndex im indexRead indexWrite modifier s = (Inr (), s') \<and>
    sent (snd s') = sent (snd s) @ map (\<lambda>b. (b, indexWrite)) (concat (map (\<lambda>k. buffers (body k)) [0..<N]))"
proof -
  let ?m = "\<lambda>b. io_wrap ''while r.destinationElastic.DoBulkRequest'' (im_bulk im b indexWrite)"
  have "\<exists>u. ?m b t = (Inr (), u) \<and> fst u = fst t \<and> sent (snd u) = sent (snd t) @ [(b, indexWrite)]" for b t
    using sent [of b indexWrite "snd t"]
    by (cases "bulk b indexWrite (snd t)") (simp add: io_wrap_def CreateIndexModifier_clients [OF im])
  note each = io_each_sends [of ?m fst "\<lambda>t. sent (snd t)" "\<lambda>b. (b, indexWrite)", OF this]
  have "page_handler fst (\<lambda>t. sent (snd t)) (\<lambda>b. map (\<lambda>x. (x, indexWrite)) (buffers b)) (AlterIndex_handler im indexWrite modifier)"
    unfolding page_handler_def AlterIndex_handler_sends [of modifier, OF modifier] using each by blast
  from scroll_served [OF serves(1-3) _ _ this serves(4), of "\<lambda>w s. (w, snd s)" indexRead queryMatchAll] obtain s' where
    "DoScrollRequestAllDocuments_tool n L fst (\<lambda>w s. (w, snd s)) indexRead queryMatchAll (AlterIndex_handler im indexWrite modifier) s = (Inr (), s')"
    "sent (snd s') = sent (snd s) @ concat (map (\<lambda>j. map (\<lambda>x. (x, indexWrite)) (buffers (body j))) [0..<N])" by auto
  then show ?thesis by (simp add: AlterIndex_def CreateIndexModifier_clients [OF im] io_wrap_def map_concat comp_def)
qed

section \<open>Shards\<close>

lemma low_mask_bound:
  assumes "1 < unat n"
  shows "(push_bit (bitlen_nat (unat n - 1) - 1) 1 - 1 :: u32) < n"
proof -
  let ?k = "bitlen_nat (unat n - 1) - 1"
  have k: "2 ^ ?k \<le> unat n - 1" using bitlen_bounds [of "unat n - 1"] assms by simp
  have "unat n - 1 < 2 ^ 32" using unsigned_less [of n, where 'a = nat] by simp
  with k have "(2 :: nat) ^ ?k < 2 ^ 32" by (rule le_less_trans)
  then have "?k < 32" by (rule power_less_imp_less_exp [rotated]) simp
  then have "unat (of_nat (2 ^ ?k) :: u32) = 2 ^ ?k" by (simp only: unsigned_of_nat) (simp add: take_bit_nat_eq_self)
  then have u: "unat (push_bit ?k 1 :: u32) = 2 ^ ?k" by (simp add: push_bit_eq_mult)
  then have "unat (push_bit ?k 1 - 1 :: u32) = 2 ^ ?k - 1" by (subst unat_minus_one) (auto simp: unat_eq_0 [symmetric])
  moreover have "2 ^ ?k - 1 < unat n" using k assms by linarith
  ultimately show ?thesis by (simp add: word_less_nat_alt)
qed

text \<open>The shard of an address is one of the shards, for any number of them; only the contracts of the metachain are elsewhere.\<close>

theorem ComputeIdFromBytes_bound:
  assumes "shards \<noteq> 0" "\<not> meta (drop (length address - bytesNeed shards) address) address"
  shows "ComputeIdFromBytes meta m (NewMultiShardCoordinator shards self) address < shards"
proof -
  let ?c = "NewMultiShardCoordinator shards self"
  have c: "numberOfShards ?c = shards" "maskHigh ?c = push_bit (bitlen_nat (unat shards - 1)) 1 - 1"
    "maskLow ?c = push_bit (bitlen_nat (unat shards - 1) - 1) 1 - 1"
    by (simp_all add: NewMultiShardCoordinator_def calculateMasks_def Let_def)
  have less: "x < shards" if "\<not> x > shards - 1" for x
  proof -
    have "unat (shards - 1) = unat shards - 1" using assms(1) by (simp add: unat_minus_one)
    moreover have "0 < unat shards" using assms(1) by (simp add: unat_gt_0)
    ultimately show ?thesis using that by (simp add: word_less_nat_alt)
  qed
  define a where "a = foldl (\<lambda>a c. push_bit 8 a + of_nat (of_char c)) (0 :: u32) (drop (length address - bytesNeed shards) address)"
  have r: "ComputeIdFromBytes meta m ?c address = (if and a (maskHigh ?c) > shards - 1 then and a (maskLow ?c) else and a (maskHigh ?c))"
    using assms(2) by (simp add: ComputeIdFromBytes_def c(1) Let_def a_def)
  show ?thesis
  proof (cases "and a (maskHigh ?c) > shards - 1")
    case True
    have "1 < unat shards"
    proof (rule ccontr)
      assume "\<not> 1 < unat shards"
      with assms(1) have "unat shards = 1" by (simp add: unat_eq_0 [symmetric] del: unat_eq_0)
      then have "maskHigh ?c = 0" by (simp add: c bitlen_nat.simps [of 0])
      with True show False by simp
    qed
    then have "maskLow ?c < shards" unfolding c by (rule low_mask_bound)
    then show ?thesis using True r word_and_le1 [of a "maskLow ?c"] by (simp add: le_less_trans)
  next
    case False
    with r less show ?thesis by simp
  qed
qed

section \<open>The creator drops the errors of aliases\<close>

theorem alias_errors_are_dropped:
  assumes "\<And>i b w. cl_CheckAndCreateTemplate C i b w = (Inr (), w)" "\<And>i w. cl_CheckAndCreateIndex C i w = (Inr (), w)"
    and "\<And>i a w. cl_CheckAndCreateAlias C i a w = (Inl (ErrResponse r), w)"
  shows "createTemplates_tool (Inr C) m w = (Inr (), w)"
proof -
  have "io_each (create_one C) m w = (Inr (), w)"
    by (induction m) (auto simp: io_ok_def create_one_def Let_def io_bind_def io_wrap_def log_only_def assms is_panic_def split: prod.split)
  then show ?thesis by (simp add: createTemplates_tool_def)
qed

end
