(* ===== verification/Spec2Isabelle.thy ===== *)
theory Spec2Isabelle
  imports Prelude Go_Lib Float64 Data_Model Core_Lib Buffer Converters Tokens_Info Altered_Accounts
    Token_Roles Tags_Count Status_Info Event_Processors Logs_Events Transactions
    Accounts Operations Miniblocks Block_Proc
    Json Docs_Json Painless_Code Framing Serialize_Logs Serialize_Docs
    Json_Read Actions_Read Docs_Read Effects Es_Client
    Requests Cross_Chain_Tokens Elastic_Processor Processor_Requests Delivery Data_Indexer Ws_Indexer
    Templates Templates_No_Kibana Templates_With_Kibana Templates_Reader Index_Types Documents_Fit Factories
    Application Tools_Client Cluster_Checker Balance_Checker Index_Tools
begin

text \<open>
  A verification development of the MultiversX sovereign Elasticsearch indexer (Go).  The program receives the blocks of a
  blockchain node over a websocket, turns them into documents and writes the documents to the indexes of an Elasticsearch
  cluster; when a block is taken back it removes what the block had written.

  \<^bold>\<open>The program and its model.\<close>  A payload goes down through these layers, and each layer has its theories:

  \<^item> \<^verbatim>\<open>process/wsindexer\<close> decodes payloads and calls the data indexer: \<^verbatim>\<open>Ws_Indexer\<close>.

  \<^item> \<^verbatim>\<open>process/dataindexer\<close> reads the header and calls the processor through an interface, a record of operations here:
  \<^verbatim>\<open>Data_Indexer\<close>.

  \<^item> \<^verbatim>\<open>process/elasticproc\<close> (the processor with its state: enabled indexes, import mode, client, token handler) prepares and
  sends everything of a block: \<^verbatim>\<open>Elastic_Processor\<close>, with \<^verbatim>\<open>Cross_Chain_Tokens\<close> for the tokens of a sovereign chain.

  \<^item> The processors of one kind of document below it: \<^verbatim>\<open>Event_Processors\<close>, \<^verbatim>\<open>Logs_Events\<close> and \<^verbatim>\<open>Status_Info\<close>
  (\<^verbatim>\<open>logsevents\<close>), \<^verbatim>\<open>Transactions\<close>, \<^verbatim>\<open>Accounts\<close>, \<^verbatim>\<open>Operations\<close>, \<^verbatim>\<open>Miniblocks\<close>, \<^verbatim>\<open>Block_Proc\<close>, \<^verbatim>\<open>Tags_Count\<close>,
  \<^verbatim>\<open>Token_Roles\<close>, and the shared \<^verbatim>\<open>Converters\<close>.  Their state and documents are the structures of the package \<^verbatim>\<open>data\<close>:
  \<^verbatim>\<open>Data_Model\<close>, \<^verbatim>\<open>Tokens_Info\<close>, \<^verbatim>\<open>Altered_Accounts\<close>, \<^verbatim>\<open>Buffer\<close>.

  \<^item> The serializers write the text of bulk requests: \<^verbatim>\<open>Json\<close> (\<^verbatim>\<open>encoding/json\<close>, base64, shortest decimals),
  \<^verbatim>\<open>Docs_Json\<close> (the fields of every document), \<^verbatim>\<open>Painless_Code\<close> (the scripts, byte for byte), \<^verbatim>\<open>Serialize_Logs\<close>,
  \<^verbatim>\<open>Serialize_Docs\<close>.

  \<^item> \<^verbatim>\<open>client\<close> sends requests through the Elasticsearch library and reads the answers: \<^verbatim>\<open>Es_Client\<close> over the calls of
  \<^verbatim>\<open>Effects\<close>; \<^verbatim>\<open>core/request\<close>, \<^verbatim>\<open>metrics\<close> and \<^verbatim>\<open>client/transport\<close> count them: \<^verbatim>\<open>Requests\<close>.  What is read back is
  decoded in \<^verbatim>\<open>Json_Read\<close> and \<^verbatim>\<open>Docs_Read\<close>.

  \<^item> \<^verbatim>\<open>templates\<close> and its readers describe the indexes: \<^verbatim>\<open>Templates\<close>, \<^verbatim>\<open>Templates_No_Kibana\<close>, \<^verbatim>\<open>Templates_With_Kibana\<close>,
  \<^verbatim>\<open>Templates_Reader\<close>.  The factories put the parts together: \<^verbatim>\<open>Factories\<close>.

  \<^item> \<^verbatim>\<open>cmd/elasticindexer\<close> reads the configuration (\<^verbatim>\<open>config\<close>), builds the indexer behind the websocket host (\<^verbatim>\<open>factory\<close>) and the HTTP
  interface to the metrics (\<^verbatim>\<open>api\<close>, \<^verbatim>\<open>facade\<close>), and runs until a signal: \<^verbatim>\<open>Application\<close>.

  Beside the indexer there are four tools (\<^verbatim>\<open>tools\<close>), with their database clients in \<^verbatim>\<open>Tools_Client\<close>: the comparison of two clusters
  (\<^verbatim>\<open>clusters-checker\<close>) in \<^verbatim>\<open>Cluster_Checker\<close>, the comparison of balances with the gateway and their repair
  (\<^verbatim>\<open>accounts-balance-checker\<close>) in \<^verbatim>\<open>Balance_Checker\<close>, and the rewriting and creation of indices (\<^verbatim>\<open>index-modifier\<close>,
  \<^verbatim>\<open>indices-creator\<close>) in \<^verbatim>\<open>Index_Tools\<close>.

  \<^verbatim>\<open>Prelude\<close> holds the machine types, the error values and the Go maps; \<^verbatim>\<open>Go_Lib\<close> and \<^verbatim>\<open>Float64\<close> what the sources use of the
  standard library; \<^verbatim>\<open>Core_Lib\<close> the interface to the repositories that are not part of this one.

  Structs are records with the names of the fields behind a short prefix, one definition per function or method; fallible code
  returns \<open>go_error + 'a\<close>, a run-time panic being one of the errors, so that \<open>Inl\<close> is exactly what the caller sees; code that
  talks to the database is a function from the client state to a result and the state after it.

  \<^bold>\<open>What is shown.\<close>

  \<^item> Buffers: the produced bulk buffers hold exactly the actions, in order, in runs of whole actions, within the threshold.

  \<^item> Documents: which events change which transactions, when the extraction from logs returns and when it panics, that
  identifiers of events are unique, that every result and transaction of a block becomes one document with the right status,
  shard and order, that token balances, histories, operations, miniblocks and the block document are those of the block.

  \<^item> Reverts: the hashes removed on a revert cover what was indexed, up to the exceptions the code has, and a revert asks for
  exactly the removals of its block.

  \<^item> Text: every body of a bulk request, after any sequence of operations, consists of whole actions on lines of their own
  (an invariant of the reachable states of the data indexer); the metadata lines and transaction lines are JSON and carry the
  identifiers and documents unchanged; token documents are read back as they were written.

  \<^item> Delivery: when saving the transactions of a block ends without an error, each prepared transaction and result has been sent.

  \<^item> Types: a document of an index is accepted by the mappings of the template of the index, at every depth.  \<^verbatim>\<open>Index_Types\<close>
  has the typing rules and the soundness of the check, \<^verbatim>\<open>Documents_Fit\<close> evaluates it for all templates.

  \<^item> Creation: a new processor has ensured templates, indexes and aliases, in this order.

  \<^item> Client: when a bulk request succeeds, and that a scroll ends.  Metrics refine the list of calls.  Processing payloads is
  the same as running the operations they mean.

  \<^item> Start-up: a started program is connected as configured, and which routes it serves.

  \<^item> Tools: the page by page comparison of two clusters ends and reports what the comparison of the two lists of documents reports,
  and the intervals of its parallel readers cover the time asked for; the balance checker reports exactly the balances that differ, sends
  no bulk request without the repair option, and repairs the documents that the indexer wrote; the index modifier sends what the
  modifier makes of the pages, nothing else and all of it; the shard of an address is below the number of shards.  Where the tools do
  not do what they mean to, a theorem says so: the comparison that never ends, the balances deleted when the gateway is not there,
  the endless retries, the errors of aliases that are dropped.

  \<^bold>\<open>Interfaces.\<close>  The contracts between components are locales, each interpreted on the model: \<open>bulk_sink\<close> (buffers), \<open>token_store\<close>
  (tokens handler), \<open>events_processor\<close> (the seven event processors), \<open>tx_hash_extractor\<close> (regular and sovereign), \<open>doc_writer\<close>
  (the serializers of one document), \<open>bulk_client\<close> (what the processor needs of a client) with its extension \<open>changing_client\<close>
  (removals and updates), \<open>processor_contract\<close> (what the data indexer needs of a processor), \<open>page_scroll\<close> (what a reader of
  pages needs of a scroll, for the clients of the index modifier and of the balance checker).  \<^verbatim>\<open>Framing\<close>,
  \<^verbatim>\<open>Processor_Requests\<close> and \<^verbatim>\<open>Delivery\<close> are the proofs over these contracts; the rules are collected in \<open>framing_intros\<close>,
  \<open>keeps_intros\<close>, \<open>adds_intros\<close>, \<open>printable_intros\<close> and \<open>typing\<close>.

  \<^bold>\<open>Parameters.\<close>  Code of other repositories is a parameter with the hypotheses a property needs: the core library (hashing,
  key conversion, parsing of call data, constants) in \<open>core_lib\<close>, \<open>block_lib\<close> and \<open>core_consts\<close>; the Elasticsearch library in
  \<open>es_lib\<close>, whose answers are a function of all requests so far; the marshaller of payloads; the JSON of a status record and the
  fees of an epoch; the upper-case table of Unicode; for the start, the constructors of other packages in \<open>start_lib\<close>; for the tools,
  the Elasticsearch library and \<^verbatim>\<open>gjson\<close> in \<open>ck_lib\<close>, the gateway in \<open>rest_lib\<close>, and, as they are built against an earlier release
  of the indexer, its documents and buffers in \<open>bal_lib\<close> and \<open>mod_lib\<close>.  Random document identifiers (\<^verbatim>\<open>uuid.go\<close>) are fields of the documents that
  nothing depends on.

  \<^bold>\<open>Bounds and fuel.\<close>  Words have the widths of the sources.  The loop over the pages of a scroll has fuel, since the server
  may never stop: it is shown to end with one unit more than the pages the server gives, and running out is an error of its own.
  So have the loops of the tools: the comparison of an index needs one iteration more than the longer list of pages, and a
  gateway that keeps asking for a retry exhausts any number.  Reading JSON recurses on fuel bounded by the length of the text, which is shown to be enough.  All other functions are total.

  \<^bold>\<open>Choices of the model.\<close>  A Go map is a list of pairs with unique keys: an iteration follows the list, and the properties do
  not depend on the order unless they say so.  Strings are bytes.  Decoding covers numbers within the range of floats; field
  names are compared with the folding of ASCII letters; the limit on nesting is not modelled.  The model is sequential: the
  mutexes protect single operations and are left out, \<^verbatim>\<open>GetMetrics\<close> gives copies where the code shares pointers, and the
  goroutines of the tools, which work on clusters or addresses of their own, run one after the other.  Raw JSON messages that are only
  decoded again are their decoded values.  Paths of files are joined without cleaning.

  \<^bold>\<open>Not modelled.\<close>  The policies of indexes are defined, but the client operations that would create them are not: their only
  caller is commented out.  The retry delay, the construction of raw HTTP requests and the logging of the client have no effect
  on what is sent.  Flag parsing, the reading of TOML files, the set-up of the logger, the web framework and the host of the
  websocket are calls of other packages; their outcomes are arguments.  The texts of log lines are left out where nothing depends on them,
  among them the format of a time.  Integration tests and mocks are not part of the program.
\<close>

end
